(* ===== verification/PyFloat.thy ===== *)
theory PyFloat
  imports Complex_Main Prelude "HOL-Library.Log_Nat"
begin

text \<open>
  Python's \<open>float\<close>: IEEE-754 binary64 with round-to-nearest, ties to even.

  A finite float is carried as its exact rational value, so the two zeros are one value
  (no operation of the modelled code tells them apart); every arithmetic operation rounds
  its exact result with \<open>rnd64\<close>, an executable definition.  NaN compares false with
  everything, as in Python, and \<open>max\<close>/\<open>min\<close> keep their first argument unless
  the second one is strictly greater/less, which decides what they do with NaN.
\<close>

section \<open>Rounding to binary64\<close>

definition round_half_even :: "rat \<Rightarrow> int" where
  "round_half_even y =
     (let f = \<lfloor>y\<rfloor>; r = y - of_int f in
      if 2 * r < 1 then f
      else if 2 * r > 1 then f + 1
      else if even f then f else f + 1)"

definition pow2 :: "int \<Rightarrow> rat" where
  "pow2 e = (if 0 \<le> e then 2 ^ nat e else 1 / 2 ^ nat (- e))"

text \<open>The exponent of the leading bit of a positive rational.\<close>

definition lead_exp :: "rat \<Rightarrow> int" where
  "lead_exp x =
     (let (p, q) = quotient_of x; e = bitlen p - bitlen q in
      if pow2 e \<le> x then e else e - 1)"

definition ulp_exp :: "rat \<Rightarrow> int" where
  "ulp_exp x = max (lead_exp x - 52) (- 1074)"

definition rnd_pos :: "rat \<Rightarrow> rat" where
  "rnd_pos x = of_int (round_half_even (x / pow2 (ulp_exp x))) * pow2 (ulp_exp x)"

datatype pyfloat = Fin rat | PInf | NInf | NaN

definition max_bound :: rat where
  "max_bound = 2 ^ 1024"

definition rnd64 :: "rat \<Rightarrow> pyfloat" where
  "rnd64 x =
     (if x = 0 then Fin 0
      else if 0 < x then (if rnd_pos x < max_bound then Fin (rnd_pos x) else PInf)
      else (if rnd_pos (- x) < max_bound then Fin (- rnd_pos (- x)) else NInf))"

section \<open>Operations\<close>

text \<open>A float literal or an exact conversion of an integer.\<close>

definition flit :: "rat \<Rightarrow> pyfloat" where
  "flit x = rnd64 x"

fun fneg :: "pyfloat \<Rightarrow> pyfloat" where
  "fneg (Fin x) = Fin (- x)"
| "fneg PInf = NInf"
| "fneg NInf = PInf"
| "fneg NaN = NaN"

fun fadd :: "pyfloat \<Rightarrow> pyfloat \<Rightarrow> pyfloat" where
  "fadd (Fin x) (Fin y) = rnd64 (x + y)"
| "fadd NaN _ = NaN"
| "fadd _ NaN = NaN"
| "fadd PInf NInf = NaN"
| "fadd NInf PInf = NaN"
| "fadd PInf _ = PInf"
| "fadd _ PInf = PInf"
| "fadd NInf _ = NInf"
| "fadd _ NInf = NInf"

definition fsub :: "pyfloat \<Rightarrow> pyfloat \<Rightarrow> pyfloat" where
  "fsub a b = fadd a (fneg b)"

definition fsign :: "rat \<Rightarrow> bool \<Rightarrow> pyfloat" where
  "fsign x pos = (if x = 0 then NaN else if (0 < x) = pos then PInf else NInf)"

fun fmul :: "pyfloat \<Rightarrow> pyfloat \<Rightarrow> pyfloat" where
  "fmul (Fin x) (Fin y) = rnd64 (x * y)"
| "fmul NaN _ = NaN"
| "fmul _ NaN = NaN"
| "fmul (Fin x) PInf = fsign x True"
| "fmul (Fin x) NInf = fsign x False"
| "fmul PInf (Fin y) = fsign y True"
| "fmul NInf (Fin y) = fsign y False"
| "fmul PInf PInf = PInf"
| "fmul NInf NInf = PInf"
| "fmul PInf NInf = NInf"
| "fmul NInf PInf = NInf"

text \<open>Division by a finite non-zero float (a zero divisor raises ZeroDivisionError).\<close>

fun fdiv :: "pyfloat \<Rightarrow> pyfloat \<Rightarrow> pyfloat option" where
  "fdiv (Fin x) (Fin y) = (if y = 0 then None else Some (rnd64 (x / y)))"
| "fdiv NaN (Fin y) = (if y = 0 then None else Some NaN)"
| "fdiv PInf (Fin y) = (if y = 0 then None else Some (if 0 < y then PInf else NInf))"
| "fdiv NInf (Fin y) = (if y = 0 then None else Some (if 0 < y then NInf else PInf))"
| "fdiv (Fin x) PInf = Some (Fin 0)"
| "fdiv (Fin x) NInf = Some (Fin 0)"
| "fdiv _ _ = Some NaN"

fun flt :: "pyfloat \<Rightarrow> pyfloat \<Rightarrow> bool" where
  "flt (Fin x) (Fin y) = (x < y)"
| "flt NInf (Fin _) = True"
| "flt NInf PInf = True"
| "flt (Fin _) PInf = True"
| "flt _ _ = False"

fun fle :: "pyfloat \<Rightarrow> pyfloat \<Rightarrow> bool" where
  "fle (Fin x) (Fin y) = (x \<le> y)"
| "fle NInf (Fin _) = True"
| "fle NInf PInf = True"
| "fle (Fin _) PInf = True"
| "fle PInf PInf = True"
| "fle NInf NInf = True"
| "fle _ _ = False"

definition fmax :: "pyfloat \<Rightarrow> pyfloat \<Rightarrow> pyfloat" where
  "fmax a b = (if flt a b then b else a)"

definition fmin :: "pyfloat \<Rightarrow> pyfloat \<Rightarrow> pyfloat" where
  "fmin a b = (if flt b a then b else a)"

text \<open>\<open>max(0.0, min(1.0, x))\<close>\<close>

definition clamp01 :: "pyfloat \<Rightarrow> pyfloat" where
  "clamp01 x = fmax (Fin 0) (fmin (Fin 1) x)"

text \<open>\<open>float(n)\<close> of an integer: None is OverflowError.\<close>

definition float_of_int :: "int \<Rightarrow> pyfloat option" where
  "float_of_int n = (case rnd64 (of_int n) of Fin x \<Rightarrow> Some (Fin x) | _ \<Rightarrow> None)"

definition is_finite :: "pyfloat \<Rightarrow> bool" where
  "is_finite a = (case a of Fin _ \<Rightarrow> True | _ \<Rightarrow> False)"

section \<open>Facts about rounding\<close>

lemma pow2_powi: "pow2 e = 2 powi e"
  unfolding pow2_def power_int_def by (simp only: power_one_over inverse_eq_divide)

lemma pow2_pos [simp]: "0 < pow2 e"
  by (simp add: pow2_def)

lemma pow2_neq_0 [simp]: "pow2 e \<noteq> 0"
  by (metis less_irrefl pow2_pos)

lemma pow2_add: "pow2 (a + b) = pow2 a * pow2 b"
  by (simp add: pow2_powi power_int_add)

lemma pow2_mono: "a \<le> b \<Longrightarrow> pow2 a \<le> pow2 b"
  by (simp add: pow2_powi power_int_increasing)

lemma pow2_strict_mono: "a < b \<Longrightarrow> pow2 a < pow2 b"
  by (simp add: pow2_powi power_int_strict_increasing)

lemma pow2_less_iff: "pow2 a < pow2 b \<longleftrightarrow> a < b"
proof
  assume "pow2 a < pow2 b"
  then have "\<not> pow2 b \<le> pow2 a" by simp
  then show "a < b" using pow2_mono[of b a] by linarith
qed (rule pow2_strict_mono)

lemma pow2_0 [simp]: "pow2 0 = 1"
  by (simp add: pow2_def)

lemma pow2_nat: "0 \<le> e \<Longrightarrow> pow2 e = of_int (2 ^ nat e)"
  by (simp add: pow2_def)

lemma round_half_even_of_int [simp]: "round_half_even (of_int n) = n"
  by (simp add: round_half_even_def)

lemma round_half_even_bounds: "\<lfloor>y\<rfloor> \<le> round_half_even y" "round_half_even y \<le> \<lfloor>y\<rfloor> + 1"
  by (simp_all add: round_half_even_def Let_def)

lemma round_half_even_mono:
  assumes "y \<le> z"
  shows "round_half_even y \<le> round_half_even z"
proof (cases "\<lfloor>y\<rfloor> = \<lfloor>z\<rfloor>")
  case True
  define f where "f = \<lfloor>z\<rfloor>"
  have "round_half_even v = (if 2 * (v - of_int f) < 1 then f
      else if 2 * (v - of_int f) > 1 then f + 1 else if even f then f else f + 1)"
    if "v \<in> {y, z}" for v
  proof -
    from that True have "\<lfloor>v\<rfloor> = f" by (auto simp: f_def)
    then show ?thesis by (simp add: round_half_even_def Let_def)
  qed
  then show ?thesis using assms by simp
next
  case False
  with floor_mono[OF assms] have "\<lfloor>y\<rfloor> + 1 \<le> \<lfloor>z\<rfloor>" by linarith
  with round_half_even_bounds[of y] round_half_even_bounds[of z] show ?thesis by linarith
qed

lemma lead_exp_bounds:
  assumes "0 < x"
  shows "pow2 (lead_exp x) \<le> x" and "x < pow2 (lead_exp x + 1)"
proof -
  obtain p q where pq: "quotient_of x = (p, q)" by (cases "quotient_of x")
  from pq have q: "0 < q" by (rule quotient_of_denom_pos)
  from pq have x: "x = of_int p / of_int q" by (rule quotient_of_div)
  with assms q have p: "0 < p"
    by (metis divide_le_0_iff linorder_not_le of_int_0_le_iff of_int_le_0_iff order_less_imp_le)
  have bp: "1 \<le> bitlen p" and bq: "1 \<le> bitlen q"
    using p q by (simp_all add: bitlen_alt_def)
  have lo: "pow2 (bitlen n - 1) \<le> of_int n" and hi: "of_int n < pow2 (bitlen n)"
    if "0 < n" "1 \<le> bitlen n" for n
    using bitlen_bounds[OF that(1)] that(2) by (simp_all add: pow2_nat del: of_int_power)
  let ?e = "bitlen p - bitlen q"
  have "x < pow2 (bitlen p) / pow2 (bitlen q - 1)"
    unfolding x using hi[OF p bp] lo[OF q bq] q
    by (intro frac_less) (auto simp: p less_imp_le)
  also have "\<dots> = pow2 (?e + 1)"
    using pow2_add[of "?e + 1" "bitlen q - 1"] by (simp add: field_simps)
  finally have up: "x < pow2 (?e + 1)" .
  have "pow2 (bitlen p - 1) / pow2 (bitlen q) < x"
    unfolding x using lo[OF p bp] hi[OF q bq] q
    by (intro frac_less2) (auto simp: p less_imp_le)
  moreover have "pow2 (bitlen p - 1) / pow2 (bitlen q) = pow2 (?e - 1)"
    using pow2_add[of "?e - 1" "bitlen q"] by (simp add: field_simps)
  ultimately have dn: "pow2 (?e - 1) < x" by simp
  have le: "lead_exp x = (if pow2 ?e \<le> x then ?e else ?e - 1)"
    by (simp add: lead_exp_def pq)
  show "pow2 (lead_exp x) \<le> x" using le dn by auto
  show "x < pow2 (lead_exp x + 1)" using le up by auto
qed

lemma lead_exp_less:
  assumes "0 < x" and "x < pow2 e"
  shows "lead_exp x < e"
  using lead_exp_bounds(1)[OF assms(1)] assms(2) pow2_less_iff
  by (meson le_less_trans)

lemma lead_exp_mono:
  assumes "0 < x" and "x \<le> y"
  shows "lead_exp x \<le> lead_exp y"
proof -
  have "x < pow2 (lead_exp y + 1)"
    using lead_exp_bounds(2)[of y] assms by linarith
  from lead_exp_less[OF assms(1) this] show ?thesis by simp
qed

lemma rnd_pos_exact:
  assumes x: "x = of_int m * pow2 u" and m: "0 < m" "m < 2 ^ 53" and u: "- 1074 \<le> u"
  shows "rnd_pos x = x"
proof -
  have pos: "0 < x" using m by (simp add: x)
  have "of_int m < pow2 53"
    using m by (simp add: pow2_def)
  then have "x < pow2 (53 + u)" by (simp add: x pow2_add)
  from lead_exp_less[OF pos this] u have le: "ulp_exp x \<le> u"
    by (simp add: ulp_exp_def)
  have "x / pow2 (ulp_exp x) = of_int m * pow2 (u - ulp_exp x)"
    using pow2_add[of "u - ulp_exp x" "ulp_exp x"] by (simp add: x field_simps)
  also have "\<dots> = of_int (m * 2 ^ nat (u - ulp_exp x))"
    using le by (simp add: pow2_def)
  finally have eq: "x / pow2 (ulp_exp x) = of_int (m * 2 ^ nat (u - ulp_exp x))" .
  have "rnd_pos x = of_int (m * 2 ^ nat (u - ulp_exp x)) * pow2 (ulp_exp x)"
    unfolding rnd_pos_def eq round_half_even_of_int ..
  also have "\<dots> = x" unfolding eq [symmetric] by simp
  finally show ?thesis .
qed

text \<open>Integers of at most 53 bits convert and add exactly.\<close>

lemma rnd64_int_exact:
  assumes "\<bar>n\<bar> < 2 ^ 53"
  shows "rnd64 (of_int n) = Fin (of_int n)"
proof -
  have small: "(of_int k :: rat) < max_bound" if "k < 2 ^ 53" for k :: int
  proof -
    have "(of_int k :: rat) < of_int (2 ^ 53)" using that by (simp only: of_int_less_iff)
    also have "\<dots> < max_bound" by (simp add: max_bound_def)
    finally show ?thesis .
  qed
  have ex: "rnd_pos (of_int k) = of_int k" if "0 < k" "k < 2 ^ 53" for k :: int
    using rnd_pos_exact[of "of_int k" k 0] that by simp
  consider "n = 0" | "0 < n" | "n < 0" by linarith
  then show ?thesis
  proof cases
    case 1
    then show ?thesis by (simp add: rnd64_def)
  next
    case 2
    with assms have "rnd_pos (of_int n) = of_int n" "(of_int n :: rat) < max_bound"
      using ex[of n] small[of n] by simp_all
    with 2 show ?thesis by (simp add: rnd64_def)
  next
    case 3
    with assms have "rnd_pos (- of_int n) = - of_int n" "(- of_int n :: rat) < max_bound"
      using ex[of "- n"] small[of "- n"] by simp_all
    with 3 show ?thesis by (simp add: rnd64_def)
  qed
qed

lemma max_bound_code [code]: "max_bound = 179769313486231590772930519078902473361797697894230657273430081157732675805500963132708477322407536021120113879871393357658789768814416622492847430639474124377767893424865485276302219601246094119453082952085005768838150682342462881473913110540827237163350510684586298239947245938479716304835356329624224137216"
  by (simp add: max_bound_def)

text \<open>An evaluation shortcut: whole numbers below 2^53 need no rounding.\<close>

lemma rnd64_code [code]:
  "rnd64 x =
     (if snd (quotient_of x) = 1 \<and> \<bar>fst (quotient_of x)\<bar> < 9007199254740992 then Fin x
      else if x = 0 then Fin 0
      else if 0 < x then (if rnd_pos x < max_bound then Fin (rnd_pos x) else PInf)
      else (if rnd_pos (- x) < max_bound then Fin (- rnd_pos (- x)) else NInf))"
proof (cases "snd (quotient_of x) = 1 \<and> \<bar>fst (quotient_of x)\<bar> < 9007199254740992")
  case True
  then have "x = of_int (fst (quotient_of x))"
    using quotient_of_div[OF prod.collapse[symmetric], of x] by simp
  moreover have "\<bar>fst (quotient_of x)\<bar> < 2 ^ 53" using True by simp
  ultimately have "rnd64 x = Fin x" using rnd64_int_exact by metis
  with True show ?thesis by simp
next
  case False
  then show ?thesis by (simp only: if_False rnd64_def)
qed

lemma rnd_pos_nonneg: "0 < x \<Longrightarrow> 0 \<le> rnd_pos x"
proof -
  assume "0 < x"
  then have "round_half_even 0 \<le> round_half_even (x / pow2 (ulp_exp x))"
    by (intro round_half_even_mono) (simp add: less_imp_le)
  then have "0 \<le> round_half_even (x / pow2 (ulp_exp x))"
    using round_half_even_of_int[of 0] by simp
  then show ?thesis by (simp add: rnd_pos_def less_imp_le)
qed

lemma rnd_pos_mono:
  assumes "0 < x" and "x \<le> y"
  shows "rnd_pos x \<le> rnd_pos y"
proof (cases "ulp_exp x = ulp_exp y")
  case True
  have "round_half_even (x / pow2 (ulp_exp y)) \<le> round_half_even (y / pow2 (ulp_exp y))"
    using assms by (intro round_half_even_mono) (simp add: divide_right_mono less_imp_le)
  with True show ?thesis
    by (simp add: rnd_pos_def mult_right_mono less_imp_le)
next
  case False
  with lead_exp_mono[OF assms] have lt: "ulp_exp x + 1 \<le> ulp_exp y"
    and uy: "ulp_exp y = lead_exp y - 52" by (auto simp: ulp_exp_def)
  have xle: "x \<le> pow2 53 * pow2 (ulp_exp x)"
  proof -
    have "x < pow2 (lead_exp x + 1)" using lead_exp_bounds(2)[OF assms(1)] .
    also have "\<dots> \<le> pow2 (53 + ulp_exp x)" by (rule pow2_mono) (simp add: ulp_exp_def)
    finally show ?thesis by (simp add: pow2_add)
  qed
  have "round_half_even (x / pow2 (ulp_exp x)) \<le> round_half_even (of_int (2 ^ 53))"
    using xle by (intro round_half_even_mono) (simp add: pow2_def divide_le_eq)
  then have "rnd_pos x \<le> of_int (2 ^ 53) * pow2 (ulp_exp x)"
    unfolding rnd_pos_def round_half_even_of_int
    by (intro mult_right_mono) (simp_all only: of_int_le_iff less_imp_le pow2_pos)
  also have "\<dots> = pow2 (53 + ulp_exp x)" by (simp add: pow2_add) (simp add: pow2_def)
  also have "\<dots> \<le> pow2 (52 + ulp_exp y)" using lt by (intro pow2_mono) simp
  also have "\<dots> = of_int (2 ^ 52) * pow2 (ulp_exp y)"
    by (simp add: pow2_add) (simp add: pow2_def)
  also have "\<dots> \<le> rnd_pos y"
  proof -
    have "pow2 (52 + ulp_exp y) \<le> y"
      using lead_exp_bounds(1)[of y] assms uy by simp
    then have "of_int (2 ^ 52) \<le> y / pow2 (ulp_exp y)"
      by (simp add: pow2_add le_divide_eq) (simp add: pow2_def)
    from round_half_even_mono[OF this]
    have "(2 :: int) ^ 52 \<le> round_half_even (y / pow2 (ulp_exp y))"
      by (simp only: round_half_even_of_int)
    then show ?thesis unfolding rnd_pos_def
      by (intro mult_right_mono) (simp_all only: of_int_le_iff less_imp_le pow2_pos)
  qed
  finally show ?thesis .
qed

lemma rnd64_mono: "x \<le> y \<Longrightarrow> fle (rnd64 x) (rnd64 y)"
proof -
  assume le: "x \<le> y"
  consider "0 < x" | "x = 0" | "x < 0" "0 < y" | "x < 0" "y = 0" | "y < 0" using le by linarith
  then show ?thesis
  proof cases
    case 1
    with le rnd_pos_mono[of x y] show ?thesis by (auto simp: rnd64_def)
  next
    case 2
    with le rnd_pos_nonneg[of y] show ?thesis by (auto simp: rnd64_def)
  next
    case 3
    with rnd_pos_nonneg[of y] rnd_pos_nonneg[of "- x"] show ?thesis by (auto simp: rnd64_def)
  next
    case 4
    with rnd_pos_nonneg[of "- x"] show ?thesis by (auto simp: rnd64_def)
  next
    case 5
    with le rnd_pos_mono[of "- y" "- x"] show ?thesis by (auto simp: rnd64_def)
  qed
qed

section \<open>Facts about comparison\<close>

lemma fle_refl [simp]: "fle a a \<longleftrightarrow> a \<noteq> NaN"
  by (cases a) auto

lemma fle_trans: "fle a b \<Longrightarrow> fle b c \<Longrightarrow> fle a c"
  by (cases a; cases b; cases c) auto

lemma fle_linear: "a \<noteq> NaN \<Longrightarrow> b \<noteq> NaN \<Longrightarrow> fle a b \<or> fle b a"
  by (cases a; cases b) auto

lemma not_flt_iff: "a \<noteq> NaN \<Longrightarrow> b \<noteq> NaN \<Longrightarrow> \<not> flt a b \<longleftrightarrow> fle b a"
  by (cases a; cases b) auto

lemma flt_imp_fle: "flt a b \<Longrightarrow> fle a b"
  by (cases a; cases b) auto

lemma flt_NaN [simp]: "\<not> flt NaN a" "\<not> flt a NaN" "\<not> fle NaN a" "\<not> fle a NaN"
  by (cases a; simp)+

lemma rnd64_not_NaN [simp]: "rnd64 x \<noteq> NaN"
  by (simp add: rnd64_def)

text \<open>The clamp of the risk scores always lands in [0, 1], whatever it is given.\<close>

lemma clamp01_bounds: "\<exists>x. clamp01 r = Fin x \<and> 0 \<le> x \<and> x \<le> 1"
  by (cases r) (auto simp: clamp01_def fmax_def fmin_def)

lemma clamp01_id: "0 \<le> x \<Longrightarrow> x \<le> 1 \<Longrightarrow> clamp01 (Fin x) = Fin x"
  by (auto simp: clamp01_def fmax_def fmin_def)

lemma clamp01_mono: "fle a b \<Longrightarrow> fle (clamp01 a) (clamp01 b)"
  by (cases a; cases b) (auto simp: clamp01_def fmax_def fmin_def)

end
