(* ===== verification/Base64.thy ===== *)
theory Base64
  imports Prelude "HOL-Library.Word"
begin

text \<open>
  Byte strings, UTF-8 and base64url: the first part of
  \<open>packages/shield-sdk/src/shield_sdk/crypto.py\<close> (\<open>base64url_encode\<close>,
  \<open>base64url_decode\<close>) with what it uses of the standard library: the base64 encoder and
  the lenient (non-strict) decoder of \<open>binascii\<close>, which skips characters outside the
  alphabet and stops at a complete padding.
\<close>

type_synonym byte = "8 word"
type_synonym bytes = "byte list"

datatype py_exc = ValueError | TypeError | KeyError | IndexError | OverflowError
  | RuntimeError | ZeroDivisionError | ValidationError | AssertionError

section \<open>UTF-8 of code points below 256\<close>

definition utf8_char :: "char \<Rightarrow> bytes" where
  "utf8_char c =
     (let n = (of_char c :: nat) in
      if n < 128 then [word_of_nat n] else [word_of_nat (192 + n div 64), word_of_nat (128 + n mod 64)])"

definition utf8 :: "string \<Rightarrow> bytes" where
  "utf8 s = concat (map utf8_char s)"

lemma of_char_less_256: "(of_char c :: nat) < 256"
  using of_char_mod_256 [of c] by (metis mod_less_divisor zero_less_numeral)

lemma unat_byte: "n < 256 \<Longrightarrow> unat (word_of_nat n :: byte) = n"
  by (simp add: unat_of_nat)

lemma utf8_char_shape:
  "(of_char c :: nat) < 128 \<Longrightarrow> \<exists>b. utf8_char c = [b] \<and> unat b = of_char c"
  "\<not> (of_char c :: nat) < 128 \<Longrightarrow>
     \<exists>b d. utf8_char c = [b, d] \<and> unat b = 192 + of_char c div 64 \<and> unat d = 128 + of_char c mod 64"
proof -
  have "192 + (of_char c :: nat) div 64 < 256" "128 + (of_char c :: nat) mod 64 < 256"
    using of_char_less_256[of c] by linarith+
  note hi = this [THEN unat_byte] and lo = unat_byte[OF of_char_less_256[of c]]
  show "(of_char c :: nat) < 128 \<Longrightarrow> \<exists>b. utf8_char c = [b] \<and> unat b = of_char c"
    using lo by (simp only: utf8_char_def Let_def if_True) blast
  show "\<not> (of_char c :: nat) < 128 \<Longrightarrow>
     \<exists>b d. utf8_char c = [b, d] \<and> unat b = 192 + of_char c div 64 \<and> unat d = 128 + of_char c mod 64"
    using hi by (simp only: utf8_char_def Let_def if_False) blast
qed

lemma utf8_char_prefix:
  assumes eq: "utf8_char c @ s = utf8_char c' @ s'"
  shows "c = c' \<and> s = s'"
proof -
  have "(of_char c :: nat) = of_char c' \<and> s = s'"
  proof (cases "(of_char c :: nat) < 128"; cases "(of_char c' :: nat) < 128")
    assume "(of_char c :: nat) < 128" "(of_char c' :: nat) < 128"
    from this [THEN utf8_char_shape(1)] eq show ?thesis by auto
  next
    assume "(of_char c :: nat) < 128" "\<not> (of_char c' :: nat) < 128"
    with this(1) [THEN utf8_char_shape(1)] this(2) [THEN utf8_char_shape(2)] eq
    show ?thesis by auto
  next
    assume "\<not> (of_char c :: nat) < 128" "(of_char c' :: nat) < 128"
    with this(1) [THEN utf8_char_shape(2)] this(2) [THEN utf8_char_shape(1)] eq
    show ?thesis by auto
  next
    assume "\<not> (of_char c :: nat) < 128" "\<not> (of_char c' :: nat) < 128"
    from this [THEN utf8_char_shape(2)] eq
    have "(of_char c :: nat) div 64 = of_char c' div 64" "(of_char c :: nat) mod 64 = of_char c' mod 64"
      "s = s'" by auto
    then show ?thesis by (metis div_mult_mod_eq)
  qed
  then show ?thesis by (simp add: of_char_eq_iff)
qed

lemma utf8_char_nonempty [simp]: "utf8_char c \<noteq> []"
  by (simp add: utf8_char_def Let_def)

lemma utf8_inject: "utf8 s = utf8 t \<longleftrightarrow> s = t"
proof
  assume "utf8 s = utf8 t"
  then show "s = t"
  proof (induction s arbitrary: t)
    case Nil
    then show ?case by (cases t) (auto simp: utf8_def)
  next
    case (Cons c s)
    then obtain d t' where t: "t = d # t'" by (cases t) (auto simp: utf8_def)
    with Cons.prems have "utf8_char c @ utf8 s = utf8_char d @ utf8 t'"
      by (simp add: utf8_def)
    from utf8_char_prefix[OF this] Cons.IH[of t'] t show ?case by auto
  qed
qed simp

section \<open>The base64 alphabet\<close>

definition b64_char :: "nat \<Rightarrow> char" where
  "b64_char i =
     (if i < 26 then char_of (65 + i)
      else if i < 52 then char_of (71 + i)
      else if i < 62 then char_of (i - 4)
      else if i = 62 then CHR ''+'' else CHR ''/'')"

definition b64_val :: "char \<Rightarrow> nat option" where
  "b64_val c =
     (let n = (of_char c :: nat) in
      if 65 \<le> n \<and> n \<le> 90 then Some (n - 65)
      else if 97 \<le> n \<and> n \<le> 122 then Some (n - 71)
      else if 48 \<le> n \<and> n \<le> 57 then Some (n + 4)
      else if n = 43 then Some 62
      else if n = 47 then Some 63
      else None)"

lemma of_char_plus [simp]: "(of_char (CHR ''+'') :: nat) = 43" "(of_char (CHR ''/'') :: nat) = 47"
  "(of_char (CHR ''-'') :: nat) = 45" "(of_char (CHR ''_'') :: nat) = 95"
  "(of_char (CHR ''='') :: nat) = 61"
  by simp_all

lemma of_char_b64_char:
  "i < 64 \<Longrightarrow> (of_char (b64_char i) :: nat) =
     (if i < 26 then 65 + i else if i < 52 then 71 + i else if i < 62 then i - 4
      else if i = 62 then 43 else 47)"
  by (auto simp: b64_char_def of_char_of)

lemma b64_val_char [simp]: "i < 64 \<Longrightarrow> b64_val (b64_char i) = Some i"
  by (auto simp: b64_val_def Let_def of_char_b64_char)

section \<open>Encoding\<close>

text \<open>\<open>base64.b64encode\<close>: three bytes are four characters, the tail is padded.\<close>

fun b64encode :: "bytes \<Rightarrow> string" where
  "b64encode [] = []"
| "b64encode [a] =
     (let n = unat a * 16 in [b64_char (n div 64), b64_char (n mod 64), CHR ''='', CHR ''=''])"
| "b64encode [a, b] =
     (let n = (unat a * 256 + unat b) * 4 in
      [b64_char (n div 4096), b64_char (n div 64 mod 64), b64_char (n mod 64), CHR ''=''])"
| "b64encode (a # b # c # r) =
     (let n = (unat a * 256 + unat b) * 256 + unat c in
      [b64_char (n div 262144), b64_char (n div 4096 mod 64), b64_char (n div 64 mod 64),
       b64_char (n mod 64)] @ b64encode r)"

definition to_url :: "char \<Rightarrow> char" where
  "to_url c = (if c = CHR ''+'' then CHR ''-'' else if c = CHR ''/'' then CHR ''_'' else c)"

definition from_url :: "char \<Rightarrow> char" where
  "from_url c = (if c = CHR ''-'' then CHR ''+'' else if c = CHR ''_'' then CHR ''/'' else c)"

definition rstrip_eq :: "string \<Rightarrow> string" where
  "rstrip_eq s = rev (dropWhile (\<lambda>c. c = CHR ''='') (rev s))"

definition base64url_encode :: "bytes \<Rightarrow> string" where
  "base64url_encode data = rstrip_eq (map to_url (b64encode data))"

section \<open>Decoding\<close>

text \<open>
  \<open>binascii.a2b_base64\<close> in its non-strict mode: \<open>q\<close> is the position in the quad,
  \<open>l\<close> the left-over bits, \<open>p\<close> the pads seen in this quad.
\<close>

fun a2b :: "string \<Rightarrow> nat \<Rightarrow> nat \<Rightarrow> nat \<Rightarrow> py_exc + bytes" where
  "a2b [] q l p = (if q = 0 then Inr [] else Inl ValueError)"
| "a2b (c # cs) q l p =
     (if c = CHR ''='' then
        (if 2 \<le> q then (if 4 \<le> q + Suc p then Inr [] else a2b cs q l (Suc p)) else a2b cs q l p)
      else case b64_val c of
        None \<Rightarrow> a2b cs q l p
      | Some v \<Rightarrow>
          if q = 0 then a2b cs 1 v 0
          else if q = 1 then map_sum id ((#) (word_of_nat (l * 4 + v div 16))) (a2b cs 2 (v mod 16) 0)
          else if q = 2 then map_sum id ((#) (word_of_nat (l * 16 + v div 4))) (a2b cs 3 (v mod 4) 0)
          else map_sum id ((#) (word_of_nat (l * 64 + v))) (a2b cs 0 0 0))"

definition b64decode :: "string \<Rightarrow> py_exc + bytes" where
  "b64decode s =
     (if list_all (\<lambda>c. (of_char c :: nat) < 128) s then a2b s 0 0 0 else Inl ValueError)"

definition base64url_decode :: "string \<Rightarrow> py_exc + bytes" where
  "base64url_decode s =
     (let s' = map from_url s;
          padding = 4 - length s' mod 4
      in b64decode (if padding \<noteq> 4 then s' @ replicate padding (CHR ''='') else s'))"

section \<open>Round trip\<close>

text \<open>The encoding without its padding, in the standard alphabet.\<close>

fun b64_core :: "bytes \<Rightarrow> string" where
  "b64_core [] = []"
| "b64_core [a] = (let n = unat a * 16 in [b64_char (n div 64), b64_char (n mod 64)])"
| "b64_core [a, b] =
     (let n = (unat a * 256 + unat b) * 4 in
      [b64_char (n div 4096), b64_char (n div 64 mod 64), b64_char (n mod 64)])"
| "b64_core (a # b # c # r) =
     (let n = (unat a * 256 + unat b) * 256 + unat c in
      [b64_char (n div 262144), b64_char (n div 4096 mod 64), b64_char (n div 64 mod 64),
       b64_char (n mod 64)] @ b64_core r)"

fun pad_for :: "bytes \<Rightarrow> string" where
  "pad_for [a] = [CHR ''='', CHR ''='']"
| "pad_for [a, b] = [CHR ''='']"
| "pad_for (a # b # c # r) = pad_for r"
| "pad_for [] = []"

lemma byte_less: "unat (a :: byte) < 256"
  using unsigned_less [of a, where 'a = nat] by simp

lemma b64_char_plain: "i < 64 \<Longrightarrow> b64_char i \<noteq> CHR ''=''" "i < 64 \<Longrightarrow> (of_char (b64_char i) :: nat) < 128"
  "i < 64 \<Longrightarrow> b64_char i \<noteq> CHR ''-''" "i < 64 \<Longrightarrow> b64_char i \<noteq> CHR ''_''"
proof -
  assume i: "i < 64"
  have "(of_char (b64_char i) :: nat) \<notin> {61, 45, 95} \<and> (of_char (b64_char i) :: nat) < 128"
    using of_char_b64_char[OF i] i by auto
  then show "b64_char i \<noteq> CHR ''=''" "(of_char (b64_char i) :: nat) < 128"
    "b64_char i \<noteq> CHR ''-''" "b64_char i \<noteq> CHR ''_''" by auto
qed


lemma div_mod_by:
  fixes n k q r :: nat
  assumes "n = k * q + r" and "r < k"
  shows "n div k = q" and "n mod k = r"
  using assms by simp_all

lemma sextets3:
  fixes a b c :: nat
  assumes "a < 256" "b < 256" "c < 256"
  shows "((a * 256 + b) * 256 + c) div 262144 = a div 4"
    "((a * 256 + b) * 256 + c) div 4096 mod 64 = a mod 4 * 16 + b div 16"
    "((a * 256 + b) * 256 + c) div 64 mod 64 = b mod 16 * 4 + c div 64"
    "((a * 256 + b) * 256 + c) mod 64 = c mod 64"
proof -
  define a1 a0 where "a1 = a div 4" and "a0 = a mod 4"
  define b1 b0 where "b1 = b div 16" and "b0 = b mod 16"
  define c1 c0 where "c1 = c div 64" and "c0 = c mod 64"
  have a: "a = 4 * a1 + a0" "a0 < 4" and b: "b = 16 * b1 + b0" "b0 < 16"
    and c: "c = 64 * c1 + c0" "c0 < 64"
    by (simp_all add: a1_def a0_def b1_def b0_def c1_def c0_def)
  have m: "b1 < 16" "c1 < 4" using assms a b c by linarith+
  note defs = a1_def [symmetric] a0_def [symmetric] b1_def [symmetric] b0_def [symmetric]
    c1_def [symmetric] c0_def [symmetric]
  let ?n = "(a * 256 + b) * 256 + c"
  show "?n div 262144 = a div 4" unfolding defs
    by (rule div_mod_by(1) [where r = "a0 * 65536 + b * 256 + c"])
      (simp add: a(1), use a m assms in linarith)
  have e: "?n div 4096 = a * 16 + b1"
    by (rule div_mod_by(1) [where r = "b0 * 256 + c"])
      (simp add: b(1), use b m assms in linarith)
  have "(a * 16 + b1) mod 64 = a0 * 16 + b1"
    by (rule div_mod_by(2) [where q = a1]) (simp add: a(1), use a m in linarith)
  then show "?n div 4096 mod 64 = a mod 4 * 16 + b div 16" unfolding defs e .
  have f: "?n div 64 = a * 1024 + b * 4 + c1"
    by (rule div_mod_by(1) [where r = c0]) (simp add: c(1), use c in linarith)
  have "(a * 1024 + b * 4 + c1) mod 64 = b0 * 4 + c1"
    by (rule div_mod_by(2) [where q = "a * 16 + b1"]) (simp add: b(1), use b m in linarith)
  then show "?n div 64 mod 64 = b mod 16 * 4 + c div 64" unfolding defs f .
  show "?n mod 64 = c mod 64" unfolding defs
    by (rule div_mod_by(2) [where q = "a * 1024 + b * 4 + c1"]) (simp add: c(1), use c in linarith)
qed

lemma sextets2:
  fixes a b :: nat
  assumes "a < 256" "b < 256"
  shows "(a * 256 + b) * 4 div 4096 = a div 4"
    "(a * 256 + b) * 4 div 64 mod 64 = a mod 4 * 16 + b div 16"
    "(a * 256 + b) * 4 mod 64 = b mod 16 * 4"
proof -
  define a1 a0 where "a1 = a div 4" and "a0 = a mod 4"
  define b1 b0 where "b1 = b div 16" and "b0 = b mod 16"
  have a: "a = 4 * a1 + a0" "a0 < 4" and b: "b = 16 * b1 + b0" "b0 < 16"
    by (simp_all add: a1_def a0_def b1_def b0_def)
  have m: "b1 < 16" using assms b by linarith
  note defs = a1_def [symmetric] a0_def [symmetric] b1_def [symmetric] b0_def [symmetric]
  let ?n = "(a * 256 + b) * 4"
  show "?n div 4096 = a div 4" unfolding defs
    by (rule div_mod_by(1) [where r = "a0 * 1024 + b * 4"])
      (simp add: a(1), use a m assms in linarith)
  have e: "?n div 64 = a * 16 + b1"
    by (rule div_mod_by(1) [where r = "b0 * 4"]) (simp add: b(1), use b in linarith)
  have "(a * 16 + b1) mod 64 = a0 * 16 + b1"
    by (rule div_mod_by(2) [where q = a1]) (simp add: a(1), use a m in linarith)
  then show "?n div 64 mod 64 = a mod 4 * 16 + b div 16" unfolding defs e .
  show "?n mod 64 = b mod 16 * 4" unfolding defs
    by (rule div_mod_by(2) [where q = "a * 16 + b1"]) (simp add: b(1), use b in linarith)
qed

lemma sextets1:
  fixes a :: nat
  assumes "a < 256"
  shows "a * 16 div 64 = a div 4" "a * 16 mod 64 = a mod 4 * 16"
proof -
  define a1 a0 where "a1 = a div 4" and "a0 = a mod 4"
  have a: "a = 4 * a1 + a0" "a0 < 4" by (simp_all add: a1_def a0_def)
  show "a * 16 div 64 = a div 4" "a * 16 mod 64 = a mod 4 * 16"
    unfolding a1_def [symmetric] a0_def [symmetric]
    by (rule div_mod_by [where q = a1 and r = "a0 * 16"]; use a in linarith)+
qed

text \<open>One decoding step on an alphabet character.\<close>

lemma a2b_char:
  assumes "i < 64"
  shows "a2b (b64_char i # cs) q l p =
     (if q = 0 then a2b cs 1 i 0
      else if q = 1 then map_sum id ((#) (word_of_nat (l * 4 + i div 16))) (a2b cs 2 (i mod 16) 0)
      else if q = 2 then map_sum id ((#) (word_of_nat (l * 16 + i div 4))) (a2b cs 3 (i mod 4) 0)
      else map_sum id ((#) (word_of_nat (l * 64 + i))) (a2b cs 0 0 0))"
  using assms b64_char_plain(1)[OF assms] by simp

lemma a2b_pad:
  "a2b (CHR ''='' # cs) q l p =
     (if 2 \<le> q then (if 4 \<le> q + Suc p then Inr [] else a2b cs q l (Suc p)) else a2b cs q l p)"
  by simp

lemmas a2b_steps = a2b.simps(1) a2b_char a2b_pad

text \<open>A whole quad, and the two padded tails.\<close>

lemma a2b_quad:
  assumes "i < 64" "j < 64" "k < 64" "m < 64"
  shows "a2b (b64_char i # b64_char j # b64_char k # b64_char m # cs) 0 l p =
    map_sum id (\<lambda>r. word_of_nat (i * 4 + j div 16) # word_of_nat (j mod 16 * 16 + k div 4) #
      word_of_nat (k mod 4 * 64 + m) # r) (a2b cs 0 0 0)"
  by (simp only: a2b_char assms map_sum.compositionality if_True if_False refl
      zero_neq_one [symmetric] simp_thms o_def id_def) (simp add: map_sum.compositionality comp_def id_def)

lemma a2b_tail2:
  assumes "i < 64" "j < 64" "k < 64"
  shows "a2b [b64_char i, b64_char j, b64_char k, CHR ''=''] 0 l p =
    Inr [word_of_nat (i * 4 + j div 16), word_of_nat (j mod 16 * 16 + k div 4)]"
  using assms by (simp add: a2b_char a2b_pad del: a2b.simps of_nat_add of_nat_mult)

lemma a2b_tail1:
  assumes "i < 64" "j < 64"
  shows "a2b [b64_char i, b64_char j, CHR ''='', CHR ''=''] 0 l p =
    Inr [word_of_nat (i * 4 + j div 16)]"
  using assms by (simp add: a2b_char a2b_pad del: a2b.simps of_nat_add of_nat_mult)

lemma word_of_nat_byte: "n = unat (a :: byte) \<Longrightarrow> word_of_nat n = a"
  by simp

lemma b64_core_quads:
  "b64_core [a] = [b64_char (unat a div 4), b64_char (unat a mod 4 * 16)]"
  "b64_core [a, b] = [b64_char (unat a div 4), b64_char (unat a mod 4 * 16 + unat b div 16),
     b64_char (unat b mod 16 * 4)]"
  "b64_core (a # b # c # r) = [b64_char (unat a div 4), b64_char (unat a mod 4 * 16 + unat b div 16),
     b64_char (unat b mod 16 * 4 + unat c div 64), b64_char (unat c mod 64)] @ b64_core r"
  unfolding b64_core.simps Let_def
    sextets1[OF byte_less] sextets2[OF byte_less byte_less]
    sextets3[OF byte_less byte_less byte_less] by (rule refl)+

lemma octets:
  "word_of_nat (unat a div 4 * 4 + unat a mod 4 * 16 div 16) = (a :: byte)"
  "word_of_nat (unat a div 4 * 4 + (unat a mod 4 * 16 + unat b div 16) div 16) = (a :: byte)"
  "word_of_nat ((unat a mod 4 * 16 + unat b div 16) mod 16 * 16 + unat b mod 16 * 4 div 4) = (b :: byte)"
  "word_of_nat ((unat a mod 4 * 16 + unat b div 16) mod 16 * 16
     + (unat b mod 16 * 4 + unat c div 64) div 4) = (b :: byte)"
  "word_of_nat ((unat b mod 16 * 4 + unat c div 64) mod 4 * 64 + unat c mod 64) = (c :: byte)"
proof -
  have d: "unat b div 16 < 16" "unat c div 64 < 4" "unat b mod 16 < 16" "unat a mod 4 < 4"
    using byte_less[of b] byte_less[of c] by linarith+
  have e: "(unat a mod 4 * 16 + unat b div 16) div 16 = unat a mod 4"
    "(unat a mod 4 * 16 + unat b div 16) mod 16 = unat b div 16"
    by (rule div_mod_by [where q = "unat a mod 4" and r = "unat b div 16"]; use d in linarith)+
  have h: "unat c div 64 mod 4 = unat c div 64" "unat b div 16 mod 16 = unat b div 16"
    using d by simp_all
  have f: "(unat b mod 16 * 4 + unat c div 64) div 4 = unat b mod 16"
    "(unat b mod 16 * 4 + unat c div 64) mod 4 = unat c div 64"
    by (rule div_mod_by [where q = "unat b mod 16" and r = "unat c div 64"]; use d in linarith)+
  show "word_of_nat (unat a div 4 * 4 + unat a mod 4 * 16 div 16) = a"
    by (rule word_of_nat_byte) simp
  show "word_of_nat (unat a div 4 * 4 + (unat a mod 4 * 16 + unat b div 16) div 16) = a"
    by (rule word_of_nat_byte) (simp add: e)
  show "word_of_nat ((unat a mod 4 * 16 + unat b div 16) mod 16 * 16 + unat b mod 16 * 4 div 4) = b"
    by (rule word_of_nat_byte) (simp add: e h)
  show "word_of_nat ((unat a mod 4 * 16 + unat b div 16) mod 16 * 16
     + (unat b mod 16 * 4 + unat c div 64) div 4) = b"
    by (rule word_of_nat_byte) (simp add: e f h)
  show "word_of_nat ((unat b mod 16 * 4 + unat c div 64) mod 4 * 64 + unat c mod 64) = c"
    by (rule word_of_nat_byte) (simp add: f h)
qed

lemma sextet_bounds:
  "unat (a :: byte) div 4 < 64" "unat a mod 4 * 16 < 64" "unat b mod 16 * 4 < 64"
  "unat a mod 4 * 16 + unat (b :: byte) div 16 < 64"
  "unat b mod 16 * 4 + unat (c :: byte) div 64 < 64" "unat c mod 64 < 64"
proof -
  have d: "unat b div 16 < 16" "unat c div 64 < 4" "unat b mod 16 < 16" "unat a mod 4 < 4"
    using byte_less[of b] byte_less[of c] by linarith+
  show "unat a div 4 < 64" using byte_less[of a] by linarith
  show "unat a mod 4 * 16 < 64" "unat b mod 16 * 4 < 64"
    "unat a mod 4 * 16 + unat b div 16 < 64" "unat b mod 16 * 4 + unat c div 64 < 64"
    "unat c mod 64 < 64" using d by linarith+
qed

lemma a2b_core: "a2b (b64_core bs @ pad_for bs) 0 0 p = Inr bs"
proof (induction bs arbitrary: p rule: b64_core.induct)
  case 1
  then show ?case by simp
next
  case (2 a)
  then show ?case
    unfolding b64_core_quads by (simp only: pad_for.simps append.simps a2b_tail1 sextet_bounds octets)
next
  case (3 a b)
  then show ?case
    unfolding b64_core_quads by (simp only: pad_for.simps append.simps a2b_tail2 sextet_bounds octets)
next
  case (4 a b c r)
  then show ?case
    unfolding b64_core_quads
    by (simp only: pad_for.simps append.simps a2b_quad sextet_bounds octets 4 map_sum.simps)
qed

lemma b64_core_subset: "set (b64_core bs) \<subseteq> b64_char ` {..<64}"
  by (induction bs rule: b64_core.induct)
    (simp_all add: b64_core_quads sextet_bounds del: b64_core.simps(2-4))

lemma b64_core_chars: "c \<in> set (b64_core bs) \<Longrightarrow> \<exists>i<64. c = b64_char i"
  using b64_core_subset[of bs] by auto

lemma b64encode_core: "b64encode bs = b64_core bs @ pad_for bs"
  by (induction bs rule: b64_core.induct) (simp_all add: Let_def)

lemma length_core_pad: "length (b64_core bs @ pad_for bs) mod 4 = 0"
  by (induction bs rule: b64_core.induct) (simp_all add: Let_def)

lemma pad_for_cases:
  "pad_for bs = [] \<or> pad_for bs = [CHR ''=''] \<or> pad_for bs = [CHR ''='', CHR ''='']"
  by (induction bs rule: b64_core.induct) simp_all

lemma base64url_encode_core: "base64url_encode bs = map to_url (b64_core bs)"
proof -
  have ne: "to_url c \<noteq> CHR ''=''" if "c \<in> set (b64_core bs)" for c
    using b64_core_chars[OF that] b64_char_plain by (auto simp: to_url_def)
  have pads: "map to_url (pad_for bs) = pad_for bs"
    using pad_for_cases[of bs] by (auto simp: to_url_def)
  have "dropWhile (\<lambda>c. c = CHR ''='') (rev (map to_url (b64_core bs) @ pad_for bs)) =
      rev (map to_url (b64_core bs))"
  proof (cases "rev (map to_url (b64_core bs))")
    case Nil
    then show ?thesis using pad_for_cases[of bs] by auto
  next
    case (Cons x xs)
    then have "x \<in> set (rev (map to_url (b64_core bs)))" by simp
    then have "x \<noteq> CHR ''=''" using ne by auto
    with Cons show ?thesis using pad_for_cases[of bs] by auto
  qed
  then show ?thesis
    unfolding base64url_encode_def rstrip_eq_def b64encode_core map_append pads by simp
qed

theorem base64url_roundtrip: "base64url_decode (base64url_encode bs) = Inr bs"
proof -
  have url: "from_url (to_url c) = c" if "c \<in> set (b64_core bs)" for c
    using b64_core_chars[OF that] b64_char_plain by (auto simp: from_url_def to_url_def)
  then have "map from_url (base64url_encode bs) = b64_core bs"
    by (simp add: base64url_encode_core map_idI)
  moreover have "(let padding = 4 - length (b64_core bs) mod 4 in
      if padding \<noteq> 4 then b64_core bs @ replicate padding (CHR ''='') else b64_core bs) =
      b64_core bs @ pad_for bs"
  proof -
    from length_core_pad[of bs] have "(length (b64_core bs) + length (pad_for bs)) mod 4 = 0" by simp
    with pad_for_cases[of bs] show ?thesis
      by (elim disjE) (auto simp: Let_def mod_Suc numeral_2_eq_2 split: if_splits)
  qed
  moreover have "list_all (\<lambda>c. (of_char c :: nat) < 128) (b64_core bs @ pad_for bs)"
    using b64_core_chars[of _ bs] b64_char_plain(2) pad_for_cases[of bs]
    by (auto simp: list_all_iff)
  ultimately show ?thesis
    by (simp only: base64url_decode_def b64decode_def Let_def a2b_core if_True)
qed

lemma base64url_encode_inject: "base64url_encode a = base64url_encode b \<longleftrightarrow> a = b"
  by (metis base64url_roundtrip sum.inject(2))

text \<open>No character of an encoding is the separator of the chain-hash preimage.\<close>

lemma base64url_encode_no_bar: "CHR ''|'' \<notin> set (base64url_encode bs)"
proof
  assume "CHR ''|'' \<in> set (base64url_encode bs)"
  then obtain i where "i < 64" "CHR ''|'' = to_url (b64_char i)"
    using b64_core_chars by (auto simp: base64url_encode_core)
  moreover have "(of_char (CHR ''|'') :: nat) = 124" by simp
  ultimately show False
    using of_char_b64_char[of i] by (auto simp: to_url_def split: if_splits)
qed

end
