(* ===== verification/Jcs.thy ===== *)
theory Jcs
  imports PyFloat Base64
begin

text \<open>
  JSON values and their RFC 8785 canonical form: \<open>jcs_canonicalize\<close> and
  \<open>_jcs_serialize_number\<close> of \<open>packages/shield-sdk/src/shield_sdk/crypto.py\<close>.

  A JSON object is a Python \<open>dict\<close> in insertion order.  The printing of a float by
  \<open>json.dumps\<close> (CPython's shortest repr) is the parameter \<open>fr\<close>; what the uniqueness
  theorem needs of it is \<open>float_repr_ok\<close>: it prints only number characters, always a
  dot or an exponent, and different floats differently.

  The main result is that the canonical string determines the value: two well-formed values
  with the same canonical form are equal up to the order of object keys
  (\<open>jcs_unique\<close>), so a signature or hash over it is one over the value.
\<close>

datatype json =
    JNull
  | JBool bool
  | JInt int
  | JFloat pyfloat
  | JStr string
  | JArr "json list"
  | JObj "(string \<times> json) list"

type_synonym jobj = "(string \<times> json) list"

section \<open>String escapes of json.dumps with ensure_ascii off\<close>

definition hex_char :: "nat \<Rightarrow> char" where
  "hex_char n = (if n < 10 then char_of (48 + n) else char_of (87 + n))"

definition hex_val :: "char \<Rightarrow> nat" where
  "hex_val c = (let n = (of_char c :: nat) in if n < 58 then n - 48 else n - 87)"

definition json_esc :: "char \<Rightarrow> string" where
  "json_esc c =
     (let n = (of_char c :: nat) in
      if n = 34 then [char_of (92::nat), char_of (34::nat)]
      else if n = 92 then [char_of (92::nat), char_of (92::nat)]
      else if n = 10 then char_of (92::nat) # ''n''
      else if n = 13 then char_of (92::nat) # ''r''
      else if n = 9 then char_of (92::nat) # ''t''
      else if n = 12 then char_of (92::nat) # ''f''
      else if n = 8 then char_of (92::nat) # ''b''
      else if n < 32 then char_of (92::nat) # ''u00'' @ [hex_char (n div 16), hex_char (n mod 16)]
      else [c])"

definition json_quote :: "string \<Rightarrow> string" where
  "json_quote s = char_of (34::nat) # concat (map json_esc s) @ [char_of (34::nat)]"

section \<open>jcs_canonicalize\<close>

definition jcs_number :: "(rat \<Rightarrow> string) \<Rightarrow> pyfloat \<Rightarrow> string" where
  "jcs_number fr v =
     (case v of
        NaN \<Rightarrow> ''null'' | PInf \<Rightarrow> ''null'' | NInf \<Rightarrow> ''null''
      | Fin x \<Rightarrow> if x = 0 then ''0'' else fr x)"

definition jcs_pair :: "string \<times> string \<Rightarrow> string" where
  "jcs_pair kv = json_quote (fst kv) @ '':'' @ snd kv"

primrec jcs :: "(rat \<Rightarrow> string) \<Rightarrow> json \<Rightarrow> string" where
  "jcs fr JNull = ''null''"
| "jcs fr (JBool b) = (if b then ''true'' else ''false'')"
| "jcs fr (JInt i) = show_int i"
| "jcs fr (JFloat v) = jcs_number fr v"
| "jcs fr (JStr s) = json_quote s"
| "jcs fr (JArr vs) = ''['' @ join '','' (map (jcs fr) vs) @ '']''"
| "jcs fr (JObj kvs) =
     ''{'' @ join '','' (map jcs_pair (sort_key fst (map (map_prod id (jcs fr)) kvs))) @ ''}''"

section \<open>Well-formed values and what the canonical form forgets\<close>

primrec json_ok :: "json \<Rightarrow> bool" where
  "json_ok JNull = True"
| "json_ok (JBool b) = True"
| "json_ok (JInt i) = True"
| "json_ok (JFloat v) = (case v of Fin x \<Rightarrow> rnd64 x = Fin x | _ \<Rightarrow> True)"
| "json_ok (JStr s) = True"
| "json_ok (JArr vs) = list_all id (map json_ok vs)"
| "json_ok (JObj kvs) =
     (distinct (map fst kvs) \<and> list_all (\<lambda>p. snd p) (map (map_prod id json_ok) kvs))"

text \<open>Keys sorted at every level; NaN and the infinities are \<open>null\<close>, a float zero is 0.\<close>

primrec json_norm :: "json \<Rightarrow> json" where
  "json_norm JNull = JNull"
| "json_norm (JBool b) = JBool b"
| "json_norm (JInt i) = JInt i"
| "json_norm (JFloat v) = (case v of Fin x \<Rightarrow> if x = 0 then JInt 0 else JFloat (Fin x) | _ \<Rightarrow> JNull)"
| "json_norm (JStr s) = JStr s"
| "json_norm (JArr vs) = JArr (map json_norm vs)"
| "json_norm (JObj kvs) = JObj (sort_key fst (map (map_prod id json_norm) kvs))"

definition num_char :: "char \<Rightarrow> bool" where
  "num_char c = (is_digit c \<or> c \<in> set ''-+.e'')"

definition float_repr_ok :: "(rat \<Rightarrow> string) \<Rightarrow> bool" where
  "float_repr_ok fr \<longleftrightarrow>
     (\<forall>x. x \<noteq> 0 \<and> rnd64 x = Fin x \<longrightarrow>
        list_all num_char (fr x) \<and> fr x \<noteq> [] \<and> hd (fr x) \<noteq> CHR ''e'' \<and>
        (CHR ''.'' \<in> set (fr x) \<or> CHR ''e'' \<in> set (fr x))) \<and>
     (\<forall>x y. x \<noteq> 0 \<and> y \<noteq> 0 \<and> rnd64 x = Fin x \<and> rnd64 y = Fin y \<and> fr x = fr y \<longrightarrow> x = y)"

text \<open>
  The printer without the sort, which is what remains to be shown uniquely readable.
\<close>

primrec render :: "(rat \<Rightarrow> string) \<Rightarrow> json \<Rightarrow> string" where
  "render fr JNull = ''null''"
| "render fr (JBool b) = (if b then ''true'' else ''false'')"
| "render fr (JInt i) = show_int i"
| "render fr (JFloat v) = jcs_number fr v"
| "render fr (JStr s) = json_quote s"
| "render fr (JArr vs) = ''['' @ join '','' (map (render fr) vs) @ '']''"
| "render fr (JObj kvs) = ''{'' @ join '','' (map jcs_pair (map (map_prod id (render fr)) kvs)) @ ''}''"

lemma sort_key_map:
  assumes "\<And>x. k (h x) = k' x"
  shows "sort_key k (map h xs) = map h (sort_key k' xs)"
proof (induction xs)
  case Nil
  show ?case by simp
next
  case (Cons x xs)
  have "insort_key k (h x) (map h ys) = map h (insort_key k' x ys)" for ys
    by (induction ys) (auto simp: assms)
  with Cons show ?case by simp
qed

lemma sort_map_snd:
  "sort_key fst (map (map_prod id g) kvs) = map (map_prod id g) (sort_key fst kvs)"
  by (rule sort_key_map) simp

lemma char_of_eqI: "(of_char c :: nat) = n \<Longrightarrow> char_of n = c"
  by auto

lemma show_int_0 [simp]: "show_int 0 = ''0''"
  by (simp add: show_int_def show_nat.simps digit_char_def char_of_eqI)

lemma jcs_render: "jcs fr v = render fr (json_norm v)"
proof (induction v)
  case (JFloat v)
  then show ?case by (cases v) (auto simp: jcs_number_def)
next
  case (JArr vs)
  then have "map (jcs fr) vs = map (render fr) (map json_norm vs)" by simp
  then show ?case by (simp only: jcs.simps json_norm.simps render.simps)
next
  case (JObj kvs)
  have "map (map_prod id (jcs fr)) kvs = map (map_prod id (render fr)) (map (map_prod id json_norm) kvs)"
    using JObj by (auto simp: map_prod_def snds.simps)
  then show ?case by (simp only: jcs.simps json_norm.simps render.simps sort_map_snd)
qed simp_all

section \<open>Unique readability\<close>

fun unesc :: "string \<Rightarrow> char \<times> string" where
  "unesc (x # y # ys) =
     (if (of_char x :: nat) \<noteq> 92 then (x, y # ys)
      else let n = (of_char y :: nat) in
        if n = 34 then (char_of (34::nat), ys)
        else if n = 92 then (char_of (92::nat), ys)
        else if n = 110 then (char_of (10::nat), ys)
        else if n = 114 then (char_of (13::nat), ys)
        else if n = 116 then (char_of (9::nat), ys)
        else if n = 102 then (char_of (12::nat), ys)
        else if n = 98 then (char_of (8::nat), ys)
        else (char_of (16 * hex_val (ys ! 2) + hex_val (ys ! 3)), drop 4 ys))"
| "unesc [x] = (x, [])"
| "unesc [] = (CHR 0x00, [])"

lemma hex_val_char [simp]: "n < 16 \<Longrightarrow> hex_val (hex_char n) = n"
  by (auto simp: hex_val_def hex_char_def of_char_of Let_def)

lemma of_char_letters [simp]:
  "(of_char (CHR ''n'') :: nat) = 110" "(of_char (CHR ''r'') :: nat) = 114"
  "(of_char (CHR ''t'') :: nat) = 116" "(of_char (CHR ''f'') :: nat) = 102"
  "(of_char (CHR ''b'') :: nat) = 98" "(of_char (CHR ''u'') :: nat) = 117"
  by simp_all

lemma unesc_esc: "unesc (json_esc c @ r) = (c, r)"
proof -
  let ?n = "of_char c :: nat"
  have sp: "char_of m = c" if "?n = m" for m using that by (rule char_of_eqI)
  consider "?n = 34" | "?n = 92" | "?n = 10" | "?n = 13" | "?n = 9" | "?n = 12" | "?n = 8"
    | (ctl) "?n < 32" "?n \<notin> {8, 9, 10, 12, 13}"
    | (plain) "32 \<le> ?n" "?n \<noteq> 34" "?n \<noteq> 92" by fastforce
  then show ?thesis
  proof cases
    case ctl
    have "json_esc c = char_of (92::nat) # ''u00'' @ [hex_char (?n div 16), hex_char (?n mod 16)]"
      using ctl by (simp add: json_esc_def Let_def)
    moreover have "?n div 16 < 16" "?n mod 16 < 16" using ctl by auto
    ultimately show ?thesis by (simp add: of_char_of)
  next
    case plain
    then show ?thesis by (cases r) (simp_all add: json_esc_def Let_def)
  qed (simp_all add: json_esc_def Let_def of_char_of sp)
qed

lemma json_esc_prefix: "json_esc c @ r = json_esc c' @ r' \<Longrightarrow> c = c' \<and> r = r'"
  by (metis Pair_inject unesc_esc)

lemma json_esc_hd: "json_esc c \<noteq> [] \<and> hd (json_esc c) \<noteq> char_of (34::nat)"
  by (auto simp: json_esc_def Let_def of_char_of dest!: arg_cong [where f = "of_char :: char \<Rightarrow> nat"])

lemma json_quote_prefix:
  assumes "json_quote s @ r = json_quote s' @ r'"
  shows "s = s' \<and> r = r'"
proof -
  have "concat (map json_esc s) @ char_of (34::nat) # r =
      concat (map json_esc s') @ char_of (34::nat) # r'"
    using assms by (simp add: json_quote_def)
  then show ?thesis
  proof (induction s arbitrary: s')
    case Nil
    show ?case
    proof (cases s')
      case (Cons c' t)
      with Nil have "hd (json_esc c') = char_of (34::nat)"
        using json_esc_hd[of c'] by (cases "json_esc c'") simp_all
      with json_esc_hd[of c'] show ?thesis by simp
    qed (use Nil in simp)
  next
    case (Cons c s)
    show ?case
    proof (cases s')
      case Nil
      with Cons.prems have "hd (json_esc c) = char_of (34::nat)"
        using json_esc_hd[of c] by (cases "json_esc c") simp_all
      with json_esc_hd[of c] show ?thesis by simp
    next
      case (Cons c' t)
      with Cons.prems have "json_esc c @ (concat (map json_esc s) @ char_of (34::nat) # r) =
          json_esc c' @ (concat (map json_esc t) @ char_of (34::nat) # r')" by simp
      from json_esc_prefix[OF this] Cons.IH[of t] \<open>s' = c' # t\<close> show ?thesis by auto
    qed
  qed
qed

text \<open>What may follow a value: nothing, a comma or a closing bracket.\<close>

definition delim :: "string \<Rightarrow> bool" where
  "delim s = (s = [] \<or> hd s \<in> set '',]}'')"

lemma delim_simps [simp]: "delim []" "delim (c # s) \<longleftrightarrow> c \<in> set '',]}''"
  by (simp_all add: delim_def)

lemma token_prefix:
  assumes "a @ s = b @ t" and "delim s" and "delim t"
    and "\<forall>c \<in> set a. c \<notin> set '',]}''" and "\<forall>c \<in> set b. c \<notin> set '',]}''"
  shows "a = b \<and> s = t"
  using assms
proof (induction a arbitrary: b)
  case Nil
  then show ?case by (cases b; cases s) auto
next
  case (Cons x a)
  then show ?case by (cases b; cases t) auto
qed

text \<open>A comma-separated sequence of uniquely readable items, closed by a bracket.\<close>

lemma join_prefix:
  assumes item: "\<And>x y s t. x \<in> set xs \<Longrightarrow> P y \<Longrightarrow> f x @ s = f y @ t \<Longrightarrow> delim s \<Longrightarrow> delim t \<Longrightarrow>
      x = y \<and> s = t"
    and ne: "\<And>x. P x \<Longrightarrow> f x \<noteq> [] \<and> hd (f x) \<noteq> z"
    and z: "z \<in> set '']}''"
    and ok: "\<forall>x \<in> set xs. P x" "\<forall>y \<in> set ys. P y"
    and eq: "join '','' (map f xs) @ z # s = join '','' (map f ys) @ z # t"
  shows "xs = ys \<and> s = t"
  using item ok eq
proof (induction xs arbitrary: ys)
  case Nil
  have False if "ys = y # ys'" for y ys'
  proof -
    from that Nil.prems(3) have "P y" by simp
    from Nil.prems(4) that have "hd (f y) = z" using ne[OF \<open>P y\<close>]
      by (cases ys'; cases "f y") auto
    with ne[OF \<open>P y\<close>] show False by simp
  qed
  with Nil.prems(4) show ?case by (cases ys) auto
next
  case (Cons x xs)
  note px = Cons.prems(2) and py = Cons.prems(3) and eq = Cons.prems(4)
  have rest: "join '','' (map f (u # us)) @ z # w =
      f u @ (if us = [] then z # w else CHR '','' # join '','' (map f us) @ z # w)" for u us w
    by (cases us) auto
  obtain y ys' where ys: "ys = y # ys'"
  proof (cases ys)
    case Nil
    with eq have "hd (f x) = z" using ne[of x] px rest[of x xs s] by (cases "f x") auto
    with ne[of x] px show ?thesis by simp
  qed
  have dl: "delim (if us = [] then z # w else CHR '','' # v)" for us :: "'a list" and v w
    using z by auto
  have "x = y \<and> (if xs = [] then z # s else CHR '','' # join '','' (map f xs) @ z # s) =
      (if ys' = [] then z # t else CHR '','' # join '','' (map f ys') @ z # t)"
  proof (rule Cons.prems(1))
    show "f x @ (if xs = [] then z # s else CHR '','' # join '','' (map f xs) @ z # s) =
      f y @ (if ys' = [] then z # t else CHR '','' # join '','' (map f ys') @ z # t)"
      using eq unfolding ys rest .
  qed (use py ys dl in simp_all)
  then have xy: "x = y" and tl: "(if xs = [] then z # s else CHR '','' # join '','' (map f xs) @ z # s) =
      (if ys' = [] then z # t else CHR '','' # join '','' (map f ys') @ z # t)" by auto
  have zc: "z \<noteq> CHR '',''" using z by auto
  show ?case
  proof (cases "xs = []")
    case True
    with tl zc have "ys' = []" "s = t" by (auto split: if_splits)
    with True xy ys show ?thesis by simp
  next
    case False
    with tl zc have "ys' \<noteq> []" and eq': "join '','' (map f xs) @ z # s = join '','' (map f ys') @ z # t"
      by (auto split: if_splits)
    have "xs = ys' \<and> s = t"
    proof (rule Cons.IH)
      show "x' = y' \<and> s' = t'" if "x' \<in> set xs" "P y'" "f x' @ s' = f y' @ t'" "delim s'" "delim t'"
        for x' y' s' t'
        by (rule Cons.prems(1)) (use that in simp_all)
    qed (use px py ys eq' in simp_all)
    with xy ys show ?thesis by simp
  qed
qed

primrec json_nf :: "json \<Rightarrow> bool" where
  "json_nf JNull = True"
| "json_nf (JBool b) = True"
| "json_nf (JInt i) = True"
| "json_nf (JFloat v) = (case v of Fin x \<Rightarrow> x \<noteq> 0 \<and> rnd64 x = Fin x | _ \<Rightarrow> False)"
| "json_nf (JStr s) = True"
| "json_nf (JArr vs) = list_all id (map json_nf vs)"
| "json_nf (JObj kvs) = list_all (\<lambda>p. snd p) (map (map_prod id json_nf) kvs)"

lemma json_nf_norm: "json_ok v \<Longrightarrow> json_nf (json_norm v)"
proof (induction v)
  case (JFloat x)
  then show ?case by (cases x) auto
next
  case (JObj kvs)
  then show ?case by (fastforce simp: list_all_iff snds.simps)
qed (auto simp: list_all_iff)

text \<open>The first character of a printed value tells its constructor.\<close>

definition head_class :: "char \<Rightarrow> nat" where
  "head_class c =
     (if c = CHR ''n'' then 0 else if c = CHR ''t'' then 1 else if c = CHR ''f'' then 2
      else if c = char_of (34::nat) then 3 else if c = CHR ''['' then 4
      else if c = CHR ''{'' then 5 else 6)"

primrec json_class :: "json \<Rightarrow> nat" where
  "json_class JNull = 0"
| "json_class (JBool b) = (if b then 1 else 2)"
| "json_class (JInt i) = 6"
| "json_class (JFloat v) = 6"
| "json_class (JStr s) = 3"
| "json_class (JArr vs) = 4"
| "json_class (JObj kvs) = 5"

lemma quote_char: "char_of (34::nat) = CHR 0x22"
  by (rule char_of_eqI) simp

lemma not_num_char:
  "c \<in> set ''ntf[{,]}'' \<Longrightarrow> \<not> num_char c" "\<not> num_char (CHR 0x22)"
proof -
  have "\<not> is_digit (CHR ''n'')" "\<not> is_digit (CHR ''t'')" "\<not> is_digit (CHR ''f'')"
    "\<not> is_digit (CHR ''['')" "\<not> is_digit (CHR ''{'')" "\<not> is_digit (CHR '','')"
    "\<not> is_digit (CHR '']'')" "\<not> is_digit (CHR ''}'')" "\<not> is_digit (CHR 0x22)"
    by (simp_all add: is_digit_def)
  then show "c \<in> set ''ntf[{,]}'' \<Longrightarrow> \<not> num_char c" "\<not> num_char (CHR 0x22)"
    by (auto simp: num_char_def)
qed

lemma num_char_class: "num_char c \<Longrightarrow> c \<noteq> CHR ''e'' \<Longrightarrow> head_class c = 6 \<and> c \<notin> set '',]}''"
proof -
  assume n: "num_char c"
  with not_num_char(1)[of c] have "c \<notin> set ''ntf[{,]}''" by blast
  moreover have "c \<noteq> CHR 0x22" using n not_num_char(2) by blast
  ultimately show ?thesis by (simp add: head_class_def quote_char)
qed

lemma num_char_not_delim: "num_char c \<Longrightarrow> c \<notin> set '',]}''"
  using not_num_char(1)[of c] by auto

lemma show_int_num: "c \<in> set (show_int i) \<Longrightarrow> num_char c \<and> c \<noteq> CHR ''e'' \<and> c \<noteq> CHR ''.''"
proof -
  assume "c \<in> set (show_int i)"
  from show_int_chars[OF this] show ?thesis
  proof
    assume "is_digit c"
    moreover have "\<not> is_digit (CHR ''e'')" "\<not> is_digit (CHR ''.'')" by (simp_all add: is_digit_def)
    ultimately show ?thesis by (metis num_char_def)
  qed (simp add: num_char_def)
qed

lemma render_head:
  assumes fr: "float_repr_ok fr" and nf: "json_nf v"
  shows "render fr v \<noteq> [] \<and> head_class (hd (render fr v)) = json_class v
    \<and> hd (render fr v) \<notin> set '',]}''"
proof (cases v)
  case (JInt i)
  have "hd (show_int i) \<in> set (show_int i)" by simp
  from show_int_num[OF this] num_char_class show_int_nonempty[of i] JInt show ?thesis by auto
next
  case (JFloat x)
  with nf obtain q where q: "x = Fin q" "q \<noteq> 0" "rnd64 q = Fin q" by (cases x) auto
  with fr have t: "list_all num_char (fr q)" "fr q \<noteq> []" "hd (fr q) \<noteq> CHR ''e''"
    by (auto simp: float_repr_ok_def)
  then have "num_char (hd (fr q))" by (cases "fr q") auto
  with num_char_class[OF this] t q JFloat show ?thesis by (auto simp: jcs_number_def)
qed (auto simp: head_class_def json_quote_def quote_char)

lemma number_text:
  assumes fr: "float_repr_ok fr" and nf: "json_nf v" and c: "json_class v = 6"
  shows "\<forall>c \<in> set (render fr v). c \<notin> set '',]}''"
proof (cases v)
  case (JInt i)
  then show ?thesis using show_int_num num_char_not_delim by auto
next
  case (JFloat x)
  with nf obtain q where q: "x = Fin q" "q \<noteq> 0" "rnd64 q = Fin q" by (cases x) auto
  with fr have "list_all num_char (fr q)" by (auto simp: float_repr_ok_def)
  then show ?thesis using q JFloat num_char_not_delim by (auto simp: jcs_number_def list_all_iff)
qed (use c in \<open>auto split: if_splits\<close>)

lemma number_inject:
  assumes fr: "float_repr_ok fr" and nf: "json_nf v" "json_nf w"
    and c: "json_class v = 6" "json_class w = 6" and eq: "render fr v = render fr w"
  shows "v = w"
proof -
  have mix: "show_int i \<noteq> fr q" if "q \<noteq> 0" "rnd64 q = Fin q" for i q
    using fr that show_int_num[of _ i] unfolding float_repr_ok_def by metis
  from nf c eq fr show ?thesis
    by (cases v; cases w)
      (auto simp: jcs_number_def float_repr_ok_def mix mix [symmetric] split: pyfloat.splits if_splits)
qed

lemma render_prefix:
  assumes fr: "float_repr_ok fr"
  shows "json_nf v \<Longrightarrow> json_nf w \<Longrightarrow> render fr v @ s = render fr w @ t \<Longrightarrow> delim s \<Longrightarrow> delim t \<Longrightarrow>
    v = w \<and> s = t"
proof (induction v arbitrary: w s t)
  case (JArr vs)
  have cls: "json_class w = 4"
    using render_head[OF fr JArr.prems(1)] render_head[OF fr JArr.prems(2)] JArr.prems(3)
    by (metis hd_append2 json_class.simps(6))
  then obtain ws where w: "w = JArr ws" by (cases w) (auto split: if_splits)
  have "vs = ws \<and> s = t"
  proof (rule join_prefix [where f = "render fr" and P = json_nf and z = "CHR '']''"])
    show "x = y \<and> s' = t'" if "x \<in> set vs" "json_nf y" "render fr x @ s' = render fr y @ t'"
      "delim s'" "delim t'" for x y s' t'
      using JArr.IH[OF that(1) _ that(2-5)] JArr.prems(1) that(1) by (auto simp: list_all_iff)
    show "render fr x \<noteq> [] \<and> hd (render fr x) \<noteq> CHR '']''" if "json_nf x" for x
      using render_head[OF fr that] by auto
  qed (use JArr.prems w in \<open>auto simp: list_all_iff\<close>)
  with w show ?case by simp
next
  case (JObj kvs)
  have cls: "json_class w = 5"
    using render_head[OF fr JObj.prems(1)] render_head[OF fr JObj.prems(2)] JObj.prems(3)
    by (metis hd_append2 json_class.simps(7))
  then obtain kws where w: "w = JObj kws" by (cases w) (auto split: if_splits)
  let ?f = "\<lambda>p. jcs_pair (map_prod id (render fr) p)"
  have "kvs = kws \<and> s = t"
  proof (rule join_prefix [where f = ?f and P = "\<lambda>p. json_nf (snd p)" and z = "CHR ''}''"])
    show "x = y \<and> s' = t'" if "x \<in> set kvs" "json_nf (snd y)" "?f x @ s' = ?f y @ t'"
      "delim s'" "delim t'" for x y s' t'
    proof -
      have "json_quote (fst x) @ ('':'' @ render fr (snd x) @ s') =
          json_quote (fst y) @ ('':'' @ render fr (snd y) @ t')"
        using that(3) by (simp add: jcs_pair_def)
      from json_quote_prefix[OF this] have k: "fst x = fst y"
        and v: "render fr (snd x) @ s' = render fr (snd y) @ t'" by auto
      have "json_nf (snd x)" using JObj.prems(1) that(1) by (auto simp: list_all_iff)
      from JObj.IH[OF that(1) _ this that(2) v that(4,5)] k show ?thesis
        by (auto simp: snds.simps prod_eq_iff)
    qed
    show "?f x \<noteq> [] \<and> hd (?f x) \<noteq> CHR ''}''" for x
      by (simp add: jcs_pair_def json_quote_def quote_char)
  qed (use JObj.prems w in \<open>auto simp: list_all_iff o_def\<close>)
  with w show ?case by simp
next
  case (JStr x)
  have "json_class w = 3"
    using render_head[OF fr JStr.prems(1)] render_head[OF fr JStr.prems(2)] JStr.prems(3)
    by (metis hd_append2 json_class.simps(5))
  then obtain y where "w = JStr y" by (cases w) (auto split: if_splits)
  with JStr.prems(3) json_quote_prefix[of x s y t] show ?case by simp
next
  case JNull
  have "json_class w = 0"
    using render_head[OF fr JNull.prems(1)] render_head[OF fr JNull.prems(2)] JNull.prems(3)
    by (metis hd_append2 json_class.simps(1))
  then have "w = JNull" by (cases w) (auto split: if_splits)
  with JNull.prems(3) show ?case by simp
next
  case (JBool b)
  have "json_class w = json_class (JBool b)"
    using render_head[OF fr JBool.prems(1)] render_head[OF fr JBool.prems(2)] JBool.prems(3)
    by (metis hd_append2)
  then have "w = JBool b" by (cases w) (auto split: if_splits)
  with JBool.prems(3) show ?case by simp
next
  case (JInt i)
  have "json_class w = 6"
    using render_head[OF fr JInt.prems(1)] render_head[OF fr JInt.prems(2)] JInt.prems(3)
    by (metis hd_append2 json_class.simps(3))
  with token_prefix[OF JInt.prems(3-5)] number_text[OF fr] number_inject[OF fr] JInt.prems
  show ?case by (metis json_class.simps(3))
next
  case (JFloat x)
  have "json_class w = 6"
    using render_head[OF fr JFloat.prems(1)] render_head[OF fr JFloat.prems(2)] JFloat.prems(3)
    by (metis hd_append2 json_class.simps(4))
  with token_prefix[OF JFloat.prems(3-5)] number_text[OF fr] number_inject[OF fr] JFloat.prems
  show ?case by (metis json_class.simps(4))
qed

theorem jcs_determines:
  assumes "float_repr_ok fr" and "json_ok v" and "json_ok w"
  shows "jcs fr v = jcs fr w \<longleftrightarrow> json_norm v = json_norm w"
  using render_prefix[OF assms(1) json_nf_norm[OF assms(2)] json_nf_norm[OF assms(3)], of "[]" "[]"]
  by (auto simp: jcs_render)

end
