(* ===== verification/Crypto.thy ===== *)
theory Crypto
  imports Jcs
begin

text \<open>
  The hashing and signing functions of \<open>packages/shield-sdk/src/shield_sdk/crypto.py\<close>.

  SHA-256 (a C routine behind \<open>hashlib\<close>), the Ed25519 operations of the
  \<open>cryptography\<close> package and the shortest float repr are parameters, collected in
  \<open>prims\<close>.  What the code relies on of the signatures is \<open>ed25519_ok\<close>: a signature
  made with a 32-byte seed verifies under the public key of that seed.  Nothing is assumed of
  SHA-256; tamper evidence is stated relative to \<open>inj_on\<close> over the strings that were
  actually hashed.
\<close>

record prims =
  sha256 :: "bytes \<Rightarrow> bytes"
  ed_public :: "bytes \<Rightarrow> bytes"
  ed_sign :: "bytes \<Rightarrow> bytes \<Rightarrow> bytes"
  ed_verify :: "bytes \<Rightarrow> bytes \<Rightarrow> bytes \<Rightarrow> bool"
  float_repr :: "rat \<Rightarrow> string"

definition ed25519_ok :: "prims \<Rightarrow> bool" where
  "ed25519_ok p \<longleftrightarrow>
     (\<forall>seed data. length seed = 32 \<longrightarrow>
        length (ed_public p seed) = 32 \<and> ed_verify p (ed_public p seed) (ed_sign p seed data) data)"

definition GENESIS_CHAIN_HASH :: string where
  "GENESIS_CHAIN_HASH = ''AAAAAAAAAAAAAAAAAAAAAAAAAAAAAAAAAAAAAAAAAAA''"

section \<open>Hashes\<close>

definition sha256_base64url :: "prims \<Rightarrow> string \<Rightarrow> string" where
  "sha256_base64url p s = base64url_encode (sha256 p (utf8 s))"

definition compute_payload_hash :: "prims \<Rightarrow> json \<Rightarrow> string" where
  "compute_payload_hash p v = sha256_base64url p (jcs (float_repr p) v)"

definition chain_preimage :: "string \<Rightarrow> string \<Rightarrow> string \<Rightarrow> int \<Rightarrow> string" where
  "chain_preimage prev payload_hash operation_id issued_at =
     prev @ ''|'' @ payload_hash @ ''|'' @ operation_id @ ''|'' @ show_int issued_at"

definition compute_chain_hash :: "prims \<Rightarrow> string \<Rightarrow> string \<Rightarrow> string \<Rightarrow> int \<Rightarrow> string" where
  "compute_chain_hash p prev payload_hash operation_id issued_at =
     sha256_base64url p (chain_preimage prev payload_hash operation_id issued_at)"

section \<open>Ed25519\<close>

definition sign_ed25519 :: "prims \<Rightarrow> string \<Rightarrow> bytes \<Rightarrow> py_exc + string" where
  "sign_ed25519 p private_key data =
     rbind (base64url_decode private_key) (\<lambda>seed.
       if length seed \<noteq> 32 then Inl ValueError
       else Inr (base64url_encode (ed_sign p seed data)))"

definition get_public_key_base64url :: "prims \<Rightarrow> string \<Rightarrow> py_exc + string" where
  "get_public_key_base64url p private_key =
     rbind (base64url_decode private_key) (\<lambda>seed.
       if length seed \<noteq> 32 then Inl ValueError
       else Inr (base64url_encode (ed_public p seed)))"

definition verify_ed25519 :: "prims \<Rightarrow> string \<Rightarrow> bytes \<Rightarrow> string \<Rightarrow> bool" where
  "verify_ed25519 p public_key data signature =
     (case base64url_decode public_key of
        Inl _ \<Rightarrow> False
      | Inr pub_bytes \<Rightarrow>
        (case base64url_decode signature of
           Inl _ \<Rightarrow> False
         | Inr sig \<Rightarrow> length pub_bytes = 32 \<and> ed_verify p pub_bytes sig data))"

definition sign_eor :: "prims \<Rightarrow> jobj \<Rightarrow> string \<Rightarrow> py_exc + string" where
  "sign_eor p eor private_key =
     sign_ed25519 p private_key
       (utf8 (jcs (float_repr p) (JObj (filter (\<lambda>kv. fst kv \<noteq> ''signature'') eor))))"

section \<open>Facts\<close>

lemma sha256_base64url_eq_iff:
  "sha256_base64url p s = sha256_base64url p t \<longleftrightarrow> sha256 p (utf8 s) = sha256 p (utf8 t)"
  by (simp add: sha256_base64url_def base64url_encode_inject)

lemma sha256_base64url_no_bar: "CHR ''|'' \<notin> set (sha256_base64url p s)"
  by (simp add: sha256_base64url_def base64url_encode_no_bar)

lemma compute_chain_hash_no_bar: "CHR ''|'' \<notin> set (compute_chain_hash p a b c d)"
  by (simp add: compute_chain_hash_def sha256_base64url_no_bar)

lemma GENESIS_no_bar: "CHR ''|'' \<notin> set GENESIS_CHAIN_HASH"
  by (simp add: GENESIS_CHAIN_HASH_def)

lemma show_int_no_bar: "CHR ''|'' \<notin> set (show_int i)"
proof
  assume "CHR ''|'' \<in> set (show_int i)"
  from show_int_chars[OF this] show False by (simp add: is_digit_def)
qed

text \<open>
  The preimage splits uniquely at the first bar (after the previous hash, which has none) and at the
  last one (before the time).  What stands between is the payload hash and the operation id: a
  caller may put bars in both, so that only their joined text is determined.
\<close>

lemma chain_preimage_inject:
  assumes "chain_preimage a b c i = chain_preimage a' b' c' i'"
    and "CHR ''|'' \<notin> set a" "CHR ''|'' \<notin> set a'"
  shows "a = a' \<and> b @ ''|'' @ c = b' @ ''|'' @ c' \<and> i = i'"
proof -
  have "a @ CHR ''|'' # (b @ ''|'' @ c @ ''|'' @ show_int i) =
      a' @ CHR ''|'' # (b' @ ''|'' @ c' @ ''|'' @ show_int i')"
    using assms(1) by (simp add: chain_preimage_def)
  from split_at_first[OF this assms(2,3)] have a: "a = a'"
    and r: "(b @ ''|'' @ c) @ CHR ''|'' # show_int i = (b' @ ''|'' @ c') @ CHR ''|'' # show_int i'"
    by simp_all
  from split_at_last[OF r show_int_no_bar show_int_no_bar] a show ?thesis by simp
qed

lemma bars_make_preimages_collide:
  "compute_chain_hash p prev ''a|b'' ''c'' i = compute_chain_hash p prev ''a'' ''b|c'' i"
  by (simp add: compute_chain_hash_def chain_preimage_def)

lemma compute_chain_hash_inject:
  assumes "compute_chain_hash p a b c i = compute_chain_hash p a' b' c' i'"
    and "inj_on (sha256 p) {utf8 (chain_preimage a b c i), utf8 (chain_preimage a' b' c' i')}"
    and "CHR ''|'' \<notin> set a" "CHR ''|'' \<notin> set a'"
  shows "a = a' \<and> b @ ''|'' @ c = b' @ ''|'' @ c' \<and> i = i'"
proof -
  have "sha256 p (utf8 (chain_preimage a b c i)) = sha256 p (utf8 (chain_preimage a' b' c' i'))"
    using assms(1) by (simp add: compute_chain_hash_def sha256_base64url_eq_iff)
  with assms(2) have "utf8 (chain_preimage a b c i) = utf8 (chain_preimage a' b' c' i')"
    by (auto dest: inj_onD)
  then have "chain_preimage a b c i = chain_preimage a' b' c' i'" by (simp add: utf8_inject)
  from chain_preimage_inject[OF this assms(3,4)] show ?thesis .
qed

lemma verify_sign_ed25519:
  assumes "ed25519_ok p" and "sign_ed25519 p sk data = Inr sig"
    and "get_public_key_base64url p sk = Inr pk"
  shows "verify_ed25519 p pk data sig"
  using assms
  by (auto simp: sign_ed25519_def get_public_key_base64url_def verify_ed25519_def ed25519_ok_def
      base64url_roundtrip split: if_splits)

lemma sign_total: "get_public_key_base64url p sk = Inr pk \<Longrightarrow> \<exists>sig. sign_ed25519 p sk data = Inr sig"
  by (auto simp: sign_ed25519_def get_public_key_base64url_def split: if_splits)

section \<open>An instance of the primitives\<close>

text \<open>
  Concrete functions that satisfy the hypotheses \<open>ed25519_ok\<close> and \<open>float_repr_ok\<close>, for
  the witnesses: the public key is the seed, a signature is the seed followed by the message,
  the digest is the data itself, a float prints as its numerator and denominator.
\<close>

definition demo_repr :: "rat \<Rightarrow> string" where
  "demo_repr x = show_int (fst (quotient_of x)) @ ''.'' @ show_int (snd (quotient_of x))"

definition demo_prims :: prims where
  "demo_prims = \<lparr>sha256 = (\<lambda>d. d), ed_public = (\<lambda>seed. seed), ed_sign = (\<lambda>seed d. seed @ d),
     ed_verify = (\<lambda>pub sig d. sig = pub @ d), float_repr = demo_repr\<rparr>"

lemma ed25519_ok_demo: "ed25519_ok demo_prims"
  by (simp add: ed25519_ok_def demo_prims_def)

lemma demo_repr_inject: "demo_repr x = demo_repr y \<Longrightarrow> x = y"
proof -
  have d: "CHR ''.'' \<notin> set (show_int i)" for i using show_int_num[of "CHR ''.''" i] by blast
  assume "demo_repr x = demo_repr y"
  then have "show_int (fst (quotient_of x)) @ CHR ''.'' # show_int (snd (quotient_of x)) =
      show_int (fst (quotient_of y)) @ CHR ''.'' # show_int (snd (quotient_of y))"
    by (simp add: demo_repr_def)
  from split_at_first[OF this d d] have "quotient_of x = quotient_of y"
    by (simp add: prod_eq_iff)
  then show ?thesis by (metis quotient_of_div prod.collapse)
qed

lemma float_repr_ok_demo: "float_repr_ok demo_repr"
proof -
  have n: "list_all num_char (show_int i)" for i
    using show_int_num by (auto simp: list_all_iff)
  have "num_char CHR ''.''" by (simp add: num_char_def)
  moreover have "hd (show_int i @ s) \<noteq> CHR ''e''" for i s
    using show_int_num[of "hd (show_int i)" i] by simp
  ultimately show ?thesis
    using n demo_repr_inject by (auto simp: float_repr_ok_def demo_repr_def)
qed

lemma float_repr_demo_prims [simp]: "float_repr demo_prims = demo_repr"
  by (simp add: demo_prims_def)

text \<open>A 32-byte seed in base64url and its public key.\<close>

definition demo_key :: string where
  "demo_key = base64url_encode (replicate 32 7)"

lemma demo_key_public: "get_public_key_base64url demo_prims demo_key = Inr demo_key"
  by (simp add: get_public_key_base64url_def demo_key_def base64url_roundtrip demo_prims_def)

end
