(* ===== verification/Schema.thy ===== *)
theory Schema
  imports Jcs
begin

text \<open>
  The frozen contract of \<open>packages/shield-sdk/src/shield_sdk/schema.py\<close>: the enumerations,
  the two-phase \<open>ShieldActionRecord\<close> and the \<open>GovernanceVerdict\<close> with their nested
  models, each a record with the source's fields in the source's order, and the dump of a
  model to JSON (\<open>model_dump(mode="json")\<close>, with and without \<open>exclude_none\<close>).

  Field names carry a prefix for their model (\<open>r_\<close> record, \<open>v_\<close> verdict, \<open>pl_\<close>
  payload and so on), because Isabelle's record fields are global names.  An optional field
  is an \<open>option\<close>; an untyped value (\<open>Any\<close>) is a JSON value, with \<open>None\<close> as
  \<open>JNull\<close>.  Ids, nonces and times that the source draws from the clock and the system's
  randomness are fields the caller supplies.
\<close>

section \<open>Enumerations\<close>

datatype phase = PRE_EXEC | POST_EXEC
datatype action_type = TOOL_CALL | LLM_INFERENCE | DECISION | CHECKPOINT | ESCALATION
datatype decision = PASS | ALERT | BLOCK | ESCALATE | ROLLBACK | REWRITE
datatype served_via = CLOUD | LOCAL
datatype guardian = DEFENDER | EVALUATOR | SUPERVISOR | AUDITOR

fun phase_value :: "phase \<Rightarrow> string" where
  "phase_value PRE_EXEC = ''pre_exec''"
| "phase_value POST_EXEC = ''post_exec''"

fun action_type_value :: "action_type \<Rightarrow> string" where
  "action_type_value TOOL_CALL = ''tool_call''"
| "action_type_value LLM_INFERENCE = ''llm_inference''"
| "action_type_value DECISION = ''decision''"
| "action_type_value CHECKPOINT = ''checkpoint''"
| "action_type_value ESCALATION = ''escalation''"

fun decision_value :: "decision \<Rightarrow> string" where
  "decision_value PASS = ''PASS''"
| "decision_value ALERT = ''ALERT''"
| "decision_value BLOCK = ''BLOCK''"
| "decision_value ESCALATE = ''ESCALATE''"
| "decision_value ROLLBACK = ''ROLLBACK''"
| "decision_value REWRITE = ''REWRITE''"

fun served_via_value :: "served_via \<Rightarrow> string" where
  "served_via_value CLOUD = ''cloud''"
| "served_via_value LOCAL = ''local''"

fun guardian_value :: "guardian \<Rightarrow> string" where
  "guardian_value DEFENDER = ''defender''"
| "guardian_value EVALUATOR = ''evaluator''"
| "guardian_value SUPERVISOR = ''supervisor''"
| "guardian_value AUDITOR = ''auditor''"

definition all_decisions :: "decision list" where
  "all_decisions = [PASS, ALERT, BLOCK, ESCALATE, ROLLBACK, REWRITE]"

lemma in_all_decisions [simp]: "d \<in> set all_decisions"
  by (cases d) (simp_all add: all_decisions_def)

lemma decision_value_inject [simp]: "decision_value a = decision_value b \<longleftrightarrow> a = b"
  by (cases a; cases b) simp_all

lemma action_type_value_inject [simp]: "action_type_value a = action_type_value b \<longleftrightarrow> a = b"
  by (cases a; cases b) simp_all

lemma phase_value_inject [simp]: "phase_value a = phase_value b \<longleftrightarrow> a = b"
  by (cases a; cases b) simp_all

definition SHIELD_VERSION :: string where
  "SHIELD_VERSION = ''1.1''"

section \<open>ShieldActionRecord\<close>

record llm_usage =
  lu_model :: "string option"
  lu_prompt_tokens :: int
  lu_completion_tokens :: int

record action_context =
  cx_checkpoint_id :: "string option"
  cx_langgraph_thread_id :: "string option"
  cx_env_snapshot_ref :: "string option"

record action_ref =
  ac_tool :: "string option"
  ac_args_digest :: "string option"

record action_payload =
  pl_tool_name :: "string option"
  pl_tool_args :: jobj
  pl_tool_result :: json
  pl_tool_error :: "string option"
  pl_llm :: "llm_usage option"
  pl_confidence :: "pyfloat option"

record action_record =
  r_shield_version :: string
  r_record_id :: string
  r_correlation_id :: string
  r_org_id :: string
  r_agent_id :: string
  r_workflow_id :: string
  r_run_id :: string
  r_step_index :: int
  r_issued_at :: int
  r_ttl_ms :: int
  r_nonce :: string
  r_phase :: phase
  r_action_type :: action_type
  r_operation_type :: string
  r_subject :: jobj
  r_action :: action_ref
  r_payload :: action_payload
  r_context :: action_context
  r_payload_hash :: string
  r_prev_chain_hash :: string
  r_chain_hash :: "string option"
  r_agent_pubkey_kid :: string
  r_verdict_ref :: "string option"
  r_signature :: "string option"

section \<open>GovernanceVerdict\<close>

record verdict_reason =
  rs_agent :: "guardian option"
  rs_label :: string
  rs_detail :: "string option"
  rs_score :: "pyfloat option"
  rs_model_id :: "string option"
  rs_served_via :: "served_via option"

record rollback_obligation =
  rb_langgraph_checkpoint_id :: "string option"
  rb_env_snapshot_ref :: "string option"

record obligations =
  ob_mask_args :: "string list option"
  ob_rewrite_args :: "jobj option"
  ob_require_human :: "bool option"
  ob_rollback :: "rollback_obligation option"
  ob_prevented_loss :: "pyfloat option"

record governance_verdict =
  v_shield_version :: string
  v_verdict_id :: string
  v_record_id :: "string option"
  v_correlation_id :: string
  v_run_id :: "string option"
  v_decision :: decision
  v_risk_score :: pyfloat
  v_reasons :: "verdict_reason list"
  v_obligations :: obligations
  v_latency_ms :: "pyfloat option"
  v_served_at :: "int option"
  v_shield_kid :: "string option"
  v_signature_by_shield :: "string option"

text \<open>The defaults of the constructors.\<close>

definition no_obligations :: obligations where
  "no_obligations = \<lparr>ob_mask_args = None, ob_rewrite_args = None, ob_require_human = None,
     ob_rollback = None, ob_prevented_loss = None\<rparr>"

definition no_context :: action_context where
  "no_context = \<lparr>cx_checkpoint_id = None, cx_langgraph_thread_id = None, cx_env_snapshot_ref = None\<rparr>"

definition verdict_reason_of :: "guardian \<Rightarrow> string \<Rightarrow> string option \<Rightarrow> pyfloat option \<Rightarrow> verdict_reason" where
  "verdict_reason_of agent label detail score =
     \<lparr>rs_agent = Some agent, rs_label = label, rs_detail = detail, rs_score = score,
      rs_model_id = None, rs_served_via = None\<rparr>"

text \<open>A verdict built for a record: the identity fields come from the record.\<close>

definition verdict_for ::
  "string \<Rightarrow> action_record \<Rightarrow> decision \<Rightarrow> pyfloat \<Rightarrow> verdict_reason list \<Rightarrow> obligations \<Rightarrow> governance_verdict" where
  "verdict_for verdict_id r d risk reasons obl =
     \<lparr>v_shield_version = SHIELD_VERSION, v_verdict_id = verdict_id, v_record_id = Some (r_record_id r),
      v_correlation_id = r_correlation_id r, v_run_id = Some (r_run_id r), v_decision = d,
      v_risk_score = risk, v_reasons = reasons, v_obligations = obl, v_latency_ms = None,
      v_served_at = None, v_shield_kid = None, v_signature_by_shield = None\<rparr>"

lemma verdict_for_sel [simp]:
  "v_decision (verdict_for vid r d risk rs ob) = d"
  "v_risk_score (verdict_for vid r d risk rs ob) = risk"
  "v_reasons (verdict_for vid r d risk rs ob) = rs"
  "v_obligations (verdict_for vid r d risk rs ob) = ob"
  "v_record_id (verdict_for vid r d risk rs ob) = Some (r_record_id r)"
  "v_correlation_id (verdict_for vid r d risk rs ob) = r_correlation_id r"
  "v_run_id (verdict_for vid r d risk rs ob) = Some (r_run_id r)"
  "v_verdict_id (verdict_for vid r d risk rs ob) = vid"
  "v_signature_by_shield (verdict_for vid r d risk rs ob) = None"
  "v_shield_kid (verdict_for vid r d risk rs ob) = None"
  "v_latency_ms (verdict_for vid r d risk rs ob) = None"
  "v_served_at (verdict_for vid r d risk rs ob) = None"
  by (simp_all add: verdict_for_def)

section \<open>Dumping a model\<close>

text \<open>
  \<open>exclude_none\<close> leaves a field out when its value is None; an open \<open>dict\<close>
  (\<open>subject\<close>, \<open>tool_args\<close>) is a value and keeps its own entries.
\<close>

definition opt_json :: "('a \<Rightarrow> json) \<Rightarrow> 'a option \<Rightarrow> json" where
  "opt_json f x = (case x of None \<Rightarrow> JNull | Some y \<Rightarrow> f y)"

definition model_fields :: "bool \<Rightarrow> jobj \<Rightarrow> jobj" where
  "model_fields exclude_none kvs = (if exclude_none then filter (\<lambda>(k, v). v \<noteq> JNull) kvs else kvs)"

definition dump_llm :: "bool \<Rightarrow> llm_usage \<Rightarrow> json" where
  "dump_llm e u = JObj (model_fields e
     [(''model'', opt_json JStr (lu_model u)),
      (''prompt_tokens'', JInt (lu_prompt_tokens u)),
      (''completion_tokens'', JInt (lu_completion_tokens u))])"

definition dump_context :: "bool \<Rightarrow> action_context \<Rightarrow> json" where
  "dump_context e c = JObj (model_fields e
     [(''checkpoint_id'', opt_json JStr (cx_checkpoint_id c)),
      (''langgraph_thread_id'', opt_json JStr (cx_langgraph_thread_id c)),
      (''env_snapshot_ref'', opt_json JStr (cx_env_snapshot_ref c))])"

definition dump_action :: "bool \<Rightarrow> action_ref \<Rightarrow> json" where
  "dump_action e a = JObj (model_fields e
     [(''tool'', opt_json JStr (ac_tool a)), (''args_digest'', opt_json JStr (ac_args_digest a))])"

definition dump_payload :: "bool \<Rightarrow> action_payload \<Rightarrow> json" where
  "dump_payload e p = JObj (model_fields e
     [(''tool_name'', opt_json JStr (pl_tool_name p)),
      (''tool_args'', JObj (pl_tool_args p)),
      (''tool_result'', pl_tool_result p),
      (''tool_error'', opt_json JStr (pl_tool_error p)),
      (''llm'', opt_json (dump_llm e) (pl_llm p)),
      (''confidence'', opt_json JFloat (pl_confidence p))])"

definition record_fields :: "bool \<Rightarrow> action_record \<Rightarrow> jobj" where
  "record_fields e r =
     [(''shield_version'', JStr (r_shield_version r)),
      (''record_id'', JStr (r_record_id r)),
      (''correlation_id'', JStr (r_correlation_id r)),
      (''org_id'', JStr (r_org_id r)),
      (''agent_id'', JStr (r_agent_id r)),
      (''workflow_id'', JStr (r_workflow_id r)),
      (''run_id'', JStr (r_run_id r)),
      (''step_index'', JInt (r_step_index r)),
      (''issued_at'', JInt (r_issued_at r)),
      (''ttl_ms'', JInt (r_ttl_ms r)),
      (''nonce'', JStr (r_nonce r)),
      (''phase'', JStr (phase_value (r_phase r))),
      (''action_type'', JStr (action_type_value (r_action_type r))),
      (''operation_type'', JStr (r_operation_type r)),
      (''subject'', JObj (r_subject r)),
      (''action'', dump_action e (r_action r)),
      (''payload'', dump_payload e (r_payload r)),
      (''context'', dump_context e (r_context r)),
      (''payload_hash'', JStr (r_payload_hash r)),
      (''prev_chain_hash'', JStr (r_prev_chain_hash r)),
      (''chain_hash'', opt_json JStr (r_chain_hash r)),
      (''agent_pubkey_kid'', JStr (r_agent_pubkey_kid r)),
      (''verdict_ref'', opt_json JStr (r_verdict_ref r)),
      (''signature'', opt_json JStr (r_signature r))]"


definition dump_record :: "bool \<Rightarrow> action_record \<Rightarrow> jobj" where
  "dump_record e r = model_fields e (record_fields e r)"
definition dump_reason :: "bool \<Rightarrow> verdict_reason \<Rightarrow> json" where
  "dump_reason e x = JObj (model_fields e
     [(''agent'', opt_json (JStr \<circ> guardian_value) (rs_agent x)),
      (''label'', JStr (rs_label x)),
      (''detail'', opt_json JStr (rs_detail x)),
      (''score'', opt_json JFloat (rs_score x)),
      (''model_id'', opt_json JStr (rs_model_id x)),
      (''served_via'', opt_json (JStr \<circ> served_via_value) (rs_served_via x))])"

definition dump_rollback :: "bool \<Rightarrow> rollback_obligation \<Rightarrow> json" where
  "dump_rollback e x = JObj (model_fields e
     [(''langgraph_checkpoint_id'', opt_json JStr (rb_langgraph_checkpoint_id x)),
      (''env_snapshot_ref'', opt_json JStr (rb_env_snapshot_ref x))])"

definition dump_obligations :: "bool \<Rightarrow> obligations \<Rightarrow> json" where
  "dump_obligations e x = JObj (model_fields e
     [(''mask_args'', opt_json (\<lambda>l. JArr (map JStr l)) (ob_mask_args x)),
      (''rewrite_args'', opt_json JObj (ob_rewrite_args x)),
      (''require_human'', opt_json JBool (ob_require_human x)),
      (''rollback'', opt_json (dump_rollback e) (ob_rollback x)),
      (''prevented_loss'', opt_json JFloat (ob_prevented_loss x))])"

definition verdict_fields :: "bool \<Rightarrow> governance_verdict \<Rightarrow> jobj" where
  "verdict_fields e v =
     [(''shield_version'', JStr (v_shield_version v)),
      (''verdict_id'', JStr (v_verdict_id v)),
      (''record_id'', opt_json JStr (v_record_id v)),
      (''correlation_id'', JStr (v_correlation_id v)),
      (''run_id'', opt_json JStr (v_run_id v)),
      (''decision'', JStr (decision_value (v_decision v))),
      (''risk_score'', JFloat (v_risk_score v)),
      (''reasons'', JArr (map (dump_reason e) (v_reasons v))),
      (''obligations'', dump_obligations e (v_obligations v)),
      (''latency_ms'', opt_json JFloat (v_latency_ms v)),
      (''served_at'', opt_json JInt (v_served_at v)),
      (''shield_kid'', opt_json JStr (v_shield_kid v)),
      (''signature_by_shield'', opt_json JStr (v_signature_by_shield v))]"


definition dump_verdict :: "bool \<Rightarrow> governance_verdict \<Rightarrow> jobj" where
  "dump_verdict e v = model_fields e (verdict_fields e v)"
section \<open>Facts about dumps\<close>

lemma model_fields_False [simp]: "model_fields False kvs = kvs"
  by (simp add: model_fields_def)

lemma model_fields_Nil [simp]: "model_fields e [] = []"
  by (simp add: model_fields_def)

lemma model_fields_Cons:
  "model_fields True ((k, v) # kvs) =
     (if v = JNull then model_fields True kvs else (k, v) # model_fields True kvs)"
  by (simp add: model_fields_def)

lemma keys_model_fields: "set (map fst (model_fields e kvs)) \<subseteq> set (map fst kvs)"
  by (auto simp: model_fields_def)

lemma distinct_model_fields: "distinct (map fst kvs) \<Longrightarrow> distinct (map fst (model_fields e kvs))"
  by (simp add: model_fields_def distinct_map_filter)

text \<open>Reading a field of a dump: absent and null are the same.\<close>

definition field :: "jobj \<Rightarrow> string \<Rightarrow> json" where
  "field d k = (case dget d k of None \<Rightarrow> JNull | Some v \<Rightarrow> v)"

lemma field_Nil [simp]: "field [] k = JNull"
  by (simp add: field_def)

lemma field_Cons [simp]: "field ((k, v) # d) k' = (if k = k' then v else field d k')"
  by (simp add: field_def)

lemma field_notin: "k \<notin> fst ` set d \<Longrightarrow> field d k = JNull"
  by (simp add: field_def map_of_eq_None_iff [THEN iffD2])

lemma field_model_fields:
  "distinct (map fst kvs) \<Longrightarrow> field (model_fields e kvs) k = field kvs k"
proof (cases e)
  case True
  assume "distinct (map fst kvs)"
  then have "field (model_fields True kvs) k = field kvs k"
  proof (induction kvs)
    case (Cons p kvs)
    obtain a v where p: "p = (a, v)" by (cases p)
    have "a \<notin> fst ` set (model_fields True kvs)"
      using Cons.prems keys_model_fields[of True kvs] by (auto simp: p)
    with Cons show ?case by (auto simp: p model_fields_Cons field_notin)
  qed simp
  with True show ?thesis by simp
qed simp

lemma distinct_record_fields: "distinct (map fst (record_fields e r))"
  by (simp add: record_fields_def)

lemma distinct_verdict_fields: "distinct (map fst (verdict_fields e v))"
  by (simp add: verdict_fields_def)

lemma field_dump_record: "field (dump_record e r) k = field (record_fields e r) k"
  by (simp add: dump_record_def field_model_fields distinct_record_fields)

lemma field_dump_verdict: "field (dump_verdict e v) k = field (verdict_fields e v) k"
  by (simp add: dump_verdict_def field_model_fields distinct_verdict_fields)

lemma opt_json_simps [simp]: "opt_json f None = JNull" "opt_json f (Some x) = f x"
  by (simp_all add: opt_json_def)

text \<open>A record and a verdict for the witnesses.\<close>

definition demo_record :: action_record where
  "demo_record = \<lparr>r_shield_version = SHIELD_VERSION, r_record_id = ''rec-1'',
     r_correlation_id = ''corr-1'', r_org_id = ''demo-org'', r_agent_id = ''agentdojo-banking-v1'',
     r_workflow_id = ''banking'', r_run_id = ''run-1'', r_step_index = 0, r_issued_at = 1000,
     r_ttl_ms = 30000, r_nonce = ''nonce-1'', r_phase = PRE_EXEC, r_action_type = TOOL_CALL,
     r_operation_type = ''tool_call'', r_subject = [],
     r_action = \<lparr>ac_tool = Some ''send_money'', ac_args_digest = None\<rparr>,
     r_payload = \<lparr>pl_tool_name = Some ''send_money'', pl_tool_args = [(''amount'', JInt 5)],
       pl_tool_result = JNull, pl_tool_error = None, pl_llm = None, pl_confidence = None\<rparr>,
     r_context = no_context, r_payload_hash = [], r_prev_chain_hash = ''genesis'',
     r_chain_hash = None, r_agent_pubkey_kid = ''kid-1'', r_verdict_ref = None, r_signature = None\<rparr>"

definition demo_verdict :: governance_verdict where
  "demo_verdict = \<lparr>v_shield_version = SHIELD_VERSION, v_verdict_id = ''v-1'',
     v_record_id = Some ''rec-1'', v_correlation_id = ''corr-1'', v_run_id = Some ''run-1'',
     v_decision = BLOCK, v_risk_score = Fin 1, v_reasons = [], v_obligations = no_obligations,
     v_latency_ms = None, v_served_at = None, v_shield_kid = None, v_signature_by_shield = None\<rparr>"

end
