(* ===== verification/Canonical.thy ===== *)
theory Canonical
  imports Crypto Schema
begin

text \<open>
  \<open>packages/shield-sdk/src/shield_sdk/canonical.py\<close>: which bytes of a record and of a
  verdict are hashed and signed.  The projection dumps the model without its None fields and
  drops the keys the server sets afterwards.

  The lemmas show that what the SDK finalizes verifies under the matching public key, that
  the fields the server attaches later (chain hash, signature) are outside the signed bytes,
  and that the signed bytes fix every other field of the record and of the verdict.
\<close>

section \<open>Projection\<close>

definition RECORD_UNSIGNED :: "string list" where
  "RECORD_UNSIGNED = [''signature'', ''chain_hash'']"

definition VERDICT_UNSIGNED :: "string list" where
  "VERDICT_UNSIGNED = [''signature_by_shield'']"

definition signable_dict :: "jobj \<Rightarrow> string list \<Rightarrow> jobj" where
  "signable_dict data drop_keys = fold dpop drop_keys data"

definition record_signable_dict :: "action_record \<Rightarrow> jobj" where
  "record_signable_dict r = signable_dict (dump_record True r) RECORD_UNSIGNED"

definition verdict_signable_dict :: "governance_verdict \<Rightarrow> jobj" where
  "verdict_signable_dict v = signable_dict (dump_verdict True v) VERDICT_UNSIGNED"

definition record_signing_string :: "prims \<Rightarrow> action_record \<Rightarrow> string" where
  "record_signing_string p r = jcs (float_repr p) (JObj (record_signable_dict r))"

definition verdict_signing_string :: "prims \<Rightarrow> governance_verdict \<Rightarrow> string" where
  "verdict_signing_string p v = jcs (float_repr p) (JObj (verdict_signable_dict v))"

section \<open>Payload hash and chain hash\<close>

definition compute_record_payload_hash :: "prims \<Rightarrow> action_record \<Rightarrow> string" where
  "compute_record_payload_hash p r = compute_payload_hash p (dump_payload True (r_payload r))"

definition derive_chain_hash :: "prims \<Rightarrow> string \<Rightarrow> action_record \<Rightarrow> string" where
  "derive_chain_hash p prev r =
     compute_chain_hash p prev (r_payload_hash r) (r_record_id r) (r_issued_at r)"

section \<open>Sign and verify\<close>

definition sign_record :: "prims \<Rightarrow> action_record \<Rightarrow> string \<Rightarrow> py_exc + string" where
  "sign_record p r private_key = sign_ed25519 p private_key (utf8 (record_signing_string p r))"

definition verify_record :: "prims \<Rightarrow> action_record \<Rightarrow> string \<Rightarrow> bool" where
  "verify_record p r public_key =
     (case r_signature r of
        None \<Rightarrow> False
      | Some sig \<Rightarrow> verify_ed25519 p public_key (utf8 (record_signing_string p r)) sig)"

definition verify_ingest :: "prims \<Rightarrow> action_record \<Rightarrow> string \<Rightarrow> bool" where
  "verify_ingest p r public_key = verify_record p r public_key"

definition sign_verdict :: "prims \<Rightarrow> governance_verdict \<Rightarrow> string \<Rightarrow> py_exc + string" where
  "sign_verdict p v private_key = sign_ed25519 p private_key (utf8 (verdict_signing_string p v))"

definition verify_verdict :: "prims \<Rightarrow> governance_verdict \<Rightarrow> string \<Rightarrow> bool" where
  "verify_verdict p v public_key =
     (case v_signature_by_shield v of
        None \<Rightarrow> False
      | Some sig \<Rightarrow> verify_ed25519 p public_key (utf8 (verdict_signing_string p v)) sig)"

section \<open>Finalizers\<close>

definition finalize_record :: "prims \<Rightarrow> action_record \<Rightarrow> string \<Rightarrow> py_exc + action_record" where
  "finalize_record p r private_key =
     (let f = r\<lparr>r_payload_hash := compute_record_payload_hash p r\<rparr> in
      rbind (sign_record p f private_key) (\<lambda>sig. Inr (f\<lparr>r_signature := Some sig\<rparr>)))"

definition finalize_verdict :: "prims \<Rightarrow> governance_verdict \<Rightarrow> string \<Rightarrow> py_exc + governance_verdict" where
  "finalize_verdict p v private_key =
     rbind (sign_verdict p v private_key) (\<lambda>sig. Inr (v\<lparr>v_signature_by_shield := Some sig\<rparr>))"

section \<open>Reading the projection back\<close>

lemma field_dpop: "field (dpop k d) k' = (if k = k' then JNull else field d k')"
  by (simp add: field_def)

lemma field_signable_record:
  "field (record_signable_dict r) k =
     (if k = ''signature'' \<or> k = ''chain_hash'' then JNull else field (record_fields True r) k)"
  by (simp add: record_signable_dict_def signable_dict_def RECORD_UNSIGNED_def field_dpop
      field_dump_record)

lemma field_signable_verdict:
  "field (verdict_signable_dict v) k =
     (if k = ''signature_by_shield'' then JNull else field (verdict_fields True v) k)"
  by (simp add: verdict_signable_dict_def signable_dict_def VERDICT_UNSIGNED_def field_dpop
      field_dump_verdict)

text \<open>Objects with the same normal form agree on every field.\<close>

lemma distinct_sort_fst:
  fixes d :: "('a::linorder \<times> 'b) list"
  shows "distinct (map fst (sort_key fst d)) \<longleftrightarrow> distinct (map fst d)"
  by (metis distinct_map distinct_sort set_sort)

lemma map_of_norm:
  assumes "distinct (map fst d)"
  shows "map_of (sort_key fst (map (map_prod id json_norm) d)) k = map_option json_norm (map_of d k)"
proof -
  let ?m = "map (map_prod id json_norm) d"
  have d: "distinct (map fst ?m)" using assms by (simp add: o_def)
  then have "map_of (sort_key fst ?m) = map_of ?m"
    by (intro map_of_inject_set[THEN iffD2]) (simp_all only: distinct_sort_fst set_sort)
  then show ?thesis by (simp add: map_prod_def map_of_map split_beta)
qed

lemma norm_field:
  assumes "json_norm (JObj a) = json_norm (JObj b)"
    and "distinct (map fst a)" and "distinct (map fst b)"
  shows "json_norm (field a k) = json_norm (field b k)"
proof -
  from assms(1) have "map_option json_norm (map_of a k) = map_option json_norm (map_of b k)"
    using map_of_norm[OF assms(2), of k] map_of_norm[OF assms(3), of k] by simp
  then show ?thesis by (auto simp: field_def split: option.splits)
qed


lemma norm_opt_JStr [simp]: "json_norm (opt_json JStr x) = opt_json JStr x"
  by (cases x) simp_all

lemma opt_JStr_inject [simp]: "opt_json JStr x = opt_json JStr y \<longleftrightarrow> x = y"
  by (cases x; cases y) simp_all

lemma dump_action_norm_inject:
  assumes "json_norm (dump_action True a) = json_norm (dump_action True b)"
  shows "a = b"
proof -
  let ?f = "\<lambda>a. model_fields True
     [(''tool'', opt_json JStr (ac_tool a)), (''args_digest'', opt_json JStr (ac_args_digest a))]"
  have d: "distinct (map fst (?f a))" for a by (rule distinct_model_fields) simp
  have "json_norm (field (?f a) k) = json_norm (field (?f b) k)" for k
    using norm_field[OF _ d[of a] d[of b]] assms by (simp add: dump_action_def)
  from this[of "''tool''"] this[of "''args_digest''"] show ?thesis
    by (simp add: field_model_fields)
qed

lemma dump_context_norm_inject:
  assumes "json_norm (dump_context True a) = json_norm (dump_context True b)"
  shows "a = b"
proof -
  let ?f = "\<lambda>c. model_fields True
     [(''checkpoint_id'', opt_json JStr (cx_checkpoint_id c)),
      (''langgraph_thread_id'', opt_json JStr (cx_langgraph_thread_id c)),
      (''env_snapshot_ref'', opt_json JStr (cx_env_snapshot_ref c))]"
  have d: "distinct (map fst (?f a))" for a by (rule distinct_model_fields) simp
  have "json_norm (field (?f a) k) = json_norm (field (?f b) k)" for k
    using norm_field[OF _ d[of a] d[of b]] assms by (simp add: dump_context_def)
  from this[of "''checkpoint_id''"] this[of "''langgraph_thread_id''"] this[of "''env_snapshot_ref''"]
  show ?thesis by (simp add: field_model_fields)
qed

lemma distinct_dpop: "distinct (map fst d) \<Longrightarrow> distinct (map fst (dpop k d))"
  by (rule AList.distinct_delete)

lemma distinct_record_signable: "distinct (map fst (record_signable_dict r))"
  by (simp add: record_signable_dict_def signable_dict_def RECORD_UNSIGNED_def dump_record_def
      distinct_dpop distinct_model_fields distinct_record_fields)

lemma distinct_verdict_signable: "distinct (map fst (verdict_signable_dict v))"
  by (simp add: verdict_signable_dict_def signable_dict_def VERDICT_UNSIGNED_def dump_verdict_def
      distinct_dpop distinct_model_fields distinct_verdict_fields)

text \<open>
  The values the code signs: dict keys are distinct and floats are binary64 (what Python
  guarantees of any \<open>dict\<close> and any \<open>float\<close>).
\<close>

definition record_json_ok :: "action_record \<Rightarrow> bool" where
  "record_json_ok r = json_ok (JObj (record_signable_dict r))"

definition verdict_json_ok :: "governance_verdict \<Rightarrow> bool" where
  "verdict_json_ok v = json_ok (JObj (verdict_signable_dict v))"

lemma signing_string_field:
  assumes "float_repr_ok (float_repr p)" and "record_json_ok r" and "record_json_ok r'"
    and "record_signing_string p r = record_signing_string p r'"
    and "k \<noteq> ''signature''" and "k \<noteq> ''chain_hash''"
  shows "json_norm (field (record_fields True r) k) = json_norm (field (record_fields True r') k)"
proof -
  have "json_norm (JObj (record_signable_dict r)) = json_norm (JObj (record_signable_dict r'))"
    using jcs_determines[OF assms(1)] assms(2-4)
    by (simp only: record_signing_string_def record_json_ok_def)
  from norm_field[OF this distinct_record_signable distinct_record_signable, of k] assms(5,6)
  show ?thesis by (simp add: field_signable_record)
qed

lemma verdict_signing_string_field:
  assumes "float_repr_ok (float_repr p)" and "verdict_json_ok v" and "verdict_json_ok v'"
    and "verdict_signing_string p v = verdict_signing_string p v'"
    and "k \<noteq> ''signature_by_shield''"
  shows "json_norm (field (verdict_fields True v) k) = json_norm (field (verdict_fields True v') k)"
proof -
  have "json_norm (JObj (verdict_signable_dict v)) = json_norm (JObj (verdict_signable_dict v'))"
    using jcs_determines[OF assms(1)] assms(2-4)
    by (simp only: verdict_signing_string_def verdict_json_ok_def)
  from norm_field[OF this distinct_verdict_signable distinct_verdict_signable, of k] assms(5)
  show ?thesis by (simp add: field_signable_verdict)
qed

text \<open>The fields the server attaches afterwards are not signed.\<close>

lemma dpop_model_fields: "dpop k (model_fields e kvs) = model_fields e (dpop k kvs)"
  by (simp add: model_fields_def AList.delete_eq conj_commute)

lemma signing_string_unsigned [simp]:
  "record_signing_string p (r\<lparr>r_chain_hash := c\<rparr>) = record_signing_string p r"
  "record_signing_string p (r\<lparr>r_signature := s\<rparr>) = record_signing_string p r"
proof -
  have u: "record_signable_dict (r\<lparr>r_chain_hash := c\<rparr>) = record_signable_dict r"
    "record_signable_dict (r\<lparr>r_signature := s\<rparr>) = record_signable_dict r"
    by (simp_all add: record_signable_dict_def signable_dict_def RECORD_UNSIGNED_def
        dump_record_def dpop_model_fields) (simp_all add: record_fields_def)
  show "record_signing_string p (r\<lparr>r_chain_hash := c\<rparr>) = record_signing_string p r"
    "record_signing_string p (r\<lparr>r_signature := s\<rparr>) = record_signing_string p r"
    by (simp_all add: record_signing_string_def u)
qed

lemma verdict_signing_string_unsigned [simp]:
  "verdict_signing_string p (v\<lparr>v_signature_by_shield := s\<rparr>) = verdict_signing_string p v"
proof -
  have "verdict_signable_dict (v\<lparr>v_signature_by_shield := s\<rparr>) = verdict_signable_dict v"
    by (simp add: verdict_signable_dict_def signable_dict_def VERDICT_UNSIGNED_def
        dump_verdict_def dpop_model_fields) (simp add: verdict_fields_def)
  then show ?thesis by (simp add: verdict_signing_string_def)
qed

section \<open>What a signature covers\<close>

lemma finalize_record_total:
  assumes "get_public_key_base64url p sk = Inr pk"
  shows "\<exists>r'. finalize_record p r sk = Inr r'"
  using sign_total[OF assms] by (simp add: finalize_record_def sign_record_def Let_def rbind_Inr_iff)

lemma finalize_verdict_total:
  assumes "get_public_key_base64url p sk = Inr pk"
  shows "\<exists>v'. finalize_verdict p v sk = Inr v'"
  using sign_total[OF assms] by (simp add: finalize_verdict_def sign_verdict_def rbind_Inr_iff)

lemma finalize_verdict_verify:
  assumes "ed25519_ok p" and "get_public_key_base64url p sk = Inr pk"
    and "finalize_verdict p v sk = Inr v'"
  shows "verify_verdict p v' pk \<and> v' = v\<lparr>v_signature_by_shield := v_signature_by_shield v'\<rparr>"
  using assms verify_sign_ed25519[OF assms(1) _ assms(2)]
  by (auto simp: finalize_verdict_def sign_verdict_def verify_verdict_def)

lemma finalize_record_verify:
  assumes "ed25519_ok p" and "get_public_key_base64url p sk = Inr pk"
    and "finalize_record p r sk = Inr r'"
  shows "verify_record p r' pk"
  using assms verify_sign_ed25519[OF assms(1) _ assms(2)]
  by (auto simp: finalize_record_def sign_record_def verify_record_def Let_def)

text \<open>
C1. What the SDK finalizes verifies: with a signing key whose public key is \<open>pk\<close>,
\<open>finalize_record\<close> does not raise, its result carries the hash of its own payload, verifies
under \<open>pk\<close> at the server's \<open>verify_ingest\<close>, and still verifies after the server has attached
any derived chain hash; nothing but the payload hash and the signature of the record changed.
\<close>

theorem finalize_record_roundtrip:
  assumes "ed25519_ok p" and "get_public_key_base64url p sk = Inr pk"
  shows "\<exists>r'. finalize_record p r sk = Inr r'
    \<and> r_payload_hash r' = compute_record_payload_hash p r'
    \<and> verify_ingest p r' pk \<and> verify_ingest p (r'\<lparr>r_chain_hash := c\<rparr>) pk
    \<and> r'\<lparr>r_payload_hash := r_payload_hash r, r_signature := r_signature r\<rparr> = r"
proof -
  from finalize_record_total[OF assms(2)] obtain r' where r': "finalize_record p r sk = Inr r'" ..
  from finalize_record_verify[OF assms r'] have v: "verify_record p r' pk" .
  from r' obtain sig where
    "r' = r\<lparr>r_payload_hash := compute_record_payload_hash p r, r_signature := Some sig\<rparr>"
    by (auto simp: finalize_record_def Let_def)
  with r' v show ?thesis
    by (auto simp: verify_ingest_def verify_record_def compute_record_payload_hash_def)
qed

theorem finalize_record_roundtrip_witness:
  "\<exists>r'. finalize_record demo_prims demo_record demo_key = Inr r' \<and> verify_ingest demo_prims r' demo_key"
  using finalize_record_roundtrip[OF ed25519_ok_demo demo_key_public] by blast

lemma signing_string_fields:
  assumes "float_repr_ok (float_repr p)" and "record_json_ok r" and "record_json_ok r'"
    and "record_signing_string p r = record_signing_string p r'"
  shows "r_shield_version r = r_shield_version r'" "r_workflow_id r = r_workflow_id r'"
    "r_action_type r = r_action_type r'" "r_operation_type r = r_operation_type r'"
    "r_record_id r = r_record_id r'" "r_correlation_id r = r_correlation_id r'"
    "r_org_id r = r_org_id r'" "r_agent_id r = r_agent_id r'" "r_run_id r = r_run_id r'"
    "r_step_index r = r_step_index r'" "r_issued_at r = r_issued_at r'" "r_ttl_ms r = r_ttl_ms r'"
    "r_nonce r = r_nonce r'" "r_phase r = r_phase r'" "r_action r = r_action r'"
    "r_context r = r_context r'" "r_payload_hash r = r_payload_hash r'"
    "r_prev_chain_hash r = r_prev_chain_hash r'" "r_agent_pubkey_kid r = r_agent_pubkey_kid r'"
    "r_verdict_ref r = r_verdict_ref r'"
    "json_norm (JObj (r_subject r)) = json_norm (JObj (r_subject r'))"
    "json_norm (dump_payload True (r_payload r)) = json_norm (dump_payload True (r_payload r'))"
proof -
  note f = signing_string_field[OF assms]
  show "r_shield_version r = r_shield_version r'"
    using f[of "''shield_version''"] by (simp add: record_fields_def)
  show "r_workflow_id r = r_workflow_id r'"
    using f[of "''workflow_id''"] by (simp add: record_fields_def)
  show "r_action_type r = r_action_type r'"
    using f[of "''action_type''"] by (simp add: record_fields_def)
  show "r_operation_type r = r_operation_type r'"
    using f[of "''operation_type''"] by (simp add: record_fields_def)
  show "r_record_id r = r_record_id r'"
    using f[of "''record_id''"] by (simp add: record_fields_def)
  show "r_correlation_id r = r_correlation_id r'"
    using f[of "''correlation_id''"] by (simp add: record_fields_def)
  show "r_org_id r = r_org_id r'" using f[of "''org_id''"] by (simp add: record_fields_def)
  show "r_agent_id r = r_agent_id r'" using f[of "''agent_id''"] by (simp add: record_fields_def)
  show "r_run_id r = r_run_id r'" using f[of "''run_id''"] by (simp add: record_fields_def)
  show "r_step_index r = r_step_index r'"
    using f[of "''step_index''"] by (simp add: record_fields_def)
  show "r_issued_at r = r_issued_at r'"
    using f[of "''issued_at''"] by (simp add: record_fields_def)
  show "r_ttl_ms r = r_ttl_ms r'" using f[of "''ttl_ms''"] by (simp add: record_fields_def)
  show "r_nonce r = r_nonce r'" using f[of "''nonce''"] by (simp add: record_fields_def)
  show "r_phase r = r_phase r'" using f[of "''phase''"] by (simp add: record_fields_def)
  show "r_action r = r_action r'"
    by (rule dump_action_norm_inject) (use f[of "''action''"] in \<open>simp add: record_fields_def\<close>)
  show "r_context r = r_context r'"
    by (rule dump_context_norm_inject) (use f[of "''context''"] in \<open>simp add: record_fields_def\<close>)
  show "r_payload_hash r = r_payload_hash r'"
    using f[of "''payload_hash''"] by (simp add: record_fields_def)
  show "r_prev_chain_hash r = r_prev_chain_hash r'"
    using f[of "''prev_chain_hash''"] by (simp add: record_fields_def)
  show "r_agent_pubkey_kid r = r_agent_pubkey_kid r'"
    using f[of "''agent_pubkey_kid''"] by (simp add: record_fields_def)
  show "r_verdict_ref r = r_verdict_ref r'"
    using f[of "''verdict_ref''"] by (simp add: record_fields_def)
  show "json_norm (JObj (r_subject r)) = json_norm (JObj (r_subject r'))"
    using f[of "''subject''"] by (simp add: record_fields_def)
  show "json_norm (dump_payload True (r_payload r)) = json_norm (dump_payload True (r_payload r'))"
    using f[of "''payload''"] by (simp add: record_fields_def)
qed

text \<open>
The signed string of a record fixes the record: two records with the same signing string
agree on every field except the chain hash and the signature (open objects up to key order and
the spelling of a float zero), so a signature cannot be carried over to a record with a
different amount, recipient, nonce, agent, phase or payload hash.
\<close>

theorem record_signing_string_determines:
  assumes "float_repr_ok (float_repr p)" and "record_json_ok r" and "record_json_ok r'"
    and "record_signing_string p r = record_signing_string p r'"
  shows "r' = r\<lparr>r_subject := r_subject r', r_payload := r_payload r',
              r_chain_hash := r_chain_hash r', r_signature := r_signature r'\<rparr>
    \<and> json_norm (JObj (r_subject r)) = json_norm (JObj (r_subject r'))
    \<and> json_norm (dump_payload True (r_payload r)) = json_norm (dump_payload True (r_payload r'))"
  using signing_string_fields[OF assms] by simp

lemma demo_record_json_ok: "record_json_ok demo_record"
  by (simp add: record_json_ok_def record_signable_dict_def signable_dict_def RECORD_UNSIGNED_def
      dump_record_def record_fields_def demo_record_def model_fields_def dump_action_def
      dump_payload_def dump_context_def no_context_def)

theorem record_signing_string_determines_witness:
  "record_json_ok demo_record \<and>
   (\<exists>r'. r' = demo_record\<lparr>r_signature := Some ''s''\<rparr> \<and>
      r' = demo_record\<lparr>r_subject := r_subject r', r_payload := r_payload r',
              r_chain_hash := r_chain_hash r', r_signature := r_signature r'\<rparr>)"
proof -
  let ?r = "demo_record\<lparr>r_signature := Some ''s''\<rparr>"
  have "record_json_ok ?r" using demo_record_json_ok
    by (simp add: record_json_ok_def record_signable_dict_def signable_dict_def RECORD_UNSIGNED_def
        dump_record_def record_fields_def dpop_model_fields)
  from record_signing_string_determines[where p = demo_prims, OF _ demo_record_json_ok this]
  show ?thesis using demo_record_json_ok float_repr_ok_demo by simp
qed

end
