(* ===== verification/Policy.thy ===== *)
theory Policy
  imports Schema
begin

text \<open>
  \<open>packages/shield-sdk/src/shield_sdk/policy.py\<close>: what the gate does when the decision service
  is slow or down, per tool.
\<close>

datatype fail_mode = FM_OPEN | FM_CLOSED

definition FAIL_CLOSED_TOOLS :: "string list" where
  "FAIL_CLOSED_TOOLS = [''send_money'', ''update_password'', ''update_scheduled_transaction'']"

record fail_policy =
  fp_default :: fail_mode
  fp_overrides :: "(string, fail_mode) dict"

definition ratified :: fail_policy where
  "ratified = \<lparr>fp_default = FM_OPEN, fp_overrides = map (\<lambda>t. (t, FM_CLOSED)) FAIL_CLOSED_TOOLS\<rparr>"

definition fail_mode_for :: "fail_policy \<Rightarrow> string \<Rightarrow> fail_mode" where
  "fail_mode_for p tool = (case dget (fp_overrides p) tool of None \<Rightarrow> fp_default p | Some m \<Rightarrow> m)"

definition synthetic_degraded_verdict ::
  "string \<Rightarrow> action_record \<Rightarrow> fail_mode \<Rightarrow> string \<Rightarrow> governance_verdict" where
  "synthetic_degraded_verdict vid r mode detail =
     (let (d, label, risk) =
        (if mode = FM_OPEN then (ALERT, ''shield-degraded-warn'', Fin 0)
         else (BLOCK, ''shield-degraded-fail-closed'', Fin 1))
      in verdict_for vid r d risk [verdict_reason_of DEFENDER label (Some detail) None] no_obligations)"

lemma fail_mode_ratified:
  "fail_mode_for ratified tool = (if tool \<in> set FAIL_CLOSED_TOOLS then FM_CLOSED else FM_OPEN)"
  by (simp add: fail_mode_for_def ratified_def FAIL_CLOSED_TOOLS_def)

lemma synthetic_decision:
  "v_decision (synthetic_degraded_verdict vid r mode detail) = (case mode of FM_OPEN \<Rightarrow> ALERT | FM_CLOSED \<Rightarrow> BLOCK)"
  "v_obligations (synthetic_degraded_verdict vid r mode detail) = no_obligations"
  "v_verdict_id (synthetic_degraded_verdict vid r mode detail) = vid"
  by (cases mode; simp add: synthetic_degraded_verdict_def)+

end
