(* ===== verification/PyText.thy ===== *)
theory PyText
  imports Jcs
begin

text \<open>
  The Python built-ins on values that the gate's rules use: truth values, \<open>str()\<close>,
  \<open>repr()\<close>, \<open>float()\<close> of a JSON value, \<open>str.upper\<close>, \<open>str.replace\<close>, \<open>str.startswith\<close> and
  the left fold of \<open>sum\<close> (CPython 3.11, the version the repository pins).  The shortest float
  repr is the parameter \<open>fr\<close> that the canonical form uses.
\<close>

section \<open>Strings\<close>

definition upper_char :: "char \<Rightarrow> string" where
  "upper_char c =
     (let n = (of_char c :: nat) in
      if n = 223 then ''SS''
      else if (97 \<le> n \<and> n \<le> 122) \<or> (224 \<le> n \<and> n \<le> 254 \<and> n \<noteq> 247) then [char_of (n - 32)]
      else [c])"

definition py_upper :: "string \<Rightarrow> string" where
  "py_upper s = concat (map upper_char s)"

definition lower_char :: "char \<Rightarrow> char" where
  "lower_char c =
     (let n = (of_char c :: nat) in
      if 65 \<le> n \<and> n \<le> 90 \<or> 192 \<le> n \<and> n \<le> 222 \<and> n \<noteq> 215 then char_of (n + 32) else c)"

definition py_lower :: "string \<Rightarrow> string" where
  "py_lower s = map lower_char s"

definition lower_ascii :: "char \<Rightarrow> char" where
  "lower_ascii c = (let n = (of_char c :: nat) in if 65 \<le> n \<and> n \<le> 90 then char_of (n + 32) else c)"

definition starts_with :: "string \<Rightarrow> string \<Rightarrow> bool" where
  "starts_with s p = prefix p s"

definition remove_char :: "char \<Rightarrow> string \<Rightarrow> string" where
  "remove_char c s = filter (\<lambda>x. x \<noteq> c) s"

fun has_substring :: "string \<Rightarrow> string \<Rightarrow> bool" where
  "has_substring t [] = (t = [])"
| "has_substring t (c # s) = (prefix t (c # s) \<or> has_substring t s)"

lemma has_substring_iff: "has_substring t s \<longleftrightarrow> (\<exists>a b. s = a @ t @ b)"
  by (induction s) (auto simp: prefix_def append_eq_Cons_conv Cons_eq_append_conv)

section \<open>repr and str\<close>

definition hex2 :: "nat \<Rightarrow> string" where
  "hex2 n = [hex_char (n div 16), hex_char (n mod 16)]"

definition repr_char :: "char \<Rightarrow> char \<Rightarrow> string" where
  "repr_char q c =
     (let n = (of_char c :: nat); bs = char_of (92::nat) in
      if c = q \<or> n = 92 then [bs, c]
      else if n = 9 then [bs, CHR ''t'']
      else if n = 10 then [bs, CHR ''n'']
      else if n = 13 then [bs, CHR ''r'']
      else if n < 32 \<or> (127 \<le> n \<and> n \<le> 160) \<or> n = 173 then bs # CHR ''x'' # hex2 n
      else [c])"

definition repr_str :: "string \<Rightarrow> string" where
  "repr_str s =
     (let sq = char_of (39::nat); dq = char_of (34::nat);
          q = (if sq \<in> set s \<and> dq \<notin> set s then dq else sq)
      in q # concat (map (repr_char q) s) @ [q])"

definition repr_float :: "(rat \<Rightarrow> string) \<Rightarrow> pyfloat \<Rightarrow> string" where
  "repr_float fr v =
     (case v of NaN \<Rightarrow> ''nan'' | PInf \<Rightarrow> ''inf'' | NInf \<Rightarrow> ''-inf''
      | Fin x \<Rightarrow> if x = 0 then ''0.0'' else fr x)"

primrec py_repr :: "(rat \<Rightarrow> string) \<Rightarrow> json \<Rightarrow> string" where
  "py_repr fr JNull = ''None''"
| "py_repr fr (JBool b) = (if b then ''True'' else ''False'')"
| "py_repr fr (JInt i) = show_int i"
| "py_repr fr (JFloat v) = repr_float fr v"
| "py_repr fr (JStr s) = repr_str s"
| "py_repr fr (JArr vs) = ''['' @ join '', '' (map (py_repr fr) vs) @ '']''"
| "py_repr fr (JObj kvs) =
     ''{'' @ join '', '' (map (\<lambda>p. repr_str (fst p) @ '': '' @ snd p)
                          (map (map_prod id (py_repr fr)) kvs)) @ ''}''"

definition py_str :: "(rat \<Rightarrow> string) \<Rightarrow> json \<Rightarrow> string" where
  "py_str fr v = (case v of JStr s \<Rightarrow> s | _ \<Rightarrow> py_repr fr v)"

lemma py_str_JStr [simp]: "py_str fr (JStr s) = s"
  by (simp add: py_str_def)

section \<open>Truth value\<close>

fun truthy :: "json \<Rightarrow> bool" where
  "truthy JNull = False"
| "truthy (JBool b) = b"
| "truthy (JInt i) = (i \<noteq> 0)"
| "truthy (JFloat v) = (v \<noteq> Fin 0)"
| "truthy (JStr s) = (s \<noteq> [])"
| "truthy (JArr vs) = (vs \<noteq> [])"
| "truthy (JObj kvs) = (kvs \<noteq> [])"

section \<open>float() of a string and of a value\<close>

definition float_space :: "char \<Rightarrow> bool" where
  "float_space c = (let n = (of_char c :: nat) in (9 \<le> n \<and> n \<le> 13) \<or> n = 32 \<or> n = 133 \<or> n = 160)"

definition strip_by :: "(char \<Rightarrow> bool) \<Rightarrow> string \<Rightarrow> string" where
  "strip_by f s = rev (dropWhile f (rev (dropWhile f s)))"

text \<open>Underscores are allowed between two digits only.\<close>

fun drop_underscores :: "bool \<Rightarrow> string \<Rightarrow> string option" where
  "drop_underscores d [] = Some []"
| "drop_underscores d (c # s) =
     (if c = CHR ''_'' then
        (case s of [] \<Rightarrow> None
         | c' # s' \<Rightarrow>
             if d \<and> is_digit c' then map_option ((#) c') (drop_underscores True s') else None)
      else map_option ((#) c) (drop_underscores (is_digit c) s))"

definition split_sign :: "string \<Rightarrow> bool \<times> string" where
  "split_sign s =
     (case s of [] \<Rightarrow> (False, s)
      | c # t \<Rightarrow> if c = CHR ''-'' then (True, t) else if c = CHR ''+'' then (False, t) else (False, s))"

definition pow10 :: "int \<Rightarrow> rat" where
  "pow10 e = (if 0 \<le> e then 10 ^ nat e else 1 / 10 ^ nat (- e))"

text \<open>An optional exponent up to the end of the string.\<close>

definition parse_exponent :: "string \<Rightarrow> int option" where
  "parse_exponent s =
     (case s of [] \<Rightarrow> Some 0
      | c # t \<Rightarrow>
          if c = CHR ''e'' \<or> c = CHR ''E'' then
            (let (neg, ds) = split_sign t in
             if ds \<noteq> [] \<and> list_all is_digit ds
             then Some (if neg then - int (digits_value ds) else int (digits_value ds))
             else None)
          else None)"

definition parse_decimal :: "string \<Rightarrow> rat option" where
  "parse_decimal s =
     (let ip = takeWhile is_digit s; r = dropWhile is_digit s;
          (fp, r') = (case r of [] \<Rightarrow> ([], r)
             | c # t \<Rightarrow> if c = CHR ''.'' then (takeWhile is_digit t, dropWhile is_digit t) else ([], r))
      in if ip @ fp = [] then None
         else map_option (\<lambda>e. of_nat (digits_value (ip @ fp)) * pow10 (e - int (length fp)))
                (parse_exponent r'))"

definition float_of_str :: "string \<Rightarrow> pyfloat option" where
  "float_of_str s =
     (case drop_underscores False (strip_by float_space s) of
        None \<Rightarrow> None
      | Some t \<Rightarrow>
        (let (neg, b) = split_sign t; w = map lower_ascii b;
             signed = (\<lambda>v. if neg then fneg v else v)
         in if w = ''inf'' \<or> w = ''infinity'' then Some (signed PInf)
            else if w = ''nan'' then Some NaN
            else map_option (\<lambda>q. signed (rnd64 q)) (parse_decimal b)))"

definition py_float :: "json \<Rightarrow> py_exc + pyfloat" where
  "py_float v =
     (case v of
        JBool b \<Rightarrow> Inr (Fin (if b then 1 else 0))
      | JInt i \<Rightarrow> (case float_of_int i of None \<Rightarrow> Inl OverflowError | Some x \<Rightarrow> Inr x)
      | JFloat x \<Rightarrow> Inr x
      | JStr s \<Rightarrow> (case float_of_str s of None \<Rightarrow> Inl ValueError | Some x \<Rightarrow> Inr x)
      | _ \<Rightarrow> Inl TypeError)"

section \<open>sum of floats\<close>

definition py_sum :: "pyfloat list \<Rightarrow> pyfloat" where
  "py_sum xs = foldl fadd (Fin 0) xs"

text \<open>Integer amounts below 2^53 convert and add exactly.\<close>

lemma py_float_JInt: "\<bar>i\<bar> < 2 ^ 53 \<Longrightarrow> py_float (JInt i) = Inr (Fin (of_int i))"
  by (simp add: py_float_def float_of_int_def rnd64_int_exact)

lemma fadd_ints: "\<bar>i + j\<bar> < 2 ^ 53 \<Longrightarrow> fadd (Fin (of_int i)) (Fin (of_int j)) = Fin (of_int (i + j))"
  using rnd64_int_exact[of "i + j"] by simp

lemma foldl_fadd_ints:
  assumes "\<forall>i \<in> set ns. 0 \<le> i" and "0 \<le> a" and "a + sum_list ns < 2 ^ 53"
  shows "foldl fadd (Fin (of_int a)) (map (\<lambda>i. Fin (of_int i)) ns) = Fin (of_int (a + sum_list ns))"
  using assms
proof (induction ns arbitrary: a)
  case (Cons i ns)
  have "0 \<le> sum_list ns" using Cons.prems(1) by (simp add: sum_list_nonneg)
  then have "\<bar>a + i\<bar> < 2 ^ 53" using Cons.prems by simp
  then have "fadd (Fin (of_int a)) (Fin (of_int i)) = Fin (of_int (a + i))" by (rule fadd_ints)
  with Cons.IH[of "a + i"] Cons.prems show ?case by (simp add: add.assoc)
qed simp

lemma py_sum_ints:
  assumes "\<forall>i \<in> set ns. 0 \<le> i" and "sum_list ns < 2 ^ 53"
  shows "py_sum (map (\<lambda>i. Fin (of_int i)) ns) = Fin (of_int (sum_list ns))"
  using foldl_fadd_ints[of ns 0] assms by (simp add: py_sum_def)

section \<open>json.dumps with sorted keys\<close>

text \<open>
  \<open>json.dumps(v, sort_keys=True, separators=(',', ':'))\<close>: ASCII output, keys sorted at every
  level, floats as their \<open>repr\<close>.
\<close>

definition ascii_esc :: "char \<Rightarrow> string" where
  "ascii_esc c =
     (let n = (of_char c :: nat) in
      if n < 127 then json_esc c
      else char_of (92::nat) # ''u00'' @ [hex_char (n div 16), hex_char (n mod 16)])"

definition ascii_quote :: "string \<Rightarrow> string" where
  "ascii_quote s = char_of (34::nat) # concat (map ascii_esc s) @ [char_of (34::nat)]"

definition dumps_float :: "(rat \<Rightarrow> string) \<Rightarrow> pyfloat \<Rightarrow> string" where
  "dumps_float fr v =
     (case v of NaN \<Rightarrow> ''NaN'' | PInf \<Rightarrow> ''Infinity'' | NInf \<Rightarrow> ''-Infinity'' | Fin x \<Rightarrow> repr_float fr (Fin x))"

primrec dumps_sorted :: "(rat \<Rightarrow> string) \<Rightarrow> json \<Rightarrow> string" where
  "dumps_sorted fr JNull = ''null''"
| "dumps_sorted fr (JBool b) = (if b then ''true'' else ''false'')"
| "dumps_sorted fr (JInt i) = show_int i"
| "dumps_sorted fr (JFloat v) = dumps_float fr v"
| "dumps_sorted fr (JStr s) = ascii_quote s"
| "dumps_sorted fr (JArr vs) = ''['' @ join '','' (map (dumps_sorted fr) vs) @ '']''"
| "dumps_sorted fr (JObj kvs) =
     ''{'' @ join '','' (map (\<lambda>kv. ascii_quote (fst kv) @ '':'' @ snd kv)
        (sort_key fst (map (map_prod id (dumps_sorted fr)) kvs))) @ ''}''"

end
