(* ===== verification/Elements.thy ===== *)
theory Elements
  imports Canonical Policy PyText
begin

text \<open>
  \<open>packages/shield-sdk/src/shield_sdk/instrument/agentdojo/elements.py\<close>: the three pipeline
  elements around the tools executor (\<open>ShieldGuard\<close>, \<open>ShieldedToolsExecutor\<close>,
  \<open>ShieldRecorder\<close>) and the state they share in \<open>extra_args["shield"]\<close>.

  \<^item> The environment is a value of any type; \<open>run_function\<close> updates the live environment in
    place, so the executor's state carries the live value and the returned environment, which is
    the live one until a rollback replaces it by the copy of a snapshot.
  \<^item> What the code draws from the clock and from randomness for one record (ids, nonce, time) is
    \<open>fresh\<close>, indexed by the step of the record.
  \<^item> The decision service, the tool runtime, the formatter, the string-list coercion of AgentDojo
    and the callbacks are parameters; the calls made to the runtime and to the callbacks are
    returned as effects, in order.
  \<^item> Characters beyond code point 255 in the synthesized messages are written by their UTF-8 bytes.
\<close>

section \<open>Configuration and state\<close>

datatype escalate_mode = ESC_BLOCK | ESC_APPROVE | ESC_LIVE

record fresh =
  fr_record_id :: string
  fr_correlation_id :: string
  fr_nonce :: string
  fr_issued_at :: int
  fr_verdict_id :: string

record tool_call =
  tc_id :: "string option"
  tc_function :: string
  tc_args :: jobj

record 'e element_config =
  ec_prims :: prims
  ec_decide :: "action_record \<Rightarrow> string + governance_verdict"
  ec_private_key :: string
  ec_pubkey_kid :: string
  ec_org_id :: string
  ec_agent_id :: string
  ec_workflow_id :: string
  ec_run_id :: "string option"
  ec_thread_id :: "string option"
  ec_fail_policy :: fail_policy
  ec_escalate_mode :: escalate_mode
  ec_escalation_handler :: "(governance_verdict \<Rightarrow> action_record \<Rightarrow> jobj \<Rightarrow> bool) option"
  ec_env_restore_hook :: bool
  ec_checkpoint_hook :: bool
  ec_fresh :: "int \<Rightarrow> fresh"
  ec_uuid :: string
  ec_has_copy :: "'e \<Rightarrow> bool"
  ec_functions :: "string list"
  ec_empty_name :: string
  ec_run :: "'e \<Rightarrow> string \<Rightarrow> jobj \<Rightarrow> 'e \<times> json \<times> string option"
  ec_format :: "json \<Rightarrow> string"
  ec_string_list :: "string \<Rightarrow> json option"

record 'e shield_decision =
  sd_key :: string
  sd_pre_record :: action_record
  sd_verdict :: governance_verdict
  sd_env_snapshot :: 'e
  sd_degraded :: bool
  sd_executed :: bool
  sd_result :: json
  sd_error :: "string option"
  sd_executed_args :: "jobj option"
  sd_recorded :: bool

record rollback_signal =
  sg_record_id :: string
  sg_correlation_id :: string
  sg_env_snapshot_ref :: "string option"
  sg_layer1_env_restored :: bool
  sg_langgraph_thread_id :: "string option"
  sg_langgraph_checkpoint_id :: "string option"

record 'e shield_state =
  sh_decisions :: "(string, 'e shield_decision) dict"
  sh_chain_head :: string
  sh_step :: int
  sh_run_id :: string
  sh_rollback_signals :: "rollback_signal list"
  sh_hitl_signals :: "(string \<times> string \<times> bool) list"

record 'e extra_args =
  xa_shield :: "'e shield_state option"
  xa_run_id :: "string option"

definition tool_call_key :: "tool_call \<Rightarrow> nat \<Rightarrow> string" where
  "tool_call_key tc idx = (case tc_id tc of Some i \<Rightarrow> i | None \<Rightarrow> ''__shield_idx_'' @ show_nat idx)"

text \<open>\<open>a or b or c\<close> on optional strings: the first one that is neither None nor empty.\<close>

definition or_str :: "string option \<Rightarrow> string \<Rightarrow> string" where
  "or_str a b = (case a of None \<Rightarrow> b | Some s \<Rightarrow> if s = [] then b else s)"

definition shield_state_of :: "'e extra_args \<Rightarrow> 'e element_config \<Rightarrow> 'e shield_state" where
  "shield_state_of xa cfg =
     (case xa_shield xa of
        Some st \<Rightarrow> st
      | None \<Rightarrow> \<lparr>sh_decisions = [], sh_chain_head = GENESIS_CHAIN_HASH, sh_step = 0,
                sh_run_id = or_str (ec_run_id cfg) (or_str (xa_run_id xa) (ec_uuid cfg)),
                sh_rollback_signals = [], sh_hitl_signals = []\<rparr>)"

definition next_step :: "'e shield_state \<Rightarrow> 'e shield_state \<times> int" where
  "next_step st = (st\<lparr>sh_step := sh_step st + 1\<rparr>, sh_step st)"

definition args_digest :: "prims \<Rightarrow> jobj \<Rightarrow> string" where
  "args_digest p args = ''sha256:'' @ sha256_base64url p (jcs (float_repr p) (JObj args))"

definition decision_failure_detail :: "string \<Rightarrow> string" where
  "decision_failure_detail exc_name = exc_name @ '': decision request failed''"

section \<open>ShieldGuard\<close>

definition pre_record :: "'e element_config \<Rightarrow> string \<Rightarrow> int \<Rightarrow> string \<Rightarrow> tool_call \<Rightarrow> action_record" where
  "pre_record cfg run step head tc =
     (let f = ec_fresh cfg step in
      \<lparr>r_shield_version = SHIELD_VERSION, r_record_id = fr_record_id f,
       r_correlation_id = fr_correlation_id f, r_org_id = ec_org_id cfg, r_agent_id = ec_agent_id cfg,
       r_workflow_id = ec_workflow_id cfg, r_run_id = run, r_step_index = step,
       r_issued_at = fr_issued_at f, r_ttl_ms = 30000, r_nonce = fr_nonce f, r_phase = PRE_EXEC,
       r_action_type = TOOL_CALL, r_operation_type = ''tool_call'',
       r_subject = [(''agentdojo_tool_call_id'', opt_json JStr (tc_id tc))],
       r_action = \<lparr>ac_tool = Some (tc_function tc), ac_args_digest = Some (args_digest (ec_prims cfg) (tc_args tc))\<rparr>,
       r_payload = \<lparr>pl_tool_name = Some (tc_function tc), pl_tool_args = tc_args tc,
         pl_tool_result = JNull, pl_tool_error = None, pl_llm = None, pl_confidence = None\<rparr>,
       r_context = \<lparr>cx_checkpoint_id = None, cx_langgraph_thread_id = ec_thread_id cfg,
         cx_env_snapshot_ref = Some (fr_record_id f)\<rparr>,
       r_payload_hash = [], r_prev_chain_hash = head, r_chain_hash = None,
       r_agent_pubkey_kid = ec_pubkey_kid cfg, r_verdict_ref = None, r_signature = None\<rparr>)"

text \<open>The decision under the time budget: any failure becomes the synthetic verdict of the tool.\<close>

definition gate :: "'e element_config \<Rightarrow> string \<Rightarrow> action_record \<Rightarrow> string \<Rightarrow> governance_verdict \<times> bool" where
  "gate cfg tool pre vid =
     (case ec_decide cfg pre of
        Inr v \<Rightarrow> (v, False)
      | Inl exc \<Rightarrow> (synthetic_degraded_verdict vid pre (fail_mode_for (ec_fail_policy cfg) tool)
                     (decision_failure_detail exc), True))"

definition guard_call ::
  "'e element_config \<Rightarrow> 'e \<Rightarrow> 'e shield_state \<Rightarrow> nat \<Rightarrow> tool_call \<Rightarrow> py_exc + 'e shield_state" where
  "guard_call cfg env st idx tc =
     (let (st1, step) = next_step st in
      rbind (finalize_record (ec_prims cfg) (pre_record cfg (sh_run_id st) step (sh_chain_head st) tc)
               (ec_private_key cfg))
        (\<lambda>pre.
          let (v, degraded) = gate cfg (tc_function tc) pre (fr_verdict_id (ec_fresh cfg step)) in
          Inr (st1\<lparr>sh_chain_head := derive_chain_hash (ec_prims cfg) (sh_chain_head st) pre,
                  sh_decisions := dset (tool_call_key tc idx)
                    \<lparr>sd_key = tool_call_key tc idx, sd_pre_record = pre, sd_verdict = v,
                     sd_env_snapshot = env, sd_degraded = degraded, sd_executed = False,
                     sd_result = JNull, sd_error = None, sd_executed_args = None,
                     sd_recorded = False\<rparr>
                    (sh_decisions st1)\<rparr>)))"

fun guard_calls ::
  "'e element_config \<Rightarrow> 'e \<Rightarrow> 'e shield_state \<Rightarrow> nat \<Rightarrow> tool_call list \<Rightarrow> py_exc + 'e shield_state" where
  "guard_calls cfg env st idx [] = Inr st"
| "guard_calls cfg env st idx (tc # tcs) =
     rbind (guard_call cfg env st idx tc) (\<lambda>st'. guard_calls cfg env st' (Suc idx) tcs)"

text \<open>\<open>None\<close>: the last message is not an assistant message with tool calls.\<close>

definition guard_query ::
  "'e element_config \<Rightarrow> 'e \<Rightarrow> tool_call list option \<Rightarrow> 'e extra_args \<Rightarrow> py_exc + 'e extra_args" where
  "guard_query cfg env calls xa =
     (case calls of
        None \<Rightarrow> Inr xa
      | Some tcs \<Rightarrow>
          if tcs = [] then Inr xa
          else rbind (guard_calls cfg env (shield_state_of xa cfg) 0 tcs)
                 (\<lambda>st. Inr (xa\<lparr>xa_shield := Some st\<rparr>)))"

section \<open>ShieldedToolsExecutor\<close>

datatype ('e) effect =
    RunTool string jobj
  | RestoreHook "string option" 'e
  | CheckpointHook "string option" "string option"

record tool_result =
  tr_content :: string
  tr_call :: tool_call
  tr_error :: "string option"

record 'e exec_state =
  ex_live :: 'e
  ex_out :: "'e option"
  ex_shield :: "'e shield_state option"
  ex_results :: "tool_result list"
  ex_effects :: "'e effect list"

definition mask_prefix :: string where
  "mask_prefix = ''payload.tool_args.''"

definition apply_mask_args :: "jobj \<Rightarrow> string list option \<Rightarrow> jobj" where
  "apply_mask_args args masks =
     foldl (\<lambda>d path.
        if starts_with path mask_prefix then
          (let k = drop (length mask_prefix) path in
           if dget d k \<noteq> None then dset k (JStr ''***REDACTED***'') d else d)
        else d) args (case masks of None \<Rightarrow> [] | Some l \<Rightarrow> l)"

definition coerce_string_lists :: "(string \<Rightarrow> json option) \<Rightarrow> jobj \<Rightarrow> jobj" where
  "coerce_string_lists f args =
     map (\<lambda>(k, v). (k, case v of JStr s \<Rightarrow> (case f s of None \<Rightarrow> v | Some x \<Rightarrow> x) | _ \<Rightarrow> v)) args"

text \<open>Whether the call runs, the arguments after a rewrite, and a human decision to record.\<close>

definition enforce ::
  "'e element_config \<Rightarrow> 'e shield_decision option \<Rightarrow> tool_call \<Rightarrow> bool \<times> jobj \<times> bool option" where
  "enforce cfg dec tc =
     (case dec of
        None \<Rightarrow> (True, tc_args tc, None)
      | Some x \<Rightarrow>
        (let v = sd_verdict x; d = v_decision v in
         if d \<in> {PASS, ALERT} \<or> (d = ESCALATE \<and> ec_escalate_mode cfg = ESC_APPROVE)
         then (True, tc_args tc, None)
         else if d = ESCALATE \<and> ec_escalate_mode cfg = ESC_LIVE then
           (let approved = (case ec_escalation_handler cfg of
                              None \<Rightarrow> False | Some h \<Rightarrow> h v (sd_pre_record x) (tc_args tc))
            in (approved, tc_args tc, Some approved))
         else if d = REWRITE then
           (True, (case ob_rewrite_args (v_obligations v) of None \<Rightarrow> tc_args tc | Some a \<Rightarrow> a), None)
         else (False, tc_args tc, None)))"

definition prepared_args :: "'e element_config \<Rightarrow> 'e shield_decision option \<Rightarrow> jobj \<Rightarrow> jobj" where
  "prepared_args cfg dec args =
     coerce_string_lists (ec_string_list cfg)
       (case dec of None \<Rightarrow> args | Some x \<Rightarrow> apply_mask_args args (ob_mask_args (v_obligations (sd_verdict x))))"

definition glyph_back :: string where "glyph_back = map char_of [226::nat, 134, 169]"
definition glyph_stop :: string where "glyph_stop = map char_of [240::nat, 159, 155, 145]"
definition em_dash :: string where "em_dash = map char_of [226::nat, 128, 148]"

definition skip_message :: "decision \<Rightarrow> governance_verdict \<Rightarrow> string \<times> json" where
  "skip_message d v =
     (let (glyph, verb, out) =
        (if d = ROLLBACK then (glyph_back, ''Rolled back'', JObj [(''rolled_back'', JBool True)])
         else if d = ESCALATE then (glyph_stop, ''Escalated'', JObj [(''escalated'', JBool True)])
         else (glyph_stop, ''Blocked'', JObj [(''blocked'', JBool True)]));
          reason = (case v_reasons v of [] \<Rightarrow> [] | x # _ \<Rightarrow> rs_label x)
      in (glyph @ '' Agent Shield: '' @ verb @ '' '' @ em_dash @ '' '' @
            (if reason = [] then decision_value d else reason), out))"

definition set_decision :: "string \<Rightarrow> 'e shield_decision \<Rightarrow> 'e shield_state \<Rightarrow> 'e shield_state" where
  "set_decision key x st = st\<lparr>sh_decisions := dset key x (sh_decisions st)\<rparr>"

text \<open>The rollback of one call: the environment copy, the two hooks and the recorded signal.\<close>

definition rollback_call ::
  "'e element_config \<Rightarrow> 'e shield_decision \<Rightarrow> 'e exec_state \<Rightarrow> 'e exec_state" where
  "rollback_call cfg x st =
     (let restored = ec_has_copy cfg (sd_env_snapshot x);
          ctx = r_context (sd_pre_record x);
          ckpt = (case ob_rollback (v_obligations (sd_verdict x)) of
                    None \<Rightarrow> None | Some rb \<Rightarrow> rb_langgraph_checkpoint_id rb)
      in st\<lparr>ex_out := (if restored then Some (sd_env_snapshot x) else ex_out st),
            ex_effects := ex_effects st
              @ (if restored \<and> ec_env_restore_hook cfg
                 then [RestoreHook (cx_env_snapshot_ref ctx) (sd_env_snapshot x)] else [])
              @ (if ec_checkpoint_hook cfg then [CheckpointHook (cx_langgraph_thread_id ctx) ckpt] else []),
            ex_shield := map_option (\<lambda>sh. sh\<lparr>sh_rollback_signals := sh_rollback_signals sh @
              [\<lparr>sg_record_id = r_record_id (sd_pre_record x),
                sg_correlation_id = r_correlation_id (sd_pre_record x),
                sg_env_snapshot_ref = cx_env_snapshot_ref ctx, sg_layer1_env_restored = restored,
                sg_langgraph_thread_id = cx_langgraph_thread_id ctx,
                sg_langgraph_checkpoint_id = ckpt\<rparr>]\<rparr>) (ex_shield st)\<rparr>)"

definition add_result :: "tool_result \<Rightarrow> 'e exec_state \<Rightarrow> 'e exec_state" where
  "add_result t st = st\<lparr>ex_results := ex_results st @ [t]\<rparr>"

definition run_call ::
  "'e element_config \<Rightarrow> string \<Rightarrow> 'e shield_decision option \<Rightarrow> tool_call \<Rightarrow> jobj \<Rightarrow> 'e exec_state \<Rightarrow> 'e exec_state" where
  "run_call cfg key dec tc args st =
     (let args' = prepared_args cfg dec args;
          (live, res, err) = ec_run cfg (ex_live st) (tc_function tc) args'
      in add_result \<lparr>tr_content = ec_format cfg res, tr_call = tc\<lparr>tc_args := args'\<rparr>, tr_error = err\<rparr>
           (st\<lparr>ex_live := live, ex_effects := ex_effects st @ [RunTool (tc_function tc) args'],
              ex_shield := (case dec of None \<Rightarrow> ex_shield st
                | Some x \<Rightarrow> map_option (set_decision key
                    (x\<lparr>sd_executed := True, sd_result := res, sd_error := err,
                       sd_executed_args := Some args'\<rparr>)) (ex_shield st))\<rparr>))"

definition skip_call ::
  "'e element_config \<Rightarrow> string \<Rightarrow> 'e shield_decision \<Rightarrow> tool_call \<Rightarrow> 'e exec_state \<Rightarrow> 'e exec_state" where
  "skip_call cfg key x tc st =
     (let d = v_decision (sd_verdict x);
          st1 = (if d = ROLLBACK then rollback_call cfg x st else st);
          (msg, out) = skip_message d (sd_verdict x)
      in add_result \<lparr>tr_content = [], tr_call = tc, tr_error = Some msg\<rparr>
           (st1\<lparr>ex_shield := map_option (set_decision key
              (x\<lparr>sd_executed := False, sd_result := out, sd_error := Some msg\<rparr>)) (ex_shield st1)\<rparr>))"

definition decision_at :: "'e exec_state \<Rightarrow> string \<Rightarrow> 'e shield_decision option" where
  "decision_at st k = (case ex_shield st of None \<Rightarrow> None | Some sh \<Rightarrow> dget (sh_decisions sh) k)"

text \<open>The human answer of a live escalation is recorded as a signal.\<close>

definition note_human :: "bool option \<Rightarrow> 'e shield_decision option \<Rightarrow> 'e exec_state \<Rightarrow> 'e exec_state" where
  "note_human human dec st =
     (case (human, dec) of
        (Some approved, Some x) \<Rightarrow> st\<lparr>ex_shield := map_option (\<lambda>sh. sh\<lparr>sh_hitl_signals :=
           sh_hitl_signals sh @ [(r_record_id (sd_pre_record x),
             r_correlation_id (sd_pre_record x), approved)]\<rparr>) (ex_shield st)\<rparr>
      | _ \<Rightarrow> st)"

definition exec_call :: "'e element_config \<Rightarrow> nat \<Rightarrow> tool_call \<Rightarrow> 'e exec_state \<Rightarrow> 'e exec_state" where
  "exec_call cfg idx tc st =
     (if tc_function tc = ec_empty_name cfg then
        add_result \<lparr>tr_content = [], tr_call = tc,
          tr_error = Some ''Empty function name provided. Provide a valid function name.''\<rparr> st
      else if tc_function tc \<notin> set (ec_functions cfg) then
        add_result \<lparr>tr_content = [], tr_call = tc,
          tr_error = Some (''Invalid tool '' @ tc_function tc @ '' provided.'')\<rparr> st
      else
        (let key = tool_call_key tc idx;
             dec = decision_at st key;
             (run, args, human) = enforce cfg dec tc;
             st1 = note_human human dec st
         in if run then run_call cfg key dec tc args st1
            else (case dec of None \<Rightarrow> st1 | Some x \<Rightarrow> skip_call cfg key x tc st1)))"

fun exec_calls :: "'e element_config \<Rightarrow> nat \<Rightarrow> tool_call list \<Rightarrow> 'e exec_state \<Rightarrow> 'e exec_state" where
  "exec_calls cfg idx [] st = st"
| "exec_calls cfg idx (tc # tcs) st = exec_calls cfg (Suc idx) tcs (exec_call cfg idx tc st)"

definition executor_query ::
  "'e element_config \<Rightarrow> 'e \<Rightarrow> tool_call list option \<Rightarrow> 'e extra_args \<Rightarrow> 'e \<times> 'e extra_args \<times> 'e exec_state" where
  "executor_query cfg env calls xa =
     (let tcs = (case calls of None \<Rightarrow> [] | Some l \<Rightarrow> l);
          st = exec_calls cfg 0 tcs \<lparr>ex_live = env, ex_out = None, ex_shield = xa_shield xa,
                 ex_results = [], ex_effects = []\<rparr>
      in (case ex_out st of None \<Rightarrow> ex_live st | Some e \<Rightarrow> e, xa\<lparr>xa_shield := ex_shield st\<rparr>, st))"

section \<open>ShieldRecorder\<close>

definition post_record :: "'e element_config \<Rightarrow> 'e shield_decision \<Rightarrow> int \<Rightarrow> string \<Rightarrow> action_record" where
  "post_record cfg x step head =
     (let f = ec_fresh cfg step; pre = sd_pre_record x in
      \<lparr>r_shield_version = SHIELD_VERSION, r_record_id = fr_record_id f,
       r_correlation_id = r_correlation_id pre, r_org_id = r_org_id pre, r_agent_id = r_agent_id pre,
       r_workflow_id = r_workflow_id pre, r_run_id = r_run_id pre, r_step_index = step,
       r_issued_at = fr_issued_at f, r_ttl_ms = 30000, r_nonce = fr_nonce f, r_phase = POST_EXEC,
       r_action_type = TOOL_CALL, r_operation_type = ''tool_call'', r_subject = r_subject pre,
       r_action = r_action pre,
       r_payload = \<lparr>pl_tool_name = pl_tool_name (r_payload pre),
         pl_tool_args = (case sd_executed_args x of None \<Rightarrow> pl_tool_args (r_payload pre) | Some a \<Rightarrow> a),
         pl_tool_result = sd_result x, pl_tool_error = sd_error x, pl_llm = None, pl_confidence = None\<rparr>,
       r_context = no_context, r_payload_hash = [], r_prev_chain_hash = head, r_chain_hash = None,
       r_agent_pubkey_kid = r_agent_pubkey_kid pre, r_verdict_ref = Some (v_verdict_id (sd_verdict x)),
       r_signature = None\<rparr>)"

text \<open>
  The records handed to \<open>client.submit\<close>, whose failures are suppressed, are the second
  component of the value.
\<close>

fun record_keys ::
  "'e element_config \<Rightarrow> string list \<Rightarrow> 'e shield_state \<Rightarrow> py_exc + 'e shield_state \<times> action_record list" where
  "record_keys cfg [] st = Inr (st, [])"
| "record_keys cfg (k # ks) st =
     (case dget (sh_decisions st) k of
        None \<Rightarrow> record_keys cfg ks st
      | Some x \<Rightarrow>
          if sd_recorded x then record_keys cfg ks st
          else
            (let (st1, step) = next_step st in
             rbind (finalize_record (ec_prims cfg) (post_record cfg x step (sh_chain_head st)) (ec_private_key cfg))
               (\<lambda>post.
                 rbind (record_keys cfg ks
                          ((set_decision k (x\<lparr>sd_recorded := True\<rparr>) st1)
                           \<lparr>sh_chain_head := derive_chain_hash (ec_prims cfg) (sh_chain_head st) post\<rparr>))
                   (\<lambda>(st2, posts). Inr (st2, post # posts)))))"

definition recorder_query ::
  "'e element_config \<Rightarrow> 'e extra_args \<Rightarrow> py_exc + 'e extra_args \<times> action_record list" where
  "recorder_query cfg xa =
     (case xa_shield xa of
        None \<Rightarrow> Inr (xa, [])
      | Some st \<Rightarrow>
          rbind (record_keys cfg (map fst (sh_decisions st)) st)
            (\<lambda>(st', posts). Inr (xa\<lparr>xa_shield := Some st'\<rparr>, posts)))"

section \<open>The canonical loop: guard, executor, recorder\<close>

definition shield_turn ::
  "'e element_config \<Rightarrow> 'e \<Rightarrow> tool_call list option \<Rightarrow> 'e extra_args
     \<Rightarrow> py_exc + 'e \<times> 'e extra_args \<times> 'e exec_state \<times> action_record list" where
  "shield_turn cfg env calls xa =
     rbind (guard_query cfg env calls xa) (\<lambda>xa1.
       let (env', xa2, st) = executor_query cfg env calls xa1 in
       rbind (recorder_query cfg xa2) (\<lambda>(xa3, posts). Inr (env', xa3, st, posts)))"

section \<open>The guard binds every call to its own verdict\<close>

text \<open>The record of a decision carries the call, and its verdict is what the gate returned for it.\<close>

definition gated :: "'e element_config \<Rightarrow> tool_call \<Rightarrow> 'e shield_decision \<Rightarrow> bool" where
  "gated cfg tc x \<longleftrightarrow>
     pl_tool_name (r_payload (sd_pre_record x)) = Some (tc_function tc) \<and>
     pl_tool_args (r_payload (sd_pre_record x)) = tc_args tc \<and>
     (\<exists>vid. gate cfg (tc_function tc) (sd_pre_record x) vid = (sd_verdict x, sd_degraded x))"

fun call_keys :: "nat \<Rightarrow> tool_call list \<Rightarrow> string list" where
  "call_keys idx [] = []"
| "call_keys idx (tc # tcs) = tool_call_key tc idx # call_keys (Suc idx) tcs"

lemma length_call_keys [simp]: "length (call_keys idx tcs) = length tcs"
  by (induction tcs arbitrary: idx) simp_all

lemma finalize_record_fields:
  assumes "finalize_record p r sk = Inr r'"
  shows "\<exists>h s. r' = r\<lparr>r_payload_hash := h, r_signature := Some s\<rparr>"
  using assms by (auto simp: finalize_record_def Let_def)

lemma guard_call_result:
  assumes "guard_call cfg env st idx tc = Inr st'"
  obtains pre where
    "finalize_record (ec_prims cfg) (pre_record cfg (sh_run_id st) (sh_step st) (sh_chain_head st) tc)
       (ec_private_key cfg) = Inr pre"
    and "sh_chain_head st' = derive_chain_hash (ec_prims cfg) (sh_chain_head st) pre"
    and "sh_step st' = sh_step st + 1" and "sh_run_id st' = sh_run_id st"
    and "\<exists>x. sd_pre_record x = pre \<and> gated cfg tc x \<and> \<not> sd_recorded x \<and> \<not> sd_executed x \<and>
           sh_decisions st' = dset (tool_call_key tc idx) x (sh_decisions st)"
proof -
  let ?step = "sh_step st"
  from assms obtain pre where pre:
    "finalize_record (ec_prims cfg) (pre_record cfg (sh_run_id st) ?step (sh_chain_head st) tc)
       (ec_private_key cfg) = Inr pre"
    by (auto simp: guard_call_def next_step_def Let_def)
  obtain v dg where g: "gate cfg (tc_function tc) pre (fr_verdict_id (ec_fresh cfg ?step)) = (v, dg)"
    by (cases "gate cfg (tc_function tc) pre (fr_verdict_id (ec_fresh cfg ?step))")
  from finalize_record_fields[OF pre]
  have pl: "pl_tool_name (r_payload pre) = Some (tc_function tc)" "pl_tool_args (r_payload pre) = tc_args tc"
    by (auto simp: pre_record_def Let_def)
  let ?x = "\<lparr>sd_key = tool_call_key tc idx, sd_pre_record = pre, sd_verdict = v,
     sd_env_snapshot = env, sd_degraded = dg, sd_executed = False,
     sd_result = JNull, sd_error = None, sd_executed_args = None, sd_recorded = False\<rparr>"
  have st': "st' = st\<lparr>sh_step := ?step + 1, sh_chain_head := derive_chain_hash (ec_prims cfg) (sh_chain_head st) pre,
      sh_decisions := dset (tool_call_key tc idx) ?x (sh_decisions st)\<rparr>"
    using assms by (simp add: guard_call_def next_step_def Let_def pre g)
  have "gated cfg tc ?x" using g pl by (auto simp: gated_def)
  then show ?thesis
    by (intro that[OF pre]) (auto simp: st' intro!: exI[of _ ?x])
qed

lemma guard_calls_gated:
  assumes "guard_calls cfg env st idx tcs = Inr st'" and "distinct (call_keys idx tcs)"
  shows "(\<forall>i < length tcs. \<exists>x. dget (sh_decisions st') (call_keys idx tcs ! i) = Some x \<and>
           gated cfg (tcs ! i) x \<and> \<not> sd_recorded x)
    \<and> (\<forall>k. k \<notin> set (call_keys idx tcs) \<longrightarrow> dget (sh_decisions st') k = dget (sh_decisions st) k)"
  using assms
proof (induction tcs arbitrary: st idx)
  case (Cons tc tcs)
  from Cons.prems(1) obtain st1 where s1: "guard_call cfg env st idx tc = Inr st1"
    and rest: "guard_calls cfg env st1 (Suc idx) tcs = Inr st'" by auto
  from guard_call_result[OF s1] obtain x where x: "gated cfg tc x" "\<not> sd_recorded x"
    "sh_decisions st1 = dset (tool_call_key tc idx) x (sh_decisions st)" by blast
  have ih: "\<forall>i < length tcs. \<exists>x. dget (sh_decisions st') (call_keys (Suc idx) tcs ! i) = Some x \<and>
           gated cfg (tcs ! i) x \<and> \<not> sd_recorded x"
    "\<forall>k. k \<notin> set (call_keys (Suc idx) tcs) \<longrightarrow> dget (sh_decisions st') k = dget (sh_decisions st1) k"
    using Cons.IH[OF rest] Cons.prems(2) by simp_all
  have first: "dget (sh_decisions st') (tool_call_key tc idx) = Some x"
    using ih(2) Cons.prems(2) x(3) by simp
  show ?case
  proof (intro conjI allI impI)
    fix i assume "i < length (tc # tcs)"
    then show "\<exists>x. dget (sh_decisions st') (call_keys idx (tc # tcs) ! i) = Some x \<and>
        gated cfg ((tc # tcs) ! i) x \<and> \<not> sd_recorded x"
      using ih(1) first x(1,2) by (cases i) auto
  next
    fix k assume "k \<notin> set (call_keys idx (tc # tcs))"
    then show "dget (sh_decisions st') k = dget (sh_decisions st) k"
      using ih(2) x(3) by simp
  qed
qed simp

section \<open>The executor runs what the verdict allows\<close>

definition allows :: "'e element_config \<Rightarrow> governance_verdict \<Rightarrow> action_record \<Rightarrow> jobj \<Rightarrow> bool" where
  "allows cfg v pre args \<longleftrightarrow>
     v_decision v \<in> {PASS, ALERT, REWRITE} \<or>
     (v_decision v = ESCALATE \<and>
        (ec_escalate_mode cfg = ESC_APPROVE \<or>
         (ec_escalate_mode cfg = ESC_LIVE \<and> (\<exists>h. ec_escalation_handler cfg = Some h \<and> h v pre args))))"

lemma enforce_allows:
  "fst (enforce cfg (Some x) tc) \<longleftrightarrow> allows cfg (sd_verdict x) (sd_pre_record x) (tc_args tc)"
  by (cases "v_decision (sd_verdict x)"; cases "ec_escalate_mode cfg")
    (simp_all add: enforce_def allows_def Let_def split: option.split)

lemma decision_at_cong: "ex_shield st = ex_shield st' \<Longrightarrow> decision_at st k = decision_at st' k"
  by (simp add: decision_at_def)

lemma decision_at_set:
  "decision_at (st\<lparr>ex_shield := map_option (set_decision key x) (ex_shield st)\<rparr>) k =
     (if k = key then map_option (\<lambda>_. x) (ex_shield st) else decision_at st k)"
  by (cases "ex_shield st") (auto simp: decision_at_def set_decision_def)

lemma decision_at_signals:
  "decision_at (st\<lparr>ex_shield := map_option (\<lambda>sh. sh\<lparr>sh_hitl_signals := g sh\<rparr>) (ex_shield st)\<rparr>) k = decision_at st k"
  by (cases "ex_shield st") (simp_all add: decision_at_def)

lemma decision_at_rollback [simp]: "decision_at (rollback_call cfg x st) k = decision_at st k"
  by (cases "ex_shield st") (simp_all add: decision_at_def rollback_call_def Let_def)

lemma decision_at_add [simp]: "decision_at (add_result t st) k = decision_at st k"
  by (simp add: decision_at_def add_result_def)

lemma run_call_other: "k \<noteq> key \<Longrightarrow> decision_at (run_call cfg key dec tc args st) k = decision_at st k"
  by (cases dec; cases "ex_shield st")
    (auto simp: run_call_def Let_def split_beta decision_at_def add_result_def set_decision_def)

lemma skip_call_other: "k \<noteq> key \<Longrightarrow> decision_at (skip_call cfg key x tc st) k = decision_at st k"
  by (auto simp: skip_call_def Let_def split_beta decision_at_set)

lemma note_human_simps [simp]:
  "decision_at (note_human h dec st) k = decision_at st k"
  "ex_effects (note_human h dec st) = ex_effects st"
  by (auto simp: note_human_def decision_at_def split: option.splits)

lemma exec_call_other_key:
  assumes "k \<noteq> tool_call_key tc idx"
  shows "decision_at (exec_call cfg idx tc st) k = decision_at st k"
  using assms
  by (auto simp: exec_call_def Let_def split_beta run_call_other skip_call_other split: option.split)

definition new_effects :: "'e element_config \<Rightarrow> 'e shield_decision option \<Rightarrow> tool_call \<Rightarrow> 'e effect list \<Rightarrow> bool" where
  "new_effects cfg dec tc es \<longleftrightarrow>
     (\<forall>fn args. RunTool fn args \<in> set es \<longrightarrow>
        fn = tc_function tc \<and> fn \<in> set (ec_functions cfg) \<and>
        fst (enforce cfg dec tc) \<and> args = prepared_args cfg dec (fst (snd (enforce cfg dec tc))))"

lemma run_call_effects:
  "ex_effects (run_call cfg key dec tc args st) = ex_effects st @ [RunTool (tc_function tc) (prepared_args cfg dec args)]"
  by (simp add: run_call_def Let_def split_beta add_result_def)

lemma skip_call_effects:
  "\<exists>es. ex_effects (skip_call cfg key x tc st) = ex_effects st @ es \<and> (\<forall>fn args. RunTool fn args \<notin> set es)"
proof (cases "v_decision (sd_verdict x) = ROLLBACK")
  case True
  let ?restored = "ec_has_copy cfg (sd_env_snapshot x)" and ?ctx = "r_context (sd_pre_record x)"
  let ?ckpt = "case ob_rollback (v_obligations (sd_verdict x)) of None \<Rightarrow> None
    | Some rb \<Rightarrow> rb_langgraph_checkpoint_id rb"
  let ?es = "(if ?restored \<and> ec_env_restore_hook cfg
      then [RestoreHook (cx_env_snapshot_ref ?ctx) (sd_env_snapshot x)] else [])
    @ (if ec_checkpoint_hook cfg then [CheckpointHook (cx_langgraph_thread_id ?ctx) ?ckpt] else [])"
  have "ex_effects (skip_call cfg key x tc st) = ex_effects st @ ?es"
    using True by (simp add: skip_call_def rollback_call_def Let_def split_beta add_result_def)
  moreover have "\<forall>fn args. RunTool fn args \<notin> set ?es" by simp
  ultimately show ?thesis by blast
next
  case False
  then have "ex_effects (skip_call cfg key x tc st) = ex_effects st @ []"
    by (simp add: skip_call_def Let_def split_beta add_result_def)
  then show ?thesis by (metis empty_iff list.set(1))
qed

lemma exec_call_effects:
  "\<exists>es. ex_effects (exec_call cfg idx tc st) = ex_effects st @ es \<and>
     new_effects cfg (decision_at st (tool_call_key tc idx)) tc es"
proof (cases "tc_function tc = ec_empty_name cfg \<or> tc_function tc \<notin> set (ec_functions cfg)")
  case True
  then have "ex_effects (exec_call cfg idx tc st) = ex_effects st @ []"
    by (auto simp: exec_call_def add_result_def)
  then show ?thesis by (metis empty_iff list.set(1) new_effects_def)
next
  case False
  let ?key = "tool_call_key tc idx"
  let ?dec = "decision_at st ?key"
  obtain run args human where e: "enforce cfg ?dec tc = (run, args, human)" by (metis prod_cases3)
  let ?st1 = "note_human human ?dec st"
  have ec: "exec_call cfg idx tc st =
      (if run then run_call cfg ?key ?dec tc args ?st1
       else (case ?dec of None \<Rightarrow> ?st1 | Some x \<Rightarrow> skip_call cfg ?key x tc ?st1))"
    using False e by (simp add: exec_call_def Let_def)
  show ?thesis
  proof (cases run)
    case True
    then have "ex_effects (exec_call cfg idx tc st) = ex_effects st @ [RunTool (tc_function tc) (prepared_args cfg ?dec args)]"
      by (simp add: ec run_call_effects)
    moreover have "new_effects cfg ?dec tc [RunTool (tc_function tc) (prepared_args cfg ?dec args)]"
      using True False e by (simp add: new_effects_def)
    ultimately show ?thesis by blast
  next
    case notrun: False
    show ?thesis
    proof (cases ?dec)
      case None
      with notrun have "ex_effects (exec_call cfg idx tc st) = ex_effects st @ []" by (simp add: ec)
      then show ?thesis by (metis empty_iff list.set(1) new_effects_def)
    next
      case (Some x)
      from skip_call_effects[of cfg ?key x tc ?st1] obtain es where
        "ex_effects (skip_call cfg ?key x tc ?st1) = ex_effects st @ es" "\<forall>fn args. RunTool fn args \<notin> set es"
        by (auto simp only: note_human_simps)
      with notrun Some show ?thesis by (auto simp: ec new_effects_def)
    qed
  qed
qed

lemma exec_calls_effects:
  assumes "distinct (call_keys idx tcs)"
  shows "RunTool fn args \<in> set (ex_effects (exec_calls cfg idx tcs st)) \<Longrightarrow>
     RunTool fn args \<in> set (ex_effects st) \<or>
     (\<exists>i < length tcs. fn = tc_function (tcs ! i) \<and> fn \<in> set (ec_functions cfg) \<and>
        fst (enforce cfg (decision_at st (call_keys idx tcs ! i)) (tcs ! i)) \<and>
        args = prepared_args cfg (decision_at st (call_keys idx tcs ! i))
                 (fst (snd (enforce cfg (decision_at st (call_keys idx tcs ! i)) (tcs ! i)))))"
  using assms
proof (induction tcs arbitrary: idx st)
  case (Cons tc tcs)
  let ?st1 = "exec_call cfg idx tc st"
  have other: "decision_at ?st1 (call_keys (Suc idx) tcs ! i) = decision_at st (call_keys (Suc idx) tcs ! i)"
    if "i < length tcs" for i
  proof (rule exec_call_other_key)
    have "call_keys (Suc idx) tcs ! i \<in> set (call_keys (Suc idx) tcs)" using that by (intro nth_mem) simp
    then show "call_keys (Suc idx) tcs ! i \<noteq> tool_call_key tc idx" using Cons.prems(2) by (auto simp del: nth_mem)
  qed
  from exec_call_effects[of cfg idx tc st] obtain es where es: "ex_effects ?st1 = ex_effects st @ es"
    "new_effects cfg (decision_at st (tool_call_key tc idx)) tc es" by blast
  from Cons.IH[of "Suc idx" ?st1] Cons.prems have
    "RunTool fn args \<in> set (ex_effects ?st1) \<or>
     (\<exists>i < length tcs. fn = tc_function (tcs ! i) \<and> fn \<in> set (ec_functions cfg) \<and>
        fst (enforce cfg (decision_at ?st1 (call_keys (Suc idx) tcs ! i)) (tcs ! i)) \<and>
        args = prepared_args cfg (decision_at ?st1 (call_keys (Suc idx) tcs ! i))
                 (fst (snd (enforce cfg (decision_at ?st1 (call_keys (Suc idx) tcs ! i)) (tcs ! i)))))"
    by simp
  then show ?case
  proof
    assume "RunTool fn args \<in> set (ex_effects ?st1)"
    then have "RunTool fn args \<in> set (ex_effects st) \<or> RunTool fn args \<in> set es" by (simp add: es)
    then show ?thesis
    proof
      assume "RunTool fn args \<in> set es"
      with es(2) show ?thesis by (intro disjI2 exI[of _ 0]) (simp add: new_effects_def)
    qed simp
  next
    assume "\<exists>i < length tcs. fn = tc_function (tcs ! i) \<and> fn \<in> set (ec_functions cfg) \<and>
        fst (enforce cfg (decision_at ?st1 (call_keys (Suc idx) tcs ! i)) (tcs ! i)) \<and>
        args = prepared_args cfg (decision_at ?st1 (call_keys (Suc idx) tcs ! i))
                 (fst (snd (enforce cfg (decision_at ?st1 (call_keys (Suc idx) tcs ! i)) (tcs ! i))))"
    then obtain i where "i < length tcs" "fn = tc_function (tcs ! i)" "fn \<in> set (ec_functions cfg)"
      "fst (enforce cfg (decision_at st (call_keys (Suc idx) tcs ! i)) (tcs ! i))"
      "args = prepared_args cfg (decision_at st (call_keys (Suc idx) tcs ! i))
                 (fst (snd (enforce cfg (decision_at st (call_keys (Suc idx) tcs ! i)) (tcs ! i))))"
      using other by auto
    then show ?thesis by (intro disjI2 exI[of _ "Suc i"]) simp
  qed
qed simp

text \<open>The call a tool run stems from, with the verdict that let it through.\<close>

lemma executed_call:
  assumes "distinct (call_keys 0 tcs)" and "guard_query cfg env (Some tcs) xa = Inr xa1"
    and "RunTool fn args \<in> set (ex_effects (snd (snd (executor_query cfg env' (Some tcs) xa1))))"
  shows "\<exists>i < length tcs. \<exists>x. gated cfg (tcs ! i) x \<and> fn = tc_function (tcs ! i) \<and> fn \<in> set (ec_functions cfg)
    \<and> allows cfg (sd_verdict x) (sd_pre_record x) (tc_args (tcs ! i))
    \<and> args = prepared_args cfg (Some x) (fst (snd (enforce cfg (Some x) (tcs ! i))))"
proof -
  have ne: "tcs \<noteq> []" using assms(3) by (auto simp: executor_query_def Let_def)
  with assms(2) obtain st1 where g: "guard_calls cfg env (shield_state_of xa cfg) 0 tcs = Inr st1"
    and xa1: "xa1 = xa\<lparr>xa_shield := Some st1\<rparr>" by (auto simp: guard_query_def)
  let ?s = "\<lparr>ex_live = env', ex_out = None, ex_shield = xa_shield xa1, ex_results = [], ex_effects = []\<rparr>"
  have "RunTool fn args \<in> set (ex_effects (exec_calls cfg 0 tcs ?s))"
    using assms(3) by (simp add: executor_query_def Let_def)
  from exec_calls_effects[OF assms(1) this] obtain i where i: "i < length tcs" "fn = tc_function (tcs ! i)"
    "fn \<in> set (ec_functions cfg)"
    "fst (enforce cfg (decision_at ?s (call_keys 0 tcs ! i)) (tcs ! i))"
    "args = prepared_args cfg (decision_at ?s (call_keys 0 tcs ! i))
       (fst (snd (enforce cfg (decision_at ?s (call_keys 0 tcs ! i)) (tcs ! i))))" by auto
  from guard_calls_gated[OF g assms(1)] i(1) obtain x where
    x: "dget (sh_decisions st1) (call_keys 0 tcs ! i) = Some x" "gated cfg (tcs ! i) x" by blast
  have "decision_at ?s (call_keys 0 tcs ! i) = Some x" using x(1) by (simp add: decision_at_def xa1)
  with i x(2) show ?thesis by (auto simp: enforce_allows)
qed
section \<open>The chain of a turn\<close>

fun chain_linked :: "prims \<Rightarrow> string \<Rightarrow> action_record list \<Rightarrow> bool" where
  "chain_linked p h [] = True"
| "chain_linked p h (r # rs) = (r_prev_chain_hash r = h \<and> chain_linked p (derive_chain_hash p h r) rs)"

definition chain_end :: "prims \<Rightarrow> string \<Rightarrow> action_record list \<Rightarrow> string" where
  "chain_end p h rs = foldl (derive_chain_hash p) h rs"

lemma chain_linked_append:
  "chain_linked p h (rs @ qs) \<longleftrightarrow> chain_linked p h rs \<and> chain_linked p (chain_end p h rs) qs"
  by (induction rs arbitrary: h) (simp_all add: chain_end_def)

text \<open>Consecutive step indices from \<open>n\<close>.\<close>

fun steps_from :: "int \<Rightarrow> action_record list \<Rightarrow> bool" where
  "steps_from n [] = True"
| "steps_from n (r # rs) = (r_step_index r = n \<and> steps_from (n + 1) rs)"

lemma steps_from_append:
  "steps_from n (rs @ qs) \<longleftrightarrow> steps_from n rs \<and> steps_from (n + int (length rs)) qs"
  by (induction rs arbitrary: n) (simp_all add: algebra_simps)

definition pre_records :: "'e shield_state \<Rightarrow> string list \<Rightarrow> action_record list" where
  "pre_records st ks = map (\<lambda>k. sd_pre_record (the (dget (sh_decisions st) k))) ks"

lemma guard_calls_chain:
  assumes "guard_calls cfg env st idx tcs = Inr st'" and "distinct (call_keys idx tcs)"
  shows "chain_linked (ec_prims cfg) (sh_chain_head st) (pre_records st' (call_keys idx tcs))
    \<and> steps_from (sh_step st) (pre_records st' (call_keys idx tcs))
    \<and> sh_chain_head st' = chain_end (ec_prims cfg) (sh_chain_head st) (pre_records st' (call_keys idx tcs))
    \<and> sh_step st' = sh_step st + int (length tcs)"
  using assms
proof (induction tcs arbitrary: st idx)
  case Nil
  then show ?case by (simp add: pre_records_def chain_end_def)
next
  case (Cons tc tcs)
  from Cons.prems(1) obtain st1 where s1: "guard_call cfg env st idx tc = Inr st1"
    and rest: "guard_calls cfg env st1 (Suc idx) tcs = Inr st'" by auto
  from guard_call_result[OF s1] obtain pre x where pre:
    "finalize_record (ec_prims cfg) (pre_record cfg (sh_run_id st) (sh_step st) (sh_chain_head st) tc)
       (ec_private_key cfg) = Inr pre"
    and head: "sh_chain_head st1 = derive_chain_hash (ec_prims cfg) (sh_chain_head st) pre"
    and step: "sh_step st1 = sh_step st + 1" and x: "sd_pre_record x = pre"
    "sh_decisions st1 = dset (tool_call_key tc idx) x (sh_decisions st)" by blast
  from finalize_record_fields[OF pre]
  have f: "r_prev_chain_hash pre = sh_chain_head st" "r_step_index pre = sh_step st"
    by (auto simp: pre_record_def Let_def)
  have d: "distinct (call_keys (Suc idx) tcs)" using Cons.prems(2) by simp
  have "dget (sh_decisions st') (tool_call_key tc idx) = Some x"
    using guard_calls_gated[OF rest d] Cons.prems(2) x(2) by simp
  then have "pre_records st' (call_keys idx (tc # tcs)) = pre # pre_records st' (call_keys (Suc idx) tcs)"
    by (simp add: pre_records_def x(1))
  with Cons.IH[OF rest d] f head step show ?case by (simp add: chain_end_def)
qed

lemma record_keys_chain:
  assumes "record_keys cfg ks st = Inr (st', posts)"
  shows "chain_linked (ec_prims cfg) (sh_chain_head st) posts \<and> steps_from (sh_step st) posts
    \<and> sh_chain_head st' = chain_end (ec_prims cfg) (sh_chain_head st) posts
    \<and> sh_step st' = sh_step st + int (length posts)"
  using assms
proof (induction ks arbitrary: st posts)
  case Nil
  then show ?case by (simp add: chain_end_def)
next
  case (Cons k ks)
  show ?case
  proof (cases "\<exists>x. dget (sh_decisions st) k = Some x \<and> \<not> sd_recorded x")
    case False
    with Cons.prems have "record_keys cfg ks st = Inr (st', posts)" by (auto split: option.splits)
    from Cons.IH[OF this] show ?thesis .
  next
    case True
    then obtain x where x: "dget (sh_decisions st) k = Some x" "\<not> sd_recorded x" by blast
    from Cons.prems x obtain post posts' where
      post: "finalize_record (ec_prims cfg) (post_record cfg x (sh_step st) (sh_chain_head st)) (ec_private_key cfg) = Inr post"
      and rest: "record_keys cfg ks ((set_decision k (x\<lparr>sd_recorded := True\<rparr>) (st\<lparr>sh_step := sh_step st + 1\<rparr>))
             \<lparr>sh_chain_head := derive_chain_hash (ec_prims cfg) (sh_chain_head st) post\<rparr>) = Inr (st', posts')"
      and posts: "posts = post # posts'"
      by (auto simp: next_step_def Let_def)
    from finalize_record_fields[OF post]
    have f: "r_prev_chain_hash post = sh_chain_head st" "r_step_index post = sh_step st"
      by (auto simp: post_record_def Let_def)
    from Cons.IH[OF rest] f show ?thesis by (simp add: posts chain_end_def set_decision_def)
  qed
qed

lemma exec_call_keeps:
  "map_option sh_chain_head (ex_shield (exec_call cfg idx tc st)) = map_option sh_chain_head (ex_shield st)"
  "map_option sh_step (ex_shield (exec_call cfg idx tc st)) = map_option sh_step (ex_shield st)"
proof -
  have r: "map_option sh_chain_head (ex_shield (rollback_call cfg x s)) = map_option sh_chain_head (ex_shield s)"
    "map_option sh_step (ex_shield (rollback_call cfg x s)) = map_option sh_step (ex_shield s)" for x s
    by (cases "ex_shield s"; simp add: rollback_call_def Let_def)+
  have n: "map_option sh_chain_head (ex_shield (note_human h d s)) = map_option sh_chain_head (ex_shield s)"
    "map_option sh_step (ex_shield (note_human h d s)) = map_option sh_step (ex_shield s)" for h d s
    by (cases h; cases d; cases "ex_shield s"; simp add: note_human_def)+
  have run: "map_option sh_chain_head (ex_shield (run_call cfg k d tc a s)) = map_option sh_chain_head (ex_shield s)"
    "map_option sh_step (ex_shield (run_call cfg k d tc a s)) = map_option sh_step (ex_shield s)" for k d a s
    by (cases d; cases "ex_shield s"; simp add: run_call_def Let_def split_beta add_result_def set_decision_def)+
  have skip: "map_option sh_chain_head (ex_shield (skip_call cfg k x tc s)) = map_option sh_chain_head (ex_shield s)"
    "map_option sh_step (ex_shield (skip_call cfg k x tc s)) = map_option sh_step (ex_shield s)" for k x s
    using r[of x s]
    by (cases "ex_shield (rollback_call cfg x s)"; cases "ex_shield s";
        simp add: skip_call_def Let_def split_beta add_result_def set_decision_def)+
  show "map_option sh_chain_head (ex_shield (exec_call cfg idx tc st)) = map_option sh_chain_head (ex_shield st)"
    "map_option sh_step (ex_shield (exec_call cfg idx tc st)) = map_option sh_step (ex_shield st)"
    by (auto simp: exec_call_def Let_def split_beta n run skip add_result_def split: option.split)
qed

lemma exec_calls_keeps:
  "map_option sh_chain_head (ex_shield (exec_calls cfg idx tcs st)) = map_option sh_chain_head (ex_shield st)
   \<and> map_option sh_step (ex_shield (exec_calls cfg idx tcs st)) = map_option sh_step (ex_shield st)"
  by (induction tcs arbitrary: idx st) (simp_all add: exec_call_keeps)
section \<open>The recorder\<close>

text \<open>The post-execution record of a decision.\<close>

definition pairs_with :: "'e shield_decision \<Rightarrow> action_record \<Rightarrow> bool" where
  "pairs_with x post \<longleftrightarrow>
     r_phase post = POST_EXEC \<and> r_correlation_id post = r_correlation_id (sd_pre_record x) \<and>
     r_run_id post = r_run_id (sd_pre_record x) \<and> r_verdict_ref post = Some (v_verdict_id (sd_verdict x)) \<and>
     pl_tool_result (r_payload post) = sd_result x \<and> pl_tool_error (r_payload post) = sd_error x \<and>
     r_signature post \<noteq> None"

definition unrecorded :: "'e shield_state \<Rightarrow> string list \<Rightarrow> 'e shield_decision list" where
  "unrecorded st ks = filter (\<lambda>x. \<not> sd_recorded x) (map (\<lambda>k. the (dget (sh_decisions st) k)) ks)"

lemma dget_dset_cases: "dget (dset k v d) k' = (if k' = k then Some v else dget d k')"
  by simp

lemma record_keys_posts:
  assumes "record_keys cfg ks st = Inr (st', posts)" and "distinct ks"
    and "\<forall>k \<in> set ks. dget (sh_decisions st) k \<noteq> None"
  shows "list_all2 pairs_with (unrecorded st ks) posts
    \<and> (\<forall>k \<in> set ks. \<exists>x. dget (sh_decisions st') k = Some x \<and> sd_recorded x)
    \<and> (\<forall>k. k \<notin> set ks \<longrightarrow> dget (sh_decisions st') k = dget (sh_decisions st) k)
    \<and> map fst (sh_decisions st') = map fst (sh_decisions st)"
  using assms
proof (induction ks arbitrary: st posts)
  case Nil
  then show ?case by (simp add: unrecorded_def)
next
  case (Cons k ks)
  from Cons.prems(3) obtain x where x: "dget (sh_decisions st) k = Some x" by auto
  show ?case
  proof (cases "sd_recorded x")
    case True
    with Cons.prems x have "record_keys cfg ks st = Inr (st', posts)" by simp
    from Cons.IH[OF this] Cons.prems(2,3) x True show ?thesis by (simp add: unrecorded_def)
  next
    case False
    let ?y = "x\<lparr>sd_recorded := True\<rparr>"
    from Cons.prems x False obtain post posts' where
      post: "finalize_record (ec_prims cfg) (post_record cfg x (sh_step st) (sh_chain_head st)) (ec_private_key cfg) = Inr post"
      and rest: "record_keys cfg ks ((set_decision k ?y (st\<lparr>sh_step := sh_step st + 1\<rparr>))
             \<lparr>sh_chain_head := derive_chain_hash (ec_prims cfg) (sh_chain_head st) post\<rparr>) = Inr (st', posts')"
      and posts: "posts = post # posts'"
      by (auto simp: next_step_def Let_def)
    from finalize_record_fields[OF post] have p: "pairs_with x post"
      by (auto simp: pairs_with_def post_record_def Let_def)
    let ?st1 = "(set_decision k ?y (st\<lparr>sh_step := sh_step st + 1\<rparr>))
             \<lparr>sh_chain_head := derive_chain_hash (ec_prims cfg) (sh_chain_head st) post\<rparr>"
    have d: "sh_decisions ?st1 = dset k ?y (sh_decisions st)" by (simp add: set_decision_def)
    have k: "k \<notin> set ks" using Cons.prems(2) by simp
    have u: "unrecorded ?st1 ks = unrecorded st ks"
      unfolding unrecorded_def d
      by (rule arg_cong[where f = "filter (\<lambda>x. \<not> sd_recorded x)"]) (use k in \<open>auto simp: dget_dset_cases\<close>)
    have "k \<in> set (map fst (sh_decisions st))" using x by (metis map_of_eq_None_iff option.simps(3) set_map)
    then have m: "map fst (dset k ?y (sh_decisions st)) = map fst (sh_decisions st)"
      by (simp add: AList.update_keys)
    have dom: "\<forall>k' \<in> set ks. dget (sh_decisions ?st1) k' \<noteq> None"
      unfolding d using Cons.prems(3) by simp
    from Cons.IH[OF rest _ dom] Cons.prems(2) have ih:
      "list_all2 pairs_with (unrecorded st ks) posts'"
      "\<forall>k \<in> set ks. \<exists>x. dget (sh_decisions st') k = Some x \<and> sd_recorded x"
      "\<forall>k'. k' \<notin> set ks \<longrightarrow> dget (sh_decisions st') k' = dget (dset k ?y (sh_decisions st)) k'"
      "map fst (sh_decisions st') = map fst (sh_decisions st)"
      unfolding u d m by simp_all
    have "dget (sh_decisions st') k = Some ?y" using ih(3) k by simp
    with ih p x False k show ?thesis by (auto simp: posts unrecorded_def)
  qed
qed

lemma record_keys_all_recorded:
  assumes "\<forall>k \<in> set ks. \<forall>x. dget (sh_decisions st) k = Some x \<longrightarrow> sd_recorded x"
  shows "record_keys cfg ks st = Inr (st, [])"
  using assms by (induction ks) (auto split: option.split)

text \<open>
The recorder writes exactly one post-execution record per decision: each decision that was
not recorded yet gets one signed record, in order, with the correlation id of its pre-execution
record, the id of its verdict and the real result and error; afterwards every decision is
recorded, and a second pass submits nothing and changes nothing.
\<close>

theorem recorder_exactly_once:
  assumes "xa_shield xa = Some st" and "dict_ok (sh_decisions st)"
    and "recorder_query cfg xa = Inr (xa', posts)"
  shows "list_all2 pairs_with (unrecorded st (map fst (sh_decisions st))) posts
    \<and> (\<exists>st'. xa_shield xa' = Some st' \<and> (\<forall>(k, x) \<in> set (sh_decisions st'). sd_recorded x))
    \<and> recorder_query cfg xa' = Inr (xa', [])"
proof -
  from assms(1,3) obtain st' where r: "record_keys cfg (map fst (sh_decisions st)) st = Inr (st', posts)"
    and xa': "xa' = xa\<lparr>xa_shield := Some st'\<rparr>" by (auto simp: recorder_query_def)
  have dom: "\<forall>k \<in> set (map fst (sh_decisions st)). dget (sh_decisions st) k \<noteq> None"
    by (auto simp: map_of_eq_None_iff)
  have "distinct (map fst (sh_decisions st))" using assms(2) by (simp only: dict_ok_def)
  note c = record_keys_posts[OF r this dom]
  from c have
    p: "list_all2 pairs_with (unrecorded st (map fst (sh_decisions st))) posts"
    and rec: "\<forall>k \<in> set (map fst (sh_decisions st)). \<exists>x. dget (sh_decisions st') k = Some x \<and> sd_recorded x"
    and keys: "map fst (sh_decisions st') = map fst (sh_decisions st)"
    by blast+
  have ok: "dict_ok (sh_decisions st')" using keys assms(2) by (simp add: dict_ok_def)
  have all: "sd_recorded x" if "(k, x) \<in> set (sh_decisions st')" for k x
  proof -
    have "k \<in> set (map fst (sh_decisions st))" using that keys by (metis fst_conv image_eqI set_map)
    with rec dict_ok_get[OF ok that] show ?thesis by auto
  qed
  have "record_keys cfg (map fst (sh_decisions st')) st' = Inr (st', [])"
    by (rule record_keys_all_recorded) (use all in \<open>auto dest: map_of_SomeD\<close>)
  then have "recorder_query cfg xa' = Inr (xa', [])" by (simp add: recorder_query_def xa')
  with p all show ?thesis by (auto simp: xa')
qed

text \<open>A configuration for the witnesses: the environment is a counter that every tool run increments.\<close>

definition demo_fresh :: "int \<Rightarrow> fresh" where
  "demo_fresh n = \<lparr>fr_record_id = ''rec-'' @ show_int n, fr_correlation_id = ''corr-'' @ show_int n,
     fr_nonce = ''nonce-'' @ show_int n, fr_issued_at = 1000 + n, fr_verdict_id = ''verdict-'' @ show_int n\<rparr>"

definition demo_element_config :: "(action_record \<Rightarrow> string + governance_verdict) \<Rightarrow> nat element_config" where
  "demo_element_config gate_fn = \<lparr>ec_prims = demo_prims, ec_decide = gate_fn, ec_private_key = demo_key,
     ec_pubkey_kid = ''kid-1'', ec_org_id = ''demo-org'', ec_agent_id = ''agent-1'',
     ec_workflow_id = ''banking'', ec_run_id = Some ''run-1'', ec_thread_id = None,
     ec_fail_policy = ratified, ec_escalate_mode = ESC_BLOCK, ec_escalation_handler = None,
     ec_env_restore_hook = False, ec_checkpoint_hook = False, ec_fresh = demo_fresh, ec_uuid = ''run-x'',
     ec_has_copy = (\<lambda>e. True), ec_functions = [''send_money'', ''get_balance''],
     ec_empty_name = ''<empty-function>'', ec_run = (\<lambda>e f a. (Suc e, JNull, None)),
     ec_format = (\<lambda>v. ''done''), ec_string_list = (\<lambda>s. None)\<rparr>"

definition no_extra :: "nat extra_args" where
  "no_extra = \<lparr>xa_shield = None, xa_run_id = None\<rparr>"

definition demo_calls :: "tool_call list" where
  "demo_calls = [\<lparr>tc_id = Some ''c1'', tc_function = ''send_money'', tc_args = [(''amount'', JInt 5)]\<rparr>,
                 \<lparr>tc_id = Some ''c2'', tc_function = ''get_balance'', tc_args = []\<rparr>]"

definition service_down :: "action_record \<Rightarrow> string + governance_verdict" where
  "service_down r = Inl ''TimeoutError''"

lemma demo_sign: "\<exists>sig. sign_ed25519 demo_prims demo_key data = Inr sig"
  by (rule sign_total[OF demo_key_public])

lemma finalize_demo: "\<exists>r'. finalize_record demo_prims r demo_key = Inr r'"
  by (rule finalize_record_total[OF demo_key_public])

text \<open>With a working signing key neither the guard nor the recorder raises.\<close>

lemma guard_calls_total:
  assumes "\<And>r. \<exists>r'. finalize_record (ec_prims cfg) r (ec_private_key cfg) = Inr r'"
  shows "\<exists>st'. guard_calls cfg env st idx tcs = Inr st'"
proof (induction tcs arbitrary: st idx)
  case (Cons tc tcs)
  obtain st1 where "guard_call cfg env st idx tc = Inr st1"
  proof -
    obtain pre where "finalize_record (ec_prims cfg)
        (pre_record cfg (sh_run_id st) (sh_step st) (sh_chain_head st) tc) (ec_private_key cfg) = Inr pre"
      using assms by blast
    then show ?thesis using that by (simp add: guard_call_def next_step_def Let_def split_beta)
  qed
  with Cons.IH show ?case by simp
qed simp

lemma record_keys_total:
  assumes "\<And>r. \<exists>r'. finalize_record (ec_prims cfg) r (ec_private_key cfg) = Inr r'"
  shows "\<exists>st' posts. record_keys cfg ks st = Inr (st', posts)"
proof (induction ks arbitrary: st)
  case (Cons k ks)
  show ?case
  proof (cases "\<exists>x. dget (sh_decisions st) k = Some x \<and> \<not> sd_recorded x")
    case False
    with Cons.IH show ?thesis by (auto split: option.split)
  next
    case True
    then obtain x where x: "dget (sh_decisions st) k = Some x" "\<not> sd_recorded x" by blast
    obtain post where post: "finalize_record (ec_prims cfg)
        (post_record cfg x (sh_step st) (sh_chain_head st)) (ec_private_key cfg) = Inr post"
      using assms by blast
    obtain st' posts where "record_keys cfg ks ((set_decision k (x\<lparr>sd_recorded := True\<rparr>) (st\<lparr>sh_step := sh_step st + 1\<rparr>))
             \<lparr>sh_chain_head := derive_chain_hash (ec_prims cfg) (sh_chain_head st) post\<rparr>) = Inr (st', posts)"
      using Cons.IH by blast
    with x post show ?thesis by (simp add: next_step_def Let_def)
  qed
qed simp

section \<open>What a turn guarantees\<close>

lemma demo_turn:
  "\<exists>xa1. guard_query (demo_element_config g) env (Some demo_calls) no_extra = Inr xa1"
proof -
  have "ec_prims (demo_element_config g) = demo_prims" "ec_private_key (demo_element_config g) = demo_key"
    by (simp_all add: demo_element_config_def)
  with guard_calls_total[of "demo_element_config g" env "shield_state_of no_extra (demo_element_config g)" 0 demo_calls]
    finalize_demo
  show ?thesis by (auto simp: guard_query_def demo_calls_def)
qed

lemma demo_calls_distinct: "distinct (call_keys 0 demo_calls)"
  by (simp add: demo_calls_def tool_call_key_def)



text \<open>
C5. Money moves only with a decision: in a turn whose tool calls have distinct keys (their ids, or
their positions where they have none), when the decision service fails for every record (a timeout,
an error), the ratified policy lets no \<open>send_money\<close>, \<open>update_password\<close> or
\<open>update_scheduled_transaction\<close> call run, whatever the escalation mode and the hooks.
\<close>

theorem fail_closed_tools_do_not_run:
  assumes "distinct (call_keys 0 tcs)" and "guard_query cfg env (Some tcs) xa = Inr xa1"
    and "ec_fail_policy cfg = ratified" and "\<forall>r. \<exists>e. ec_decide cfg r = Inl e"
    and "fn \<in> set FAIL_CLOSED_TOOLS"
  shows "RunTool fn args \<notin> set (ex_effects (snd (snd (executor_query cfg env' (Some tcs) xa1))))"
proof
  assume "RunTool fn args \<in> set (ex_effects (snd (snd (executor_query cfg env' (Some tcs) xa1))))"
  from executed_call[OF assms(1,2) this] obtain i x where i: "gated cfg (tcs ! i) x" "fn = tc_function (tcs ! i)"
    "allows cfg (sd_verdict x) (sd_pre_record x) (tc_args (tcs ! i))" by blast
  from i(1) obtain vid where g: "gate cfg fn (sd_pre_record x) vid = (sd_verdict x, sd_degraded x)"
    by (auto simp: gated_def i(2))
  from assms(4) obtain e where e: "ec_decide cfg (sd_pre_record x) = Inl e" by blast
  have "sd_verdict x = synthetic_degraded_verdict vid (sd_pre_record x) FM_CLOSED (decision_failure_detail e)"
    using g e assms(3,5) by (simp add: gate_def fail_mode_ratified)
  then have "v_decision (sd_verdict x) = BLOCK" by (simp add: synthetic_decision)
  with i(3) show False by (simp add: allows_def)
qed

theorem fail_closed_tools_do_not_run_witness:
  "\<exists>xa1. guard_query (demo_element_config service_down) 0 (Some demo_calls) no_extra = Inr xa1 \<and>
     (\<forall>args. RunTool ''send_money'' args \<notin> set (ex_effects (snd (snd
         (executor_query (demo_element_config service_down) 0 (Some demo_calls) xa1)))))"
proof -
  obtain xa1 where g: "guard_query (demo_element_config service_down) 0 (Some demo_calls) no_extra = Inr xa1"
    using demo_turn by blast
  have p: "ec_fail_policy (demo_element_config service_down) = ratified"
    "\<forall>r. \<exists>e. ec_decide (demo_element_config service_down) r = Inl e"
    by (simp_all add: demo_element_config_def service_down_def)
  from fail_closed_tools_do_not_run[OF demo_calls_distinct g p, of "''send_money''"] g
  show ?thesis by (auto simp: FAIL_CLOSED_TOOLS_def)
qed

text \<open>
C6. The records of a turn form one chain: in a turn with at least one tool call and with distinct
keys of its calls (their ids, or their positions where they have none), whose elements return, the pre-execution records of the guard followed by the
post-execution records of the recorder link by \<open>prev_chain_hash\<close> from the chain head the turn
started with, with consecutive step indices, and the head afterwards is the derived hash of the
last record, whatever the executor did in between.
\<close>

theorem turn_records_form_a_chain:
  assumes "distinct (call_keys 0 tcs)" and "tcs \<noteq> []"
    and "guard_query cfg env (Some tcs) xa = Inr xa1"
    and "executor_query cfg env' (Some tcs) xa1 = (env'', xa2, ex)"
    and "recorder_query cfg xa2 = Inr (xa3, posts)"
  shows "\<exists>st1 st3. xa_shield xa1 = Some st1 \<and> xa_shield xa3 = Some st3 \<and>
      (let start = shield_state_of xa cfg; recs = pre_records st1 (call_keys 0 tcs) @ posts in
         chain_linked (ec_prims cfg) (sh_chain_head start) recs \<and>
         steps_from (sh_step start) recs \<and>
         sh_chain_head st3 = chain_end (ec_prims cfg) (sh_chain_head start) recs \<and>
         sh_step st3 = sh_step start + int (length recs))"
proof -
  from assms(2,3) obtain st1 where g: "guard_calls cfg env (shield_state_of xa cfg) 0 tcs = Inr st1"
    and xa1: "xa1 = xa\<lparr>xa_shield := Some st1\<rparr>" by (auto simp: guard_query_def)
  from assms(4) have xa2: "xa_shield xa2 = ex_shield (exec_calls cfg 0 tcs
      \<lparr>ex_live = env', ex_out = None, ex_shield = Some st1, ex_results = [], ex_effects = []\<rparr>)"
    by (auto simp: executor_query_def Let_def xa1)
  with exec_calls_keeps[of cfg 0 tcs "\<lparr>ex_live = env', ex_out = None, ex_shield = Some st1, ex_results = [], ex_effects = []\<rparr>"]
  obtain st2 where st2: "xa_shield xa2 = Some st2" "sh_chain_head st2 = sh_chain_head st1" "sh_step st2 = sh_step st1"
    by auto
  from assms(5) st2(1) obtain st3 where r: "record_keys cfg (map fst (sh_decisions st2)) st2 = Inr (st3, posts)"
    and xa3: "xa_shield xa3 = Some st3" by (auto simp: recorder_query_def)
  from guard_calls_chain[OF g assms(1)] record_keys_chain[OF r] st2(2,3) xa1 xa3 show ?thesis
    by (auto simp: Let_def chain_linked_append steps_from_append chain_end_def pre_records_def)
qed

lemma demo_full_turn:
  "\<exists>xa1 env2 xa2 ex xa3 posts. guard_query (demo_element_config g) env (Some demo_calls) no_extra = Inr xa1 \<and>
     executor_query (demo_element_config g) env (Some demo_calls) xa1 = (env2, xa2, ex) \<and>
     recorder_query (demo_element_config g) xa2 = Inr (xa3, posts)"
proof -
  let ?c = "demo_element_config g"
  obtain xa1 where 1: "guard_query ?c env (Some demo_calls) no_extra = Inr xa1" using demo_turn by blast
  obtain env2 xa2 ex where 2: "executor_query ?c env (Some demo_calls) xa1 = (env2, xa2, ex)" by (metis prod_cases3)
  have "ec_prims ?c = demo_prims" "ec_private_key ?c = demo_key" by (simp_all add: demo_element_config_def)
  with record_keys_total[of ?c] finalize_demo
  have k: "\<exists>st' posts. record_keys ?c ks st = Inr (st', posts)" for ks st by metis
  have "\<exists>xa3 posts. recorder_query ?c xa2 = Inr (xa3, posts)"
  proof (cases "xa_shield xa2")
    case (Some st)
    obtain st' posts where "record_keys ?c (map fst (sh_decisions st)) st = Inr (st', posts)" using k by blast
    with Some show ?thesis by (simp add: recorder_query_def)
  qed (simp add: recorder_query_def)
  with 1 2 show ?thesis by blast
qed

theorem turn_records_form_a_chain_witness:
  "\<exists>xa1 st1 posts. guard_query (demo_element_config service_down) 0 (Some demo_calls) no_extra = Inr xa1 \<and>
     xa_shield xa1 = Some st1 \<and>
     chain_linked demo_prims GENESIS_CHAIN_HASH (pre_records st1 (call_keys 0 demo_calls) @ posts)"
proof -
  let ?c = "demo_element_config service_down"
  obtain xa1 env2 xa2 ex xa3 posts where t: "guard_query ?c 0 (Some demo_calls) no_extra = Inr xa1"
    "executor_query ?c 0 (Some demo_calls) xa1 = (env2, xa2, ex)" "recorder_query ?c xa2 = Inr (xa3, posts)"
    using demo_full_turn[of service_down 0] by blast
  have ne: "demo_calls \<noteq> []" by (simp add: demo_calls_def)
  have "sh_chain_head (shield_state_of no_extra ?c) = GENESIS_CHAIN_HASH" "ec_prims ?c = demo_prims"
    by (simp_all add: shield_state_of_def no_extra_def demo_element_config_def)
  with turn_records_form_a_chain[OF demo_calls_distinct ne t] t(1) show ?thesis by (auto simp: Let_def)
qed

theorem recorder_exactly_once_witness:
  "\<exists>xa1 st posts. guard_query (demo_element_config service_down) 0 (Some demo_calls) no_extra = Inr xa1 \<and>
     xa_shield xa1 = Some st \<and> (\<exists>xa2. recorder_query (demo_element_config service_down) xa1 = Inr (xa2, posts) \<and>
       recorder_query (demo_element_config service_down) xa2 = Inr (xa2, []))"
proof -
  let ?c = "demo_element_config service_down"
  obtain xa1 where g: "guard_query ?c 0 (Some demo_calls) no_extra = Inr xa1" using demo_turn by blast
  then obtain st where gc: "guard_calls ?c 0 (shield_state_of no_extra ?c) 0 demo_calls = Inr st"
    and xa1: "xa_shield xa1 = Some st" by (auto simp: guard_query_def demo_calls_def)
  have "ec_prims ?c = demo_prims" "ec_private_key ?c = demo_key" by (simp_all add: demo_element_config_def)
  with record_keys_total[of ?c "map fst (sh_decisions st)" st] finalize_demo
  obtain st' posts where "record_keys ?c (map fst (sh_decisions st)) st = Inr (st', posts)" by metis
  then obtain xa2 where r: "recorder_query ?c xa1 = Inr (xa2, posts)" by (simp add: recorder_query_def xa1)
  have d: "dict_ok (sh_decisions st)"
  proof -
    have "dict_ok (sh_decisions st')" if "guard_calls c e s n tcs = Inr st'" "dict_ok (sh_decisions s)"
      for c :: "nat element_config" and e s n tcs st'
      using that
    proof (induction tcs arbitrary: s n)
      case (Cons tc tcs)
      from Cons.prems(1) obtain s1 where s1: "guard_call c e s n tc = Inr s1"
        and rest: "guard_calls c e s1 (Suc n) tcs = Inr st'" by auto
      from guard_call_result[OF s1] obtain x where "sh_decisions s1 = dset (tool_call_key tc n) x (sh_decisions s)" by blast
      with Cons.IH[OF rest] Cons.prems(2) show ?case by simp
    qed simp
    from this[OF gc] show ?thesis by (simp add: shield_state_of_def no_extra_def)
  qed
  from recorder_exactly_once[OF xa1 d r] g xa1 r show ?thesis by blast
qed

section \<open>Two edges of the executor\<close>

text \<open>
  Two calls with the same id share one key, so the later verdict decides both: a transfer that the
  gate blocked runs because a harmless call of the same turn carries its id.
\<close>

definition block_transfers :: "action_record \<Rightarrow> string + governance_verdict" where
  "block_transfers r = Inr (demo_verdict\<lparr>v_decision :=
     (if pl_tool_name (r_payload r) = Some ''send_money'' then BLOCK else PASS)\<rparr>)"

definition same_id_calls :: "tool_call list" where
  "same_id_calls = map (\<lambda>tc. tc\<lparr>tc_id := Some ''c1''\<rparr>) demo_calls"

lemma gated_demo_calls:
  assumes "guard_query (demo_element_config g) env (Some [tc1, tc2]) no_extra = Inr xa1"
  obtains x1 x2 st1 where "xa_shield xa1 = Some st1" and "gated (demo_element_config g) tc1 x1"
    and "gated (demo_element_config g) tc2 x2"
    and "sh_decisions st1 = dset (tool_call_key tc2 1) x2 [(tool_call_key tc1 0, x1)]"
    and "sd_env_snapshot x1 = env" and "sd_env_snapshot x2 = env"
proof -
  let ?c = "demo_element_config g"
  from assms obtain s1 s2 where 1: "guard_call ?c env (shield_state_of no_extra ?c) 0 tc1 = Inr s1"
    and 2: "guard_call ?c env s1 1 tc2 = Inr s2" and xa1: "xa_shield xa1 = Some s2"
    by (auto simp: guard_query_def)
  have snap: "\<exists>x. gated ?c tc x \<and> sd_env_snapshot x = env \<and> sh_decisions s' = dset (tool_call_key tc n) x (sh_decisions s)"
    if "guard_call ?c env s n tc = Inr s'" for s n tc s'
  proof -
    from guard_call_result[OF that] obtain x where x: "gated ?c tc x"
      "sh_decisions s' = dset (tool_call_key tc n) x (sh_decisions s)" by blast
    have "dget (sh_decisions s') (tool_call_key tc n) = Some x" by (simp add: x(2))
    moreover have "\<exists>y. dget (sh_decisions s') (tool_call_key tc n) = Some y \<and> sd_env_snapshot y = env"
      using that by (auto simp: guard_call_def next_step_def Let_def split_beta)
    ultimately show ?thesis using x by auto
  qed
  from snap[OF 1] obtain x1 where x1: "gated ?c tc1 x1" "sd_env_snapshot x1 = env"
    "sh_decisions s1 = [(tool_call_key tc1 0, x1)]"
    by (auto simp: shield_state_of_def no_extra_def)
  from snap[OF 2] x1 that[OF xa1 x1(1)] show ?thesis by auto
qed

text \<open>
The keys have to be distinct: with two calls under one id the verdict of the last one decides
both, and the transfer runs although the gate answered BLOCK for the signed record of that call.
\<close>

theorem shared_call_id_defeats_the_gate:
  "\<exists>xa1 args x. guard_query (demo_element_config block_transfers) 0 (Some same_id_calls) no_extra = Inr xa1
    \<and> gated (demo_element_config block_transfers) (hd same_id_calls) x
    \<and> tc_function (hd same_id_calls) = ''send_money'' \<and> v_decision (sd_verdict x) = BLOCK
    \<and> RunTool ''send_money'' args \<in> set (ex_effects (snd (snd
        (executor_query (demo_element_config block_transfers) 0 (Some same_id_calls) xa1))))"
proof -
  let ?c = "demo_element_config block_transfers"
  have p: "ec_prims ?c = demo_prims" "ec_private_key ?c = demo_key" by (simp_all add: demo_element_config_def)
  obtain tc1 tc2 where tcs: "same_id_calls = [tc1, tc2]" and tc1: "tc_function tc1 = ''send_money''" "tc_id tc1 = Some ''c1''"
    and tc2: "tc_function tc2 = ''get_balance''" "tc_id tc2 = Some ''c1''"
    by (simp add: same_id_calls_def demo_calls_def)
  obtain xa1 where g: "guard_query ?c 0 (Some same_id_calls) no_extra = Inr xa1"
    using guard_calls_total[of ?c 0 "shield_state_of no_extra ?c" 0 same_id_calls] finalize_demo p
    by (auto simp: guard_query_def tcs)
  obtain x1 x2 st1 where raw: "xa_shield xa1 = Some st1" "gated ?c tc2 x2" "gated ?c tc1 x1"
    "sh_decisions st1 = dset (tool_call_key tc2 1) x2 [(tool_call_key tc1 0, x1)]"
    by (rule gated_demo_calls[OF g[unfolded tcs]])
  have "sh_decisions st1 = dset ''c1'' x2 [(''c1'', x1)]"
    using raw(4) by (simp add: tool_call_key_def tc1 tc2)
  note x = raw(1,2) this
  have "sd_verdict x2 = demo_verdict\<lparr>v_decision := PASS\<rparr>"
    using x(2) by (auto simp: gated_def gate_def tc2 demo_element_config_def block_transfers_def)
  then have v: "v_decision (sd_verdict x2) = PASS" by simp
  let ?s = "\<lparr>ex_live = 0, ex_out = None, ex_shield = Some st1, ex_results = [], ex_effects = []\<rparr> :: nat exec_state"
  have key: "tool_call_key tc1 0 = ''c1''" by (simp add: tool_call_key_def tc1)
  have d: "decision_at ?s (tool_call_key tc1 0) = Some x2" by (simp add: key decision_at_def x(3))
  have en: "enforce ?c (Some x2) tc1 = (True, tc_args tc1, None)" by (simp add: enforce_def v Let_def)
  have fn: "tc_function tc1 \<noteq> ec_empty_name ?c" "tc_function tc1 \<in> set (ec_functions ?c)"
    by (simp_all add: tc1 demo_element_config_def)
  let ?a = "prepared_args ?c (Some x2) (tc_args tc1)"
  have "exec_call ?c 0 tc1 ?s = run_call ?c (tool_call_key tc1 0) (Some x2) tc1 (tc_args tc1) (note_human None (Some x2) ?s)"
    using fn by (simp add: exec_call_def Let_def d en)
  then have 1: "ex_effects (exec_call ?c 0 tc1 ?s) = [RunTool ''send_money'' ?a]"
    by (simp add: run_call_effects tc1)
  from exec_call_effects[of ?c "Suc 0" tc2 "exec_call ?c 0 tc1 ?s"] obtain es where
    "ex_effects (exec_call ?c (Suc 0) tc2 (exec_call ?c 0 tc1 ?s)) = [RunTool ''send_money'' ?a] @ es"
    unfolding 1 by blast
  then have "RunTool ''send_money'' ?a \<in> set (ex_effects (snd (snd (executor_query ?c 0 (Some same_id_calls) xa1))))"
    by (simp add: executor_query_def Let_def tcs x(1))
  moreover have "sd_verdict x1 = demo_verdict\<lparr>v_decision := BLOCK\<rparr>"
    using raw(3) by (auto simp: gated_def gate_def tc1 demo_element_config_def block_transfers_def)
  then have "v_decision (sd_verdict x1) = BLOCK" by simp
  ultimately show ?thesis using g raw(3) by (auto simp: tcs tc1)
qed

text \<open>
  A rollback replaces the environment that is returned, while the calls after it in the same turn
  still run on the live one: what they did is not in the environment handed on.
\<close>

definition roll_back_transfers :: "action_record \<Rightarrow> string + governance_verdict" where
  "roll_back_transfers r = Inr (demo_verdict\<lparr>v_decision :=
     (if pl_tool_name (r_payload r) = Some ''send_money'' then ROLLBACK else PASS)\<rparr>)"

text \<open>
After a ROLLBACK the later calls of the turn act on an environment that is thrown away: the
tool runs, yet the environment returned is the snapshot taken before it.
\<close>

theorem rollback_discards_later_calls:
  "\<exists>xa1 env2 xa2 ex. guard_query (demo_element_config roll_back_transfers) 0 (Some demo_calls) no_extra = Inr xa1
    \<and> executor_query (demo_element_config roll_back_transfers) 0 (Some demo_calls) xa1 = (env2, xa2, ex)
    \<and> RunTool ''get_balance'' [] \<in> set (ex_effects ex) \<and> ex_live ex = 1 \<and> env2 = 0"
proof -
  let ?c = "demo_element_config roll_back_transfers"
  obtain tc1 tc2 where tcs: "demo_calls = [tc1, tc2]" and tc1: "tc_function tc1 = ''send_money''" "tc_id tc1 = Some ''c1''"
    and tc2: "tc_function tc2 = ''get_balance''" "tc_id tc2 = Some ''c2''" "tc_args tc2 = []"
    by (rule that[of "demo_calls ! 0" "demo_calls ! 1"]) (simp_all add: demo_calls_def)
  obtain xa1 where g: "guard_query ?c 0 (Some demo_calls) no_extra = Inr xa1" using demo_turn by blast
  obtain x1 x2 st1 where raw: "xa_shield xa1 = Some st1" "gated ?c tc1 x1" "gated ?c tc2 x2"
    "sh_decisions st1 = dset (tool_call_key tc2 1) x2 [(tool_call_key tc1 0, x1)]"
    "sd_env_snapshot x1 = 0"
    by (rule gated_demo_calls[OF g[unfolded tcs]])
  have v1: "sd_verdict x1 = demo_verdict\<lparr>v_decision := ROLLBACK\<rparr>"
    using raw(2) by (auto simp: gated_def gate_def tc1 demo_element_config_def roll_back_transfers_def)
  have v2: "sd_verdict x2 = demo_verdict\<lparr>v_decision := PASS\<rparr>"
    using raw(3) by (auto simp: gated_def gate_def tc2 demo_element_config_def roll_back_transfers_def)
  have keys: "tool_call_key tc1 0 = ''c1''" "tool_call_key tc2 (Suc 0) = ''c2''"
    by (simp_all add: tool_call_key_def tc1 tc2)
  let ?s = "\<lparr>ex_live = 0, ex_out = None, ex_shield = Some st1, ex_results = [], ex_effects = []\<rparr> :: nat exec_state"
  let ?s1 = "exec_call ?c 0 tc1 ?s"
  have cfg: "ec_functions ?c = [''send_money'', ''get_balance'']" "ec_empty_name ?c = ''<empty-function>''"
    "ec_has_copy ?c = (\<lambda>e. True)" "ec_run ?c = (\<lambda>e f a. (Suc e, JNull, None))" "ec_env_restore_hook ?c = False"
    "ec_checkpoint_hook ?c = False"
    by (simp_all add: demo_element_config_def)
  have d1: "decision_at ?s ''c1'' = Some x1" "decision_at ?s ''c2'' = Some x2"
    by (simp_all add: decision_at_def raw(4) keys)
  have e1: "enforce ?c (Some x1) tc1 = (False, tc_args tc1, None)" by (simp add: enforce_def v1 Let_def)
  have s1: "?s1 = skip_call ?c ''c1'' x1 tc1 ?s"
    by (simp add: exec_call_def cfg tc1 Let_def keys d1 e1 note_human_def)
  have s1_out: "ex_out ?s1 = Some 0" "ex_live ?s1 = 0"
    unfolding s1 by (simp_all add: skip_call_def Let_def split_beta v1 rollback_call_def cfg add_result_def raw(5))
  have "decision_at ?s1 ''c2'' = Some x2"
    using exec_call_other_key[of "''c2''" tc1 0 ?c ?s] d1(2) keys by simp
  moreover have "enforce ?c (Some x2) tc2 = (True, [], None)" by (simp add: enforce_def v2 Let_def tc2)
  ultimately have s2: "exec_call ?c (Suc 0) tc2 ?s1 = run_call ?c ''c2'' (Some x2) tc2 [] ?s1"
    by (simp add: exec_call_def cfg tc2 Let_def keys note_human_def)
  have m: "prepared_args ?c (Some x2) [] = []"
    by (simp add: prepared_args_def v2 demo_verdict_def no_obligations_def apply_mask_args_def coerce_string_lists_def)
  let ?s2 = "exec_call ?c (Suc 0) tc2 ?s1"
  have r: "ex_out ?s2 = Some 0" "ex_live ?s2 = 1" "RunTool ''get_balance'' [] \<in> set (ex_effects ?s2)"
    unfolding s2 using s1_out by (simp_all add: run_call_def Let_def split_beta cfg add_result_def m tc2)
  have "executor_query ?c 0 (Some demo_calls) xa1 = (0, xa1\<lparr>xa_shield := ex_shield ?s2\<rparr>, ?s2)"
    using r(1) by (simp add: executor_query_def Let_def tcs raw(1))
  with g r show ?thesis by blast
qed

end
