(* ===== verification/Models.thy ===== *)
theory Models
  imports Canonical
begin

text \<open>
  The data of the server, \<open>packages/shield-server/src/shield_server/models.py\<close>, the error
  model of \<open>errors.py\<close>, and the rows that \<open>storage/memory.py\<close> keeps: a row is the record
  of the columns its INSERT statement names.  What goes to the object store is the serialised
  form of a model; writing and reading it back is pydantic and \<open>json\<close>, so the store holds
  the model itself (\<open>stored\<close>), and reading it as another model is a conversion that follows the
  field names the two have in common.
\<close>

section \<open>Base64 text is not blank\<close>

lemma b64_not_space:
  assumes "i < 64"
  shows "\<not> is_space (to_url (b64_char i))"
proof -
  have "(of_char (b64_char i) :: nat) \<in> {43} \<union> {47..122}"
    using of_char_b64_char[OF assms] assms by auto
  moreover have "(of_char c :: nat) = 43 \<Longrightarrow> c = CHR ''+''" for c
  proof -
    assume "(of_char c :: nat) = 43"
    then have "(of_char c :: nat) = of_char (CHR ''+'')" by simp
    then show ?thesis by (simp only: of_char_eq_iff)
  qed
  ultimately have "(of_char (to_url (b64_char i)) :: nat) \<in> {45} \<union> {47..122}"
    by (auto simp: to_url_def)
  then show ?thesis by (auto simp: is_space_def)
qed

lemma base64url_not_blank: "bs \<noteq> [] \<Longrightarrow> \<not> blank (base64url_encode bs)"
proof -
  assume "bs \<noteq> []"
  then have ne: "b64_core bs \<noteq> []" by (cases bs rule: b64_core.cases) (simp_all add: Let_def)
  then obtain c where c: "c \<in> set (b64_core bs)" by (cases "b64_core bs") auto
  then obtain i where "i < 64" "c = b64_char i" using b64_core_chars by blast
  with c b64_not_space[of i] show ?thesis
    by (auto simp: blank_def base64url_encode_core list_all_iff)
qed

section \<open>json.dumps\<close>

text \<open>\<open>json.dumps(v, separators=(',', ':'), ensure_ascii=False)\<close>: insertion order, no spaces.\<close>

definition dumps_number :: "(rat \<Rightarrow> string) \<Rightarrow> pyfloat \<Rightarrow> string" where
  "dumps_number fr v =
     (case v of NaN \<Rightarrow> ''NaN'' | PInf \<Rightarrow> ''Infinity'' | NInf \<Rightarrow> ''-Infinity'' | Fin x \<Rightarrow> fr x)"

primrec json_dumps :: "(rat \<Rightarrow> string) \<Rightarrow> json \<Rightarrow> string" where
  "json_dumps fr JNull = ''null''"
| "json_dumps fr (JBool b) = (if b then ''true'' else ''false'')"
| "json_dumps fr (JInt i) = show_int i"
| "json_dumps fr (JFloat v) = dumps_number fr v"
| "json_dumps fr (JStr s) = json_quote s"
| "json_dumps fr (JArr vs) = ''['' @ join '','' (map (json_dumps fr) vs) @ '']''"
| "json_dumps fr (JObj kvs) =
     ''{'' @ join '','' (map jcs_pair (map (map_prod id (json_dumps fr)) kvs)) @ ''}''"

section \<open>Errors\<close>

datatype error_code =
    INVALID_SIGNATURE | UNKNOWN_AGENT | KEY_REVOKED | AGENT_FROZEN | TTL_EXPIRED
  | REPLAY_DETECTED | PREV_HASH_MISMATCH | PAYLOAD_TOO_LARGE | RATE_LIMITED | INTERNAL_ERROR
  | UNAUTHORIZED | FORBIDDEN | NOT_FOUND | VALIDATION_ERROR | ENTERPRISE_MODE_SIGNUP_DISABLED

fun ERROR_CODES :: "error_code \<Rightarrow> string" where
  "ERROR_CODES INVALID_SIGNATURE = ''The operation signature is invalid.''"
| "ERROR_CODES UNKNOWN_AGENT = ''The specified agent does not exist.''"
| "ERROR_CODES KEY_REVOKED = ''The signing key has been revoked.''"
| "ERROR_CODES AGENT_FROZEN = ''The agent is frozen and cannot submit operations.''"
| "ERROR_CODES TTL_EXPIRED = ''The operation TTL has expired.''"
| "ERROR_CODES REPLAY_DETECTED = ''A duplicate nonce was detected (replay attack).''"
| "ERROR_CODES PREV_HASH_MISMATCH = ''The previous chain hash does not match.''"
| "ERROR_CODES PAYLOAD_TOO_LARGE = ''The operation payload exceeds the maximum allowed size.''"
| "ERROR_CODES RATE_LIMITED = ''Too many requests. Please retry later.''"
| "ERROR_CODES INTERNAL_ERROR = ''An internal server error occurred.''"
| "ERROR_CODES UNAUTHORIZED = ''Authentication is required.''"
| "ERROR_CODES FORBIDDEN = ''You do not have permission to perform this action.''"
| "ERROR_CODES NOT_FOUND = ''The requested resource was not found.''"
| "ERROR_CODES VALIDATION_ERROR = ''The request failed validation.''"
| "ERROR_CODES ENTERPRISE_MODE_SIGNUP_DISABLED =
     ''Self-service sign-up is disabled in enterprise mode. New users must arrive via invite from an org admin.''"

record app_error =
  ae_status :: int
  ae_code :: error_code
  ae_message :: string
  ae_details :: "(string \<times> string) list option"

text \<open>\<open>AppError(status, code, message, details)\<close>: an absent or empty message is the standard one.\<close>

definition app_error_of :: "int \<Rightarrow> error_code \<Rightarrow> string option \<Rightarrow> (string \<times> string) list option \<Rightarrow> app_error" where
  "app_error_of status code message details =
     \<lparr>ae_status = status, ae_code = code,
      ae_message = (case message of None \<Rightarrow> ERROR_CODES code | Some m \<Rightarrow> if m = [] then ERROR_CODES code else m),
      ae_details = details\<rparr>"

text \<open>What a handler can raise: an \<open>AppError\<close>, or an exception of Python or of a library.\<close>

datatype failure = AppError app_error | PyError py_exc

definition app_err :: "int \<Rightarrow> error_code \<Rightarrow> failure" where
  "app_err status code = AppError (app_error_of status code None None)"

definition app_err_msg :: "int \<Rightarrow> error_code \<Rightarrow> string \<Rightarrow> failure" where
  "app_err_msg status code message = AppError (app_error_of status code (Some message) None)"

definition lift_py :: "py_exc + 'a \<Rightarrow> failure + 'a" where
  "lift_py r = (case r of Inl e \<Rightarrow> Inl (PyError e) | Inr x \<Rightarrow> Inr x)"

lemma lift_py_simps [simp]: "lift_py (Inl e) = Inl (PyError e)" "lift_py (Inr x) = Inr x"
  by (simp_all add: lift_py_def)

text \<open>The body of the response to an \<open>AppError\<close> (\<open>app_error_handler\<close>): status and JSON.\<close>

fun error_code_name :: "error_code \<Rightarrow> string" where
  "error_code_name INVALID_SIGNATURE = ''INVALID_SIGNATURE''"
| "error_code_name UNKNOWN_AGENT = ''UNKNOWN_AGENT''"
| "error_code_name KEY_REVOKED = ''KEY_REVOKED''"
| "error_code_name AGENT_FROZEN = ''AGENT_FROZEN''"
| "error_code_name TTL_EXPIRED = ''TTL_EXPIRED''"
| "error_code_name REPLAY_DETECTED = ''REPLAY_DETECTED''"
| "error_code_name PREV_HASH_MISMATCH = ''PREV_HASH_MISMATCH''"
| "error_code_name PAYLOAD_TOO_LARGE = ''PAYLOAD_TOO_LARGE''"
| "error_code_name RATE_LIMITED = ''RATE_LIMITED''"
| "error_code_name INTERNAL_ERROR = ''INTERNAL_ERROR''"
| "error_code_name UNAUTHORIZED = ''UNAUTHORIZED''"
| "error_code_name FORBIDDEN = ''FORBIDDEN''"
| "error_code_name NOT_FOUND = ''NOT_FOUND''"
| "error_code_name VALIDATION_ERROR = ''VALIDATION_ERROR''"
| "error_code_name ENTERPRISE_MODE_SIGNUP_DISABLED = ''ENTERPRISE_MODE_SIGNUP_DISABLED''"

definition build_error_response ::
  "error_code \<Rightarrow> string \<Rightarrow> string option \<Rightarrow> (string \<times> string) list option \<Rightarrow> json" where
  "build_error_response code request_id message details =
     JObj [(''error'', JObj ([(''code'', JStr (error_code_name code)),
        (''message'', JStr (case message of None \<Rightarrow> ERROR_CODES code
           | Some m \<Rightarrow> if m = [] then ERROR_CODES code else m)),
        (''request_id'', JStr request_id)]
      @ (case details of None \<Rightarrow> [] | Some [] \<Rightarrow> []
         | Some d \<Rightarrow> [(''details'', JObj (map (map_prod id JStr) d))])))]"

definition app_error_handler :: "string \<Rightarrow> failure \<Rightarrow> int \<times> json" where
  "app_error_handler request_id f =
     (case f of
        AppError e \<Rightarrow> (ae_status e, build_error_response (ae_code e) request_id (Some (ae_message e)) (ae_details e))
      | PyError _ \<Rightarrow> (500, build_error_response INTERNAL_ERROR request_id None None))"

section \<open>Operation records, receipts\<close>

datatype eor_payload = NoPayload | TextPayload string | ObjPayload jobj

record eor =
  e_op_version :: string
  e_operation_id :: string
  e_org_id :: string
  e_agent_id :: string
  e_issued_at :: int
  e_ttl_ms :: int
  e_nonce :: string
  e_operation_type :: string
  e_subject :: jobj
  e_action :: jobj
  e_payload :: eor_payload
  e_payload_hash :: string
  e_prev_chain_hash :: string
  e_agent_pubkey_kid :: string
  e_signature :: string

definition eor_default :: eor where
  "eor_default = \<lparr>e_op_version = [], e_operation_id = [], e_org_id = [], e_agent_id = [],
     e_issued_at = 0, e_ttl_ms = -1, e_nonce = [], e_operation_type = [], e_subject = [],
     e_action = [], e_payload = NoPayload, e_payload_hash = [], e_prev_chain_hash = [],
     e_agent_pubkey_kid = [], e_signature = []\<rparr>"

fun payload_json :: "eor_payload \<Rightarrow> json" where
  "payload_json NoPayload = JNull"
| "payload_json (TextPayload s) = JStr s"
| "payload_json (ObjPayload kvs) = JObj kvs"

text \<open>\<open>model_dump(mode='json')\<close> of an operation record, in the order of its fields.\<close>

definition dump_eor :: "eor \<Rightarrow> jobj" where
  "dump_eor e =
     [(''op_version'', JStr (e_op_version e)), (''operation_id'', JStr (e_operation_id e)),
      (''org_id'', JStr (e_org_id e)), (''agent_id'', JStr (e_agent_id e)),
      (''issued_at'', JInt (e_issued_at e)), (''ttl_ms'', JInt (e_ttl_ms e)),
      (''nonce'', JStr (e_nonce e)), (''operation_type'', JStr (e_operation_type e)),
      (''subject'', JObj (e_subject e)), (''action'', JObj (e_action e)),
      (''payload'', payload_json (e_payload e)), (''payload_hash'', JStr (e_payload_hash e)),
      (''prev_chain_hash'', JStr (e_prev_chain_hash e)),
      (''agent_pubkey_kid'', JStr (e_agent_pubkey_kid e)), (''signature'', JStr (e_signature e))]"

record ear =
  ear_receipt_version :: string
  ear_receipt_id :: string
  ear_operation_id :: string
  ear_org_id :: string
  ear_agent_id :: string
  ear_server_received_at :: int
  ear_seq_no :: int
  ear_chain_hash :: string
  ear_queue_message_id :: string
  ear_receipt_hash :: string
  ear_elydora_kid :: string
  ear_elydora_signature :: string

section \<open>Table rows\<close>

datatype agent_status = AGENT_ACTIVE | AGENT_IS_FROZEN | AGENT_IS_REVOKED
datatype key_status = KEY_ACTIVE | KEY_IS_RETIRED | KEY_IS_REVOKED

record agent =
  a_agent_id :: string
  a_org_id :: string
  a_display_name :: string
  a_responsible_entity :: string
  a_integration_type :: string
  a_status :: agent_status
  a_created_at :: int
  a_updated_at :: int

record agent_key =
  k_kid :: string
  k_agent_id :: string
  k_public_key :: string
  k_status :: key_status
  k_created_at :: int
  k_retired_at :: "int option"

record operation =
  o_operation_id :: string
  o_org_id :: string
  o_agent_id :: string
  o_seq_no :: int
  o_operation_type :: string
  o_issued_at :: int
  o_ttl_ms :: int
  o_nonce :: string
  o_subject :: string
  o_action :: string
  o_payload_hash :: string
  o_prev_chain_hash :: string
  o_chain_hash :: string
  o_agent_pubkey_kid :: string
  o_signature :: string
  o_r2_payload_key :: string
  o_created_at :: int
  o_correlation_id :: "string option"
  o_run_id :: "string option"
  o_phase :: "phase option"

record receipt =
  rcp_receipt_id :: string
  rcp_operation_id :: string
  rcp_r2_receipt_key :: string
  rcp_created_at :: int

record verdict_row =
  gv_verdict_id :: string
  gv_record_id :: string
  gv_correlation_id :: string
  gv_run_id :: string
  gv_org_id :: string
  gv_agent_id :: string
  gv_decision :: decision
  gv_risk_score :: pyfloat
  gv_latency_ms :: "pyfloat option"
  gv_prevented_loss :: pyfloat
  gv_r2_verdict_key :: string
  gv_created_at :: int
  gv_resolution :: "string option"
  gv_resolved_at :: "int option"

record intervention =
  iv_verdict_id :: string
  iv_record_id :: string
  iv_correlation_id :: string
  iv_run_id :: string
  iv_decision :: decision
  iv_step_index :: int
  iv_triggered_rule_id :: "string option"
  iv_tokens_in :: int
  iv_tokens_out :: int
  iv_model_id :: "string option"
  iv_served_via :: "served_via option"
  iv_latency_ms :: "pyfloat option"
  iv_created_at :: int

record epoch =
  ep_epoch_id :: string
  ep_org_id :: string
  ep_start_time :: int
  ep_end_time :: int
  ep_root_hash :: string
  ep_leaf_count :: int
  ep_r2_epoch_key :: string
  ep_created_at :: int

record eer =
  eer_epoch_id :: string
  eer_org_id :: string
  eer_start_time :: int
  eer_end_time :: int
  eer_leaf_count :: int
  eer_root_hash :: string
  eer_hash_alg :: string
  eer_signature_by_elydora :: string

datatype export_status = EXPORT_QUEUED | EXPORT_RUNNING | EXPORT_DONE | EXPORT_FAILED

record export_row =
  xp_export_id :: string
  xp_org_id :: string
  xp_status :: export_status
  xp_query_params :: string
  xp_r2_export_key :: "string option"
  xp_created_at :: int
  xp_completed_at :: "int option"

text \<open>The body of a JSON export.\<close>

record export_body =
  xb_export_id :: string
  xb_org_id :: string
  xb_query :: jobj
  xb_generated_at :: int
  xb_operations :: "operation list"
  xb_governance_verdicts :: "verdict_row list"
  xb_epochs :: "epoch list"

section \<open>Stored objects\<close>

datatype stored =
    OperationEnvelope eor
  | ReceiptEnvelope ear
  | RecordEnvelope action_record
  | VerdictEnvelope governance_verdict
  | EvidenceEnvelope "jobj list"
  | EpochArtifact epoch eer
  | ExportArtifact export_body
  | PdfArtifact bytes

text \<open>
  \<open>OperationRecord.model_validate_json\<close> on a stored object.  The model ignores unknown fields
  and has a default for each of its own, so every stored object but a list is read as one.
\<close>

definition operation_of_record :: "action_record \<Rightarrow> eor" where
  "operation_of_record r = eor_default\<lparr>e_org_id := r_org_id r, e_agent_id := r_agent_id r,
     e_issued_at := r_issued_at r, e_ttl_ms := r_ttl_ms r, e_nonce := r_nonce r,
     e_operation_type := r_operation_type r, e_subject := r_subject r,
     e_action := (case dump_action False (r_action r) of JObj kvs \<Rightarrow> kvs | _ \<Rightarrow> []),
     e_payload := (case dump_payload False (r_payload r) of JObj kvs \<Rightarrow> ObjPayload kvs | _ \<Rightarrow> NoPayload),
     e_payload_hash := r_payload_hash r, e_prev_chain_hash := r_prev_chain_hash r,
     e_agent_pubkey_kid := r_agent_pubkey_kid r,
     e_signature := (case r_signature r of None \<Rightarrow> [] | Some s \<Rightarrow> s)\<rparr>"

definition operation_of_stored :: "stored \<Rightarrow> py_exc + eor" where
  "operation_of_stored x =
     (case x of
        OperationEnvelope e \<Rightarrow> Inr e
      | ReceiptEnvelope r \<Rightarrow> Inr (eor_default\<lparr>e_operation_id := ear_operation_id r,
          e_org_id := ear_org_id r, e_agent_id := ear_agent_id r\<rparr>)
      | RecordEnvelope r \<Rightarrow>
          if r_signature r = None then Inl ValueError else Inr (operation_of_record r)
      | VerdictEnvelope _ \<Rightarrow> Inr eor_default
      | EvidenceEnvelope _ \<Rightarrow> Inl ValueError
      | EpochArtifact _ _ \<Rightarrow> Inr eor_default
      | ExportArtifact b \<Rightarrow> Inr (eor_default\<lparr>e_org_id := xb_org_id b\<rparr>)
      | PdfArtifact _ \<Rightarrow> Inl ValueError)"

text \<open>\<open>json.loads\<close> followed by subscripts with the fields of a receipt.\<close>

definition receipt_of_stored :: "stored \<Rightarrow> py_exc + ear" where
  "receipt_of_stored x =
     (case x of ReceiptEnvelope r \<Rightarrow> Inr r | EvidenceEnvelope _ \<Rightarrow> Inl TypeError
      | PdfArtifact _ \<Rightarrow> Inl ValueError | _ \<Rightarrow> Inl KeyError)"

text \<open>\<open>json.loads(raw).get('payload')\<close>, when it is an object.\<close>

definition payload_of_stored :: "stored \<Rightarrow> jobj option" where
  "payload_of_stored x =
     (case x of
        OperationEnvelope e \<Rightarrow> (case e_payload e of ObjPayload kvs \<Rightarrow> Some kvs | _ \<Rightarrow> None)
      | RecordEnvelope r \<Rightarrow> (case dump_payload False (r_payload r) of JObj kvs \<Rightarrow> Some kvs | _ \<Rightarrow> None)
      | _ \<Rightarrow> None)"

end
