(* ===== verification/Storage.thy ===== *)
theory Storage
  imports Models
begin

text \<open>
  The in-memory storage of \<open>packages/shield-server/src/shield_server/storage/memory.py\<close>: an
  object store, a cache with expiring keys and append-only streams, and a database that
  understands a fixed set of statements.  A table is a Python dict from its key to the row, in
  insertion order; a statement that reads is a function of the tables, a statement that writes
  is a constructor of \<open>stmt\<close> executed by \<open>db_execute\<close>, and a transaction collects statements
  and executes them in order at its end.

  The reading of the clock is an argument of each operation that looks at the time, in
  milliseconds.

  Three interfaces, \<open>object_store\<close>, \<open>replay_cache\<close> and \<open>operation_log\<close>, state what the
  services rely on; they are interpreted on the definitions here.
\<close>

section \<open>Object store\<close>

type_synonym objects = "(string, stored) dict"

definition object_put :: "string \<Rightarrow> stored \<Rightarrow> objects \<Rightarrow> objects" where
  "object_put key body os = dset key body os"

definition object_get :: "objects \<Rightarrow> string \<Rightarrow> stored option" where
  "object_get os key = dget os key"

section \<open>Cache\<close>

text \<open>The serialised fields of the two kinds of stream entries.\<close>

datatype stream_fields =
    ActionFields string string phase string string string action_record
    \<comment> \<open>record_id, correlation_id, phase, seq_no, chain_hash, verdict_id, record\<close>
  | VerdictFields string string string string decision pyfloat phase governance_verdict
    \<comment> \<open>verdict_id, record_id, correlation_id, run_id, decision, risk_score, phase, verdict\<close>

record cache =
  c_store :: "(string, string \<times> int option) dict"
  c_streams :: "(string, (string \<times> stream_fields) list) dict"
  c_groups :: "(string \<times> string) set"

definition cache_live :: "int \<Rightarrow> cache \<Rightarrow> string \<Rightarrow> cache \<times> string option" where
  "cache_live now c key =
     (case dget (c_store c) key of
        None \<Rightarrow> (c, None)
      | Some (value, expires) \<Rightarrow>
          if (case expires of None \<Rightarrow> False | Some t \<Rightarrow> t < now)
          then (c\<lparr>c_store := dpop key (c_store c)\<rparr>, None)
          else (c, Some value))"

definition cache_get :: "int \<Rightarrow> cache \<Rightarrow> string \<Rightarrow> cache \<times> string option" where
  "cache_get now c key = cache_live now c key"

definition set_if_absent :: "int \<Rightarrow> string \<Rightarrow> string \<Rightarrow> int \<Rightarrow> cache \<Rightarrow> cache \<times> bool" where
  "set_if_absent now key value ttl_seconds c =
     (case cache_live now c key of
        (c', Some _) \<Rightarrow> (c', False)
      | (c', None) \<Rightarrow>
          (c'\<lparr>c_store := dset key (value, Some (now + ttl_seconds * 1000)) (c_store c')\<rparr>, True))"

definition cache_set :: "string \<Rightarrow> string \<Rightarrow> cache \<Rightarrow> cache" where
  "cache_set key value c =
     (let expires = (case dget (c_store c) key of None \<Rightarrow> None | Some previous \<Rightarrow> snd previous) in
      c\<lparr>c_store := dset key (value, expires) (c_store c)\<rparr>)"

definition stream_entries :: "cache \<Rightarrow> string \<Rightarrow> (string \<times> stream_fields) list" where
  "stream_entries c stream = (case dget (c_streams c) stream of None \<Rightarrow> [] | Some es \<Rightarrow> es)"

definition ensure_group :: "string \<Rightarrow> string \<Rightarrow> cache \<Rightarrow> cache" where
  "ensure_group stream grp c =
     c\<lparr>c_streams := (case dget (c_streams c) stream of
          None \<Rightarrow> dset stream [] (c_streams c) | Some _ \<Rightarrow> c_streams c),
       c_groups := insert (stream, grp) (c_groups c)\<rparr>"

definition xadd :: "string \<Rightarrow> stream_fields \<Rightarrow> cache \<Rightarrow> cache \<times> string" where
  "xadd stream entry c =
     (let entries = stream_entries c stream;
          msg_id = show_nat (length entries + 1) @ ''-0'' in
      (c\<lparr>c_streams := dset stream (entries @ [(msg_id, entry)]) (c_streams c)\<rparr>, msg_id))"

definition xrange :: "cache \<Rightarrow> string \<Rightarrow> nat option \<Rightarrow> (string \<times> stream_fields) list" where
  "xrange c stream count =
     (case count of None \<Rightarrow> stream_entries c stream | Some n \<Rightarrow> take n (stream_entries c stream))"

section \<open>Database\<close>

record database =
  d_organizations :: "(string, string \<times> string \<times> int \<times> int) dict"
  d_agents :: "(string, agent) dict"
  d_agent_keys :: "(string, agent_key) dict"
  d_operations :: "(string, operation) dict"
  d_receipts :: "(string, receipt) dict"
  d_intervention_log :: "intervention list"
  d_governance_verdicts :: "(string, verdict_row) dict"
  d_epochs :: "(string, epoch) dict"
  d_exports :: "(string, export_row) dict"

record storage =
  st_objects :: objects
  st_cache :: cache
  st_db :: database

subsection \<open>Queries for one row\<close>

definition select_agent :: "database \<Rightarrow> string \<Rightarrow> string \<Rightarrow> agent option" where
  "select_agent db agent_id org_id =
     (case dget (d_agents db) agent_id of
        None \<Rightarrow> None | Some row \<Rightarrow> if a_org_id row = org_id then Some row else None)"

definition select_agent_key :: "database \<Rightarrow> string \<Rightarrow> string \<Rightarrow> agent_key option" where
  "select_agent_key db kid agent_id =
     (case dget (d_agent_keys db) kid of
        None \<Rightarrow> None | Some row \<Rightarrow> if k_agent_id row = agent_id then Some row else None)"

text \<open>\<open>max(owned, key=...)\<close> returns the first of the rows with the greatest number.\<close>

definition later :: "operation \<Rightarrow> operation \<Rightarrow> operation" where
  "later best o' = (if o_seq_no best < o_seq_no o' then o' else best)"

definition operations_of :: "database \<Rightarrow> string \<Rightarrow> operation list" where
  "operations_of db agent_id = filter (\<lambda>o'. o_agent_id o' = agent_id) (dvalues (d_operations db))"

definition select_latest :: "database \<Rightarrow> string \<Rightarrow> operation option" where
  "select_latest db agent_id =
     (case operations_of db agent_id of [] \<Rightarrow> None | o' # os \<Rightarrow> Some (foldl later o' os))"

definition select_chain_hash :: "database \<Rightarrow> string \<Rightarrow> int \<Rightarrow> string option" where
  "select_chain_hash db agent_id seq_no =
     map_option o_chain_hash
       (find (\<lambda>o'. o_agent_id o' = agent_id \<and> o_seq_no o' = seq_no) (dvalues (d_operations db)))"

definition select_operation :: "database \<Rightarrow> string \<Rightarrow> string \<Rightarrow> operation option" where
  "select_operation db operation_id org_id =
     (case dget (d_operations db) operation_id of
        None \<Rightarrow> None | Some row \<Rightarrow> if o_org_id row = org_id then Some row else None)"

definition select_receipt :: "database \<Rightarrow> string \<Rightarrow> receipt option" where
  "select_receipt db operation_id =
     find (\<lambda>r. rcp_operation_id r = operation_id) (dvalues (d_receipts db))"

definition select_verdict_of_record :: "database \<Rightarrow> string \<Rightarrow> verdict_row option" where
  "select_verdict_of_record db record_id =
     find (\<lambda>v. gv_record_id v = record_id) (dvalues (d_governance_verdicts db))"

definition select_verdict :: "database \<Rightarrow> string \<Rightarrow> string \<Rightarrow> verdict_row option" where
  "select_verdict db verdict_id org_id =
     (case dget (d_governance_verdicts db) verdict_id of
        None \<Rightarrow> None | Some row \<Rightarrow> if gv_org_id row = org_id then Some row else None)"

definition select_export :: "database \<Rightarrow> string \<Rightarrow> string \<Rightarrow> export_row option" where
  "select_export db export_id org_id =
     (case dget (d_exports db) export_id of
        None \<Rightarrow> None | Some row \<Rightarrow> if xp_org_id row = org_id then Some row else None)"

subsection \<open>Statements\<close>

datatype stmt =
    InsertOrganization string string int int
  | InsertOperation operation
  | InsertReceipt receipt
  | InsertAgent agent
  | InsertAgentKey agent_key
  | UpdateAgentStatus agent_status int string
  | UpdateIntegrationType string int string
  | UpdateKeyStatus key_status int string
  | DeleteAgentKeys string
  | DeleteAgent string
  | InsertIntervention intervention
  | InsertVerdict verdict_row
  | InsertEpoch epoch
  | InsertExport export_row
  | UpdateResolution string int string

definition update_row :: "(string, 'r) dict \<Rightarrow> string \<Rightarrow> ('r \<Rightarrow> 'r) \<Rightarrow> py_exc + (string, 'r) dict" where
  "update_row t key f =
     (case dget t key of None \<Rightarrow> Inl KeyError | Some row \<Rightarrow> Inr (dset key (f row) t))"

fun db_execute :: "stmt \<Rightarrow> database \<Rightarrow> py_exc + database" where
  "db_execute (InsertOrganization i n c u) db =
     Inr (case dget (d_organizations db) i of
            Some _ \<Rightarrow> db | None \<Rightarrow> db\<lparr>d_organizations := dset i (i, n, c, u) (d_organizations db)\<rparr>)"
| "db_execute (InsertOperation row) db =
     Inr (db\<lparr>d_operations := dset (o_operation_id row) row (d_operations db)\<rparr>)"
| "db_execute (InsertReceipt row) db =
     Inr (db\<lparr>d_receipts := dset (rcp_receipt_id row) row (d_receipts db)\<rparr>)"
| "db_execute (InsertAgent row) db =
     Inr (db\<lparr>d_agents := dset (a_agent_id row) row (d_agents db)\<rparr>)"
| "db_execute (InsertAgentKey row) db =
     Inr (db\<lparr>d_agent_keys := dset (k_kid row) row (d_agent_keys db)\<rparr>)"
| "db_execute (UpdateAgentStatus s now i) db =
     rbind (update_row (d_agents db) i (\<lambda>r. r\<lparr>a_status := s, a_updated_at := now\<rparr>))
       (\<lambda>t. Inr (db\<lparr>d_agents := t\<rparr>))"
| "db_execute (UpdateIntegrationType s now i) db =
     rbind (update_row (d_agents db) i (\<lambda>r. r\<lparr>a_integration_type := s, a_updated_at := now\<rparr>))
       (\<lambda>t. Inr (db\<lparr>d_agents := t\<rparr>))"
| "db_execute (UpdateKeyStatus s now i) db =
     rbind (update_row (d_agent_keys db) i (\<lambda>r. r\<lparr>k_status := s, k_retired_at := Some now\<rparr>))
       (\<lambda>t. Inr (db\<lparr>d_agent_keys := t\<rparr>))"
| "db_execute (DeleteAgentKeys i) db =
     Inr (db\<lparr>d_agent_keys := filter (\<lambda>kv. k_agent_id (snd kv) \<noteq> i) (d_agent_keys db)\<rparr>)"
| "db_execute (DeleteAgent i) db = Inr (db\<lparr>d_agents := dpop i (d_agents db)\<rparr>)"
| "db_execute (InsertIntervention row) db =
     Inr (db\<lparr>d_intervention_log := d_intervention_log db @ [row]\<rparr>)"
| "db_execute (InsertVerdict row) db =
     Inr (db\<lparr>d_governance_verdicts := dset (gv_verdict_id row) row (d_governance_verdicts db)\<rparr>)"
| "db_execute (InsertEpoch row) db =
     Inr (db\<lparr>d_epochs := dset (ep_epoch_id row) row (d_epochs db)\<rparr>)"
| "db_execute (InsertExport row) db =
     Inr (db\<lparr>d_exports := dset (xp_export_id row) row (d_exports db)\<rparr>)"
| "db_execute (UpdateResolution decision now i) db =
     Inr (case dget (d_governance_verdicts db) i of
            None \<Rightarrow> db
          | Some row \<Rightarrow> db\<lparr>d_governance_verdicts := dset i
              (row\<lparr>gv_resolution := Some decision, gv_resolved_at := Some now\<rparr>) (d_governance_verdicts db)\<rparr>)"

text \<open>The commit of a transaction: the statements in order; a failure leaves the earlier ones.\<close>

fun tx_commit :: "stmt list \<Rightarrow> database \<Rightarrow> database \<times> py_exc option" where
  "tx_commit [] db = (db, None)"
| "tx_commit (q # qs) db =
     (case db_execute q db of Inl e \<Rightarrow> (db, Some e) | Inr db' \<Rightarrow> tx_commit qs db')"

text \<open>The statements of the ingest paths cannot fail.\<close>

fun insertion :: "stmt \<Rightarrow> bool" where
  "insertion (UpdateAgentStatus _ _ _) = False"
| "insertion (UpdateIntegrationType _ _ _) = False"
| "insertion (UpdateKeyStatus _ _ _) = False"
| "insertion _ = True"

lemma insertion_ok: "insertion q \<Longrightarrow> \<exists>db'. db_execute q db = Inr db'"
  by (cases q) auto

lemma tx_commit_ok: "list_all insertion qs \<Longrightarrow> snd (tx_commit qs db) = None"
proof (induction qs arbitrary: db)
  case (Cons q qs)
  then obtain db' where "db_execute q db = Inr db'" using insertion_ok by fastforce
  with Cons show ?case by simp
qed simp

section \<open>What the services rely on\<close>

text \<open>Reading an object store: the last write to a key, and no other, is what is read.\<close>

locale object_store =
  fixes put :: "string \<Rightarrow> 'o \<Rightarrow> 's \<Rightarrow> 's" and get :: "'s \<Rightarrow> string \<Rightarrow> 'o option"
  assumes get_put: "get (put k x s) k' = (if k' = k then Some x else get s k')"
begin

lemma get_put_same: "get (put k x s) k = Some x"
  by (simp add: get_put)

lemma get_put_other: "k' \<noteq> k \<Longrightarrow> get (put k x s) k' = get s k'"
  by (simp add: get_put)

lemma get_after_two: "k \<noteq> k' \<Longrightarrow> get (put k' y (put k x s)) k = Some x"
  by (simp add: get_put)

end

interpretation store: object_store object_put object_get
  by unfold_locales (simp add: object_put_def object_get_def)

text \<open>
  Replay detection: a key is accepted exactly when it is not held, and then held until its time
  to live has passed.  So within the time to live of an accepted request, whatever else is
  requested in between, the key is not accepted again.
\<close>

locale replay_cache =
  fixes absent :: "int \<Rightarrow> string \<Rightarrow> string \<Rightarrow> int \<Rightarrow> 's \<Rightarrow> 's \<times> bool"
    and holds :: "int \<Rightarrow> 's \<Rightarrow> string \<Rightarrow> bool"
  assumes accept_iff: "snd (absent now k v ttl s) \<longleftrightarrow> \<not> holds now s k"
    and holds_accepted: "\<not> holds now s k \<Longrightarrow>
      holds t (fst (absent now k v ttl s)) k' \<longleftrightarrow> (if k' = k then t \<le> now + ttl * 1000 else holds t s k')"
    and holds_rejected: "holds now s k \<Longrightarrow> holds t (fst (absent now k v ttl s)) k' \<longleftrightarrow> holds t s k'"
begin

lemma held_until:
  assumes "\<forall>t \<le> e. holds t s k" and "now \<le> e"
  shows "\<forall>t \<le> e. holds t (fst (absent now k' v ttl s)) k"
proof (cases "holds now s k'")
  case True
  with assms(1) show ?thesis by (simp add: holds_rejected)
next
  case False
  with assms have "k' \<noteq> k" by auto
  with assms(1) False show ?thesis by (simp add: holds_accepted)
qed

lemma accepted_held:
  assumes "snd (absent now k v ttl s)"
  shows "\<forall>t \<le> now + ttl * 1000. holds t (fst (absent now k v ttl s)) k"
  using assms by (simp add: accept_iff holds_accepted)

lemma held_not_accepted: "\<forall>t \<le> e. holds t s k \<Longrightarrow> now \<le> e \<Longrightarrow> \<not> snd (absent now k v ttl s)"
  by (simp add: accept_iff)

end

definition cache_holds :: "int \<Rightarrow> cache \<Rightarrow> string \<Rightarrow> bool" where
  "cache_holds now c key = (snd (cache_live now c key) \<noteq> None)"

lemma cache_holds_iff:
  "cache_holds now c key \<longleftrightarrow>
     (case dget (c_store c) key of None \<Rightarrow> False | Some (_, None) \<Rightarrow> True | Some (_, Some t) \<Rightarrow> now \<le> t)"
  by (auto simp: cache_holds_def cache_live_def split: option.splits)

interpretation nonces: replay_cache set_if_absent cache_holds
proof unfold_locales
  fix now k v ttl s
  show "snd (set_if_absent now k v ttl s) = (\<not> cache_holds now s k)"
    by (simp add: set_if_absent_def cache_holds_def split: prod.splits option.splits)
next
  fix now s k t v ttl k'
  assume "\<not> cache_holds now s k"
  then show "cache_holds t (fst (set_if_absent now k v ttl s)) k'
      = (if k' = k then t \<le> now + ttl * 1000 else cache_holds t s k')"
    by (auto simp: set_if_absent_def cache_holds_iff cache_live_def split: option.splits)
next
  fix now s k t v ttl k'
  assume "cache_holds now s k"
  then show "cache_holds t (fst (set_if_absent now k v ttl s)) k' = cache_holds t s k'"
    by (auto simp: set_if_absent_def cache_holds_iff cache_live_def split: option.splits)
qed

text \<open>The other operations of the cache release no key.\<close>

lemma cache_holds_set: "cache_holds t c k \<Longrightarrow> cache_holds t (cache_set k' v c) k"
  by (auto simp: cache_set_def Let_def cache_holds_iff split: option.splits)

lemma cache_holds_store: "c_store c' = c_store c \<Longrightarrow> cache_holds t c' k = cache_holds t c k"
  by (simp add: cache_holds_iff)

lemma c_store_streams [simp]:
  "c_store (ensure_group s g c) = c_store c" "c_store (fst (xadd s f c)) = c_store c"
  by (simp_all add: ensure_group_def xadd_def Let_def)

text \<open>A stream only grows.\<close>

lemma stream_entries_xadd: "stream_entries (fst (xadd s f c)) s' =
    stream_entries c s' @ (if s' = s then [(show_nat (length (stream_entries c s) + 1) @ ''-0'', f)] else [])"
  by (simp add: xadd_def stream_entries_def Let_def)

lemma stream_entries_other [simp]:
  "stream_entries (ensure_group s g c) s' = stream_entries c s'"
  "stream_entries (cache_set k v c) s' = stream_entries c s'"
  "stream_entries (fst (set_if_absent t k v n c)) s' = stream_entries c s'"
  by (auto simp: stream_entries_def ensure_group_def cache_set_def set_if_absent_def cache_live_def Let_def
      split: option.splits)

end
