(* ===== verification/Chain.thy ===== *)
theory Chain
  imports Storage
begin

text \<open>
  The per-agent operation chain.  \<open>linked\<close> is the contract: sequence numbers count from 1, each
  row names the chain hash of the row before it (the genesis hash for the first), and its own
  chain hash is the one derived from its fields.

  \<open>chain_log\<close> is the interface that the ingest paths rely on: how the latest row is found and
  what an insertion does to an agent's history.  Its lemmas say that inserting a row built on the
  latest one keeps every chain linked.  It is interpreted on the tables of \<open>Storage\<close>.  The last
  section shows that the chain hash of the last row commits to the whole history.
\<close>

section \<open>Linked histories\<close>

fun linked :: "prims \<Rightarrow> string \<Rightarrow> int \<Rightarrow> operation list \<Rightarrow> bool" where
  "linked p prev n [] = True"
| "linked p prev n (x # xs) =
     (o_seq_no x = n \<and> o_prev_chain_hash x = prev
      \<and> o_chain_hash x = compute_chain_hash p prev (o_payload_hash x) (o_operation_id x) (o_issued_at x)
      \<and> linked p (o_chain_hash x) (n + 1) xs)"

definition head_hash :: "string \<Rightarrow> operation list \<Rightarrow> string" where
  "head_hash prev xs = (if xs = [] then prev else o_chain_hash (last xs))"

lemma head_hash_simps [simp]:
  "head_hash prev [] = prev"
  "head_hash prev (x # xs) = head_hash (o_chain_hash x) xs"
  "head_hash prev (xs @ [x]) = o_chain_hash x"
  by (simp_all add: head_hash_def)

lemma linked_append:
  "linked p prev n (xs @ ys) \<longleftrightarrow>
     linked p prev n xs \<and> linked p (head_hash prev xs) (n + int (length xs)) ys"
  by (induction xs arbitrary: prev n) (auto simp: ac_simps)

lemma linked_seq: "linked p prev n xs \<Longrightarrow> i < length xs \<Longrightarrow> o_seq_no (xs ! i) = n + int i"
proof (induction xs arbitrary: prev n i)
  case (Cons x xs)
  then show ?case by (cases i) auto
qed simp

lemma linked_seq_map: "linked p prev n xs \<Longrightarrow> map o_seq_no xs = map (\<lambda>i. n + int i) [0..<length xs]"
  by (rule nth_equalityI) (auto simp: linked_seq)

text \<open>The row that the ingest paths build on a history.\<close>

definition next_of :: "prims \<Rightarrow> operation list \<Rightarrow> operation \<Rightarrow> bool" where
  "next_of p xs x \<longleftrightarrow> linked p (head_hash GENESIS_CHAIN_HASH xs) (1 + int (length xs)) [x]"

lemma linked_next: "linked p GENESIS_CHAIN_HASH 1 xs \<Longrightarrow> next_of p xs x \<Longrightarrow> linked p GENESIS_CHAIN_HASH 1 (xs @ [x])"
  by (simp add: linked_append next_of_def)

section \<open>The interface\<close>

locale chain_log =
  fixes latest :: "'db \<Rightarrow> string \<Rightarrow> operation option"
    and append :: "operation \<Rightarrow> 'db \<Rightarrow> 'db"
    and history :: "'db \<Rightarrow> string \<Rightarrow> operation list"
    and fresh :: "'db \<Rightarrow> operation \<Rightarrow> bool"
  assumes latest_last: "sorted_wrt (<) (map o_seq_no (history db a)) \<Longrightarrow>
      latest db a = (if history db a = [] then None else Some (last (history db a)))"
    and history_append: "fresh db x \<Longrightarrow>
      history (append x db) a = (if o_agent_id x = a then history db a @ [x] else history db a)"
begin

definition chained :: "prims \<Rightarrow> 'db \<Rightarrow> bool" where
  "chained p db \<longleftrightarrow> (\<forall>a. linked p GENESIS_CHAIN_HASH 1 (history db a))"

lemma chained_latest:
  assumes "chained p db"
  shows "latest db a = (if history db a = [] then None else Some (last (history db a)))"
proof (rule latest_last)
  have "map o_seq_no (history db a) = map (\<lambda>i. 1 + int i) [0..<length (history db a)]"
    using assms by (intro linked_seq_map[of p GENESIS_CHAIN_HASH]) (simp add: chained_def)
  then show "sorted_wrt (<) (map o_seq_no (history db a))"
    by (simp add: sorted_wrt_map sorted_wrt_iff_nth_less)
qed

lemma latest_seq:
  assumes "chained p db" and "latest db a = Some x"
  shows "o_seq_no x = int (length (history db a))"
proof -
  from assms chained_latest[OF assms(1), of a] have h: "history db a \<noteq> []" "x = last (history db a)"
    by (auto split: if_splits)
  then have "o_seq_no x = 1 + int (length (history db a) - 1)"
    using assms(1) linked_seq[of p GENESIS_CHAIN_HASH 1 "history db a" "length (history db a) - 1"]
    by (simp add: chained_def last_conv_nth)
  with h show ?thesis by (cases "history db a") auto
qed

lemma next_of_latest:
  assumes "chained p db"
    and "x' = latest db a"
    and "prev = (case x' of None \<Rightarrow> GENESIS_CHAIN_HASH | Some y \<Rightarrow> o_chain_hash y)"
    and "n = (case x' of None \<Rightarrow> 1 | Some y \<Rightarrow> o_seq_no y + 1)"
    and "o_seq_no x = n" and "o_prev_chain_hash x = prev"
    and "o_chain_hash x = compute_chain_hash p prev (o_payload_hash x) (o_operation_id x) (o_issued_at x)"
  shows "next_of p (history db a) x"
proof -
  have "head_hash GENESIS_CHAIN_HASH (history db a) = prev"
    using chained_latest[OF assms(1), of a] assms(2,3) by (auto simp: head_hash_def split: if_splits)
  moreover have "1 + int (length (history db a)) = n"
    using chained_latest[OF assms(1), of a] latest_seq[OF assms(1), of a] assms(2,4)
    by (auto split: if_splits)
  ultimately show ?thesis using assms(5-7) by (simp add: next_of_def)
qed

lemma chained_append:
  assumes "chained p db" and "fresh db x" and "next_of p (history db (o_agent_id x)) x"
  shows "chained p (append x db)"
  using assms linked_next by (auto simp: chained_def history_append)

end

section \<open>The interpretation on the tables\<close>

definition insert_operation :: "operation \<Rightarrow> database \<Rightarrow> database" where
  "insert_operation x db = db\<lparr>d_operations := dset (o_operation_id x) x (d_operations db)\<rparr>"

lemma db_execute_insert_operation [simp]: "db_execute (InsertOperation x) db = Inr (insert_operation x db)"
  by (simp add: insert_operation_def)

definition fresh_operation :: "database \<Rightarrow> operation \<Rightarrow> bool" where
  "fresh_operation db x \<longleftrightarrow> dget (d_operations db) (o_operation_id x) = None"

lemma foldl_later_last:
  "sorted_wrt (<) (map o_seq_no (x # xs)) \<Longrightarrow> foldl later x xs = last (x # xs)"
proof (induction xs arbitrary: x)
  case (Cons y xs)
  then have "later x y = y" by (simp add: later_def)
  with Cons show ?case by simp
qed simp

interpretation ops: chain_log select_latest insert_operation operations_of fresh_operation
proof unfold_locales
  fix db a
  assume "sorted_wrt (<) (map o_seq_no (operations_of db a))"
  then show "select_latest db a =
      (if operations_of db a = [] then None else Some (last (operations_of db a)))"
    using foldl_later_last by (auto simp: select_latest_def split: list.split)
next
  fix db x a
  assume "fresh_operation db x"
  then show "operations_of (insert_operation x db) a =
      (if o_agent_id x = a then operations_of db a @ [x] else operations_of db a)"
    by (simp add: fresh_operation_def insert_operation_def operations_of_def dvalues_dset_new)
qed

text \<open>A database whose chains are linked; other tables do not matter.\<close>

definition chains_ok :: "prims \<Rightarrow> database \<Rightarrow> bool" where
  "chains_ok p db \<longleftrightarrow> (\<forall>a. linked p GENESIS_CHAIN_HASH 1 (operations_of db a))"

lemma chains_ok_chained: "chains_ok p db = ops.chained p db"
  by (simp add: chains_ok_def ops.chained_def)

lemma operations_of_cong: "d_operations db' = d_operations db \<Longrightarrow> operations_of db' = operations_of db"
  by (rule ext) (simp only: operations_of_def)

lemma chains_ok_cong: "d_operations db' = d_operations db \<Longrightarrow> chains_ok p db' = chains_ok p db"
  by (simp only: chains_ok_def operations_of_cong[of db' db])

lemma chains_ok_insert:
  assumes "chains_ok p db" and "fresh_operation db x"
    and "prev = (case select_latest db (o_agent_id x) of None \<Rightarrow> GENESIS_CHAIN_HASH | Some y \<Rightarrow> o_chain_hash y)"
    and "o_seq_no x = (case select_latest db (o_agent_id x) of None \<Rightarrow> 1 | Some y \<Rightarrow> o_seq_no y + 1)"
    and "o_prev_chain_hash x = prev"
    and "o_chain_hash x = compute_chain_hash p prev (o_payload_hash x) (o_operation_id x) (o_issued_at x)"
  shows "chains_ok p (insert_operation x db)"
proof -
  have c: "ops.chained p db" using assms(1) by (simp only: chains_ok_chained)
  have "ops.chained p (insert_operation x db)"
    by (rule ops.chained_append[OF c assms(2) ops.next_of_latest[OF c refl assms(3,4) refl assms(5,6)]])
  then show ?thesis by (simp only: chains_ok_chained)
qed

text \<open>The row before a new one is found by its sequence number.\<close>

lemma find_conj: "find (\<lambda>x. P x \<and> Q x) xs = find Q (filter P xs)"
  by (induction xs) auto

lemma linked_find:
  "linked p prev n xs \<Longrightarrow> i < length xs \<Longrightarrow> find (\<lambda>x. o_seq_no x = n + int i) (xs @ ys) = Some (xs ! i)"
proof (induction xs arbitrary: prev n i)
  case (Cons x xs)
  show ?case
  proof (cases i)
    case (Suc j)
    from Cons.prems(1) have l: "linked p (o_chain_hash x) (n + 1) xs" and n: "o_seq_no x = n" by auto
    from Cons.IH[OF l, of j] Cons.prems(2) n show ?thesis by (simp add: Suc add.assoc)
  qed (use Cons.prems in simp)
qed simp

lemma select_chain_hash_insert:
  assumes "chains_ok p db" and "fresh_operation db x" and "select_latest db a = Some y"
  shows "select_chain_hash (insert_operation x db) a (o_seq_no y) = Some (o_chain_hash y)"
proof -
  have c: "ops.chained p db" using assms(1) by (simp only: chains_ok_chained)
  let ?xs = "operations_of db a"
  have y: "?xs \<noteq> []" "y = last ?xs" using ops.chained_latest[OF c, of a] assms(3) by (auto split: if_splits)
  have n: "o_seq_no y = 1 + int (length ?xs - 1)"
    using ops.latest_seq[OF c assms(3)] y(1) by (cases ?xs) auto
  have l: "linked p GENESIS_CHAIN_HASH 1 ?xs" using assms(1) by (simp add: chains_ok_def)
  obtain ys where ys: "operations_of (insert_operation x db) a = ?xs @ ys"
    using ops.history_append[OF assms(2), of a] by (cases "o_agent_id x = a") auto
  have "find (\<lambda>o'. o_agent_id o' = a \<and> o_seq_no o' = o_seq_no y) (dvalues (d_operations (insert_operation x db)))
      = find (\<lambda>o'. o_seq_no o' = o_seq_no y) (?xs @ ys)"
    using ys by (simp only: find_conj operations_of_def)
  also have "\<dots> = Some (?xs ! (length ?xs - 1))"
    unfolding n by (rule linked_find[OF l]) (use y(1) in simp)
  finally show ?thesis using y by (simp add: select_chain_hash_def last_conv_nth)
qed

section \<open>The head commits to the history\<close>

definition committed :: "operation \<Rightarrow> string \<times> string \<times> int" where
  "committed x = (o_payload_hash x, o_operation_id x, o_issued_at x)"

text \<open>
  What a chain hash fixes of an operation besides its predecessor: the time and the text between the
  first and the last bar of the hashed string, and with it the payload hash and the id when neither
  payload hash has a bar in it.
\<close>

definition hashed_text :: "operation \<Rightarrow> string \<times> int" where
  "hashed_text x = (o_payload_hash x @ ''|'' @ o_operation_id x, o_issued_at x)"

definition no_bar :: "operation \<Rightarrow> bool" where
  "no_bar x = (CHR ''|'' \<notin> set (o_payload_hash x))"

definition same_record :: "operation \<Rightarrow> operation \<Rightarrow> bool" where
  "same_record x y = (o_issued_at x = o_issued_at y
     \<and> o_payload_hash x @ ''|'' @ o_operation_id x = o_payload_hash y @ ''|'' @ o_operation_id y
     \<and> (no_bar x \<and> no_bar y \<longrightarrow> o_payload_hash x = o_payload_hash y \<and> o_operation_id x = o_operation_id y))"

lemma same_record_hashed_text: "same_record x y \<longleftrightarrow> hashed_text x = hashed_text y"
  using split_at_first[of "o_payload_hash x" "CHR ''|''" "o_operation_id x" "o_payload_hash y" "o_operation_id y"]
  by (auto simp: same_record_def hashed_text_def no_bar_def)

definition preimages :: "operation list \<Rightarrow> bytes set" where
  "preimages xs = (\<lambda>x. utf8 (chain_preimage (o_prev_chain_hash x) (o_payload_hash x) (o_operation_id x) (o_issued_at x))) ` set xs"

lemma linked_no_bar:
  "linked p prev n xs \<Longrightarrow> CHR ''|'' \<notin> set prev \<Longrightarrow> x \<in> set xs \<Longrightarrow> CHR ''|'' \<notin> set (o_prev_chain_hash x)"
proof (induction xs arbitrary: prev n)
  case (Cons y ys)
  then have l: "linked p (o_chain_hash y) (n + 1) ys" "o_prev_chain_hash y = prev"
    and "CHR ''|'' \<notin> set (o_chain_hash y)" by (auto simp: compute_chain_hash_no_bar)
  then show ?case using Cons.IH[OF l(1)] Cons.prems by auto
qed simp

lemma head_commits:
  assumes "length xs = length ys" and "linked p prev n xs" and "linked p prev' n' ys"
    and "head_hash prev xs = head_hash prev' ys" and "xs \<noteq> []"
    and "inj_on (sha256 p) (preimages xs \<union> preimages ys)"
    and "CHR ''|'' \<notin> set prev" "CHR ''|'' \<notin> set prev'"
  shows "prev = prev' \<and> map hashed_text xs = map hashed_text ys"
  using assms
proof (induction xs arbitrary: ys rule: rev_induct)
  case (snoc x xs)
  then obtain zs y where ys: "ys = zs @ [y]" by (cases ys rule: rev_cases) auto
  have lx: "linked p prev n (xs @ [x])" and ly: "linked p prev' n' (zs @ [y])"
    using snoc.prems(2,3) ys by simp_all
  have hx: "o_prev_chain_hash x = head_hash prev xs" "o_chain_hash x =
      compute_chain_hash p (o_prev_chain_hash x) (o_payload_hash x) (o_operation_id x) (o_issued_at x)"
    and hy: "o_prev_chain_hash y = head_hash prev' zs" "o_chain_hash y =
      compute_chain_hash p (o_prev_chain_hash y) (o_payload_hash y) (o_operation_id y) (o_issued_at y)"
    using lx ly by (simp_all add: linked_append)
  have bars: "CHR ''|'' \<notin> set (o_prev_chain_hash x)" "CHR ''|'' \<notin> set (o_prev_chain_hash y)"
    using linked_no_bar[OF lx snoc.prems(7), of x] linked_no_bar[OF ly snoc.prems(8), of y] by simp_all
  have "o_chain_hash x = o_chain_hash y" using snoc.prems(4) ys by simp
  then have eq: "compute_chain_hash p (o_prev_chain_hash x) (o_payload_hash x) (o_operation_id x) (o_issued_at x)
      = compute_chain_hash p (o_prev_chain_hash y) (o_payload_hash y) (o_operation_id y) (o_issued_at y)"
    using hx hy by simp
  have "o_prev_chain_hash x = o_prev_chain_hash y
      \<and> o_payload_hash x @ ''|'' @ o_operation_id x = o_payload_hash y @ ''|'' @ o_operation_id y
      \<and> o_issued_at x = o_issued_at y"
  proof (rule compute_chain_hash_inject[OF eq])
    show "inj_on (sha256 p)
      {utf8 (chain_preimage (o_prev_chain_hash x) (o_payload_hash x) (o_operation_id x) (o_issued_at x)),
       utf8 (chain_preimage (o_prev_chain_hash y) (o_payload_hash y) (o_operation_id y) (o_issued_at y))}"
      by (rule inj_on_subset[OF snoc.prems(6)]) (simp add: preimages_def ys)
  qed (use bars in simp_all)
  then have same: "head_hash prev xs = head_hash prev' zs" "hashed_text x = hashed_text y"
    using hx(1) hy(1) by (simp_all add: hashed_text_def)
  show ?case
  proof (cases "xs = []")
    case True
    with same ys snoc.prems(1) show ?thesis by simp
  next
    case False
    have "prev = prev' \<and> map hashed_text xs = map hashed_text zs"
    proof (rule snoc.IH)
      show "inj_on (sha256 p) (preimages xs \<union> preimages zs)"
        using snoc.prems(6) by (rule inj_on_subset) (auto simp: preimages_def ys)
    qed (use snoc.prems ys lx ly same(1) False in \<open>auto simp: linked_append\<close>)
    with same(2) ys show ?thesis by simp
  qed
qed simp

text \<open>
C10. The latest chain hash commits to the whole history: if the chains of two databases are linked
and an agent has the same latest sequence number and chain hash in both, then the two histories
are equally long and agree, operation by operation, on the time and on the text made of the payload
hash, a bar and the operation id, hence on the payload hash and on the id themselves wherever the
two payload hashes have no bar in them (as the base64url hash of a payload never has); unless
SHA-256 maps two of the hashed strings to one digest.
\<close>

theorem latest_commits_to_history:
  assumes "chains_ok p db" and "chains_ok p db'"
    and "select_latest db a = Some x" and "select_latest db' a = Some y"
    and "o_seq_no x = o_seq_no y" and "o_chain_hash x = o_chain_hash y"
    and "inj_on (sha256 p) (preimages (operations_of db a) \<union> preimages (operations_of db' a))"
  shows "list_all2 same_record (operations_of db a) (operations_of db' a)"
proof -
  have c: "ops.chained p db" "ops.chained p db'" using assms(1,2) by (simp_all only: chains_ok_chained)
  have x: "operations_of db a \<noteq> []" "x = last (operations_of db a)"
    and y: "operations_of db' a \<noteq> []" "y = last (operations_of db' a)"
    using ops.chained_latest[OF c(1), of a] ops.chained_latest[OF c(2), of a] assms(3,4)
    by (auto split: if_splits)
  have "length (operations_of db a) = length (operations_of db' a)"
    using ops.latest_seq[OF c(1) assms(3)] ops.latest_seq[OF c(2) assms(4)] assms(5) by simp
  moreover have "head_hash GENESIS_CHAIN_HASH (operations_of db a) = head_hash GENESIS_CHAIN_HASH (operations_of db' a)"
    using x y assms(6) by (simp add: head_hash_def)
  ultimately have "map hashed_text (operations_of db a) = map hashed_text (operations_of db' a)"
    using head_commits[of "operations_of db a" "operations_of db' a" p GENESIS_CHAIN_HASH 1 GENESIS_CHAIN_HASH 1]
      assms x(1) GENESIS_no_bar by (simp add: chains_ok_def)
  then show ?thesis
    by (auto simp: same_record_hashed_text list_all2_conv_all_nth list_eq_iff_nth_eq)
qed

definition empty_database :: database where
  "empty_database = \<lparr>d_organizations = [], d_agents = [], d_agent_keys = [], d_operations = [],
     d_receipts = [], d_intervention_log = [], d_governance_verdicts = [], d_epochs = [], d_exports = []\<rparr>"

definition demo_operation :: "string \<Rightarrow> operation" where
  "demo_operation nonce = \<lparr>o_operation_id = ''op-1'', o_org_id = ''o'', o_agent_id = ''a'', o_seq_no = 1,
     o_operation_type = ''tool_call'', o_issued_at = 5, o_ttl_ms = 1000, o_nonce = nonce, o_subject = [],
     o_action = [], o_payload_hash = ''h'', o_prev_chain_hash = GENESIS_CHAIN_HASH,
     o_chain_hash = compute_chain_hash demo_prims GENESIS_CHAIN_HASH ''h'' ''op-1'' 5,
     o_agent_pubkey_kid = ''k'', o_signature = [], o_r2_payload_key = ''o/a/op-1'', o_created_at = 5,
     o_correlation_id = None, o_run_id = None, o_phase = None\<rparr>"

theorem latest_commits_to_history_witness:
  "list_all2 same_record (operations_of (insert_operation (demo_operation ''n1'') empty_database) ''a'')
     (operations_of (insert_operation (demo_operation ''n2'') empty_database) ''a'')"
proof -
  have h: "operations_of (insert_operation (demo_operation n) empty_database) b
      = (if b = ''a'' then [demo_operation n] else [])" for n b
    by (simp add: operations_of_def insert_operation_def empty_database_def dvalues_def demo_operation_def)
  have c: "chains_ok demo_prims (insert_operation (demo_operation n) empty_database)" for n
    by (simp add: chains_ok_def h) (simp add: demo_operation_def)
  have l: "select_latest (insert_operation (demo_operation n) empty_database) ''a'' = Some (demo_operation n)" for n
    by (simp add: select_latest_def h)
  show ?thesis
    by (rule latest_commits_to_history[OF c c l l])
      (simp_all add: h, simp_all add: demo_operation_def preimages_def demo_prims_def inj_on_def)
qed

end
