(* ===== verification/Ingest.thy ===== *)
theory Ingest
  imports Chain PyText
begin

text \<open>
  \<open>packages/shield-server/src/shield_server/ingest.py\<close>: the twelve-step ingest of an operation
  record (\<open>submit_operation\<close>), reading one back (\<open>get_operation\<close>) and checking it
  (\<open>verify_operation\<close>), with the constants of \<open>config.py\<close> and the crypto provider of
  \<open>_crypto.py\<close>, which delegates to the SDK.

  A handler returns its result, or what it raised, together with the storage it leaves behind:
  a request that is rejected after step 2 has used up its nonce.  The reading of the clock and
  the fresh receipt id are arguments.
\<close>

section \<open>Configuration and crypto provider\<close>

definition MAX_PAYLOAD_SIZE :: int where "MAX_PAYLOAD_SIZE = 256 * 1024"
definition MAX_TTL_MS :: int where "MAX_TTL_MS = 300000"
definition MIN_TTL_MS :: int where "MIN_TTL_MS = 1000"
definition MAX_NONCE_LENGTH :: nat where "MAX_NONCE_LENGTH = 64"
definition ELYDORA_KID :: string where "ELYDORA_KID = ''elydora-server-key-v1''"

definition crypto_canonical :: "prims \<Rightarrow> json \<Rightarrow> string" where
  "crypto_canonical p v = jcs (float_repr p) v"

definition crypto_receipt_hash :: "prims \<Rightarrow> jobj \<Rightarrow> string" where
  "crypto_receipt_hash p receipt_fields = compute_payload_hash p (JObj receipt_fields)"

section \<open>Validation\<close>

text \<open>The required strings of an operation record, with the names used in the error message.\<close>

definition required_strings :: "eor \<Rightarrow> (string \<times> string) list" where
  "required_strings e =
     [(''operation_id'', e_operation_id e), (''org_id'', e_org_id e), (''agent_id'', e_agent_id e),
      (''nonce'', e_nonce e), (''operation_type'', e_operation_type e),
      (''payload_hash'', e_payload_hash e), (''prev_chain_hash'', e_prev_chain_hash e),
      (''agent_pubkey_kid'', e_agent_pubkey_kid e), (''signature'', e_signature e)]"

definition missing_field :: "(string \<times> string) list \<Rightarrow> string option" where
  "missing_field xs = map_option fst (find (\<lambda>kv. blank (snd kv)) xs)"

definition payload_text :: "(rat \<Rightarrow> string) \<Rightarrow> eor_payload \<Rightarrow> string" where
  "payload_text fr pl =
     (case pl of NoPayload \<Rightarrow> [] | TextPayload s \<Rightarrow> s | ObjPayload kvs \<Rightarrow> json_dumps fr (JObj kvs))"

definition validation_error :: "string \<Rightarrow> failure" where
  "validation_error message = app_err_msg 400 VALIDATION_ERROR message"

definition validate_record_fields :: "(rat \<Rightarrow> string) \<Rightarrow> eor \<Rightarrow> int \<Rightarrow> failure option" where
  "validate_record_fields fr e received_at =
     (if e_op_version e \<noteq> ''1.0'' then Some (validation_error ''Unsupported protocol version.'')
      else case missing_field (required_strings e) of
        Some name \<Rightarrow> Some (validation_error (''Missing required field: '' @ name))
      | None \<Rightarrow>
        if length (e_nonce e) > MAX_NONCE_LENGTH then Some (validation_error ''Nonce too long.'')
        else if e_issued_at e \<le> 0 then Some (validation_error ''Invalid issued_at.'')
        else if e_ttl_ms e < MIN_TTL_MS then Some (validation_error ''TTL too low.'')
        else if e_ttl_ms e > MAX_TTL_MS then Some (validation_error ''TTL too high.'')
        else if e_issued_at e + e_ttl_ms e < received_at then Some (app_err 400 TTL_EXPIRED)
        else if e_payload e \<noteq> NoPayload
            \<and> int (length (utf8 (payload_text fr (e_payload e)))) > MAX_PAYLOAD_SIZE
          then Some (app_err 400 PAYLOAD_TOO_LARGE)
        else None)"

section \<open>Steps 2 to 7\<close>

definition nonce_key :: "string \<Rightarrow> string \<Rightarrow> string" where
  "nonce_key org nonce = ''nonce:'' @ org @ '':'' @ nonce"

text \<open>The agent has to be active, and its key has to exist and be active.\<close>

definition require_agent_key :: "database \<Rightarrow> string \<Rightarrow> string \<Rightarrow> string \<Rightarrow> failure + agent_key" where
  "require_agent_key db agent_id org_id kid =
     (case select_agent db agent_id org_id of
        None \<Rightarrow> Inl (app_err 404 UNKNOWN_AGENT)
      | Some a \<Rightarrow>
        if a_status a = AGENT_IS_FROZEN then Inl (app_err 403 AGENT_FROZEN)
        else if a_status a = AGENT_IS_REVOKED
          then Inl (app_err_msg 403 AGENT_FROZEN ''The agent has been revoked.'')
        else case select_agent_key db kid agent_id of
          None \<Rightarrow> Inl (app_err_msg 400 INVALID_SIGNATURE ''Signing key not found for agent.'')
        | Some k \<Rightarrow>
          if k_status k = KEY_IS_REVOKED then Inl (app_err 403 KEY_REVOKED)
          else if k_status k = KEY_IS_RETIRED
            then Inl (app_err_msg 403 KEY_REVOKED ''The signing key is retired.'')
          else Inr k)"

definition expected_prev :: "database \<Rightarrow> string \<Rightarrow> string" where
  "expected_prev db agent_id =
     (case select_latest db agent_id of None \<Rightarrow> GENESIS_CHAIN_HASH | Some x \<Rightarrow> o_chain_hash x)"

definition next_seq :: "database \<Rightarrow> string \<Rightarrow> int" where
  "next_seq db agent_id =
     (case select_latest db agent_id of None \<Rightarrow> 1 | Some x \<Rightarrow> o_seq_no x + 1)"

definition prev_hash_mismatch :: "string \<Rightarrow> string \<Rightarrow> failure" where
  "prev_hash_mismatch expected actual =
     AppError (app_error_of 400 PREV_HASH_MISMATCH (Some ''The previous chain hash does not match.'')
       (Some [(''expected'', expected), (''actual'', actual)]))"

definition signable :: "eor \<Rightarrow> jobj" where
  "signable e = filter (\<lambda>kv. fst kv \<noteq> ''signature'') (dump_eor e)"

definition eor_signing_string :: "prims \<Rightarrow> eor \<Rightarrow> string" where
  "eor_signing_string p e = crypto_canonical p (JObj (signable e))"

definition admit_operation :: "prims \<Rightarrow> database \<Rightarrow> eor \<Rightarrow> failure + unit" where
  "admit_operation p db e =
     rbind (require_agent_key db (e_agent_id e) (e_org_id e) (e_agent_pubkey_kid e)) (\<lambda>k.
       if \<not> verify_ed25519 p (k_public_key k) (utf8 (eor_signing_string p e)) (e_signature e)
         then Inl (app_err 400 INVALID_SIGNATURE)
       else if e_prev_chain_hash e \<noteq> expected_prev db (e_agent_id e)
         then Inl (prev_hash_mismatch (expected_prev db (e_agent_id e)) (e_prev_chain_hash e))
       else Inr ())"

section \<open>Steps 8 to 12\<close>

definition payload_key :: "eor \<Rightarrow> string" where
  "payload_key e = e_org_id e @ ''/'' @ e_agent_id e @ ''/'' @ e_operation_id e"

definition receipt_key :: "eor \<Rightarrow> string" where
  "receipt_key e = e_org_id e @ ''/'' @ e_agent_id e @ ''/receipts/'' @ e_operation_id e"

definition operation_row :: "prims \<Rightarrow> eor \<Rightarrow> int \<Rightarrow> int \<Rightarrow> operation" where
  "operation_row p e seq received_at =
     \<lparr>o_operation_id = e_operation_id e, o_org_id = e_org_id e, o_agent_id = e_agent_id e,
      o_seq_no = seq, o_operation_type = e_operation_type e, o_issued_at = e_issued_at e,
      o_ttl_ms = e_ttl_ms e, o_nonce = e_nonce e,
      o_subject = json_dumps (float_repr p) (JObj (e_subject e)),
      o_action = json_dumps (float_repr p) (JObj (e_action e)),
      o_payload_hash = e_payload_hash e, o_prev_chain_hash = e_prev_chain_hash e,
      o_chain_hash = compute_chain_hash p (e_prev_chain_hash e) (e_payload_hash e) (e_operation_id e) (e_issued_at e),
      o_agent_pubkey_kid = e_agent_pubkey_kid e, o_signature = e_signature e,
      o_r2_payload_key = payload_key e, o_created_at = received_at,
      o_correlation_id = None, o_run_id = None, o_phase = None\<rparr>"

definition receipt_fields :: "ear \<Rightarrow> jobj" where
  "receipt_fields r =
     [(''receipt_version'', JStr (ear_receipt_version r)), (''receipt_id'', JStr (ear_receipt_id r)),
      (''operation_id'', JStr (ear_operation_id r)), (''org_id'', JStr (ear_org_id r)),
      (''agent_id'', JStr (ear_agent_id r)), (''server_received_at'', JInt (ear_server_received_at r)),
      (''seq_no'', JInt (ear_seq_no r)), (''chain_hash'', JStr (ear_chain_hash r)),
      (''queue_message_id'', JStr (ear_queue_message_id r))]"

definition unsigned_ear :: "operation \<Rightarrow> int \<Rightarrow> string \<Rightarrow> ear" where
  "unsigned_ear x received_at receipt_id =
     \<lparr>ear_receipt_version = ''1.0'', ear_receipt_id = receipt_id, ear_operation_id = o_operation_id x,
      ear_org_id = o_org_id x, ear_agent_id = o_agent_id x, ear_server_received_at = received_at,
      ear_seq_no = o_seq_no x, ear_chain_hash = o_chain_hash x, ear_queue_message_id = receipt_id,
      ear_receipt_hash = [], ear_elydora_kid = ELYDORA_KID, ear_elydora_signature = []\<rparr>"

definition sign_receipt :: "prims \<Rightarrow> string \<Rightarrow> ear \<Rightarrow> py_exc + ear" where
  "sign_receipt p server_signing_key r =
     (let receipt_hash = crypto_receipt_hash p (receipt_fields r) in
      rbind (sign_ed25519 p server_signing_key (utf8 receipt_hash)) (\<lambda>sig.
        Inr (r\<lparr>ear_receipt_hash := receipt_hash, ear_elydora_signature := sig\<rparr>)))"

definition chain_hint_key :: "string \<Rightarrow> string" where
  "chain_hint_key agent_id = ''chain:'' @ agent_id @ '':latest''"

definition persist_operation :: "operation \<Rightarrow> eor \<Rightarrow> ear \<Rightarrow> int \<Rightarrow> storage \<Rightarrow> storage" where
  "persist_operation x e r received_at st =
     st\<lparr>st_objects := object_put (receipt_key e) (ReceiptEnvelope r) (st_objects st),
        st_db := fst (tx_commit
          [InsertOperation x,
           InsertReceipt \<lparr>rcp_receipt_id = ear_receipt_id r, rcp_operation_id = e_operation_id e,
             rcp_r2_receipt_key = receipt_key e, rcp_created_at = received_at\<rparr>] (st_db st)),
        st_cache := cache_set (chain_hint_key (e_agent_id e)) (o_chain_hash x) (st_cache st)\<rparr>"

definition submit_operation ::
  "prims \<Rightarrow> storage \<Rightarrow> eor \<Rightarrow> string \<Rightarrow> int \<Rightarrow> string \<Rightarrow> (failure + ear) \<times> storage" where
  "submit_operation p st e server_signing_key received_at receipt_id =
     (case validate_record_fields (float_repr p) e received_at of
        Some f \<Rightarrow> (Inl f, st)
      | None \<Rightarrow>
        (let (c, accepted) = set_if_absent received_at (nonce_key (e_org_id e) (e_nonce e)) ''1''
               (ceil_div (e_ttl_ms e) 1000) (st_cache st);
             st1 = st\<lparr>st_cache := c\<rparr> in
         if \<not> accepted then (Inl (app_err 400 REPLAY_DETECTED), st1)
         else case admit_operation p (st_db st1) e of
           Inl f \<Rightarrow> (Inl f, st1)
         | Inr _ \<Rightarrow>
           (let x = operation_row p e (next_seq (st_db st1) (e_agent_id e)) received_at;
                st2 = st1\<lparr>st_objects := object_put (payload_key e) (OperationEnvelope e) (st_objects st1)\<rparr> in
            case sign_receipt p server_signing_key (unsigned_ear x received_at receipt_id) of
              Inl exc \<Rightarrow> (Inl (PyError exc), st2)
            | Inr r \<Rightarrow> (Inr r, persist_operation x e r received_at st2))))"

section \<open>Reading and verifying\<close>

record operation_view =
  ov_operation :: operation
  ov_receipt :: "receipt option"
  ov_payload :: "jobj option"

definition get_operation :: "storage \<Rightarrow> string \<Rightarrow> string \<Rightarrow> failure + operation_view" where
  "get_operation st operation_id org_id =
     (case select_operation (st_db st) operation_id org_id of
        None \<Rightarrow> Inl (app_err_msg 404 NOT_FOUND ''Operation not found.'')
      | Some x \<Rightarrow> Inr
          \<lparr>ov_operation = x, ov_receipt = select_receipt (st_db st) operation_id,
           ov_payload = (if o_r2_payload_key x = [] then None else
             case object_get (st_objects st) (o_r2_payload_key x) of
               None \<Rightarrow> None | Some raw \<Rightarrow> payload_of_stored raw)\<rparr>)"

definition double_quote :: string where
  "double_quote = [char_of (34::nat)]"

record verification =
  vf_valid :: bool
  vf_signature :: bool
  vf_chain :: bool
  vf_receipt :: bool
  vf_errors :: "string list"

definition check_signature :: "prims \<Rightarrow> database \<Rightarrow> eor \<Rightarrow> bool \<times> string list" where
  "check_signature p db e =
     (case select_agent_key db (e_agent_pubkey_kid e) (e_agent_id e) of
        None \<Rightarrow> (False, [''Signing key '' @ double_quote @ e_agent_pubkey_kid e @ double_quote @ '' not found.''])
      | Some k \<Rightarrow>
        if verify_ed25519 p (k_public_key k) (utf8 (eor_signing_string p e)) (e_signature e)
        then (True, []) else (False, [''Ed25519 signature verification failed.'']))"

definition check_chain :: "prims \<Rightarrow> database \<Rightarrow> operation \<Rightarrow> bool \<times> string list" where
  "check_chain p db x =
     (let own = compute_chain_hash p (o_prev_chain_hash x) (o_payload_hash x) (o_operation_id x) (o_issued_at x)
            = o_chain_hash x;
          link = (if o_seq_no x > 1 then
              (case select_chain_hash db (o_agent_id x) (o_seq_no x - 1) of
                 None \<Rightarrow> True | Some h \<Rightarrow> h = o_prev_chain_hash x)
            else True) in
      (own \<and> link,
       (if own then [] else [''Chain hash mismatch vs recomputed value.''])
       @ (if link then [] else [''prev_chain_hash does not link to the previous operation.''])))"

definition check_receipt :: "prims \<Rightarrow> storage \<Rightarrow> string \<Rightarrow> py_exc + (bool \<times> string list)" where
  "check_receipt p st operation_id =
     (case select_receipt (st_db st) operation_id of
        None \<Rightarrow> Inr (False, [''No receipt found for this operation.''])
      | Some row \<Rightarrow>
        case object_get (st_objects st) (rcp_r2_receipt_key row) of
          None \<Rightarrow> Inr (False, [''Receipt evidence not found in the object store.''])
        | Some raw \<Rightarrow> rbind (receipt_of_stored raw) (\<lambda>r.
            Inr (if crypto_receipt_hash p (receipt_fields r) = ear_receipt_hash r then (True, [])
                 else (False, [''Receipt hash does not match recomputed value.'']))))"

definition evidence_missing :: "string \<Rightarrow> verification" where
  "evidence_missing e = \<lparr>vf_valid = False, vf_signature = False, vf_chain = False, vf_receipt = False, vf_errors = [e]\<rparr>"

definition verify_operation :: "prims \<Rightarrow> storage \<Rightarrow> string \<Rightarrow> string \<Rightarrow> failure + verification" where
  "verify_operation p st operation_id org_id =
     (case select_operation (st_db st) operation_id org_id of
        None \<Rightarrow> Inl (app_err_msg 404 NOT_FOUND ''Operation not found.'')
      | Some x \<Rightarrow>
        if o_r2_payload_key x = [] then Inr (evidence_missing ''Operation has no object-store payload key.'')
        else case object_get (st_objects st) (o_r2_payload_key x) of
          None \<Rightarrow> Inr (evidence_missing ''Record evidence not found in the object store.'')
        | Some raw \<Rightarrow> lift_py (rbind (operation_of_stored raw) (\<lambda>e.
            let (sig_ok, es1) = check_signature p (st_db st) e;
                (chain_ok, es2) = check_chain p (st_db st) x in
            rbind (check_receipt p st operation_id) (\<lambda>(receipt_ok, es3). Inr
              \<lparr>vf_valid = (sig_ok \<and> chain_ok \<and> receipt_ok), vf_signature = sig_ok, vf_chain = chain_ok,
               vf_receipt = receipt_ok, vf_errors = es1 @ es2 @ es3\<rparr>))))"

section \<open>What an accepted and a rejected submission does\<close>

lemma require_agent_key_iff:
  "require_agent_key db agent_id org kid = Inr k \<longleftrightarrow>
     (\<exists>a. select_agent db agent_id org = Some a \<and> a_status a = AGENT_ACTIVE)
     \<and> select_agent_key db kid agent_id = Some k \<and> k_status k = KEY_ACTIVE"
  by (cases "k_status k"; cases "a_status (the (select_agent db agent_id org))")
     (auto simp: require_agent_key_def split: option.splits if_splits dest: key_status.exhaust agent_status.exhaust)

lemma admit_operation_iff:
  "admit_operation p db e = Inr () \<longleftrightarrow>
     (\<exists>k. require_agent_key db (e_agent_id e) (e_org_id e) (e_agent_pubkey_kid e) = Inr k
        \<and> verify_ed25519 p (k_public_key k) (utf8 (eor_signing_string p e)) (e_signature e))
     \<and> e_prev_chain_hash e = expected_prev db (e_agent_id e)"
  by (auto simp: admit_operation_def rbind_Inr_iff split: if_splits)

lemma sign_receipt_total:
  "get_public_key_base64url p sk = Inr pk \<Longrightarrow> \<exists>sig. sign_receipt p sk r =
     Inr (r\<lparr>ear_receipt_hash := crypto_receipt_hash p (receipt_fields r), ear_elydora_signature := sig\<rparr>)"
  using sign_total[of p sk pk "utf8 (crypto_receipt_hash p (receipt_fields r))"]
  by (auto simp: sign_receipt_def Let_def)

lemma sign_receipt_fields:
  assumes "sign_receipt p sk r = Inr r'"
  shows "receipt_fields r' = receipt_fields r \<and> ear_receipt_hash r' = crypto_receipt_hash p (receipt_fields r)
    \<and> ear_receipt_id r' = ear_receipt_id r"
  using assms by (auto simp: sign_receipt_def Let_def receipt_fields_def)

text \<open>The outcomes of a submission.\<close>

lemma submit_cases:
  assumes "submit_operation p st e sk t rid = (res, st')"
  obtains (invalid) f where "validate_record_fields (float_repr p) e t = Some f" "res = Inl f" "st' = st"
  | (replay) c where "validate_record_fields (float_repr p) e t = None"
      "set_if_absent t (nonce_key (e_org_id e) (e_nonce e)) ''1'' (ceil_div (e_ttl_ms e) 1000) (st_cache st) = (c, False)"
      "res = Inl (app_err 400 REPLAY_DETECTED)" "st' = st\<lparr>st_cache := c\<rparr>"
  | (rejected) c f where "validate_record_fields (float_repr p) e t = None"
      "set_if_absent t (nonce_key (e_org_id e) (e_nonce e)) ''1'' (ceil_div (e_ttl_ms e) 1000) (st_cache st) = (c, True)"
      "admit_operation p (st_db st) e = Inl f" "res = Inl f" "st' = st\<lparr>st_cache := c\<rparr>"
  | (unsigned) c exc where "validate_record_fields (float_repr p) e t = None"
      "set_if_absent t (nonce_key (e_org_id e) (e_nonce e)) ''1'' (ceil_div (e_ttl_ms e) 1000) (st_cache st) = (c, True)"
      "admit_operation p (st_db st) e = Inr ()"
      "sign_receipt p sk (unsigned_ear (operation_row p e (next_seq (st_db st) (e_agent_id e)) t) t rid) = Inl exc"
      "res = Inl (PyError exc)"
      "st' = st\<lparr>st_cache := c, st_objects := object_put (payload_key e) (OperationEnvelope e) (st_objects st)\<rparr>"
  | (accepted) c r where "validate_record_fields (float_repr p) e t = None"
      "set_if_absent t (nonce_key (e_org_id e) (e_nonce e)) ''1'' (ceil_div (e_ttl_ms e) 1000) (st_cache st) = (c, True)"
      "admit_operation p (st_db st) e = Inr ()"
      "sign_receipt p sk (unsigned_ear (operation_row p e (next_seq (st_db st) (e_agent_id e)) t) t rid) = Inr r"
      "res = Inr r"
      "st' = persist_operation (operation_row p e (next_seq (st_db st) (e_agent_id e)) t) e r t
         (st\<lparr>st_cache := c, st_objects := object_put (payload_key e) (OperationEnvelope e) (st_objects st)\<rparr>)"
proof -
  let ?acc = "set_if_absent t (nonce_key (e_org_id e) (e_nonce e)) ''1'' (ceil_div (e_ttl_ms e) 1000) (st_cache st)"
  show ?thesis
  proof (cases "validate_record_fields (float_repr p) e t")
    case (Some f)
    with assms invalid show ?thesis by (simp add: submit_operation_def)
  next
    case None
    obtain c ok where acc: "?acc = (c, ok)" by (cases ?acc)
    note step = assms[unfolded submit_operation_def None acc, simplified]
    show ?thesis
    proof (cases ok)
      case False
      with step show ?thesis by (intro replay[OF None, of c]) (auto simp: acc)
    next
      case True
      with acc have acc: "?acc = (c, True)" by simp
      show ?thesis
      proof (cases "admit_operation p (st_db st) e")
        case (Inl f)
        with step True show ?thesis by (intro rejected[OF None acc Inl]) auto
      next
        case (Inr u)
        then have adm: "admit_operation p (st_db st) e = Inr ()" by simp
        let ?r = "sign_receipt p sk (unsigned_ear (operation_row p e (next_seq (st_db st) (e_agent_id e)) t) t rid)"
        show ?thesis
        proof (cases ?r)
          case (Inl exc)
          with step True adm show ?thesis by (intro unsigned[OF None acc adm Inl]) (auto simp: Let_def)
        next
          case (Inr r)
          with step True adm show ?thesis by (intro accepted[OF None acc adm Inr]) (auto simp: Let_def)
        qed
      qed
    qed
  qed
qed

lemma persist_operation_db:
  "st_db (persist_operation x e r t st) =
     (insert_operation x (st_db st))\<lparr>d_receipts := dset (ear_receipt_id r)
        \<lparr>rcp_receipt_id = ear_receipt_id r, rcp_operation_id = e_operation_id e,
         rcp_r2_receipt_key = receipt_key e, rcp_created_at = t\<rparr> (d_receipts (st_db st))\<rparr>"
  by (simp add: persist_operation_def insert_operation_def)

lemma persist_operation_store:
  "st_objects (persist_operation x e r t st) = object_put (receipt_key e) (ReceiptEnvelope r) (st_objects st)"
  "st_cache (persist_operation x e r t st) = cache_set (chain_hint_key (e_agent_id e)) (o_chain_hash x) (st_cache st)"
  by (simp_all add: persist_operation_def)

text \<open>A signature that the SDK makes for an operation record is one the server accepts.\<close>

lemma sign_eor_verifies:
  assumes "ed25519_ok p" and "get_public_key_base64url p sk = Inr pk"
    and "sign_eor p (dump_eor e) sk = Inr sig"
  shows "verify_ed25519 p pk (utf8 (eor_signing_string p (e\<lparr>e_signature := sig\<rparr>))) sig"
proof -
  have "eor_signing_string p (e\<lparr>e_signature := sig\<rparr>) = eor_signing_string p e"
    by (simp add: eor_signing_string_def signable_def dump_eor_def)
  then show ?thesis
    using verify_sign_ed25519[OF assms(1) _ assms(2)] assms(3)
    by (simp add: sign_eor_def eor_signing_string_def crypto_canonical_def signable_def)
qed

text \<open>A storage with one active agent, and a signed operation record for it.\<close>

definition demo_agent :: agent where
  "demo_agent = \<lparr>a_agent_id = ''agentdojo-banking-v1'', a_org_id = ''demo-org'', a_display_name = ''demo'',
     a_responsible_entity = ''demo'', a_integration_type = ''sdk'', a_status = AGENT_ACTIVE,
     a_created_at = 0, a_updated_at = 0\<rparr>"

definition demo_agent_key :: agent_key where
  "demo_agent_key = \<lparr>k_kid = ''kid-1'', k_agent_id = ''agentdojo-banking-v1'', k_public_key = demo_key,
     k_status = KEY_ACTIVE, k_created_at = 0, k_retired_at = None\<rparr>"

definition empty_storage :: storage where
  "empty_storage = \<lparr>st_objects = [], st_cache = \<lparr>c_store = [], c_streams = [], c_groups = {}\<rparr>,
     st_db = empty_database\<rparr>"

definition demo_storage :: storage where
  "demo_storage = empty_storage\<lparr>st_db := empty_database
     \<lparr>d_agents := [(''agentdojo-banking-v1'', demo_agent)], d_agent_keys := [(''kid-1'', demo_agent_key)]\<rparr>\<rparr>"

definition unsigned_demo_eor :: eor where
  "unsigned_demo_eor = \<lparr>e_op_version = ''1.0'', e_operation_id = ''op-1'', e_org_id = ''demo-org'',
     e_agent_id = ''agentdojo-banking-v1'', e_issued_at = 1000, e_ttl_ms = 30000, e_nonce = ''n-1'',
     e_operation_type = ''tool_call'', e_subject = [], e_action = [], e_payload = NoPayload,
     e_payload_hash = ''hash'', e_prev_chain_hash = GENESIS_CHAIN_HASH, e_agent_pubkey_kid = ''kid-1'',
     e_signature = []\<rparr>"

definition demo_eor :: eor where
  "demo_eor = (case sign_eor demo_prims (dump_eor unsigned_demo_eor) demo_key of
     Inr sig \<Rightarrow> unsigned_demo_eor\<lparr>e_signature := sig\<rparr> | Inl _ \<Rightarrow> unsigned_demo_eor)"

lemma demo_eor_signed:
  "\<exists>sig. sign_eor demo_prims (dump_eor unsigned_demo_eor) demo_key = Inr sig \<and> \<not> blank sig
     \<and> demo_eor = unsigned_demo_eor\<lparr>e_signature := sig\<rparr>"
proof -
  obtain sig where sig: "sign_eor demo_prims (dump_eor unsigned_demo_eor) demo_key = Inr sig"
    using sign_total[OF demo_key_public] by (auto simp: sign_eor_def)
  then have "\<not> blank sig"
    by (auto simp: sign_eor_def sign_ed25519_def demo_prims_def split: if_splits
        intro!: notI dest!: base64url_not_blank[THEN notE, rotated])
  with sig show ?thesis by (simp add: demo_eor_def)
qed

lemma demo_eor_valid: "validate_record_fields fr demo_eor 2000 = None"
proof -
  obtain sig where sig: "\<not> blank sig" "demo_eor = unsigned_demo_eor\<lparr>e_signature := sig\<rparr>"
    using demo_eor_signed by blast
  show ?thesis unfolding sig(2) using sig(1)
    by (simp add: validate_record_fields_def unsigned_demo_eor_def missing_field_def required_strings_def
        blank_def is_space_def MAX_NONCE_LENGTH_def MIN_TTL_MS_def MAX_TTL_MS_def GENESIS_CHAIN_HASH_def)
qed

lemma demo_storage_select:
  "select_agent (st_db demo_storage) ''agentdojo-banking-v1'' ''demo-org'' = Some demo_agent"
  "select_agent_key (st_db demo_storage) ''kid-1'' ''agentdojo-banking-v1'' = Some demo_agent_key"
  "select_latest (st_db demo_storage) a = None"
  "d_operations (st_db demo_storage) = []" "d_receipts (st_db demo_storage) = []"
  "st_cache demo_storage = st_cache empty_storage"
  by (simp_all add: demo_storage_def empty_storage_def empty_database_def select_agent_def select_agent_key_def
      demo_agent_def demo_agent_key_def select_latest_def operations_of_def dvalues_def)

lemma demo_eor_verifies:
  "verify_ed25519 demo_prims demo_key (utf8 (eor_signing_string demo_prims demo_eor)) (e_signature demo_eor)"
proof -
  obtain sig where sig: "sign_eor demo_prims (dump_eor unsigned_demo_eor) demo_key = Inr sig"
    "demo_eor = unsigned_demo_eor\<lparr>e_signature := sig\<rparr>" using demo_eor_signed by blast
  from sign_eor_verifies[OF ed25519_ok_demo demo_key_public sig(1)] show ?thesis by (simp add: sig(2))
qed

lemma demo_eor_fields:
  "e_org_id demo_eor = ''demo-org''" "e_agent_id demo_eor = ''agentdojo-banking-v1''"
  "e_agent_pubkey_kid demo_eor = ''kid-1''" "e_operation_id demo_eor = ''op-1''"
  "e_nonce demo_eor = ''n-1''" "e_prev_chain_hash demo_eor = GENESIS_CHAIN_HASH"
  "e_ttl_ms demo_eor = 30000" "e_issued_at demo_eor = 1000" "e_payload demo_eor = NoPayload"
proof -
  obtain sig where sig: "demo_eor = unsigned_demo_eor\<lparr>e_signature := sig\<rparr>" using demo_eor_signed by blast
  show "e_org_id demo_eor = ''demo-org''" "e_agent_id demo_eor = ''agentdojo-banking-v1''"
    "e_agent_pubkey_kid demo_eor = ''kid-1''" "e_operation_id demo_eor = ''op-1''"
    "e_nonce demo_eor = ''n-1''" "e_prev_chain_hash demo_eor = GENESIS_CHAIN_HASH"
    "e_ttl_ms demo_eor = 30000" "e_issued_at demo_eor = 1000" "e_payload demo_eor = NoPayload"
    unfolding sig by (simp_all add: unsigned_demo_eor_def)
qed

lemma empty_cache_holds [simp]: "\<not> cache_holds t (st_cache empty_storage) k"
  by (simp add: cache_holds_iff empty_storage_def)



lemma demo_submit:
  "\<exists>r st'. submit_operation demo_prims demo_storage demo_eor demo_key 2000 ''r-1'' = (Inr r, st')"
proof -
  obtain res st' where s: "submit_operation demo_prims demo_storage demo_eor demo_key 2000 ''r-1'' = (res, st')"
    by (cases "submit_operation demo_prims demo_storage demo_eor demo_key 2000 ''r-1''")
  have a: "admit_operation demo_prims (st_db demo_storage) demo_eor = Inr ()"
    using demo_eor_verifies by (simp add: admit_operation_iff require_agent_key_iff demo_eor_fields
        demo_storage_select expected_prev_def demo_agent_def demo_agent_key_def)
  have n: "snd (set_if_absent 2000 k v n (st_cache demo_storage))" for k v n
    by (simp add: nonces.accept_iff demo_storage_select)
  from s show ?thesis
    by (cases rule: submit_cases[OF s])
      (use sign_receipt_total[OF demo_key_public] n demo_eor_valid a in \<open>(auto, metis snd_conv, metis Inl_Inr_False)\<close>)
qed

text \<open>
C7. The server accepts an operation exactly when its fields are valid, its nonce is not held, its
agent is active, its key is an active key of that agent, the signature verifies under that key over
the canonical form of all other fields, and it names the agent's latest chain hash.
\<close>

theorem submit_accepts_iff:
  assumes "get_public_key_base64url p sk = Inr pk"
  shows "(\<exists>r st'. submit_operation p st e sk t rid = (Inr r, st')) \<longleftrightarrow>
    validate_record_fields (float_repr p) e t = None
    \<and> \<not> cache_holds t (st_cache st) (nonce_key (e_org_id e) (e_nonce e))
    \<and> (\<exists>a k. select_agent (st_db st) (e_agent_id e) (e_org_id e) = Some a \<and> a_status a = AGENT_ACTIVE
        \<and> select_agent_key (st_db st) (e_agent_pubkey_kid e) (e_agent_id e) = Some k \<and> k_status k = KEY_ACTIVE
        \<and> verify_ed25519 p (k_public_key k) (utf8 (eor_signing_string p e)) (e_signature e))
    \<and> e_prev_chain_hash e = expected_prev (st_db st) (e_agent_id e)"
    (is "?lhs \<longleftrightarrow> ?rhs")
proof -
  let ?acc = "set_if_absent t (nonce_key (e_org_id e) (e_nonce e)) ''1'' (ceil_div (e_ttl_ms e) 1000) (st_cache st)"
  have adm: "?rhs \<longleftrightarrow> validate_record_fields (float_repr p) e t = None \<and> snd ?acc
      \<and> admit_operation p (st_db st) e = Inr ()"
    by (auto simp: nonces.accept_iff admit_operation_iff require_agent_key_iff)
  obtain res st' where s: "submit_operation p st e sk t rid = (res, st')"
    by (cases "submit_operation p st e sk t rid")
  have signed: "sign_receipt p sk x \<noteq> Inl exc" for x exc
    using sign_receipt_total[OF assms, of x] by (metis Inl_Inr_False)
  from s show ?thesis unfolding adm
    by (cases rule: submit_cases[OF s]) (simp_all add: signed)
qed

theorem submit_accepts_iff_witness:
  "\<exists>r st'. submit_operation demo_prims demo_storage demo_eor demo_key 2000 ''r-1'' = (Inr r, st')"
  unfolding submit_accepts_iff[OF demo_key_public]
  using demo_eor_valid demo_eor_verifies
  by (simp add: demo_eor_fields demo_storage_select expected_prev_def demo_agent_def demo_agent_key_def)

text \<open>
C8. Every operation that is rejected leaves no trace but its nonce: tables, object store and streams
are as before, and whatever nonces the store held, it still holds, for as long as it would have; the
entries of the store under every other key are untouched.  The same holds when the call
raises anything else, except that the payload may then already be in the object store (when the
server key cannot sign).
\<close>

theorem submit_rejected_leaves_no_trace:
  assumes "submit_operation p st e sk t rid = (Inl exc, st')"
  shows "st_db st' = st_db st
    \<and> (st_objects st' = st_objects st \<or>
         (\<exists>err. exc = PyError err \<and> st_objects st' = object_put (payload_key e) (OperationEnvelope e) (st_objects st)))
    \<and> stream_entries (st_cache st') = stream_entries (st_cache st)
    \<and> (\<forall>key u. cache_holds u (st_cache st) key \<and> t \<le> u \<longrightarrow> cache_holds u (st_cache st') key)
    \<and> (\<forall>key. key \<noteq> nonce_key (e_org_id e) (e_nonce e) \<longrightarrow>
        dget (c_store (st_cache st')) key = dget (c_store (st_cache st)) key)"
proof -
  let ?k = "nonce_key (e_org_id e) (e_nonce e)"
  have c: "stream_entries c = stream_entries (st_cache st)
      \<and> (\<forall>key u. cache_holds u (st_cache st) key \<and> t \<le> u \<longrightarrow> cache_holds u c key)
      \<and> (\<forall>key. key \<noteq> ?k \<longrightarrow> dget (c_store c) key = dget (c_store (st_cache st)) key)"
    if "set_if_absent t ?k ''1'' (ceil_div (e_ttl_ms e) 1000) (st_cache st) = (c, b)" for c b
  proof (intro conjI allI impI)
    show "stream_entries c = stream_entries (st_cache st)"
      using stream_entries_other(3)[of t ?k "''1''" "ceil_div (e_ttl_ms e) 1000" "st_cache st"] that
      by (simp add: fun_eq_iff)
  next
    fix key u assume h: "cache_holds u (st_cache st) key \<and> t \<le> u"
    then have "\<forall>v \<le> u. cache_holds v (st_cache st) key"
      by (auto simp: cache_holds_iff split: option.splits prod.splits)
    then show "cache_holds u c key"
      using nonces.held_until[of u "st_cache st" key t ?k "''1''" "ceil_div (e_ttl_ms e) 1000"] h that by simp
  next
    fix key assume "key \<noteq> ?k"
    then show "dget (c_store c) key = dget (c_store (st_cache st)) key"
      using that by (auto simp: set_if_absent_def cache_live_def split: if_splits option.splits prod.splits)
  qed
  from assms show ?thesis
    by (cases rule: submit_cases[OF assms]) (use c in \<open>auto simp: app_err_def\<close>)
qed

theorem submit_rejected_leaves_no_trace_witness:
  "\<exists>f st'. submit_operation demo_prims (demo_storage\<lparr>st_cache := cache_set ''k'' ''v'' (st_cache demo_storage)\<rparr>)
       (demo_eor\<lparr>e_ttl_ms := 0\<rparr>) demo_key 2000 ''r-1'' = (Inl (AppError f), st')
    \<and> st_db st' = st_db demo_storage \<and> cache_holds 2000 (st_cache st') ''k''"
proof -
  let ?st = "demo_storage\<lparr>st_cache := cache_set ''k'' ''v'' (st_cache demo_storage)\<rparr>"
  have v: "validate_record_fields demo_repr (demo_eor\<lparr>e_ttl_ms := 0\<rparr>) 2000 = Some (validation_error ''TTL too low.'')"
    using demo_eor_valid[of demo_repr]
    by (auto simp: validate_record_fields_def required_strings_def MIN_TTL_MS_def split: if_splits option.splits)
  then have s: "submit_operation demo_prims ?st (demo_eor\<lparr>e_ttl_ms := 0\<rparr>) demo_key 2000 ''r-1''
      = (Inl (AppError (app_error_of 400 VALIDATION_ERROR (Some ''TTL too low.'') None)), ?st)"
    by (simp add: submit_operation_def validation_error_def app_err_msg_def)
  have "cache_holds 2000 (st_cache ?st) ''k''"
    by (simp add: cache_holds_iff cache_set_def demo_storage_def empty_storage_def)
  with submit_rejected_leaves_no_trace[OF s] s show ?thesis by auto
qed

lemma find_app: "find P (xs @ ys) = (case find P xs of None \<Rightarrow> find P ys | Some x \<Rightarrow> Some x)"
  by (induction xs) auto



end
