(* ===== verification/Governance.thy ===== *)
theory Governance
  imports Ingest
begin

text \<open>
  \<open>packages/shield-server/src/shield_server/governance.py\<close> and the decision seam of
  \<open>govseam.py\<close>: the synchronous gate \<open>decide\<close>, the asynchronous ingest \<open>record\<close>, the
  publication of late verdicts \<open>publish_async_verdict\<close> and the resumption of an escalated
  incident \<open>resume\<close>.

  The governance application behind the seam is a parameter: a function from its own state and
  the record to the verdict (or the exception) and its next state.  Clock readings are arguments; the two
  readings that one handler makes around its last write are one.  The size of the serialised payload is pydantic's and is part of the environment.
\<close>

section \<open>Environment\<close>

record server_env =
  se_prims :: prims
  se_signing_key :: string
  se_payload_size :: "action_payload \<Rightarrow> int"

definition SHIELD_KID :: string where "SHIELD_KID = ''shield-server-key-v1''"
definition ACTIONS_STREAM_PREFIX :: string where "ACTIONS_STREAM_PREFIX = ''shield:actions''"
definition VERDICTS_STREAM_PREFIX :: string where "VERDICTS_STREAM_PREFIX = ''shield:verdicts''"
definition CONSUMER_GROUPS :: "string list" where "CONSUMER_GROUPS = [''shield-evaluator'', ''shield-auditor'']"

type_synonym 'g decide_app = "'g \<Rightarrow> action_record \<Rightarrow> (py_exc + governance_verdict) \<times> 'g"
type_synonym 'g resume_app =
  "'g \<Rightarrow> string \<Rightarrow> string \<Rightarrow> jobj option \<Rightarrow> (py_exc + governance_verdict) \<times> 'g"

text \<open>The clock readings of a request: arrival, time served, elapsed milliseconds.\<close>

record clock =
  ck_received_at :: int
  ck_served_at :: int
  ck_latency_ms :: pyfloat

section \<open>Guardian evidence\<close>

record guardian_evidence =
  ge_guardian :: guardian
  ge_decision :: decision
  ge_reasons :: "string list"
  ge_model_id :: "string option"
  ge_served_via :: "served_via option"
  ge_prompt_tokens :: int
  ge_completion_tokens :: int
  ge_latency_ms :: pyfloat
  ge_cost_usd :: pyfloat
  ge_memory :: "jobj option"
  ge_tool_calls :: "string list"

definition guardian_evidence_key :: "string \<Rightarrow> string" where
  "guardian_evidence_key verdict_key = verdict_key @ ''.guardian_evidence''"

definition memory_columns :: "jobj \<Rightarrow> jobj \<Rightarrow> jobj" where
  "memory_columns memory item =
     (let item1 = fold (\<lambda>key it. case dget memory key of None \<Rightarrow> it | Some v \<Rightarrow> dset key v it)
            [''memory_backend'', ''collection'', ''query_id'', ''hit_count'', ''missing_reason'']
            (dset ''memory'' (JObj memory) item);
          item2 = (case dget memory ''latency_ms'' of
                     None \<Rightarrow> item1 | Some JNull \<Rightarrow> item1 | Some v \<Rightarrow> dset ''memory_latency_ms'' v item1) in
      case dget memory ''top_hits'' of
        Some (JArr (JObj hit # _)) \<Rightarrow>
          dset ''distance'' (field hit ''distance'')
            (dset ''score'' (field hit ''score'') (dset ''top_hit_id'' (field hit ''id'') item2))
      | _ \<Rightarrow> item2)"

definition guardian_evidence_item :: "action_record \<Rightarrow> guardian_evidence \<Rightarrow> jobj" where
  "guardian_evidence_item rec row =
     (let item =
        [(''record_id'', JStr (r_record_id rec)), (''correlation_id'', JStr (r_correlation_id rec)),
         (''guardian'', JStr (guardian_value (ge_guardian row))),
         (''decision'', JStr (decision_value (ge_decision row))),
         (''reasons'', JArr (map JStr (ge_reasons row))),
         (''model_id'', opt_json JStr (ge_model_id row)),
         (''served_via'', opt_json (JStr \<circ> served_via_value) (ge_served_via row)),
         (''prompt_tokens'', JInt (ge_prompt_tokens row)),
         (''completion_tokens'', JInt (ge_completion_tokens row)),
         (''latency_ms'', JFloat (ge_latency_ms row)), (''cost_usd'', JFloat (ge_cost_usd row))];
          item = (case ge_memory row of None \<Rightarrow> item | Some memory \<Rightarrow> memory_columns memory item) in
      if ge_tool_calls row = [] then item
      else dset ''tool_calls'' (JArr (map JStr (ge_tool_calls row))) item)"

definition guardian_evidence_payload :: "action_record \<Rightarrow> guardian_evidence list \<Rightarrow> jobj list" where
  "guardian_evidence_payload rec rows = map (guardian_evidence_item rec) rows"

section \<open>Steps 1 to 8\<close>

definition required_record_strings :: "action_record \<Rightarrow> (string \<times> string) list" where
  "required_record_strings r =
     [(''record_id'', r_record_id r), (''correlation_id'', r_correlation_id r), (''org_id'', r_org_id r),
      (''agent_id'', r_agent_id r), (''nonce'', r_nonce r), (''payload_hash'', r_payload_hash r),
      (''prev_chain_hash'', r_prev_chain_hash r), (''agent_pubkey_kid'', r_agent_pubkey_kid r)]"

definition validate_record :: "server_env \<Rightarrow> action_record \<Rightarrow> int \<Rightarrow> phase \<Rightarrow> failure option" where
  "validate_record env r received_at expected_phase =
     (if r_phase r \<noteq> expected_phase
        then Some (validation_error (''This route requires phase='' @ phase_value expected_phase @ ''.''))
      else if r_shield_version r \<noteq> ''1.1'' then Some (validation_error ''Unsupported shield_version.'')
      else case missing_field (required_record_strings r) of
        Some name \<Rightarrow> Some (validation_error (''Missing required field: '' @ name))
      | None \<Rightarrow>
        if (case r_signature r of None \<Rightarrow> True | Some s \<Rightarrow> blank s)
          then Some (validation_error ''Missing signature.'')
        else if length (r_nonce r) > MAX_NONCE_LENGTH then Some (validation_error ''Nonce too long.'')
        else if r_issued_at r \<le> 0 then Some (validation_error ''Invalid issued_at.'')
        else if r_ttl_ms r < MIN_TTL_MS then Some (validation_error ''TTL too low.'')
        else if r_ttl_ms r > MAX_TTL_MS then Some (validation_error ''TTL too high.'')
        else if r_issued_at r + r_ttl_ms r < received_at then Some (app_err 400 TTL_EXPIRED)
        else if se_payload_size env (r_payload r) > MAX_PAYLOAD_SIZE
          then Some (app_err 400 PAYLOAD_TOO_LARGE)
        else None)"

definition admit_record :: "prims \<Rightarrow> database \<Rightarrow> action_record \<Rightarrow> failure + unit" where
  "admit_record p db r =
     rbind (require_agent_key db (r_agent_id r) (r_org_id r) (r_agent_pubkey_kid r)) (\<lambda>k.
       if \<not> verify_record p r (k_public_key k) then Inl (app_err 400 INVALID_SIGNATURE)
       else if r_prev_chain_hash r \<noteq> expected_prev db (r_agent_id r)
         then Inl (prev_hash_mismatch (expected_prev db (r_agent_id r)) (r_prev_chain_hash r))
       else Inr ())"

definition record_key :: "action_record \<Rightarrow> string" where
  "record_key r = r_org_id r @ ''/'' @ r_agent_id r @ ''/'' @ r_record_id r"

record ingested =
  ig_chain_hash :: string
  ig_next_seq :: int
  ig_r2_key :: string

definition ingest_prefix ::
  "server_env \<Rightarrow> storage \<Rightarrow> action_record \<Rightarrow> int \<Rightarrow> phase \<Rightarrow> (failure + ingested) \<times> storage" where
  "ingest_prefix env st r received_at expected_phase =
     (case validate_record env r received_at expected_phase of
        Some f \<Rightarrow> (Inl f, st)
      | None \<Rightarrow>
        (let (c, accepted) = set_if_absent received_at (nonce_key (r_org_id r) (r_nonce r)) ''1''
               (ceil_div (r_ttl_ms r) 1000) (st_cache st);
             st1 = st\<lparr>st_cache := c\<rparr> in
         if \<not> accepted then (Inl (app_err 400 REPLAY_DETECTED), st1)
         else case admit_record (se_prims env) (st_db st1) r of
           Inl f \<Rightarrow> (Inl f, st1)
         | Inr _ \<Rightarrow>
           (Inr \<lparr>ig_chain_hash = derive_chain_hash (se_prims env) (r_prev_chain_hash r) r,
                 ig_next_seq = next_seq (st_db st1) (r_agent_id r), ig_r2_key = record_key r\<rparr>,
            st1\<lparr>st_objects := object_put (record_key r) (RecordEnvelope r) (st_objects st1)\<rparr>)))"

section \<open>Rows and messages\<close>

definition record_row :: "prims \<Rightarrow> action_record \<Rightarrow> ingested \<Rightarrow> int \<Rightarrow> operation" where
  "record_row p r ig received_at =
     \<lparr>o_operation_id = r_record_id r, o_org_id = r_org_id r, o_agent_id = r_agent_id r,
      o_seq_no = ig_next_seq ig, o_operation_type = r_operation_type r, o_issued_at = r_issued_at r,
      o_ttl_ms = r_ttl_ms r, o_nonce = r_nonce r,
      o_subject = json_dumps (float_repr p) (JObj (r_subject r)),
      o_action = json_dumps (float_repr p) (dump_action False (r_action r)),
      o_payload_hash = r_payload_hash r, o_prev_chain_hash = r_prev_chain_hash r,
      o_chain_hash = ig_chain_hash ig, o_agent_pubkey_kid = r_agent_pubkey_kid r,
      o_signature = (case r_signature r of None \<Rightarrow> [] | Some s \<Rightarrow> s),
      o_r2_payload_key = ig_r2_key ig, o_created_at = received_at,
      o_correlation_id = Some (r_correlation_id r), o_run_id = Some (r_run_id r), o_phase = Some (r_phase r)\<rparr>"

definition ensure_groups :: "string \<Rightarrow> cache \<Rightarrow> cache" where
  "ensure_groups stream c = fold (ensure_group stream) CONSUMER_GROUPS c"

definition actions_stream :: "action_record \<Rightarrow> string" where
  "actions_stream r = ACTIONS_STREAM_PREFIX @ '':'' @ r_workflow_id r"

definition verdicts_stream :: "action_record \<Rightarrow> string" where
  "verdicts_stream r = VERDICTS_STREAM_PREFIX @ '':'' @ r_workflow_id r"

definition action_entry :: "action_record \<Rightarrow> ingested \<Rightarrow> string \<Rightarrow> stream_fields" where
  "action_entry r ig verdict_id =
     ActionFields (r_record_id r) (r_correlation_id r) (r_phase r) (show_int (ig_next_seq ig))
       (ig_chain_hash ig) verdict_id r"

definition fan_channel2 :: "action_record \<Rightarrow> ingested \<Rightarrow> string \<Rightarrow> cache \<Rightarrow> cache" where
  "fan_channel2 r ig verdict_id c =
     cache_set (chain_hint_key (r_agent_id r)) (ig_chain_hash ig)
       (fst (xadd (actions_stream r) (action_entry r ig verdict_id) (ensure_groups (actions_stream r) c)))"

definition verdict_entry :: "action_record \<Rightarrow> governance_verdict \<Rightarrow> stream_fields" where
  "verdict_entry r v =
     VerdictFields (v_verdict_id v) (r_record_id r) (r_correlation_id r) (r_run_id r)
       (v_decision v) (v_risk_score v) (r_phase r) v"

definition fan_verdicts :: "action_record \<Rightarrow> governance_verdict \<Rightarrow> cache \<Rightarrow> cache" where
  "fan_verdicts r v c =
     fst (xadd (verdicts_stream r) (verdict_entry r v) (ensure_groups (verdicts_stream r) c))"

text \<open>\<open>prevented_loss or 0.0\<close>\<close>

definition loss_or_zero :: "pyfloat option \<Rightarrow> pyfloat" where
  "loss_or_zero x = (case x of None \<Rightarrow> Fin 0 | Some v \<Rightarrow> v)"

definition governance_verdict_row :: "action_record \<Rightarrow> governance_verdict \<Rightarrow> string \<Rightarrow> int \<Rightarrow> verdict_row" where
  "governance_verdict_row r v verdict_key created_at =
     \<lparr>gv_verdict_id = v_verdict_id v, gv_record_id = r_record_id r, gv_correlation_id = r_correlation_id r,
      gv_run_id = r_run_id r, gv_org_id = r_org_id r, gv_agent_id = r_agent_id r,
      gv_decision = v_decision v, gv_risk_score = v_risk_score v, gv_latency_ms = v_latency_ms v,
      gv_prevented_loss = loss_or_zero (ob_prevented_loss (v_obligations v)),
      gv_r2_verdict_key = verdict_key, gv_created_at = created_at,
      gv_resolution = None, gv_resolved_at = None\<rparr>"

definition intervention_row :: "action_record \<Rightarrow> governance_verdict \<Rightarrow> int \<Rightarrow> intervention" where
  "intervention_row r v received_at =
     \<lparr>iv_verdict_id = v_verdict_id v, iv_record_id = r_record_id r, iv_correlation_id = r_correlation_id r,
      iv_run_id = r_run_id r, iv_decision = v_decision v, iv_step_index = r_step_index r,
      iv_triggered_rule_id = (case v_reasons v of [] \<Rightarrow> None | x # _ \<Rightarrow> Some (rs_label x)),
      iv_tokens_in = 0, iv_tokens_out = 0, iv_model_id = None, iv_served_via = None,
      iv_latency_ms = v_latency_ms v, iv_created_at = received_at\<rparr>"

definition verdict_key_of :: "action_record \<Rightarrow> governance_verdict \<Rightarrow> string" where
  "verdict_key_of r v = r_org_id r @ ''/'' @ r_agent_id r @ ''/verdicts/'' @ v_verdict_id v"

section \<open>The handlers\<close>

text \<open>The server forces the identity of the record, attaches its own fields and signs.\<close>

definition server_stamp :: "action_record \<Rightarrow> clock \<Rightarrow> governance_verdict \<Rightarrow> governance_verdict" where
  "server_stamp r ck v =
     v\<lparr>v_record_id := Some (r_record_id r), v_correlation_id := r_correlation_id r,
       v_run_id := Some (r_run_id r), v_served_at := Some (ck_served_at ck),
       v_latency_ms := Some (ck_latency_ms ck), v_shield_kid := Some SHIELD_KID\<rparr>"

definition commit_decision ::
  "server_env \<Rightarrow> storage \<Rightarrow> action_record \<Rightarrow> ingested \<Rightarrow> governance_verdict \<Rightarrow> int \<Rightarrow> storage" where
  "commit_decision env st r ig v received_at =
     (let key = verdict_key_of r v in
      st\<lparr>st_objects := object_put key (VerdictEnvelope v) (st_objects st),
         st_db := fst (tx_commit
           [InsertOperation (record_row (se_prims env) r ig received_at),
            InsertVerdict (governance_verdict_row r v key received_at),
            InsertIntervention (intervention_row r v received_at)] (st_db st)),
         st_cache := fan_verdicts r v (fan_channel2 r ig (v_verdict_id v) (st_cache st))\<rparr>)"

definition decide ::
  "server_env \<Rightarrow> 'g decide_app \<Rightarrow> clock \<Rightarrow> storage \<times> 'g \<Rightarrow> action_record
   \<Rightarrow> (failure + governance_verdict) \<times> storage \<times> 'g" where
  "decide env app ck sg r =
     (let (st, g) = sg in
      case ingest_prefix env st r (ck_received_at ck) PRE_EXEC of
        (Inl f, st1) \<Rightarrow> (Inl f, st1, g)
      | (Inr ig, st1) \<Rightarrow>
        (case app g r of
           (Inl exc, g1) \<Rightarrow> (Inl (PyError exc), st1, g1)
         | (Inr v, g1) \<Rightarrow>
           (case finalize_verdict (se_prims env) (server_stamp r ck v) (se_signing_key env) of
              Inl exc \<Rightarrow> (Inl (PyError exc), st1, g1)
            | Inr v' \<Rightarrow> (Inr v', commit_decision env st1 r ig v' (ck_received_at ck), g1))))"

record ack =
  ak_record_id :: string
  ak_correlation_id :: string
  ak_chain_hash :: string
  ak_seq_no :: int

definition commit_record :: "server_env \<Rightarrow> storage \<Rightarrow> action_record \<Rightarrow> ingested \<Rightarrow> int \<Rightarrow> storage" where
  "commit_record env st r ig received_at =
     st\<lparr>st_db := fst (tx_commit [InsertOperation (record_row (se_prims env) r ig received_at)] (st_db st)),
        st_cache := fan_channel2 r ig (case r_verdict_ref r of None \<Rightarrow> [] | Some v \<Rightarrow> v) (st_cache st)\<rparr>"

definition record_outcome ::
  "server_env \<Rightarrow> int \<Rightarrow> storage \<Rightarrow> action_record \<Rightarrow> (failure + ack) \<times> storage" where
  "record_outcome env received_at st r =
     (case ingest_prefix env st r received_at POST_EXEC of
        (Inl f, st1) \<Rightarrow> (Inl f, st1)
      | (Inr ig, st1) \<Rightarrow>
          (Inr \<lparr>ak_record_id = r_record_id r, ak_correlation_id = r_correlation_id r,
                ak_chain_hash = ig_chain_hash ig, ak_seq_no = ig_next_seq ig\<rparr>,
           commit_record env st1 r ig received_at))"

definition publish_async_verdict ::
  "server_env \<Rightarrow> clock \<Rightarrow> storage \<Rightarrow> action_record \<Rightarrow> governance_verdict \<Rightarrow> guardian_evidence list
   \<Rightarrow> (failure + governance_verdict) \<times> storage" where
  "publish_async_verdict env ck st r v evidence =
     (case finalize_verdict (se_prims env) (server_stamp r ck v) (se_signing_key env) of
        Inl exc \<Rightarrow> (Inl (PyError exc), st)
      | Inr sv \<Rightarrow>
        (let key = verdict_key_of r sv;
             os = object_put key (VerdictEnvelope sv) (st_objects st);
             payload = guardian_evidence_payload r evidence;
             os = (if payload = [] then os
                   else object_put (guardian_evidence_key key) (EvidenceEnvelope payload) os) in
         (Inr sv,
          st\<lparr>st_objects := os,
             st_db := fst (tx_commit [InsertVerdict (governance_verdict_row r sv key (ck_received_at ck))] (st_db st)),
             st_cache := fan_verdicts r sv (st_cache st)\<rparr>)))"

section \<open>Resuming an incident\<close>

definition RESUME_DECISIONS :: "string list" where
  "RESUME_DECISIONS = [''accept'', ''edit'', ''response'', ''ignore'']"

definition resume_thread_id :: "database \<Rightarrow> string \<Rightarrow> string \<Rightarrow> string" where
  "resume_thread_id db org_id incident_id =
     (case select_verdict db incident_id org_id of None \<Rightarrow> incident_id | Some row \<Rightarrow> gv_run_id row)"

definition resume ::
  "server_env \<Rightarrow> 'g resume_app \<Rightarrow> clock \<Rightarrow> storage \<times> 'g \<Rightarrow> string \<Rightarrow> string \<Rightarrow> jobj option \<Rightarrow> string
   \<Rightarrow> (failure + governance_verdict) \<times> storage \<times> 'g" where
  "resume env app ck sg incident_id resolution payload org_id =
     (let (st, g) = sg in
      if resolution \<notin> set RESUME_DECISIONS
        then (Inl (validation_error (''decision must be one of '' @ join '', '' RESUME_DECISIONS @ ''.'')), st, g)
      else case app g (resume_thread_id (st_db st) org_id incident_id) resolution payload of
        (Inl exc, g1) \<Rightarrow> (Inl (PyError exc), st, g1)
      | (Inr v, g1) \<Rightarrow>
        (case finalize_verdict (se_prims env)
           (v\<lparr>v_served_at := Some (ck_served_at ck), v_latency_ms := Some (ck_latency_ms ck),
              v_shield_kid := Some SHIELD_KID\<rparr>) (se_signing_key env) of
           Inl exc \<Rightarrow> (Inl (PyError exc), st, g1)
         | Inr v' \<Rightarrow>
           (Inr v',
            st\<lparr>st_db := fst (tx_commit [UpdateResolution resolution (ck_served_at ck) incident_id] (st_db st))\<rparr>, g1)))"

section \<open>The default application\<close>

definition null_app :: "string \<Rightarrow> unit decide_app" where
  "null_app vid g r =
     (Inr (verdict_for vid r PASS (Fin 0)
        [verdict_reason_of DEFENDER ''STUB_PASS''
           (Some (''server decide-seam default (NullGovernanceApp) '' @ map char_of [226::nat, 128, 148]
              @ '' real gov decide() verdict pending gov Task #21.''))
           (Some (Fin 0))] no_obligations), ())"

definition null_resume :: "string \<Rightarrow> unit resume_app" where
  "null_resume vid g incident_id resolution payload =
     (Inr \<lparr>v_shield_version = SHIELD_VERSION, v_verdict_id = vid, v_record_id = None,
        v_correlation_id = incident_id, v_run_id = None, v_decision = PASS, v_risk_score = Fin 0,
        v_reasons = [verdict_reason_of SUPERVISOR ''HITL_RESUME_STUB''
          (Some (''server HITL-resume seam default (NullGovernanceApp) '' @ map char_of [226::nat, 128, 148]
             @ '' real LangGraph Command(resume=) pending gov Task #21.'')) (Some (Fin 0))],
        v_obligations = no_obligations, v_latency_ms = None, v_served_at = None, v_shield_kid = None,
        v_signature_by_shield = None\<rparr>, ())"

section \<open>Facts about the prefix\<close>

lemma admit_record_iff:
  "admit_record p db r = Inr () \<longleftrightarrow>
     (\<exists>k. require_agent_key db (r_agent_id r) (r_org_id r) (r_agent_pubkey_kid r) = Inr k
        \<and> verify_record p r (k_public_key k))
     \<and> r_prev_chain_hash r = expected_prev db (r_agent_id r)"
  by (auto simp: admit_record_def rbind_Inr_iff split: if_splits)

definition is_app_error :: "failure \<Rightarrow> bool" where
  "is_app_error f = (case f of AppError _ \<Rightarrow> True | PyError _ \<Rightarrow> False)"

lemma app_errors [simp]:
  "is_app_error (app_err s c)" "is_app_error (app_err_msg s c m)" "is_app_error (validation_error m)"
  "is_app_error (prev_hash_mismatch x y)"
  by (simp_all add: is_app_error_def app_err_def app_err_msg_def validation_error_def prev_hash_mismatch_def)

lemma validate_record_app_error: "pred_option is_app_error (validate_record env r t ph)"
  by (simp add: validate_record_def split: option.split)

lemma require_agent_key_app_error: "require_agent_key db a org kid = Inl f \<Longrightarrow> is_app_error f"
  by (auto simp: require_agent_key_def split: option.splits if_splits)

lemma admit_record_app_error: "admit_record p db r = Inl f \<Longrightarrow> is_app_error f"
  by (auto simp: admit_record_def rbind_def split: sum.splits if_splits dest: require_agent_key_app_error)

text \<open>What a rejected or accepted prefix leaves behind.\<close>

lemma ingest_prefix_cases:
  assumes "ingest_prefix env st r t ph = (res, st')"
  obtains (rejected) f where "res = Inl (AppError f)" "st_db st' = st_db st" "st_objects st' = st_objects st"
      "st_cache st' = st_cache st \<or> (\<exists>b. set_if_absent t (nonce_key (r_org_id r) (r_nonce r)) ''1''
         (ceil_div (r_ttl_ms r) 1000) (st_cache st) = (st_cache st', b))"
      "\<not> (validate_record env r t ph = None \<and> \<not> cache_holds t (st_cache st) (nonce_key (r_org_id r) (r_nonce r))
          \<and> admit_record (se_prims env) (st_db st) r = Inr ())"
  | (accepted) c where "validate_record env r t ph = None"
      "set_if_absent t (nonce_key (r_org_id r) (r_nonce r)) ''1'' (ceil_div (r_ttl_ms r) 1000) (st_cache st) = (c, True)"
      "admit_record (se_prims env) (st_db st) r = Inr ()"
      "res = Inr \<lparr>ig_chain_hash = derive_chain_hash (se_prims env) (r_prev_chain_hash r) r,
             ig_next_seq = next_seq (st_db st) (r_agent_id r), ig_r2_key = record_key r\<rparr>"
      "st' = st\<lparr>st_cache := c, st_objects := object_put (record_key r) (RecordEnvelope r) (st_objects st)\<rparr>"
proof -
  let ?k = "nonce_key (r_org_id r) (r_nonce r)"
  let ?acc = "set_if_absent t ?k ''1'' (ceil_div (r_ttl_ms r) 1000) (st_cache st)"
  have app: "\<exists>a. f = AppError a" if "validate_record env r t ph = Some f \<or> admit_record (se_prims env) (st_db st) r = Inl f" for f
  proof -
    have "is_app_error f"
      using that validate_record_app_error[of env r t ph] admit_record_app_error[of "se_prims env" "st_db st" r f] by auto
    then show ?thesis by (cases f) (simp_all add: is_app_error_def)
  qed
  show ?thesis
  proof (cases "validate_record env r t ph")
    case (Some f)
    with app obtain a where "f = AppError a" by blast
    with Some assms show ?thesis by (intro rejected[of a]) (auto simp: ingest_prefix_def)
  next
    case None
    obtain c ok where acc: "?acc = (c, ok)" by (cases ?acc)
    then have ok: "ok = (\<not> cache_holds t (st_cache st) ?k)"
      using nonces.accept_iff[of t ?k "''1''" "ceil_div (r_ttl_ms r) 1000" "st_cache st"] by simp
    note step = assms[unfolded ingest_prefix_def None acc, simplified]
    show ?thesis
    proof (cases "ok \<and> admit_record (se_prims env) (st_db st) r = Inr ()")
      case True
      with step acc show ?thesis by (intro accepted[OF None, of c]) (auto simp: Let_def)
    next
      case False
      show ?thesis
      proof (cases ok)
        case False
        with step acc ok show ?thesis
          by (intro rejected[of "app_error_of 400 REPLAY_DETECTED None None"]) (auto simp: app_err_def)
      next
        case True
        with False obtain f where f: "admit_record (se_prims env) (st_db st) r = Inl f"
          by (cases "admit_record (se_prims env) (st_db st) r") auto
        with app obtain a where "f = AppError a" by blast
        with True f step acc show ?thesis by (intro rejected[of a]) auto
      qed
    qed
  qed
qed

text \<open>
C11. The gate admits a record exactly when it is valid for the route, its nonce is not held, its
agent and key are active, the signature verifies over the canonical projection, and it names the
latest chain hash; the chain hash and the number it gets are those of the next link.
\<close>

theorem ingest_accepts_iff:
  "(\<exists>st'. ingest_prefix env st r t ph =
      (Inr \<lparr>ig_chain_hash = derive_chain_hash (se_prims env) (expected_prev (st_db st) (r_agent_id r)) r,
         ig_next_seq = next_seq (st_db st) (r_agent_id r), ig_r2_key = record_key r\<rparr>, st')) \<longleftrightarrow>
    validate_record env r t ph = None
    \<and> \<not> cache_holds t (st_cache st) (nonce_key (r_org_id r) (r_nonce r))
    \<and> (\<exists>a k. select_agent (st_db st) (r_agent_id r) (r_org_id r) = Some a \<and> a_status a = AGENT_ACTIVE
        \<and> select_agent_key (st_db st) (r_agent_pubkey_kid r) (r_agent_id r) = Some k \<and> k_status k = KEY_ACTIVE
        \<and> verify_record (se_prims env) r (k_public_key k))
    \<and> r_prev_chain_hash r = expected_prev (st_db st) (r_agent_id r)"
    (is "?lhs \<longleftrightarrow> ?rhs")
proof -
  let ?k = "nonce_key (r_org_id r) (r_nonce r)"
  let ?acc = "set_if_absent t ?k ''1'' (ceil_div (r_ttl_ms r) 1000) (st_cache st)"
  have rhs: "?rhs \<longleftrightarrow> validate_record env r t ph = None \<and> \<not> cache_holds t (st_cache st) ?k
      \<and> admit_record (se_prims env) (st_db st) r = Inr ()"
    by (auto simp: admit_record_iff require_agent_key_iff)
  obtain res st' where s: "ingest_prefix env st r t ph = (res, st')"
    by (cases "ingest_prefix env st r t ph")
  then show ?thesis unfolding rhs
  proof (cases rule: ingest_prefix_cases)
    case (rejected f)
    with s show "?lhs \<longleftrightarrow> validate_record env r t ph = None \<and> \<not> cache_holds t (st_cache st) ?k
      \<and> admit_record (se_prims env) (st_db st) r = Inr ()" by simp
  next
    case (accepted c)
    then have "\<not> cache_holds t (st_cache st) ?k"
      using nonces.accept_iff[of t ?k "''1''" "ceil_div (r_ttl_ms r) 1000" "st_cache st"] by simp
    with accepted s show "?lhs \<longleftrightarrow> validate_record env r t ph = None \<and> \<not> cache_holds t (st_cache st) ?k
      \<and> admit_record (se_prims env) (st_db st) r = Inr ()" by (simp add: admit_record_iff)
  qed
qed

lemma decide_cases:
  assumes "decide env app ck (st, g) r = (res, st', g')"
  obtains (rejected) f where "ingest_prefix env st r (ck_received_at ck) PRE_EXEC = (Inl f, st')" "res = Inl f" "g' = g"
  | (failed) ig exc where "ingest_prefix env st r (ck_received_at ck) PRE_EXEC = (Inr ig, st')"
      "res = Inl (PyError exc)" "g' = snd (app g r)"
  | (decided) ig st1 v0 v where "ingest_prefix env st r (ck_received_at ck) PRE_EXEC = (Inr ig, st1)"
      "app g r = (Inr v0, g')"
      "finalize_verdict (se_prims env) (server_stamp r ck v0) (se_signing_key env) = Inr v"
      "res = Inr v" "st' = commit_decision env st1 r ig v (ck_received_at ck)"
proof -
  obtain pre st1 where p: "ingest_prefix env st r (ck_received_at ck) PRE_EXEC = (pre, st1)"
    by (cases "ingest_prefix env st r (ck_received_at ck) PRE_EXEC")
  obtain out g1 where a: "app g r = (out, g1)" by (cases "app g r")
  show ?thesis
  proof (cases pre)
    case (Inl f)
    with assms p show ?thesis by (intro rejected) (auto simp: decide_def)
  next
    case (Inr ig)
    show ?thesis
    proof (cases out)
      case (Inl exc)
      with assms p a Inr show ?thesis by (intro failed) (auto simp: decide_def)
    next
      case v0: (Inr v0)
      show ?thesis
      proof (cases "finalize_verdict (se_prims env) (server_stamp r ck v0) (se_signing_key env)")
        case (Inl exc)
        with assms p a Inr v0 show ?thesis by (intro failed) (auto simp: decide_def \<open>pre = Inr ig\<close>)
      next
        case v: (Inr v)
        show ?thesis
          by (rule decided[OF _ _ v]) (use assms p a Inr v0 v in \<open>auto simp: decide_def\<close>)
      qed
    qed
  qed
qed

section \<open>What a commit writes\<close>

lemma commit_decision_db:
  "st_db (commit_decision env st r ig v t) =
     (insert_operation (record_row (se_prims env) r ig t) (st_db st))
       \<lparr>d_governance_verdicts := dset (v_verdict_id v) (governance_verdict_row r v (verdict_key_of r v) t)
          (d_governance_verdicts (st_db st)),
        d_intervention_log := d_intervention_log (st_db st) @ [intervention_row r v t]\<rparr>"
  by (simp add: commit_decision_def Let_def insert_operation_def governance_verdict_row_def)

lemma commit_record_db:
  "st_db (commit_record env st r ig t) = insert_operation (record_row (se_prims env) r ig t) (st_db st)"
  by (simp add: commit_record_def insert_operation_def)

lemma ensure_groups_entries [simp]: "stream_entries (ensure_groups s c) s' = stream_entries c s'"
  by (simp add: ensure_groups_def CONSUMER_GROUPS_def)

lemma fan_channel2_entries: "stream_entries (fan_channel2 r ig vid c) s =
    stream_entries c s @ (if s = actions_stream r
      then [(show_nat (length (stream_entries c s) + 1) @ ''-0'', action_entry r ig vid)] else [])"
  by (simp add: fan_channel2_def stream_entries_xadd)

lemma fan_verdicts_entries: "stream_entries (fan_verdicts r v c) s =
    stream_entries c s @ (if s = verdicts_stream r
      then [(show_nat (length (stream_entries c s) + 1) @ ''-0'', verdict_entry r v)] else [])"
  by (simp add: fan_verdicts_def stream_entries_xadd)

lemma streams_differ: "actions_stream r \<noteq> verdicts_stream r'"
  by (simp add: actions_stream_def verdicts_stream_def ACTIONS_STREAM_PREFIX_def VERDICTS_STREAM_PREFIX_def)

lemma prefix_entries:
  assumes "ingest_prefix env st r t ph = (res, st')"
  shows "stream_entries (st_cache st') = stream_entries (st_cache st)"
proof -
  have e: "stream_entries c = stream_entries (st_cache st)"
    if "set_if_absent t k v n (st_cache st) = (c, b)" for c b k v n
    using stream_entries_other(3)[of t k v n "st_cache st"] that by (simp add: fun_eq_iff)
  from assms show ?thesis
    by (cases rule: ingest_prefix_cases) (auto simp: e)
qed

lemma prefix_db: "ingest_prefix env st r t ph = (res, st') \<Longrightarrow> st_db st' = st_db st"
  by (erule ingest_prefix_cases) auto

lemma finalize_verdict_fields:
  "finalize_verdict p v sk = Inr v' \<Longrightarrow> v' = v\<lparr>v_signature_by_shield := v_signature_by_shield v'\<rparr>"
  by (auto simp: finalize_verdict_def)

text \<open>
C12. The verdict the gate returns is governance's decision under the server's name: it carries the
decision, risk, reasons and obligations of the application's verdict and the identity of the
admitted record, it verifies under the server's public key, and it is stored, entered in the
verdict table and in the intervention log, and published last on the verdict stream.
\<close>

theorem decide_signs_the_decision:
  assumes "ed25519_ok (se_prims env)" and "get_public_key_base64url (se_prims env) (se_signing_key env) = Inr pk"
    and "decide env app ck (st, g) r = (Inr v, st', g')"
  shows "verify_verdict (se_prims env) v pk
    \<and> (\<exists>v0. app g r = (Inr v0, g') \<and> v_verdict_id v = v_verdict_id v0 \<and> v_decision v = v_decision v0
        \<and> v_risk_score v = v_risk_score v0 \<and> v_reasons v = v_reasons v0 \<and> v_obligations v = v_obligations v0)
    \<and> v_record_id v = Some (r_record_id r) \<and> v_correlation_id v = r_correlation_id r
    \<and> v_run_id v = Some (r_run_id r) \<and> v_shield_kid v = Some SHIELD_KID
    \<and> object_get (st_objects st') (verdict_key_of r v) = Some (VerdictEnvelope v)
    \<and> select_verdict (st_db st') (v_verdict_id v) (r_org_id r) =
        Some (governance_verdict_row r v (verdict_key_of r v) (ck_received_at ck))
    \<and> d_intervention_log (st_db st') = d_intervention_log (st_db st) @ [intervention_row r v (ck_received_at ck)]
    \<and> map snd (stream_entries (st_cache st') (verdicts_stream r)) =
        map snd (stream_entries (st_cache st) (verdicts_stream r)) @ [verdict_entry r v]"
  using assms(3)
proof (cases rule: decide_cases[consumes 1])
  case (decided ig st1 v0 v')
  have v': "v' = v" using decided(4) by simp
  have v: "v = (server_stamp r ck v0)\<lparr>v_signature_by_shield := v_signature_by_shield v\<rparr>"
    using finalize_verdict_fields[OF decided(3)] v' by simp
  have sig: "verify_verdict (se_prims env) v pk"
    using finalize_verdict_verify[OF assms(1,2)] decided(3) v' by blast
  note store = decided(5)[unfolded v']
  have db: "st_db st1 = st_db st" by (rule prefix_db[OF decided(1)])
  have str: "stream_entries (st_cache st') (verdicts_stream r) =
      stream_entries (st_cache st) (verdicts_stream r) @
        [(show_nat (length (stream_entries (st_cache st) (verdicts_stream r)) + 1) @ ''-0'', verdict_entry r v)]"
    using prefix_entries[OF decided(1)] streams_differ[of r r]
    by (simp add: store commit_decision_def Let_def fan_verdicts_entries fan_channel2_entries)
  have obj: "object_get (st_objects st') (verdict_key_of r v) = Some (VerdictEnvelope v)"
    by (simp add: store commit_decision_def Let_def store.get_put_same)
  have sel: "select_verdict (st_db st') (v_verdict_id v) (r_org_id r) =
        Some (governance_verdict_row r v (verdict_key_of r v) (ck_received_at ck))"
    by (simp add: store commit_decision_db select_verdict_def governance_verdict_row_def)
  have iv: "d_intervention_log (st_db st') = d_intervention_log (st_db st) @ [intervention_row r v (ck_received_at ck)]"
    by (simp add: store commit_decision_db db)
  have f: "v_verdict_id v = v_verdict_id v0 \<and> v_decision v = v_decision v0 \<and> v_risk_score v = v_risk_score v0
      \<and> v_reasons v = v_reasons v0 \<and> v_obligations v = v_obligations v0
      \<and> v_record_id v = Some (r_record_id r) \<and> v_correlation_id v = r_correlation_id r
      \<and> v_run_id v = Some (r_run_id r) \<and> v_shield_kid v = Some SHIELD_KID"
    by (subst (1 2 3 4 5 6 7 8 9) v) (simp add: server_stamp_def)
  show ?thesis using sig f decided(2) obj sel iv str by simp
qed simp_all

text \<open>
A record that the gate rejects changes no table, no object and no stream, and the governance
application is never asked about it.
\<close>

theorem decide_rejects_without_effect:
  assumes "decide env app ck (st, g) r = (Inl (AppError f), st', g')"
  shows "st_db st' = st_db st \<and> st_objects st' = st_objects st
    \<and> stream_entries (st_cache st') = stream_entries (st_cache st) \<and> g' = g
    \<and> (\<forall>app2. decide env app2 ck (st, g) r = (Inl (AppError f), st', g))"
  using assms
proof (cases rule: decide_cases[consumes 1])
  case (rejected f')
  have f: "f' = AppError f" using rejected(2) by simp
  have "st_objects st' = st_objects st"
    using rejected(1) unfolding f by (cases rule: ingest_prefix_cases) auto
  moreover have "\<forall>app2. decide env app2 ck (st, g) r = (Inl (AppError f), st', g)"
    using rejected(1) by (simp add: decide_def f)
  ultimately show ?thesis
    using prefix_db[OF rejected(1)] prefix_entries[OF rejected(1)] rejected(3) by simp
qed simp_all


text \<open>A signed record that the demo storage admits.\<close>

definition demo_env :: server_env where
  "demo_env = \<lparr>se_prims = demo_prims, se_signing_key = demo_key, se_payload_size = (\<lambda>_. 100)\<rparr>"

definition demo_clock :: clock where
  "demo_clock = \<lparr>ck_received_at = 2000, ck_served_at = 2001, ck_latency_ms = Fin 1\<rparr>"

definition signed_record :: "string \<Rightarrow> string \<Rightarrow> string \<Rightarrow> action_record" where
  "signed_record rid nonce prev =
     (let r = demo_record\<lparr>r_record_id := rid, r_nonce := nonce, r_prev_chain_hash := prev\<rparr> in
      case finalize_record demo_prims r demo_key of Inr r' \<Rightarrow> r' | Inl _ \<Rightarrow> r)"

lemma signed_record_fields:
  "\<exists>h sig. signed_record rid nonce prev = demo_record\<lparr>r_record_id := rid, r_nonce := nonce,
       r_prev_chain_hash := prev, r_payload_hash := h, r_signature := Some sig\<rparr> \<and> \<not> blank h \<and> \<not> blank sig
     \<and> verify_record demo_prims (signed_record rid nonce prev) demo_key"
proof -
  let ?r = "demo_record\<lparr>r_record_id := rid, r_nonce := nonce, r_prev_chain_hash := prev\<rparr>"
  let ?h = "compute_record_payload_hash demo_prims ?r"
  obtain r' where r': "finalize_record demo_prims ?r demo_key = Inr r'"
    using finalize_record_total[OF demo_key_public] by blast
  then obtain sig where sig: "sign_record demo_prims (?r\<lparr>r_payload_hash := ?h\<rparr>) demo_key = Inr sig"
    "r' = ?r\<lparr>r_payload_hash := ?h, r_signature := Some sig\<rparr>"
    by (auto simp: finalize_record_def Let_def)
  have b: "\<not> blank (base64url_encode (a # as))" for a as by (rule base64url_not_blank) simp
  have "\<not> blank sig"
    using sig(1) by (auto simp: sign_record_def sign_ed25519_def demo_prims_def split: if_splits
        intro!: notI dest!: base64url_not_blank[THEN notE, rotated])
  moreover have "\<not> blank ?h"
  proof -
    have "utf8 (jcs demo_repr (dump_payload True (r_payload ?r))) \<noteq> []"
      by (simp add: dump_payload_def utf8_def utf8_char_def)
    then show ?thesis
      using base64url_not_blank[of "utf8 (jcs demo_repr (dump_payload True (r_payload ?r)))"]
      by (simp add: compute_record_payload_hash_def compute_payload_hash_def sha256_base64url_def demo_prims_def)
  qed
  moreover have "verify_record demo_prims r' demo_key"
    using finalize_record_verify[OF ed25519_ok_demo demo_key_public r'] by simp
  moreover have "signed_record rid nonce prev = r'" by (simp add: signed_record_def r')
  ultimately show ?thesis using sig(2) by blast
qed

lemma signed_record_valid:
  assumes "\<not> blank rid" and "\<not> blank nonce" and "\<not> blank prev" and "length nonce \<le> 64"
  shows "validate_record demo_env (signed_record rid nonce prev) 2000 PRE_EXEC = None"
proof -
  obtain h sig where r: "signed_record rid nonce prev = demo_record\<lparr>r_record_id := rid, r_nonce := nonce,
       r_prev_chain_hash := prev, r_payload_hash := h, r_signature := Some sig\<rparr>" "\<not> blank h" "\<not> blank sig"
    using signed_record_fields by blast
  have s: "\<not> blank ''corr-1''" "\<not> blank ''demo-org''" "\<not> blank ''agentdojo-banking-v1''" "\<not> blank ''kid-1''"
    by (simp_all add: blank_def is_space_def)
  show ?thesis unfolding r(1) using assms r(2,3) s
    by (simp add: validate_record_def demo_record_def demo_env_def missing_field_def required_record_strings_def
        MAX_NONCE_LENGTH_def MIN_TTL_MS_def MAX_TTL_MS_def MAX_PAYLOAD_SIZE_def SHIELD_VERSION_def)
qed

lemma signed_record_sel:
  "r_agent_id (signed_record rid nonce prev) = ''agentdojo-banking-v1''"
  "r_org_id (signed_record rid nonce prev) = ''demo-org''"
  "r_agent_pubkey_kid (signed_record rid nonce prev) = ''kid-1''"
  "r_prev_chain_hash (signed_record rid nonce prev) = prev"
  "r_nonce (signed_record rid nonce prev) = nonce"
  "r_record_id (signed_record rid nonce prev) = rid"
  "r_issued_at (signed_record rid nonce prev) = 1000" "r_ttl_ms (signed_record rid nonce prev) = 30000"
  "r_workflow_id (signed_record rid nonce prev) = ''banking''"
  "r_phase (signed_record rid nonce prev) = PRE_EXEC"
  using signed_record_fields[of rid nonce prev] by (elim exE conjE, simp add: demo_record_def)+

lemma demo_admits:
  "admit_record demo_prims (st_db demo_storage) (signed_record rid nonce GENESIS_CHAIN_HASH) = Inr ()"
  using signed_record_fields[of rid nonce GENESIS_CHAIN_HASH]
  by (auto simp: admit_record_iff require_agent_key_iff signed_record_sel demo_storage_select expected_prev_def
      demo_agent_def demo_agent_key_def)

lemma GENESIS_not_blank: "\<not> blank GENESIS_CHAIN_HASH"
  by (simp add: blank_def is_space_def GENESIS_CHAIN_HASH_def)

lemma demo_prefix:
  assumes "\<not> blank rid" and "\<not> blank nonce" and "length nonce \<le> 64"
  shows "\<exists>ig st'. ingest_prefix demo_env demo_storage (signed_record rid nonce GENESIS_CHAIN_HASH) 2000 PRE_EXEC = (Inr ig, st')"
proof -
  let ?r = "signed_record rid nonce GENESIS_CHAIN_HASH"
  obtain res st' where s: "ingest_prefix demo_env demo_storage ?r 2000 PRE_EXEC = (res, st')"
    by (cases "ingest_prefix demo_env demo_storage ?r 2000 PRE_EXEC")
  then show ?thesis
  proof (cases rule: ingest_prefix_cases)
    case (rejected f)
    then show ?thesis
      using signed_record_valid[OF assms(1,2) GENESIS_not_blank assms(3)] demo_admits[of rid nonce]
      by (simp add: demo_env_def demo_storage_select)
  qed (use s in simp)
qed

lemma demo_decide:
  "\<exists>v st'. decide demo_env (null_app ''v-9'') demo_clock (demo_storage, ()) (signed_record ''rec-1'' ''n-1'' GENESIS_CHAIN_HASH)
     = (Inr v, st', ())"
proof -
  obtain ig st' where p: "ingest_prefix demo_env demo_storage (signed_record ''rec-1'' ''n-1'' GENESIS_CHAIN_HASH) 2000 PRE_EXEC = (Inr ig, st')"
    using demo_prefix[of "''rec-1''" "''n-1''"] by (auto simp: blank_def is_space_def)
  let ?r = "signed_record ''rec-1'' ''n-1'' GENESIS_CHAIN_HASH"
  obtain v0 where v0: "null_app ''v-9'' () ?r = (Inr v0, ())" by (simp add: null_app_def)
  obtain v' where "finalize_verdict demo_prims (server_stamp ?r demo_clock v0) demo_key = Inr v'"
    using finalize_verdict_total[OF demo_key_public] by blast
  with p v0 show ?thesis by (simp add: decide_def demo_clock_def demo_env_def)
qed

theorem decide_signs_the_decision_witness:
  "\<exists>v st'. decide demo_env (null_app ''v-9'') demo_clock (demo_storage, ()) (signed_record ''rec-1'' ''n-1'' GENESIS_CHAIN_HASH)
       = (Inr v, st', ()) \<and> verify_verdict demo_prims v demo_key \<and> v_record_id v = Some ''rec-1''"
proof -
  obtain v st' where d: "decide demo_env (null_app ''v-9'') demo_clock (demo_storage, ())
      (signed_record ''rec-1'' ''n-1'' GENESIS_CHAIN_HASH) = (Inr v, st', ())" using demo_decide by blast
  have e: "se_prims demo_env = demo_prims" "se_signing_key demo_env = demo_key" by (simp_all add: demo_env_def)
  show ?thesis
    using decide_signs_the_decision[OF _ _ d, of demo_key] ed25519_ok_demo demo_key_public d
    by (simp add: e signed_record_sel)
qed

theorem decide_rejects_without_effect_witness:
  "\<exists>f. decide demo_env (null_app ''v-9'') demo_clock (demo_storage, ()) (demo_record\<lparr>r_nonce := []\<rparr>)
       = (Inl (AppError f), demo_storage, ()) \<and> st_db demo_storage = st_db demo_storage"
proof -
  have d: "decide demo_env (null_app ''v-9'') demo_clock (demo_storage, ()) (demo_record\<lparr>r_nonce := []\<rparr>)
       = (Inl (AppError (app_error_of 400 VALIDATION_ERROR (Some ''Missing required field: nonce'') None)), demo_storage, ())"
    by (simp add: decide_def ingest_prefix_def demo_clock_def validate_record_def demo_record_def SHIELD_VERSION_def
        missing_field_def required_record_strings_def validation_error_def app_err_msg_def blank_def is_space_def)
  from decide_rejects_without_effect[OF d] d show ?thesis by auto
qed

end
