(* ===== verification/Agents.thy ===== *)
theory Agents
  imports Governance
begin

text \<open>
  The agent registry, \<open>packages/shield-server/src/shield_server/agents.py\<close>: registration,
  listing, reading, the change of integration type, freezing and unfreezing, revocation of a key,
  deletion.  The lemmas show what freezing an agent and revoking a key do to the two ingest paths.
\<close>

record register_key =
  rk_kid :: string
  rk_public_key :: string

record register_request =
  rq_agent_id :: string
  rq_display_name :: "string option"
  rq_responsible_entity :: "string option"
  rq_integration_type :: "string option"
  rq_keys :: "register_key list"

text \<open>\<open>x or d\<close> for an optional string\<close>

definition str_or :: "string option \<Rightarrow> string \<Rightarrow> string" where
  "str_or x d = (case x of None \<Rightarrow> d | Some s \<Rightarrow> if s = [] then d else s)"

definition new_agent :: "register_request \<Rightarrow> string \<Rightarrow> int \<Rightarrow> agent" where
  "new_agent rq org_id now =
     \<lparr>a_agent_id = rq_agent_id rq, a_org_id = org_id,
      a_display_name = str_or (rq_display_name rq) (rq_agent_id rq),
      a_responsible_entity = str_or (rq_responsible_entity rq) ''unspecified'',
      a_integration_type = str_or (rq_integration_type rq) ''sdk'',
      a_status = AGENT_ACTIVE, a_created_at = now, a_updated_at = now\<rparr>"

definition new_key :: "string \<Rightarrow> int \<Rightarrow> register_key \<Rightarrow> agent_key" where
  "new_key agent_id now k =
     \<lparr>k_kid = rk_kid k, k_agent_id = agent_id, k_public_key = rk_public_key k,
      k_status = KEY_ACTIVE, k_created_at = now, k_retired_at = None\<rparr>"

definition register_agent ::
  "storage \<Rightarrow> register_request \<Rightarrow> string \<Rightarrow> int \<Rightarrow> (failure + agent \<times> agent_key list) \<times> storage" where
  "register_agent st rq org_id now =
     (if rq_agent_id rq = [] then (Inl (validation_error ''Missing agent_id.''), st)
      else if select_agent (st_db st) (rq_agent_id rq) org_id \<noteq> None
        then (Inl (validation_error ''Agent already registered.''), st)
      else
        (let a = new_agent rq org_id now;
             keys = map (new_key (rq_agent_id rq) now) (rq_keys rq) in
         (Inr (a, keys),
          st\<lparr>st_db := fst (tx_commit (InsertAgent a # map InsertAgentKey keys) (st_db st))\<rparr>)))"

definition list_agents :: "storage \<Rightarrow> string \<Rightarrow> agent list" where
  "list_agents st org_id =
     sort_desc a_created_at (filter (\<lambda>a. a_org_id a = org_id) (dvalues (d_agents (st_db st))))"

definition require_agent :: "database \<Rightarrow> string \<Rightarrow> string \<Rightarrow> failure + agent" where
  "require_agent db agent_id org_id =
     (case select_agent db agent_id org_id of
        None \<Rightarrow> Inl (app_err 404 UNKNOWN_AGENT) | Some a \<Rightarrow> Inr a)"

definition get_agent :: "storage \<Rightarrow> string \<Rightarrow> string \<Rightarrow> failure + agent \<times> agent_key list" where
  "get_agent st agent_id org_id =
     rbind (require_agent (st_db st) agent_id org_id) (\<lambda>a.
       Inr (a, filter (\<lambda>k. k_agent_id k = agent_id) (dvalues (d_agent_keys (st_db st)))))"

text \<open>Run one statement after the agent was found; read the agent again afterwards.\<close>

definition update_agent ::
  "stmt \<Rightarrow> storage \<Rightarrow> string \<Rightarrow> string \<Rightarrow> (failure + agent) \<times> storage" where
  "update_agent q st agent_id org_id =
     (case require_agent (st_db st) agent_id org_id of
        Inl f \<Rightarrow> (Inl f, st)
      | Inr _ \<Rightarrow>
        (case db_execute q (st_db st) of
           Inl exc \<Rightarrow> (Inl (PyError exc), st)
         | Inr db \<Rightarrow> (require_agent db agent_id org_id, st\<lparr>st_db := db\<rparr>)))"

definition update_integration_type ::
  "storage \<Rightarrow> string \<Rightarrow> string \<Rightarrow> string \<Rightarrow> int \<Rightarrow> (failure + agent) \<times> storage" where
  "update_integration_type st agent_id integration_type org_id now =
     update_agent (UpdateIntegrationType integration_type now agent_id) st agent_id org_id"

definition set_agent_status ::
  "storage \<Rightarrow> string \<Rightarrow> agent_status \<Rightarrow> string \<Rightarrow> int \<Rightarrow> (failure + agent) \<times> storage" where
  "set_agent_status st agent_id status org_id now =
     update_agent (UpdateAgentStatus status now agent_id) st agent_id org_id"

definition revoke_key ::
  "storage \<Rightarrow> string \<Rightarrow> string \<Rightarrow> string \<Rightarrow> int \<Rightarrow> (failure + unit) \<times> storage" where
  "revoke_key st agent_id kid org_id now =
     (case require_agent (st_db st) agent_id org_id of
        Inl f \<Rightarrow> (Inl f, st)
      | Inr _ \<Rightarrow>
        (case select_agent_key (st_db st) kid agent_id of
           None \<Rightarrow> (Inl (app_err_msg 404 NOT_FOUND ''Signing key not found.''), st)
         | Some _ \<Rightarrow>
           (case db_execute (UpdateKeyStatus KEY_IS_REVOKED now kid) (st_db st) of
              Inl exc \<Rightarrow> (Inl (PyError exc), st)
            | Inr db \<Rightarrow> (Inr (), st\<lparr>st_db := db\<rparr>))))"

definition delete_agent :: "storage \<Rightarrow> string \<Rightarrow> string \<Rightarrow> (failure + unit) \<times> storage" where
  "delete_agent st agent_id org_id =
     (case require_agent (st_db st) agent_id org_id of
        Inl f \<Rightarrow> (Inl f, st)
      | Inr _ \<Rightarrow> (Inr (), st\<lparr>st_db := fst (tx_commit [DeleteAgentKeys agent_id, DeleteAgent agent_id] (st_db st))\<rparr>))"

text \<open>The routes that check a reason first (\<open>routes/__init__.py\<close>).\<close>

definition missing_reason :: "string \<Rightarrow> bool" where
  "missing_reason reason = blank reason"

definition freeze_route ::
  "storage \<Rightarrow> string \<Rightarrow> string \<Rightarrow> string \<Rightarrow> int \<Rightarrow> (failure + agent) \<times> storage" where
  "freeze_route st agent_id reason org_id now =
     (if missing_reason reason then (Inl (validation_error ''Missing reason.''), st)
      else set_agent_status st agent_id AGENT_IS_FROZEN org_id now)"

definition unfreeze_route ::
  "storage \<Rightarrow> string \<Rightarrow> string \<Rightarrow> string \<Rightarrow> int \<Rightarrow> (failure + agent) \<times> storage" where
  "unfreeze_route st agent_id reason org_id now =
     (if missing_reason reason then (Inl (validation_error ''Missing reason.''), st)
      else set_agent_status st agent_id AGENT_ACTIVE org_id now)"

definition revoke_route ::
  "storage \<Rightarrow> string \<Rightarrow> string \<Rightarrow> string \<Rightarrow> string \<Rightarrow> int \<Rightarrow> (failure + unit) \<times> storage" where
  "revoke_route st agent_id kid reason org_id now =
     (if kid = [] \<or> missing_reason reason then (Inl (validation_error ''Missing kid/reason.''), st)
      else revoke_key st agent_id kid org_id now)"

section \<open>Operations on the registry leave the chains alone\<close>

lemma select_agent_keyed:
  "select_agent db a org = Some row \<Longrightarrow> dget (d_agents db) a = Some row \<and> a_org_id row = org"
  by (auto simp: select_agent_def split: option.splits if_splits)

lemma commit_keys_db:
  "fst (tx_commit (map InsertAgentKey ks) db) =
     db\<lparr>d_agent_keys := fold (\<lambda>k t. dset (k_kid k) k t) ks (d_agent_keys db)\<rparr>"
  by (induction ks arbitrary: db) auto

lemma agents_keep_operations:
  "d_operations (st_db (snd (register_agent st rq org now))) = d_operations (st_db st)"
  "d_operations (st_db (snd (set_agent_status st a s org now))) = d_operations (st_db st)"
  "d_operations (st_db (snd (update_integration_type st a ty org now))) = d_operations (st_db st)"
  "d_operations (st_db (snd (revoke_key st a kid org now))) = d_operations (st_db st)"
  "d_operations (st_db (snd (delete_agent st a org))) = d_operations (st_db st)"
  by (auto simp: register_agent_def commit_keys_db Let_def set_agent_status_def update_integration_type_def
      update_agent_def revoke_key_def delete_agent_def update_row_def rbind_def split: sum.split option.splits)

text \<open>Freezing takes effect on both ingest paths, and so does revoking a key.\<close>

lemma frozen_require:
  assumes "set_agent_status st a AGENT_IS_FROZEN org now = (Inr row, st')"
  shows "require_agent_key (st_db st') a org kid = Inl (app_err 403 AGENT_FROZEN)"
  using assms
  by (auto simp: set_agent_status_def update_agent_def require_agent_def require_agent_key_def update_row_def
      rbind_def select_agent_def split: sum.splits option.splits if_splits)

lemma revoked_require:
  assumes "revoke_key st a kid org now = (Inr (), st')"
  shows "\<not> (\<exists>k. require_agent_key (st_db st') a org kid = Inr k)"
proof -
  from assms obtain row where row: "select_agent_key (st_db st) kid a = Some row"
    and ex: "(case db_execute (UpdateKeyStatus KEY_IS_REVOKED now kid) (st_db st) of
        Inl exc \<Rightarrow> (Inl (PyError exc), st) | Inr db \<Rightarrow> (Inr (), st\<lparr>st_db := db\<rparr>)) = (Inr (), st')"
    by (simp only: revoke_key_def split: sum.splits option.splits) simp_all
  have "dget (d_agent_keys (st_db st)) kid = Some row"
    using row by (simp add: select_agent_key_def split: option.splits if_splits)
  with ex have "select_agent_key (st_db st') kid a \<noteq> Some k" if "k_status k = KEY_ACTIVE" for k
    using that by (auto simp: update_row_def select_agent_key_def split: if_splits)
  then show ?thesis by (auto simp: require_agent_key_iff)
qed

text \<open>
C13. Freezing an agent stops it at once: no operation record and no action record of the agent is
accepted in the state it leaves, whatever key signs it; revoking a key does the same for the
records that name the key.
\<close>

theorem freeze_and_revoke_take_effect:
  assumes "set_agent_status st a AGENT_IS_FROZEN org now = (Inr row, st1)"
    and "revoke_key st a kid org now = (Inr (), st2)"
    and "e_agent_id e = a" and "e_org_id e = org" and "r_agent_id r = a" and "r_org_id r = org"
    and "e_agent_pubkey_kid e = kid" and "r_agent_pubkey_kid r = kid"
  shows "(\<nexists>x s. submit_operation p st1 e sk t rid = (Inr x, s)) \<and> (\<nexists>x s. ingest_prefix env st1 r t ph = (Inr x, s))
    \<and> (\<nexists>x s. submit_operation p st2 e sk t rid = (Inr x, s)) \<and> (\<nexists>x s. ingest_prefix env st2 r t ph = (Inr x, s))"
proof -
  have closed: "(\<nexists>x s'. submit_operation p s e sk t rid = (Inr x, s')) \<and> (\<nexists>x s'. ingest_prefix env s r t ph = (Inr x, s'))"
    if no: "\<not> (\<exists>k. require_agent_key (st_db s) a org kid = Inr k)" for s
  proof (intro conjI notI; elim exE)
    fix x s' assume "submit_operation p s e sk t rid = (Inr x, s')"
    then show False
      by (cases rule: submit_cases) (use no assms in \<open>auto simp: admit_operation_iff\<close>)
  next
    fix x s' assume "ingest_prefix env s r t ph = (Inr x, s')"
    then show False
      by (cases rule: ingest_prefix_cases) (use no assms in \<open>auto simp: admit_record_iff\<close>)
  qed
  have 1: "\<not> (\<exists>k. require_agent_key (st_db st1) a org kid = Inr k)"
    using frozen_require[OF assms(1)] by simp
  have 2: "\<not> (\<exists>k. require_agent_key (st_db st2) a org kid = Inr k)"
    by (rule revoked_require[OF assms(2)])
  show ?thesis using closed[OF 1] closed[OF 2] by blast
qed

theorem freeze_and_revoke_take_effect_witness:
  "\<exists>row st1 st2. set_agent_status demo_storage ''agentdojo-banking-v1'' AGENT_IS_FROZEN ''demo-org'' 5 = (Inr row, st1)
    \<and> revoke_key demo_storage ''agentdojo-banking-v1'' ''kid-1'' ''demo-org'' 5 = (Inr (), st2)
    \<and> (\<nexists>x s. submit_operation demo_prims st1 demo_eor demo_key 2000 ''r-1'' = (Inr x, s))
    \<and> (\<nexists>x s. ingest_prefix demo_env st2 (signed_record ''rec-1'' ''n-1'' GENESIS_CHAIN_HASH) 2000 PRE_EXEC = (Inr x, s))"
proof -
  have g: "dget (d_agents (st_db demo_storage)) ''agentdojo-banking-v1'' = Some demo_agent"
    "dget (d_agent_keys (st_db demo_storage)) ''kid-1'' = Some demo_agent_key"
    by (simp_all add: demo_storage_def empty_storage_def)
  obtain row st1 where f: "set_agent_status demo_storage ''agentdojo-banking-v1'' AGENT_IS_FROZEN ''demo-org'' 5 = (Inr row, st1)"
    using g by (auto simp: set_agent_status_def update_agent_def require_agent_def update_row_def
        demo_storage_select select_agent_def demo_agent_def)
  obtain st2 where r: "revoke_key demo_storage ''agentdojo-banking-v1'' ''kid-1'' ''demo-org'' 5 = (Inr (), st2)"
    using g by (auto simp: revoke_key_def require_agent_def update_row_def demo_storage_select)
  show ?thesis
    using freeze_and_revoke_take_effect[OF f r, where e = demo_eor and p = demo_prims and sk = demo_key
        and t = 2000 and rid = "''r-1''" and env = demo_env and ph = PRE_EXEC
        and r = "signed_record ''rec-1'' ''n-1'' GENESIS_CHAIN_HASH"] f r
    by (simp add: demo_eor_fields signed_record_sel)
qed

end
