(* ===== verification/Merkle.thy ===== *)
theory Merkle
  imports Agents "HOL-Library.Multiset"
begin

text \<open>
  Merkle roots and epochs: \<open>merkle.py\<close> and \<open>epoch_scheduler.py\<close> of the server.  The level loop
  of \<open>merkle_root\<close> is a recursion whose level shrinks; an epoch is computed from the operation
  rows of an organisation, signed and stored at most once.

  The facts: the root and the epoch do not depend on the order of the rows; with the number of
  leaves, the root commits to the leaves (without it, it does not: the last leaf of an odd level is
  doubled); a second run of the scheduler finds the epoch of the first.
\<close>

section \<open>Merkle root\<close>

fun hash_pairs :: "(bytes \<Rightarrow> bytes) \<Rightarrow> bytes list \<Rightarrow> bytes list" where
  "hash_pairs sha (a # b # r) = sha (a @ b) # hash_pairs sha r"
| "hash_pairs sha _ = []"

definition even_level :: "bytes list \<Rightarrow> bytes list" where
  "even_level l = (if odd (length l) then l @ [last l] else l)"

lemma length_hash_pairs: "length (hash_pairs sha l) = length l div 2"
  by (induction sha l rule: hash_pairs.induct) simp_all

lemma even_level_length: "length (even_level l) = 2 * ((length l + 1) div 2)"
  by (auto simp: even_level_def elim!: oddE evenE)

function merkle_levels :: "(bytes \<Rightarrow> bytes) \<Rightarrow> bytes list \<Rightarrow> bytes list" where
  "merkle_levels sha l =
     (if length l > 1 then merkle_levels sha (hash_pairs sha (even_level l)) else l)"
  by auto
termination
  by (relation "measure (\<lambda>(sha, l). length l)") (auto simp: length_hash_pairs even_level_length)

declare merkle_levels.simps [simp del]

definition merkle_root :: "(bytes \<Rightarrow> bytes) \<Rightarrow> bytes list \<Rightarrow> bytes" where
  "merkle_root sha leaves = (if leaves = [] then sha [] else hd (merkle_levels sha (sort leaves)))"

section \<open>Epochs\<close>

definition HASH_ALG :: string where "HASH_ALG = ''sha256-binary-merkle-v1''"

definition leaf_bytes :: "string \<Rightarrow> bytes" where
  "leaf_bytes chain_hash = (case base64url_decode chain_hash of Inl _ \<Rightarrow> utf8 chain_hash | Inr b \<Rightarrow> b)"

definition epoch_id :: "prims \<Rightarrow> string \<Rightarrow> int \<Rightarrow> int \<Rightarrow> string \<Rightarrow> int \<Rightarrow> string" where
  "epoch_id p org_id start end_time root_hash leaf_count =
     ''epoch_'' @ sha256_base64url p
       (org_id @ ''|'' @ show_int start @ ''|'' @ show_int end_time @ ''|'' @ root_hash @ ''|'' @ show_int leaf_count)"

definition row_key :: "operation \<Rightarrow> int \<times> string" where
  "row_key x = (o_created_at x, o_operation_id x)"

definition epoch_of_rows :: "prims \<Rightarrow> string \<Rightarrow> operation list \<Rightarrow> epoch" where
  "epoch_of_rows p org_id scoped =
     (let start = o_created_at (hd scoped);
          end_time = o_created_at (last scoped);
          leaves = map (leaf_bytes \<circ> o_chain_hash) scoped;
          root_hash = base64url_encode (merkle_root (sha256 p) leaves);
          leaf_count = int (length leaves);
          eid = epoch_id p org_id start end_time root_hash leaf_count in
      \<lparr>ep_epoch_id = eid, ep_org_id = org_id, ep_start_time = start, ep_end_time = end_time,
       ep_root_hash = root_hash, ep_leaf_count = leaf_count,
       ep_r2_epoch_key = org_id @ ''/epochs/'' @ eid @ ''.json'', ep_created_at = end_time\<rparr>)"

definition epoch_from_operation_rows :: "prims \<Rightarrow> string \<Rightarrow> operation list \<Rightarrow> epoch option" where
  "epoch_from_operation_rows p org_id rows =
     (let scoped = filter (\<lambda>x. o_org_id x = org_id) rows in
      if scoped = [] then None else Some (epoch_of_rows p org_id (sort_key row_key scoped)))"

text \<open>\<open>json.dumps(body, sort_keys=True, separators=(',', ':'))\<close>: ASCII output, sorted keys.\<close>

definition eer_signable :: "eer \<Rightarrow> bytes" where
  "eer_signable r = utf8 (''{'' @ join '',''
     [ascii_quote ''end_time'' @ '':'' @ show_int (eer_end_time r),
      ascii_quote ''epoch_id'' @ '':'' @ ascii_quote (eer_epoch_id r),
      ascii_quote ''hash_alg'' @ '':'' @ ascii_quote (eer_hash_alg r),
      ascii_quote ''leaf_count'' @ '':'' @ show_int (eer_leaf_count r),
      ascii_quote ''org_id'' @ '':'' @ ascii_quote (eer_org_id r),
      ascii_quote ''root_hash'' @ '':'' @ ascii_quote (eer_root_hash r),
      ascii_quote ''start_time'' @ '':'' @ show_int (eer_start_time r)] @ ''}'')"

definition unsigned_eer :: "epoch \<Rightarrow> eer" where
  "unsigned_eer ep =
     \<lparr>eer_epoch_id = ep_epoch_id ep, eer_org_id = ep_org_id ep, eer_start_time = ep_start_time ep,
      eer_end_time = ep_end_time ep, eer_leaf_count = ep_leaf_count ep, eer_root_hash = ep_root_hash ep,
      eer_hash_alg = HASH_ALG, eer_signature_by_elydora = []\<rparr>"

definition sign_eer :: "prims \<Rightarrow> epoch \<Rightarrow> string \<Rightarrow> py_exc + eer" where
  "sign_eer p ep signing_key =
     rbind (sign_ed25519 p signing_key (eer_signable (unsigned_eer ep))) (\<lambda>sig.
       Inr ((unsigned_eer ep)\<lparr>eer_signature_by_elydora := sig\<rparr>))"

section \<open>The scheduler\<close>

datatype scheduler_status = EPOCH_CREATED | EPOCH_ALREADY_PERSISTED | EPOCH_SKIPPED_EMPTY

record scheduler_result =
  sr_status :: scheduler_status
  sr_org_id :: string
  sr_epoch :: "epoch option"
  sr_eer :: "eer option"
  sr_reason :: "string option"

definition persisted_epoch :: "database \<Rightarrow> string \<Rightarrow> string \<Rightarrow> epoch option" where
  "persisted_epoch db org_id eid =
     find (\<lambda>ep. ep_epoch_id ep = eid) (filter (\<lambda>ep. ep_org_id ep = org_id) (dvalues (d_epochs db)))"

definition eer_of_stored :: "stored \<Rightarrow> eer option" where
  "eer_of_stored x = (case x of EpochArtifact _ r \<Rightarrow> Some r | _ \<Rightarrow> None)"

definition persisted_eer :: "objects \<Rightarrow> epoch \<Rightarrow> eer option" where
  "persisted_eer os ep =
     (case object_get os (ep_r2_epoch_key ep) of
        None \<Rightarrow> None
      | Some raw \<Rightarrow>
        (case eer_of_stored raw of
           None \<Rightarrow> None
         | Some r \<Rightarrow>
             if eer_epoch_id r \<noteq> ep_epoch_id ep \<or> eer_org_id r \<noteq> ep_org_id ep then None else Some r))"

definition run_epoch_once ::
  "prims \<Rightarrow> storage \<Rightarrow> string \<Rightarrow> string \<Rightarrow> (py_exc + scheduler_result) \<times> storage" where
  "run_epoch_once p st org_id signing_key =
     (case epoch_from_operation_rows p org_id (dvalues (d_operations (st_db st))) of
        None \<Rightarrow> (Inr \<lparr>sr_status = EPOCH_SKIPPED_EMPTY, sr_org_id = org_id, sr_epoch = None, sr_eer = None,
                     sr_reason = Some ''no_operations''\<rparr>, st)
      | Some ep \<Rightarrow>
        (case persisted_epoch (st_db st) org_id (ep_epoch_id ep) of
           Some old \<Rightarrow>
             (Inr \<lparr>sr_status = EPOCH_ALREADY_PERSISTED, sr_org_id = org_id, sr_epoch = Some old,
                   sr_eer = persisted_eer (st_objects st) old, sr_reason = Some ''epoch_id_exists''\<rparr>, st)
         | None \<Rightarrow>
           (case sign_eer p ep signing_key of
              Inl exc \<Rightarrow> (Inl exc, st)
            | Inr r \<Rightarrow>
              (Inr \<lparr>sr_status = EPOCH_CREATED, sr_org_id = org_id, sr_epoch = Some ep, sr_eer = Some r,
                    sr_reason = None\<rparr>,
               st\<lparr>st_objects := object_put (ep_r2_epoch_key ep) (EpochArtifact ep r) (st_objects st),
                  st_db := fst (tx_commit [InsertEpoch ep] (st_db st))\<rparr>))))"

text \<open>
  The loop of \<open>run_epoch_interval\<close>, with its counter and its bound: \<open>between runs\<close> is what happens
  to the storage while the scheduler sleeps after its run number \<open>runs\<close>.  Without \<open>max_runs\<close> the
  loop has no way out but an exception; not returning is the value \<open>None\<close>.
\<close>

partial_function (option) epoch_loop ::
  "prims \<Rightarrow> (int \<Rightarrow> storage \<Rightarrow> storage) \<Rightarrow> string \<Rightarrow> string \<Rightarrow> int option \<Rightarrow> int \<Rightarrow> scheduler_result list
   \<Rightarrow> storage \<Rightarrow> ((py_exc + scheduler_result list) \<times> storage) option" where
  "epoch_loop p between org_id signing_key max_runs runs results st =
     (if max_runs = None \<or> runs < the max_runs then
        (case run_epoch_once p st org_id signing_key of
           (Inl exc, st1) \<Rightarrow> Some (Inl exc, st1)
         | (Inr r, st1) \<Rightarrow>
             if max_runs \<noteq> None \<and> the max_runs \<le> runs + 1 then Some (Inr (results @ [r]), st1)
             else epoch_loop p between org_id signing_key max_runs (runs + 1) (results @ [r]) (between (runs + 1) st1))
      else Some (Inr results, st))"

definition run_epoch_interval ::
  "prims \<Rightarrow> (int \<Rightarrow> storage \<Rightarrow> storage) \<Rightarrow> storage \<Rightarrow> string \<Rightarrow> string \<Rightarrow> pyfloat \<Rightarrow> int option
   \<Rightarrow> ((py_exc + scheduler_result list) \<times> storage) option" where
  "run_epoch_interval p between st org_id signing_key interval_seconds max_runs =
     (if fle interval_seconds (Fin 0) then Some (Inl ValueError, st)
      else if max_runs \<noteq> None \<and> the max_runs \<le> 0 then Some (Inl ValueError, st)
      else epoch_loop p between org_id signing_key max_runs 0 [] st)"

section \<open>Independence of the order of the rows\<close>

lemma map_sort_key: "map f (sort_key f xs) = sort (map f xs)"
  by (rule properties_for_sort[symmetric]) simp_all

lemma sort_cong_mset: "mset xs = mset ys \<Longrightarrow> sort xs = sort (ys :: 'a::linorder list)"
  by (metis mset_sort properties_for_sort sorted_sort)

lemma merkle_root_mset: "mset xs = mset ys \<Longrightarrow> merkle_root sha xs = merkle_root sha ys"
  using sort_cong_mset[of xs ys] by (auto simp: merkle_root_def)

lemma scoped_cong:
  assumes "mset xs = mset ys"
  shows "epoch_of_rows p org (sort_key row_key xs) = epoch_of_rows p org (sort_key row_key ys)"
proof (cases "xs = []")
  case True
  with assms have "ys = []" by simp
  with True show ?thesis by simp
next
  case False
  with assms have ne: "sort_key row_key xs \<noteq> []" "sort_key row_key ys \<noteq> []"
    by (metis mset_sort mset_zero_iff_right)+
  have keys: "map row_key (sort_key row_key xs) = map row_key (sort_key row_key ys)"
    unfolding map_sort_key by (rule sort_cong_mset) (simp add: assms)
  have created: "o_created_at z = fst (row_key z)" for z by (simp add: row_key_def)
  have "row_key (hd (sort_key row_key xs)) = row_key (hd (sort_key row_key ys))"
    using arg_cong[OF keys, of hd] by (simp add: hd_map ne)
  then have hds: "o_created_at (hd (sort_key row_key xs)) = o_created_at (hd (sort_key row_key ys))"
    by (simp add: created)
  have "row_key (last (sort_key row_key xs)) = row_key (last (sort_key row_key ys))"
    using arg_cong[OF keys, of last] by (simp add: last_map ne)
  then have lasts: "o_created_at (last (sort_key row_key xs)) = o_created_at (last (sort_key row_key ys))"
    by (simp add: created)
  have "merkle_root (sha256 p) (map (leaf_bytes \<circ> o_chain_hash) (sort_key row_key xs))
      = merkle_root (sha256 p) (map (leaf_bytes \<circ> o_chain_hash) (sort_key row_key ys))"
    by (rule merkle_root_mset) (simp add: assms)
  moreover have "length xs = length ys" using assms by (rule mset_eq_length)
  ultimately show ?thesis by (simp add: epoch_of_rows_def hds lasts)
qed

text \<open>
The epoch of an organisation depends on the multiset of the operation rows only, not on the
order in which the database returns them.
\<close>

theorem epoch_ignores_row_order:
  assumes "mset rows = mset rows'"
  shows "epoch_from_operation_rows p org rows = epoch_from_operation_rows p org rows'"
proof -
  have m: "mset (filter (\<lambda>x. o_org_id x = org) rows) = mset (filter (\<lambda>x. o_org_id x = org) rows')"
    by (simp add: mset_filter assms)
  then have "length (filter (\<lambda>x. o_org_id x = org) rows) = length (filter (\<lambda>x. o_org_id x = org) rows')"
    by (rule mset_eq_length)
  then have "filter (\<lambda>x. o_org_id x = org) rows = [] \<longleftrightarrow> filter (\<lambda>x. o_org_id x = org) rows' = []"
    by (metis length_0_conv)
  then show ?thesis
    using scoped_cong[OF m] by (simp add: epoch_from_operation_rows_def Let_def)
qed

section \<open>Commitment\<close>

text \<open>The inputs of the hash function along the levels.\<close>

fun pairs_of :: "bytes list \<Rightarrow> bytes list" where
  "pairs_of (a # b # r) = (a @ b) # pairs_of r"
| "pairs_of _ = []"

function hashed :: "(bytes \<Rightarrow> bytes) \<Rightarrow> bytes list \<Rightarrow> bytes set" where
  "hashed sha l = (if length l > 1
     then set (pairs_of (even_level l)) \<union> hashed sha (hash_pairs sha (even_level l)) else {})"
  by auto
termination
  by (relation "measure (\<lambda>(sha, l). length l)") (auto simp: length_hash_pairs even_level_length)

declare hashed.simps [simp del]

lemma hash_pairs_map: "hash_pairs sha l = map sha (pairs_of l)"
  by (induction l rule: pairs_of.induct) simp_all

lemma pairs_of_inj:
  assumes "pairs_of l = pairs_of m" and "length l = length m" and "even (length l)"
    and "\<forall>x \<in> set l \<union> set m. length x = n"
  shows "l = m"
  using assms
proof (induction l arbitrary: m rule: pairs_of.induct)
  case (1 a b r)
  then obtain c d s where m: "m = c # d # s" by (cases m rule: pairs_of.cases) auto
  with 1 show ?case by auto
qed auto

lemma even_level_inj:
  assumes "even_level l = even_level m" and "length l = length m"
  shows "l = m"
  using assms by (auto simp: even_level_def split: if_splits)

lemma set_even_level: "set (even_level l) = set l"
  by (cases "l = []") (auto simp: even_level_def)

lemma even_even_level: "even (length (even_level l))"
  by (simp add: even_level_length)

lemma merkle_levels_inj:
  assumes "merkle_levels sha l = merkle_levels sha m" and "length l = length m"
    and "\<forall>x. length (sha x) = d" and "\<forall>x \<in> set l \<union> set m. length x = n"
    and "inj_on sha (hashed sha l \<union> hashed sha m)"
  shows "l = m"
  using assms
proof (induction sha l arbitrary: m n rule: merkle_levels.induct)
  case (1 sha l)
  show ?case
  proof (cases "length l > 1")
    case False
    with 1(3) have m: "\<not> length m > 1" by simp
    show ?thesis using 1(2) unfolding merkle_levels.simps[of sha l] merkle_levels.simps[of sha m]
      using False m by simp
  next
    case True
    with 1(3) have m: "length m > 1" by simp
    let ?l = "hash_pairs sha (even_level l)" and ?m = "hash_pairs sha (even_level m)"
    have h: "hashed sha l = set (pairs_of (even_level l)) \<union> hashed sha ?l"
      "hashed sha m = set (pairs_of (even_level m)) \<union> hashed sha ?m"
      using True m by (subst hashed.simps, simp)+
    have "?l = ?m"
    proof (rule 1(1)[OF True, of ?m d])
      show "merkle_levels sha ?l = merkle_levels sha ?m"
        using 1(2) True m by (simp add: merkle_levels.simps[of sha l] merkle_levels.simps[of sha m])
      show "length ?l = length ?m" using 1(3) by (simp add: length_hash_pairs even_level_length)
      show "\<forall>x. length (sha x) = d" by (rule 1(4))
      show "\<forall>x \<in> set ?l \<union> set ?m. length x = d" using 1(4) by (auto simp: hash_pairs_map)
      show "inj_on sha (hashed sha ?l \<union> hashed sha ?m)"
        using 1(6) unfolding h by (rule inj_on_subset) auto
    qed
    moreover have "inj_on sha (set (pairs_of (even_level l)) \<union> set (pairs_of (even_level m)))"
      using 1(6) unfolding h by (rule inj_on_subset) auto
    ultimately have "pairs_of (even_level l) = pairs_of (even_level m)"
      by (simp add: hash_pairs_map inj_on_map_eq_map)
    then have "even_level l = even_level m"
      by (rule pairs_of_inj[where n = n]) (use 1(3,5) in \<open>simp_all add: even_level_length set_even_level\<close>)
    then show ?thesis using 1(3) by (rule even_level_inj)
  qed
qed

lemma merkle_levels_length: "l \<noteq> [] \<Longrightarrow> length (merkle_levels sha l) = 1"
proof (induction sha l rule: merkle_levels.induct)
  case (1 sha l)
  show ?case
  proof (cases "length l > 1")
    case True
    then have "length (hash_pairs sha (even_level l)) \<noteq> 0"
      by (simp add: length_hash_pairs even_level_length)
    then have "hash_pairs sha (even_level l) \<noteq> []" by auto
    with 1 True show ?thesis by (simp add: merkle_levels.simps[of sha l])
  next
    case False
    with 1(2) show ?thesis by (cases l) (simp_all add: merkle_levels.simps)
  qed
qed

lemma merkle_root_commits:
  assumes "merkle_root sha l = merkle_root sha m" and "length l = length m"
    and "\<forall>x. length (sha x) = d" and "\<forall>x \<in> set l \<union> set m. length x = n"
    and "inj_on sha (hashed sha (sort l) \<union> hashed sha (sort m))"
  shows "mset l = mset m"
proof (cases "l = []")
  case True
  with assms(2) show ?thesis by simp
next
  case False
  with assms(2) have ne: "l \<noteq> []" "m \<noteq> []" by auto
  have one: "merkle_levels sha k = [hd (merkle_levels sha k)]" if "k \<noteq> []" for k
    using merkle_levels_length[OF that, of sha] by (cases "merkle_levels sha k") auto
  have "sort l \<noteq> []" "sort m \<noteq> []" using ne by (metis mset_sort mset_zero_iff_right)+
  then have "merkle_levels sha (sort l) = merkle_levels sha (sort m)"
    using assms(1) ne one[of "sort l"] one[of "sort m"] by (simp add: merkle_root_def)
  then have "sort l = sort m"
    by (rule merkle_levels_inj[where n = n and d = d]) (use assms in simp_all)
  then show ?thesis by (metis mset_sort)
qed


text \<open>The hashes of a chain decode to the digests they encode.\<close>

lemma leaf_bytes_digest [simp]: "leaf_bytes (sha256_base64url p s) = sha256 p (utf8 s)"
  by (simp add: leaf_bytes_def sha256_base64url_def base64url_roundtrip)

abbreviation leaves_of :: "string \<Rightarrow> operation list \<Rightarrow> bytes list" where
  "leaves_of org rows \<equiv> map (leaf_bytes \<circ> o_chain_hash) (filter (\<lambda>x. o_org_id x = org) rows)"

lemma epoch_fields:
  assumes "epoch_from_operation_rows p org rows = Some ep"
  shows "ep_root_hash ep = base64url_encode (merkle_root (sha256 p) (leaves_of org rows))"
    and "ep_leaf_count ep = int (length (leaves_of org rows))"
proof -
  let ?s = "filter (\<lambda>x. o_org_id x = org) rows"
  have "ep = epoch_of_rows p org (sort_key row_key ?s)"
    using assms by (auto simp: epoch_from_operation_rows_def Let_def split: if_splits)
  moreover have "merkle_root (sha256 p) (map (leaf_bytes \<circ> o_chain_hash) (sort_key row_key ?s))
      = merkle_root (sha256 p) (map (leaf_bytes \<circ> o_chain_hash) ?s)"
    by (rule merkle_root_mset) simp
  ultimately show "ep_root_hash ep = base64url_encode (merkle_root (sha256 p) (leaves_of org rows))"
    "ep_leaf_count ep = int (length (leaves_of org rows))"
    by (simp_all add: epoch_of_rows_def Let_def)
qed

lemma digests_from_leaves:
  assumes "mset (map leaf_bytes hs) = mset (map leaf_bytes hs')"
    and "\<forall>h \<in> set hs \<union> set hs'. \<exists>s. h = sha256_base64url p s"
  shows "mset hs = mset hs'"
proof -
  have enc: "base64url_encode (leaf_bytes h) = h" if m: "h \<in> set hs \<union> set hs'" for h
    proof -
    obtain s where "h = sha256_base64url p s" using bspec[OF assms(2) m] by (elim exE)
    then show ?thesis by (simp add: sha256_base64url_def leaf_bytes_def base64url_roundtrip)
  qed
  have "map (base64url_encode \<circ> leaf_bytes) hs = hs" "map (base64url_encode \<circ> leaf_bytes) hs' = hs'"
    by (rule map_idI, simp add: enc)+
  with arg_cong[OF assms(1), of "image_mset base64url_encode"] show ?thesis
    by (metis list.map_comp mset_map)
qed

text \<open>
C14. Two epochs of an organisation with one root and one leaf count are built from operations with
the same chain hashes, each as often, unless SHA-256 collides on what the two trees hash.
\<close>

theorem epoch_commits_to_operations:
  assumes "epoch_from_operation_rows p org rows = Some ep" and "epoch_from_operation_rows p org rows' = Some ep'"
    and "ep_root_hash ep = ep_root_hash ep'" and "ep_leaf_count ep = ep_leaf_count ep'"
    and "\<forall>x. length (sha256 p x) = 32"
    and "\<forall>x \<in> set rows \<union> set rows'. \<exists>s. o_chain_hash x = sha256_base64url p s"
    and "inj_on (sha256 p) (hashed (sha256 p) (sort (leaves_of org rows)) \<union> hashed (sha256 p) (sort (leaves_of org rows')))"
  shows "mset (map o_chain_hash (filter (\<lambda>x. o_org_id x = org) rows))
    = mset (map o_chain_hash (filter (\<lambda>x. o_org_id x = org) rows'))"
proof (rule digests_from_leaves[where p = p])
  note f = epoch_fields[OF assms(1)] and f' = epoch_fields[OF assms(2)]
  have len: "length (leaf_bytes (o_chain_hash x)) = 32" if m: "x \<in> set rows \<union> set rows'" for x
  proof -
    obtain s where "o_chain_hash x = sha256_base64url p s" using bspec[OF assms(6) m] by (elim exE)
    then show ?thesis using assms(5) by simp
  qed
  have "mset (leaves_of org rows) = mset (leaves_of org rows')"
  proof (rule merkle_root_commits[where d = 32 and n = 32 and sha = "sha256 p"])
    show "merkle_root (sha256 p) (leaves_of org rows) = merkle_root (sha256 p) (leaves_of org rows')"
      using assms(3) by (simp add: f f' base64url_encode_inject)
    show "length (leaves_of org rows) = length (leaves_of org rows')"
      using assms(4) by (simp add: f f')
    show "\<forall>x \<in> set (leaves_of org rows) \<union> set (leaves_of org rows'). length x = 32"
      using len by auto
  qed (use assms in simp_all)
  then show "mset (map leaf_bytes (map o_chain_hash (filter (\<lambda>x. o_org_id x = org) rows)))
      = mset (map leaf_bytes (map o_chain_hash (filter (\<lambda>x. o_org_id x = org) rows')))"
    by simp
qed (use assms(6) in auto)

text \<open>The count is needed: the last leaf of an odd level is doubled.\<close>

lemma root_alone_does_not_commit:
  "merkle_root sha [[1], [2], [3]] = merkle_root sha [[1], [2], [3], [3]]"
  by (simp add: merkle_root_def merkle_levels.simps[of sha "_ # _"] even_level_def)

section \<open>The scheduler persists an epoch once\<close>

lemma eer_signable_signature [simp]: "eer_signable (r\<lparr>eer_signature_by_elydora := s\<rparr>) = eer_signable r"
  by (simp add: eer_signable_def)

lemma epoch_org: "epoch_from_operation_rows p org rows = Some ep \<Longrightarrow> ep_org_id ep = org"
  by (auto simp: epoch_from_operation_rows_def epoch_of_rows_def Let_def split: if_splits)

lemma find_filter: "find P (filter Q xs) = find (\<lambda>x. Q x \<and> P x) xs"
  by (induction xs) auto

lemma find_dset: "find P (dvalues d) = None \<Longrightarrow> P v \<Longrightarrow> find P (dvalues (dset k v d)) = Some v"
  by (induction d) (auto simp: dvalues_def split: if_splits)

lemma persisted_epoch_insert:
  assumes "persisted_epoch db (ep_org_id ep) (ep_epoch_id ep) = None"
  shows "persisted_epoch (db\<lparr>d_epochs := dset (ep_epoch_id ep) ep (d_epochs db)\<rparr>) (ep_org_id ep) (ep_epoch_id ep) = Some ep"
  using assms
  by (simp add: persisted_epoch_def find_filter) (rule find_dset, simp_all)

lemma created_cases:
  assumes "run_epoch_once p st org sk = (Inr r, st')" and "sr_status r = EPOCH_CREATED"
  obtains ep s where "epoch_from_operation_rows p org (dvalues (d_operations (st_db st))) = Some ep"
    and "persisted_epoch (st_db st) org (ep_epoch_id ep) = None" and "sign_eer p ep sk = Inr s"
    and "r = \<lparr>sr_status = EPOCH_CREATED, sr_org_id = org, sr_epoch = Some ep, sr_eer = Some s, sr_reason = None\<rparr>"
    and "st' = st\<lparr>st_objects := object_put (ep_r2_epoch_key ep) (EpochArtifact ep s) (st_objects st),
           st_db := (st_db st)\<lparr>d_epochs := dset (ep_epoch_id ep) ep (d_epochs (st_db st))\<rparr>\<rparr>"
proof -
  note run = assms(1)[unfolded run_epoch_once_def]
  show ?thesis
  proof (cases "epoch_from_operation_rows p org (dvalues (d_operations (st_db st)))")
    case None
    with run assms(2) show ?thesis by auto
  next
    case ep: (Some ep)
    show ?thesis
    proof (cases "persisted_epoch (st_db st) org (ep_epoch_id ep)")
      case (Some old)
      with ep run assms(2) show ?thesis by auto
    next
      case None
      show ?thesis
      proof (cases "sign_eer p ep sk")
        case (Inl exc)
        with ep None run show ?thesis by simp
      next
        case (Inr s)
        with ep None run that[OF ep None Inr] show ?thesis by simp
      qed
    qed
  qed
qed

text \<open>
The epoch that a run of the scheduler creates is signed over its own fields and verifies under
the public key of the server; the run leaves the operations alone, and a second run (with whatever
key) finds that epoch with that signature and changes nothing.
\<close>

theorem epoch_persisted_once:
  assumes "ed25519_ok p" and "get_public_key_base64url p sk = Inr pk"
    and "run_epoch_once p st org sk = (Inr r, st')" and "sr_status r = EPOCH_CREATED"
  shows "\<exists>ep s. sr_epoch r = Some ep \<and> sr_eer r = Some s \<and> s = (unsigned_eer ep)\<lparr>eer_signature_by_elydora := eer_signature_by_elydora s\<rparr>
    \<and> verify_ed25519 p pk (eer_signable s) (eer_signature_by_elydora s)
    \<and> d_operations (st_db st') = d_operations (st_db st)
    \<and> run_epoch_once p st' org sk2 =
        (Inr \<lparr>sr_status = EPOCH_ALREADY_PERSISTED, sr_org_id = org, sr_epoch = Some ep, sr_eer = Some s,
              sr_reason = Some ''epoch_id_exists''\<rparr>, st')"
  using assms(3,4)
proof (cases rule: created_cases)
  case (1 ep s)
  note org = epoch_org[OF 1(1)]
  obtain sig where sig: "sign_ed25519 p sk (eer_signable (unsigned_eer ep)) = Inr sig"
    and s: "s = (unsigned_eer ep)\<lparr>eer_signature_by_elydora := sig\<rparr>"
    using 1(3) by (auto simp: sign_eer_def)
  have "verify_ed25519 p pk (eer_signable s) (eer_signature_by_elydora s)"
    using verify_sign_ed25519[OF assms(1) sig assms(2)] by (simp add: s)
  moreover have "persisted_epoch (st_db st') org (ep_epoch_id ep) = Some ep"
    using persisted_epoch_insert[of "st_db st" ep] 1(2) by (simp add: 1(5) org)
  moreover have "persisted_eer (st_objects st') ep = Some s"
    by (simp add: 1(5) persisted_eer_def store.get_put_same eer_of_stored_def s unsigned_eer_def)
  moreover have "epoch_from_operation_rows p org (dvalues (d_operations (st_db st'))) = Some ep"
    using 1(1) by (simp add: 1(5))
  ultimately show ?thesis
    by (simp add: 1(4) run_epoch_once_def) (simp add: 1(5) s)
qed

text \<open>The scheduler loop returns after the number of runs it was given.\<close>

lemma run_epoch_once_returns:
  assumes "get_public_key_base64url p sk = Inr pk"
  shows "\<exists>r st'. run_epoch_once p st org sk = (Inr r, st')"
proof (cases "epoch_from_operation_rows p org (dvalues (d_operations (st_db st)))")
  case None
  then show ?thesis by (simp add: run_epoch_once_def)
next
  case (Some ep)
  obtain sig where "sign_ed25519 p sk (eer_signable (unsigned_eer ep)) = Inr sig"
    using sign_total[OF assms] by blast
  with Some show ?thesis
    by (cases "persisted_epoch (st_db st) org (ep_epoch_id ep)") (simp_all add: run_epoch_once_def sign_eer_def)
qed

text \<open>
  The ticks the scheduler is meant to make, without a loop: the storage before tick \<open>k\<close> is the one
  after tick \<open>k - 1\<close> and the sleep that follows it.
\<close>

primrec tick_state :: "prims \<Rightarrow> (int \<Rightarrow> storage \<Rightarrow> storage) \<Rightarrow> storage \<Rightarrow> string \<Rightarrow> string \<Rightarrow> nat \<Rightarrow> storage" where
  "tick_state p between st org sk 0 = st"
| "tick_state p between st org sk (Suc k) =
     between (int (Suc k)) (snd (run_epoch_once p (tick_state p between st org sk k) org sk))"

definition tick_results :: "prims \<Rightarrow> (int \<Rightarrow> storage \<Rightarrow> storage) \<Rightarrow> storage \<Rightarrow> string \<Rightarrow> string \<Rightarrow> nat \<Rightarrow> (py_exc + scheduler_result) list" where
  "tick_results p between st org sk n = map (\<lambda>k. fst (run_epoch_once p (tick_state p between st org sk k) org sk)) [0..<n]"

lemma epoch_loop_counts:
  assumes "get_public_key_base64url p sk = Inr pk"
    and "k < n" and "tick_results p between st org sk k = map Inr acc"
  shows "\<exists>rs. epoch_loop p between org sk (Some (int n)) (int k) acc (tick_state p between st org sk k)
      = Some (Inr rs, snd (run_epoch_once p (tick_state p between st org sk (n - 1)) org sk))
    \<and> tick_results p between st org sk n = map Inr rs"
  using assms(2,3)
proof (induction "n - k" arbitrary: k acc)
  case (Suc d)
  obtain r st1 where run: "run_epoch_once p (tick_state p between st org sk k) org sk = (Inr r, st1)"
    using run_epoch_once_returns[OF assms(1)] by blast
  have res: "tick_results p between st org sk (Suc k) = map Inr (acc @ [r])"
    using Suc.prems(2) run by (simp add: tick_results_def)
  show ?case
  proof (cases "Suc k < n")
    case True
    have state: "between (1 + int k) st1 = tick_state p between st org sk (Suc k)"
      using run by simp
    have "d = n - Suc k" using Suc.hyps(2) by simp
    from Suc.hyps(1)[OF this True res] show ?thesis
      using True run by (simp add: epoch_loop.simps[of _ _ _ _ _ "int k"] state add.commute del: tick_state.simps)
  next
    case False
    with Suc.prems(1) have n: "n = Suc k" by simp
    show ?thesis
      using run res by (simp add: epoch_loop.simps[of _ _ _ _ _ "int k"] n)
  qed
qed simp

lemma endless_loop:
  assumes "get_public_key_base64url p sk = Inr pk"
  shows "epoch_loop p between org sk None runs acc st = None"
proof (rule ccontr)
  assume "epoch_loop p between org sk None runs acc st \<noteq> None"
  then obtain y where ret: "epoch_loop p between org sk None runs acc st = Some y" by blast
  have "get_public_key_base64url p sk = Inr pk \<longrightarrow> (None :: int option) \<noteq> None"
  proof (rule epoch_loop.raw_induct[where P = "\<lambda>p between org sk mr runs acc st y.
        get_public_key_base64url p sk = Inr pk \<longrightarrow> mr \<noteq> None", OF _ ret], intro impI notI, goal_cases)
    case (1 loop p between org sk mr runs acc st y)
    obtain r st1 where "run_epoch_once p st org sk = (Inr r, st1)"
      using run_epoch_once_returns[OF 1(3)] by blast
    then have "loop p between org sk mr (runs + 1) (acc @ [r]) (between (runs + 1) st1) = Some y"
      using 1(2,4) by simp
    from 1(1)[OF this] 1(3,4) show False by blast
  qed
  with assms show False by simp
qed

text \<open>
C15. The interval scheduler, given a key that signs and a positive interval: with a positive
\<open>max_runs\<close> its loop returns, after exactly that many ticks, with their results in order and the
storage as the last tick left it, having slept between the ticks and not after the last one; with a
\<open>max_runs\<close> of zero or less it raises ValueError and touches nothing; without \<open>max_runs\<close> it never
returns.
\<close>

theorem epoch_interval_returns:
  assumes "get_public_key_base64url p sk = Inr pk" and "flt (Fin 0) secs"
  shows "(0 < n \<longrightarrow> (\<exists>rs. run_epoch_interval p between st org sk secs (Some n)
        = Some (Inr rs, snd (run_epoch_once p (tick_state p between st org sk (nat n - 1)) org sk))
      \<and> tick_results p between st org sk (nat n) = map Inr rs))
    \<and> (n \<le> 0 \<longrightarrow> run_epoch_interval p between st org sk secs (Some n) = Some (Inl ValueError, st))
    \<and> run_epoch_interval p between st org sk secs None = None"
proof -
  have pos: "\<not> fle secs (Fin 0)" using assms(2) by (cases secs) auto
  moreover have "epoch_loop p between org sk None 0 [] st = None"
    by (rule endless_loop[OF assms(1)])
  moreover have "\<exists>rs. epoch_loop p between org sk (Some n) 0 [] st
      = Some (Inr rs, snd (run_epoch_once p (tick_state p between st org sk (nat n - 1)) org sk))
    \<and> tick_results p between st org sk (nat n) = map Inr rs" if "0 < n"
    using epoch_loop_counts[OF assms(1), of 0 "nat n" between st org "[]"] that by (simp add: tick_results_def)
  ultimately show ?thesis by (simp add: run_epoch_interval_def)
qed

theorem epoch_ignores_row_order_witness:
  "epoch_from_operation_rows demo_prims ''demo-org'' [demo_operation ''n1'', demo_operation ''n2'']
    = epoch_from_operation_rows demo_prims ''demo-org'' [demo_operation ''n2'', demo_operation ''n1'']"
  by (rule epoch_ignores_row_order) simp

text \<open>A digest of fixed length for the witness.\<close>

definition short_prims :: prims where
  "short_prims = demo_prims\<lparr>sha256 := (\<lambda>d. take 32 (d @ replicate 32 0))\<rparr>"

lemma length_2: "length l = 2 \<Longrightarrow> (\<And>a b. l = [a, b] \<Longrightarrow> thesis) \<Longrightarrow> thesis"
  by (cases l; cases "tl l") auto

theorem epoch_commits_to_operations_witness:
  "let x = (demo_operation ''n1'')\<lparr>o_chain_hash := sha256_base64url short_prims ''x''\<rparr>;
       y = (demo_operation ''n2'')\<lparr>o_chain_hash := sha256_base64url short_prims ''y''\<rparr> in
   mset (map o_chain_hash (filter (\<lambda>z. o_org_id z = ''o'') [x, y])) = mset (map o_chain_hash (filter (\<lambda>z. o_org_id z = ''o'') [y, x]))"
proof -
  let ?x = "(demo_operation ''n1'')\<lparr>o_chain_hash := sha256_base64url short_prims ''x''\<rparr>"
  let ?y = "(demo_operation ''n2'')\<lparr>o_chain_hash := sha256_base64url short_prims ''y''\<rparr>"
  have org: "o_org_id (demo_operation n) = ''o''" for n by (simp add: demo_operation_def)
  have e: "epoch_from_operation_rows short_prims ''o'' [?x, ?y] = Some (epoch_of_rows short_prims ''o'' (sort_key row_key [?x, ?y]))"
    by (simp add: epoch_from_operation_rows_def org)
  have same: "epoch_from_operation_rows short_prims ''o'' [?y, ?x] = epoch_from_operation_rows short_prims ''o'' [?x, ?y]"
    using scoped_cong[of "[?y, ?x]" "[?x, ?y]" short_prims "''o''"]
    by (simp add: epoch_from_operation_rows_def org)
  have l: "sort (leaves_of ''o'' [?y, ?x]) = sort (leaves_of ''o'' [?x, ?y])"
    by (rule sort_cong_mset) (simp add: org)
  have inj: "inj_on (sha256 short_prims) (hashed (sha256 short_prims) (sort (leaves_of ''o'' [?x, ?y])))"
  proof -
    have "length (sort (leaves_of ''o'' [?x, ?y])) = 2" by (simp add: org)
    then obtain a b where "sort (leaves_of ''o'' [?x, ?y]) = [a, b]"
      by (rule length_2)
    then show ?thesis by (simp add: hashed.simps[of _ "_ # _"] even_level_def)
  qed
  show ?thesis
    unfolding Let_def
    by (rule epoch_commits_to_operations[OF e same[unfolded e]])
      (use inj in \<open>simp_all add: l org short_prims_def, auto\<close>)
qed

theorem epoch_persisted_once_witness:
  "\<exists>r st' ep s. run_epoch_once demo_prims (demo_storage\<lparr>st_db := insert_operation (demo_operation ''n1'') (st_db demo_storage)\<rparr>) ''o'' demo_key = (Inr r, st')
    \<and> sr_epoch r = Some ep \<and> sr_eer r = Some s \<and> verify_ed25519 demo_prims demo_key (eer_signable s) (eer_signature_by_elydora s)"
proof -
  let ?st = "demo_storage\<lparr>st_db := insert_operation (demo_operation ''n1'') (st_db demo_storage)\<rparr>"
  obtain r st' where run: "run_epoch_once demo_prims ?st ''o'' demo_key = (Inr r, st')"
    using run_epoch_once_returns[OF demo_key_public] by blast
  have ops: "dvalues (d_operations (st_db ?st)) = [demo_operation ''n1'']"
    by (simp add: insert_operation_def demo_storage_def empty_storage_def empty_database_def dvalues_def)
  have "persisted_epoch (st_db ?st) ''o'' eid = None" for eid
    by (simp add: persisted_epoch_def insert_operation_def demo_storage_def empty_storage_def empty_database_def dvalues_def)
  moreover have "o_org_id (demo_operation ''n1'') = ''o''" by (simp add: demo_operation_def)
  ultimately have "sr_status r = EPOCH_CREATED"
    using run unfolding run_epoch_once_def ops by (auto simp: epoch_from_operation_rows_def split: sum.splits)
  from epoch_persisted_once[OF ed25519_ok_demo demo_key_public run this] run show ?thesis by blast
qed

theorem epoch_interval_returns_witness:
  "(\<exists>rs st'. run_epoch_interval demo_prims (\<lambda>_ st. st) demo_storage ''demo-org'' demo_key (Fin 60) (Some 3) = Some (Inr rs, st')
      \<and> tick_results demo_prims (\<lambda>_ st. st) demo_storage ''demo-org'' demo_key 3 = map Inr rs)
    \<and> run_epoch_interval demo_prims (\<lambda>_ st. st) demo_storage ''demo-org'' demo_key (Fin 60) None = None"
  using epoch_interval_returns[OF demo_key_public, of "Fin 60" 3 "\<lambda>_ st. st" demo_storage "''demo-org''"] by auto

end
