(* ===== verification/Server.thy ===== *)
theory Server
  imports Merkle "HOL-Library.Sublist"
begin

text \<open>
  The server as a whole: the routes that change state (\<open>routes/__init__.py\<close>) over one storage, as a
  step relation.  A route binds the organisation of the caller into the body before it calls the
  service.  The abstract specification is one append-only log of entries per agent; the services
  refine it.  The cache makes a nonce good for one request.

  A request is served as one step, which is what the event loop does when nothing in the handler
  suspends.  \<open>decide\<close> does suspend between its prefix and its commit, while the governance
  application runs; the last section shows what two overlapping calls do to the chain.
\<close>

section \<open>Requests\<close>

datatype request =
    SubmitRequest eor string
  | DecideRequest action_record int pyfloat
  | RecordRequest action_record
  | PublishRequest action_record governance_verdict "guardian_evidence list" int pyfloat
  | ResumeRequest string string "jobj option" int pyfloat
  | RegisterRequest register_request
  | IntegrationRequest string string
  | FreezeRequest string string
  | UnfreezeRequest string string
  | RevokeRequest string string string
  | DeleteRequest string
  | EpochRun

definition submit_route ::
  "prims \<Rightarrow> storage \<Rightarrow> string \<Rightarrow> eor \<Rightarrow> string \<Rightarrow> int \<Rightarrow> string \<Rightarrow> (failure + ear) \<times> storage" where
  "submit_route p st org_id e server_signing_key now receipt_id =
     (if e_operation_id e = [] then (Inl (validation_error ''Invalid operation body.''), st)
      else submit_operation p st (e\<lparr>e_org_id := org_id\<rparr>) server_signing_key now receipt_id)"

definition decide_route ::
  "server_env \<Rightarrow> 'g decide_app \<Rightarrow> clock \<Rightarrow> storage \<times> 'g \<Rightarrow> string \<Rightarrow> action_record
   \<Rightarrow> (failure + governance_verdict) \<times> storage \<times> 'g" where
  "decide_route env app ck sg org_id r = decide env app ck sg (r\<lparr>r_org_id := org_id\<rparr>)"

definition record_route ::
  "server_env \<Rightarrow> int \<Rightarrow> storage \<Rightarrow> string \<Rightarrow> action_record \<Rightarrow> (failure + ack) \<times> storage" where
  "record_route env now st org_id r = record_outcome env now st (r\<lparr>r_org_id := org_id\<rparr>)"

text \<open>One request at time \<open>now\<close> for the organisation of the caller; the body of the response is dropped.\<close>

definition no_body :: "failure + 'a \<Rightarrow> failure + unit" where
  "no_body r = (case r of Inl f \<Rightarrow> Inl f | Inr _ \<Rightarrow> Inr ())"

definition respond :: "'g \<Rightarrow> (failure + 'a) \<times> storage \<Rightarrow> (failure + unit) \<times> storage \<times> 'g" where
  "respond g rs = (no_body (fst rs), snd rs, g)"

fun serve ::
  "server_env \<Rightarrow> 'g decide_app \<Rightarrow> 'g resume_app \<Rightarrow> int \<Rightarrow> string \<Rightarrow> request \<Rightarrow> storage \<times> 'g
   \<Rightarrow> (failure + unit) \<times> storage \<times> 'g" where
  "serve env app rapp now org (SubmitRequest e rid) (st, g) =
     respond g (submit_route (se_prims env) st org e (se_signing_key env) now rid)"
| "serve env app rapp now org (DecideRequest r served latency) (st, g) =
     apfst no_body (decide_route env app \<lparr>ck_received_at = now, ck_served_at = served, ck_latency_ms = latency\<rparr> (st, g) org r)"
| "serve env app rapp now org (RecordRequest r) (st, g) = respond g (record_route env now st org r)"
| "serve env app rapp now org (PublishRequest r v evidence served latency) (st, g) =
     respond g (publish_async_verdict env
       \<lparr>ck_received_at = now, ck_served_at = served, ck_latency_ms = latency\<rparr> st r v evidence)"
| "serve env app rapp now org (ResumeRequest incident resolution payload served latency) (st, g) =
     apfst no_body (resume env rapp
       \<lparr>ck_received_at = now, ck_served_at = served, ck_latency_ms = latency\<rparr> (st, g) incident resolution payload org)"
| "serve env app rapp now org (RegisterRequest rq) (st, g) = respond g (register_agent st rq org now)"
| "serve env app rapp now org (IntegrationRequest a ty) (st, g) = respond g (update_integration_type st a ty org now)"
| "serve env app rapp now org (FreezeRequest a reason) (st, g) = respond g (freeze_route st a reason org now)"
| "serve env app rapp now org (UnfreezeRequest a reason) (st, g) = respond g (unfreeze_route st a reason org now)"
| "serve env app rapp now org (RevokeRequest a kid reason) (st, g) = respond g (revoke_route st a kid reason org now)"
| "serve env app rapp now org (DeleteRequest a) (st, g) = respond g (delete_agent st a org)"
| "serve env app rapp now org EpochRun (st, g) =
     respond g (apfst lift_py (run_epoch_once (se_prims env) st org (se_signing_key env)))"

text \<open>A run of the server: requests in order, the clock does not go back.\<close>

type_synonym 'g server_state = "storage \<times> 'g \<times> int"

inductive server_step ::
  "server_env \<Rightarrow> 'g decide_app \<Rightarrow> 'g resume_app \<Rightarrow> 'g server_state \<Rightarrow> request \<Rightarrow> 'g server_state \<Rightarrow> bool"
  for env app rapp where
  step: "now \<le> t \<Longrightarrow> serve env app rapp t org q (st, g) = (res, st', g') \<Longrightarrow>
     server_step env app rapp (st, g, now) q (st', g', t)"

inductive_cases server_stepE: "server_step env app rapp (st, g, now) q (st', g', t)"

inductive server_run ::
  "server_env \<Rightarrow> 'g decide_app \<Rightarrow> 'g resume_app \<Rightarrow> (database \<Rightarrow> request \<Rightarrow> bool)
   \<Rightarrow> 'g server_state \<Rightarrow> 'g server_state \<Rightarrow> bool"
  for env app rapp allowed where
  here: "server_run env app rapp allowed s s"
| more: "server_run env app rapp allowed s s' \<Longrightarrow> allowed (st_db (fst s')) q \<Longrightarrow>
     server_step env app rapp s' q s'' \<Longrightarrow> server_run env app rapp allowed s s''"

section \<open>The log that the server promises\<close>

text \<open>
  Abstractly the server keeps one log of entries (payload hash, id, time of issue) for every agent.
  A request that is accepted names the head of the log, the hash over all entries so far, and
  appends its entry; every other request leaves the logs alone.
\<close>

type_synonym entry = "string \<times> string \<times> int"

fun hash_entry :: "prims \<Rightarrow> string \<Rightarrow> entry \<Rightarrow> string" where
  "hash_entry p h (payload_hash, op_id, issued_at) = compute_chain_hash p h payload_hash op_id issued_at"

definition log_head :: "prims \<Rightarrow> entry list \<Rightarrow> string" where
  "log_head p es = foldl (hash_entry p) GENESIS_CHAIN_HASH es"

inductive log_step ::
  "prims \<Rightarrow> (string \<Rightarrow> entry list) \<Rightarrow> (string \<times> string \<times> entry) option \<Rightarrow> (string \<Rightarrow> entry list) \<Rightarrow> bool"
  for p where
  append: "prev = log_head p (L a) \<Longrightarrow> log_step p L (Some (a, prev, en)) (L(a := L a @ [en]))"
| idle: "log_step p L None L"

definition log_of :: "database \<Rightarrow> string \<Rightarrow> entry list" where
  "log_of db a = map committed (operations_of db a)"

fun entry_of :: "request \<Rightarrow> (string \<times> string \<times> entry) option" where
  "entry_of (SubmitRequest e _) =
     Some (e_agent_id e, e_prev_chain_hash e, (e_payload_hash e, e_operation_id e, e_issued_at e))"
| "entry_of (DecideRequest r _ _) =
     Some (r_agent_id r, r_prev_chain_hash r, (r_payload_hash r, r_record_id r, r_issued_at r))"
| "entry_of (RecordRequest r) =
     Some (r_agent_id r, r_prev_chain_hash r, (r_payload_hash r, r_record_id r, r_issued_at r))"
| "entry_of _ = None"

definition label_of :: "request \<Rightarrow> failure + unit \<Rightarrow> (string \<times> string \<times> entry) option" where
  "label_of q res = (case res of Inl _ \<Rightarrow> None | Inr _ \<Rightarrow> entry_of q)"

text \<open>The id of an ingested request is not in use.\<close>

definition unused_id :: "database \<Rightarrow> request \<Rightarrow> bool" where
  "unused_id db q =
     (case entry_of q of None \<Rightarrow> True | Some (_, _, (_, i, _)) \<Rightarrow> dget (d_operations db) i = None)"

lemma linked_head:
  "linked p prev n xs \<Longrightarrow> head_hash prev xs = foldl (hash_entry p) prev (map committed xs)"
  by (induction xs arbitrary: prev n) (auto simp: committed_def)

lemma expected_prev_head:
  assumes "chains_ok p db"
  shows "expected_prev db a = log_head p (log_of db a)"
    and "next_seq db a = 1 + int (length (log_of db a))"
proof -
  have c: "ops.chained p db" using assms by (simp only: chains_ok_chained)
  have l: "linked p GENESIS_CHAIN_HASH 1 (operations_of db a)" using assms by (simp add: chains_ok_def)
  have "expected_prev db a = head_hash GENESIS_CHAIN_HASH (operations_of db a)"
    using ops.chained_latest[OF c, of a] by (simp add: expected_prev_def head_hash_def)
  then show "expected_prev db a = log_head p (log_of db a)"
    by (simp add: linked_head[OF l] log_head_def log_of_def)
  show "next_seq db a = 1 + int (length (log_of db a))"
    using ops.chained_latest[OF c, of a] ops.latest_seq[OF c, of a]
    by (auto simp: next_seq_def log_of_def)
qed

section \<open>What a request does to the operations\<close>

definition next_row :: "prims \<Rightarrow> database \<Rightarrow> operation \<Rightarrow> bool" where
  "next_row p db x \<longleftrightarrow> o_prev_chain_hash x = expected_prev db (o_agent_id x)
     \<and> o_seq_no x = next_seq db (o_agent_id x)
     \<and> o_chain_hash x = compute_chain_hash p (o_prev_chain_hash x) (o_payload_hash x) (o_operation_id x) (o_issued_at x)"

definition ingests :: "prims \<Rightarrow> database \<Rightarrow> database \<Rightarrow> string \<times> string \<times> entry \<Rightarrow> bool" where
  "ingests p db db' l \<longleftrightarrow> (\<exists>x. next_row p db x \<and> l = (o_agent_id x, o_prev_chain_hash x, committed x)
     \<and> d_operations db' = d_operations (insert_operation x db))"

lemma submit_ingests:
  assumes "submit_operation p st e sk t rid = (res, st')"
  shows "(case res of Inl _ \<Rightarrow> d_operations (st_db st') = d_operations (st_db st)
    | Inr _ \<Rightarrow> ingests p (st_db st) (st_db st') (e_agent_id e, e_prev_chain_hash e, (e_payload_hash e, e_operation_id e, e_issued_at e)))"
  using assms
proof (cases rule: submit_cases)
  case (accepted c r)
  let ?x = "operation_row p e (next_seq (st_db st) (e_agent_id e)) t"
  have "e_prev_chain_hash e = expected_prev (st_db st) (e_agent_id e)"
    using accepted(3) by (simp add: admit_operation_iff)
  then have "next_row p (st_db st) ?x" by (simp add: next_row_def operation_row_def)
  moreover have "d_operations (st_db st') = d_operations (insert_operation ?x (st_db st))"
    by (simp add: accepted(6) persist_operation_db)
  moreover have "(e_agent_id e, e_prev_chain_hash e, (e_payload_hash e, e_operation_id e, e_issued_at e))
      = (o_agent_id ?x, o_prev_chain_hash ?x, committed ?x)"
    by (simp add: operation_row_def committed_def)
  ultimately show ?thesis by (auto simp: ingests_def accepted(5))
qed simp_all

lemma record_row_ingests:
  assumes "ingest_prefix env st r t ph = (Inr ig, st1)"
    and "d_operations db' = d_operations (insert_operation (record_row (se_prims env) r ig u) (st_db st))"
  shows "ingests (se_prims env) (st_db st) db'
    (r_agent_id r, r_prev_chain_hash r, (r_payload_hash r, r_record_id r, r_issued_at r))"
proof -
  let ?x = "record_row (se_prims env) r ig u"
  from assms(1) have adm: "admit_record (se_prims env) (st_db st) r = Inr ()"
    and ig: "ig = \<lparr>ig_chain_hash = derive_chain_hash (se_prims env) (r_prev_chain_hash r) r,
             ig_next_seq = next_seq (st_db st) (r_agent_id r), ig_r2_key = record_key r\<rparr>"
    by (auto elim: ingest_prefix_cases)
  have "r_prev_chain_hash r = expected_prev (st_db st) (r_agent_id r)"
    using adm by (simp add: admit_record_iff)
  then have "next_row (se_prims env) (st_db st) ?x"
    by (simp add: next_row_def record_row_def ig derive_chain_hash_def)
  moreover have "(r_agent_id r, r_prev_chain_hash r, (r_payload_hash r, r_record_id r, r_issued_at r))
      = (o_agent_id ?x, o_prev_chain_hash ?x, committed ?x)"
    by (simp add: record_row_def committed_def)
  ultimately show ?thesis using assms(2) unfolding ingests_def by blast
qed

lemma decide_ingests:
  assumes "decide env app ck (st, g) r = (res, st', g')"
  shows "(case res of Inl _ \<Rightarrow> d_operations (st_db st') = d_operations (st_db st)
    | Inr _ \<Rightarrow> ingests (se_prims env) (st_db st) (st_db st')
        (r_agent_id r, r_prev_chain_hash r, (r_payload_hash r, r_record_id r, r_issued_at r)))"
  using assms
proof (cases rule: decide_cases)
  case (rejected f)
  with prefix_db[OF rejected(1)] show ?thesis by simp
next
  case (failed ig exc)
  with prefix_db[OF failed(1)] show ?thesis by simp
next
  case (decided ig st1 v0 v)
  have "d_operations (st_db st') = d_operations (insert_operation (record_row (se_prims env) r ig (ck_received_at ck)) (st_db st))"
    by (simp add: decided(5) commit_decision_db prefix_db[OF decided(1)])
  with record_row_ingests[OF decided(1)] decided(4) show ?thesis by simp
qed

lemma record_ingests:
  assumes "record_outcome env t st r = (res, st')"
  shows "(case res of Inl _ \<Rightarrow> d_operations (st_db st') = d_operations (st_db st)
    | Inr _ \<Rightarrow> ingests (se_prims env) (st_db st) (st_db st')
        (r_agent_id r, r_prev_chain_hash r, (r_payload_hash r, r_record_id r, r_issued_at r)))"
proof -
  obtain pre st1 where pre: "ingest_prefix env st r t POST_EXEC = (pre, st1)"
    by (cases "ingest_prefix env st r t POST_EXEC")
  show ?thesis
  proof (cases pre)
    case (Inl f)
    with assms pre prefix_db[OF pre] show ?thesis by (auto simp: record_outcome_def)
  next
    case (Inr ig)
    note p = pre[unfolded Inr]
    have st': "st' = commit_record env st1 r ig t" and ok: "\<exists>a. res = Inr a"
      using assms p by (auto simp: record_outcome_def)
    have "d_operations (st_db st') = d_operations (insert_operation (record_row (se_prims env) r ig t) (st_db st))"
      by (simp add: st' commit_record_db prefix_db[OF p])
    with record_row_ingests[OF p] ok show ?thesis by auto
  qed
qed

lemma ingests_append:
  assumes "chains_ok p db" and "ingests p db db' (a, prev, en)" and "dget (d_operations db) (fst (snd en)) = None"
  shows "chains_ok p db'" and "prev = log_head p (log_of db a)"
    and "\<exists>x. operations_of db' = (operations_of db)(a := operations_of db a @ [x]) \<and> committed x = en"
proof -
  from assms(2) obtain x where x: "next_row p db x" "a = o_agent_id x" "prev = o_prev_chain_hash x" "en = committed x"
    and db': "d_operations db' = d_operations (insert_operation x db)" by (auto simp: ingests_def)
  have fresh: "fresh_operation db x" using assms(3) by (simp add: fresh_operation_def x(4) committed_def)
  have "chains_ok p (insert_operation x db)"
    using x(1) by (intro chains_ok_insert[OF assms(1) fresh refl])
      (auto simp: next_row_def expected_prev_def next_seq_def split: option.splits)
  then show "chains_ok p db'" using chains_ok_cong[OF db', of p] by simp
  show "prev = log_head p (log_of db a)"
    using x(1-3) expected_prev_head[OF assms(1)] by (simp add: next_row_def)
  have "operations_of db' = (operations_of db)(a := operations_of db a @ [x])"
    using ops.history_append[OF fresh] operations_of_cong[OF db'] by (simp add: fun_eq_iff x(2))
  with x(4) show "\<exists>x. operations_of db' = (operations_of db)(a := operations_of db a @ [x]) \<and> committed x = en"
    by blast
qed

lemma ingests_head:
  "chains_ok p db \<Longrightarrow> ingests p db db' (a, prev, en) \<Longrightarrow> prev = log_head p (log_of db a)"
  using expected_prev_head[of p db] by (auto simp: ingests_def next_row_def)

lemma publish_keeps_operations:
  "d_operations (st_db (snd (publish_async_verdict env ck st r v ev))) = d_operations (st_db st)"
  by (auto simp: publish_async_verdict_def Let_def split: sum.splits)

lemma resume_keeps_operations:
  "d_operations (st_db (fst (snd (resume env app ck (st, g) i d pl org)))) = d_operations (st_db st)"
  by (auto simp: resume_def split: sum.splits prod.splits option.splits)

lemma epoch_keeps_operations:
  "d_operations (st_db (snd (run_epoch_once p st org sk))) = d_operations (st_db st)"
  by (auto simp: run_epoch_once_def split: sum.splits option.splits)

lemma routes_keep_operations:
  "d_operations (st_db (snd (freeze_route st a reason org now))) = d_operations (st_db st)"
  "d_operations (st_db (snd (unfreeze_route st a reason org now))) = d_operations (st_db st)"
  "d_operations (st_db (snd (revoke_route st a kid reason org now))) = d_operations (st_db st)"
  by (simp_all add: freeze_route_def unfreeze_route_def revoke_route_def agents_keep_operations)

lemmas keep_operations = agents_keep_operations routes_keep_operations publish_keeps_operations
  resume_keeps_operations epoch_keeps_operations

lemma respond_sel [simp]:
  "fst (respond g rs) = no_body (fst rs)" "snd (respond g rs) = (snd rs, g)"
  by (simp_all add: respond_def)

lemma no_body_Inr [simp]: "no_body r = Inr u \<longleftrightarrow> (\<exists>x. r = Inr x)" "no_body r = Inl f \<longleftrightarrow> r = Inl f"
  by (auto simp: no_body_def split: sum.splits)

lemma serve_operations:
  assumes "serve env app rapp now org q (st, g) = (res, st', g')"
  shows "(case label_of q res of None \<Rightarrow> d_operations (st_db st') = d_operations (st_db st)
    | Some l \<Rightarrow> ingests (se_prims env) (st_db st) (st_db st') l)"
proof (cases q)
  case (SubmitRequest e rid)
  obtain r s where rs: "submit_route (se_prims env) st org e (se_signing_key env) now rid = (r, s)"
    by (cases "submit_route (se_prims env) st org e (se_signing_key env) now rid")
  with assms have out: "res = no_body r" "st' = s" by (simp_all add: SubmitRequest respond_def)
  show ?thesis
  proof (cases "e_operation_id e = []")
    case True
    with rs out show ?thesis by (auto simp: submit_route_def label_of_def no_body_def)
  next
    case False
    with rs submit_ingests[of "se_prims env" st "e\<lparr>e_org_id := org\<rparr>" "se_signing_key env" now rid r s] out
    show ?thesis by (cases r) (simp_all add: submit_route_def label_of_def no_body_def SubmitRequest)
  qed
next
  case (DecideRequest r served latency)
  let ?ck = "\<lparr>ck_received_at = now, ck_served_at = served, ck_latency_ms = latency\<rparr>"
  obtain v s h where rs: "decide env app ?ck (st, g) (r\<lparr>r_org_id := org\<rparr>) = (v, s, h)"
    by (cases "decide env app ?ck (st, g) (r\<lparr>r_org_id := org\<rparr>)")
  with assms have out: "res = no_body v" "st' = s" by (simp_all add: DecideRequest decide_route_def)
  from decide_ingests[OF rs] out show ?thesis
    by (cases v) (simp_all add: label_of_def no_body_def DecideRequest)
next
  case (RecordRequest r)
  obtain v s where rs: "record_outcome env now st (r\<lparr>r_org_id := org\<rparr>) = (v, s)"
    by (cases "record_outcome env now st (r\<lparr>r_org_id := org\<rparr>)")
  with assms have out: "res = no_body v" "st' = s" by (simp_all add: RecordRequest record_route_def respond_def)
  from record_ingests[OF rs] out show ?thesis
    by (cases v) (simp_all add: label_of_def no_body_def RecordRequest)
next
  case (ResumeRequest i d pl served latency)
  let ?ck = "\<lparr>ck_received_at = now, ck_served_at = served, ck_latency_ms = latency\<rparr>"
  from assms have "st' = fst (snd (resume env rapp ?ck (st, g) i d pl org))"
    by (cases "resume env rapp ?ck (st, g) i d pl org") (simp add: ResumeRequest)
  then show ?thesis
    using resume_keeps_operations[of env rapp ?ck st g i d pl org] by (simp add: label_of_def ResumeRequest split: sum.split)
next
  case EpochRun
  from assms have "st' = snd (run_epoch_once (se_prims env) st org (se_signing_key env))"
    by (cases "run_epoch_once (se_prims env) st org (se_signing_key env)") (simp add: EpochRun respond_def)
  then show ?thesis
    using epoch_keeps_operations[of "se_prims env" st org "se_signing_key env"] by (simp add: label_of_def EpochRun split: sum.split)
qed (use assms in \<open>auto simp: respond_def label_of_def keep_operations split: sum.splits\<close>)

lemma serve_log:
  assumes "serve env app rapp t org q (st, g) = (res, st', g')"
    and "chains_ok (se_prims env) (st_db st)" and "unused_id (st_db st) q"
  shows "chains_ok (se_prims env) (st_db st')"
    and "log_step (se_prims env) (log_of (st_db st)) (label_of q res) (log_of (st_db st'))"
    and "prefix (operations_of (st_db st) a) (operations_of (st_db st') a)"
proof -
  note ops = serve_operations[OF assms(1)]
  have "chains_ok (se_prims env) (st_db st')
    \<and> log_step (se_prims env) (log_of (st_db st)) (label_of q res) (log_of (st_db st'))
    \<and> prefix (operations_of (st_db st) a) (operations_of (st_db st') a)"
  proof (cases "label_of q res")
    case None
    with ops have d: "d_operations (st_db st') = d_operations (st_db st)" by simp
    have "log_of (st_db st') = log_of (st_db st)"
      by (rule ext) (simp add: log_of_def operations_of_cong[OF d])
    with assms(2) show ?thesis
      by (simp add: None chains_ok_cong[OF d] operations_of_cong[OF d] log_step.idle)
  next
    case (Some l)
    obtain b prev en where l: "l = (b, prev, en)" by (cases l)
    with Some ops have ing: "ingests (se_prims env) (st_db st) (st_db st') (b, prev, en)" by simp
    have "entry_of q = Some (b, prev, en)" using Some l by (auto simp: label_of_def split: sum.splits)
    then have "dget (d_operations (st_db st)) (fst (snd en)) = None"
      using assms(3) by (cases en) (simp add: unused_id_def)
    from ingests_append[OF assms(2) ing this] obtain x where c: "chains_ok (se_prims env) (st_db st')"
      and prev: "prev = log_head (se_prims env) (log_of (st_db st) b)" and en: "committed x = en"
      and x: "operations_of (st_db st') = (operations_of (st_db st))(b := operations_of (st_db st) b @ [x])" by blast
    have "log_of (st_db st') = (log_of (st_db st))(b := log_of (st_db st) b @ [en])"
      by (simp add: fun_eq_iff log_of_def x en)
    then show ?thesis
      using c log_step.append[of prev "se_prims env" "log_of (st_db st)" b en] prev by (simp add: Some l x)
  qed
  then show "chains_ok (se_prims env) (st_db st')"
    "log_step (se_prims env) (log_of (st_db st)) (label_of q res) (log_of (st_db st'))"
    "prefix (operations_of (st_db st) a) (operations_of (st_db st') a)" by auto
qed

text \<open>
C16. From linked chains, every request that is served and not accepted as an ingest leaves every log
alone, every accepted one names the hash over the whole log of its agent, and, when it does not bring
an operation or record id that is already stored, it refines the abstract log: its entry is appended
to the log of its agent, no other log changes, and the chains stay linked.  (A stored id that is
used again with a fresh nonce overwrites a row instead.)
\<close>

theorem server_refines_log:
  assumes "chains_ok (se_prims env) (st_db st)"
    and "serve env app rapp t org q (st, g) = (res, st', g')"
  shows "(label_of q res = None \<longrightarrow> operations_of (st_db st') = operations_of (st_db st))
    \<and> (\<forall>a prev en. label_of q res = Some (a, prev, en) \<longrightarrow> prev = log_head (se_prims env) (log_of (st_db st) a))
    \<and> (unused_id (st_db st) q \<longrightarrow> chains_ok (se_prims env) (st_db st')
        \<and> log_step (se_prims env) (log_of (st_db st)) (label_of q res) (log_of (st_db st')))"
proof (intro conjI allI impI)
  assume "label_of q res = None"
  with serve_operations[OF assms(2)] have "d_operations (st_db st') = d_operations (st_db st)" by simp
  from operations_of_cong[OF this] show "operations_of (st_db st') = operations_of (st_db st)" .
next
  fix a prev en assume "label_of q res = Some (a, prev, en)"
  with serve_operations[OF assms(2)] show "prev = log_head (se_prims env) (log_of (st_db st) a)"
    using ingests_head[OF assms(1)] by simp
next
  assume u: "unused_id (st_db st) q"
  show "chains_ok (se_prims env) (st_db st')" by (rule serve_log(1)[OF assms(2,1) u])
  show "log_step (se_prims env) (log_of (st_db st)) (label_of q res) (log_of (st_db st'))"
    by (rule serve_log(2)[OF assms(2,1) u])
qed

lemma run_history:
  assumes "server_run env app rapp unused_id s s'" and "chains_ok (se_prims env) (st_db (fst s))"
  shows "chains_ok (se_prims env) (st_db (fst s')) \<and> prefix (operations_of (st_db (fst s)) a) (operations_of (st_db (fst s')) a)"
  using assms
proof (induction rule: server_run.induct)
  case (more s s' q s'')
  obtain st g now st' g' t where s': "s' = (st, g, now)" "s'' = (st', g', t)" by (cases s'; cases s'') auto
  from more.hyps(3) obtain org res where sv: "serve env app rapp t org q (st, g) = (res, st', g')"
    unfolding s' by (auto elim: server_stepE)
  from more have c: "chains_ok (se_prims env) (st_db st)" "unused_id (st_db st) q"
    "prefix (operations_of (st_db (fst s)) a) (operations_of (st_db st) a)"
    by (simp_all add: s')
  from serve_log(1,3)[OF sv c(1,2)] prefix_order.trans[OF c(3) serve_log(3)[OF sv c(1,2)]] show ?case by (simp add: s')
qed simp

text \<open>
C17. Whatever requests with unused ids the server handles from a storage without operations, the
rows of an agent are never altered, reordered or removed, only appended to; they are linked and
numbered from one, and the hash the server expects next is the hash over the log.
\<close>

theorem history_is_append_only:
  assumes "server_run env app rapp unused_id (st0, g0, t0) (st1, g1, t1)"
    and "server_run env app rapp unused_id (st1, g1, t1) (st2, g2, t2)" and "d_operations (st_db st0) = []"
  shows "prefix (operations_of (st_db st1) a) (operations_of (st_db st2) a)
    \<and> linked (se_prims env) GENESIS_CHAIN_HASH 1 (operations_of (st_db st2) a)
    \<and> expected_prev (st_db st2) a = log_head (se_prims env) (log_of (st_db st2) a)"
proof -
  have "chains_ok (se_prims env) (st_db st0)" using assms(3) by (simp add: chains_ok_def operations_of_def dvalues_def)
  then have c1: "chains_ok (se_prims env) (st_db st1)" using run_history[OF assms(1)] by simp
  then have c2: "chains_ok (se_prims env) (st_db st2)" using run_history[OF assms(2)] by simp
  have "prefix (operations_of (st_db st1) a) (operations_of (st_db st2) a)"
    using run_history[OF assms(2), of a] c1 by simp
  with c2 expected_prev_head(1)[OF c2, of a] show ?thesis by (simp add: chains_ok_def)
qed

section \<open>Nonces\<close>

definition held :: "int \<Rightarrow> cache \<Rightarrow> string \<Rightarrow> bool" where
  "held e c k \<longleftrightarrow> (\<forall>u \<le> e. cache_holds u c k)"

lemma held_set_if_absent: "held e c k \<Longrightarrow> now \<le> e \<Longrightarrow> set_if_absent now k' v ttl c = (c', b) \<Longrightarrow> held e c' k"
  using nonces.held_until[of e c k now k' v ttl] by (simp add: held_def)

lemma held_accepted: "set_if_absent now k v ttl c = (c', True) \<Longrightarrow> held (now + ttl * 1000) c' k"
  using nonces.accepted_held[of now k v ttl c] by (simp add: held_def)

lemma held_rejected: "held e c k \<Longrightarrow> now \<le> e \<Longrightarrow> set_if_absent now k v ttl c = (c', b) \<Longrightarrow> \<not> b"
  using nonces.accept_iff[of now k v ttl c] by (auto simp: held_def)

lemma held_cache_set: "held e c k \<Longrightarrow> held e (cache_set k' v c) k"
  by (simp add: held_def cache_holds_set)

lemma held_store: "c_store c' = c_store c \<Longrightarrow> held e c' k = held e c k"
  by (simp add: held_def cache_holds_store[of c' c])

lemma held_streams [simp]:
  "held e (ensure_group s grp c) k = held e c k" "held e (fst (xadd s f c)) k = held e c k"
  "held e (ensure_groups s c) k = held e c k"
  by (rule held_store, simp add: ensure_groups_def CONSUMER_GROUPS_def)+

lemma held_fan:
  "held e c k \<Longrightarrow> held e (fan_channel2 r ig vid c) k" "held e (fan_verdicts r v c) k = held e c k"
  by (simp_all add: fan_channel2_def fan_verdicts_def held_cache_set)

lemma held_submit:
  assumes "submit_operation p st x sk now rid = (res, st')" and "now \<le> e" and "held e (st_cache st) k"
  shows "held e (st_cache st') k"
  using assms(1)
  by (cases rule: submit_cases)
     (auto simp: persist_operation_store intro: assms(3) held_cache_set dest: held_set_if_absent[OF assms(3,2)])

lemma held_prefix:
  assumes "ingest_prefix env st r now ph = (res, st')" and "now \<le> e" and "held e (st_cache st) k"
  shows "held e (st_cache st') k"
  using assms(1)
  by (cases rule: ingest_prefix_cases) (auto simp: assms(3) dest: held_set_if_absent[OF assms(3,2)])

lemma held_decide:
  assumes "decide env app ck (st, g) r = (res, st', g')" and "ck_received_at ck \<le> e" and "held e (st_cache st) k"
  shows "held e (st_cache st') k"
  using assms(1)
proof (cases rule: decide_cases)
  case (decided ig st1 v0 v)
  with held_prefix[OF decided(1) assms(2,3)] show ?thesis
    by (simp add: commit_decision_def Let_def held_fan)
qed (use held_prefix[OF _ assms(2,3)] in auto)

lemma held_record:
  assumes "record_outcome env now st r = (res, st')" and "now \<le> e" and "held e (st_cache st) k"
  shows "held e (st_cache st') k"
  using assms(1) held_prefix[OF _ assms(2,3), of env r POST_EXEC]
  by (cases "ingest_prefix env st r now POST_EXEC")
     (auto simp: record_outcome_def commit_record_def held_fan split: sum.splits)

lemma held_publish: "held e (st_cache st) k \<Longrightarrow> held e (st_cache (snd (publish_async_verdict env ck st r v ev))) k"
  by (auto simp: publish_async_verdict_def Let_def held_fan split: sum.splits)

lemma keep_cache:
  "st_cache (fst (snd (resume env rapp ck (st, g) i d pl org))) = st_cache st"
  "st_cache (snd (run_epoch_once p st org sk)) = st_cache st"
  "st_cache (snd (register_agent st rq org now)) = st_cache st"
  "st_cache (snd (update_integration_type st a ty org now)) = st_cache st"
  "st_cache (snd (freeze_route st a reason org now)) = st_cache st"
  "st_cache (snd (unfreeze_route st a reason org now)) = st_cache st"
  "st_cache (snd (revoke_route st a kid reason org now)) = st_cache st"
  "st_cache (snd (delete_agent st a org)) = st_cache st"
  by (auto simp: resume_def run_epoch_once_def register_agent_def update_integration_type_def freeze_route_def
      unfreeze_route_def set_agent_status_def update_agent_def revoke_route_def revoke_key_def delete_agent_def Let_def
      split: sum.splits prod.splits option.splits)

lemma serve_held:
  assumes "serve env app rapp now org q (st, g) = (res, st', g')" and "now \<le> e" and "held e (st_cache st) k"
  shows "held e (st_cache st') k"
proof (cases q)
  case (SubmitRequest x rid)
  let ?x = "x\<lparr>e_org_id := org\<rparr>"
  obtain r s where rs: "submit_operation (se_prims env) st ?x (se_signing_key env) now rid = (r, s)"
    by (cases "submit_operation (se_prims env) st ?x (se_signing_key env) now rid")
  with assms(1) have "st' = st \<or> st' = s"
    by (auto simp: SubmitRequest respond_def submit_route_def split: if_splits)
  with held_submit[OF rs assms(2,3)] assms(3) show ?thesis by auto
next
  case (DecideRequest r served latency)
  let ?ck = "\<lparr>ck_received_at = now, ck_served_at = served, ck_latency_ms = latency\<rparr>"
  obtain v s h where rs: "decide env app ?ck (st, g) (r\<lparr>r_org_id := org\<rparr>) = (v, s, h)"
    by (cases "decide env app ?ck (st, g) (r\<lparr>r_org_id := org\<rparr>)")
  with assms(1) have "st' = s" by (simp add: DecideRequest decide_route_def)
  with held_decide[OF rs _ assms(3)] assms(2) show ?thesis by simp
next
  case (RecordRequest r)
  obtain v s where rs: "record_outcome env now st (r\<lparr>r_org_id := org\<rparr>) = (v, s)"
    by (cases "record_outcome env now st (r\<lparr>r_org_id := org\<rparr>)")
  with assms(1) have "st' = s" by (simp add: RecordRequest record_route_def respond_def)
  with held_record[OF rs assms(2,3)] show ?thesis by simp
next
  case (PublishRequest r v ev served latency)
  let ?ck = "\<lparr>ck_received_at = now, ck_served_at = served, ck_latency_ms = latency\<rparr>"
  from assms(1) have "st' = snd (publish_async_verdict env ?ck st r v ev)"
    by (simp add: PublishRequest respond_def)
  with held_publish[OF assms(3)] show ?thesis by simp
next
  case (ResumeRequest i d pl served latency)
  let ?ck = "\<lparr>ck_received_at = now, ck_served_at = served, ck_latency_ms = latency\<rparr>"
  from assms(1) have "st' = fst (snd (resume env rapp ?ck (st, g) i d pl org))"
    by (cases "resume env rapp ?ck (st, g) i d pl org") (simp add: ResumeRequest)
  with assms(3) show ?thesis using keep_cache(1)[of env rapp ?ck st g i d pl org] by simp
next
  case EpochRun
  from assms(1) have "st' = snd (run_epoch_once (se_prims env) st org (se_signing_key env))"
    by (cases "run_epoch_once (se_prims env) st org (se_signing_key env)") (simp add: EpochRun respond_def)
  with assms(3) show ?thesis using keep_cache(2)[of "se_prims env" st org "se_signing_key env"] by simp
qed (use assms in \<open>auto simp: respond_def keep_cache\<close>)

lemma run_held:
  assumes "server_run env app rapp allowed s s'" and "snd (snd s') \<le> e" and "held e (st_cache (fst s)) k"
  shows "held e (st_cache (fst s')) k"
  using assms
proof (induction rule: server_run.induct)
  case (more s s' q s'')
  obtain st g now st' g' t where s': "s' = (st, g, now)" "s'' = (st', g', t)" by (cases s'; cases s'') auto
  from more.hyps(3) obtain org res where sv: "serve env app rapp t org q (st, g) = (res, st', g')" and "now \<le> t"
    unfolding s' by (auto elim: server_stepE)
  with more show ?case using serve_held[OF sv, of e k] by (simp add: s')
qed simp

text \<open>The nonce of an ingested request and how long it is valid.\<close>

fun nonce_of :: "string \<Rightarrow> request \<Rightarrow> (string \<times> int) option" where
  "nonce_of org (SubmitRequest e _) = Some (nonce_key org (e_nonce e), e_ttl_ms e)"
| "nonce_of org (DecideRequest r _ _) = Some (nonce_key org (r_nonce r), r_ttl_ms r)"
| "nonce_of org (RecordRequest r) = Some (nonce_key org (r_nonce r), r_ttl_ms r)"
| "nonce_of org _ = None"

lemma submit_accepted_nonce:
  assumes "submit_operation p st x sk now rid = (Inr r, st')"
  shows "held (now + ceil_div (e_ttl_ms x) 1000 * 1000) (st_cache st') (nonce_key (e_org_id x) (e_nonce x))"
    and "\<not> held now (st_cache st) (nonce_key (e_org_id x) (e_nonce x))"
    and "now \<le> e_issued_at x + e_ttl_ms x"
proof -
  from assms obtain c where c: "set_if_absent now (nonce_key (e_org_id x) (e_nonce x)) ''1'' (ceil_div (e_ttl_ms x) 1000) (st_cache st) = (c, True)"
    and st': "st_cache st' = cache_set (chain_hint_key (e_agent_id x)) (o_chain_hash (operation_row p x (next_seq (st_db st) (e_agent_id x)) now)) c"
    and valid: "validate_record_fields (float_repr p) x now = None"
    by (cases rule: submit_cases) (auto simp: persist_operation_store)
  show "held (now + ceil_div (e_ttl_ms x) 1000 * 1000) (st_cache st') (nonce_key (e_org_id x) (e_nonce x))"
    using held_accepted[OF c] by (simp add: st' held_cache_set)
  show "\<not> held now (st_cache st) (nonce_key (e_org_id x) (e_nonce x))"
    using held_rejected[OF _ order_refl c] by blast
  show "now \<le> e_issued_at x + e_ttl_ms x"
    using valid by (auto simp: validate_record_fields_def split: if_splits option.splits)
qed

lemma prefix_accepted_nonce:
  assumes "ingest_prefix env st x now ph = (Inr ig, st')"
  shows "held (now + ceil_div (r_ttl_ms x) 1000 * 1000) (st_cache st') (nonce_key (r_org_id x) (r_nonce x))"
    and "\<not> held now (st_cache st) (nonce_key (r_org_id x) (r_nonce x))"
    and "now \<le> r_issued_at x + r_ttl_ms x"
proof -
  from assms have c: "set_if_absent now (nonce_key (r_org_id x) (r_nonce x)) ''1'' (ceil_div (r_ttl_ms x) 1000) (st_cache st) = (st_cache st', True)"
    and valid: "validate_record env x now ph = None"
    by (auto elim: ingest_prefix_cases)
  show "held (now + ceil_div (r_ttl_ms x) 1000 * 1000) (st_cache st') (nonce_key (r_org_id x) (r_nonce x))"
    by (rule held_accepted[OF c])
  show "\<not> held now (st_cache st) (nonce_key (r_org_id x) (r_nonce x))"
    using held_rejected[OF _ order_refl c] by blast
  show "now \<le> r_issued_at x + r_ttl_ms x"
    using valid by (auto simp: validate_record_def split: if_splits option.splits)
qed

lemma serve_accepted_nonce:
  assumes "serve env app rapp now org q (st, g) = (Inr (), st', g')" and "nonce_of org q = Some (k, ttl)"
  shows "held (now + ceil_div ttl 1000 * 1000) (st_cache st') k" and "\<not> held now (st_cache st) k"
    and "entry_of q = Some (a, prev, (h, i, issued)) \<Longrightarrow> now \<le> issued + ttl"
proof -
  have "held (now + ceil_div ttl 1000 * 1000) (st_cache st') k \<and> \<not> held now (st_cache st) k
    \<and> (entry_of q = Some (a, prev, (h, i, issued)) \<longrightarrow> now \<le> issued + ttl)"
  proof (cases q)
    case (SubmitRequest e rid)
    let ?e = "e\<lparr>e_org_id := org\<rparr>"
    from assms have q: "k = nonce_key org (e_nonce e)" "ttl = e_ttl_ms e" by (simp_all add: SubmitRequest)
    from assms(1) obtain r where "submit_operation (se_prims env) st ?e (se_signing_key env) now rid = (Inr r, st')"
      by (cases "submit_operation (se_prims env) st ?e (se_signing_key env) now rid")
        (auto simp: SubmitRequest respond_def submit_route_def no_body_def split: if_splits sum.splits)
    from submit_accepted_nonce[OF this] show ?thesis by (simp add: q SubmitRequest)
  next
    case (DecideRequest r served latency)
    let ?ck = "\<lparr>ck_received_at = now, ck_served_at = served, ck_latency_ms = latency\<rparr>" and ?r = "r\<lparr>r_org_id := org\<rparr>"
    from assms have q: "k = nonce_key org (r_nonce r)" "ttl = r_ttl_ms r" by (simp_all add: DecideRequest)
    from assms(1) obtain v where d: "decide env app ?ck (st, g) ?r = (Inr v, st', g')"
      by (cases "decide env app ?ck (st, g) ?r") (auto simp: DecideRequest decide_route_def no_body_def split: sum.splits)
    then show ?thesis
    proof (cases rule: decide_cases)
      case (decided ig st1 v0 v1)
      have "held e (st_cache st') k = held e (st_cache st') k" for e by simp
      from prefix_accepted_nonce[OF decided(1)] show ?thesis
        by (simp add: q DecideRequest decided(5) commit_decision_def Let_def held_fan)
    qed simp_all
  next
    case (RecordRequest r)
    let ?r = "r\<lparr>r_org_id := org\<rparr>"
    from assms have q: "k = nonce_key org (r_nonce r)" "ttl = r_ttl_ms r" by (simp_all add: RecordRequest)
    obtain pre st1 where pre: "ingest_prefix env st ?r now POST_EXEC = (pre, st1)"
      by (cases "ingest_prefix env st ?r now POST_EXEC")
    with assms(1) obtain ig where ig: "pre = Inr ig" and st': "st' = commit_record env st1 ?r ig now"
      by (cases pre) (auto simp: RecordRequest record_route_def record_outcome_def respond_def no_body_def)
    from prefix_accepted_nonce[OF pre[unfolded ig]] show ?thesis
      by (simp add: q RecordRequest st' commit_record_def held_fan)
  qed (use assms(2) in auto)
  then show "held (now + ceil_div ttl 1000 * 1000) (st_cache st') k" "\<not> held now (st_cache st) k"
    "entry_of q = Some (a, prev, (h, i, issued)) \<Longrightarrow> now \<le> issued + ttl" by auto
qed

text \<open>
C18. Once a request with a nonce was accepted, no request of the organisation with that nonce is
accepted until the time to live of the first has passed, whichever of the three ingest routes it
uses and whatever the server served in between.
\<close>

theorem nonce_is_not_reused:
  assumes "serve env app rapp t1 org q1 (st0, g0) = (Inr (), st1, g1)"
    and "server_run env app rapp allowed (st1, g1, t1) (st2, g2, t2)" and "t2 \<le> t3"
    and "nonce_of org q1 = Some (k, ttl)" and "nonce_of org q2 = Some (k, ttl2)"
    and "t3 \<le> t1 + ceil_div ttl 1000 * 1000"
  shows "\<exists>f st3 g3. serve env app rapp t3 org q2 (st2, g2) = (Inl f, st3, g3)"
proof -
  obtain res st3 g3 where s: "serve env app rapp t3 org q2 (st2, g2) = (res, st3, g3)"
    by (cases "serve env app rapp t3 org q2 (st2, g2)")
  have "held (t1 + ceil_div ttl 1000 * 1000) (st_cache st1) k"
    by (rule serve_accepted_nonce(1)[OF assms(1,4)])
  then have "held (t1 + ceil_div ttl 1000 * 1000) (st_cache st2) k"
    using run_held[OF assms(2), of "t1 + ceil_div ttl 1000 * 1000" k] assms(3,6) by simp
  then have "held t3 (st_cache st2) k" using assms(6) by (auto simp: held_def)
  then have "res \<noteq> Inr ()" using serve_accepted_nonce(2)[of env app rapp t3 org q2 st2 g2 st3 g3 k ttl2] s assms(5) by auto
  then show ?thesis using s by (cases res) auto
qed


section \<open>Two decisions at once\<close>

text \<open>
Two decisions that overlap (the second record of the agent is admitted while the governance
application still decides on the first) are both committed on the in-memory storage, with one
sequence number and one predecessor: the chain of the agent forks.
\<close>

theorem overlapping_decides_fork_the_chain:
  assumes "ingest_prefix env st r1 t1 PRE_EXEC = (Inr ig1, st1)"
    and "ingest_prefix env st1 r2 t2 PRE_EXEC = (Inr ig2, st2)"
    and "r_agent_id r1 = r_agent_id r2" and "r_record_id r1 \<noteq> r_record_id r2"
    and "dget (d_operations (st_db st)) (r_record_id r1) = None" and "dget (d_operations (st_db st)) (r_record_id r2) = None"
    and "st' = commit_decision env (commit_decision env st2 r1 ig1 v1 t1) r2 ig2 v2 t2"
  shows "\<not> chains_ok (se_prims env) (st_db st')
    \<and> (\<exists>xs x y. operations_of (st_db st') (r_agent_id r1) = xs @ [x, y] \<and> o_operation_id x = r_record_id r1
        \<and> o_operation_id y = r_record_id r2 \<and> o_seq_no x = o_seq_no y \<and> o_prev_chain_hash x = o_prev_chain_hash y)"
proof -
  let ?x = "record_row (se_prims env) r1 ig1 t1" and ?y = "record_row (se_prims env) r2 ig2 t2"
  have db: "st_db st2 = st_db st" "st_db st1 = st_db st"
    using prefix_db[OF assms(1)] prefix_db[OF assms(2)] by simp_all
  have ig: "ig_next_seq ig1 = next_seq (st_db st) (r_agent_id r1)" "ig_next_seq ig2 = next_seq (st_db st) (r_agent_id r1)"
    using assms(1,2) by (auto elim!: ingest_prefix_cases simp: db assms(3))
  have prev: "r_prev_chain_hash r1 = r_prev_chain_hash r2"
    using assms(1,2) by (auto elim!: ingest_prefix_cases simp: admit_record_iff db assms(3))
  have ops: "d_operations (st_db st') = d_operations (insert_operation ?y (insert_operation ?x (st_db st)))"
    by (simp add: assms(7) commit_decision_db db insert_operation_def)
  have f: "fresh_operation (st_db st) ?x" "fresh_operation (insert_operation ?x (st_db st)) ?y"
    using assms(4-6) by (simp_all add: fresh_operation_def insert_operation_def record_row_def)
  have h: "operations_of (st_db st') (r_agent_id r1) = operations_of (st_db st) (r_agent_id r1) @ [?x, ?y]"
    unfolding operations_of_cong[OF ops] ops.history_append[OF f(2)] ops.history_append[OF f(1)]
    by (simp add: record_row_def assms(3))
  have xy: "o_operation_id ?x = r_record_id r1" "o_operation_id ?y = r_record_id r2" "o_seq_no ?x = o_seq_no ?y"
    "o_prev_chain_hash ?x = o_prev_chain_hash ?y"
    by (simp_all add: record_row_def ig prev)
  have "\<not> linked (se_prims env) GENESIS_CHAIN_HASH 1 (operations_of (st_db st') (r_agent_id r1))"
    using xy(3) by (simp add: h linked_append)
  then have "\<not> chains_ok (se_prims env) (st_db st')" unfolding chains_ok_def by blast
  with h xy show ?thesis by blast
qed

section \<open>Instances\<close>

lemma demo_prefix_at:
  assumes "\<not> blank rid" and "\<not> blank nonce" and "length nonce \<le> 64" and "st_db st = st_db demo_storage"
    and "\<not> cache_holds 2000 (st_cache st) (nonce_key ''demo-org'' nonce)"
  shows "\<exists>ig c. ingest_prefix demo_env st (signed_record rid nonce GENESIS_CHAIN_HASH) 2000 PRE_EXEC
     = (Inr ig, st\<lparr>st_cache := c, st_objects := object_put (record_key (signed_record rid nonce GENESIS_CHAIN_HASH))
          (RecordEnvelope (signed_record rid nonce GENESIS_CHAIN_HASH)) (st_objects st)\<rparr>)
     \<and> set_if_absent 2000 (nonce_key ''demo-org'' nonce) ''1'' 30 (st_cache st) = (c, True)"
proof -
  let ?r = "signed_record rid nonce GENESIS_CHAIN_HASH"
  obtain res st' where s: "ingest_prefix demo_env st ?r 2000 PRE_EXEC = (res, st')"
    by (cases "ingest_prefix demo_env st ?r 2000 PRE_EXEC")
  then show ?thesis
  proof (cases rule: ingest_prefix_cases)
    case (rejected f)
    then show ?thesis
      using signed_record_valid[OF assms(1,2) GENESIS_not_blank assms(3)] demo_admits[of rid nonce] assms(4,5)
      by (simp add: demo_env_def signed_record_sel)
  next
    case (accepted c)
    with s show ?thesis by (simp add: signed_record_sel ceil_div_def)
  qed
qed

lemma nonce_key_demo: "nonce_key ''demo-org'' ''n-2'' \<noteq> nonce_key ''demo-org'' ''n-1''"
  by (simp add: nonce_key_def)

theorem overlapping_decides_fork_the_chain_witness:
  "\<exists>(st' :: storage) xs x y. operations_of (st_db st') ''agentdojo-banking-v1'' = xs @ [x, y] \<and> o_operation_id x = ''rec-1''
     \<and> o_operation_id y = ''rec-2'' \<and> o_seq_no x = o_seq_no y"
proof -
  let ?r1 = "signed_record ''rec-1'' ''n-1'' GENESIS_CHAIN_HASH" and ?r2 = "signed_record ''rec-2'' ''n-2'' GENESIS_CHAIN_HASH"
  obtain ig1 c1 where p1: "ingest_prefix demo_env demo_storage ?r1 2000 PRE_EXEC = (Inr ig1,
      demo_storage\<lparr>st_cache := c1, st_objects := object_put (record_key ?r1) (RecordEnvelope ?r1) (st_objects demo_storage)\<rparr>)"
    and c1: "set_if_absent 2000 (nonce_key ''demo-org'' ''n-1'') ''1'' 30 (st_cache demo_storage) = (c1, True)"
    using demo_prefix_at[of "''rec-1''" "''n-1''" demo_storage] by (auto simp: blank_def is_space_def demo_storage_select)
  have "\<not> cache_holds 2000 c1 (nonce_key ''demo-org'' ''n-2'')"
    using nonces.holds_accepted[of 2000 "st_cache demo_storage" "nonce_key ''demo-org'' ''n-1''" 2000 "''1''" 30 "nonce_key ''demo-org'' ''n-2''"]
      c1 nonce_key_demo by (simp add: demo_storage_select)
  then obtain ig2 st2 where p2: "ingest_prefix demo_env (demo_storage\<lparr>st_cache := c1,
      st_objects := object_put (record_key ?r1) (RecordEnvelope ?r1) (st_objects demo_storage)\<rparr>) ?r2 2000 PRE_EXEC = (Inr ig2, st2)"
    using demo_prefix_at[of "''rec-2''" "''n-2''" "demo_storage\<lparr>st_cache := c1,
      st_objects := object_put (record_key ?r1) (RecordEnvelope ?r1) (st_objects demo_storage)\<rparr>"]
    by (auto simp: blank_def is_space_def)
  let ?st = "commit_decision demo_env (commit_decision demo_env st2 ?r1 ig1 demo_verdict 2000) ?r2 ig2 demo_verdict 2000"
  have "\<exists>xs x y. operations_of (st_db ?st) ''agentdojo-banking-v1'' = xs @ [x, y] \<and> o_operation_id x = ''rec-1''
     \<and> o_operation_id y = ''rec-2'' \<and> o_seq_no x = o_seq_no y \<and> o_prev_chain_hash x = o_prev_chain_hash y"
    using overlapping_decides_fork_the_chain[OF p1 p2 _ _ _ _ refl, of demo_verdict demo_verdict]
    by (simp add: signed_record_sel demo_storage_select)
  then show ?thesis by blast
qed

text \<open>A run: an operation is submitted, and submitted again.\<close>

lemma demo_serve:
  "\<exists>st'. serve demo_env (null_app ''v-9'') (null_resume ''v-9'') 2000 ''demo-org'' (SubmitRequest demo_eor ''r-1'') (demo_storage, ())
     = (Inr (), st', ())"
proof -
  have e: "demo_eor\<lparr>e_org_id := ''demo-org''\<rparr> = demo_eor" using demo_eor_fields(1) by simp
  have ne: "e_operation_id demo_eor \<noteq> []" by (simp add: demo_eor_fields)
  obtain r st' where "submit_operation demo_prims demo_storage demo_eor demo_key 2000 ''r-1'' = (Inr r, st')"
    using demo_submit by blast
  then show ?thesis using ne by (simp add: submit_route_def respond_def no_body_def demo_env_def e)
qed

theorem server_refines_log_witness:
  "\<exists>st' :: storage. log_step demo_prims (log_of (st_db demo_storage))
     (Some (''agentdojo-banking-v1'', GENESIS_CHAIN_HASH, (e_payload_hash demo_eor, ''op-1'', 1000))) (log_of (st_db st'))"
proof -
  obtain st' where s: "serve demo_env (null_app ''v-9'') (null_resume ''v-9'') 2000 ''demo-org''
      (SubmitRequest demo_eor ''r-1'') (demo_storage, ()) = (Inr (), st', ())" using demo_serve by blast
  have "chains_ok (se_prims demo_env) (st_db demo_storage)"
    by (simp add: chains_ok_def operations_of_def demo_storage_select dvalues_def)
  from server_refines_log[OF this s]
  have "log_step demo_prims (log_of (st_db demo_storage))
     (Some (''agentdojo-banking-v1'', GENESIS_CHAIN_HASH, (e_payload_hash demo_eor, ''op-1'', 1000))) (log_of (st_db st'))"
    by (simp add: unused_id_def label_of_def demo_eor_fields demo_storage_select demo_env_def)
  then show ?thesis by (rule exI)
qed

theorem history_is_append_only_witness:
  "\<exists>st' :: storage. prefix (operations_of (st_db demo_storage) ''agentdojo-banking-v1'') (operations_of (st_db st') ''agentdojo-banking-v1'')
     \<and> linked demo_prims GENESIS_CHAIN_HASH 1 (operations_of (st_db st') ''agentdojo-banking-v1'')
     \<and> length (log_of (st_db st') ''agentdojo-banking-v1'') = 1"
proof -
  obtain st' where s: "serve demo_env (null_app ''v-9'') (null_resume ''v-9'') 2000 ''demo-org''
      (SubmitRequest demo_eor ''r-1'') (demo_storage, ()) = (Inr (), st', ())" using demo_serve by blast
  let ?run = "server_run demo_env (null_app ''v-9'') (null_resume ''v-9'') unused_id"
  have u: "unused_id (st_db demo_storage) (SubmitRequest demo_eor ''r-1'')"
    by (simp add: unused_id_def demo_storage_select)
  have "?run (demo_storage, (), 0) (st', (), 2000)"
    by (rule server_run.more[OF server_run.here]) (use u s in \<open>auto intro: server_step.step\<close>)
  from history_is_append_only[OF server_run.here this, of "''agentdojo-banking-v1''"]
  have h: "prefix (operations_of (st_db demo_storage) ''agentdojo-banking-v1'') (operations_of (st_db st') ''agentdojo-banking-v1'')"
    "linked demo_prims GENESIS_CHAIN_HASH 1 (operations_of (st_db st') ''agentdojo-banking-v1'')"
    by (simp_all add: demo_storage_select demo_env_def)
  have "ingests demo_prims (st_db demo_storage) (st_db st')
      (''agentdojo-banking-v1'', GENESIS_CHAIN_HASH, (e_payload_hash demo_eor, ''op-1'', 1000))"
    using serve_operations[OF s] by (simp add: label_of_def demo_eor_fields demo_env_def)
  from ingests_append(3)[OF _ this]
  obtain x where "operations_of (st_db st') = (operations_of (st_db demo_storage))
      (''agentdojo-banking-v1'' := operations_of (st_db demo_storage) ''agentdojo-banking-v1'' @ [x])"
    by (auto simp: chains_ok_def operations_of_def demo_storage_select dvalues_def)
  then have "length (log_of (st_db st') ''agentdojo-banking-v1'') = 1"
    by (simp add: log_of_def) (simp add: operations_of_def demo_storage_select dvalues_def)
  with h show ?thesis by blast
qed

theorem nonce_is_not_reused_witness:
  "\<exists>st' f st3. serve demo_env (null_app ''v-9'') (null_resume ''v-9'') 2000 ''demo-org'' (SubmitRequest demo_eor ''r-1'') (demo_storage, ())
       = (Inr (), st', ())
     \<and> serve demo_env (null_app ''v-9'') (null_resume ''v-9'') 9000 ''demo-org''
         (RecordRequest (signed_record ''rec-1'' ''n-1'' GENESIS_CHAIN_HASH)) (st', ()) = (Inl f, st3, ())"
proof -
  obtain st' where s: "serve demo_env (null_app ''v-9'') (null_resume ''v-9'') 2000 ''demo-org''
      (SubmitRequest demo_eor ''r-1'') (demo_storage, ()) = (Inr (), st', ())" using demo_serve by blast
  from nonce_is_not_reused[OF s server_run.here[of _ _ _ "\<lambda>_ _. True"], of 9000 _ 30000
      "RecordRequest (signed_record ''rec-1'' ''n-1'' GENESIS_CHAIN_HASH)" 30000] s
  show ?thesis by (auto simp: demo_eor_fields signed_record_sel ceil_div_def)
qed


end
