(* ===== verification/AuditQuery.thy ===== *)
theory AuditQuery
  imports Server
begin

text \<open>
  The audit query (\<open>audit.py\<close>): filters, keyset pagination and cursors.  A cursor is the base64url
  text of a JSON object with the key of the last row of a page; \<open>json.loads\<close> is the argument
  \<open>loads\<close> (None is a ValueError), of which the facts use that it reads back what
  \<open>json.dumps\<close> wrote.

  The pagination that the queries of the server share is one interface, the locale \<open>keyset\<close>: a page
  is the next rows after a cursor, and the cursor it returns is the key of its last row.  Its lemma
  is that a client that follows the cursors gets every row once, in order.
\<close>

section \<open>Pages\<close>

definition MAX_QUERY_LIMIT :: int where "MAX_QUERY_LIMIT = 1000"
definition DEFAULT_QUERY_LIMIT :: int where "DEFAULT_QUERY_LIMIT = 100"

definition clamp_limit :: "int option \<Rightarrow> nat" where
  "clamp_limit limit =
     nat (min (max (case limit of None \<Rightarrow> DEFAULT_QUERY_LIMIT
                    | Some n \<Rightarrow> if n = 0 then DEFAULT_QUERY_LIMIT else n) 1) MAX_QUERY_LIMIT)"

lemma clamp_limit_bounds: "1 \<le> clamp_limit limit \<and> clamp_limit limit \<le> 1000"
  by (auto simp: clamp_limit_def MAX_QUERY_LIMIT_def DEFAULT_QUERY_LIMIT_def split: option.split)

definition after_cursor :: "('r \<Rightarrow> int \<times> string) \<Rightarrow> (int \<times> string) option \<Rightarrow> 'r list \<Rightarrow> 'r list" where
  "after_cursor key cur rows =
     (case cur of None \<Rightarrow> rows
      | Some (c_created, c_id) \<Rightarrow>
          filter (\<lambda>r. fst (key r) < c_created \<or> (fst (key r) = c_created \<and> snd (key r) < c_id)) rows)"

lemma after_cursor_less: "after_cursor key (Some c) rows = filter (\<lambda>r. key r < c) rows"
proof -
  have "(fst k < fst c \<or> fst k = fst c \<and> snd k < snd c) = (k < c)" for k
    by (cases k; cases c) auto
  then show ?thesis by (cases c) (simp add: after_cursor_def)
qed

definition keyset_page ::
  "('r \<Rightarrow> int \<times> string) \<Rightarrow> 'r list \<Rightarrow> nat \<Rightarrow> (int \<times> string) option \<Rightarrow> 'r list \<times> (int \<times> string) option" where
  "keyset_page key rows limit cur =
     (let rest = after_cursor key cur (sort_desc key rows);
          page = take (limit + 1) rest;
          has_more = length page > limit;
          out = (if has_more then take limit page else page) in
      (out, if has_more \<and> out \<noteq> [] then Some (key (last out)) else None))"

text \<open>A client that follows cursors; the fuel bounds the number of pages it asks for.\<close>

fun walk :: "('c option \<Rightarrow> 'r list \<times> 'c option) \<Rightarrow> nat \<Rightarrow> 'c option \<Rightarrow> 'r list list option" where
  "walk fetch 0 c = None"
| "walk fetch (Suc n) c =
     (case fetch c of
        (out, None) \<Rightarrow> Some [out]
      | (out, Some c') \<Rightarrow> map_option ((#) out) (walk fetch n (Some c')))"

locale keyset =
  fixes fetch :: "('r \<Rightarrow> int \<times> string) \<Rightarrow> 'r list \<Rightarrow> nat \<Rightarrow> (int \<times> string) option \<Rightarrow> 'r list \<times> (int \<times> string) option"
  assumes fetch_after: "distinct (map key rows) \<Longrightarrow> sort_desc key rows = xs @ ys \<Longrightarrow> 0 < limit \<Longrightarrow>
      cur = (if xs = [] then None else Some (key (last xs))) \<Longrightarrow>
      fetch key rows limit cur = (take limit ys, if limit < length ys then Some (key (last (take limit ys))) else None)"
begin

lemma walk_from:
  assumes "distinct (map key rows)" and "sort_desc key rows = xs @ ys" and "0 < limit"
    and "length ys < n" and "cur = (if xs = [] then None else Some (key (last xs)))"
  shows "\<exists>pages. walk (fetch key rows limit) n cur = Some pages \<and> concat pages = ys
    \<and> (\<forall>page \<in> set pages. length page \<le> limit)"
  using assms(2,4,5)
proof (induction n arbitrary: xs ys cur)
  case (Suc n)
  note f = fetch_after[OF assms(1) Suc.prems(1) assms(3) Suc.prems(3)]
  show ?case
  proof (cases "limit < length ys")
    case False
    with f show ?thesis by simp
  next
    case True
    let ?out = "take limit ys"
    from True assms(3) have ne: "?out \<noteq> []" by auto
    have "sort_desc key rows = (xs @ ?out) @ drop limit ys" using Suc.prems(1) by simp
    moreover have "length (drop limit ys) < n" using Suc.prems(2) assms(3) True by simp
    ultimately have "\<exists>pages. walk (fetch key rows limit) n (Some (key (last ?out))) = Some pages
        \<and> concat pages = drop limit ys \<and> (\<forall>page \<in> set pages. length page \<le> limit)"
      by (rule Suc.IH) (use ne in simp)
    then show ?thesis using True f by auto
  qed
qed simp

lemma walk_all:
  assumes "distinct (map key rows)" and "0 < limit" and "length rows < n"
  shows "\<exists>pages. walk (fetch key rows limit) n None = Some pages \<and> concat pages = sort_desc key rows
    \<and> (\<forall>page \<in> set pages. length page \<le> limit)"
  using walk_from[OF assms(1) _ assms(2), of "[]" "sort_desc key rows" n None] assms(3) by simp

end

lemma sorted_desc_keys:
  fixes key :: "'a \<Rightarrow> 'b::linorder"
  assumes "distinct (map key rows)"
  shows "sorted_wrt (>) (map key (sort_desc key rows))"
proof -
  have "mset (map key (sort_desc key rows)) = mset (map key rows)" by (simp add: sort_desc_def)
  then have "distinct (map key (sort_desc key rows))" using assms by (metis mset_eq_imp_distinct_iff)
  moreover have "sorted_wrt (\<ge>) ks \<Longrightarrow> distinct ks \<Longrightarrow> sorted_wrt (>) ks" for ks :: "'b list"
    by (induction ks) (auto simp: order_less_le)
  ultimately show ?thesis using sorted_sort_desc[of key rows] by blast
qed

interpretation pages: keyset keyset_page
proof unfold_locales
  fix key :: "'r \<Rightarrow> int \<times> string" and rows xs ys limit cur
  assume d: "distinct (map key rows)" and s: "sort_desc key rows = xs @ ys" and l: "0 < (limit::nat)"
    and c: "cur = (if xs = [] then None else Some (key (last xs)))"
  have srt: "sorted_wrt (>) (map key xs @ map key ys)"
    using sorted_desc_keys[OF d] by (simp add: s)
  have "after_cursor key cur (xs @ ys) = ys"
  proof (cases "xs = []")
    case True
    with c show ?thesis by (simp add: after_cursor_def)
  next
    case False
    from False obtain zs z where z: "xs = zs @ [z]" by (cases xs rule: rev_exhaust) auto
    have up: "\<forall>x \<in> set zs. key z < key x" and down: "\<forall>y \<in> set ys. key y < key z"
      using srt by (auto simp: z sorted_wrt_append)
    have "\<forall>x \<in> set xs. \<not> key x < key (last xs)"
      using up by (auto simp: z dest: order_less_not_sym)
    moreover have "\<forall>y \<in> set ys. key y < key (last xs)" using down by (simp add: z)
    ultimately show ?thesis using False c
      by (simp add: after_cursor_less filter_empty_conv)
  qed
  then show "keyset_page key rows limit cur = (take limit ys, if limit < length ys then Some (key (last (take limit ys))) else None)"
    using l by (auto simp: keyset_page_def Let_def s min_def)
qed


section \<open>Cursors\<close>

definition cursor_json :: "int \<times> string \<Rightarrow> string" where
  "cursor_json k = ''{'' @ ascii_quote ''created_at'' @ '': '' @ show_int (fst k) @ '', ''
     @ ascii_quote ''id'' @ '': '' @ ascii_quote (snd k) @ ''}''"

definition encode_cursor :: "int \<times> string \<Rightarrow> string" where
  "encode_cursor k = base64url_encode (utf8 (cursor_json k))"

text \<open>A Boolean is an \<open>int\<close> of Python.\<close>

definition as_int :: "json option \<Rightarrow> int option" where
  "as_int v = (case v of Some (JInt i) \<Rightarrow> Some i | Some (JBool b) \<Rightarrow> Some (if b then 1 else 0) | _ \<Rightarrow> None)"

definition as_str :: "json option \<Rightarrow> string option" where
  "as_str v = (case v of Some (JStr s) \<Rightarrow> Some s | _ \<Rightarrow> None)"

definition decode_cursor :: "(bytes \<Rightarrow> json option) \<Rightarrow> string \<Rightarrow> (int \<times> string) option" where
  "decode_cursor loads cursor =
     (case base64url_decode cursor of
        Inl _ \<Rightarrow> None
      | Inr raw \<Rightarrow>
        (case loads raw of
           Some (JObj parsed) \<Rightarrow>
             (case (as_int (dget parsed ''created_at''), as_str (dget parsed ''id'')) of
                (Some created_at, Some op_id) \<Rightarrow> Some (created_at, op_id) | _ \<Rightarrow> None)
         | _ \<Rightarrow> None))"

text \<open>What the facts assume of \<open>json.loads\<close> for one key.\<close>

definition loads_cursor :: "(bytes \<Rightarrow> json option) \<Rightarrow> int \<times> string \<Rightarrow> bool" where
  "loads_cursor loads k \<longleftrightarrow>
     loads (utf8 (cursor_json k)) = Some (JObj [(''created_at'', JInt (fst k)), (''id'', JStr (snd k))])"

lemma decode_encode_cursor: "loads_cursor loads k \<Longrightarrow> decode_cursor loads (encode_cursor k) = Some k"
  by (simp add: decode_cursor_def encode_cursor_def base64url_roundtrip loads_cursor_def as_int_def as_str_def)

lemma encode_cursor_nonempty [simp]: "encode_cursor k \<noteq> []"
proof
  assume "encode_cursor k = []"
  then have "encode_cursor k = base64url_encode []" by (simp add: base64url_encode_core)
  then have "utf8 (cursor_json k) = utf8 []" by (simp add: encode_cursor_def base64url_encode_inject utf8_def)
  then show False by (simp only: utf8_inject) (simp add: cursor_json_def)
qed

text \<open>The cursor parameter of a request: absent or empty is no cursor.\<close>

definition cursor_param :: "(bytes \<Rightarrow> json option) \<Rightarrow> string option \<Rightarrow> failure + (int \<times> string) option" where
  "cursor_param loads cursor =
     (case cursor of
        None \<Rightarrow> Inr None
      | Some c \<Rightarrow> if c = [] then Inr None
          else (case decode_cursor loads c of
                  None \<Rightarrow> Inl (validation_error ''Invalid cursor.'') | Some k \<Rightarrow> Inr (Some k)))"

lemma cursor_param_encode [simp]:
  "cursor_param loads None = Inr None"
  "loads_cursor loads k \<Longrightarrow> cursor_param loads (Some (encode_cursor k)) = Inr (Some k)"
  by (simp_all add: cursor_param_def decode_encode_cursor)

section \<open>The audit query\<close>

record audit_params =
  q_agent_id :: "string option"
  q_operation_type :: "string option"
  q_start_time :: "int option"
  q_end_time :: "int option"
  q_cursor :: "string option"
  q_limit :: "int option"

record audit_response =
  ar_operations :: "operation list"
  ar_cursor :: "string option"
  ar_total_count :: nat

definition wanted :: "string option \<Rightarrow> string \<Rightarrow> bool" where
  "wanted param value = (case param of None \<Rightarrow> True | Some p \<Rightarrow> p = [] \<or> value = p)"

definition audit_filter :: "audit_params \<Rightarrow> string \<Rightarrow> operation \<Rightarrow> bool" where
  "audit_filter q org_id x \<longleftrightarrow>
     o_org_id x = org_id \<and> wanted (q_agent_id q) (o_agent_id x) \<and> wanted (q_operation_type q) (o_operation_type x)
     \<and> (case q_start_time q of None \<Rightarrow> True | Some t \<Rightarrow> t \<le> o_created_at x)
     \<and> (case q_end_time q of None \<Rightarrow> True | Some t \<Rightarrow> o_created_at x \<le> t)"

definition negative :: "int option \<Rightarrow> bool" where
  "negative t = (case t of None \<Rightarrow> False | Some n \<Rightarrow> n < 0)"

definition query_audit ::
  "(bytes \<Rightarrow> json option) \<Rightarrow> database \<Rightarrow> audit_params \<Rightarrow> string \<Rightarrow> failure + audit_response" where
  "query_audit loads db q org_id =
     (if negative (q_start_time q) then Inl (validation_error ''Invalid start_time.'')
      else if negative (q_end_time q) then Inl (validation_error ''Invalid end_time.'')
      else rbind (cursor_param loads (q_cursor q)) (\<lambda>cur.
        let ops = filter (audit_filter q org_id) (dvalues (d_operations db));
            (out, next) = keyset_page row_key ops (clamp_limit (q_limit q)) cur in
        Inr \<lparr>ar_operations = out, ar_cursor = map_option encode_cursor next, ar_total_count = length ops\<rparr>))"

text \<open>A client that repeats the query with the cursor it got.\<close>

definition audit_fetch ::
  "(bytes \<Rightarrow> json option) \<Rightarrow> database \<Rightarrow> audit_params \<Rightarrow> string \<Rightarrow> string option \<Rightarrow> operation list \<times> string option" where
  "audit_fetch loads db q org_id cursor =
     (case query_audit loads db (q\<lparr>q_cursor := cursor\<rparr>) org_id of
        Inl _ \<Rightarrow> ([], None) | Inr resp \<Rightarrow> (ar_operations resp, ar_cursor resp))"

lemma keyset_page_cursor:
  assumes "keyset_page key rows limit cur = (out, Some k)"
  shows "k \<in> key ` set rows"
proof -
  have sub: "set (after_cursor key cur xs) \<subseteq> set xs" for xs
    by (auto simp: after_cursor_def split: option.splits)
  from assms have "k = key (last out)" "out \<noteq> []" "set out \<subseteq> set rows"
    using sub[of "sort_desc key rows"] by (auto simp: keyset_page_def Let_def split: if_splits dest!: in_set_takeD)
  then show ?thesis using last_in_set by fastforce
qed

text \<open>
  An endpoint that pages with encoded cursors and shows each row in its own way: as long as the
  cursors of its rows can be read back, the client gets every row once, in order.
\<close>

lemma walk_encoded:
  assumes "\<And>c out nxt. fetch c = (out, nxt) \<Longrightarrow> good c \<Longrightarrow>
      coded (map_option enc c) = (map view out, map_option enc nxt) \<and> good nxt" and "good c"
  shows "walk coded n (map_option enc c) = map_option (map (map view)) (walk fetch n c)"
  using assms(2)
proof (induction n arbitrary: c)
  case (Suc n)
  obtain out nxt where f: "fetch c = (out, nxt)" by (cases "fetch c")
  from assms(1)[OF f Suc.prems] have g: "coded (map_option enc c) = (map view out, map_option enc nxt)" "good nxt" by auto
  show ?case
  proof (cases nxt)
    case (Some k)
    with Suc.IH[of nxt] g f show ?thesis by (cases "walk fetch n (Some k)") simp_all
  qed (use g f in simp)
qed simp

lemma endpoint_pages:
  assumes "distinct (map key rows)" and "0 < limit" and "length rows < n"
    and "\<forall>x \<in> set rows. loads_cursor loads (key x)"
    and "\<And>c cur. cursor_param loads c = Inr cur \<Longrightarrow> endpoint c =
        (map view (fst (keyset_page key rows limit cur)), map_option encode_cursor (snd (keyset_page key rows limit cur)))"
  shows "\<exists>pages. walk endpoint n None = Some pages \<and> concat pages = map view (sort_desc key rows)
    \<and> (\<forall>page \<in> set pages. length page \<le> limit)"
proof -
  let ?good = "\<lambda>c. case c of None \<Rightarrow> True | Some k \<Rightarrow> loads_cursor loads k"
  have step: "endpoint (map_option encode_cursor c) = (map view out, map_option encode_cursor nxt) \<and> ?good nxt"
    if p: "keyset_page key rows limit c = (out, nxt)" and g: "?good c" for c out nxt
  proof -
    have "cursor_param loads (map_option encode_cursor c) = Inr c" using g by (cases c) simp_all
    from assms(5)[OF this] p have "endpoint (map_option encode_cursor c) = (map view out, map_option encode_cursor nxt)" by simp
    moreover have "?good nxt"
      using assms(4) keyset_page_cursor[of key rows limit c out] p by (auto split: option.split)
    ultimately show ?thesis by simp
  qed
  have "walk endpoint n (map_option encode_cursor None)
      = map_option (map (map view)) (walk (keyset_page key rows limit) n None)"
    by (rule walk_encoded[where good = ?good]) (use step in auto)
  moreover obtain pages where p: "walk (keyset_page key rows limit) n None = Some pages"
      "concat pages = sort_desc key rows" "\<forall>page \<in> set pages. length page \<le> limit"
    using pages.walk_all[OF assms(1-3)] by blast
  ultimately have "walk endpoint n None = Some (map (map view) pages)" by simp
  moreover have "concat (map (map view) pages) = map view (sort_desc key rows)"
    using p(2) by (simp flip: map_concat)
  ultimately show ?thesis using p(3) by auto
qed

text \<open>
C20. A client that repeats the audit query with the cursor of the page before gets every operation that
matches its filters exactly once, newest first, in pages of at most the limit, and is told when it
has them all.
\<close>

theorem audit_pages_are_complete:
  assumes "dict_ok (d_operations db)" and "\<forall>(i, x) \<in> set (d_operations db). o_operation_id x = i"
    and "\<not> negative (q_start_time q)" and "\<not> negative (q_end_time q)"
    and "\<forall>x \<in> set (dvalues (d_operations db)). loads_cursor loads (row_key x)"
  shows "\<exists>pages. walk (audit_fetch loads db q org) (length (d_operations db) + 1) None = Some pages
    \<and> concat pages = sort_desc row_key (filter (audit_filter q org) (dvalues (d_operations db)))
    \<and> (\<forall>page \<in> set pages. length page \<le> clamp_limit (q_limit q))"
proof -
  let ?rows = "filter (audit_filter q org) (dvalues (d_operations db))"
  have "distinct (map o_operation_id (dvalues (d_operations db)))"
  proof -
    have "map o_operation_id (dvalues (d_operations db)) = map fst (d_operations db)"
      using assms(2) by (auto simp: dvalues_def)
    then show ?thesis using assms(1) by (simp add: dict_ok_def)
  qed
  then have "distinct (map row_key (dvalues (d_operations db)))"
    by (auto simp: distinct_map inj_on_def row_key_def)
  then have d: "distinct (map row_key ?rows)" by (simp add: distinct_map_filter)
  have f: "audit_filter (q\<lparr>q_cursor := c\<rparr>) org = audit_filter q org" for c
    by (simp add: fun_eq_iff audit_filter_def)
  have "\<exists>pages. walk (audit_fetch loads db q org) (length (d_operations db) + 1) None = Some pages
    \<and> concat pages = map (\<lambda>x. x) (sort_desc row_key ?rows) \<and> (\<forall>page \<in> set pages. length page \<le> clamp_limit (q_limit q))"
  proof (rule endpoint_pages[OF d])
    show "0 < clamp_limit (q_limit q)" using clamp_limit_bounds[of "q_limit q"] by simp
    show "length ?rows < length (d_operations db) + 1"
      using length_filter_le[of "audit_filter q org" "dvalues (d_operations db)"]
      by (simp only: dvalues_def length_map Suc_eq_plus1[symmetric] less_Suc_eq_le)
    show "\<forall>x \<in> set ?rows. loads_cursor loads (row_key x)" using assms(5) by simp
  next
    fix c cur assume c: "cursor_param loads c = Inr cur"
    show "audit_fetch loads db q org c = (map (\<lambda>x. x) (fst (keyset_page row_key ?rows (clamp_limit (q_limit q)) cur)),
        map_option encode_cursor (snd (keyset_page row_key ?rows (clamp_limit (q_limit q)) cur)))"
      using c assms(3,4) by (simp add: audit_fetch_def query_audit_def f Let_def split: prod.split)
  qed
  then show ?thesis by simp
qed


text \<open>Two operations, pages of one, and a reader for the two cursors.\<close>

definition two_operations :: database where
  "two_operations = empty_database\<lparr>d_operations := [(''op-1'', demo_operation ''n1''),
     (''op-2'', (demo_operation ''n2'')\<lparr>o_operation_id := ''op-2''\<rparr>)]\<rparr>"

definition two_loads :: "bytes \<Rightarrow> json option" where
  "two_loads raw = (if raw = utf8 (cursor_json (5, ''op-1''))
     then Some (JObj [(''created_at'', JInt 5), (''id'', JStr ''op-1'')])
     else if raw = utf8 (cursor_json (5, ''op-2''))
     then Some (JObj [(''created_at'', JInt 5), (''id'', JStr ''op-2'')]) else None)"

lemma two_loads_cursors: "loads_cursor two_loads (5, ''op-1'')" "loads_cursor two_loads (5, ''op-2'')"
proof -
  have "cursor_json (5, ''op-1'') \<noteq> cursor_json (5, ''op-2'')"
    by (simp add: cursor_json_def ascii_quote_def ascii_esc_def json_esc_def)
  then show "loads_cursor two_loads (5, ''op-1'')" "loads_cursor two_loads (5, ''op-2'')"
    by (auto simp: loads_cursor_def two_loads_def utf8_inject)
qed

theorem audit_pages_are_complete_witness:
  "\<exists>pages. walk (audit_fetch two_loads two_operations
       \<lparr>q_agent_id = None, q_operation_type = None, q_start_time = Some 1, q_end_time = None, q_cursor = None, q_limit = Some 1\<rparr> ''o'') 3 None = Some pages
     \<and> map o_operation_id (concat pages) = [''op-2'', ''op-1'']"
proof -
  let ?q = "\<lparr>q_agent_id = None, q_operation_type = None, q_start_time = Some 1, q_end_time = None, q_cursor = None, q_limit = Some 1\<rparr>"
  have k: "row_key (demo_operation n) = (5, ''op-1'')" "row_key ((demo_operation n)\<lparr>o_operation_id := ''op-2''\<rparr>) = (5, ''op-2'')"
    for n by (simp_all add: row_key_def demo_operation_def)
  have v: "dvalues (d_operations two_operations) = [demo_operation ''n1'', (demo_operation ''n2'')\<lparr>o_operation_id := ''op-2''\<rparr>]"
    and l: "length (d_operations two_operations) = 2"
    by (simp_all add: two_operations_def dvalues_def)
  have f: "filter (audit_filter ?q ''o'') (dvalues (d_operations two_operations)) = dvalues (d_operations two_operations)"
    by (simp add: v audit_filter_def wanted_def demo_operation_def)
  have s: "map o_operation_id (sort_desc row_key (dvalues (d_operations two_operations))) = [''op-2'', ''op-1'']"
    by (simp add: v sort_desc_def k) (simp add: demo_operation_def)
  have "\<exists>pages. walk (audit_fetch two_loads two_operations ?q ''o'') (length (d_operations two_operations) + 1) None = Some pages
    \<and> concat pages = sort_desc row_key (filter (audit_filter ?q ''o'') (dvalues (d_operations two_operations)))
    \<and> (\<forall>page \<in> set pages. length page \<le> clamp_limit (q_limit ?q))"
    by (rule audit_pages_are_complete)
       (use two_loads_cursors k in \<open>simp_all add: v negative_def\<close>, simp_all add: two_operations_def dict_ok_def demo_operation_def)
  then show ?thesis using s f l by (auto simp: numeral_3_eq_3 simp del: walk.simps)
qed

end
