(* ===== verification/Reads.thy ===== *)
theory Reads
  imports AuditQuery
begin

text \<open>
  The read services of the console (\<open>reads.py\<close>): epochs, exports, timeline, verdict view,
  provenance graph, cost rollup, dashboard figures and incidents.  They aggregate the tables of
  the gate; the PDF renderer (\<open>export_report.py\<close>) is an argument, as is the new id of an export.
\<close>

section \<open>Stored JSON\<close>

text \<open>\<open>_load_json\<close> keeps an object that is a JSON dictionary.\<close>

definition json_object :: "stored \<Rightarrow> bool" where
  "json_object x = (case x of EvidenceEnvelope _ \<Rightarrow> False | PdfArtifact _ \<Rightarrow> False | _ \<Rightarrow> True)"

definition load_json :: "objects \<Rightarrow> string option \<Rightarrow> stored option" where
  "load_json os key =
     (case key of
        None \<Rightarrow> None
      | Some k \<Rightarrow> if k = [] then None else
        (case object_get os k of None \<Rightarrow> None | Some x \<Rightarrow> if json_object x then Some x else None))"

definition load_guardian_evidence :: "objects \<Rightarrow> verdict_row \<Rightarrow> jobj list" where
  "load_guardian_evidence os row =
     (if gv_r2_verdict_key row = [] then []
      else case object_get os (guardian_evidence_key (gv_r2_verdict_key row)) of
        Some (EvidenceEnvelope items) \<Rightarrow> items | _ \<Rightarrow> [])"

section \<open>Epochs\<close>

definition persisted_epochs :: "database \<Rightarrow> string \<Rightarrow> epoch list" where
  "persisted_epochs db org_id = sort_desc ep_created_at (filter (\<lambda>ep. ep_org_id ep = org_id) (dvalues (d_epochs db)))"

definition computed_epochs :: "prims \<Rightarrow> database \<Rightarrow> string \<Rightarrow> epoch list" where
  "computed_epochs p db org_id =
     (let persisted = persisted_epochs db org_id in
      if persisted \<noteq> [] then persisted
      else case epoch_from_operation_rows p org_id (dvalues (d_operations db)) of
        None \<Rightarrow> [] | Some ep \<Rightarrow> [ep])"

definition epochs :: "prims \<Rightarrow> storage \<Rightarrow> string \<Rightarrow> epoch list" where
  "epochs p st org_id = computed_epochs p (st_db st) org_id"

definition artifact_eer :: "objects \<Rightarrow> epoch \<Rightarrow> eer option" where
  "artifact_eer os ep =
     (case load_json os (Some (ep_r2_epoch_key ep)) of
        None \<Rightarrow> None
      | Some artifact \<Rightarrow>
        (case eer_of_stored artifact of
           None \<Rightarrow> None
         | Some r \<Rightarrow> if eer_epoch_id r = ep_epoch_id ep \<and> eer_org_id r = ep_org_id ep then Some r else None))"

definition epoch_detail ::
  "prims \<Rightarrow> storage \<Rightarrow> string \<Rightarrow> string \<Rightarrow> string \<Rightarrow> (failure + epoch \<times> eer) \<times> storage" where
  "epoch_detail p st org_id eid signing_key =
     (let persisted = persisted_epochs (st_db st) org_id;
          candidates = (if persisted \<noteq> [] then persisted else computed_epochs p (st_db st) org_id) in
      case find (\<lambda>ep. ep_epoch_id ep = eid) candidates of
        None \<Rightarrow> (Inl (app_err_msg 404 NOT_FOUND ''Epoch not found.''), st)
      | Some ep \<Rightarrow>
        (case (if persisted \<noteq> [] then artifact_eer (st_objects st) ep else None) of
           Some r \<Rightarrow> (Inr (ep, r), st)
         | None \<Rightarrow>
           (case sign_eer p ep signing_key of
              Inl exc \<Rightarrow> (Inl (PyError exc), st)
            | Inr r \<Rightarrow> (Inr (ep, r),
                st\<lparr>st_objects := object_put (ep_r2_epoch_key ep) (EpochArtifact ep r) (st_objects st)\<rparr>))))"

section \<open>Exports\<close>

datatype export_format = FORMAT_JSON | FORMAT_PDF

record export_request =
  xq_start_time :: int
  xq_end_time :: int
  xq_agent_id :: "string option"
  xq_operation_type :: "string option"
  xq_format :: export_format

fun format_value :: "export_format \<Rightarrow> string" where
  "format_value FORMAT_JSON = ''json''"
| "format_value FORMAT_PDF = ''pdf''"

definition export_rows :: "database \<Rightarrow> string \<Rightarrow> export_row list" where
  "export_rows db org_id = sort_desc xp_created_at (filter (\<lambda>r. xp_org_id r = org_id) (dvalues (d_exports db)))"

definition list_exports :: "storage \<Rightarrow> string \<Rightarrow> export_row list" where
  "list_exports st org_id = export_rows (st_db st) org_id"

definition ascii_or_null :: "string option \<Rightarrow> string" where
  "ascii_or_null s = (case s of None \<Rightarrow> ''null'' | Some x \<Rightarrow> ascii_quote x)"

definition export_query :: "export_request \<Rightarrow> string" where
  "export_query q = ''{'' @ join '',''
     [ascii_quote ''agent_id'' @ '':'' @ ascii_or_null (xq_agent_id q),
      ascii_quote ''end_time'' @ '':'' @ show_int (xq_end_time q),
      ascii_quote ''format'' @ '':'' @ ascii_quote (format_value (xq_format q)),
      ascii_quote ''operation_type'' @ '':'' @ ascii_or_null (xq_operation_type q),
      ascii_quote ''start_time'' @ '':'' @ show_int (xq_start_time q)] @ ''}''"

text \<open>\<open>json.loads\<close> of the query text.\<close>

definition export_query_object :: "export_request \<Rightarrow> jobj" where
  "export_query_object q =
     [(''agent_id'', opt_json JStr (xq_agent_id q)), (''end_time'', JInt (xq_end_time q)),
      (''format'', JStr (format_value (xq_format q))), (''operation_type'', opt_json JStr (xq_operation_type q)),
      (''start_time'', JInt (xq_start_time q))]"

definition given :: "string option \<Rightarrow> string \<Rightarrow> bool" where
  "given param value = (case param of None \<Rightarrow> True | Some p \<Rightarrow> value = p)"

definition export_wants :: "export_request \<Rightarrow> string \<Rightarrow> operation \<Rightarrow> bool" where
  "export_wants q org_id x \<longleftrightarrow> o_org_id x = org_id
     \<and> xq_start_time q \<le> o_created_at x \<and> o_created_at x \<le> xq_end_time q
     \<and> given (xq_agent_id q) (o_agent_id x) \<and> given (xq_operation_type q) (o_operation_type x)"

definition scoped_verdicts :: "database \<Rightarrow> string \<Rightarrow> operation list \<Rightarrow> verdict_row list" where
  "scoped_verdicts db org_id ops =
     filter (\<lambda>v. gv_org_id v = org_id \<and> gv_record_id v \<in> o_operation_id ` set ops) (dvalues (d_governance_verdicts db))"

text \<open>The renderer gets the body, the verdict objects and the log rows of the verdicts.\<close>

type_synonym pdf_renderer = "export_body \<Rightarrow> stored list \<Rightarrow> intervention list \<Rightarrow> bytes"

definition verdict_bodies :: "objects \<Rightarrow> verdict_row list \<Rightarrow> stored list" where
  "verdict_bodies os vs = concat (map (\<lambda>v. case load_json os (Some (gv_r2_verdict_key v)) of None \<Rightarrow> [] | Some x \<Rightarrow> [x]) vs)"

definition export_body_of :: "prims \<Rightarrow> database \<Rightarrow> string \<Rightarrow> export_request \<Rightarrow> int \<Rightarrow> string \<Rightarrow> export_body" where
  "export_body_of p db org_id q now export_id =
     (let scoped_ops = filter (export_wants q org_id) (dvalues (d_operations db)) in
      \<lparr>xb_export_id = export_id, xb_org_id = org_id, xb_query = export_query_object q, xb_generated_at = now,
       xb_operations = scoped_ops, xb_governance_verdicts = scoped_verdicts db org_id scoped_ops,
       xb_epochs = computed_epochs p db org_id\<rparr>)"

definition export_key :: "string \<Rightarrow> string \<Rightarrow> export_format \<Rightarrow> string" where
  "export_key org_id export_id fmt = org_id @ ''/exports/'' @ export_id @ ''.'' @ format_value fmt"

definition export_artifact ::
  "pdf_renderer \<Rightarrow> storage \<Rightarrow> export_body \<Rightarrow> export_format \<Rightarrow> stored" where
  "export_artifact to_pdf st body fmt =
     (case fmt of
        FORMAT_JSON \<Rightarrow> ExportArtifact body
      | FORMAT_PDF \<Rightarrow> PdfArtifact (to_pdf body (verdict_bodies (st_objects st) (xb_governance_verdicts body))
          (filter (\<lambda>r. iv_verdict_id r \<in> gv_verdict_id ` set (xb_governance_verdicts body)) (d_intervention_log (st_db st)))))"

definition create_export ::
  "prims \<Rightarrow> pdf_renderer \<Rightarrow> storage \<Rightarrow> string \<Rightarrow> export_request \<Rightarrow> int \<Rightarrow> string
   \<Rightarrow> (failure + export_row \<times> string) \<times> storage" where
  "create_export p to_pdf st org_id q now export_id =
     (if xq_start_time q < 0 \<or> xq_end_time q < 0 \<or> xq_end_time q < xq_start_time q
        then (Inl (validation_error ''Invalid export time range.''), st)
      else
        (let key = export_key org_id export_id (xq_format q);
             body = export_body_of p (st_db st) org_id q now export_id;
             row = \<lparr>xp_export_id = export_id, xp_org_id = org_id, xp_status = EXPORT_DONE,
                    xp_query_params = export_query q, xp_r2_export_key = Some key,
                    xp_created_at = now, xp_completed_at = Some now\<rparr> in
         (Inr (row, ''/v1/exports/'' @ export_id @ ''/download''),
          st\<lparr>st_objects := object_put key (export_artifact to_pdf st body (xq_format q)) (st_objects st),
             st_db := fst (tx_commit [InsertExport row] (st_db st))\<rparr>)))"

definition get_export :: "storage \<Rightarrow> string \<Rightarrow> string \<Rightarrow> failure + export_row \<times> string" where
  "get_export st org_id export_id =
     (case select_export (st_db st) export_id org_id of
        None \<Rightarrow> Inl (app_err_msg 404 NOT_FOUND ''Export not found.'')
      | Some row \<Rightarrow> Inr (row, ''/v1/exports/'' @ export_id @ ''/download''))"

datatype download = DownloadPdf string string bytes | DownloadObject stored

definition ends_with :: "string \<Rightarrow> string \<Rightarrow> bool" where
  "ends_with s suf = (length suf \<le> length s \<and> drop (length s - length suf) s = suf)"

definition raw_pdf :: "stored \<Rightarrow> bytes option" where
  "raw_pdf x = (case x of PdfArtifact b \<Rightarrow> Some b | _ \<Rightarrow> None)"

text \<open>
  The body of a download: under a PDF key the bytes as they are (None stands for the bytes of
  another object under such a key, which no operation writes), otherwise the parsed JSON.
\<close>

definition download_export :: "storage \<Rightarrow> string \<Rightarrow> string \<Rightarrow> failure + download" where
  "download_export st org_id export_id =
     rbind (get_export st org_id export_id) (\<lambda>(row, _).
       case xp_r2_export_key row of
         None \<Rightarrow> Inl (validation_error ''Export not yet complete.'')
       | Some key \<Rightarrow>
         if xp_status row \<noteq> EXPORT_DONE \<or> key = [] then Inl (validation_error ''Export not yet complete.'')
         else (case object_get (st_objects st) key of
             None \<Rightarrow> Inl (app_err_msg 404 NOT_FOUND ''Export artifact not found.'')
           | Some raw \<Rightarrow>
             if ends_with key ''.pdf''
               then (case raw_pdf raw of
                       Some b \<Rightarrow> Inr (DownloadPdf (xp_export_id row) (xp_export_id row @ ''.pdf'') b)
                     | None \<Rightarrow> Inr (DownloadObject raw))
             else (case raw_pdf raw of Some _ \<Rightarrow> Inl (PyError ValueError) | None \<Rightarrow> Inr (DownloadObject raw))))"

section \<open>Timeline\<close>

definition verdict_key :: "verdict_row \<Rightarrow> int \<times> string" where
  "verdict_key r = (gv_created_at r, gv_verdict_id r)"

record timeline_row =
  tl_verdict_id :: string
  tl_record_id :: string
  tl_correlation_id :: string
  tl_run_id :: string
  tl_decision :: decision
  tl_risk_score :: pyfloat
  tl_latency_ms :: "pyfloat option"
  tl_created_at :: int

definition timeline_row_of :: "verdict_row \<Rightarrow> timeline_row" where
  "timeline_row_of r =
     \<lparr>tl_verdict_id = gv_verdict_id r, tl_record_id = gv_record_id r, tl_correlation_id = gv_correlation_id r,
      tl_run_id = gv_run_id r, tl_decision = gv_decision r, tl_risk_score = gv_risk_score r,
      tl_latency_ms = gv_latency_ms r, tl_created_at = gv_created_at r\<rparr>"

record timeline_response =
  tr_rows :: "timeline_row list"
  tr_cursor :: "string option"
  tr_total_count :: nat

definition of_run :: "string \<Rightarrow> string \<Rightarrow> verdict_row \<Rightarrow> bool" where
  "of_run org_id run_id r \<longleftrightarrow> gv_org_id r = org_id \<and> gv_run_id r = run_id"

definition timeline ::
  "(bytes \<Rightarrow> json option) \<Rightarrow> database \<Rightarrow> string \<Rightarrow> string \<Rightarrow> string option \<Rightarrow> int option \<Rightarrow> failure + timeline_response" where
  "timeline loads db org_id run_id cursor limit =
     (let scoped = filter (of_run org_id run_id) (dvalues (d_governance_verdicts db)) in
      rbind (cursor_param loads cursor) (\<lambda>cur.
        let (out, next) = keyset_page verdict_key scoped (clamp_limit limit) cur in
        Inr \<lparr>tr_rows = map timeline_row_of out, tr_cursor = map_option encode_cursor next,
             tr_total_count = length scoped\<rparr>))"

section \<open>The verdict of a correlation\<close>

record verdict_view =
  vv_correlation_id :: string
  vv_verdict :: "stored option"
  vv_pre_exec :: "stored option"
  vv_post_exec :: "stored option"
  vv_guardian_evidence :: "jobj list"

definition verdict_by_correlation :: "storage \<Rightarrow> string \<Rightarrow> string \<Rightarrow> failure + verdict_view" where
  "verdict_by_correlation st org_id correlation_id =
     (let db = st_db st; os = st_objects st;
          matches = sort_desc gv_created_at
            (filter (\<lambda>r. gv_correlation_id r = correlation_id \<and> gv_org_id r = org_id) (dvalues (d_governance_verdicts db)));
          paired = filter (\<lambda>x. o_correlation_id x = Some correlation_id \<and> o_org_id x = org_id) (dvalues (d_operations db));
          record_at = (\<lambda>ph. load_json os (map_option o_r2_payload_key (find (\<lambda>x. o_phase x = Some ph) paired))) in
      case matches of
        [] \<Rightarrow> Inl (app_err_msg 404 NOT_FOUND ''No verdict for that correlation_id.'')
      | latest # _ \<Rightarrow> Inr
          \<lparr>vv_correlation_id = correlation_id, vv_verdict = load_json os (Some (gv_r2_verdict_key latest)),
           vv_pre_exec = record_at PRE_EXEC, vv_post_exec = record_at POST_EXEC,
           vv_guardian_evidence = load_guardian_evidence os latest\<rparr>)"

section \<open>Provenance\<close>

record provenance_node =
  pn_record_id :: string
  pn_phase :: "phase option"
  pn_correlation_id :: "string option"
  pn_decision :: "decision option"
  pn_seq_no :: int
  pn_chain_hash :: string

datatype edge_kind = CHAIN_EDGE | CORRELATION_EDGE

record provenance_edge =
  pe_src :: string
  pe_dst :: string
  pe_kind :: edge_kind

definition decision_by_corr :: "database \<Rightarrow> string \<Rightarrow> string \<Rightarrow> (string, decision) dict" where
  "decision_by_corr db org_id run_id =
     foldl (\<lambda>d r. dset (gv_correlation_id r) (gv_decision r) d) []
       (filter (of_run org_id run_id) (dvalues (d_governance_verdicts db)))"

definition node_of :: "(string, decision) dict \<Rightarrow> operation \<Rightarrow> provenance_node" where
  "node_of decisions x =
     \<lparr>pn_record_id = o_operation_id x, pn_phase = o_phase x, pn_correlation_id = o_correlation_id x,
      pn_decision = (if o_phase x = Some PRE_EXEC
        then dget decisions (case o_correlation_id x of None \<Rightarrow> ''None'' | Some c \<Rightarrow> c) else None),
      pn_seq_no = o_seq_no x, pn_chain_hash = o_chain_hash x\<rparr>"

definition by_chain :: "operation list \<Rightarrow> (string, string) dict" where
  "by_chain scoped = foldl (\<lambda>d x. dset (o_chain_hash x) (o_operation_id x) d) [] scoped"

definition chain_edges :: "operation list \<Rightarrow> provenance_edge list" where
  "chain_edges scoped = concat (map (\<lambda>x.
     case dget (by_chain scoped) (o_prev_chain_hash x) of
       None \<Rightarrow> []
     | Some parent \<Rightarrow> [\<lparr>pe_src = parent, pe_dst = o_operation_id x, pe_kind = CHAIN_EDGE\<rparr>]) scoped)"

definition phase_text :: "operation \<Rightarrow> string" where
  "phase_text x = (case o_phase x of None \<Rightarrow> ''None'' | Some ph \<Rightarrow> phase_value ph)"

definition pair_of :: "(string, (string, string) dict) dict \<Rightarrow> string \<Rightarrow> (string, string) dict" where
  "pair_of d cid = (case dget d cid of None \<Rightarrow> [] | Some pair \<Rightarrow> pair)"

definition by_corr :: "operation list \<Rightarrow> (string, (string, string) dict) dict" where
  "by_corr scoped = foldl (\<lambda>d x.
     case o_correlation_id x of
       None \<Rightarrow> d
     | Some cid \<Rightarrow> if cid = [] then d else dset cid (dset (phase_text x) (o_operation_id x) (pair_of d cid)) d) [] scoped"

definition correlation_edges :: "operation list \<Rightarrow> provenance_edge list" where
  "correlation_edges scoped = concat (map (\<lambda>pair.
     case (dget pair ''pre_exec'', dget pair ''post_exec'') of
       (Some a, Some b) \<Rightarrow> [\<lparr>pe_src = a, pe_dst = b, pe_kind = CORRELATION_EDGE\<rparr>] | _ \<Rightarrow> []) (dvalues (by_corr scoped)))"

record provenance_graph =
  pg_run_id :: string
  pg_nodes :: "provenance_node list"
  pg_edges :: "provenance_edge list"

definition run_operations :: "database \<Rightarrow> string \<Rightarrow> string \<Rightarrow> operation list" where
  "run_operations db org_id run_id =
     filter (\<lambda>x. o_org_id x = org_id \<and> o_run_id x = Some run_id) (dvalues (d_operations db))"

definition provenance :: "database \<Rightarrow> string \<Rightarrow> string \<Rightarrow> provenance_graph" where
  "provenance db org_id run_id =
     (let scoped = run_operations db org_id run_id in
      \<lparr>pg_run_id = run_id, pg_nodes = map (node_of (decision_by_corr db org_id run_id)) scoped,
       pg_edges = chain_edges scoped @ correlation_edges scoped\<rparr>)"

section \<open>Rollups\<close>

fun float_insert :: "pyfloat \<Rightarrow> pyfloat list \<Rightarrow> pyfloat list" where
  "float_insert x [] = [x]"
| "float_insert x (y # ys) = (if flt y x then y # float_insert x ys else x # y # ys)"

text \<open>\<open>sorted\<close> of floats, none of them a NaN.\<close>

definition float_sort :: "pyfloat list \<Rightarrow> pyfloat list" where
  "float_sort xs = foldr float_insert xs []"

definition rank_of :: "pyfloat \<Rightarrow> nat \<Rightarrow> nat" where
  "rank_of q n =
     (case fmul q (rnd64 (of_nat (n - 1))) of
        Fin x \<Rightarrow> nat (max 0 (min (int (n - 1)) (round_half_even x))) | _ \<Rightarrow> 0)"

definition pct :: "pyfloat list \<Rightarrow> pyfloat \<Rightarrow> pyfloat" where
  "pct values q = (if values = [] then Fin 0 else float_sort values ! rank_of q (length values))"

definition decision_mix :: "decision list \<Rightarrow> (decision \<times> nat) list" where
  "decision_mix ds = map (\<lambda>d. (d, count_list ds d)) all_decisions"

record cost_rollup =
  cr_prompt :: int
  cr_completion :: int
  cr_total :: int
  cr_decision_mix :: "(decision \<times> nat) list"
  cr_prevented_loss_total :: pyfloat
  cr_latency_p50_ms :: pyfloat
  cr_latency_p95_ms :: pyfloat

definition cost :: "database \<Rightarrow> string \<Rightarrow> string \<Rightarrow> cost_rollup" where
  "cost db org_id run_id =
     (let scoped_gv = filter (of_run org_id run_id) (dvalues (d_governance_verdicts db));
          rows = filter (\<lambda>r. iv_verdict_id r \<in> gv_verdict_id ` set scoped_gv) (d_intervention_log db);
          prompt = sum_list (map iv_tokens_in rows);
          completion = sum_list (map iv_tokens_out rows);
          latencies = concat (map (\<lambda>r. case iv_latency_ms r of None \<Rightarrow> [] | Some l \<Rightarrow> [l]) rows) in
      \<lparr>cr_prompt = prompt, cr_completion = completion, cr_total = prompt + completion,
       cr_decision_mix = decision_mix (map iv_decision rows),
       cr_prevented_loss_total = py_sum (map gv_prevented_loss scoped_gv),
       cr_latency_p50_ms = pct latencies (flit (1 / 2)), cr_latency_p95_ms = pct latencies (flit (95 / 100))\<rparr>)"

record dashboard =
  kpi_prevented_loss_total :: pyfloat
  kpi_decision_mix :: "(decision \<times> nat) list"
  kpi_total_verdicts :: nat

definition dashboard_kpi :: "database \<Rightarrow> string \<Rightarrow> dashboard" where
  "dashboard_kpi db org_id =
     (let scoped_gv = filter (\<lambda>r. gv_org_id r = org_id) (dvalues (d_governance_verdicts db)) in
      \<lparr>kpi_prevented_loss_total = py_sum (map gv_prevented_loss scoped_gv),
       kpi_decision_mix = decision_mix (map gv_decision scoped_gv), kpi_total_verdicts = length scoped_gv\<rparr>)"

section \<open>Incidents\<close>

datatype incident_status = PENDING | RESOLVED

definition status_of :: "verdict_row \<Rightarrow> incident_status" where
  "status_of r = (case gv_resolution r of None \<Rightarrow> PENDING | Some s \<Rightarrow> if s = [] then PENDING else RESOLVED)"

text \<open>The \<open>status\<close> parameter of the request, as text.\<close>

fun status_value :: "incident_status \<Rightarrow> string" where
  "status_value PENDING = ''pending''"
| "status_value RESOLVED = ''resolved''"

record incident_row =
  in_incident_id :: string
  in_correlation_id :: string
  in_run_id :: string
  in_decision :: decision
  in_risk_score :: pyfloat
  in_status :: incident_status
  in_resolution :: "string option"
  in_created_at :: int

definition incident_row_of :: "verdict_row \<Rightarrow> incident_row" where
  "incident_row_of r =
     \<lparr>in_incident_id = gv_verdict_id r, in_correlation_id = gv_correlation_id r, in_run_id = gv_run_id r,
      in_decision = gv_decision r, in_risk_score = gv_risk_score r, in_status = status_of r,
      in_resolution = (case gv_resolution r of None \<Rightarrow> None | Some s \<Rightarrow> if s \<in> set RESUME_DECISIONS then Some s else None),
      in_created_at = gv_created_at r\<rparr>"

record incidents_response =
  ir_incidents :: "incident_row list"
  ir_cursor :: "string option"
  ir_total_count :: nat

definition incident_filter :: "string \<Rightarrow> string option \<Rightarrow> string option \<Rightarrow> verdict_row \<Rightarrow> bool" where
  "incident_filter org_id run_id status r \<longleftrightarrow> gv_org_id r = org_id \<and> gv_decision r = ESCALATE
     \<and> given run_id (gv_run_id r) \<and> given status (status_value (status_of r))"

definition incidents ::
  "(bytes \<Rightarrow> json option) \<Rightarrow> database \<Rightarrow> string \<Rightarrow> string option \<Rightarrow> string option \<Rightarrow> string option \<Rightarrow> int option
   \<Rightarrow> failure + incidents_response" where
  "incidents loads db org_id run_id status cursor limit =
     (if (case status of None \<Rightarrow> False | Some s \<Rightarrow> s \<notin> {''pending'', ''resolved''})
        then Inl (validation_error ''status must be pending|resolved.'')
      else
        (let rows = filter (incident_filter org_id run_id status) (dvalues (d_governance_verdicts db)) in
         rbind (cursor_param loads cursor) (\<lambda>cur.
           let (out, next) = keyset_page verdict_key rows (clamp_limit limit) cur in
           Inr \<lparr>ir_incidents = map incident_row_of out, ir_cursor = map_option encode_cursor next,
                ir_total_count = length rows\<rparr>)))"

section \<open>Facts\<close>

lemma filter_update_row:
  assumes "dict_ok d" and "dget d k = Some v"
  shows "length (filter P (dvalues (dset k v' d))) + (if P v then 1 else 0)
    = length (filter P (dvalues d)) + (if P v' then 1 else 0)"
  using assms
proof (induction d)
  case (Cons kv d)
  obtain k0 v0 where kv: "kv = (k0, v0)" by (cases kv)
  show ?case
  proof (cases "k0 = k")
    case True
    with Cons.prems kv show ?thesis by (simp add: dvalues_def)
  next
    case False
    with Cons.prems kv have "dict_ok d" "dget d k = Some v" by (auto simp: dict_ok_def)
    with Cons.IH False kv show ?thesis by (simp add: dvalues_def)
  qed
qed simp

lemma incidents_total:
  "status = None \<or> status = Some ''pending'' \<or> status = Some ''resolved'' \<Longrightarrow>
   \<exists>resp. incidents loads db org run_id status None limit = Inr resp
     \<and> ir_total_count resp = length (filter (incident_filter org run_id status) (dvalues (d_governance_verdicts db)))"
  by (auto simp: incidents_def Let_def split: prod.split)

text \<open>
When the gate escalates a record, its verdict becomes a pending incident of the organisation; a
resume of that incident reaches the governance application under the run of the record, and moves
exactly this incident from the pending list to the resolved one, with the decision of the human.
\<close>

theorem incident_is_pending_until_resumed:
  assumes "decide env app ck (st, g) r = (Inr v, st1, g1)" and "v_decision v = ESCALATE"
    and "dict_ok (d_governance_verdicts (st_db st))"
    and "resume env rapp ck2 (st1, g1) (v_verdict_id v) d payload (r_org_id r) = (Inr v2, st2, g2)"
  shows "(\<exists>w. rapp g1 (r_run_id r) d payload = (Inr w, g2))
    \<and> (\<exists>p1 p2 q1 q2. incidents loads (st_db st1) (r_org_id r) None (Some ''pending'') None lmt = Inr p1
      \<and> incidents loads (st_db st2) (r_org_id r) None (Some ''pending'') None lmt = Inr p2
      \<and> incidents loads (st_db st1) (r_org_id r) None (Some ''resolved'') None lmt = Inr q1
      \<and> incidents loads (st_db st2) (r_org_id r) None (Some ''resolved'') None lmt = Inr q2
      \<and> ir_total_count p2 + 1 = ir_total_count p1 \<and> ir_total_count q2 = ir_total_count q1 + 1)
    \<and> map_option gv_resolution (select_verdict (st_db st2) (v_verdict_id v) (r_org_id r)) = Some (Some d)"
proof -
  let ?row = "governance_verdict_row r v (verdict_key_of r v) (ck_received_at ck)"
  let ?t = "d_governance_verdicts (st_db st1)" and ?k = "v_verdict_id v"
  obtain ig s0 where pre: "ingest_prefix env st r (ck_received_at ck) PRE_EXEC = (Inr ig, s0)"
    and st1: "st1 = commit_decision env s0 r ig v (ck_received_at ck)"
    using assms(1) by (cases rule: decide_cases) auto
  have t: "?t = dset ?k ?row (d_governance_verdicts (st_db st))"
    by (simp add: st1 commit_decision_db prefix_db[OF pre])
  have ok: "dict_ok ?t" using assms(3) by (simp add: t)
  have row: "dget ?t ?k = Some ?row" by (simp add: t)
  have d: "d \<in> set RESUME_DECISIONS" using assms(4) by (auto simp: resume_def split: if_splits)
  then have dne: "d \<noteq> []" by (auto simp: RESUME_DECISIONS_def)
  have thread: "resume_thread_id (st_db st1) (r_org_id r) ?k = r_run_id r"
    using row by (simp add: resume_thread_id_def select_verdict_def governance_verdict_row_def)
  let ?row2 = "?row\<lparr>gv_resolution := Some d, gv_resolved_at := Some (ck_served_at ck2)\<rparr>"
  obtain w where w: "rapp g1 (r_run_id r) d payload = (Inr w, g2)"
    and st2: "st_db st2 = fst (tx_commit [UpdateResolution d (ck_served_at ck2) ?k] (st_db st1))"
    using assms(4) d by (auto simp: resume_def thread split: sum.splits prod.splits)
  have t2: "d_governance_verdicts (st_db st2) = dset ?k ?row2 ?t"
    by (simp add: st2 row)
  have f: "incident_filter (r_org_id r) None (Some ''pending'') ?row" "\<not> incident_filter (r_org_id r) None (Some ''resolved'') ?row"
    "\<not> incident_filter (r_org_id r) None (Some ''pending'') ?row2" "incident_filter (r_org_id r) None (Some ''resolved'') ?row2"
    using dne by (simp_all add: incident_filter_def governance_verdict_row_def assms(2) given_def status_of_def)
  note upd = filter_update_row[OF ok row, of _ ?row2, folded t2]
  have "\<exists>p1 p2 q1 q2. incidents loads (st_db st1) (r_org_id r) None (Some ''pending'') None lmt = Inr p1
      \<and> incidents loads (st_db st2) (r_org_id r) None (Some ''pending'') None lmt = Inr p2
      \<and> incidents loads (st_db st1) (r_org_id r) None (Some ''resolved'') None lmt = Inr q1
      \<and> incidents loads (st_db st2) (r_org_id r) None (Some ''resolved'') None lmt = Inr q2
      \<and> ir_total_count p2 + 1 = ir_total_count p1 \<and> ir_total_count q2 = ir_total_count q1 + 1"
    using upd[of "incident_filter (r_org_id r) None (Some ''pending'')"] upd[of "incident_filter (r_org_id r) None (Some ''resolved'')"] f
      incidents_total[of "Some ''pending''" loads "st_db st1" "r_org_id r" None lmt]
      incidents_total[of "Some ''pending''" loads "st_db st2" "r_org_id r" None lmt]
      incidents_total[of "Some ''resolved''" loads "st_db st1" "r_org_id r" None lmt]
      incidents_total[of "Some ''resolved''" loads "st_db st2" "r_org_id r" None lmt]
    by auto
  moreover have "map_option gv_resolution (select_verdict (st_db st2) ?k (r_org_id r)) = Some (Some d)"
    by (simp add: t2 select_verdict_def governance_verdict_row_def)
  ultimately show ?thesis using w by simp
qed

lemma ends_with_append: "ends_with (xs @ ys) suf = (if length suf \<le> length ys then ends_with ys suf else ends_with (xs @ ys) suf)"
  by (auto simp: ends_with_def)

text \<open>
C21. An export that was created is found and downloads, as JSON or as PDF, as what was exported: the
operations of the organisation that match the request, with their verdicts and epochs.
\<close>

theorem export_roundtrip:
  assumes "create_export p to_pdf st org q now xid = (Inr (row, url), st')"
  shows "get_export st' org xid = Inr (row, url)
    \<and> download_export st' org xid = Inr (case xq_format q of
        FORMAT_JSON \<Rightarrow> DownloadObject (ExportArtifact (export_body_of p (st_db st) org q now xid))
      | FORMAT_PDF \<Rightarrow> DownloadPdf xid (xid @ ''.pdf'') (to_pdf (export_body_of p (st_db st) org q now xid)
          (verdict_bodies (st_objects st) (xb_governance_verdicts (export_body_of p (st_db st) org q now xid)))
          (filter (\<lambda>r. iv_verdict_id r \<in> gv_verdict_id ` set (xb_governance_verdicts (export_body_of p (st_db st) org q now xid)))
             (d_intervention_log (st_db st)))))
    \<and> set (xb_operations (export_body_of p (st_db st) org q now xid)) = {x \<in> set (dvalues (d_operations (st_db st))). export_wants q org x}"
proof -
  let ?key = "export_key org xid (xq_format q)"
  have row: "row = \<lparr>xp_export_id = xid, xp_org_id = org, xp_status = EXPORT_DONE,
                    xp_query_params = export_query q, xp_r2_export_key = Some ?key,
                    xp_created_at = now, xp_completed_at = Some now\<rparr>"
    and url: "url = ''/v1/exports/'' @ xid @ ''/download''"
    and st': "st' = st\<lparr>st_objects := object_put ?key (export_artifact to_pdf st (export_body_of p (st_db st) org q now xid) (xq_format q)) (st_objects st),
             st_db := (st_db st)\<lparr>d_exports := dset xid row (d_exports (st_db st))\<rparr>\<rparr>"
    using assms by (auto simp: create_export_def Let_def split: if_splits)
  have sel: "select_export (st_db st') xid org = Some row" by (simp add: st' select_export_def row)
  have obj: "object_get (st_objects st') ?key = Some (export_artifact to_pdf st (export_body_of p (st_db st) org q now xid) (xq_format q))"
    by (simp add: st' store.get_put_same)
  have pdf: "ends_with ?key ''.pdf'' = (xq_format q = FORMAT_PDF)"
  proof -
    have k: "?key = (org @ ''/exports/'' @ xid) @ (''.'' @ format_value (xq_format q))" by (simp add: export_key_def)
    show ?thesis unfolding k by (subst ends_with_append) (cases "xq_format q"; simp add: ends_with_def)
  qed
  have ne: "?key \<noteq> []" by (simp add: export_key_def)
  show ?thesis
    using sel obj pdf ne
    by (cases "xq_format q")
       (simp_all add: get_export_def download_export_def row url export_artifact_def raw_pdf_def export_body_of_def Let_def)
qed


section \<open>Provenance\<close>

lemma foldl_dset_get:
  "dget (foldl (\<lambda>d x. dset (f x) (g x) d) d0 xs) k =
     (case find (\<lambda>x. f x = k) (rev xs) of None \<Rightarrow> dget d0 k | Some x \<Rightarrow> Some (g x))"
proof (induction xs arbitrary: d0)
  case (Cons x xs)
  then show ?case by (cases "find (\<lambda>x. f x = k) (rev xs)") (simp_all add: find_app)
qed simp

lemma find_SomeD: "find P xs = Some x \<Longrightarrow> x \<in> set xs \<and> P x"
  by (induction xs) (auto split: if_splits)

lemma by_chain_get:
  assumes "distinct (map o_chain_hash scoped)"
  shows "dget (by_chain scoped) h = Some i \<longleftrightarrow> (\<exists>x \<in> set scoped. o_chain_hash x = h \<and> o_operation_id x = i)"
proof -
  have uniq: "x = y" if "x \<in> set scoped" "y \<in> set scoped" "o_chain_hash x = o_chain_hash y" for x y
    using assms that by (auto simp: distinct_map inj_on_def)
  show ?thesis
  proof (cases "find (\<lambda>x. o_chain_hash x = h) (rev scoped)")
    case None
    then have "\<forall>x \<in> set scoped. o_chain_hash x \<noteq> h" by (simp add: find_None_iff)
    with None show ?thesis by (simp add: by_chain_def foldl_dset_get)
  next
    case (Some x)
    from find_SomeD[OF this] have x: "x \<in> set scoped" "o_chain_hash x = h" by simp_all
    have g: "dget (by_chain scoped) h = Some (o_operation_id x)" using Some by (simp add: by_chain_def foldl_dset_get)
    show ?thesis unfolding g option.inject using x uniq[OF _ x(1)] by metis
  qed
qed

lemma by_corr_get:
  assumes "dget (pair_of (by_corr scoped) cid) ph = Some i"
  shows "\<exists>x \<in> set scoped. o_correlation_id x = Some cid \<and> phase_text x = ph \<and> o_operation_id x = i"
  using assms
proof (induction scoped arbitrary: i rule: rev_induct)
  case (snoc x xs)
  show ?case
  proof (cases "o_correlation_id x = Some cid \<and> phase_text x = ph \<and> cid \<noteq> []")
    case True
    with snoc.prems show ?thesis by (auto simp: by_corr_def pair_of_def)
  next
    case False
    then have "dget (pair_of (by_corr (xs @ [x])) cid) ph = dget (pair_of (by_corr xs) cid) ph"
      by (auto simp: by_corr_def pair_of_def split: option.split if_splits)
    with snoc show ?thesis by auto
  qed
qed (simp add: by_corr_def pair_of_def)

lemma dict_ok_by_corr: "dict_ok (by_corr scoped)"
proof (induction scoped rule: rev_induct)
  case (snoc x xs)
  then show ?case by (auto simp: by_corr_def split: option.split)
qed (simp add: by_corr_def)

lemma phase_text_value: "phase_text x = phase_value ph \<longleftrightarrow> o_phase x = Some ph"
  by (cases ph; cases "o_phase x"; cases "the (o_phase x)") (simp_all add: phase_text_def)

lemma by_corr_put:
  assumes "x \<in> set scoped" and "o_correlation_id x = Some cid" and "cid \<noteq> []"
  shows "\<exists>i. dget (pair_of (by_corr scoped) cid) (phase_text x) = Some i"
  using assms
proof (induction scoped rule: rev_induct)
  case (snoc y ys)
  show ?case
  proof (cases "o_correlation_id y = Some cid \<and> phase_text y = phase_text x")
    case True
    with snoc.prems(3) show ?thesis by (auto simp: by_corr_def pair_of_def)
  next
    case False
    then have "x \<noteq> y" using snoc.prems(2) by auto
    with snoc have "\<exists>i. dget (pair_of (by_corr ys) cid) (phase_text x) = Some i" by simp
    moreover have "dget (pair_of (by_corr (ys @ [y])) cid) (phase_text x) = dget (pair_of (by_corr ys) cid) (phase_text x)"
      using False by (auto simp: by_corr_def pair_of_def split: option.split if_splits)
    ultimately show ?thesis by simp
  qed
qed simp

lemma by_corr_keys: "dget (by_corr scoped) cid = Some pair \<Longrightarrow> cid \<noteq> []"
proof (induction scoped arbitrary: pair rule: rev_induct)
  case (snoc x xs)
  then show ?case by (auto simp: by_corr_def split: option.splits if_splits)
qed (simp add: by_corr_def)

lemma chain_edges_iff:
  assumes "distinct (map o_chain_hash scoped)"
  shows "e \<in> set (chain_edges scoped) \<longleftrightarrow> pe_kind e = CHAIN_EDGE \<and> (\<exists>x \<in> set scoped. \<exists>y \<in> set scoped.
      o_operation_id x = pe_src e \<and> o_operation_id y = pe_dst e \<and> o_chain_hash x = o_prev_chain_hash y)"
proof
  assume "e \<in> set (chain_edges scoped)"
  then obtain y parent where y: "y \<in> set scoped" "dget (by_chain scoped) (o_prev_chain_hash y) = Some parent"
    and e: "e = \<lparr>pe_src = parent, pe_dst = o_operation_id y, pe_kind = CHAIN_EDGE\<rparr>"
    by (auto simp: chain_edges_def split: option.splits)
  from y(2)[unfolded by_chain_get[OF assms]] y(1)
  show "pe_kind e = CHAIN_EDGE \<and> (\<exists>x \<in> set scoped. \<exists>y \<in> set scoped.
      o_operation_id x = pe_src e \<and> o_operation_id y = pe_dst e \<and> o_chain_hash x = o_prev_chain_hash y)"
    by (auto simp: e)
next
  assume r: "pe_kind e = CHAIN_EDGE \<and> (\<exists>x \<in> set scoped. \<exists>y \<in> set scoped.
      o_operation_id x = pe_src e \<and> o_operation_id y = pe_dst e \<and> o_chain_hash x = o_prev_chain_hash y)"
  then obtain x y where xy: "x \<in> set scoped" "y \<in> set scoped" "o_operation_id x = pe_src e" "o_operation_id y = pe_dst e"
    "o_chain_hash x = o_prev_chain_hash y" by blast
  then have "dget (by_chain scoped) (o_prev_chain_hash y) = Some (pe_src e)"
    by (auto simp: by_chain_get[OF assms])
  moreover have "e = \<lparr>pe_src = pe_src e, pe_dst = o_operation_id y, pe_kind = CHAIN_EDGE\<rparr>" using r xy(4) by simp
  ultimately show "e \<in> set (chain_edges scoped)" using xy(2) by (force simp: chain_edges_def)
qed

lemma correlation_edges_iff:
  assumes "\<And>x y. x \<in> set scoped \<Longrightarrow> y \<in> set scoped \<Longrightarrow> o_correlation_id x = o_correlation_id y \<Longrightarrow> o_phase x = o_phase y
      \<Longrightarrow> o_correlation_id x \<noteq> None \<Longrightarrow> x = y"
  shows "e \<in> set (correlation_edges scoped) \<longleftrightarrow> pe_kind e = CORRELATION_EDGE \<and> (\<exists>x \<in> set scoped. \<exists>y \<in> set scoped.
      o_operation_id x = pe_src e \<and> o_operation_id y = pe_dst e \<and> o_phase x = Some PRE_EXEC \<and> o_phase y = Some POST_EXEC
      \<and> o_correlation_id x = o_correlation_id y \<and> o_correlation_id x \<notin> {None, Some []})"
proof
  assume "e \<in> set (correlation_edges scoped)"
  then obtain pair where pair: "pair \<in> set (dvalues (by_corr scoped))"
    and ep: "e \<in> set (case (dget pair ''pre_exec'', dget pair ''post_exec'') of
       (Some a, Some b) \<Rightarrow> [\<lparr>pe_src = a, pe_dst = b, pe_kind = CORRELATION_EDGE\<rparr>] | _ \<Rightarrow> [])"
    by (auto simp only: correlation_edges_def set_concat set_map)
  obtain a b where ab: "dget pair ''pre_exec'' = Some a" "dget pair ''post_exec'' = Some b"
    and e: "e = \<lparr>pe_src = a, pe_dst = b, pe_kind = CORRELATION_EDGE\<rparr>"
    using ep by (cases "dget pair ''pre_exec''"; cases "dget pair ''post_exec''") simp_all
  from pair obtain cid where "(cid, pair) \<in> set (by_corr scoped)" by (auto simp: dvalues_def)
  then have get: "dget (by_corr scoped) cid = Some pair" by (rule dict_ok_get[OF dict_ok_by_corr])
  then have p: "pair_of (by_corr scoped) cid = pair" by (simp add: pair_of_def)
  from by_corr_get[of scoped cid "phase_value PRE_EXEC" a] by_corr_get[of scoped cid "phase_value POST_EXEC" b] ab
  obtain x y where "x \<in> set scoped" "o_correlation_id x = Some cid" "phase_text x = phase_value PRE_EXEC" "o_operation_id x = a"
    "y \<in> set scoped" "o_correlation_id y = Some cid" "phase_text y = phase_value POST_EXEC" "o_operation_id y = b"
    by (auto simp: p)
  then show "pe_kind e = CORRELATION_EDGE \<and> (\<exists>x \<in> set scoped. \<exists>y \<in> set scoped.
      o_operation_id x = pe_src e \<and> o_operation_id y = pe_dst e \<and> o_phase x = Some PRE_EXEC \<and> o_phase y = Some POST_EXEC
      \<and> o_correlation_id x = o_correlation_id y \<and> o_correlation_id x \<notin> {None, Some []})"
    using by_corr_keys[OF get] by (simp add: e phase_text_value del: phase_value.simps) force
next
  assume r: "pe_kind e = CORRELATION_EDGE \<and> (\<exists>x \<in> set scoped. \<exists>y \<in> set scoped.
      o_operation_id x = pe_src e \<and> o_operation_id y = pe_dst e \<and> o_phase x = Some PRE_EXEC \<and> o_phase y = Some POST_EXEC
      \<and> o_correlation_id x = o_correlation_id y \<and> o_correlation_id x \<notin> {None, Some []})"
  then obtain x y where "x \<in> set scoped" "y \<in> set scoped" "o_operation_id x = pe_src e" "o_operation_id y = pe_dst e"
    "o_phase x = Some PRE_EXEC" "o_phase y = Some POST_EXEC" "o_correlation_id x = o_correlation_id y"
    "o_correlation_id x \<notin> {None, Some []}" by blast
  then obtain cid where x: "x \<in> set scoped" "o_operation_id x = pe_src e" "o_correlation_id x = Some cid" "o_phase x = Some PRE_EXEC"
    and y: "y \<in> set scoped" "o_operation_id y = pe_dst e" "o_correlation_id y = Some cid" "o_phase y = Some POST_EXEC" and cid: "cid \<noteq> []"
    by (cases "o_correlation_id x") auto
  have get: "dget (pair_of (by_corr scoped) cid) (phase_text z) = Some (o_operation_id z)"
    if z: "z \<in> set scoped" "o_correlation_id z = Some cid" "o_phase z = Some ph" for z ph
  proof -
    obtain i where i: "dget (pair_of (by_corr scoped) cid) (phase_text z) = Some i"
      using by_corr_put[OF z(1,2) cid] by blast
    from by_corr_get[OF i] obtain w where w: "w \<in> set scoped" "o_correlation_id w = Some cid" "phase_text w = phase_text z"
      "o_operation_id w = i" by blast
    have "phase_text z = phase_value ph" using z(3) by (simp add: phase_text_value)
    then have "o_phase w = Some ph" using w(3) phase_text_value by metis
    then have "w = z" using assms[OF w(1) z(1)] w(2) z(2,3) by simp
    with i w(4) show ?thesis by simp
  qed
  have ab: "dget (pair_of (by_corr scoped) cid) ''pre_exec'' = Some (pe_src e)"
    "dget (pair_of (by_corr scoped) cid) ''post_exec'' = Some (pe_dst e)"
    using get[OF x(1,3,4)] get[OF y(1,3,4)] x(2,4) y(2,4) by (simp_all add: phase_text_def)
  then obtain pair where pair: "dget (by_corr scoped) cid = Some pair" by (auto simp: pair_of_def split: option.splits)
  have "pair \<in> set (dvalues (by_corr scoped))" by (rule dget_in_values[OF pair])
  moreover have "e = \<lparr>pe_src = pe_src e, pe_dst = pe_dst e, pe_kind = CORRELATION_EDGE\<rparr>" using r by simp
  moreover have "dget pair ''pre_exec'' = Some (pe_src e)" "dget pair ''post_exec'' = Some (pe_dst e)"
    using ab pair by (simp_all add: pair_of_def)
  ultimately show "e \<in> set (correlation_edges scoped)" by (force simp: correlation_edges_def)
qed

text \<open>
The provenance graph of a run has one node per operation; its chain edges are exactly the hash
links between operations of the run, its correlation edges exactly the pairs of an intent and its
outcome, when no two operations share a chain hash or a correlation and phase.
\<close>

theorem provenance_graph_is_exact:
  assumes "distinct (map o_chain_hash (run_operations db org run))"
    and "\<And>x y. x \<in> set (run_operations db org run) \<Longrightarrow> y \<in> set (run_operations db org run) \<Longrightarrow>
      o_correlation_id x = o_correlation_id y \<Longrightarrow> o_phase x = o_phase y \<Longrightarrow> o_correlation_id x \<noteq> None \<Longrightarrow> x = y"
  shows "map pn_record_id (pg_nodes (provenance db org run)) = map o_operation_id (run_operations db org run)
    \<and> (e \<in> set (pg_edges (provenance db org run)) \<longleftrightarrow>
        (\<exists>x \<in> set (run_operations db org run). \<exists>y \<in> set (run_operations db org run).
          o_operation_id x = pe_src e \<and> o_operation_id y = pe_dst e
          \<and> (case pe_kind e of
               CHAIN_EDGE \<Rightarrow> o_chain_hash x = o_prev_chain_hash y
             | CORRELATION_EDGE \<Rightarrow> o_phase x = Some PRE_EXEC \<and> o_phase y = Some POST_EXEC
                 \<and> o_correlation_id x = o_correlation_id y \<and> o_correlation_id x \<notin> {None, Some []})))"
proof -
  let ?xs = "run_operations db org run"
  have "map pn_record_id (pg_nodes (provenance db org run)) = map o_operation_id ?xs"
    by (simp add: provenance_def Let_def node_of_def)
  moreover have "e \<in> set (pg_edges (provenance db org run)) \<longleftrightarrow> e \<in> set (chain_edges ?xs) \<or> e \<in> set (correlation_edges ?xs)"
    by (simp add: provenance_def Let_def)
  moreover have "e \<in> set (correlation_edges ?xs) \<longleftrightarrow> pe_kind e = CORRELATION_EDGE \<and> (\<exists>x \<in> set ?xs. \<exists>y \<in> set ?xs.
      o_operation_id x = pe_src e \<and> o_operation_id y = pe_dst e \<and> o_phase x = Some PRE_EXEC \<and> o_phase y = Some POST_EXEC
      \<and> o_correlation_id x = o_correlation_id y \<and> o_correlation_id x \<notin> {None, Some []})"
    by (rule correlation_edges_iff) (fact assms(2))
  ultimately show ?thesis
    using chain_edges_iff[OF assms(1), of e] by (cases "pe_kind e") simp_all
qed

section \<open>Percentiles\<close>

lemma set_float_insert [simp]: "set (float_insert x xs) = insert x (set xs)"
  by (induction xs) auto

lemma set_float_sort [simp]: "set (float_sort xs) = set xs"
  by (induction xs) (simp_all add: float_sort_def)

lemma length_float_sort [simp]: "length (float_sort xs) = length xs"
proof -
  have "length (float_insert x ys) = Suc (length ys)" for x ys by (induction ys) simp_all
  then show ?thesis by (induction xs) (simp_all add: float_sort_def)
qed

lemma sorted_float_insert:
  "x \<noteq> NaN \<Longrightarrow> NaN \<notin> set xs \<Longrightarrow> sorted_wrt fle xs \<Longrightarrow> sorted_wrt fle (float_insert x xs)"
proof (induction xs)
  case (Cons y ys)
  show ?case
  proof (cases "flt y x")
    case True
    with Cons show ?thesis by (auto intro: flt_imp_fle)
  next
    case False
    with Cons.prems have xy: "fle x y" by (auto simp: not_flt_iff)
    with Cons.prems have "\<forall>z \<in> set ys. fle x z" by (auto intro: fle_trans)
    with False xy Cons.prems show ?thesis by simp
  qed
qed simp

lemma sorted_float_sort: "NaN \<notin> set xs \<Longrightarrow> sorted_wrt fle (float_sort xs)"
proof (induction xs)
  case (Cons x xs)
  have "float_sort (x # xs) = float_insert x (float_sort xs)" by (simp add: float_sort_def)
  with Cons show ?case by (auto intro: sorted_float_insert)
qed (simp add: float_sort_def)

lemma rank_less: "0 < n \<Longrightarrow> rank_of q n < n"
  by (auto simp: rank_of_def split: pyfloat.split)

lemma rank_mono:
  assumes "0 \<le> a" and "a \<le> b" and "b \<le> 1" and "n < 2 ^ 53"
  shows "rank_of (Fin a) n \<le> rank_of (Fin b) n"
proof -
  let ?m = "int (n - 1)"
  have m: "rnd64 (of_nat (n - 1)) = Fin (of_int ?m)"
    using rnd64_int_exact[of ?m] assms(4) by simp
  have fin: "\<exists>y. rnd64 (c * of_int ?m) = Fin y" if "0 \<le> c" "c \<le> 1" for c
  proof -
    have "fle (rnd64 (c * of_int ?m)) (rnd64 (of_int ?m))" "fle (rnd64 0) (rnd64 (c * of_int ?m))"
      using that by (auto intro!: rnd64_mono simp: mult_left_le_one_le)
    moreover have "rnd64 0 = Fin 0" "rnd64 (of_int ?m) = Fin (of_int ?m)"
      using rnd64_int_exact[of 0] rnd64_int_exact[of ?m] assms(4) by simp_all
    ultimately show ?thesis by (cases "rnd64 (c * of_int ?m)") auto
  qed
  obtain y z where y: "rnd64 (a * of_int ?m) = Fin y" and z: "rnd64 (b * of_int ?m) = Fin z"
    using fin[of a] fin[of b] assms by auto
  have "fle (Fin y) (Fin z)"
    unfolding y[symmetric] z[symmetric] using assms by (intro rnd64_mono mult_right_mono) simp_all
  then have "round_half_even y \<le> round_half_even z" by (auto intro: round_half_even_mono)
  with m y z show ?thesis by (simp add: rank_of_def nat_mono)
qed

lemma quantiles: "\<exists>a b. flit (1 / 2) = Fin a \<and> flit (95 / 100) = Fin b \<and> 0 \<le> a \<and> a \<le> b \<and> b \<le> 1"
proof -
  have le: "fle (flit (1 / 2)) (flit (95 / 100))" "fle (Fin 0) (flit (1 / 2))" "fle (flit (95 / 100)) (Fin 1)"
    using rnd64_mono[of "1 / 2" "95 / 100"] rnd64_mono[of 0 "1 / 2"] rnd64_mono[of "95 / 100" 1]
      rnd64_int_exact[of 0] rnd64_int_exact[of 1] by (simp_all add: flit_def)
  then show ?thesis by (cases "flit (1 / 2)"; cases "flit (95 / 100)") auto
qed

lemma pct_in: "xs \<noteq> [] \<Longrightarrow> pct xs q \<in> set xs"
  using nth_mem[of "rank_of q (length xs)" "float_sort xs"] rank_less[of "length xs" q] by (simp add: pct_def)

definition run_latencies :: "database \<Rightarrow> string \<Rightarrow> string \<Rightarrow> pyfloat list" where
  "run_latencies db org_id run_id = concat (map (\<lambda>r. case iv_latency_ms r of None \<Rightarrow> [] | Some l \<Rightarrow> [l])
     (filter (\<lambda>r. iv_verdict_id r \<in> gv_verdict_id ` set (filter (of_run org_id run_id) (dvalues (d_governance_verdicts db))))
        (d_intervention_log db)))"

lemma decision_mix_total: "sum_list (map snd (decision_mix ds)) = length ds"
proof (induction ds)
  case (Cons d ds)
  then show ?case by (cases d) (simp_all add: decision_mix_def all_decisions_def)
qed (simp add: decision_mix_def all_decisions_def)

text \<open>
In the cost rollup of a run with latencies that are numbers, both percentiles are latencies of the
run and the median is at most the 95th; the token total is the sum of its parts; on the dashboard
the counts per decision add up to the number of verdicts.
\<close>

theorem cost_rollup_bounds:
  assumes "NaN \<notin> set (run_latencies db org run)" and "run_latencies db org run \<noteq> []" and "length (run_latencies db org run) < 2 ^ 53"
  shows "cr_latency_p50_ms (cost db org run) \<in> set (run_latencies db org run)
    \<and> cr_latency_p95_ms (cost db org run) \<in> set (run_latencies db org run)
    \<and> fle (cr_latency_p50_ms (cost db org run)) (cr_latency_p95_ms (cost db org run))
    \<and> sum_list (map snd (kpi_decision_mix (dashboard_kpi db org))) = kpi_total_verdicts (dashboard_kpi db org)
    \<and> cr_total (cost db org run) = cr_prompt (cost db org run) + cr_completion (cost db org run)"
proof -
  let ?l = "run_latencies db org run"
  have c: "cr_latency_p50_ms (cost db org run) = pct ?l (flit (1 / 2))" "cr_latency_p95_ms (cost db org run) = pct ?l (flit (95 / 100))"
    by (simp_all add: cost_def Let_def run_latencies_def)
  obtain a b where ab: "flit (1 / 2) = Fin a" "flit (95 / 100) = Fin b" "0 \<le> a" "a \<le> b" "b \<le> 1" using quantiles by blast
  have "rank_of (Fin a) (length ?l) \<le> rank_of (Fin b) (length ?l)" "rank_of (Fin b) (length ?l) < length ?l"
    using rank_mono[OF ab(3-5) assms(3)] rank_less[of "length ?l"] assms(2) by simp_all
  then have "fle (pct ?l (Fin a)) (pct ?l (Fin b))"
    using sorted_float_sort[OF assms(1)] assms(1,2) nth_mem[of "rank_of (Fin b) (length ?l)" "float_sort ?l"]
    by (cases "rank_of (Fin a) (length ?l) = rank_of (Fin b) (length ?l)")
       (auto simp: pct_def sorted_wrt_iff_nth_less)
  with c ab pct_in[OF assms(2)] show ?thesis
    by (simp add: decision_mix_total dashboard_kpi_def Let_def) (simp add: cost_def Let_def)
qed

section \<open>Instances\<close>

definition escalate_app :: "string \<Rightarrow> unit decide_app" where
  "escalate_app vid g r = (Inr (verdict_for vid r ESCALATE (Fin 0) [] no_obligations), ())"

lemma demo_escalate:
  "\<exists>v st'. decide demo_env (escalate_app ''v-9'') demo_clock (demo_storage, ()) (signed_record ''rec-1'' ''n-1'' GENESIS_CHAIN_HASH)
     = (Inr v, st', ()) \<and> v_decision v = ESCALATE \<and> v_verdict_id v = ''v-9''"
proof -
  let ?r = "signed_record ''rec-1'' ''n-1'' GENESIS_CHAIN_HASH"
  obtain ig st' where p: "ingest_prefix demo_env demo_storage ?r 2000 PRE_EXEC = (Inr ig, st')"
    using demo_prefix[of "''rec-1''" "''n-1''"] by (auto simp: blank_def is_space_def)
  let ?v = "verdict_for ''v-9'' ?r ESCALATE (Fin 0) [] no_obligations"
  obtain v where v: "finalize_verdict demo_prims (server_stamp ?r demo_clock ?v) demo_key = Inr v"
    using finalize_verdict_total[OF demo_key_public] by blast
  have "v_decision v = ESCALATE" "v_verdict_id v = ''v-9''"
    using finalize_verdict_fields[OF v] by (simp_all add: server_stamp_def verdict_for_def) (metis governance_verdict.select_convs(2,6) governance_verdict.update_convs)+
  with p v show ?thesis by (simp add: decide_def demo_clock_def demo_env_def escalate_app_def)
qed

theorem incident_is_pending_until_resumed_witness:
  "\<exists>v st1 v2 st2 p1 p2. decide demo_env (escalate_app ''v-9'') demo_clock (demo_storage, ()) (signed_record ''rec-1'' ''n-1'' GENESIS_CHAIN_HASH)
      = (Inr v, st1, ())
    \<and> resume demo_env (null_resume ''v-10'') demo_clock (st1, ()) (v_verdict_id v) ''accept'' None ''demo-org'' = (Inr v2, st2, ())
    \<and> incidents (\<lambda>_. None) (st_db st1) ''demo-org'' None (Some ''pending'') None (Some 5) = Inr p1
    \<and> incidents (\<lambda>_. None) (st_db st2) ''demo-org'' None (Some ''pending'') None (Some 5) = Inr p2
    \<and> ir_total_count p2 + 1 = ir_total_count p1"
proof -
  let ?r = "signed_record ''rec-1'' ''n-1'' GENESIS_CHAIN_HASH"
  obtain v st1 where d: "decide demo_env (escalate_app ''v-9'') demo_clock (demo_storage, ()) ?r = (Inr v, st1, ())"
    and e: "v_decision v = ESCALATE" using demo_escalate by blast
  obtain w where w: "null_resume ''v-10'' () (resume_thread_id (st_db st1) ''demo-org'' (v_verdict_id v)) ''accept'' None = (Inr w, ())"
    by (simp add: null_resume_def)
  obtain v2 where f: "finalize_verdict demo_prims (w\<lparr>v_served_at := Some (ck_served_at demo_clock), v_latency_ms := Some (ck_latency_ms demo_clock),
      v_shield_kid := Some SHIELD_KID\<rparr>) demo_key = Inr v2"
    using finalize_verdict_total[OF demo_key_public] by blast
  have "\<exists>st2. resume demo_env (null_resume ''v-10'') demo_clock (st1, ()) (v_verdict_id v) ''accept'' None ''demo-org'' = (Inr v2, st2, ())"
    using w f by (simp add: resume_def RESUME_DECISIONS_def demo_env_def)
  then obtain st2 where r: "resume demo_env (null_resume ''v-10'') demo_clock (st1, ()) (v_verdict_id v) ''accept'' None ''demo-org'' = (Inr v2, st2, ())"
    by blast
  have ok: "dict_ok (d_governance_verdicts (st_db demo_storage))"
    by (simp add: demo_storage_def empty_storage_def empty_database_def)
  have r': "resume demo_env (null_resume ''v-10'') demo_clock (st1, ()) (v_verdict_id v) ''accept'' None (r_org_id ?r) = (Inr v2, st2, ())"
    using r by (simp add: signed_record_sel)
  from incident_is_pending_until_resumed[OF d e ok r', of "\<lambda>_. None" "Some 5"] d r show ?thesis
    by (simp only: signed_record_sel) blast
qed

theorem export_roundtrip_witness:
  "\<exists>row url st'. create_export demo_prims (\<lambda>_ _ _. [37]) demo_storage ''demo-org''
       \<lparr>xq_start_time = 0, xq_end_time = 10, xq_agent_id = None, xq_operation_type = None, xq_format = FORMAT_PDF\<rparr> 5 ''x-1''
       = (Inr (row, url), st')
     \<and> download_export st' ''demo-org'' ''x-1'' = Inr (DownloadPdf ''x-1'' ''x-1.pdf'' [37])"
proof -
  let ?q = "\<lparr>xq_start_time = 0, xq_end_time = 10, xq_agent_id = None, xq_operation_type = None, xq_format = FORMAT_PDF\<rparr>"
  obtain row url st' where c: "create_export demo_prims (\<lambda>_ _ _. [37]) demo_storage ''demo-org'' ?q 5 ''x-1'' = (Inr (row, url), st')"
    by (simp add: create_export_def Let_def)
  from export_roundtrip[OF c] c show ?thesis by auto
qed

definition linked_pair :: database where
  "linked_pair = empty_database\<lparr>d_operations :=
     [(''a'', (demo_operation ''n1'')\<lparr>o_operation_id := ''a'', o_chain_hash := ''h1'', o_run_id := Some ''r'',
          o_correlation_id := Some ''c'', o_phase := Some PRE_EXEC\<rparr>),
      (''b'', (demo_operation ''n2'')\<lparr>o_operation_id := ''b'', o_prev_chain_hash := ''h1'', o_chain_hash := ''h2'', o_run_id := Some ''r'',
          o_correlation_id := Some ''c'', o_phase := Some POST_EXEC\<rparr>)]\<rparr>"

theorem provenance_graph_is_exact_witness:
  "\<lparr>pe_src = ''a'', pe_dst = ''b'', pe_kind = CHAIN_EDGE\<rparr> \<in> set (pg_edges (provenance linked_pair ''o'' ''r''))
   \<and> \<lparr>pe_src = ''a'', pe_dst = ''b'', pe_kind = CORRELATION_EDGE\<rparr> \<in> set (pg_edges (provenance linked_pair ''o'' ''r''))"
proof -
  have ops: "run_operations linked_pair ''o'' ''r'' = dvalues (d_operations linked_pair)"
    by (simp add: run_operations_def linked_pair_def dvalues_def demo_operation_def)
  have d: "distinct (map o_chain_hash (run_operations linked_pair ''o'' ''r''))"
    unfolding ops by (simp add: linked_pair_def dvalues_def)
  have u: "x = y" if "x \<in> set (run_operations linked_pair ''o'' ''r'')" "y \<in> set (run_operations linked_pair ''o'' ''r'')"
    "o_correlation_id x = o_correlation_id y" "o_phase x = o_phase y" "o_correlation_id x \<noteq> None" for x y
    using that unfolding ops by (auto simp: linked_pair_def dvalues_def)
  let ?xs = "run_operations linked_pair ''o'' ''r''"
  have "e \<in> set (pg_edges (provenance linked_pair ''o'' ''r'')) \<longleftrightarrow> (\<exists>x \<in> set ?xs. \<exists>y \<in> set ?xs.
          o_operation_id x = pe_src e \<and> o_operation_id y = pe_dst e
          \<and> (case pe_kind e of
               CHAIN_EDGE \<Rightarrow> o_chain_hash x = o_prev_chain_hash y
             | CORRELATION_EDGE \<Rightarrow> o_phase x = Some PRE_EXEC \<and> o_phase y = Some POST_EXEC
                 \<and> o_correlation_id x = o_correlation_id y \<and> o_correlation_id x \<notin> {None, Some []}))" for e
    by (rule provenance_graph_is_exact[OF d, THEN conjunct2]) (fact u)
  then show ?thesis
    unfolding ops by (simp add: linked_pair_def dvalues_def demo_operation_def)
qed

definition one_decision :: database where
  "one_decision = empty_database\<lparr>
     d_governance_verdicts := [(''v'', \<lparr>gv_verdict_id = ''v'', gv_record_id = ''a'', gv_correlation_id = ''c'', gv_run_id = ''r'',
        gv_org_id = ''o'', gv_agent_id = ''a'', gv_decision = BLOCK, gv_risk_score = Fin 1, gv_latency_ms = Some (Fin 3),
        gv_prevented_loss = Fin 0, gv_r2_verdict_key = ''k'', gv_created_at = 5, gv_resolution = None, gv_resolved_at = None\<rparr>)],
     d_intervention_log := [\<lparr>iv_verdict_id = ''v'', iv_record_id = ''a'', iv_correlation_id = ''c'', iv_run_id = ''r'', iv_decision = BLOCK,
        iv_step_index = 0, iv_triggered_rule_id = None, iv_tokens_in = 1, iv_tokens_out = 2, iv_model_id = None, iv_served_via = None,
        iv_latency_ms = Some (Fin 3), iv_created_at = 5\<rparr>]\<rparr>"

theorem cost_rollup_bounds_witness:
  "cr_latency_p95_ms (cost one_decision ''o'' ''r'') = Fin 3"
proof -
  have l: "run_latencies one_decision ''o'' ''r'' = [Fin 3]"
    by (simp add: run_latencies_def one_decision_def dvalues_def of_run_def)
  from cost_rollup_bounds[of one_decision "''o''" "''r''"] show ?thesis by (simp add: l)
qed

end
