(* ===== verification/Rx.thy ===== *)
theory Rx
  imports PyText
begin

text \<open>
  The part of Python's \<open>re\<close> that the rule tables use: character classes, bounded and unbounded
  repetition of a class, sequence, alternative and the word boundary.  \<open>rx_in r p m q\<close> says
  that \<open>m\<close> matches \<open>r\<close> between the text \<open>p\<close> before it and \<open>q\<close> after it; \<open>rx_search\<close> is the
  executable \<open>pattern.search(text) is not None\<close>, which the last lemma shows to be the same as
  the existence of a match.
\<close>

datatype rx =
    RCls "char \<Rightarrow> bool"
  | RRep "char \<Rightarrow> bool" nat "nat option"
  | RSeq rx rx
  | RAlt rx rx
  | RWordB

section \<open>Classes\<close>

definition in_range :: "nat \<Rightarrow> nat \<Rightarrow> char \<Rightarrow> bool" where
  "in_range a b c = (let n = (of_char c :: nat) in a \<le> n \<and> n \<le> b)"

definition c_upper :: "char \<Rightarrow> bool" where "c_upper = in_range 65 90"
definition c_lower :: "char \<Rightarrow> bool" where "c_lower = in_range 97 122"
definition c_alnum :: "char \<Rightarrow> bool" where "c_alnum c = (c_upper c \<or> c_lower c \<or> is_digit c)"

text \<open>\<open>\w\<close> on code points below 256: \<open>isalnum()\<close> or underscore.\<close>

definition c_word :: "char \<Rightarrow> bool" where
  "c_word c = (c_alnum c \<or> c = CHR ''_'' \<or>
     (let n = (of_char c :: nat) in
      n \<in> {170, 178, 179, 181, 185, 186, 188, 189, 190} \<or> (192 \<le> n \<and> n \<noteq> 215 \<and> n \<noteq> 247)))"

definition c_eq :: "char \<Rightarrow> char \<Rightarrow> bool" where "c_eq a c = (c = a)"
definition c_eq_nocase :: "char \<Rightarrow> char \<Rightarrow> bool" where "c_eq_nocase a c = (lower_ascii c = lower_ascii a)"

fun r_lit :: "string \<Rightarrow> rx" where
  "r_lit [] = RRep (\<lambda>c. False) 0 (Some 0)"
| "r_lit [c] = RCls (c_eq c)"
| "r_lit (c # d # s) = RSeq (RCls (c_eq c)) (r_lit (d # s))"

fun r_lit_nocase :: "string \<Rightarrow> rx" where
  "r_lit_nocase [] = RRep (\<lambda>c. False) 0 (Some 0)"
| "r_lit_nocase [c] = RCls (c_eq_nocase c)"
| "r_lit_nocase (c # d # s) = RSeq (RCls (c_eq_nocase c)) (r_lit_nocase (d # s))"

fun r_seq :: "rx list \<Rightarrow> rx" where
  "r_seq [] = RRep (\<lambda>c. False) 0 (Some 0)"
| "r_seq [r] = r"
| "r_seq (r # s # rs) = RSeq r (r_seq (s # rs))"

fun r_alt :: "rx list \<Rightarrow> rx" where
  "r_alt [] = RCls (\<lambda>c. False)"
| "r_alt [r] = r"
| "r_alt (r # s # rs) = RAlt r (r_alt (s # rs))"

definition r_star :: "(char \<Rightarrow> bool) \<Rightarrow> rx" where "r_star f = RRep f 0 None"
definition r_plus :: "(char \<Rightarrow> bool) \<Rightarrow> rx" where "r_plus f = RRep f 1 None"
definition r_opt :: "(char \<Rightarrow> bool) \<Rightarrow> rx" where "r_opt f = RRep f 0 (Some 1)"
definition r_n :: "(char \<Rightarrow> bool) \<Rightarrow> nat \<Rightarrow> rx" where "r_n f n = RRep f n (Some n)"

section \<open>Matching\<close>

definition word_at :: "string \<Rightarrow> bool" where
  "word_at s = (case s of [] \<Rightarrow> False | c # _ \<Rightarrow> c_word c)"

text \<open>A position is the reversed text before it and the text after it.\<close>

type_synonym pos = "string \<times> string"

definition at_boundary :: "pos \<Rightarrow> bool" where
  "at_boundary x = (word_at (fst x) \<noteq> word_at (snd x))"

fun rep_ends :: "(char \<Rightarrow> bool) \<Rightarrow> nat \<Rightarrow> nat option \<Rightarrow> string \<Rightarrow> string \<Rightarrow> pos list" where
  "rep_ends f n m p s =
     (if n = 0 then [(p, s)] else []) @
     (if m = Some 0 then []
      else case s of [] \<Rightarrow> []
        | c # t \<Rightarrow> if f c then rep_ends f (n - 1) (map_option (\<lambda>k. k - 1) m) (c # p) t else [])"

declare rep_ends.simps [simp del]

primrec rx_ends :: "rx \<Rightarrow> pos \<Rightarrow> pos list" where
  "rx_ends (RCls f) x =
     (case snd x of [] \<Rightarrow> [] | c # t \<Rightarrow> if f c then [(c # fst x, t)] else [])"
| "rx_ends (RRep f n m) x = rep_ends f n m (fst x) (snd x)"
| "rx_ends (RSeq r s) x = concat (map (rx_ends s) (rx_ends r x))"
| "rx_ends (RAlt r s) x = rx_ends r x @ rx_ends s x"
| "rx_ends RWordB x = (if at_boundary x then [x] else [])"

fun search_from :: "rx \<Rightarrow> string \<Rightarrow> string \<Rightarrow> bool" where
  "search_from r p [] = (rx_ends r (p, []) \<noteq> [])"
| "search_from r p (c # s) = (rx_ends r (p, c # s) \<noteq> [] \<or> search_from r (c # p) s)"

definition rx_search :: "rx \<Rightarrow> string \<Rightarrow> bool" where
  "rx_search r s = search_from r [] s"

section \<open>The declarative reading\<close>

definition at_most :: "nat option \<Rightarrow> nat \<Rightarrow> bool" where
  "at_most k n = (case k of None \<Rightarrow> True | Some b \<Rightarrow> n \<le> b)"

lemma at_most_simps [simp]: "at_most None n" "at_most (Some b) n \<longleftrightarrow> n \<le> b"
  by (simp_all add: at_most_def)

lemma at_most_0 [simp]: "at_most k 0"
  by (simp add: at_most_def split: option.split)

lemma at_most_Suc: "at_most k (Suc n) \<longleftrightarrow> k \<noteq> Some 0 \<and> at_most (map_option (\<lambda>j. j - 1) k) n"
  by (cases k) auto

primrec rx_in :: "rx \<Rightarrow> string \<Rightarrow> string \<Rightarrow> string \<Rightarrow> bool" where
  "rx_in (RCls f) p m q = (\<exists>c. m = [c] \<and> f c)"
| "rx_in (RRep f n k) p m q =
     (list_all f m \<and> n \<le> length m \<and> at_most k (length m))"
| "rx_in (RSeq r s) p m q = (\<exists>a b. m = a @ b \<and> rx_in r p a (b @ q) \<and> rx_in s (p @ a) b q)"
| "rx_in (RAlt r s) p m q = (rx_in r p m q \<or> rx_in s p m q)"
| "rx_in RWordB p m q = (m = [] \<and> word_at (rev p) \<noteq> word_at q)"

lemma rep_ends_iff:
  "(p', t) \<in> set (rep_ends f n k p s) \<longleftrightarrow>
     (\<exists>m. s = m @ t \<and> p' = rev m @ p \<and> list_all f m \<and> n \<le> length m \<and> at_most k (length m))"
proof (induction s arbitrary: n k p)
  case Nil
  then show ?case by (subst rep_ends.simps) auto
next
  case (Cons c s)
  let ?P = "\<lambda>m. c # s = m @ t \<and> p' = rev m @ p \<and> list_all f m \<and> n \<le> length m \<and> at_most k (length m)"
  have "(p', t) \<in> set (rep_ends f n k p (c # s)) \<longleftrightarrow>
      (n = 0 \<and> p' = p \<and> t = c # s) \<or>
      (k \<noteq> Some 0 \<and> f c \<and> (p', t) \<in> set (rep_ends f (n - 1) (map_option (\<lambda>j. j - 1) k) (c # p) s))"
    by (subst rep_ends.simps) auto
  also have "n = 0 \<and> p' = p \<and> t = c # s \<longleftrightarrow> ?P []" by auto
  also have "(k \<noteq> Some 0 \<and> f c \<and>
        (p', t) \<in> set (rep_ends f (n - 1) (map_option (\<lambda>j. j - 1) k) (c # p) s)) \<longleftrightarrow> (\<exists>m. ?P (c # m))"
    unfolding Cons.IH by (cases n) (auto simp: at_most_Suc)
  also have "?P [] \<or> (\<exists>m. ?P (c # m)) \<longleftrightarrow> (\<exists>m. ?P m)"
  proof
    assume "\<exists>m. ?P m"
    then obtain m where "?P m" ..
    then show "?P [] \<or> (\<exists>m. ?P (c # m))" by (cases m) auto
  qed blast
  finally show ?case .
qed

lemma rx_ends_some: "rx_ends r x \<noteq> [] \<longleftrightarrow> (\<exists>p' t. (p', t) \<in> set (rx_ends r x))"
  by (cases "rx_ends r x") auto

lemma rx_ends_iff:
  "(p', t) \<in> set (rx_ends r (p, s)) \<longleftrightarrow>
     (\<exists>m. s = m @ t \<and> p' = rev m @ p \<and> rx_in r (rev p) m t)"
proof (induction r arbitrary: p s p' t)
  case (RCls f)
  then show ?case by (cases s) (auto simp: Cons_eq_append_conv)
next
  case (RRep f n k)
  then show ?case by (simp add: rep_ends_iff)
next
  case (RSeq r1 r2)
  have "(p', t) \<in> set (rx_ends (RSeq r1 r2) (p, s)) \<longleftrightarrow>
      (\<exists>p1 s1. (p1, s1) \<in> set (rx_ends r1 (p, s)) \<and> (p', t) \<in> set (rx_ends r2 (p1, s1)))"
    by auto
  also have "\<dots> \<longleftrightarrow> (\<exists>a b. s = a @ b @ t \<and> p' = rev (a @ b) @ p \<and> rx_in r1 (rev p) a (b @ t) \<and>
      rx_in r2 (rev p @ a) b t)"
    unfolding RSeq.IH by fastforce
  finally show ?case by fastforce
qed (auto simp: at_boundary_def)

lemma search_from_iff:
  "search_from r p s \<longleftrightarrow> (\<exists>a m b. s = a @ m @ b \<and> rx_in r (rev p @ a) m b)"
proof (induction s arbitrary: p)
  case Nil
  have "rx_ends r (p, []) \<noteq> [] \<longleftrightarrow> (\<exists>p' t. (p', t) \<in> set (rx_ends r (p, [])))"
    by (rule rx_ends_some)
  then show ?case by (auto simp: rx_ends_iff)
next
  case (Cons c s)
  have here: "rx_ends r (p, c # s) \<noteq> [] \<longleftrightarrow> (\<exists>m b. c # s = m @ b \<and> rx_in r (rev p) m b)"
    unfolding rx_ends_some rx_ends_iff by blast
  have parts: "(\<exists>a m b. c # s = a @ m @ b \<and> rx_in r (rev p @ a) m b) \<longleftrightarrow>
      (\<exists>m b. c # s = m @ b \<and> rx_in r (rev p) m b) \<or>
      (\<exists>a m b. s = a @ m @ b \<and> rx_in r (rev (c # p) @ a) m b)" (is "?L \<longleftrightarrow> ?R")
  proof
    assume ?L
    then obtain a m b where x: "c # s = a @ m @ b" "rx_in r (rev p @ a) m b" by blast
    then show ?R by (cases a) auto
  next
    assume ?R
    then show ?L
    proof
      assume "\<exists>m b. c # s = m @ b \<and> rx_in r (rev p) m b"
      then obtain m b where "c # s = [] @ m @ b" "rx_in r (rev p @ []) m b" by auto
      then show ?thesis by blast
    next
      assume "\<exists>a m b. s = a @ m @ b \<and> rx_in r (rev (c # p) @ a) m b"
      then obtain a m b where "c # s = (c # a) @ m @ b" "rx_in r (rev p @ (c # a)) m b" by auto
      then show ?thesis by blast
    qed
  qed
  show ?case by (simp add: Cons.IH here parts del: rev.simps)
qed

lemma rx_search_iff: "rx_search r s \<longleftrightarrow> (\<exists>a m b. s = a @ m @ b \<and> rx_in r a m b)"
  by (simp add: rx_search_def search_from_iff)

end
