(* ===== verification/Defender.thy ===== *)
theory Defender
  imports Rules
begin

text \<open>
  \<open>packages/shield-governance/src/shield_governance/defender/scanners.py\<close> and
  \<open>defender/engine.py\<close>: the scanners behind the \<open>InjectionScanner\<close> and
  \<open>StructuringAnalyzer\<close> protocols, and the engine that composes them with the rules.

  The engine's state is the per-run tracker and the per-run trace of tool calls.  The results
  of LlamaFirewall and of Invariant's \<open>LocalPolicy\<close> are parameters of their adapters.
\<close>

section \<open>Scanners\<close>

record scan_finding =
  sf_blocked :: bool
  sf_escalate :: bool
  sf_label :: string
  sf_detail :: string
  sf_score :: pyfloat

definition finding :: "bool \<Rightarrow> bool \<Rightarrow> string \<Rightarrow> string \<Rightarrow> pyfloat \<Rightarrow> scan_finding" where
  "finding b e l d s = \<lparr>sf_blocked = b, sf_escalate = e, sf_label = l, sf_detail = d, sf_score = s\<rparr>"

lemma finding_sel [simp]:
  "sf_blocked (finding b e l d s) = b" "sf_escalate (finding b e l d s) = e"
  "sf_label (finding b e l d s) = l" "sf_detail (finding b e l d s) = d"
  "sf_score (finding b e l d s) = s"
  by (simp_all add: finding_def)

type_synonym scanner = "string \<Rightarrow> string \<Rightarrow> scan_finding"

definition null_scan :: scanner where
  "null_scan content kind = finding False False ''scanner.disabled'' [] (Fin 0)"

definition fake_scan :: "string list \<Rightarrow> scanner" where
  "fake_scan triggers content kind =
     (case find (\<lambda>t. has_substring t content) triggers of
        Some t \<Rightarrow> finding True False (''scanner.injection.'' @ kind) (''matched '' @ repr_str t) (Fin 1)
      | None \<Rightarrow> finding False False ''scanner.clean'' [] (Fin 0))"

datatype llama_decision = LF_ALLOW | LF_HUMAN_IN_THE_LOOP_REQUIRED | LF_BLOCK

record llama_result =
  lf_decision :: llama_decision
  lf_reason :: string
  lf_score :: pyfloat

definition llama_scan :: "(string \<Rightarrow> llama_result) \<Rightarrow> scanner" where
  "llama_scan fw content kind =
     (let res = fw content in
      if lf_decision res = LF_BLOCK
      then finding True False (''scanner.injection.'' @ kind) (lf_reason res) (lf_score res)
      else if lf_decision res = LF_HUMAN_IN_THE_LOOP_REQUIRED
      then finding False True (''scanner.review.'' @ kind) (lf_reason res) (lf_score res)
      else finding False False ''scanner.clean'' (lf_reason res) (lf_score res))"

definition dangerous_code_patterns :: "(string \<times> rx) list" where
  "dangerous_code_patterns =
     [(''eval_exec'', r_seq [RWordB, r_alt [r_lit ''eval'', r_lit ''exec'', r_lit ''compile''],
         r_star is_space, r_lit ''('']),
      (''dunder_import'', r_seq [RWordB, r_lit ''__import__'', r_star is_space, r_lit ''('']),
      (''os_system'', r_seq [RWordB, r_lit ''os'', r_star is_space, r_lit ''.'', r_star is_space,
         r_alt [r_lit ''system'', r_lit ''popen'',
                r_seq [r_lit ''exec'', r_opt (\<lambda>c. c \<in> set ''lv''), r_star (\<lambda>c. c \<in> set ''pe'')],
                RSeq (r_lit ''spawn'') (r_star c_word), r_lit ''remove'', r_lit ''unlink''],
         RWordB]),
      (''subprocess'', r_seq [RWordB, r_lit ''subprocess'', r_star is_space, r_lit ''.'',
         r_star is_space, r_plus c_word]),
      (''dangerous_import'', r_seq [RWordB, RAlt (r_lit ''import'') (r_lit ''from''), r_plus is_space,
         r_alt [r_lit ''os'', r_lit ''subprocess'', r_lit ''sys'', r_lit ''shutil'', r_lit ''socket'',
                r_lit ''pty'', r_lit ''ctypes''],
         RWordB]),
      (''shell_backticks'', r_seq [RCls (\<lambda>c. (of_char c :: nat) = 96),
         r_plus (\<lambda>c. (of_char c :: nat) \<noteq> 96), RCls (\<lambda>c. (of_char c :: nat) = 96)]),
      (''shell_rm_rf'', r_seq [RWordB, r_lit ''rm'', r_plus is_space, r_lit ''-rf'', RWordB])]"

definition scan_code :: scanner where
  "scan_code content kind =
     (case (if content = [] then None else find (\<lambda>p. rx_search (snd p) content) dangerous_code_patterns) of
        Some (label, _) \<Rightarrow>
          finding True False (''scanner.code.'' @ kind)
            (''dangerous-code pattern ('' @ label @ '') in free-text '' @ kind) (Fin 1)
      | None \<Rightarrow> finding False False ''scanner.code.clean'' [] (Fin 0))"

definition code_shield_scan :: scanner where
  "code_shield_scan content kind = scan_code content kind"

section \<open>Cross-call analyzers\<close>

type_synonym violation = "string \<times> string"

text \<open>\<open>ev.get("tool_calls") or []\<close> and \<open>tc.get("function", {}).get("name")\<close> on a trace event.\<close>

definition event_tool_calls :: "json \<Rightarrow> json list" where
  "event_tool_calls ev =
     (case ev of JObj d \<Rightarrow> (case dget d ''tool_calls'' of Some (JArr l) \<Rightarrow> l | _ \<Rightarrow> []) | _ \<Rightarrow> [])"

definition call_name :: "json \<Rightarrow> json" where
  "call_name tc =
     (case tc of JObj d \<Rightarrow> (case dget d ''function'' of Some (JObj f) \<Rightarrow> field f ''name'' | _ \<Rightarrow> JNull)
      | _ \<Rightarrow> JNull)"

definition fake_structuring :: "nat \<Rightarrow> json list \<Rightarrow> violation list" where
  "fake_structuring threshold trace =
     (let n = length (filter (\<lambda>tc. call_name tc = JStr ''send_money'')
                        (concat (map event_tool_calls trace)))
      in if threshold \<le> n
         then [(''invariant.structuring'',
                show_nat n @ '' send_money calls (>= '' @ show_nat threshold @ '')'')]
         else [])"

definition local_policy_structuring :: "(json list \<Rightarrow> string list) \<Rightarrow> json list \<Rightarrow> violation list" where
  "local_policy_structuring errors trace = map (\<lambda>e. (''invariant.policy'', e)) (errors trace)"

section \<open>The engine\<close>

record defender_config =
  dc_enabled :: bool
  dc_policy :: defender_policy
  dc_run_scanner :: bool
  dc_run_invariant :: bool
  dc_run_code_scanner :: bool

definition default_defender_policy :: defender_policy where
  "default_defender_policy = \<lparr>dp_amount_cap = Some (NInt 10000), dp_cumulative_cap = Some (NInt 20000),
     dp_review_floor = None, dp_iban_allowlist = None, dp_require_valid_iban = False,
     dp_block_on_subject_secret = True\<rparr>"

record defender_deps =
  dd_repr :: "rat \<Rightarrow> string"
  dd_scanner :: scanner
  dd_code_scanner :: scanner
  dd_structuring :: "(json list \<Rightarrow> violation list) option"

record defender_state =
  ds_trackers :: "(string, tracker) dict"
  ds_traces :: "(string, json list) dict"

definition defender_init :: defender_state where
  "defender_init = \<lparr>ds_trackers = [], ds_traces = []\<rparr>"

definition defender_reason :: "string \<Rightarrow> string \<Rightarrow> pyfloat \<Rightarrow> verdict_reason" where
  "defender_reason label detail score =
     \<lparr>rs_agent = Some DEFENDER, rs_label = label, rs_detail = (if detail = [] then None else Some detail),
      rs_score = Some score, rs_model_id = None, rs_served_via = Some LOCAL\<rparr>"

definition tracker_of :: "defender_state \<Rightarrow> string \<Rightarrow> tracker" where
  "tracker_of st run = (case dget (ds_trackers st) run of None \<Rightarrow> [] | Some t \<Rightarrow> t)"

text \<open>\<open>setdefault\<close>: an absent run gets an empty tracker.\<close>

definition ensure_tracker :: "defender_state \<Rightarrow> string \<Rightarrow> defender_state" where
  "ensure_tracker st run = st\<lparr>ds_trackers := dset run (tracker_of st run) (ds_trackers st)\<rparr>"

definition trace_event :: "action_record \<Rightarrow> json" where
  "trace_event r = JObj
     [(''role'', JStr ''assistant''), (''content'', JNull),
      (''tool_calls'', JArr [JObj
        [(''id'', JStr (r_record_id r)), (''type'', JStr ''function''),
         (''function'', JObj
            [(''name'', JStr (case pl_tool_name (r_payload r) of None \<Rightarrow> [] | Some n \<Rightarrow> n)),
             (''arguments'', JObj (pl_tool_args (r_payload r)))])]])]"

definition append_trace :: "defender_state \<Rightarrow> action_record \<Rightarrow> defender_state \<times> json list" where
  "append_trace st r =
     (let tr = (case dget (ds_traces st) (r_run_id r) of None \<Rightarrow> [] | Some l \<Rightarrow> l) @ [trace_event r]
      in (st\<lparr>ds_traces := dset (r_run_id r) tr (ds_traces st)\<rparr>, tr))"

definition amount_or_zero :: "jobj \<Rightarrow> py_exc + pyfloat" where
  "amount_or_zero args =
     (case amount_arg args of
        Inl e \<Rightarrow> if e = TypeError \<or> e = ValueError then Inr (Fin 0) else Inl e
      | Inr a \<Rightarrow> Inr a)"

definition pass_labels :: "string list" where
  "pass_labels = [''amount.ok'', ''amount.review_ok'', ''iban.format_ok'', ''iban.allowlist_ok'',
     ''subject.clean'', ''cumulative.ok'', ''cumulative.disabled'', ''scanner.clean'',
     ''scanner.disabled'', ''defender.disabled'']"

definition decision_for :: "string \<Rightarrow> decision" where
  "decision_for label =
     (if label \<in> set pass_labels then PASS
      else if starts_with label ''scanner.review'' then ESCALATE
      else if label = ''amount.review_required'' then ESCALATE
      else BLOCK)"

text \<open>The severity table of \<open>engine.py\<close>; the two decisions outside it are never looked up.\<close>

definition sev :: "decision \<Rightarrow> nat" where
  "sev d = (case severity d of Some n \<Rightarrow> n | None \<Rightarrow> 0)"

definition worst_decision :: "verdict_reason list \<Rightarrow> decision" where
  "worst_decision reasons =
     foldl (\<lambda>d r. let d' = decision_for (rs_label r) in if sev d < sev d' then d' else d) PASS reasons"

definition score_of :: "verdict_reason \<Rightarrow> pyfloat" where
  "score_of r = (case rs_score r of None \<Rightarrow> Fin 0 | Some s \<Rightarrow> s)"

definition max_score :: "verdict_reason list \<Rightarrow> pyfloat" where
  "max_score reasons =
     (case reasons of [] \<Rightarrow> Fin 0 | r # rs \<Rightarrow> foldl (\<lambda>m x. fmax m (score_of x)) (score_of r) rs)"

definition engine_verdict ::
  "string \<Rightarrow> pyfloat \<Rightarrow> action_record \<Rightarrow> decision \<Rightarrow> verdict_reason list \<Rightarrow> pyfloat \<Rightarrow> pyfloat option
     \<Rightarrow> governance_verdict" where
  "engine_verdict vid latency r d reasons risk prevented_loss =
     (verdict_for vid r d (clamp01 risk) reasons
        (if prevented_loss \<noteq> None \<and> d \<in> {BLOCK, ROLLBACK}
         then no_obligations\<lparr>ob_prevented_loss := prevented_loss\<rparr> else no_obligations))
     \<lparr>v_latency_ms := Some latency\<rparr>"

text \<open>
  Step 1: the rules on a \<open>send_money\<close> call, with the commit of an allowed amount.  The value is
  the new state and either the exception or the reasons and the prevented loss.
\<close>

definition assess_rules ::
  "defender_deps \<Rightarrow> defender_config \<Rightarrow> defender_state \<Rightarrow> action_record
     \<Rightarrow> defender_state \<times> (py_exc + verdict_reason list \<times> pyfloat option)" where
  "assess_rules dd cfg st r =
     (let args = pl_tool_args (r_payload r); run = r_run_id r in
      if pl_tool_name (r_payload r) \<noteq> Some ''send_money'' then (st, Inr ([], None))
      else
       (let st1 = ensure_tracker st run in
        case evaluate_send_money (dd_repr dd) args (dc_policy cfg) (tracker_of st1 run) of
          Inl e \<Rightarrow> (st1, Inl e)
        | Inr out \<Rightarrow>
            if o_decision out \<in> {PASS, ALERT} then
              (case amount_or_zero args of
                 Inl e \<Rightarrow> (st1, Inl e)
               | Inr a \<Rightarrow>
                   (st1\<lparr>ds_trackers := dset run
                          (tracker_commit (tracker_of st1 run)
                             (py_str (dd_repr dd) (arg args ''recipient'' (JStr []))) a)
                          (ds_trackers st1)\<rparr>,
                    Inr ([to_verdict_reason out], None)))
            else (st1, Inr ([to_verdict_reason out],
                            if o_decision out \<in> {BLOCK, ROLLBACK} then o_prevented_loss out else None))))"

definition scan_reasons :: "bool \<Rightarrow> scanner \<Rightarrow> string \<Rightarrow> verdict_reason list" where
  "scan_reasons on scan subject =
     (if on \<and> subject \<noteq> [] then
        (let f = scan subject ''subject'' in
         if sf_blocked f \<or> sf_escalate f
         then [defender_reason (sf_label f) (sf_detail f) (sf_score f)] else [])
      else [])"

definition assess_invariant ::
  "defender_deps \<Rightarrow> defender_config \<Rightarrow> defender_state \<Rightarrow> action_record
     \<Rightarrow> defender_state \<times> verdict_reason list" where
  "assess_invariant dd cfg st r =
     (case dd_structuring dd of
        Some analyze \<Rightarrow>
          if dc_run_invariant cfg \<and> pl_tool_name (r_payload r) \<noteq> None \<and> pl_tool_name (r_payload r) \<noteq> Some []
          then (let (st', tr) = append_trace st r in
                (st', map (\<lambda>(l, d). defender_reason l d (Fin 1)) (analyze tr)))
          else (st, [])
      | None \<Rightarrow> (st, []))"

definition assess ::
  "defender_deps \<Rightarrow> defender_config \<Rightarrow> string \<Rightarrow> pyfloat \<Rightarrow> defender_state \<Rightarrow> action_record
     \<Rightarrow> defender_state \<times> (py_exc + governance_verdict)" where
  "assess dd cfg vid latency st r =
     (if \<not> dc_enabled cfg then
        (st, Inr (engine_verdict vid latency r PASS
                    [defender_reason ''defender.disabled'' ''Defender flag is off (W2)'' (Fin 0)] (Fin 0) None))
      else
       (case assess_rules dd cfg st r of
          (st1, Inl e) \<Rightarrow> (st1, Inl e)
        | (st1, Inr (rules, loss)) \<Rightarrow>
           (let subject = py_str (dd_repr dd) (arg (pl_tool_args (r_payload r)) ''subject'' (JStr []));
                (st2, inv) = assess_invariant dd cfg st1 r;
                reasons = rules @ scan_reasons (dc_run_scanner cfg) (dd_scanner dd) subject
                  @ scan_reasons (dc_run_code_scanner cfg) (dd_code_scanner dd) subject @ inv
            in (st2, Inr (engine_verdict vid latency r (worst_decision reasons) reasons
                            (max_score reasons) loss)))))"

section \<open>The worst reason decides\<close>

lemma decision_for_range: "decision_for l \<in> {PASS, ESCALATE, BLOCK}"
  by (simp add: decision_for_def)

lemma sev_simps [simp]: "sev PASS = 0" "sev ALERT = 1" "sev ESCALATE = 2" "sev BLOCK = 3"
  "sev ROLLBACK = 0" "sev REWRITE = 0"
  by (simp_all add: sev_def)

lemma worst_decision_foldl:
  assumes "d \<in> {PASS, ESCALATE, BLOCK}"
  shows "(let w = foldl (\<lambda>d r. let d' = decision_for (rs_label r) in if sev d < sev d' then d' else d) d rs in
      w \<in> {PASS, ESCALATE, BLOCK} \<and> (w = d \<or> (\<exists>r \<in> set rs. w = decision_for (rs_label r))) \<and>
      sev d \<le> sev w \<and> (\<forall>r \<in> set rs. sev (decision_for (rs_label r)) \<le> sev w))"
  using assms
proof (induction rs arbitrary: d)
  case (Cons r rs)
  let ?d = "if sev d < sev (decision_for (rs_label r)) then decision_for (rs_label r) else d"
  have "?d \<in> {PASS, ESCALATE, BLOCK}" using Cons.prems decision_for_range by simp
  from Cons.IH[OF this] show ?case by (auto simp: Let_def split: if_splits)
qed simp

lemma worst_decision_range: "worst_decision rs \<in> {PASS, ESCALATE, BLOCK}"
  using worst_decision_foldl[of PASS rs] by (simp add: worst_decision_def Let_def)

lemma worst_decision_ge: "r \<in> set rs \<Longrightarrow> sev (decision_for (rs_label r)) \<le> sev (worst_decision rs)"
  using worst_decision_foldl[of PASS rs] by (simp add: worst_decision_def Let_def)

lemma worst_decision_in:
  "worst_decision rs = PASS \<or> (\<exists>r \<in> set rs. worst_decision rs = decision_for (rs_label r))"
  using worst_decision_foldl[of PASS rs] by (simp add: worst_decision_def Let_def)

lemma worst_decision_BLOCK_iff:
  "worst_decision rs = BLOCK \<longleftrightarrow> (\<exists>r \<in> set rs. decision_for (rs_label r) = BLOCK)"
proof
  assume "\<exists>r \<in> set rs. decision_for (rs_label r) = BLOCK"
  then have "3 \<le> sev (worst_decision rs)" using worst_decision_ge by fastforce
  then show "worst_decision rs = BLOCK" using worst_decision_range[of rs] by auto
next
  assume "worst_decision rs = BLOCK"
  with worst_decision_in[of rs] show "\<exists>r \<in> set rs. decision_for (rs_label r) = BLOCK" by force
qed

section \<open>Labels and decisions agree\<close>

lemma decision_for_subject_secret: "decision_for (''subject.secret.'' @ l) = BLOCK"
  by (simp add: decision_for_def pass_labels_def starts_with_def)

lemma decision_for_rules:
  "decision_for (o_label (scan_subject_secrets s)) = o_decision (scan_subject_secrets s)"
  "decision_for (o_label (check_iban_allowlist i l)) = o_decision (check_iban_allowlist i l)"
  "decision_for (o_label (check_amount_cap fr a c)) = o_decision (check_amount_cap fr a c)"
  "decision_for (o_label (check_review_floor fr a c)) = o_decision (check_review_floor fr a c)"
  "decision_for (o_label (tracker_evaluate fr sent q a c)) = o_decision (tracker_evaluate fr sent q a c)"
proof -
  show "decision_for (o_label (scan_subject_secrets s)) = o_decision (scan_subject_secrets s)"
    unfolding scan_subject_secrets_def
    by (cases "find (\<lambda>p. rx_search (snd p) s) subject_secret_patterns")
      (simp_all add: split_beta decision_for_subject_secret[simplified],
       simp add: decision_for_def pass_labels_def)
  show "decision_for (o_label (check_iban_allowlist i l)) = o_decision (check_iban_allowlist i l)"
    by (simp add: check_iban_allowlist_def decision_for_def pass_labels_def starts_with_def)
  show "decision_for (o_label (check_amount_cap fr a c)) = o_decision (check_amount_cap fr a c)"
    by (cases c) (simp_all add: check_amount_cap_def decision_for_def pass_labels_def starts_with_def)
  show "decision_for (o_label (check_review_floor fr a c)) = o_decision (check_review_floor fr a c)"
    by (cases c) (simp_all add: check_review_floor_def decision_for_def pass_labels_def starts_with_def)
  show "decision_for (o_label (tracker_evaluate fr sent q a c)) = o_decision (tracker_evaluate fr sent q a c)"
    by (cases c) (simp_all add: tracker_evaluate_def Let_def decision_for_def pass_labels_def starts_with_def)
qed

lemma decision_for_iban: "check_iban_format i = Inr x \<Longrightarrow> decision_for (o_label x) = o_decision x"
  unfolding check_iban_format_def
  by (cases "is_valid_iban i") (auto simp: decision_for_def pass_labels_def starts_with_def split: if_splits)

lemma decision_for_evaluate:
  assumes "evaluate_send_money fr args policy sent = Inr w"
  shows "decision_for (o_label w) = o_decision w"
  using assms
proof (cases rule: evaluate_send_money_cases)
  case (bad e)
  then show ?thesis by (simp add: decision_for_def pass_labels_def starts_with_def)
next
  case (ok amount ibans)
  have "w \<in> set (send_outcomes fr args policy sent amount ibans)"
    using worst_in[OF send_outcomes_nonempty] ok(2) by blast
  moreover have "decision_for (o_label x) = o_decision x" if "x \<in> set ibans" for x
    using ok(4,5) that decision_for_iban by (cases "dp_require_valid_iban policy") auto
  ultimately show ?thesis
    by (auto simp: send_outcomes_def Let_def decision_for_rules split: if_splits)
qed

section \<open>The scanner contract\<close>

text \<open>
  What the engine relies on of a scanner: the label of a finding is one that the engine maps to
  the decision the finding asks for.
\<close>

locale injection_scanner =
  fixes scan :: "string \<Rightarrow> string \<Rightarrow> scan_finding"
  assumes blocked_label: "sf_blocked (scan content kind) \<Longrightarrow> decision_for (sf_label (scan content kind)) = BLOCK"
    and escalate_label: "\<not> sf_blocked (scan content kind) \<Longrightarrow> sf_escalate (scan content kind) \<Longrightarrow>
      decision_for (sf_label (scan content kind)) = ESCALATE"
begin

lemma scan_reasons_BLOCK:
  "(\<exists>r \<in> set (scan_reasons on scan s). decision_for (rs_label r) = BLOCK) \<longleftrightarrow>
     on \<and> s \<noteq> [] \<and> sf_blocked (scan s ''subject'')"
  by (cases "sf_blocked (scan s ''subject'')"; cases "sf_escalate (scan s ''subject'')")
    (simp_all add: scan_reasons_def Let_def defender_reason_def blocked_label escalate_label)

lemma scan_reasons_raise:
  "r \<in> set (scan_reasons on scan s) \<Longrightarrow> decision_for (rs_label r) \<in> {ESCALATE, BLOCK}"
  using blocked_label[of s "''subject''"] escalate_label[of s "''subject''"]
  by (auto simp: scan_reasons_def Let_def defender_reason_def split: if_splits)

end

lemma decision_for_scanner_labels:
  "decision_for (''scanner.injection.'' @ k) = BLOCK"
  "decision_for (''scanner.code.'' @ k) = BLOCK"
  "decision_for (''scanner.review.'' @ k) = ESCALATE"
  by (simp_all add: decision_for_def pass_labels_def starts_with_def)

lemmas scanner_label_simps = decision_for_scanner_labels [simplified]

interpretation null_scanner: injection_scanner null_scan
  by unfold_locales (simp_all add: null_scan_def)

interpretation fake_scanner: injection_scanner "fake_scan triggers" for triggers
  by unfold_locales (simp_all add: fake_scan_def scanner_label_simps split: option.splits)

interpretation llama_scanner: injection_scanner "llama_scan fw" for fw
  by unfold_locales (simp_all add: llama_scan_def Let_def scanner_label_simps split: if_splits)

lemma code_shield_finding:
  "sf_blocked (code_shield_scan content kind) \<Longrightarrow> sf_label (code_shield_scan content kind) = ''scanner.code.'' @ kind"
  "\<not> sf_escalate (code_shield_scan content kind)"
  unfolding code_shield_scan_def scan_code_def
  by (cases "if content = [] then None
       else find (\<lambda>p. rx_search (snd p) content) dangerous_code_patterns"; simp add: split_beta)+

interpretation code_shield: injection_scanner code_shield_scan
  by unfold_locales (simp_all only: code_shield_finding decision_for_scanner_labels)

section \<open>What one assessment does to the tracker\<close>

lemma tracker_of_ensure [simp]: "tracker_of (ensure_tracker st run) q = tracker_of st q"
  by (simp add: tracker_of_def ensure_tracker_def)

lemma tracker_of_set [simp]:
  "tracker_of (st\<lparr>ds_trackers := dset run t (ds_trackers st)\<rparr>) = (tracker_of st)(run := t)"
  by (rule ext) (simp add: tracker_of_def)

lemma tracker_of_ensure_fun [simp]: "tracker_of (ensure_tracker st run) = tracker_of st"
  by (rule ext) simp

lemma tracker_of_traces [simp]: "tracker_of (st\<lparr>ds_traces := t\<rparr>) q = tracker_of st q"
  by (simp add: tracker_of_def)

lemma tracker_of_invariant: "tracker_of (fst (assess_invariant dd cfg st r)) q = tracker_of st q"
  by (simp add: assess_invariant_def append_trace_def Let_def split: option.split)

lemma amount_or_zero_ok: "amount_arg args = Inr a \<Longrightarrow> amount_or_zero args = Inr a"
  by (simp add: amount_or_zero_def)

abbreviation recipient_of :: "(rat \<Rightarrow> string) \<Rightarrow> action_record \<Rightarrow> string" where
  "recipient_of fr r \<equiv> py_str fr (arg (pl_tool_args (r_payload r)) ''recipient'' (JStr []))"

abbreviation is_send_money :: "action_record \<Rightarrow> bool" where
  "is_send_money r \<equiv> pl_tool_name (r_payload r) = Some ''send_money''"

lemma rule_decision_PASS: "rule_decision w \<Longrightarrow> o_decision w \<in> {PASS, ALERT} \<longleftrightarrow> o_decision w = PASS"
  by (auto simp: rule_decision_def)

lemma engine_verdict_sel [simp]:
  "v_decision (engine_verdict vid lat r d rs risk loss) = d"
  "v_reasons (engine_verdict vid lat r d rs risk loss) = rs"
  "v_risk_score (engine_verdict vid lat r d rs risk loss) = clamp01 risk"
  "ob_prevented_loss (v_obligations (engine_verdict vid lat r d rs risk loss)) =
     (if d \<in> {BLOCK, ROLLBACK} then loss else None)"
  by (auto simp: engine_verdict_def no_obligations_def)

lemma assess_rules_pass:
  assumes "is_send_money r"
    and "evaluate_send_money (dd_repr dd) (pl_tool_args (r_payload r)) (dc_policy cfg)
             (tracker_of st (r_run_id r)) = Inr w"
    and "o_decision w = PASS" and "amount_arg (pl_tool_args (r_payload r)) = Inr a"
  shows "assess_rules dd cfg st r =
    ((ensure_tracker st (r_run_id r))\<lparr>ds_trackers := dset (r_run_id r)
        (tracker_commit (tracker_of st (r_run_id r)) (recipient_of (dd_repr dd) r) a)
        (ds_trackers (ensure_tracker st (r_run_id r)))\<rparr>,
     Inr ([to_verdict_reason w], None))"
  unfolding assess_rules_def Let_def tracker_of_ensure assms(1,2) using assms(3)
  by (simp add: amount_or_zero_ok[OF assms(4)])

text \<open>
  The step of an enabled engine: without a commit the tracker is unchanged and a transfer is not
  let through; a commit records exactly the amount of a call that every rule passed.
\<close>

lemma assess_step:
  assumes "assess dd cfg vid lat st r = (st', res)" and "dc_enabled cfg"
  obtains
    (kept) "tracker_of st' = tracker_of st"
      and "\<And>v. is_send_money r \<Longrightarrow> res = Inr v \<Longrightarrow> v_decision v \<notin> {PASS, ALERT}"
  | (committed) w a where "is_send_money r" and "amount_arg (pl_tool_args (r_payload r)) = Inr a"
      and "evaluate_send_money (dd_repr dd) (pl_tool_args (r_payload r)) (dc_policy cfg)
             (tracker_of st (r_run_id r)) = Inr w"
      and "o_decision w = PASS"
      and "tracker_of st' = (tracker_of st)(r_run_id r :=
             tracker_commit (tracker_of st (r_run_id r)) (recipient_of (dd_repr dd) r) a)"
proof -
  let ?args = "pl_tool_args (r_payload r)" and ?run = "r_run_id r"
  let ?ev = "evaluate_send_money (dd_repr dd) ?args (dc_policy cfg) (tracker_of st ?run)"
  obtain st1 res1 where s1: "assess_rules dd cfg st r = (st1, res1)" by (cases "assess_rules dd cfg st r")
  have st': "tracker_of st' = tracker_of st1"
    using assms s1 tracker_of_invariant[of dd cfg st1 r]
    by (auto simp: assess_def Let_def split: sum.splits prod.splits)
  show ?thesis
  proof (cases "is_send_money r")
    case False
    then have "st1 = st" using s1 by (simp add: assess_rules_def Let_def)
    with st' False show ?thesis by (intro kept) auto
  next
    case True
    show ?thesis
    proof (cases ?ev)
      case (Inl e)
      with s1 True have "tracker_of st1 = tracker_of st" "res1 = Inl e"
        by (auto simp: assess_rules_def Let_def)
      with st' assms s1 show ?thesis by (intro kept) (auto simp: assess_def)
    next
      case (Inr w)
      note rd = evaluate_rule_decision[OF Inr]
      show ?thesis
      proof (cases "o_decision w = PASS")
        case p: True
        from evaluate_amount[OF Inr p] obtain a where a: "amount_arg ?args = Inr a" ..
        have "st1 = fst (assess_rules dd cfg st r)" by (simp add: s1)
        then have "tracker_of st1 = (tracker_of st)(?run :=
            tracker_commit (tracker_of st ?run) (recipient_of (dd_repr dd) r) a)"
          by (simp only: assess_rules_pass[OF True Inr p a] fst_conv tracker_of_set
              tracker_of_ensure_fun)
        with st' have "tracker_of st' = (tracker_of st)(?run :=
            tracker_commit (tracker_of st ?run) (recipient_of (dd_repr dd) r) a)" by (rule trans)
        from committed[OF True a Inr p this] show ?thesis .
      next
        case False
        with rd have "o_decision w \<notin> {PASS, ALERT}" using rule_decision_PASS by blast
        with s1 True Inr have t: "tracker_of st1 = tracker_of st"
          and r1: "\<exists>loss. res1 = Inr ([to_verdict_reason w], loss)"
          by (auto simp: assess_rules_def Let_def)
        have lab: "decision_for (rs_label (to_verdict_reason w)) = o_decision w"
          by (simp add: to_verdict_reason_def decision_for_evaluate[OF Inr])
        have "v_decision v \<notin> {PASS, ALERT}" if "res = Inr v" for v
        proof -
          from that assms s1 r1 obtain rs where "v_decision v = worst_decision (to_verdict_reason w # rs)"
            by (auto simp: assess_def Let_def split: prod.splits)
          with worst_decision_ge[of "to_verdict_reason w" "to_verdict_reason w # rs"] lab rd False
          show ?thesis by (auto simp: rule_decision_def)
        qed
        with t st' show ?thesis by (intro kept) auto
      qed
    qed
  qed
qed
section \<open>Structuring\<close>

text \<open>A sequence of assessments; each input brings its verdict id, its latency and its record.\<close>

fun assess_all ::
  "defender_deps \<Rightarrow> defender_config \<Rightarrow> defender_state \<Rightarrow> (string \<times> pyfloat \<times> action_record) list
     \<Rightarrow> (action_record \<times> (py_exc + governance_verdict)) list" where
  "assess_all dd cfg st [] = []"
| "assess_all dd cfg st ((vid, latency, r) # ins) =
     (let (st', res) = assess dd cfg vid latency st r in (r, res) # assess_all dd cfg st' ins)"

text \<open>The amounts of the transfers to one recipient that a run's verdicts let through.\<close>

definition released ::
  "(rat \<Rightarrow> string) \<Rightarrow> string \<Rightarrow> string \<Rightarrow> action_record \<times> (py_exc + governance_verdict) \<Rightarrow> pyfloat list" where
  "released fr run who x =
     (case x of (r, res) \<Rightarrow>
       (case res of
          Inl _ \<Rightarrow> []
        | Inr v \<Rightarrow>
            if r_run_id r = run \<and> is_send_money r \<and> recipient_of fr r = who \<and> v_decision v \<in> {PASS, ALERT}
            then (case amount_arg (pl_tool_args (r_payload r)) of Inl _ \<Rightarrow> [] | Inr a \<Rightarrow> [a])
            else []))"

text \<open>The amounts are whole non-negative numbers.\<close>

definition whole_amount :: "action_record \<Rightarrow> bool" where
  "whole_amount r \<longleftrightarrow>
     (case arg (pl_tool_args (r_payload r)) ''amount'' (JInt 0) of JInt n \<Rightarrow> 0 \<le> n | _ \<Rightarrow> False)"

lemma float_of_int_capped:
  assumes "float_of_int n = Some x" and "fle x (Fin (of_int c))" and "\<bar>c\<bar> < 2 ^ 53 - 1"
  shows "n \<le> c"
proof (rule ccontr)
  assume "\<not> n \<le> c"
  then have "(of_int (c + 1) :: rat) \<le> of_int n" by linarith
  from rnd64_mono[OF this] have "fle (Fin (of_int (c + 1))) (rnd64 (of_int n))"
    using rnd64_int_exact[of "c + 1"] assms(3) by simp
  moreover have "rnd64 (of_int n) = x" using assms(1) by (simp add: float_of_int_def split: pyfloat.splits)
  ultimately have "fle (Fin (of_int (c + 1))) (Fin (of_int c))" using assms(2) fle_trans by blast
  then show False by simp
qed

lemma whole_amount_capped:
  assumes "whole_amount r" and "amount_arg (pl_tool_args (r_payload r)) = Inr a"
    and "fle a (Fin (of_int c))" and "0 \<le> c" and "c < 2 ^ 53 - 1"
  obtains n where "a = Fin (of_int n)" and "0 \<le> n" and "n \<le> c"
proof -
  from assms(1) obtain n where n: "arg (pl_tool_args (r_payload r)) ''amount'' (JInt 0) = JInt n" "0 \<le> n"
    by (auto simp: whole_amount_def split: json.splits)
  then have "amount_arg (pl_tool_args (r_payload r)) = py_float (JInt n)"
    by (auto simp: amount_arg_def Let_def)
  with assms(2) have f: "float_of_int n = Some a" by (simp add: py_float_def split: option.splits)
  have "\<bar>c\<bar> < 2 ^ 53 - 1" using assms(4,5) by simp
  from float_of_int_capped[OF f assms(3) this] have le: "n \<le> c" .
  with n(2) assms(5) have "\<bar>n\<bar> < 2 ^ 53" by simp
  from rnd64_int_exact[OF this] f have "a = Fin (of_int n)"
    by (simp add: float_of_int_def split: pyfloat.splits)
  with n(2) le that show ?thesis by blast
qed

text \<open>
  One assessment moves the total of a recipient by a whole number within both caps, and lets
  through nothing or exactly that number.
\<close>

lemma released_step:
  assumes cfg: "dc_enabled cfg" "dp_amount_cap (dc_policy cfg) = Some (NInt A)"
      "dp_cumulative_cap (dc_policy cfg) = Some (NInt C)"
    and AC: "0 \<le> A" "A < 2 ^ 52" "0 \<le> C" "C < 2 ^ 52"
    and whole: "r_run_id r = run \<and> is_send_money r \<longrightarrow> whole_amount r"
    and tot: "tracker_total (tracker_of st run) who = Fin (of_int c)" "0 \<le> c" "c \<le> C"
    and a: "assess dd cfg vid lat st r = (st', res)"
  obtains n where "tracker_total (tracker_of st' run) who = Fin (of_int (c + n))" and "0 \<le> n" and "c + n \<le> C"
    and "released (dd_repr dd) run who (r, res) = []
      \<or> n \<le> A \<and> released (dd_repr dd) run who (r, res) = [Fin (of_int n)]"
  using a cfg(1)
proof (cases rule: assess_step)
  case kept
  have "released (dd_repr dd) run who (r, res) = []"
    using kept(2) by (auto simp: released_def split: sum.split)
  with kept(1) tot show ?thesis by (intro that[of 0]) simp_all
next
  case (committed out x)
  show ?thesis
  proof (cases "r_run_id r = run \<and> recipient_of (dd_repr dd) r = who")
    case False
    then have "released (dd_repr dd) run who (r, res) = []"
      by (auto simp: released_def split: sum.split)
    moreover have "tracker_total (tracker_of st' run) who = Fin (of_int c)"
      using committed(5) tot(1) False by (auto simp: tracker_total_def tracker_commit_def)
    ultimately show ?thesis using tot by (intro that[of 0]) simp_all
  next
    case True
    have wr: "whole_amount r" using whole True committed(1) by simp
    from evaluate_allows[OF committed(3,4)] obtain x' where x': "amount_arg (pl_tool_args (r_payload r)) = Inr x'"
      "fle x' (Fin (of_int A))"
      "\<not> flt (Fin (of_int C)) (fadd (tracker_total (tracker_of st (r_run_id r)) (recipient_of (dd_repr dd) r)) x')"
      using cfg(2,3) by (metis num_val.simps(1))
    have xx: "x' = x" using x'(1) committed(2) by simp
    from whole_amount_capped[OF wr committed(2) x'(2)[unfolded xx] AC(1)] AC(2)
    obtain n where n: "x = Fin (of_int n)" "0 \<le> n" "n \<le> A" by auto
    have small: "\<bar>c + n\<bar> < 2 ^ 53" using n tot(2,3) AC by simp
    have proj: "fadd (Fin (of_int c)) x = Fin (of_int (c + n))" unfolding n(1) by (rule fadd_ints[OF small])
    have le: "c + n \<le> C" using x'(3) True tot(1) proj by (simp add: xx del: of_int_add)
    have "tracker_total (tracker_of st' run) who = Fin (of_int (c + n))"
      using committed(5) tot(1) True proj by (simp add: tracker_total_def tracker_commit_def)
    moreover have "released (dd_repr dd) run who (r, res) = [] \<or> released (dd_repr dd) run who (r, res) = [x]"
      using committed(2) by (auto simp: released_def split: sum.split)
    ultimately show ?thesis using n le by (intro that[of n]) simp_all
  qed
qed

lemma released_bounded:
  assumes cfg: "dc_enabled cfg" "dp_amount_cap (dc_policy cfg) = Some (NInt A)"
      "dp_cumulative_cap (dc_policy cfg) = Some (NInt C)"
    and AC: "0 \<le> A" "A < 2 ^ 52" "0 \<le> C" "C < 2 ^ 52"
    and whole: "\<forall>(vid, lat, r) \<in> set ins. r_run_id r = run \<and> is_send_money r \<longrightarrow> whole_amount r"
    and tot: "tracker_total (tracker_of st run) who = Fin (of_int c)" "0 \<le> c" "c \<le> C"
  shows "\<exists>ns. concat (map (released (dd_repr dd) run who) (assess_all dd cfg st ins)) = map (\<lambda>n. Fin (of_int n)) ns
    \<and> (\<forall>n \<in> set ns. 0 \<le> n \<and> n \<le> A) \<and> c + sum_list ns \<le> C"
  using whole tot
proof (induction ins arbitrary: st c)
  case (Cons inp ins)
  obtain vid lat r where inp: "inp = (vid, lat, r)" by (metis prod_cases3)
  obtain st' res where a: "assess dd cfg vid lat st r = (st', res)" by (cases "assess dd cfg vid lat st r")
  have w: "r_run_id r = run \<and> is_send_money r \<longrightarrow> whole_amount r"
    "\<forall>(vid, lat, r) \<in> set ins. r_run_id r = run \<and> is_send_money r \<longrightarrow> whole_amount r"
    using Cons.prems(1) by (simp_all add: inp)
  obtain n where n: "tracker_total (tracker_of st' run) who = Fin (of_int (c + n))" "0 \<le> n" "c + n \<le> C"
    "released (dd_repr dd) run who (r, res) = []
      \<or> n \<le> A \<and> released (dd_repr dd) run who (r, res) = [Fin (of_int n)]"
    by (rule released_step[OF cfg AC w(1) Cons.prems(2-4) a])
  from Cons.IH[OF w(2) n(1) _ n(3)] n(2) Cons.prems(3) obtain ns where
    ns: "concat (map (released (dd_repr dd) run who) (assess_all dd cfg st' ins)) = map (\<lambda>n. Fin (of_int n)) ns"
      "\<forall>n \<in> set ns. 0 \<le> n \<and> n \<le> A" "c + n + sum_list ns \<le> C" by auto
  have step: "concat (map (released (dd_repr dd) run who) (assess_all dd cfg st (inp # ins))) =
      released (dd_repr dd) run who (r, res) @ map (\<lambda>n. Fin (of_int n)) ns"
    by (simp add: inp a ns(1))
  from n(4) show ?case
  proof
    assume "released (dd_repr dd) run who (r, res) = []"
    with ns n(2) step show ?thesis by (intro exI[of _ ns]) simp
  next
    assume "n \<le> A \<and> released (dd_repr dd) run who (r, res) = [Fin (of_int n)]"
    with ns n(2) step show ?thesis by (intro exI[of _ "n # ns"]) (simp add: add.assoc)
  qed
qed simp

text \<open>Whole amounts of at most 10000 with a sum below 30000 are not what the attacker needs.\<close>

lemma capped_transfers_fail:
  assumes "\<forall>n \<in> set ns. 0 \<le> n \<and> n \<le> A" and "A \<le> 10000" and "sum_list ns < 30000"
  shows "\<not> agentdojo_injectiontask6_security (map (\<lambda>n. Fin (of_int n)) ns)"
proof -
  have "py_sum (map (\<lambda>n. Fin (of_int n)) ns) = Fin (of_int (sum_list ns))"
    by (rule py_sum_ints) (use assms in auto)
  moreover have "(of_int (sum_list ns) :: rat) < of_int 30000" using assms(3) by linarith
  moreover have "list_all (\<lambda>a. fle a (Fin 10000)) (map (\<lambda>n. Fin (of_int n)) ns)"
  proof -
    have "(of_int n :: rat) \<le> of_int 10000" if "n \<in> set ns" for n
      using assms(1,2) that by fastforce
    then show ?thesis by (simp add: list_all_iff)
  qed
  ultimately show ?thesis by (simp add: agentdojo_injectiontask6_security_def)
qed

text \<open>
C3. The structuring attack is defeated: whatever sequence of calls (to any recipient, in any
order, interleaved with other runs and other tools) an enabled engine with a per-call cap of at
most 10000 and a cumulative cap below 30000 assesses from a fresh run, with whole non-negative
amounts, the transfers to one recipient that its PASS and ALERT verdicts let through never satisfy
the attacker's success condition of AgentDojo's InjectionTask6.
\<close>

theorem structuring_defeated:
  assumes "dc_enabled cfg" and "dp_amount_cap (dc_policy cfg) = Some (NInt A)"
    and "dp_cumulative_cap (dc_policy cfg) = Some (NInt C)"
    and "0 \<le> A" and "A \<le> 10000" and "0 \<le> C" and "C < 30000"
    and "\<forall>(vid, lat, r) \<in> set ins. r_run_id r = run \<and> is_send_money r \<longrightarrow> whole_amount r"
    and "tracker_of st run = []"
  shows "\<not> agentdojo_injectiontask6_security
           (concat (map (released (dd_repr dd) run who) (assess_all dd cfg st ins)))"
proof -
  have AC: "A < 2 ^ 52" "C < 2 ^ 52" using assms(5,7) by simp_all
  have t: "tracker_total (tracker_of st run) who = Fin (of_int 0)"
    by (simp add: assms(9) tracker_total_def)
  from released_bounded[OF assms(1-4) AC(1) assms(6) AC(2) assms(8) t] assms(6)
  obtain ns where ns: "concat (map (released (dd_repr dd) run who) (assess_all dd cfg st ins)) =
      map (\<lambda>n. Fin (of_int n)) ns"
    and b: "\<forall>n \<in> set ns. 0 \<le> n \<and> n \<le> A" "sum_list ns \<le> C" by auto
  show ?thesis unfolding ns by (rule capped_transfers_fail[OF b(1) assms(5)]) (use b(2) assms(7) in simp)
qed

text \<open>A transfer, and an engine with the default caps, for the witnesses.\<close>

definition send_record :: "string \<Rightarrow> json \<Rightarrow> action_record" where
  "send_record who amount = demo_record\<lparr>r_payload := (r_payload demo_record)\<lparr>pl_tool_args :=
     [(''recipient'', JStr who), (''amount'', amount), (''subject'', JStr ''rent'')]\<rparr>\<rparr>"

definition demo_deps :: defender_deps where
  "demo_deps = \<lparr>dd_repr = (\<lambda>x. ''f''), dd_scanner = null_scan, dd_code_scanner = code_shield_scan,
     dd_structuring = None\<rparr>"

definition demo_config :: defender_config where
  "demo_config = \<lparr>dc_enabled = True, dc_policy = default_defender_policy, dc_run_scanner = True,
     dc_run_invariant = True, dc_run_code_scanner = True\<rparr>"

definition attack :: "(string \<times> pyfloat \<times> action_record) list" where
  "attack = replicate 3 (''v'', Fin 0, send_record ''US133000000121212121212'' (JInt 10000))"

theorem structuring_defeated_witness:
  "concat (map (released (dd_repr demo_deps) ''run-1'' ''US133000000121212121212'')
      (assess_all demo_deps demo_config defender_init attack)) = [Fin 10000, Fin 10000] \<and>
   \<not> agentdojo_injectiontask6_security
     (concat (map (released (dd_repr demo_deps) ''run-1'' ''US133000000121212121212'')
        (assess_all demo_deps demo_config defender_init attack)))"
proof (rule conjI, code_simp, rule structuring_defeated[where A = 10000 and C = 20000])
  show "\<forall>(vid, lat, r) \<in> set attack. r_run_id r = ''run-1'' \<and> is_send_money r \<longrightarrow> whole_amount r"
    by (simp add: attack_def whole_amount_def send_record_def arg_def)
qed (simp_all add: demo_config_def default_defender_policy_def defender_init_def tracker_of_def)

definition caps_respected :: "rat \<Rightarrow> defender_state \<Rightarrow> bool" where
  "caps_respected c st \<longleftrightarrow>
     (\<forall>run who. let t = tracker_total (tracker_of st run) who in t \<noteq> NaN \<and> fle t (Fin c))"

lemma fadd_not_NaN: "t \<noteq> NaN \<Longrightarrow> a \<noteq> NaN \<Longrightarrow> t \<noteq> PInf \<Longrightarrow> a \<noteq> PInf \<Longrightarrow> fadd t a \<noteq> NaN"
  by (cases t; cases a) simp_all

text \<open>
Every running total stays under the cumulative cap: from a state whose totals respect the cap,
any assessment (any tool, any argument values, whether it passes, blocks or raises) leads to a
state whose totals respect it, for finite caps and a policy with a per-call cap.
\<close>

theorem cumulative_cap_invariant:
  assumes "caps_respected c st" and "dc_enabled cfg"
    and "dp_amount_cap (dc_policy cfg) = Some k" and "num_val k = Fin a"
    and "dp_cumulative_cap (dc_policy cfg) = Some m" and "num_val m = Fin c"
    and "assess dd cfg vid lat st r = (st', res)"
  shows "caps_respected c st'"
  using assms(7,2)
proof (cases rule: assess_step)
  case kept
  with assms(1) show ?thesis by (simp add: caps_respected_def)
next
  case (committed w x)
  let ?t = "tracker_total (tracker_of st (r_run_id r)) (recipient_of (dd_repr dd) r)"
  from evaluate_allows[OF committed(3,4)] have x: "fle x (Fin a)"
    and p: "\<not> flt (Fin c) (fadd ?t x)"
    using assms(3-6) committed(2) by (metis Inr_inject)+
  from assms(1) have t: "?t \<noteq> NaN" "fle ?t (Fin c)" by (simp_all add: caps_respected_def Let_def)
  have "fadd ?t x \<noteq> NaN"
    by (rule fadd_not_NaN) (use t x in auto)
  moreover from this p have "fle (fadd ?t x) (Fin c)" by (simp add: not_flt_iff)
  ultimately show ?thesis
    using assms(1) committed(5)
    by (auto simp: caps_respected_def Let_def tracker_total_def tracker_commit_def)
qed

theorem cumulative_cap_invariant_witness:
  "caps_respected 20000 (fst (assess demo_deps demo_config ''v'' (Fin 0) defender_init
     (send_record ''X'' (JInt 10000))))"
proof -
  have i: "caps_respected 20000 defender_init"
    by (simp add: caps_respected_def defender_init_def tracker_of_def tracker_total_def)
  show ?thesis
    by (rule cumulative_cap_invariant[OF i _ _ _ _ _ prod.collapse [symmetric],
          where k = "NInt 10000" and m = "NInt 20000" and a = 10000])
      (simp_all add: demo_config_def default_defender_policy_def)
qed

section \<open>What blocks\<close>

lemma decision_for_invariant: "decision_for ''invariant.policy'' = BLOCK" "decision_for ''invariant.structuring'' = BLOCK"
  by (simp_all add: decision_for_def pass_labels_def starts_with_def)

definition subject_of :: "(rat \<Rightarrow> string) \<Rightarrow> action_record \<Rightarrow> string" where
  "subject_of fr r = py_str fr (arg (pl_tool_args (r_payload r)) ''subject'' (JStr []))"

definition rule_blocks :: "defender_deps \<Rightarrow> defender_config \<Rightarrow> defender_state \<Rightarrow> action_record \<Rightarrow> bool" where
  "rule_blocks dd cfg st r \<longleftrightarrow> is_send_money r \<and>
     (case evaluate_send_money (dd_repr dd) (pl_tool_args (r_payload r)) (dc_policy cfg)
             (tracker_of st (r_run_id r)) of Inl _ \<Rightarrow> False | Inr w \<Rightarrow> o_decision w = BLOCK)"

lemma assess_rules_reasons:
  assumes "assess_rules dd cfg st r = (st1, Inr (rs, loss))"
  shows "(\<exists>x \<in> set rs. decision_for (rs_label x) = BLOCK) \<longleftrightarrow> rule_blocks dd cfg st r"
proof (cases "is_send_money r")
  case False
  with assms show ?thesis by (auto simp: assess_rules_def Let_def rule_blocks_def)
next
  case True
  let ?ev = "evaluate_send_money (dd_repr dd) (pl_tool_args (r_payload r)) (dc_policy cfg) (tracker_of st (r_run_id r))"
  from assms True obtain w where w: "?ev = Inr w"
    by (cases ?ev) (auto simp: assess_rules_def Let_def)
  with assms True have "rs = [to_verdict_reason w]"
    by (auto simp: assess_rules_def Let_def split: if_splits sum.splits)
  then show ?thesis using w True decision_for_evaluate[OF w]
    by (simp add: rule_blocks_def to_verdict_reason_def)
qed

lemma code_shield_blocked_iff:
  "sf_blocked (code_shield_scan s kind) \<longleftrightarrow>
     s \<noteq> [] \<and> (\<exists>(l, p) \<in> set dangerous_code_patterns. \<exists>a m b. s = a @ m @ b \<and> rx_in p a m b)"
proof -
  let ?f = "find (\<lambda>p. rx_search (snd p) s) dangerous_code_patterns"
  have "sf_blocked (code_shield_scan s kind) \<longleftrightarrow> s \<noteq> [] \<and> ?f \<noteq> None"
    unfolding code_shield_scan_def scan_code_def by (cases ?f) (auto simp: split_beta)
  also have "?f \<noteq> None \<longleftrightarrow> (\<exists>x \<in> set dangerous_code_patterns. rx_search (snd x) s)"
    by (metis find_None_iff2 find_None_iff)
  finally show ?thesis by (simp add: rx_search_iff split_beta)
qed

text \<open>
The engine with the LlamaFirewall, code and Invariant adapters blocks exactly when something
asks for it: a rule's worst outcome is BLOCK, the firewall's decision on a non-empty subject is
BLOCK, the subject contains a match of a dangerous-code pattern, or the policy engine reports a
violation on the run's trace extended by this call.
\<close>

theorem assess_blocks_iff:
  assumes "dc_enabled cfg" and "dd_scanner dd = llama_scan fw" and "dd_code_scanner dd = code_shield_scan"
    and "dd_structuring dd = Some (local_policy_structuring errs)"
    and "assess dd cfg vid lat st r = (st', Inr v)"
  shows "v_decision v = BLOCK \<longleftrightarrow>
      rule_blocks dd cfg st r
    \<or> (dc_run_scanner cfg \<and> subject_of (dd_repr dd) r \<noteq> [] \<and>
         lf_decision (fw (subject_of (dd_repr dd) r)) = LF_BLOCK)
    \<or> (dc_run_code_scanner cfg \<and> subject_of (dd_repr dd) r \<noteq> [] \<and>
         (\<exists>(l, p) \<in> set dangerous_code_patterns. \<exists>a m b. subject_of (dd_repr dd) r = a @ m @ b \<and> rx_in p a m b))
    \<or> (dc_run_invariant cfg \<and> pl_tool_name (r_payload r) \<notin> {None, Some []} \<and>
         errs ((case dget (ds_traces st) (r_run_id r) of None \<Rightarrow> [] | Some l \<Rightarrow> l) @ [trace_event r]) \<noteq> [])"
proof -
  let ?s = "subject_of (dd_repr dd) r"
  obtain st1 rs loss where s1: "assess_rules dd cfg st r = (st1, Inr (rs, loss))"
    using assms(1,5) by (auto simp: assess_def split: prod.splits sum.splits)
  have tr: "ds_traces st1 = ds_traces st"
    using s1 by (auto simp: assess_rules_def ensure_tracker_def Let_def split: if_splits sum.splits)
  let ?inv = "snd (assess_invariant dd cfg st1 r)"
  have v: "v_decision v = worst_decision (rs @ scan_reasons (dc_run_scanner cfg) (llama_scan fw) ?s
      @ scan_reasons (dc_run_code_scanner cfg) code_shield_scan ?s @ ?inv)"
    using assms(1,5) by (auto simp: assess_def s1 Let_def subject_of_def assms(2,3) split: prod.splits)
  have inv: "(\<exists>x \<in> set ?inv. decision_for (rs_label x) = BLOCK) \<longleftrightarrow>
      dc_run_invariant cfg \<and> pl_tool_name (r_payload r) \<notin> {None, Some []} \<and>
      errs ((case dget (ds_traces st) (r_run_id r) of None \<Rightarrow> [] | Some l \<Rightarrow> l) @ [trace_event r]) \<noteq> []"
    by (cases "errs ((case dget (ds_traces st) (r_run_id r) of None \<Rightarrow> [] | Some l \<Rightarrow> l) @ [trace_event r])")
      (auto simp: assess_invariant_def append_trace_def Let_def local_policy_structuring_def tr assms(4)
        defender_reason_def decision_for_invariant)
  have lf: "sf_blocked (llama_scan fw ?s k) \<longleftrightarrow> lf_decision (fw ?s) = LF_BLOCK" for k
    by (simp add: llama_scan_def Let_def)
  show ?thesis
    unfolding v worst_decision_BLOCK_iff
    using assess_rules_reasons[OF s1] llama_scanner.scan_reasons_BLOCK[of "dc_run_scanner cfg" fw ?s]
      code_shield.scan_reasons_BLOCK[of "dc_run_code_scanner cfg" ?s] inv
    by (simp add: bex_Un lf code_shield_blocked_iff)
qed

definition demo_deps_full :: defender_deps where
  "demo_deps_full = \<lparr>dd_repr = (\<lambda>x. ''f''),
     dd_scanner = llama_scan (\<lambda>s. \<lparr>lf_decision = LF_ALLOW, lf_reason = [], lf_score = Fin 0\<rparr>),
     dd_code_scanner = code_shield_scan,
     dd_structuring = Some (local_policy_structuring (\<lambda>tr. if 3 \<le> length tr then [''structuring''] else []))\<rparr>"

theorem assess_blocks_iff_witness:
  "\<exists>v. snd (assess demo_deps_full demo_config ''v'' (Fin 0) defender_init
           (send_record ''X'' (JInt 10001))) = Inr v \<and> v_decision v = BLOCK"
proof -
  let ?r = "send_record ''X'' (JInt 10001)"
  have rb: "rule_blocks demo_deps_full demo_config defender_init ?r" by code_simp
  have "is_ok (snd (assess demo_deps_full demo_config ''v'' (Fin 0) defender_init ?r))" by code_simp
  then obtain st' v where a: "assess demo_deps_full demo_config ''v'' (Fin 0) defender_init ?r = (st', Inr v)"
    by (metis is_ok_simps(1) prod.collapse sum.exhaust)
  have "v_decision v = BLOCK"
    by (rule assess_blocks_iff[THEN iffD2, OF _ _ _ _ a])
      (use rb in \<open>simp_all add: demo_deps_full_def demo_config_def\<close>)
  with a show ?thesis by simp
qed

end
