(* ===== verification/Supervisor.thy ===== *)
theory Supervisor
  imports Defender
begin

text \<open>
  \<open>packages/shield-governance/src/shield_governance/supervisor.py\<close>: the aggregation of the
  guardians' signals into one verdict.  The risk is computed in binary64 in the order of the
  source.  The arbiter, consulted on a conflict between Defender and Evaluator only, is a
  parameter; what it is told of the outcome (\<open>record_evidence\<close>) is returned with the verdict.
  \<open>_SEVERITY\<close> has no entry for REWRITE: looking it up is a KeyError.
\<close>

record supervisor_policy =
  sp_w_defender :: pyfloat
  sp_w_evaluator :: pyfloat
  sp_w_auditor :: pyfloat
  sp_w_baseline :: pyfloat
  sp_t_alert :: pyfloat
  sp_t_escalate :: pyfloat
  sp_t_block :: pyfloat

definition default_supervisor_policy :: supervisor_policy where
  "default_supervisor_policy = \<lparr>sp_w_defender = flit (35 / 100), sp_w_evaluator = flit (35 / 100),
     sp_w_auditor = flit (20 / 100), sp_w_baseline = flit (10 / 100),
     sp_t_alert = flit (10 / 100), sp_t_escalate = flit (30 / 100), sp_t_block = flit (60 / 100)\<rparr>"

record guardian_signals =
  gs_defender_decision :: decision
  gs_defender_reasons :: "verdict_reason list"
  gs_evaluator_anomaly :: pyfloat
  gs_evaluator_reasons :: "verdict_reason list"
  gs_auditor_integrity :: pyfloat
  gs_auditor_reasons :: "verdict_reason list"
  gs_baseline :: pyfloat
  gs_evaluator_ran :: bool
  gs_structuring_or_exfil :: bool
  gs_chain_broken :: bool
  gs_post_exec :: bool
  gs_prevented_loss :: "pyfloat option"

definition default_signals :: guardian_signals where
  "default_signals = \<lparr>gs_defender_decision = PASS, gs_defender_reasons = [],
     gs_evaluator_anomaly = Fin 0, gs_evaluator_reasons = [], gs_auditor_integrity = Fin 1,
     gs_auditor_reasons = [], gs_baseline = Fin 0, gs_evaluator_ran = False,
     gs_structuring_or_exfil = False, gs_chain_broken = False, gs_post_exec = False,
     gs_prevented_loss = None\<rparr>"

definition all_reasons :: "guardian_signals \<Rightarrow> verdict_reason list" where
  "all_reasons s = gs_defender_reasons s @ gs_evaluator_reasons s @ gs_auditor_reasons s"

fun sup_severity :: "decision \<Rightarrow> py_exc + nat" where
  "sup_severity PASS = Inr 0"
| "sup_severity ALERT = Inr 1"
| "sup_severity ESCALATE = Inr 2"
| "sup_severity ROLLBACK = Inr 3"
| "sup_severity BLOCK = Inr 4"
| "sup_severity REWRITE = Inl KeyError"

text \<open>\<open>max((a, b), key=...)\<close>: the first unless the second is greater.\<close>

definition max_decision :: "decision \<Rightarrow> decision \<Rightarrow> py_exc + decision" where
  "max_decision a b =
     rbind (sup_severity a) (\<lambda>x. rbind (sup_severity b) (\<lambda>y. Inr (if x < y then b else a)))"

definition risk_to_decision :: "pyfloat \<Rightarrow> supervisor_policy \<Rightarrow> decision" where
  "risk_to_decision risk policy =
     (if flt risk (sp_t_alert policy) then PASS
      else if flt risk (sp_t_escalate policy) then ALERT
      else if flt risk (sp_t_block policy) then ESCALATE
      else BLOCK)"

definition defender_blocked :: "guardian_signals \<Rightarrow> bool" where
  "defender_blocked s = (gs_defender_decision s \<in> {BLOCK, ROLLBACK})"

definition is_conflict :: "guardian_signals \<Rightarrow> supervisor_policy \<Rightarrow> py_exc + bool" where
  "is_conflict s policy =
     (if \<not> gs_evaluator_ran s then Inr False
      else rbind (sup_severity (gs_defender_decision s)) (\<lambda>d.
           rbind (sup_severity (risk_to_decision (gs_evaluator_anomaly s) policy)) (\<lambda>e.
             Inr ((d \<le> 1) \<noteq> (e \<le> 1)))))"

type_synonym arbiter = "guardian_signals \<Rightarrow> action_record \<Rightarrow> py_exc + (decision \<times> verdict_reason option)"

definition conservative_arbiter :: arbiter where
  "conservative_arbiter s r =
     rbind (max_decision (gs_defender_decision s)
              (risk_to_decision (gs_evaluator_anomaly s) default_supervisor_policy))
       (\<lambda>d. Inr (d, None))"

definition aggregate_risk :: "supervisor_policy \<Rightarrow> guardian_signals \<Rightarrow> py_exc + pyfloat" where
  "aggregate_risk p s =
     (let defender_pass = (if defender_blocked s then Fin 0 else Fin 1);
          num = fadd (fadd (fadd (fmul defender_pass (sp_w_defender p))
                                 (fmul (fsub (Fin 1) (gs_evaluator_anomaly s)) (sp_w_evaluator p)))
                           (fmul (gs_auditor_integrity s) (sp_w_auditor p)))
                     (fmul (fsub (Fin 1) (gs_baseline s)) (sp_w_baseline p));
          den = fadd (fadd (fadd (sp_w_defender p) (sp_w_evaluator p)) (sp_w_auditor p)) (sp_w_baseline p)
      in case fdiv num den of
           None \<Rightarrow> Inl ZeroDivisionError
         | Some wavg \<Rightarrow> Inr (clamp01 (fsub (Fin 1) wavg)))"

text \<open>
  The branch of \<open>decide\<close>: the decision, whether it escalates, whether it rolls back, the extra
  reason and what the arbiter's evidence hook is given.
\<close>

record branch =
  br_decision :: decision
  br_escalate :: bool
  br_rollback :: bool
  br_reason :: "verdict_reason option"

definition arbitration_reason :: "pyfloat \<Rightarrow> verdict_reason" where
  "arbitration_reason risk = verdict_reason_of SUPERVISOR ''supervisor.arbitrated''
     (Some ''Defender<->Evaluator conflict resolved by arbitrate()'') (Some risk)"

definition decide_branch ::
  "supervisor_policy \<Rightarrow> arbiter \<Rightarrow> guardian_signals \<Rightarrow> action_record \<Rightarrow> pyfloat \<Rightarrow> py_exc + branch" where
  "decide_branch p arb s r risk =
     (if defender_blocked s then
        Inr \<lparr>br_decision = BLOCK, br_escalate = False, br_rollback = gs_post_exec s, br_reason = None\<rparr>
      else if gs_chain_broken s \<or> gs_structuring_or_exfil s then
        Inr \<lparr>br_decision = BLOCK, br_escalate = True, br_rollback = False, br_reason = None\<rparr>
      else rbind (is_conflict s p) (\<lambda>conflict.
        if conflict then
          rbind (arb s r) (\<lambda>(d, reason).
            Inr \<lparr>br_decision = d, br_escalate = False, br_rollback = d = BLOCK \<and> gs_post_exec s,
                 br_reason = Some (case reason of None \<Rightarrow> arbitration_reason risk | Some x \<Rightarrow> x)\<rparr>)
        else
          rbind (max_decision (gs_defender_decision s) (risk_to_decision risk p)) (\<lambda>d.
            Inr \<lparr>br_decision = d, br_escalate = d = ESCALATE,
                 br_rollback = d \<in> {BLOCK, ROLLBACK} \<and> gs_post_exec s, br_reason = None\<rparr>)))"

definition supervisor_decide ::
  "supervisor_policy \<Rightarrow> arbiter \<Rightarrow> string \<Rightarrow> guardian_signals \<Rightarrow> action_record
     \<Rightarrow> py_exc + (governance_verdict \<times> (action_record \<times> decision \<times> verdict_reason) option)" where
  "supervisor_decide p arb vid s r =
     rbind (aggregate_risk p s) (\<lambda>risk.
     rbind (decide_branch p arb s r risk) (\<lambda>b.
       let reasons = all_reasons s @ (case br_reason b of None \<Rightarrow> [] | Some x \<Rightarrow> [x]);
           escalate = (br_escalate b \<or> br_decision b = ESCALATE);
           d = (if br_rollback b \<and> gs_post_exec s then ROLLBACK else br_decision b);
           ob1 = (if escalate then no_obligations\<lparr>ob_require_human := Some True\<rparr> else no_obligations);
           ob2 = (if br_rollback b then ob1\<lparr>ob_rollback := Some
                    \<lparr>rb_langgraph_checkpoint_id = cx_checkpoint_id (r_context r),
                     rb_env_snapshot_ref = cx_env_snapshot_ref (r_context r)\<rparr>\<rparr> else ob1);
           ob3 = (if d \<in> {BLOCK, ROLLBACK} \<and> gs_prevented_loss s \<noteq> None
                  then ob2\<lparr>ob_prevented_loss := gs_prevented_loss s\<rparr> else ob2);
           reasons' = (if reasons = []
                       then [verdict_reason_of SUPERVISOR ''supervisor.clean'' None (Some risk)] else reasons)
       in Inr (verdict_for vid r d risk reasons' ob3,
               map_option (\<lambda>x. (r, br_decision b, x)) (br_reason b))))"

definition structuring_labels :: "string list" where
  "structuring_labels = [''cumulative.structuring'', ''invariant.'', ''subject.secret'']"

definition signals_from_defender :: "governance_verdict \<Rightarrow> phase \<Rightarrow> guardian_signals" where
  "signals_from_defender v ph =
     default_signals\<lparr>gs_defender_decision := v_decision v, gs_defender_reasons := v_reasons v,
       gs_structuring_or_exfil :=
         list_ex (\<lambda>x. list_ex (starts_with (rs_label x)) structuring_labels) (v_reasons v),
       gs_post_exec := ph = POST_EXEC,
       gs_prevented_loss := ob_prevented_loss (v_obligations v)\<rparr>"

section \<open>The risk\<close>

lemma aggregate_risk_range: "aggregate_risk p s = Inr risk \<Longrightarrow> \<exists>x. risk = Fin x \<and> 0 \<le> x \<and> x \<le> 1"
  using clamp01_bounds by (auto simp: aggregate_risk_def Let_def split: option.splits)

text \<open>
  On the synchronous path (Evaluator and Auditor have not run) with an unblocked Defender the
  weighted average divides a sum by itself, so the risk is exactly zero although the default
  weights add up to a float below 1.
\<close>

lemma sync_risk:
  assumes "\<not> defender_blocked s" and "gs_evaluator_anomaly s = Fin 0" and "gs_auditor_integrity s = Fin 1"
    and "gs_baseline s = Fin 0"
    and w: "sp_w_defender p = Fin a" "sp_w_evaluator p = Fin b" "sp_w_auditor p = Fin c" "sp_w_baseline p = Fin d"
    and r: "rnd64 a = Fin a" "rnd64 b = Fin b" "rnd64 c = Fin c" "rnd64 d = Fin d"
    and den: "fadd (fadd (fadd (Fin a) (Fin b)) (Fin c)) (Fin d) = Fin x" and "x \<noteq> 0"
  shows "aggregate_risk p s = Inr (Fin 0)"
proof -
  have one: "rnd64 1 = Fin 1" using rnd64_int_exact[of 1] by simp
  have zero: "rnd64 0 = Fin 0" by (simp add: rnd64_def)
  have "fsub (Fin 1) (Fin 0) = Fin 1" "fsub (Fin 1) (Fin 1) = Fin 0" by (simp_all add: fsub_def one zero)
  moreover have "fmul (Fin 1) (Fin y) = rnd64 y" for y by simp
  moreover have "fdiv (Fin x) (Fin x) = Some (Fin 1)" using \<open>x \<noteq> 0\<close> one by simp
  moreover have "clamp01 (Fin 0) = Fin 0" by (rule clamp01_id) simp_all
  ultimately show ?thesis
    unfolding aggregate_risk_def Let_def by (simp only: assms if_False w r den option.case)
qed

lemma default_weights:
  "flit (35 / 100) = Fin (3152519739159347 / 9007199254740992)"
  "flit (20 / 100) = Fin (3602879701896397 / 18014398509481984)"
  "flit (10 / 100) = Fin (3602879701896397 / 36028797018963968)"
  by code_simp+

lemma default_weights_exact:
  "rnd64 (3152519739159347 / 9007199254740992) = Fin (3152519739159347 / 9007199254740992)"
  "rnd64 (3602879701896397 / 18014398509481984) = Fin (3602879701896397 / 18014398509481984)"
  "rnd64 (3602879701896397 / 36028797018963968) = Fin (3602879701896397 / 36028797018963968)"
  by code_simp+

lemma default_den:
  "fadd (fadd (fadd (Fin (3152519739159347 / 9007199254740992)) (Fin (3152519739159347 / 9007199254740992)))
      (Fin (3602879701896397 / 18014398509481984))) (Fin (3602879701896397 / 36028797018963968)) =
     Fin (9007199254740991 / 9007199254740992)"
  by code_simp

lemma default_policy_weights:
  "sp_w_defender default_supervisor_policy = Fin (3152519739159347 / 9007199254740992)"
  "sp_w_evaluator default_supervisor_policy = Fin (3152519739159347 / 9007199254740992)"
  "sp_w_auditor default_supervisor_policy = Fin (3602879701896397 / 18014398509481984)"
  "sp_w_baseline default_supervisor_policy = Fin (3602879701896397 / 36028797018963968)"
  by (simp_all only: default_supervisor_policy_def supervisor_policy.select_convs default_weights)

lemma default_sync_risk:
  assumes "\<not> defender_blocked s" and "gs_evaluator_anomaly s = Fin 0" and "gs_auditor_integrity s = Fin 1"
    and "gs_baseline s = Fin 0"
  shows "aggregate_risk default_supervisor_policy s = Inr (Fin 0)"
  by (rule sync_risk[OF assms default_policy_weights default_weights_exact(1) default_weights_exact default_den])
    simp

lemma aggregate_risk_cong:
  assumes "defender_blocked s = defender_blocked s'" and "gs_evaluator_anomaly s = gs_evaluator_anomaly s'"
    and "gs_auditor_integrity s = gs_auditor_integrity s'" and "gs_baseline s = gs_baseline s'"
  shows "aggregate_risk p s = aggregate_risk p s'"
  by (simp add: aggregate_risk_def assms)

lemma default_risk_PASS: "risk_to_decision (Fin 0) default_supervisor_policy = PASS"
  unfolding risk_to_decision_def default_supervisor_policy_def supervisor_policy.select_convs default_weights
  by simp

section \<open>What the supervisor decides\<close>

lemma max_decision_cases:
  assumes "max_decision a b = Inr d"
  shows "\<exists>x y. sup_severity a = Inr x \<and> sup_severity d = Inr y \<and> x \<le> y \<and> (d = a \<or> d = b \<and> x < y)"
  using assms by (cases a; cases b) (auto simp: max_decision_def)

lemma max_decision_PASS: "a \<noteq> REWRITE \<Longrightarrow> max_decision a PASS = Inr a"
  by (cases a) (simp_all add: max_decision_def)

lemma supervisor_decide_cases:
  assumes "supervisor_decide p arb vid s r = Inr (v, ev)"
  obtains risk b where "aggregate_risk p s = Inr risk" and "decide_branch p arb s r risk = Inr b"
    and "v_decision v = (if br_rollback b \<and> gs_post_exec s then ROLLBACK else br_decision b)"
    and "v_risk_score v = risk"
    and "ob_require_human (v_obligations v) =
           (if br_escalate b \<or> br_decision b = ESCALATE then Some True else None)"
    and "ob_rollback (v_obligations v) = (if br_rollback b then Some
           \<lparr>rb_langgraph_checkpoint_id = cx_checkpoint_id (r_context r),
            rb_env_snapshot_ref = cx_env_snapshot_ref (r_context r)\<rparr> else None)"
    and "ob_prevented_loss (v_obligations v) =
           (if v_decision v \<in> {BLOCK, ROLLBACK} then gs_prevented_loss s else None)"
    and "v_reasons v \<noteq> []" and "ev = map_option (\<lambda>x. (r, br_decision b, x)) (br_reason b)"
    and "v_record_id v = Some (r_record_id r)" and "v_signature_by_shield v = None"
    and "ob_rewrite_args (v_obligations v) = None"
proof -
  from assms obtain risk b where rb: "aggregate_risk p s = Inr risk" "decide_branch p arb s r risk = Inr b"
    by (auto simp: supervisor_decide_def)
  have v: "fst (v, ev) = v" "snd (v, ev) = ev" by simp_all
  note d = assms[unfolded supervisor_decide_def rb rbind_simps Let_def, THEN Inr_inject, symmetric]
  note dv = arg_cong[OF d, of fst, unfolded fst_conv] and de = arg_cong[OF d, of snd, unfolded snd_conv]
  show ?thesis
  proof (rule that[OF rb])
    show "v_reasons v \<noteq> []" unfolding dv by (cases "br_reason b") auto
    show "ob_prevented_loss (v_obligations v) =
           (if v_decision v \<in> {BLOCK, ROLLBACK} then gs_prevented_loss s else None)"
      unfolding dv by (simp add: no_obligations_def)
    show "ob_rollback (v_obligations v) = (if br_rollback b then Some
           \<lparr>rb_langgraph_checkpoint_id = cx_checkpoint_id (r_context r),
            rb_env_snapshot_ref = cx_env_snapshot_ref (r_context r)\<rparr> else None)"
      unfolding dv by (simp add: no_obligations_def)
    show "ob_require_human (v_obligations v) =
           (if br_escalate b \<or> br_decision b = ESCALATE then Some True else None)"
      unfolding dv by (simp add: no_obligations_def)
    show "ob_rewrite_args (v_obligations v) = None" unfolding dv by (simp add: no_obligations_def)
    show "ev = map_option (\<lambda>x. (r, br_decision b, x)) (br_reason b)" by (rule de)
  qed (simp_all add: dv)
qed

lemma decide_branch_override:
  "defender_blocked s \<Longrightarrow> decide_branch p arb s r risk =
     Inr \<lparr>br_decision = BLOCK, br_escalate = False, br_rollback = gs_post_exec s, br_reason = None\<rparr>"
  "\<not> defender_blocked s \<Longrightarrow> gs_chain_broken s \<or> gs_structuring_or_exfil s \<Longrightarrow> decide_branch p arb s r risk =
     Inr \<lparr>br_decision = BLOCK, br_escalate = True, br_rollback = False, br_reason = None\<rparr>"
  by (simp_all add: decide_branch_def)

lemma supervisor_decide_total:
  assumes "aggregate_risk p s = Inr risk" and "decide_branch p arb s r risk = Inr b"
  shows "\<exists>v ev. supervisor_decide p arb vid s r = Inr (v, ev)"
  by (simp add: supervisor_decide_def assms Let_def)

text \<open>
The hard overrides hold whatever the weights, the thresholds and the arbiter: when the
Defender blocks, the verdict is BLOCK before execution and ROLLBACK (with both rollback keys of
the record) after it, with the Defender's prevented loss; when the chain is broken or structuring
or exfiltration was found, it is BLOCK and requires a human.  The arbiter is not consulted.
\<close>

theorem supervisor_hard_override:
  assumes "aggregate_risk p s = Inr risk"
    and "defender_blocked s \<or> gs_chain_broken s \<or> gs_structuring_or_exfil s"
  shows "\<exists>v. supervisor_decide p arb vid s r = Inr (v, None)
    \<and> v_decision v = (if defender_blocked s \<and> gs_post_exec s then ROLLBACK else BLOCK)
    \<and> ob_prevented_loss (v_obligations v) = gs_prevented_loss s
    \<and> (ob_require_human (v_obligations v) = Some True \<longleftrightarrow> \<not> defender_blocked s)
    \<and> (v_decision v = ROLLBACK \<longrightarrow> ob_rollback (v_obligations v) = Some
         \<lparr>rb_langgraph_checkpoint_id = cx_checkpoint_id (r_context r),
          rb_env_snapshot_ref = cx_env_snapshot_ref (r_context r)\<rparr>)"
proof (cases "defender_blocked s")
  case True
  from supervisor_decide_total[OF assms(1) decide_branch_override(1)[OF True]]
  obtain v ev where d: "supervisor_decide p arb vid s r = Inr (v, ev)" by blast
  from d show ?thesis
    by (rule supervisor_decide_cases) (use d True in \<open>auto simp: decide_branch_override(1)[OF True]\<close>)
next
  case False
  with assms(2) have o: "gs_chain_broken s \<or> gs_structuring_or_exfil s" by simp
  note b = decide_branch_override(2)[OF False this]
  from supervisor_decide_total[OF assms(1) b]
  obtain v ev where d: "supervisor_decide p arb vid s r = Inr (v, ev)" by blast
  from d show ?thesis
    by (rule supervisor_decide_cases) (use d False in \<open>auto simp: b\<close>)
qed

theorem supervisor_hard_override_witness:
  "\<exists>v. supervisor_decide default_supervisor_policy conservative_arbiter ''v''
         (default_signals\<lparr>gs_chain_broken := True\<rparr>) demo_record = Inr (v, None) \<and> v_decision v = BLOCK"
proof -
  let ?s = "default_signals\<lparr>gs_chain_broken := True\<rparr>"
  have "aggregate_risk default_supervisor_policy ?s = Inr (Fin 0)"
    by (rule default_sync_risk) (simp_all add: defender_blocked_def default_signals_def)
  from supervisor_hard_override[OF this, where arb = conservative_arbiter and vid = "''v''" and r = demo_record]
  show ?thesis by (auto simp: defender_blocked_def default_signals_def)
qed

text \<open>
A guardian is never overruled downwards without a conflict: outside the
Defender-Evaluator conflict the verdict is at least as severe as the Defender's decision, a PASS
means that the Defender passed and that nothing was broken or structured, an ESCALATE always
asks for a human, and every verdict has a reason and a risk in [0, 1].
\<close>

theorem supervisor_floor:
  assumes "supervisor_decide p arb vid s r = Inr (v, ev)" and "is_conflict s p = Inr False"
    and "gs_defender_decision s \<noteq> REWRITE"
  shows "(\<exists>x y. sup_severity (gs_defender_decision s) = Inr x \<and> sup_severity (v_decision v) = Inr y
        \<and> (x \<le> y \<or> gs_defender_decision s = BLOCK \<and> v_decision v = ROLLBACK))
    \<and> (v_decision v = PASS \<longrightarrow> gs_defender_decision s = PASS \<and> \<not> gs_chain_broken s \<and> \<not> gs_structuring_or_exfil s)
    \<and> (v_decision v = ESCALATE \<longrightarrow> ob_require_human (v_obligations v) = Some True)
    \<and> (\<exists>x. v_risk_score v = Fin x \<and> 0 \<le> x \<and> x \<le> 1) \<and> v_reasons v \<noteq> [] \<and> ev = None"
  using assms(1)
proof (cases rule: supervisor_decide_cases)
  case (1 risk b)
  have risk: "\<exists>x. v_risk_score v = Fin x \<and> 0 \<le> x \<and> x \<le> 1"
    unfolding 1(4) by (rule aggregate_risk_range[OF 1(1)])
  have "\<exists>d. br_decision b = d \<and> br_reason b = None \<and>
      (d = BLOCK \<or> \<not> (defender_blocked s \<or> gs_chain_broken s \<or> gs_structuring_or_exfil s) \<and>
         max_decision (gs_defender_decision s) (risk_to_decision risk p) = Inr d) \<and>
      (br_rollback b \<longrightarrow> d \<in> {BLOCK, ROLLBACK})"
    using 1(2) assms(2) by (auto simp: decide_branch_def split: if_splits)
  then obtain d where d: "br_decision b = d" "br_reason b = None"
    "d = BLOCK \<or> \<not> (defender_blocked s \<or> gs_chain_broken s \<or> gs_structuring_or_exfil s) \<and>
       max_decision (gs_defender_decision s) (risk_to_decision risk p) = Inr d"
    "br_rollback b \<longrightarrow> d \<in> {BLOCK, ROLLBACK}" by blast
  have v: "v_decision v = d \<or> v_decision v = ROLLBACK \<and> d = BLOCK" using 1(3) d(1,4) by auto
  have sev: "\<exists>x y. sup_severity (gs_defender_decision s) = Inr x \<and> sup_severity (v_decision v) = Inr y
        \<and> (x \<le> y \<or> gs_defender_decision s = BLOCK \<and> v_decision v = ROLLBACK)"
    using d(3)
  proof
    assume "d = BLOCK"
    with v assms(3) show ?thesis by (cases "gs_defender_decision s") auto
  next
    assume "\<not> (defender_blocked s \<or> gs_chain_broken s \<or> gs_structuring_or_exfil s) \<and>
       max_decision (gs_defender_decision s) (risk_to_decision risk p) = Inr d"
    then have nb: "\<not> defender_blocked s" and m: "max_decision (gs_defender_decision s) (risk_to_decision risk p) = Inr d"
      by simp_all
    from max_decision_cases[OF m] v nb show ?thesis
      by (cases "gs_defender_decision s") (auto simp: defender_blocked_def)
  qed
  have pass: "gs_defender_decision s = PASS \<and> \<not> gs_chain_broken s \<and> \<not> gs_structuring_or_exfil s"
    if "v_decision v = PASS"
  proof -
    have "d = PASS" using v that by auto
    then show ?thesis using d(3) sev that by (cases "gs_defender_decision s") auto
  qed
  have esc: "ob_require_human (v_obligations v) = Some True" if "v_decision v = ESCALATE"
    using 1(5) v that d(1) by auto
  show ?thesis using sev pass esc risk 1(8,9) d(2) by auto
qed

theorem supervisor_floor_witness:
  "\<exists>v ev. supervisor_decide default_supervisor_policy conservative_arbiter ''v''
         (default_signals\<lparr>gs_defender_decision := ESCALATE\<rparr>) demo_record = Inr (v, ev) \<and>
      v_decision v \<noteq> PASS \<and> ev = None"
proof -
  let ?s = "default_signals\<lparr>gs_defender_decision := ESCALATE\<rparr>"
  have c: "is_conflict ?s default_supervisor_policy = Inr False"
    by (simp add: is_conflict_def default_signals_def)
  have a: "aggregate_risk default_supervisor_policy ?s = Inr (Fin 0)"
    by (rule default_sync_risk) (simp_all add: defender_blocked_def default_signals_def)
  have "\<exists>b. decide_branch default_supervisor_policy conservative_arbiter ?s demo_record (Fin 0) = Inr b"
    using c by (simp add: decide_branch_def default_risk_PASS max_decision_def defender_blocked_def default_signals_def)
  with supervisor_decide_total[OF a] obtain v ev where
    d: "supervisor_decide default_supervisor_policy conservative_arbiter ''v'' ?s demo_record = Inr (v, ev)" by blast
  from supervisor_floor[OF d c] d show ?thesis by (auto simp: default_signals_def)
qed

end
