(* ===== verification/Vectors.thy ===== *)
theory Vectors
  imports PyText
begin

text \<open>
  The numeric helpers of \<open>packages/shield-governance/src/shield_governance/evaluator.py\<close> and the
  local embedder of \<open>memory/incidents.py\<close>: square root, cosine, centroid and the deterministic
  hash embedding, in binary64 and in the order of the source.  The digest of \<open>blake2b\<close> is a
  parameter.
\<close>

section \<open>math.sqrt\<close>

text \<open>
  The integer root by bits from the top.  The root of a float is taken of \<open>x * 4 ^ s\<close>, with \<open>s\<close>
  such that the integer root has 56 bits; half a unit marks an inexact root, so that
  rounding to 53 bits gives the float nearest to the real root.
\<close>

primrec root_bits :: "nat \<Rightarrow> nat \<Rightarrow> nat \<Rightarrow> nat" where
  "root_bits 0 n r = r"
| "root_bits (Suc k) n r = root_bits k n (if (r + 2 ^ k) * (r + 2 ^ k) \<le> n then r + 2 ^ k else r)"

definition root_shift :: "rat \<Rightarrow> int" where
  "root_shift x = 55 - lead_exp x div 2"

definition py_sqrt :: "pyfloat \<Rightarrow> py_exc + pyfloat" where
  "py_sqrt v =
     (case v of
        NaN \<Rightarrow> Inr NaN
      | PInf \<Rightarrow> Inr PInf
      | NInf \<Rightarrow> Inl ValueError
      | Fin x \<Rightarrow>
          if x < 0 then Inl ValueError
          else if x = 0 then Inr (Fin 0)
          else
            (let s = root_shift x; y = x * pow2 (2 * s); n = nat \<lfloor>y\<rfloor>; r = root_bits 57 n 0;
                 rest = (if of_nat r * of_nat r = y then 0 else 1 / 2)
             in Inr (rnd64 ((of_nat r + rest) * pow2 (- s)))))"

lemma root_bits_spec:
  assumes "r * r \<le> n" and "n < (r + 2 ^ k) * (r + 2 ^ k)"
  shows "root_bits k n r * root_bits k n r \<le> n \<and> n < (root_bits k n r + 1) * (root_bits k n r + 1)"
  using assms
proof (induction k arbitrary: r)
  case (Suc k)
  have two: "r + 2 ^ Suc k = (r + 2 ^ k) + 2 ^ k" by simp
  show ?case
  proof (cases "(r + 2 ^ k) * (r + 2 ^ k) \<le> n")
    case True
    with Suc.IH[of "r + 2 ^ k"] Suc.prems(2) show ?thesis unfolding two by simp
  next
    case False
    with Suc.IH[of r] Suc.prems(1) show ?thesis by simp
  qed
qed simp

lemma pow2_double: "pow2 (2 * e) = pow2 e * pow2 e"
  by (simp add: pow2_add[symmetric])

text \<open>The scaled argument fits the 57 bits of the root.\<close>

lemma root_fits:
  assumes "0 < x"
  shows "x * pow2 (2 * root_shift x) < 2 ^ 114"
proof -
  have l: "x < pow2 (lead_exp x + 1)" using lead_exp_bounds[OF assms] by simp
  have "x * pow2 (2 * root_shift x) < pow2 (lead_exp x + 1) * pow2 (2 * root_shift x)"
    using l by (rule mult_strict_right_mono) simp
  also have "\<dots> = pow2 (lead_exp x + 1 + 2 * root_shift x)" by (simp add: pow2_add)
  also have "\<dots> \<le> pow2 (int 114)" by (rule pow2_mono) (simp add: root_shift_def)
  finally show ?thesis by (simp add: pow2_nat)
qed

text \<open>The value before the last rounding is the root to within one unit of its last bit.\<close>

lemma py_sqrt_close:
  assumes "0 < x" and "r = root_bits 57 (nat \<lfloor>x * pow2 (2 * root_shift x)\<rfloor>) 0"
  shows "(of_nat r * pow2 (- root_shift x)) * (of_nat r * pow2 (- root_shift x)) \<le> x
    \<and> x < ((of_nat r + 1) * pow2 (- root_shift x)) * ((of_nat r + 1) * pow2 (- root_shift x))"
proof -
  let ?s = "root_shift x" and ?n = "nat \<lfloor>x * pow2 (2 * root_shift x)\<rfloor>"
  have n0: "0 \<le> x * pow2 (2 * ?s)" using assms(1) by (intro mult_nonneg_nonneg less_imp_le pow2_pos)
  have f: "\<lfloor>x * pow2 (2 * ?s)\<rfloor> < 2 ^ 114" using root_fits[OF assms(1)] by (simp add: floor_less_iff)
  have "?n < (0 + 2 ^ 57) * (0 + 2 ^ 57)"
  proof (rule ccontr)
    assume "\<not> ?n < (0 + 2 ^ 57) * (0 + 2 ^ 57)"
    then have "int (2 ^ 114) \<le> int ?n" by (simp only: of_nat_le_iff not_less) simp
    with f n0 show False by simp
  qed
  from root_bits_spec[OF _ this] have r: "r * r \<le> ?n" "?n < (r + 1) * (r + 1)" unfolding assms(2) by simp_all
  have up: "of_nat (r * r) \<le> x * pow2 (2 * ?s)"
  proof -
    have "of_nat (r * r) \<le> (of_nat ?n :: rat)" using r(1) by (simp only: of_nat_le_iff)
    also have "\<dots> \<le> x * pow2 (2 * ?s)" using n0 by (simp add: of_nat_nat)
    finally show ?thesis .
  qed
  have lo: "x * pow2 (2 * ?s) < of_nat ((r + 1) * (r + 1))"
  proof -
    have "x * pow2 (2 * ?s) < of_nat ?n + 1"
      using n0 floor_correct[of "x * pow2 (2 * ?s)"] by (simp add: of_nat_nat)
    also have "\<dots> = of_nat (Suc ?n)" by simp
    also have "\<dots> \<le> (of_nat ((r + 1) * (r + 1)) :: rat)" using r(2) by (simp only: of_nat_le_iff Suc_le_eq)
    finally show ?thesis .
  qed
  let ?u = "pow2 (- ?s)"
  have "pow2 (2 * ?s) * (?u * ?u) = 1" by (simp add: pow2_add[symmetric])
  then have inv: "x * pow2 (2 * ?s) * (?u * ?u) = x" by (simp only: mult.assoc mult_1_right)
  have sq: "(a * ?u) * (a * ?u) = a * a * (?u * ?u)" for a by (simp only: ac_simps)
  have pos: "0 < ?u * ?u" by simp
  from mult_right_mono[OF up less_imp_le[OF pos]] mult_strict_right_mono[OF lo pos]
  show ?thesis unfolding inv sq of_nat_mult of_nat_add of_nat_1 by simp
qed

section \<open>Vectors\<close>

text \<open>The first exception of a list of results, or the list of the values.\<close>

primrec rlist :: "(py_exc + 'a) list \<Rightarrow> py_exc + 'a list" where
  "rlist [] = Inr []"
| "rlist (m # ms) = rbind m (\<lambda>x. rbind (rlist ms) (\<lambda>xs. Inr (x # xs)))"

definition div_float :: "pyfloat \<Rightarrow> pyfloat \<Rightarrow> py_exc + pyfloat" where
  "div_float a b = (case fdiv a b of None \<Rightarrow> Inl ZeroDivisionError | Some c \<Rightarrow> Inr c)"

definition is_zero :: "pyfloat \<Rightarrow> bool" where
  "is_zero x = (x = Fin 0)"

definition py_dot :: "pyfloat list \<Rightarrow> pyfloat list \<Rightarrow> pyfloat" where
  "py_dot a b = py_sum (map (\<lambda>(x, y). fmul x y) (zip a b))"

definition py_cosine :: "pyfloat list \<Rightarrow> pyfloat list \<Rightarrow> py_exc + pyfloat" where
  "py_cosine a b =
     rbind (py_sqrt (py_dot a a)) (\<lambda>na.
     rbind (py_sqrt (py_dot b b)) (\<lambda>nb.
       if is_zero na \<or> is_zero nb then Inr (Fin 0)
       else rbind (div_float (py_dot a b) (fmul na nb)) (\<lambda>c.
         Inr (fmax (Fin (-1)) (fmin (Fin 1) c)))))"

definition py_centroid :: "pyfloat list list \<Rightarrow> py_exc + pyfloat list" where
  "py_centroid vectors =
     (case vectors of
        [] \<Rightarrow> Inl IndexError
      | v0 # _ \<Rightarrow>
          rlist (map (\<lambda>i.
            if list_all (\<lambda>v. i < length v) vectors
            then div_float (py_sum (map (\<lambda>v. v ! i) vectors)) (Fin (of_nat (length vectors)))
            else Inl IndexError) [0..<length v0]))"

section \<open>The local embedder\<close>

definition is_alnum :: "char \<Rightarrow> bool" where
  "is_alnum c =
     (let n = (of_char c :: nat) in
      48 \<le> n \<and> n \<le> 57 \<or> 65 \<le> n \<and> n \<le> 90 \<or> 97 \<le> n \<and> n \<le> 122
      \<or> n \<in> {170, 178, 179, 181, 185, 186, 188, 189, 190}
      \<or> 192 \<le> n \<and> n \<noteq> 215 \<and> n \<noteq> 247)"

text \<open>\<open>text.split()\<close>: the maximal runs of other characters than white space.\<close>

fun split_words :: "string \<Rightarrow> string \<Rightarrow> string list" where
  "split_words w [] = (if w = [] then [] else [w])"
| "split_words w (c # s) =
     (if is_space c then (if w = [] then split_words [] s else w # split_words [] s)
      else split_words (w @ [c]) s)"

definition tokens :: "string \<Rightarrow> string list" where
  "tokens t = map (\<lambda>token. filter (\<lambda>c. is_alnum c \<or> c \<in> set ''_:-'') (map lower_char token)) (split_words [] t)"

text \<open>\<open>digest[:4]\<close> big endian, \<open>digest[4] & 1\<close> and \<open>digest[5] / 255.0\<close>.\<close>

definition token_index :: "(string \<Rightarrow> nat list) \<Rightarrow> nat \<Rightarrow> string \<Rightarrow> nat" where
  "token_index digest dimensions token =
     (let d = digest token in (((d ! 0 * 256 + d ! 1) * 256 + d ! 2) * 256 + d ! 3) mod dimensions)"

definition token_weight :: "(string \<Rightarrow> nat list) \<Rightarrow> string \<Rightarrow> pyfloat" where
  "token_weight digest token =
     (let d = digest token in
      fmul (if d ! 4 mod 2 = 1 then Fin 1 else Fin (-1))
        (fadd (Fin 1) (rnd64 (of_nat (d ! 5) / 255))))"

definition hash_embed :: "(string \<Rightarrow> nat list) \<Rightarrow> nat \<Rightarrow> string \<Rightarrow> py_exc + pyfloat list" where
  "hash_embed digest dimensions t =
     (let ts = (if tokens t = [] then [''<empty>''] else tokens t);
          vector = foldl (\<lambda>v token. let i = token_index digest dimensions token in
                       v[i := fadd (v ! i) (token_weight digest token)]) (replicate dimensions (Fin 0)) ts
      in rbind (py_sqrt (py_sum (map (\<lambda>v. fmul v v) vector))) (\<lambda>norm.
           if is_zero norm then Inr vector else rlist (map (\<lambda>v. div_float v norm) vector)))"

lemma rlist_Inr_iff: "rlist ms = Inr xs \<longleftrightarrow> ms = map Inr xs"
  by (induction ms arbitrary: xs) (auto simp: rbind_Inr_iff)

lemma rlist_length: "rlist ms = Inr xs \<Longrightarrow> length xs = length ms"
  by (simp add: rlist_Inr_iff)

lemma hash_embed_length:
  assumes "hash_embed digest dimensions t = Inr v"
  shows "length v = dimensions"
proof -
  let ?step = "\<lambda>v token. let i = token_index digest dimensions token in
      v[i := fadd (v ! i) (token_weight digest token)]"
  let ?w = "foldl ?step (replicate dimensions (Fin 0)) (if tokens t = [] then [''<empty>''] else tokens t)"
  have step: "length (foldl ?step w ts) = length w" for w ts
    by (induction ts arbitrary: w) (simp_all add: Let_def)
  then have w: "length ?w = dimensions" by (simp only: length_replicate)
  from assms obtain norm where
    n: "(if is_zero norm then Inr ?w else rlist (map (\<lambda>v. div_float v norm) ?w)) = Inr v"
    unfolding hash_embed_def Let_def by (auto simp only: rbind_Inr_iff)
  show ?thesis
  proof (cases "is_zero norm")
    case True
    with n w show ?thesis by (simp only: if_True sum.inject)
  next
    case False
    with n have "rlist (map (\<lambda>v. div_float v norm) ?w) = Inr v" by (simp only: if_False)
    from rlist_length[OF this] w show ?thesis by (simp only: length_map)
  qed
qed

end
