(* ===== verification/Evaluator.thy ===== *)
theory Evaluator
  imports Supervisor Vectors
begin

text \<open>
  \<open>packages/shield-governance/src/shield_governance/evaluator.py\<close>: the asynchronous semantic
  guardian.  Its state is the per-run trace of tool calls.  The cross-call analyzer, the language
  model behind the hallucination check, the sentence embedder and the vector collection are
  parameters; the checks that use them, their composition and the numeric drift scores are
  modelled.
\<close>

record evaluator_result =
  er_anomaly :: pyfloat
  er_reasons :: "verdict_reason list"
  er_structuring_or_exfil :: bool

section \<open>Hallucination checks\<close>

type_synonym hallucination_checker = "action_record \<Rightarrow> json list \<Rightarrow> py_exc + verdict_reason option"

definition null_hallucination :: hallucination_checker where
  "null_hallucination r trace = Inr None"

definition hallucination_prompt :: "(rat \<Rightarrow> string) \<Rightarrow> action_record \<Rightarrow> string" where
  "hallucination_prompt fr r =
     ''Does this tool call's claimed effect match its arguments? tool=''
     @ (case pl_tool_name (r_payload r) of None \<Rightarrow> ''None'' | Some n \<Rightarrow> n) @ '' args=''
     @ py_repr fr (JObj (pl_tool_args (r_payload r)))
     @ ''. Answer GROUNDED or HALLUCINATED with a one-line reason.''"

definition router_hallucination ::
  "(rat \<Rightarrow> string) \<Rightarrow> (string \<Rightarrow> py_exc + string) \<Rightarrow> string \<Rightarrow> served_via \<Rightarrow> hallucination_checker" where
  "router_hallucination fr call model_id served_via r trace =
     rbind (call (hallucination_prompt fr r)) (\<lambda>reply.
       let verdict_text = strip_by is_space reply in
       Inr (if starts_with (py_upper verdict_text) ''HALLUCINATED''
            then Some \<lparr>rs_agent = Some EVALUATOR, rs_label = ''evaluator.hallucination'',
              rs_detail = Some (take 240 verdict_text), rs_score = Some (flit (7 / 10)),
              rs_model_id = Some model_id, rs_served_via = Some served_via\<rparr>
            else None))"

section \<open>Behaviour drift\<close>

record drift_score =
  df_score :: pyfloat
  df_baseline_key :: string
  df_embedding_model :: string
  df_collection :: string
  df_baseline_count :: nat
  df_served_via :: served_via

text \<open>A detector has \<open>score_result\<close>, or only \<open>score\<close>.\<close>

datatype drift_detector =
    ScoreResult "action_record \<Rightarrow> py_exc + drift_score"
  | ScoreOnly "action_record \<Rightarrow> py_exc + pyfloat"

definition behavior_baseline_key :: "action_record \<Rightarrow> string" where
  "behavior_baseline_key r =
     r_org_id r @ ''/'' @ r_agent_id r @ ''/'' @ r_workflow_id r @ ''/''
     @ (case pl_tool_name (r_payload r) of None \<Rightarrow> ''<unknown>'' | Some [] \<Rightarrow> ''<unknown>'' | Some n \<Rightarrow> n)"

definition record_text :: "(rat \<Rightarrow> string) \<Rightarrow> action_record \<Rightarrow> string" where
  "record_text fr r =
     (case pl_tool_name (r_payload r) of None \<Rightarrow> [] | Some n \<Rightarrow> n) @ '' ''
     @ dumps_sorted fr (JObj (pl_tool_args (r_payload r)))"

definition null_drift :: drift_detector where
  "null_drift = ScoreResult (\<lambda>r. Inr
     \<lparr>df_score = Fin 0, df_baseline_key = behavior_baseline_key r, df_embedding_model = ''disabled'',
      df_collection = ''disabled'', df_baseline_count = 0, df_served_via = LOCAL\<rparr>)"

text \<open>The collection: the embeddings that were added under a baseline key, in order.\<close>

type_synonym baselines = "(string \<times> pyfloat list) list"

definition add_baseline ::
  "(rat \<Rightarrow> string) \<Rightarrow> (string \<Rightarrow> py_exc + pyfloat list) \<Rightarrow> baselines \<Rightarrow> action_record \<Rightarrow> py_exc + baselines" where
  "add_baseline fr emb bs r =
     rbind (emb (record_text fr r)) (\<lambda>v. Inr (bs @ [(behavior_baseline_key r, v)]))"

definition baseline_embeddings :: "baselines \<Rightarrow> string \<Rightarrow> pyfloat list list" where
  "baseline_embeddings bs key = map snd (filter (\<lambda>b. fst b = key) bs)"

text \<open>\<open>max(0.0, min(1.0, 1.0 - cosine))\<close>\<close>

definition cosine_distance :: "pyfloat list \<Rightarrow> pyfloat list list \<Rightarrow> py_exc + pyfloat" where
  "cosine_distance v vectors =
     rbind (py_centroid vectors) (\<lambda>centroid.
     rbind (py_cosine v centroid) (\<lambda>c. Inr (clamp01 (fsub (Fin 1) c))))"

definition sbert_score_result ::
  "(rat \<Rightarrow> string) \<Rightarrow> (string \<Rightarrow> py_exc + pyfloat list) \<Rightarrow> baselines \<Rightarrow> string \<Rightarrow> string
   \<Rightarrow> action_record \<Rightarrow> py_exc + drift_score" where
  "sbert_score_result fr emb bs model collection r =
     (let key = behavior_baseline_key r; embeddings = baseline_embeddings bs key in
      if embeddings = [] then Inl RuntimeError
      else
        rbind (emb (record_text fr r)) (\<lambda>current.
        rbind (cosine_distance current embeddings) (\<lambda>score.
          Inr \<lparr>df_score = score, df_baseline_key = key, df_embedding_model = model,
               df_collection = collection, df_baseline_count = length embeddings, df_served_via = LOCAL\<rparr>)))"

definition drift_result :: "drift_detector \<Rightarrow> action_record \<Rightarrow> py_exc + drift_score" where
  "drift_result d r =
     (case d of
        ScoreResult f \<Rightarrow> f r
      | ScoreOnly f \<Rightarrow> rbind (f r) (\<lambda>s.
          Inr \<lparr>df_score = s, df_baseline_key = behavior_baseline_key r, df_embedding_model = ''unknown'',
               df_collection = ''unknown'', df_baseline_count = 0, df_served_via = LOCAL\<rparr>))"

section \<open>Peer-relative anomaly\<close>

definition DEFAULT_PEER_ANOMALY_THRESHOLD :: pyfloat where
  "DEFAULT_PEER_ANOMALY_THRESHOLD = Fin (1 / 2)"

record peer_anomaly =
  pa_anomalous :: bool
  pa_distance :: pyfloat
  pa_score :: pyfloat
  pa_threshold :: pyfloat
  pa_baseline_count :: nat

definition peer_relative_anomaly ::
  "(rat \<Rightarrow> string) \<Rightarrow> (string \<Rightarrow> py_exc + pyfloat list) \<Rightarrow> action_record \<Rightarrow> action_record list \<Rightarrow> pyfloat
   \<Rightarrow> py_exc + peer_anomaly" where
  "peer_relative_anomaly fr emb r session threshold =
     (if session = [] then
        Inr \<lparr>pa_anomalous = False, pa_distance = Fin 0, pa_score = Fin 0, pa_threshold = threshold,
             pa_baseline_count = 0\<rparr>
      else
        rbind (emb (record_text fr r)) (\<lambda>current.
        rbind (rlist (map (\<lambda>x. emb (record_text fr x)) session)) (\<lambda>vs.
        rbind (cosine_distance current vs) (\<lambda>distance.
          Inr \<lparr>pa_anomalous = (fle threshold distance \<and> flt threshold (Fin 1)), pa_distance = distance,
               pa_score = distance, pa_threshold = threshold, pa_baseline_count = length session\<rparr>))))"

section \<open>The evaluator\<close>

record evaluator_config =
  vc_run_invariant :: bool
  vc_run_hallucination :: bool
  vc_drift_enabled :: bool

definition default_evaluator_config :: evaluator_config where
  "default_evaluator_config = \<lparr>vc_run_invariant = True, vc_run_hallucination = True, vc_drift_enabled = False\<rparr>"

record evaluator =
  ev_config :: evaluator_config
  ev_analyze :: "json list \<Rightarrow> py_exc + violation list"
  ev_hallucination :: hallucination_checker
  ev_drift :: drift_detector
  ev_format :: "pyfloat \<Rightarrow> string"

text \<open>
  The constructor: drift without a detector needs the local resources and raises; \<open>ev_format\<close>
  renders a score with three decimals.
\<close>

definition make_evaluator ::
  "evaluator_config \<Rightarrow> (json list \<Rightarrow> py_exc + violation list) \<Rightarrow> hallucination_checker option
   \<Rightarrow> drift_detector option \<Rightarrow> (pyfloat \<Rightarrow> string) \<Rightarrow> py_exc + evaluator" where
  "make_evaluator cfg analyze hallucination drift fmt =
     (if vc_drift_enabled cfg \<and> drift = None then Inl RuntimeError
      else Inr \<lparr>ev_config = cfg, ev_analyze = analyze,
        ev_hallucination = (case hallucination of None \<Rightarrow> null_hallucination | Some h \<Rightarrow> h),
        ev_drift = (case drift of None \<Rightarrow> null_drift | Some d \<Rightarrow> d), ev_format = fmt\<rparr>)"

type_synonym traces = "(string, json list) dict"

definition trace_of :: "traces \<Rightarrow> string \<Rightarrow> json list" where
  "trace_of tr run = (case dget tr run of None \<Rightarrow> [] | Some l \<Rightarrow> l)"

definition eval_append_trace :: "traces \<Rightarrow> action_record \<Rightarrow> traces" where
  "eval_append_trace tr r = dset (r_run_id r) (trace_of tr (r_run_id r) @ [trace_event r]) tr"

definition violation_reason :: "violation \<Rightarrow> verdict_reason" where
  "violation_reason v =
     \<lparr>rs_agent = Some EVALUATOR, rs_label = fst v, rs_detail = (if snd v = [] then None else Some (snd v)),
      rs_score = Some (Fin 1), rs_model_id = None, rs_served_via = Some LOCAL\<rparr>"

definition drift_reason :: "(pyfloat \<Rightarrow> string) \<Rightarrow> drift_score \<Rightarrow> verdict_reason" where
  "drift_reason fmt d =
     \<lparr>rs_agent = Some EVALUATOR, rs_label = ''evaluator.behavior_drift'',
      rs_detail = Some (''drift score '' @ fmt (df_score d) @ '' vs benign baseline baseline_key=''
        @ df_baseline_key d @ '' embedding_model='' @ df_embedding_model d @ '' collection=''
        @ df_collection d @ '' baseline_count='' @ show_nat (df_baseline_count d)),
      rs_score = Some (df_score d), rs_model_id = None, rs_served_via = Some (df_served_via d)\<rparr>"

text \<open>\<open>max(scores) if scores else 0.0\<close>\<close>

definition max_or_zero :: "pyfloat list \<Rightarrow> pyfloat" where
  "max_or_zero xs = (case xs of [] \<Rightarrow> Fin 0 | x # rest \<Rightarrow> foldl fmax x rest)"

definition runs_invariant :: "evaluator \<Rightarrow> action_record \<Rightarrow> bool" where
  "runs_invariant ev r \<longleftrightarrow>
     vc_run_invariant (ev_config ev) \<and> pl_tool_name (r_payload r) \<noteq> None \<and> pl_tool_name (r_payload r) \<noteq> Some []"

definition eval_hallucination ::
  "evaluator \<Rightarrow> traces \<Rightarrow> action_record \<Rightarrow> py_exc + verdict_reason list" where
  "eval_hallucination ev tr r =
     (if vc_run_hallucination (ev_config ev)
      then rbind (ev_hallucination ev r (trace_of tr (r_run_id r))) (\<lambda>hr.
             Inr (case hr of None \<Rightarrow> [] | Some x \<Rightarrow> [x]))
      else Inr [])"

definition eval_drift :: "evaluator \<Rightarrow> action_record \<Rightarrow> py_exc + verdict_reason list" where
  "eval_drift ev r =
     (if vc_drift_enabled (ev_config ev)
      then rbind (drift_result (ev_drift ev) r) (\<lambda>d.
             Inr (if flt (Fin 0) (df_score d) then [drift_reason (ev_format ev) d] else []))
      else Inr [])"

definition evaluate :: "evaluator \<Rightarrow> traces \<Rightarrow> action_record \<Rightarrow> (py_exc + evaluator_result) \<times> traces" where
  "evaluate ev tr r =
     (let tr' = (if runs_invariant ev r then eval_append_trace tr r else tr) in
      (rbind (if runs_invariant ev r then ev_analyze ev (trace_of tr' (r_run_id r)) else Inr []) (\<lambda>vs.
       rbind (eval_hallucination ev tr' r) (\<lambda>hs.
       rbind (eval_drift ev r) (\<lambda>ds.
         let reasons = map violation_reason vs @ hs @ ds in
         Inr \<lparr>er_anomaly = max_or_zero (map score_of reasons), er_reasons = reasons,
              er_structuring_or_exfil = vs \<noteq> []\<rparr>))), tr'))"

section \<open>Facts\<close>

lemma cosine_distance_range:
  "cosine_distance v vs = Inr d \<Longrightarrow> \<exists>x. d = Fin x \<and> 0 \<le> x \<and> x \<le> 1"
  using clamp01_bounds by (auto simp: cosine_distance_def rbind_Inr_iff)

lemma peer_anomaly_range:
  assumes "peer_relative_anomaly fr emb r session threshold = Inr p"
  shows "\<exists>x. pa_distance p = Fin x \<and> 0 \<le> x \<and> x \<le> 1" and "pa_score p = pa_distance p"
    and "pa_baseline_count p = length session"
    and "session = [] \<or> \<not> flt threshold (Fin 1) \<Longrightarrow> \<not> pa_anomalous p"
  using assms cosine_distance_range
  by (auto simp: peer_relative_anomaly_def rbind_Inr_iff split: if_splits)

text \<open>Everything the analyzer reports makes a reason of score one; without a report and with
  scores in range the anomaly is in range.\<close>

lemma foldl_fmax_ge: "fle a b \<Longrightarrow> fle a (foldl fmax b xs)"
proof (induction xs arbitrary: b)
  case (Cons x xs)
  have "fle a (fmax b x)"
    using Cons.prems by (cases a; cases b; cases x) (auto simp: fmax_def)
  then show ?case using Cons.IH by simp
qed simp

lemma evaluate_cases:
  assumes "evaluate ev tr r = (Inr res, tr')"
  obtains vs hs ds where
    "if runs_invariant ev r then ev_analyze ev (trace_of tr' (r_run_id r)) = Inr vs else vs = []"
    "eval_hallucination ev tr' r = Inr hs" "eval_drift ev r = Inr ds"
    "er_reasons res = map violation_reason vs @ hs @ ds"
    "er_anomaly res = max_or_zero (map score_of (er_reasons res))"
    "er_structuring_or_exfil res \<longleftrightarrow> vs \<noteq> []"
    "tr' = (if runs_invariant ev r then eval_append_trace tr r else tr)"
proof -
  let ?tr = "if runs_invariant ev r then eval_append_trace tr r else tr"
  have t: "tr' = ?tr" using assms by (simp add: evaluate_def Let_def)
  from assms obtain vs hs ds where
    v: "(if runs_invariant ev r then ev_analyze ev (trace_of ?tr (r_run_id r)) else Inr []) = Inr vs"
      "eval_hallucination ev ?tr r = Inr hs" "eval_drift ev r = Inr ds"
    and res: "\<lparr>er_anomaly = max_or_zero (map score_of (map violation_reason vs @ hs @ ds)),
       er_reasons = map violation_reason vs @ hs @ ds, er_structuring_or_exfil = vs \<noteq> []\<rparr> = res"
    unfolding evaluate_def Let_def by (auto simp only: prod.inject rbind_Inr_iff sum.inject)
  show ?thesis
    by (rule that[of vs hs ds]) (use v in \<open>auto simp: res[symmetric] t split: if_splits\<close>)
qed

end
