(* ===== verification/Auditor.thy ===== *)
theory Auditor
  imports Canonical Supervisor "HOL-Library.Multiset"
begin

text \<open>
  \<open>packages/shield-governance/src/shield_governance/auditor.py\<close>: the guardian of provenance and
  integrity.  Its state is the provenance graph and the latest Merkle verification.  The Merkle
  verifier, the narrator and the egress attestor are injected callables and parameters here.  The
  graph is a directed graph of networkx: nodes with attributes and edges in order of insertion.
\<close>

section \<open>The provenance graph\<close>

record audit_node =
  an_correlation_id :: string
  an_phase :: phase
  an_tool :: "string option"
  an_run_id :: string

record audit_graph =
  ag_nodes :: "(string, audit_node) dict"
  ag_edges :: "(string \<times> string) list"

definition empty_graph :: audit_graph where
  "empty_graph = \<lparr>ag_nodes = [], ag_edges = []\<rparr>"

definition audit_node_of :: "action_record \<Rightarrow> audit_node" where
  "audit_node_of r = \<lparr>an_correlation_id = r_correlation_id r, an_phase = r_phase r,
     an_tool = pl_tool_name (r_payload r), an_run_id = r_run_id r\<rparr>"

text \<open>The nodes a record is paired with: same correlation id, the other phase.\<close>

definition partners :: "(string, audit_node) dict \<Rightarrow> action_record \<Rightarrow> string list" where
  "partners nodes r =
     map fst (filter (\<lambda>(nid, d). nid \<noteq> r_record_id r \<and> an_correlation_id d = r_correlation_id r
                        \<and> an_phase d \<noteq> r_phase r) nodes)"

definition add_edge :: "(string \<times> string) list \<Rightarrow> string \<times> string \<Rightarrow> (string \<times> string) list" where
  "add_edge es e = (if e \<in> set es then es else es @ [e])"

definition add_record :: "audit_graph \<Rightarrow> action_record \<Rightarrow> audit_graph" where
  "add_record g r =
     (let nodes = dset (r_record_id r) (audit_node_of r) (ag_nodes g) in
      \<lparr>ag_nodes = nodes,
       ag_edges = (if r_prev_chain_hash r = [] then ag_edges g
                   else foldl (\<lambda>es nid. add_edge es (nid, r_record_id r)) (ag_edges g) (partners nodes r))\<rparr>)"

definition graph_order :: "audit_graph \<Rightarrow> nat" where
  "graph_order g = length (ag_nodes g)"

section \<open>The audit\<close>

record merkle_verification =
  mv_verified :: bool
  mv_root :: "string option"
  mv_epoch_id :: "string option"
  mv_detail :: "string option"

record audit_result =
  ar_integrity :: pyfloat
  ar_chain_broken :: bool
  ar_reasons :: "verdict_reason list"
  ar_self_report_mismatch :: bool

record auditor_state =
  as_graph :: audit_graph
  as_latest_merkle :: "merkle_verification option"

definition auditor_init :: auditor_state where
  "auditor_init = \<lparr>as_graph = empty_graph, as_latest_merkle = None\<rparr>"

type_synonym merkle_verifier = "action_record list \<Rightarrow> merkle_verification"

text \<open>A record counts when it has a signature, a key was given, and the signature verifies.\<close>

definition audit_valid :: "prims \<Rightarrow> string option \<Rightarrow> action_record \<Rightarrow> bool" where
  "audit_valid p key r \<longleftrightarrow>
     (case r_signature r of None \<Rightarrow> False | Some s \<Rightarrow> s \<noteq> []) \<and>
     (case key of None \<Rightarrow> False | Some k \<Rightarrow> k \<noteq> [] \<and> verify_record p r k)"

definition claims_confident :: "action_record \<Rightarrow> bool" where
  "claims_confident r =
     (case pl_confidence (r_payload r) of None \<Rightarrow> False | Some c \<Rightarrow> fle (flit (8 / 10)) c)"

definition self_report_mismatch :: "action_record list \<Rightarrow> bool" where
  "self_report_mismatch rs =
     list_ex (\<lambda>r. claims_confident r \<and> (case pl_tool_error (r_payload r) of None \<Rightarrow> False | Some e \<Rightarrow> e \<noteq> [])) rs"

definition auditor_reason :: "string \<Rightarrow> string \<Rightarrow> pyfloat \<Rightarrow> verdict_reason" where
  "auditor_reason label detail score = verdict_reason_of AUDITOR label (Some detail) (Some score)"

definition broken_detail :: "nat \<Rightarrow> nat \<Rightarrow> string" where
  "broken_detail failed n = show_nat failed @ ''/'' @ show_nat n @ '' records failed Ed25519/chain verify''"

definition merkle_detail :: "merkle_verification \<Rightarrow> string" where
  "merkle_detail m =
     (case mv_detail m of
        None \<Rightarrow> ''record batch failed Merkle/EER verification''
      | Some d \<Rightarrow> if d = [] then ''record batch failed Merkle/EER verification'' else d)"

definition audit ::
  "prims \<Rightarrow> merkle_verifier option \<Rightarrow> auditor_state \<Rightarrow> action_record list \<Rightarrow> string option
   \<Rightarrow> audit_result \<times> auditor_state" where
  "audit p verifier st records key =
     (if records = [] then
        (\<lparr>ar_integrity = Fin 1, ar_chain_broken = False, ar_reasons = [], ar_self_report_mismatch = False\<rparr>, st)
      else
        (let g = foldl add_record (as_graph st) records;
             n = length records;
             valid = length (filter (audit_valid p key) records);
             ratio = rnd64 (of_nat valid / of_nat n);
             broken = (valid \<noteq> n);
             mismatch = self_report_mismatch records;
             r1 = (if broken then [auditor_reason ''auditor.chain_broken'' (broken_detail (n - valid) n) (Fin 1)] else []);
             m = map_option (\<lambda>f. f records) verifier;
             failed = (case m of None \<Rightarrow> False | Some x \<Rightarrow> \<not> mv_verified x);
             r2 = (case m of None \<Rightarrow> []
                   | Some x \<Rightarrow> if mv_verified x then [] else [auditor_reason ''auditor.merkle_failed'' (merkle_detail x) (Fin 1)]);
             r3 = (if mismatch then [auditor_reason ''auditor.self_report_mismatch''
                     ''self-reported confidence contradicts observed outcome'' (Fin (1 / 2))] else [])
         in (\<lparr>ar_integrity = (if failed then Fin 0 else ratio), ar_chain_broken = (broken \<or> failed),
              ar_reasons = r1 @ r2 @ r3, ar_self_report_mismatch = mismatch\<rparr>,
             st\<lparr>as_graph := g, as_latest_merkle := (case m of None \<Rightarrow> as_latest_merkle st | Some x \<Rightarrow> Some x)\<rparr>)))"

section \<open>The compliance report\<close>

definition mix_add :: "(string, nat) dict \<Rightarrow> string \<Rightarrow> (string, nat) dict" where
  "mix_add mix d = dset d ((case dget mix d of None \<Rightarrow> 0 | Some n \<Rightarrow> n) + 1) mix"

definition mix_of :: "governance_verdict list \<Rightarrow> (string, nat) dict" where
  "mix_of vs = foldl (\<lambda>mix v. mix_add mix (decision_value (v_decision v))) [] vs"

definition mix_get :: "(string, nat) dict \<Rightarrow> string \<Rightarrow> nat" where
  "mix_get mix d = (case dget mix d of None \<Rightarrow> 0 | Some n \<Rightarrow> n)"

text \<open>The losses of the blocked and rolled back verdicts; a missing or zero loss adds nothing.\<close>

definition losses :: "governance_verdict list \<Rightarrow> pyfloat list" where
  "losses vs = concat (map (\<lambda>v.
     if v_decision v \<in> {BLOCK, ROLLBACK}
     then (case ob_prevented_loss (v_obligations v) of None \<Rightarrow> [] | Some x \<Rightarrow> if x = Fin 0 then [] else [x])
     else []) vs)"

definition prevented_of :: "governance_verdict list \<Rightarrow> pyfloat" where
  "prevented_of vs = foldl fadd (Fin 0) (losses vs)"

record compliance_report =
  rp_decision_mix :: "(string, nat) dict"
  rp_blocked :: nat
  rp_escalated :: nat
  rp_dollars_prevented :: pyfloat
  rp_provenance_nodes :: nat
  rp_merkle :: "merkle_verification option"
  rp_narrative :: "string option"
  rp_attestation :: "jobj option"

definition base_report :: "auditor_state \<Rightarrow> governance_verdict list \<Rightarrow> compliance_report" where
  "base_report st vs =
     (let mix = mix_of vs in
      \<lparr>rp_decision_mix = mix, rp_blocked = mix_get mix ''BLOCK'' + mix_get mix ''ROLLBACK'',
       rp_escalated = mix_get mix ''ESCALATE'', rp_dollars_prevented = prevented_of vs,
       rp_provenance_nodes = graph_order (as_graph st), rp_merkle = as_latest_merkle st,
       rp_narrative = None, rp_attestation = None\<rparr>)"

text \<open>The narrator sees the report so far, the attestor the report with the narrative.\<close>

definition generate_compliance_report ::
  "(compliance_report \<Rightarrow> py_exc + string) option \<Rightarrow> (compliance_report \<Rightarrow> jobj) option \<Rightarrow> auditor_state
   \<Rightarrow> governance_verdict list \<Rightarrow> py_exc + compliance_report" where
  "generate_compliance_report narrator attestor st vs =
     rbind (case narrator of
              None \<Rightarrow> Inr (base_report st vs)
            | Some f \<Rightarrow> rbind (f (base_report st vs)) (\<lambda>t.
                Inr ((base_report st vs)\<lparr>rp_narrative := Some (strip_by is_space t)\<rparr>)))
       (\<lambda>rep. Inr (case attestor of None \<Rightarrow> rep | Some g \<Rightarrow> rep\<lparr>rp_attestation := Some (g rep)\<rparr>))"

section \<open>Facts about the audit\<close>

lemma audit_Nil:
  "audit p verifier st [] key =
     (\<lparr>ar_integrity = Fin 1, ar_chain_broken = False, ar_reasons = [], ar_self_report_mismatch = False\<rparr>, st)"
  by (simp add: audit_def)

lemma filter_all: "length (filter P xs) = length xs \<longleftrightarrow> (\<forall>x \<in> set xs. P x)"
  by (metis filter_True length_filter_less less_irrefl)

lemma audit_broken_iff:
  "ar_chain_broken (fst (audit p verifier st records key)) \<longleftrightarrow>
     (\<exists>r \<in> set records. \<not> audit_valid p key r)
     \<or> records \<noteq> [] \<and> (case verifier of None \<Rightarrow> False | Some f \<Rightarrow> \<not> mv_verified (f records))"
  using filter_all[of "audit_valid p key" records]
  by (auto simp: audit_def Let_def split: option.splits)

text \<open>Without a key no record counts: the audit reports a broken chain.\<close>

lemma audit_without_key:
  "records \<noteq> [] \<Longrightarrow> ar_chain_broken (fst (audit p verifier st records None))"
  by (cases records) (auto simp: audit_broken_iff audit_valid_def)

lemma audit_integrity_range:
  "\<exists>x. ar_integrity (fst (audit p verifier st records key)) = Fin x \<and> 0 \<le> x \<and> x \<le> 1"
proof -
  let ?v = "length (filter (audit_valid p key) records)" and ?n = "length records"
  have "?v \<le> ?n" by simp
  then have q: "0 \<le> (of_nat ?v / of_nat ?n :: rat)" "(of_nat ?v / of_nat ?n :: rat) \<le> 1"
    by (simp_all add: divide_le_eq_1)
  have "\<exists>x. rnd64 (of_nat ?v / of_nat ?n) = Fin x \<and> 0 \<le> x \<and> x \<le> 1"
  proof -
    have "rnd64 0 = Fin 0" "rnd64 1 = Fin 1" using rnd64_int_exact[of 0] rnd64_int_exact[of 1] by simp_all
    then have "fle (Fin 0) (rnd64 (of_nat ?v / of_nat ?n))" "fle (rnd64 (of_nat ?v / of_nat ?n)) (Fin 1)"
      using rnd64_mono[OF q(1)] rnd64_mono[OF q(2)] by simp_all
    then show ?thesis by (cases "rnd64 (of_nat ?v / of_nat ?n)") auto
  qed
  then show ?thesis by (auto simp: audit_def Let_def split: option.splits)
qed

text \<open>The records are judged one by one: their order and their predecessors play no part.\<close>

lemma audit_order:
  assumes "mset records = mset records'" and "verifier = None"
  shows "fst (audit p verifier st records key) = fst (audit p verifier st records' key)"
proof -
  have l: "length records = length records'" using assms(1) by (rule mset_eq_length)
  moreover have "length (filter (audit_valid p key) records) = length (filter (audit_valid p key) records')"
    using assms(1) by (metis mset_filter size_mset)
  moreover have "self_report_mismatch records = self_report_mismatch records'"
    using mset_eq_setD[OF assms(1)] by (auto simp: self_report_mismatch_def list_ex_iff)
  moreover have "records = [] \<longleftrightarrow> records' = []" using l by auto
  ultimately show ?thesis by (simp add: audit_def Let_def assms(2))
qed

end
