(* ===== verification/GovGraph.thy ===== *)
theory GovGraph
  imports Evaluator Auditor
begin

text \<open>
  \<open>packages/shield-governance/src/shield_governance/graph.py\<close> and \<open>verdicts.py\<close>: the governance
  graph.  On the synchronous path the state runs from START through the Defender and the
  Supervisor (and, with a checkpointer, the escalation node) to END; the asynchronous handler
  runs Evaluator, Auditor and Supervisor and hands an unsigned verdict over.

  LangGraph itself is not modelled.  What the code relies on is built into the state: an
  interrupted thread keeps the verdict it was interrupted with, a new input restarts the thread
  from START, and a resume re-runs the escalation node with the human's answer.  A resume of a
  thread that waits for nothing is left to a parameter.
\<close>

section \<open>Human decisions\<close>

definition decision_of_string :: "string \<Rightarrow> decision option" where
  "decision_of_string s = find (\<lambda>d. decision_value d = s) all_decisions"

lemma size_dget: "dget kvs k = Some v \<Longrightarrow> size v < Suc (size_list (size_prod (\<lambda>_. 0) size) kvs)"
  by (induction kvs) (auto split: if_splits)

function coerce_decision :: "json \<Rightarrow> decision \<Rightarrow> decision" where
  "coerce_decision (JStr s) dflt = (case decision_of_string s of None \<Rightarrow> dflt | Some d \<Rightarrow> d)"
| "coerce_decision (JObj kvs) dflt =
     (case dget kvs ''decision'' of None \<Rightarrow> dflt | Some v \<Rightarrow> coerce_decision v dflt)"
| "coerce_decision JNull dflt = dflt"
| "coerce_decision (JBool b) dflt = dflt"
| "coerce_decision (JInt i) dflt = dflt"
| "coerce_decision (JFloat x) dflt = dflt"
| "coerce_decision (JArr vs) dflt = dflt"
  by pat_completeness auto
termination
  by (relation "measure (size \<circ> fst)") (auto dest: size_dget)

definition resume_decision_to_verdict :: "string \<Rightarrow> decision" where
  "resume_decision_to_verdict value =
     (if value \<in> {''accept'', ''response''} then PASS
      else if value = ''ignore'' then BLOCK
      else if value = ''edit'' then REWRITE
      else coerce_decision (JStr value) ESCALATE)"

section \<open>The synchronous graph\<close>

text \<open>
  The application: engine and supervisor with their parameters, whether there is a checkpointer,
  and the identifiers and latencies drawn while it runs (\<open>uuid4\<close>, the clock).
\<close>

record gov_app =
  ga_deps :: defender_deps
  ga_config :: defender_config
  ga_policy :: supervisor_policy
  ga_arbiter :: arbiter
  ga_checkpointer :: bool
  ga_fresh :: "nat \<Rightarrow> string \<times> pyfloat \<times> string"
  ga_idle :: "string \<Rightarrow> py_exc + governance_verdict"

record gov_state =
  go_defender :: defender_state
  go_pending :: "(string, governance_verdict) dict"
  go_calls :: nat

definition gov_init :: gov_state where
  "gov_init = \<lparr>go_defender = defender_init, go_pending = [], go_calls = 0\<rparr>"

definition defender_node ::
  "gov_app \<Rightarrow> gov_state \<Rightarrow> action_record \<Rightarrow> (py_exc + governance_verdict) \<times> gov_state" where
  "defender_node app g r =
     (let (vid, latency, _) = ga_fresh app (go_calls g);
          (d, res) = assess (ga_deps app) (ga_config app) vid latency (go_defender g) r in
      (res, g\<lparr>go_defender := d\<rparr>))"

definition supervisor_node ::
  "gov_app \<Rightarrow> gov_state \<Rightarrow> action_record \<Rightarrow> governance_verdict \<Rightarrow> py_exc + governance_verdict" where
  "supervisor_node app g r v =
     (let (_, _, vid) = ga_fresh app (go_calls g) in
      rbind (supervisor_decide (ga_policy app) (ga_arbiter app) vid (signals_from_defender v (r_phase r)) r)
        (\<lambda>x. Inr (fst x)))"

text \<open>The escalation node: an ESCALATE interrupts the thread, the state keeps its verdict.\<close>

definition escalate_node :: "gov_app \<Rightarrow> gov_state \<Rightarrow> string \<Rightarrow> governance_verdict \<Rightarrow> gov_state" where
  "escalate_node app g thread v =
     (if ga_checkpointer app \<and> v_decision v = ESCALATE
      then g\<lparr>go_pending := dset thread v (go_pending g)\<rparr>
      else g\<lparr>go_pending := dpop thread (go_pending g)\<rparr>)"

definition resolve_escalation :: "governance_verdict \<Rightarrow> json \<Rightarrow> governance_verdict" where
  "resolve_escalation v human = v\<lparr>v_decision := coerce_decision human (v_decision v)\<rparr>"

definition next_call :: "gov_state \<Rightarrow> gov_state" where
  "next_call g = g\<lparr>go_calls := Suc (go_calls g)\<rparr>"

definition gov_decide ::
  "gov_app \<Rightarrow> gov_state \<Rightarrow> action_record \<Rightarrow> (py_exc + governance_verdict) \<times> gov_state" where
  "gov_decide app g r =
     (case defender_node app g r of
        (Inl e, g1) \<Rightarrow> (Inl e, next_call g1)
      | (Inr dv, g1) \<Rightarrow>
        (case supervisor_node app g1 r dv of
           Inl e \<Rightarrow> (Inl e, next_call g1)
         | Inr v \<Rightarrow> (Inr v, next_call (escalate_node app g1 (r_run_id r) v))))"

definition gov_resume ::
  "gov_app \<Rightarrow> gov_state \<Rightarrow> string \<Rightarrow> string \<Rightarrow> jobj option \<Rightarrow> (py_exc + governance_verdict) \<times> gov_state" where
  "gov_resume app g thread decision payload =
     (if \<not> ga_checkpointer app then (Inl RuntimeError, g)
      else case dget (go_pending g) thread of
        None \<Rightarrow> (ga_idle app thread, g)
      | Some v \<Rightarrow>
          (Inr (resolve_escalation v
             (JObj [(''decision'', JStr (decision_value (resume_decision_to_verdict decision))),
                    (''payload'', opt_json JObj payload)])),
           g\<lparr>go_pending := dpop thread (go_pending g)\<rparr>))"

text \<open>The Defender-only graph of the earlier stage and its stream handler.\<close>

definition defender_graph ::
  "gov_app \<Rightarrow> gov_state \<Rightarrow> action_record \<Rightarrow> (py_exc + governance_verdict) \<times> gov_state" where
  "defender_graph app g r = (let (res, g1) = defender_node app g r in (res, next_call g1))"

definition channel2_handler :: "gov_app \<Rightarrow> gov_state \<Rightarrow> action_record \<Rightarrow> (py_exc + unit) \<times> gov_state" where
  "channel2_handler app g r =
     (let (res, g1) = defender_graph app g r in (rbind res (\<lambda>_. Inr ()), g1))"

section \<open>The asynchronous handler\<close>

record handoff =
  ho_workflow_id :: string
  ho_phase :: phase
  ho_record :: action_record
  ho_verdict :: governance_verdict

definition handoff_from_record :: "action_record \<Rightarrow> governance_verdict \<Rightarrow> handoff" where
  "handoff_from_record r v =
     \<lparr>ho_workflow_id = r_workflow_id r, ho_phase = r_phase r, ho_record = r,
      ho_verdict = v\<lparr>v_record_id := Some (r_record_id r), v_correlation_id := r_correlation_id r,
        v_run_id := Some (r_run_id r), v_signature_by_shield := None, v_shield_kid := None\<rparr>\<rparr>"

record async_deps =
  ad_prims :: prims
  ad_evaluator :: evaluator
  ad_merkle :: "merkle_verifier option"
  ad_policy :: supervisor_policy
  ad_arbiter :: arbiter
  ad_fresh :: "nat \<Rightarrow> string"

record async_state =
  ay_traces :: traces
  ay_auditor :: auditor_state
  ay_calls :: nat

definition async_signals :: "evaluator_result \<Rightarrow> audit_result \<Rightarrow> phase \<Rightarrow> guardian_signals" where
  "async_signals er ar ph =
     default_signals\<lparr>gs_defender_decision := PASS, gs_evaluator_anomaly := er_anomaly er,
       gs_evaluator_reasons := er_reasons er, gs_evaluator_ran := True,
       gs_auditor_integrity := ar_integrity ar, gs_auditor_reasons := ar_reasons ar,
       gs_structuring_or_exfil := er_structuring_or_exfil er, gs_chain_broken := ar_chain_broken ar,
       gs_post_exec := (ph = POST_EXEC)\<rparr>"

definition async_handle ::
  "async_deps \<Rightarrow> (string \<Rightarrow> string option) \<Rightarrow> async_state \<Rightarrow> action_record \<Rightarrow> (py_exc + handoff) \<times> async_state" where
  "async_handle dp resolve s r =
     (case evaluate (ad_evaluator dp) (ay_traces s) r of
        (Inl e, tr) \<Rightarrow> (Inl e, s\<lparr>ay_traces := tr\<rparr>)
      | (Inr er, tr) \<Rightarrow>
        (let (ar, au) = audit (ad_prims dp) (ad_merkle dp) (ay_auditor s) [r] (resolve (r_agent_pubkey_kid r));
             s1 = s\<lparr>ay_traces := tr, ay_auditor := au, ay_calls := Suc (ay_calls s)\<rparr> in
         (rbind (supervisor_decide (ad_policy dp) (ad_arbiter dp) (ad_fresh dp (ay_calls s))
                   (async_signals er ar (r_phase r)) r)
            (\<lambda>x. Inr (handoff_from_record r (fst x))), s1)))"

section \<open>Facts about the synchronous graph\<close>

lemma structuring_label_blocks:
  assumes "p \<in> set structuring_labels" and "starts_with l p"
  shows "decision_for l = BLOCK"
proof -
  from assms(2) obtain rest where l: "l = p @ rest" by (auto simp: starts_with_def prefix_def)
  from assms(1) show ?thesis
    unfolding structuring_labels_def by (auto simp: l decision_for_def pass_labels_def starts_with_def)
qed

lemma assess_worst:
  assumes "assess dd cfg vid lat st r = (st', Inr v)"
  shows "v_decision v = worst_decision (v_reasons v)"
proof (cases "dc_enabled cfg")
  case True
  with assms show ?thesis
    by (auto simp: assess_def Let_def split: prod.splits sum.splits)
next
  case False
  with assms show ?thesis
    by (auto simp: assess_def worst_decision_def defender_reason_def decision_for_def pass_labels_def Let_def)
qed

lemma worst_not_structuring:
  assumes "v_decision v = worst_decision (v_reasons v)" and "v_decision v \<noteq> BLOCK"
  shows "\<not> gs_structuring_or_exfil (signals_from_defender v ph)"
proof
  assume "gs_structuring_or_exfil (signals_from_defender v ph)"
  then obtain x p where "x \<in> set (v_reasons v)" and "p \<in> set structuring_labels" and "starts_with (rs_label x) p"
    by (auto simp: signals_from_defender_def list_ex_iff)
  then have "decision_for (rs_label x) = BLOCK" by (simp add: structuring_label_blocks)
  with \<open>x \<in> _\<close> have "worst_decision (v_reasons v) = BLOCK" using worst_decision_BLOCK_iff by blast
  with assms show False by simp
qed

lemma default_risk_total: "\<exists>x. aggregate_risk default_supervisor_policy s = Inr x"
proof -
  have f: "\<exists>w. fdiv n (Fin (9007199254740991 / 9007199254740992)) = Some w" for n
    by (cases n) simp_all
  have "\<exists>x. (case fdiv n (Fin (9007199254740991 / 9007199254740992)) of None \<Rightarrow> Inl ZeroDivisionError
      | Some wavg \<Rightarrow> Inr (h wavg)) = Inr x" for n and h :: "pyfloat \<Rightarrow> pyfloat"
    using f[of n] by auto
  then show ?thesis unfolding aggregate_risk_def Let_def default_policy_weights default_den .
qed

lemma signals_sel [simp]:
  "gs_defender_decision (signals_from_defender v ph) = v_decision v"
  "gs_defender_reasons (signals_from_defender v ph) = v_reasons v"
  "gs_evaluator_ran (signals_from_defender v ph) = False"
  "gs_chain_broken (signals_from_defender v ph) = False"
  "gs_post_exec (signals_from_defender v ph) = (ph = POST_EXEC)"
  "gs_prevented_loss (signals_from_defender v ph) = ob_prevented_loss (v_obligations v)"
  "all_reasons (signals_from_defender v ph) = v_reasons v"
  by (simp_all add: signals_from_defender_def default_signals_def all_reasons_def)

text \<open>The verdict of the Supervisor over the Defender alone, whatever the arbiter.\<close>

definition sync_decision :: "decision \<Rightarrow> phase \<Rightarrow> decision" where
  "sync_decision d ph = (if d = BLOCK \<and> ph = POST_EXEC then ROLLBACK else d)"

lemma sync_supervisor:
  assumes w: "v_decision dv = worst_decision (v_reasons dv)"
  shows "\<exists>v. (\<forall>arb. supervisor_decide default_supervisor_policy arb vid (signals_from_defender dv (r_phase r)) r = Inr (v, None))
    \<and> v_decision v = sync_decision (v_decision dv) (r_phase r)
    \<and> (v_reasons dv \<noteq> [] \<longrightarrow> v_reasons v = v_reasons dv)
    \<and> ob_prevented_loss (v_obligations v) =
        (if v_decision dv = BLOCK then ob_prevented_loss (v_obligations dv) else None)
    \<and> (ob_require_human (v_obligations v) = Some True \<longleftrightarrow> v_decision dv = ESCALATE)"
proof -
  let ?s = "signals_from_defender dv (r_phase r)"
  obtain risk where risk: "aggregate_risk default_supervisor_policy ?s = Inr risk"
    "\<not> defender_blocked ?s \<Longrightarrow> risk = Fin 0"
  proof (cases "defender_blocked ?s")
    case True
    with default_risk_total[of ?s] that show ?thesis by blast
  next
    case False
    then have "aggregate_risk default_supervisor_policy ?s = Inr (Fin 0)"
      by (rule default_sync_risk) (simp_all add: signals_from_defender_def default_signals_def)
    with that show ?thesis by blast
  qed
  from worst_decision_range[of "v_reasons dv"] w have d: "v_decision dv \<in> {PASS, ESCALATE, BLOCK}" by simp
  show ?thesis
  proof (cases "v_decision dv = BLOCK")
    case True
    then have b: "decide_branch default_supervisor_policy arb ?s r risk =
        Inr \<lparr>br_decision = BLOCK, br_escalate = False, br_rollback = (r_phase r = POST_EXEC), br_reason = None\<rparr>" for arb
      by (simp add: decide_branch_def defender_blocked_def)
    show ?thesis
      by (simp add: supervisor_decide_def risk(1) b Let_def True sync_decision_def no_obligations_def)
  next
    case False
    then have nb: "\<not> defender_blocked ?s" using d by (auto simp: defender_blocked_def)
    have m: "max_decision (v_decision dv) (risk_to_decision risk default_supervisor_policy) = Inr (v_decision dv)"
      using d by (subst risk(2)[OF nb]) (auto simp: default_risk_PASS max_decision_PASS)
    have b: "decide_branch default_supervisor_policy arb ?s r risk =
        Inr \<lparr>br_decision = v_decision dv, br_escalate = v_decision dv = ESCALATE, br_rollback = False, br_reason = None\<rparr>" for arb
      using nb worst_not_structuring[OF w False] d False
      by (auto simp: decide_branch_def is_conflict_def m)
    from d False have "v_decision dv = PASS \<or> v_decision dv = ESCALATE" by auto
    then show ?thesis
      by (elim disjE)
        (simp_all add: supervisor_decide_def risk(1) b Let_def sync_decision_def no_obligations_def)
  qed
qed

text \<open>
C22. The synchronous gate decides what the Defender decides: with the shipped weights the
graph always returns a verdict when the Defender does; its decision is the Defender's (a block
after execution becomes a roll-back), with the Defender's reasons and prevented loss, it asks
for a human exactly on ESCALATE, and the arbiter has no influence.
\<close>

theorem sync_gate_is_the_defender:
  assumes "ga_policy app = default_supervisor_policy" and "defender_node app g r = (Inr dv, g1)"
  shows "\<exists>v g'. (\<forall>arb. gov_decide (app\<lparr>ga_arbiter := arb\<rparr>) g r = (Inr v, g'))
    \<and> v_decision v = sync_decision (v_decision dv) (r_phase r)
    \<and> (v_reasons dv \<noteq> [] \<longrightarrow> v_reasons v = v_reasons dv)
    \<and> ob_prevented_loss (v_obligations v) =
        (if v_decision dv = BLOCK then ob_prevented_loss (v_obligations dv) else None)
    \<and> (ob_require_human (v_obligations v) = Some True \<longleftrightarrow> v_decision dv = ESCALATE)
    \<and> go_defender g' = go_defender g1"
proof -
  obtain vid lat vid2 where f: "ga_fresh app (go_calls g) = (vid, lat, vid2)" by (metis prod_cases3)
  obtain d where a: "assess (ga_deps app) (ga_config app) vid lat (go_defender g) r = (d, Inr dv)"
    and g1: "g1 = g\<lparr>go_defender := d\<rparr>"
    using assms(2) by (auto simp: defender_node_def f split: prod.splits)
  from sync_supervisor[OF assess_worst[OF a], of vid2 r] obtain v where
    v: "\<And>arb. supervisor_decide default_supervisor_policy arb vid2 (signals_from_defender dv (r_phase r)) r = Inr (v, None)"
    and props: "v_decision v = sync_decision (v_decision dv) (r_phase r)"
      "v_reasons dv \<noteq> [] \<longrightarrow> v_reasons v = v_reasons dv"
      "ob_prevented_loss (v_obligations v) = (if v_decision dv = BLOCK then ob_prevented_loss (v_obligations dv) else None)"
      "ob_require_human (v_obligations v) = Some True \<longleftrightarrow> v_decision dv = ESCALATE" by blast
  have "gov_decide (app\<lparr>ga_arbiter := arb\<rparr>) g r =
      (Inr v, next_call (escalate_node app g1 (r_run_id r) v))" for arb
    by (simp add: gov_decide_def defender_node_def supervisor_node_def f a g1 v assms(1) escalate_node_def)
  moreover have "go_defender (next_call (escalate_node app g1 (r_run_id r) v)) = go_defender g1"
    by (simp add: next_call_def escalate_node_def)
  ultimately show ?thesis using props by blast
qed

definition demo_app :: gov_app where
  "demo_app = \<lparr>ga_deps = demo_deps, ga_config = demo_config, ga_policy = default_supervisor_policy,
     ga_arbiter = conservative_arbiter, ga_checkpointer = True,
     ga_fresh = (\<lambda>n. (''d'' @ show_nat n, Fin 0, ''v'' @ show_nat n)), ga_idle = (\<lambda>_. Inl RuntimeError)\<rparr>"

theorem sync_gate_is_the_defender_witness:
  "\<exists>v. fst (gov_decide demo_app gov_init (send_record ''X'' (JInt 10001))) = Inr v \<and> v_decision v = BLOCK"
proof -
  let ?r = "send_record ''X'' (JInt 10001)"
  have "case fst (defender_node demo_app gov_init ?r) of Inl _ \<Rightarrow> False | Inr dv \<Rightarrow> v_decision dv = BLOCK"
    by code_simp
  then obtain dv g1 where d: "defender_node demo_app gov_init ?r = (Inr dv, g1)" "v_decision dv = BLOCK"
    by (cases "defender_node demo_app gov_init ?r") (auto split: sum.splits)
  have "ga_policy demo_app = default_supervisor_policy" by (simp add: demo_app_def)
  from sync_gate_is_the_defender[OF this d(1)] obtain v g' where
    v: "\<And>arb. gov_decide (demo_app\<lparr>ga_arbiter := arb\<rparr>) gov_init ?r = (Inr v, g')"
    "v_decision v = sync_decision (v_decision dv) (r_phase ?r)" by blast
  have "r_phase ?r = PRE_EXEC" by code_simp
  with v(2) d(2) have "v_decision v = BLOCK" by (simp add: sync_decision_def)
  with v(1)[of "ga_arbiter demo_app"] show ?thesis by simp
qed

section \<open>Facts about escalations\<close>

text \<open>
  One thread holds one interrupt: a second escalation of the same run replaces the first, and a
  resume of the thread answers the latest.
\<close>

lemma resume_answers_the_latest:
  assumes "gov_decide app g r = (Inr v, g1)" and "v_decision v = ESCALATE" and "ga_checkpointer app"
  shows "\<exists>g2. gov_resume app g1 (r_run_id r) d payload =
      (Inr (v\<lparr>v_decision := resume_decision_to_verdict d\<rparr>), g2)
    \<and> dget (go_pending g2) (r_run_id r) = None"
proof -
  have find: "decision_of_string (decision_value x) = Some x" for x
    by (cases x) (simp_all add: decision_of_string_def all_decisions_def)
  have p: "dget (go_pending g1) (r_run_id r) = Some v"
    using assms by (auto simp: gov_decide_def next_call_def escalate_node_def split: prod.splits sum.splits)
  show ?thesis
    by (simp add: gov_resume_def assms(3) p resolve_escalation_def find)
qed

section \<open>Facts about the asynchronous handler\<close>

lemma async_signals_sel [simp]:
  "gs_defender_decision (async_signals er ar ph) = PASS"
  "gs_chain_broken (async_signals er ar ph) = ar_chain_broken ar"
  "gs_structuring_or_exfil (async_signals er ar ph) = er_structuring_or_exfil er"
  "gs_post_exec (async_signals er ar ph) = (ph = POST_EXEC)"
  "gs_prevented_loss (async_signals er ar ph) = None"
  by (simp_all add: async_signals_def default_signals_def)

text \<open>
  A broken record or a reported violation blocks and asks for a human; without a key for the
  record it always counts as broken.
\<close>

lemma async_block:
  assumes "evaluate (ad_evaluator dp) (ay_traces s) r = (Inr er, tr)"
    and "ad_policy dp = default_supervisor_policy"
    and "er_structuring_or_exfil er \<or> \<not> audit_valid (ad_prims dp) (resolve (r_agent_pubkey_kid r)) r"
  shows "\<exists>h s'. async_handle dp resolve s r = (Inr h, s') \<and> v_decision (ho_verdict h) = BLOCK
    \<and> ob_require_human (v_obligations (ho_verdict h)) = Some True"
proof -
  let ?a = "audit (ad_prims dp) (ad_merkle dp) (ay_auditor s) [r] (resolve (r_agent_pubkey_kid r))"
  let ?s = "async_signals er (fst ?a) (r_phase r)"
  have o: "\<not> defender_blocked ?s" "gs_chain_broken ?s \<or> gs_structuring_or_exfil ?s"
    using assms(3) by (auto simp: defender_blocked_def audit_broken_iff)
  obtain risk where "aggregate_risk default_supervisor_policy ?s = Inr risk" using default_risk_total by blast
  moreover note decide_branch_override(2)[OF o]
  ultimately show ?thesis
    by (simp add: async_handle_def assms(1,2) split_beta Let_def supervisor_decide_def handoff_from_record_def
        no_obligations_def)
qed

end
