(* ===== verification/Gateway.thy ===== *)
theory Gateway
  imports Server GovGraph
begin

text \<open>
  The composition of the server (\<open>governance.py\<close>) with the real governance application
  (\<open>govseam.py\<close>, \<open>graph.py\<close>): a decide request goes through admission, the Defender, the
  Supervisor, signing and commit.
\<close>

text \<open>
  \<open>_GovSeamAdapter\<close>: \<open>decide\<close> and \<open>resume\<close> of the module, with the application held by the
  adapter.
\<close>

definition seam_decide :: "gov_app \<Rightarrow> gov_state decide_app" where
  "seam_decide app g r = gov_decide app g r"

definition seam_resume :: "gov_app \<Rightarrow> gov_state resume_app" where
  "seam_resume app g incident_id decision payload = gov_resume app g incident_id decision payload"

section \<open>A sequence of decide requests\<close>

text \<open>
  The decide requests in the order in which they are served.  What other requests do in between
  is arbitrary: each request finds a storage and pending escalations of its own.
\<close>

type_synonym gate_call = "storage \<times> (string, governance_verdict) dict \<times> clock \<times> action_record"

fun gate_all ::
  "server_env \<Rightarrow> gov_app \<Rightarrow> gov_state \<Rightarrow> gate_call list \<Rightarrow> (action_record \<times> (failure + governance_verdict)) list" where
  "gate_all env app g [] = []"
| "gate_all env app g ((st, pending, ck, r) # calls) =
     (let (res, _, g') = decide env (seam_decide app) ck (st, g\<lparr>go_pending := pending\<rparr>) r in
      (r, res) # gate_all env app g' calls)"

text \<open>The amounts that the signed verdicts let through to a recipient in a run.\<close>

definition gate_released ::
  "(rat \<Rightarrow> string) \<Rightarrow> string \<Rightarrow> string \<Rightarrow> action_record \<times> (failure + governance_verdict) \<Rightarrow> pyfloat list" where
  "gate_released fr run who x =
     released fr run who (fst x, case snd x of Inl _ \<Rightarrow> Inl RuntimeError | Inr v \<Rightarrow> Inr v)"

text \<open>One request: the engine is left alone, or it assessed the record once and what the server
  lets through the engine let through.\<close>

lemma gate_step:
  assumes "decide env (seam_decide app) ck (st, g) r = (res, st', g')"
    and "ga_policy app = default_supervisor_policy"
  obtains (rejected) "go_defender g' = go_defender g" and "\<And>v. res \<noteq> Inr v"
  | (assessed) vid lat dres where
      "assess (ga_deps app) (ga_config app) vid lat (go_defender g) r = (go_defender g', dres)"
      and "gate_released fr run who (r, res) = [] \<or>
        gate_released fr run who (r, res) = released fr run who (r, dres)"
  using assms(1)
proof (cases rule: decide_cases)
  case rejected
  then show ?thesis by (intro that(1)) auto
next
  case (failed ig exc)
  obtain vid lat vid2 where f: "ga_fresh app (go_calls g) = (vid, lat, vid2)" by (metis prod_cases3)
  obtain d dres where a: "assess (ga_deps app) (ga_config app) vid lat (go_defender g) r = (d, dres)"
    by (cases "assess (ga_deps app) (ga_config app) vid lat (go_defender g) r")
  have "go_defender g' = d"
    using failed(3) a
    by (auto simp: seam_decide_def gov_decide_def defender_node_def f next_call_def escalate_node_def split: sum.split)
  with a failed(2) show ?thesis
    by (intro that(2)[of vid lat dres]) (simp_all add: gate_released_def released_def)
next
  case (decided ig st1 v0 v)
  obtain vid lat vid2 where f: "ga_fresh app (go_calls g) = (vid, lat, vid2)" by (metis prod_cases3)
  obtain d dres where a: "assess (ga_deps app) (ga_config app) vid lat (go_defender g) r = (d, dres)"
    by (cases "assess (ga_deps app) (ga_config app) vid lat (go_defender g) r")
  from decided(2) obtain dv where dv: "dres = Inr dv" and g': "go_defender g' = d"
    and sup: "supervisor_node app (g\<lparr>go_defender := d\<rparr>) r dv = Inr v0"
    by (auto simp: seam_decide_def gov_decide_def defender_node_def f a next_call_def escalate_node_def
        split: sum.splits)
  from a dv have w: "v_decision dv = worst_decision (v_reasons dv)" using assess_worst by blast
  from sync_supervisor[OF w, of vid2 r] sup have v0: "v_decision v0 = sync_decision (v_decision dv) (r_phase r)"
    by (auto simp: supervisor_node_def f assms(2))
  have v: "v_decision v = v_decision v0"
    by (subst finalize_verdict_fields[OF decided(3)]) (simp add: server_stamp_def)
  have "gate_released fr run who (r, res) = [] \<or> gate_released fr run who (r, res) = released fr run who (r, dres)"
    by (auto simp: gate_released_def released_def decided(4) dv v v0 sync_decision_def split: sum.split)
  with a g' show ?thesis by (intro that(2)[of vid lat dres]) simp_all
qed

lemma gate_bounded:
  assumes app: "ga_policy app = default_supervisor_policy"
    and cfg: "dc_enabled (ga_config app)" "dp_amount_cap (dc_policy (ga_config app)) = Some (NInt A)"
      "dp_cumulative_cap (dc_policy (ga_config app)) = Some (NInt C)"
    and AC: "0 \<le> A" "A < 2 ^ 52" "0 \<le> C" "C < 2 ^ 52"
    and whole: "\<forall>(st, pending, ck, r) \<in> set calls. r_run_id r = run \<and> is_send_money r \<longrightarrow> whole_amount r"
    and tot: "tracker_total (tracker_of (go_defender g) run) who = Fin (of_int c)" "0 \<le> c" "c \<le> C"
  shows "\<exists>ns. concat (map (gate_released (dd_repr (ga_deps app)) run who) (gate_all env app g calls)) =
      map (\<lambda>n. Fin (of_int n)) ns
    \<and> (\<forall>n \<in> set ns. 0 \<le> n \<and> n \<le> A) \<and> c + sum_list ns \<le> C"
  using whole tot
proof (induction calls arbitrary: g c)
  case (Cons call calls)
  let ?rel = "gate_released (dd_repr (ga_deps app)) run who"
  obtain st pending ck r where call: "call = (st, pending, ck, r)" by (metis prod_cases4)
  obtain res st' g' where d: "decide env (seam_decide app) ck (st, g\<lparr>go_pending := pending\<rparr>) r = (res, st', g')"
    by (metis prod_cases3)
  have w: "r_run_id r = run \<and> is_send_money r \<longrightarrow> whole_amount r"
    "\<forall>(st, pending, ck, r) \<in> set calls. r_run_id r = run \<and> is_send_money r \<longrightarrow> whole_amount r"
    using Cons.prems(1) by (simp_all add: call)
  have "\<exists>n. tracker_total (tracker_of (go_defender g') run) who = Fin (of_int (c + n)) \<and> 0 \<le> n \<and> c + n \<le> C
      \<and> (?rel (r, res) = [] \<or> n \<le> A \<and> ?rel (r, res) = [Fin (of_int n)])"
    using d app
  proof (cases rule: gate_step[where fr = "dd_repr (ga_deps app)" and run = run and who = who])
    case rejected
    then show ?thesis using Cons.prems(2-4)
      by (intro exI[of _ 0]) (cases res; auto simp: gate_released_def released_def)
  next
    case (assessed vid lat dres)
    have a: "assess (ga_deps app) (ga_config app) vid lat (go_defender g) r = (go_defender g', dres)"
      using assessed(1) by simp
    obtain n where "tracker_total (tracker_of (go_defender g') run) who = Fin (of_int (c + n))"
      "0 \<le> n" "c + n \<le> C" "released (dd_repr (ga_deps app)) run who (r, dres) = []
        \<or> n \<le> A \<and> released (dd_repr (ga_deps app)) run who (r, dres) = [Fin (of_int n)]"
      by (rule released_step[OF cfg AC w(1) Cons.prems(2-4) a])
    then show ?thesis using assessed(2) by (intro exI[of _ n]) auto
  qed
  then obtain n where n: "tracker_total (tracker_of (go_defender g') run) who = Fin (of_int (c + n))" "0 \<le> n"
    "c + n \<le> C" "?rel (r, res) = [] \<or> n \<le> A \<and> ?rel (r, res) = [Fin (of_int n)]" by blast
  from Cons.IH[OF w(2) n(1) _ n(3)] n(2) Cons.prems(3) obtain ns where
    ns: "concat (map ?rel (gate_all env app g' calls)) = map (\<lambda>n. Fin (of_int n)) ns"
      "\<forall>n \<in> set ns. 0 \<le> n \<and> n \<le> A" "c + n + sum_list ns \<le> C" by auto
  have step: "concat (map ?rel (gate_all env app g (call # calls))) = ?rel (r, res) @ map (\<lambda>n. Fin (of_int n)) ns"
    by (simp add: call d ns(1))
  from n(4) show ?case
  proof
    assume "?rel (r, res) = []"
    with ns n(2) step show ?thesis by (intro exI[of _ ns]) simp
  next
    assume "n \<le> A \<and> ?rel (r, res) = [Fin (of_int n)]"
    with ns n(2) step show ?thesis by (intro exI[of _ "n # ns"]) (simp add: add.assoc)
  qed
qed simp

text \<open>
C23. Structuring in whole amounts is defeated at the server, with the shipped Supervisor policy, the
Defender enabled, integer caps from 0 to 10000 for one transfer and from 0 to 29999 for the sum, and no
transfer of the run in the tracker yet: whatever decide requests arrive in whatever order, for any
runs, recipients and tools, and whatever the other requests do to the storage and to the pending
escalations in between, if every \<open>send_money\<close> of the run asks for a whole amount that is not
negative, then the transfers to one recipient that the signed verdicts of that run let through never
satisfy the attacker's success condition.  (With cents the caps are compared in floating point; that
case is not claimed.)
\<close>

theorem gate_defeats_structuring:
  assumes "ga_policy app = default_supervisor_policy"
    and "dc_enabled (ga_config app)" and "dp_amount_cap (dc_policy (ga_config app)) = Some (NInt A)"
    and "dp_cumulative_cap (dc_policy (ga_config app)) = Some (NInt C)"
    and "0 \<le> A" and "A \<le> 10000" and "0 \<le> C" and "C < 30000"
    and "\<forall>(st, pending, ck, r) \<in> set calls. r_run_id r = run \<and> is_send_money r \<longrightarrow> whole_amount r"
    and "tracker_of (go_defender g) run = []"
  shows "\<not> agentdojo_injectiontask6_security
           (concat (map (gate_released (dd_repr (ga_deps app)) run who) (gate_all env app g calls)))"
proof -
  have AC: "A < 2 ^ 52" "C < 2 ^ 52" using assms(6,8) by simp_all
  have t: "tracker_total (tracker_of (go_defender g) run) who = Fin (of_int 0)"
    by (simp add: assms(10) tracker_total_def)
  from gate_bounded[OF assms(1-5) AC(1) assms(7) AC(2) assms(9) t, of env] assms(7)
  obtain ns where ns: "concat (map (gate_released (dd_repr (ga_deps app)) run who) (gate_all env app g calls)) =
      map (\<lambda>n. Fin (of_int n)) ns"
    and b: "\<forall>n \<in> set ns. 0 \<le> n \<and> n \<le> A" "sum_list ns \<le> C" by auto
  show ?thesis unfolding ns by (rule capped_transfers_fail[OF b(1) assms(6)]) (use b(2) assms(8) in simp)
qed

definition gate_attack :: "gate_call list" where
  "gate_attack = replicate 3 (demo_storage, [], demo_clock, send_record ''US133000000121212121212'' (JInt 10000))"

theorem gate_defeats_structuring_witness:
  "\<not> agentdojo_injectiontask6_security
     (concat (map (gate_released (dd_repr (ga_deps demo_app)) ''run-1'' ''US133000000121212121212'')
        (gate_all demo_env demo_app gov_init gate_attack)))"
proof (rule gate_defeats_structuring[where A = 10000 and C = 20000])
  show "\<forall>(st, pending, ck, r) \<in> set gate_attack. r_run_id r = ''run-1'' \<and> is_send_money r \<longrightarrow> whole_amount r"
    by (simp add: gate_attack_def whole_amount_def send_record_def arg_def)
qed (simp_all add: demo_app_def demo_config_def default_defender_policy_def gov_init_def defender_init_def tracker_of_def)

end
