(* ===== verification/Channel2.thy ===== *)
theory Channel2
  imports Schema
begin

text \<open>
  \<open>packages/shield-governance/src/shield_governance/channel2.py\<close>: the consumer of the action
  stream.  A transport reads the entries of a stream for a consumer group and acknowledges them;
  the consumer decodes an entry, hands the record to a handler and acknowledges it after the
  handler has returned.  The interface of the transport is the locale \<open>channel2_transport\<close>; the
  in-memory transport is an instance here, the transport over the server's cache in the theory of
  the worker.
\<close>

definition DEFAULT_STREAM_PREFIX :: string where "DEFAULT_STREAM_PREFIX = ''shield:actions''"
definition DEFAULT_GROUP :: string where "DEFAULT_GROUP = ''shield-governance''"

definition stream_key :: "string \<Rightarrow> string \<Rightarrow> string" where
  "stream_key pre workflow_id = pre @ '':'' @ workflow_id"

section \<open>The consumer\<close>

text \<open>
  One batch, in order.  A poison entry (bad JSON or no record) is skipped and stays
  unacknowledged; an exception of the handler ends the batch.  The state \<open>'w\<close> holds the
  transport and whatever the handler works on.
\<close>

fun process_entries ::
  "('f \<Rightarrow> action_record option) \<Rightarrow> ('w \<Rightarrow> action_record \<Rightarrow> ('e + unit) \<times> 'w) \<Rightarrow> (string \<Rightarrow> 'w \<Rightarrow> 'w)
   \<Rightarrow> (string \<times> 'f) list \<Rightarrow> nat \<Rightarrow> 'w \<Rightarrow> ('e + nat) \<times> 'w" where
  "process_entries decode h ack [] handled w = (Inr handled, w)"
| "process_entries decode h ack ((i, f) # es) handled w =
     (case decode f of
        None \<Rightarrow> process_entries decode h ack es handled w
      | Some r \<Rightarrow>
        (case h w r of
           (Inl e, w') \<Rightarrow> (Inl e, w')
         | (Inr _, w') \<Rightarrow> process_entries decode h ack es (Suc handled) (ack i w')))"

definition consume ::
  "('w \<Rightarrow> 'w) \<Rightarrow> (nat \<Rightarrow> 'w \<Rightarrow> (string \<times> 'f) list \<times> 'w) \<Rightarrow> (string \<Rightarrow> 'w \<Rightarrow> 'w)
   \<Rightarrow> ('f \<Rightarrow> action_record option) \<Rightarrow> ('w \<Rightarrow> action_record \<Rightarrow> ('e + unit) \<times> 'w)
   \<Rightarrow> nat \<Rightarrow> 'w \<Rightarrow> ('e + nat) \<times> 'w" where
  "consume ensure read_batch ack decode h count w =
     (let (entries, w1) = read_batch count (ensure w) in process_entries decode h ack entries 0 w1)"

text \<open>The entries of a batch that decode.\<close>

definition decodable :: "('f \<Rightarrow> action_record option) \<Rightarrow> (string \<times> 'f) list \<Rightarrow> (string \<times> action_record) list" where
  "decodable decode es = concat (map (\<lambda>(i, f). case decode f of None \<Rightarrow> [] | Some r \<Rightarrow> [(i, r)]) es)"

lemma decodable_simps [simp]:
  "decodable decode [] = []"
  "decodable decode ((i, f) # es) = (case decode f of None \<Rightarrow> [] | Some r \<Rightarrow> [(i, r)]) @ decodable decode es"
  by (simp_all add: decodable_def)

text \<open>What holds of every call of the handler and every acknowledgement holds of the batch.\<close>

lemma process_invariant:
  assumes "process_entries decode h ack es n w = (res, w')" and "P w"
    and "\<And>w i r res w'. (i, r) \<in> set (decodable decode es) \<Longrightarrow> P w \<Longrightarrow> h w r = (res, w') \<Longrightarrow> P w'"
    and "\<And>i w. P w \<Longrightarrow> P (ack i w)"
  shows "P w'"
  using assms
proof (induction es arbitrary: n w)
  case (Cons e es)
  obtain i f where e: "e = (i, f)" by (cases e)
  show ?case
  proof (cases "decode f")
    case None
    with Cons show ?thesis by (simp add: e)
  next
    case (Some r)
    obtain out w1 where h: "h w r = (out, w1)" by (cases "h w r")
    have p: "P w1" using Cons.prems(2) by (rule Cons.prems(3)[rotated]) (use h Some e in auto)
    show ?thesis
    proof (cases out)
      case (Inl x)
      with Cons.prems(1) p show ?thesis by (simp add: e Some h)
    next
      case (Inr u)
      with Cons.prems(1) have "process_entries decode h ack es (Suc n) (ack i w1) = (res, w')"
        by (simp add: e Some h)
      moreover have "P (ack i w1)" using p by (rule Cons.prems(4))
      ultimately show ?thesis using Cons.IH Cons.prems(3,4) by (simp add: e Some) blast
    qed
  qed
qed simp

section \<open>The transport\<close>

text \<open>
  \<open>pending\<close> are the entries that a group has not read yet, \<open>acked\<close> the ids that it acknowledged.
  Reading moves the cursor past the batch, before any entry of it is acknowledged.
\<close>

locale channel2_transport =
  fixes ensure :: "'w \<Rightarrow> 'w" and read_batch :: "nat \<Rightarrow> 'w \<Rightarrow> (string \<times> 'f) list \<times> 'w"
    and ack :: "string \<Rightarrow> 'w \<Rightarrow> 'w"
    and pending :: "'w \<Rightarrow> (string \<times> 'f) list" and acked :: "'w \<Rightarrow> string set"
  assumes pending_ensure: "pending (ensure w) = pending w" and acked_ensure: "acked (ensure w) = acked w"
    and read_entries: "fst (read_batch n w) = take n (pending w)"
    and read_pending: "pending (snd (read_batch n w)) = drop n (pending w)"
    and read_acked: "acked (snd (read_batch n w)) = acked w"
    and ack_pending: "pending (ack i w) = pending w" and ack_acked: "acked (ack i w) = insert i (acked w)"
begin

text \<open>A batch whose handler returns acknowledges exactly the entries that decode.\<close>

lemma process_returns:
  assumes "process_entries decode h ack es n w = (Inr k, w')"
    and "\<And>w r. pending (snd (h w r)) = pending w \<and> acked (snd (h w r)) = acked w"
  shows "k = n + length (decodable decode es) \<and> pending w' = pending w
    \<and> acked w' = acked w \<union> fst ` set (decodable decode es)"
  using assms(1)
proof (induction es arbitrary: n w)
  case (Cons e es)
  obtain i f where e: "e = (i, f)" by (cases e)
  show ?case
  proof (cases "decode f")
    case None
    with Cons show ?thesis by (simp add: e)
  next
    case (Some r)
    with Cons.prems obtain u w1 where h: "h w r = (Inr u, w1)"
      and p: "process_entries decode h ack es (Suc n) (ack i w1) = (Inr k, w')"
      by (auto simp: e split: prod.splits sum.splits)
    have "pending w1 = pending w" "acked w1 = acked w" using assms(2)[of w r] h by simp_all
    with Cons.IH[OF p] show ?thesis by (simp add: e Some ack_pending ack_acked)
  qed
qed simp

text \<open>
  When the handler raises, the entries up to the failing one are acknowledged and none of the
  others of the batch is, but the cursor has passed them all.
\<close>

lemma process_raises:
  assumes "process_entries decode h ack es n w = (Inl x, w')"
    and "\<And>w r. pending (snd (h w r)) = pending w \<and> acked (snd (h w r)) = acked w"
  shows "\<exists>front i r rest. decodable decode es = front @ (i, r) # rest
    \<and> pending w' = pending w \<and> acked w' = acked w \<union> fst ` set front"
  using assms(1)
proof (induction es arbitrary: n w)
  case (Cons e es)
  obtain i f where e: "e = (i, f)" by (cases e)
  show ?case
  proof (cases "decode f")
    case None
    with Cons show ?thesis by (simp add: e)
  next
    case (Some r)
    obtain out w1 where h: "h w r = (out, w1)" by (cases "h w r")
    have k: "pending w1 = pending w" "acked w1 = acked w" using assms(2)[of w r] h by simp_all
    show ?thesis
    proof (cases out)
      case (Inl y)
      with Cons.prems have "w' = w1" by (simp add: e Some h)
      with k show ?thesis
        by (intro exI[of _ "[]"] exI[of _ i] exI[of _ r] exI[of _ "decodable decode es"]) (simp add: e Some)
    next
      case (Inr u)
      with Cons.prems have "process_entries decode h ack es (Suc n) (ack i w1) = (Inl x, w')" by (simp add: e Some h)
      from Cons.IH[OF this] obtain front i' r' rest where
        "decodable decode es = front @ (i', r') # rest" "pending w' = pending w"
        "acked w' = acked w \<union> {i} \<union> fst ` set front" by (auto simp: ack_pending ack_acked k)
      then show ?thesis
        by (intro exI[of _ "(i, r) # front"] exI[of _ i'] exI[of _ r'] exI[of _ rest]) (auto simp: e Some)
    qed
  qed
qed simp

lemma consume_returns:
  assumes "consume ensure read_batch ack decode h count w = (Inr k, w')"
    and "\<And>w r. pending (snd (h w r)) = pending w \<and> acked (snd (h w r)) = acked w"
  shows "k = length (decodable decode (take count (pending w))) \<and> pending w' = drop count (pending w)
    \<and> acked w' = acked w \<union> fst ` set (decodable decode (take count (pending w)))"
proof -
  have r: "read_batch count (ensure w) = (take count (pending w), snd (read_batch count (ensure w)))"
    by (metis read_entries pending_ensure prod.collapse)
  from assms(1) have "process_entries decode h ack (take count (pending w)) 0 (snd (read_batch count (ensure w))) = (Inr k, w')"
    unfolding consume_def by (subst (asm) r) simp
  from process_returns[OF this assms(2)] show ?thesis
    by (simp add: read_pending read_acked pending_ensure acked_ensure)
qed

lemma consume_raises:
  assumes "consume ensure read_batch ack decode h count w = (Inl x, w')"
    and "\<And>w r. pending (snd (h w r)) = pending w \<and> acked (snd (h w r)) = acked w"
  shows "\<exists>front i r rest. decodable decode (take count (pending w)) = front @ (i, r) # rest
    \<and> pending w' = drop count (pending w) \<and> acked w' = acked w \<union> fst ` set front"
proof -
  have r: "read_batch count (ensure w) = (take count (pending w), snd (read_batch count (ensure w)))"
    by (metis read_entries pending_ensure prod.collapse)
  from assms(1) have "process_entries decode h ack (take count (pending w)) 0 (snd (read_batch count (ensure w))) = (Inl x, w')"
    unfolding consume_def by (subst (asm) r) simp
  from process_raises[OF this assms(2)] show ?thesis
    by (simp add: read_pending read_acked pending_ensure acked_ensure)
qed

end

section \<open>The in-memory transport\<close>

text \<open>An entry carries the fields \<open>{"record": json}\<close>: the record it decodes to, or None.\<close>

record inmemory =
  im_streams :: "(string, (string \<times> action_record option) list) dict"
  im_groups :: "(string \<times> string) set"
  im_cursor :: "(string \<times> string, nat) dict"
  im_acked :: "(string \<times> string \<times> string) set"
  im_seq :: nat

definition inmemory_init :: inmemory where
  "inmemory_init = \<lparr>im_streams = [], im_groups = {}, im_cursor = [], im_acked = {}, im_seq = 0\<rparr>"

definition im_entries :: "inmemory \<Rightarrow> string \<Rightarrow> (string \<times> action_record option) list" where
  "im_entries t stream = (case dget (im_streams t) stream of None \<Rightarrow> [] | Some es \<Rightarrow> es)"

definition im_position :: "inmemory \<Rightarrow> string \<Rightarrow> string \<Rightarrow> nat" where
  "im_position t stream grp = (case dget (im_cursor t) (stream, grp) of None \<Rightarrow> 0 | Some n \<Rightarrow> n)"

definition im_publish :: "string \<Rightarrow> action_record option \<Rightarrow> inmemory \<Rightarrow> inmemory \<times> string" where
  "im_publish stream r t =
     (let n = Suc (im_seq t); eid = show_nat n @ ''-0'' in
      (t\<lparr>im_seq := n, im_streams := dset stream (im_entries t stream @ [(eid, r)]) (im_streams t)\<rparr>, eid))"

definition im_ensure_group :: "string \<Rightarrow> string \<Rightarrow> inmemory \<Rightarrow> inmemory" where
  "im_ensure_group stream grp t =
     t\<lparr>im_groups := insert (stream, grp) (im_groups t),
       im_streams := dset stream (im_entries t stream) (im_streams t),
       im_cursor := dset (stream, grp) (im_position t stream grp) (im_cursor t)\<rparr>"

definition im_read :: "string \<Rightarrow> string \<Rightarrow> nat \<Rightarrow> inmemory \<Rightarrow> (string \<times> action_record option) list \<times> inmemory" where
  "im_read stream grp count t =
     (let pos = im_position t stream grp; batch = take count (drop pos (im_entries t stream)) in
      (batch, t\<lparr>im_cursor := dset (stream, grp) (pos + length batch) (im_cursor t)\<rparr>))"

definition im_ack :: "string \<Rightarrow> string \<Rightarrow> string \<Rightarrow> inmemory \<Rightarrow> inmemory" where
  "im_ack stream grp i t = t\<lparr>im_acked := insert (stream, grp, i) (im_acked t)\<rparr>"

definition im_acked_ids :: "string \<Rightarrow> string \<Rightarrow> inmemory \<Rightarrow> string set" where
  "im_acked_ids stream grp t = {i. (stream, grp, i) \<in> im_acked t}"

definition im_pending :: "string \<Rightarrow> string \<Rightarrow> inmemory \<Rightarrow> (string \<times> action_record option) list" where
  "im_pending stream grp t = drop (im_position t stream grp) (im_entries t stream)"

lemma drop_min_length: "drop (p + length (take n (drop p xs))) xs = drop n (drop p xs)"
  by (cases "n \<le> length xs - p") (simp_all add: min_def add.commute)

interpretation memory: channel2_transport "im_ensure_group stream grp" "im_read stream grp" "im_ack stream grp"
  "im_pending stream grp" "im_acked_ids stream grp" for stream grp
  by unfold_locales
    (auto simp: im_ensure_group_def im_read_def im_ack_def im_pending_def im_acked_ids_def im_position_def
      im_entries_def Let_def drop_min_length[simplified] split: option.split)

end
