(* ===== verification/Worker.thy ===== *)
theory Worker
  imports Gateway Channel2
begin

text \<open>
  \<open>packages/shield-server/src/shield_server/async_verdict_worker.py\<close>: the worker that reads the
  action stream from the server's cache, runs the asynchronous guardians and publishes signed
  late verdicts.  The path with explicit guardians is modelled; the default path goes through
  language models.
\<close>

record worker_deps =
  wd_env :: server_env
  wd_async :: async_deps
  wd_clock :: "nat \<Rightarrow> clock"

text \<open>The storage, the state of \<open>CacheChannel2Transport\<close> and the state of the guardians.\<close>

record worker =
  wk_storage :: storage
  wk_cursor :: "(string \<times> string, nat) dict"
  wk_acked :: "(string \<times> string \<times> string) set"
  wk_async :: async_state

section \<open>The transport over the cache\<close>

definition ct_position :: "worker \<Rightarrow> string \<Rightarrow> string \<Rightarrow> nat" where
  "ct_position w stream grp = (case dget (wk_cursor w) (stream, grp) of None \<Rightarrow> 0 | Some n \<Rightarrow> n)"

definition ct_ensure_group :: "string \<Rightarrow> string \<Rightarrow> worker \<Rightarrow> worker" where
  "ct_ensure_group stream grp w =
     w\<lparr>wk_storage := (wk_storage w)\<lparr>st_cache := ensure_group stream grp (st_cache (wk_storage w))\<rparr>,
       wk_cursor := dset (stream, grp) (ct_position w stream grp) (wk_cursor w)\<rparr>"

definition ct_read :: "string \<Rightarrow> string \<Rightarrow> nat \<Rightarrow> worker \<Rightarrow> (string \<times> stream_fields) list \<times> worker" where
  "ct_read stream grp cnt w =
     (if cnt = 0 then ([], w)
      else
        (let entries = xrange (st_cache (wk_storage w)) stream None; pos = ct_position w stream grp;
             batch = take cnt (drop pos entries) in
         (batch, w\<lparr>wk_cursor := dset (stream, grp) (pos + length batch) (wk_cursor w)\<rparr>)))"

definition ct_ack :: "string \<Rightarrow> string \<Rightarrow> string \<Rightarrow> worker \<Rightarrow> worker" where
  "ct_ack stream grp i w = w\<lparr>wk_acked := insert (stream, grp, i) (wk_acked w)\<rparr>"

definition ct_acked_ids :: "string \<Rightarrow> string \<Rightarrow> worker \<Rightarrow> string set" where
  "ct_acked_ids stream grp w = {i. (stream, grp, i) \<in> wk_acked w}"

definition ct_pending :: "string \<Rightarrow> string \<Rightarrow> worker \<Rightarrow> (string \<times> stream_fields) list" where
  "ct_pending stream grp w = drop (ct_position w stream grp) (stream_entries (st_cache (wk_storage w)) stream)"

lemma stream_entries_ensure [simp]: "stream_entries (ensure_group s grp c) x = stream_entries c x"
  by (auto simp: stream_entries_def ensure_group_def split: option.split)

interpretation cached: channel2_transport "ct_ensure_group stream grp" "ct_read stream grp" "ct_ack stream grp"
  "ct_pending stream grp" "ct_acked_ids stream grp" for stream grp
  by unfold_locales
    (auto simp: ct_ensure_group_def ct_read_def ct_ack_def ct_pending_def ct_acked_ids_def ct_position_def
      xrange_def Let_def drop_min_length[simplified] split: option.split)

text \<open>An entry of the action stream carries the record; any other entry does not validate.\<close>

definition decode_record :: "stream_fields \<Rightarrow> action_record option" where
  "decode_record f = (case f of ActionFields _ _ _ _ _ _ r \<Rightarrow> Some r | VerdictFields _ _ _ _ _ _ _ _ \<Rightarrow> None)"

section \<open>The handler\<close>

definition resolve_key :: "database \<Rightarrow> string \<Rightarrow> string option" where
  "resolve_key db kid =
     (case dget (d_agent_keys db) kid of
        None \<Rightarrow> None
      | Some k \<Rightarrow> if k_status k \<in> {KEY_IS_REVOKED, KEY_IS_RETIRED} then None else Some (k_public_key k))"

definition already_published :: "database \<Rightarrow> action_record \<Rightarrow> bool" where
  "already_published db r \<longleftrightarrow> select_verdict_of_record db (r_record_id r) \<noteq> None"

definition on_verdict :: "worker_deps \<Rightarrow> worker \<Rightarrow> handoff \<Rightarrow> (failure + unit) \<times> worker" where
  "on_verdict wd w h =
     (if already_published (st_db (wk_storage w)) (ho_record h) then (Inr (), w)
      else
        (let (res, st) = publish_async_verdict (wd_env wd) (wd_clock wd (ay_calls (wk_async w))) (wk_storage w)
               (ho_record h) (ho_verdict h) []
         in (rbind res (\<lambda>_. Inr ()), w\<lparr>wk_storage := st\<rparr>)))"

definition handle_record :: "worker_deps \<Rightarrow> worker \<Rightarrow> action_record \<Rightarrow> (failure + unit) \<times> worker" where
  "handle_record wd w r =
     (if already_published (st_db (wk_storage w)) r then (Inr (), w)
      else case async_handle (wd_async wd) (resolve_key (st_db (wk_storage w))) (wk_async w) r of
        (Inl e, s) \<Rightarrow> (Inl (PyError e), w\<lparr>wk_async := s\<rparr>)
      | (Inr h, s) \<Rightarrow> on_verdict wd (w\<lparr>wk_async := s\<rparr>) h)"

definition actions_of :: "string \<Rightarrow> string" where
  "actions_of workflow_id = stream_key DEFAULT_STREAM_PREFIX workflow_id"

definition worker_run_once :: "worker_deps \<Rightarrow> string \<Rightarrow> string \<Rightarrow> nat \<Rightarrow> worker \<Rightarrow> (failure + nat) \<times> worker" where
  "worker_run_once wd grp workflow_id cnt w =
     consume (ct_ensure_group (actions_of workflow_id) grp) (ct_read (actions_of workflow_id) grp)
       (ct_ack (actions_of workflow_id) grp) decode_record (handle_record wd) cnt w"

text \<open>\<open>run_loop\<close> with the runs that its stop event allows; an exception ends it.\<close>

primrec worker_run_loop :: "worker_deps \<Rightarrow> string \<Rightarrow> string \<Rightarrow> nat \<Rightarrow> nat \<Rightarrow> worker \<Rightarrow> (failure + unit) \<times> worker" where
  "worker_run_loop wd grp workflow_id cnt 0 w = (Inr (), w)"
| "worker_run_loop wd grp workflow_id cnt (Suc n) w =
     (case worker_run_once wd grp workflow_id cnt w of
        (Inl e, w') \<Rightarrow> (Inl e, w')
      | (Inr _, w') \<Rightarrow> worker_run_loop wd grp workflow_id cnt n w')"

text \<open>
  A key that the registry does not resolve (unknown, retired or revoked since) does not skip the
  signature check of the record: the record counts as broken and is blocked.
\<close>

lemma unresolved_key_blocks:
  assumes "resolve_key db (r_agent_pubkey_kid r) = None" and "ad_policy dp = default_supervisor_policy"
    and "evaluate (ad_evaluator dp) (ay_traces s) r = (Inr er, tr)"
  shows "\<exists>h s'. async_handle dp (resolve_key db) s r = (Inr h, s') \<and> v_decision (ho_verdict h) = BLOCK"
  using async_block[OF assms(3,2), of "resolve_key db"] assms(1) by (auto simp: audit_valid_def)

section \<open>Verdicts are published once\<close>

definition verdicts_of :: "worker \<Rightarrow> string \<Rightarrow> verdict_row list" where
  "verdicts_of w x = filter (\<lambda>v. gv_record_id v = x) (dvalues (d_governance_verdicts (st_db (wk_storage w))))"

text \<open>The identifiers that the guardians will draw are new (\<open>uuid4\<close>).\<close>

definition new_ids :: "worker_deps \<Rightarrow> worker \<Rightarrow> bool" where
  "new_ids wd w \<longleftrightarrow> inj (ad_fresh (wd_async wd)) \<and>
     (\<forall>m \<ge> ay_calls (wk_async w). dget (d_governance_verdicts (st_db (wk_storage w))) (ad_fresh (wd_async wd) m) = None)"

lemma already_published_iff: "already_published (st_db (wk_storage w)) r \<longleftrightarrow> verdicts_of w (r_record_id r) \<noteq> []"
  by (auto simp: already_published_def select_verdict_of_record_def verdicts_of_def find_None_iff filter_empty_conv)

lemma async_handle_cases:
  assumes "async_handle dp rs s r = (res, s')"
  obtains (failed) e where "res = Inl e" and "ay_calls s \<le> ay_calls s'"
  | (decided) h where "res = Inr h" and "ho_record h = r" and "v_verdict_id (ho_verdict h) = ad_fresh dp (ay_calls s)"
      and "ay_calls s' = Suc (ay_calls s)"
proof -
  obtain out tr where e: "evaluate (ad_evaluator dp) (ay_traces s) r = (out, tr)"
    by (cases "evaluate (ad_evaluator dp) (ay_traces s) r")
  show ?thesis
  proof (cases out)
    case (Inl x)
    with assms e show ?thesis by (intro that(1)) (auto simp: async_handle_def)
  next
    case (Inr er)
    let ?a = "audit (ad_prims dp) (ad_merkle dp) (ay_auditor s) [r] (rs (r_agent_pubkey_kid r))"
    let ?d = "supervisor_decide (ad_policy dp) (ad_arbiter dp) (ad_fresh dp (ay_calls s))
        (async_signals er (fst ?a) (r_phase r)) r"
    have n: "ay_calls s' = Suc (ay_calls s)" and res: "res = rbind ?d (\<lambda>x. Inr (handoff_from_record r (fst x)))"
      using assms by (auto simp: async_handle_def e Inr split_beta Let_def)
    show ?thesis
    proof (cases ?d)
      case (Inl y)
      with res n show ?thesis by (intro that(1)) simp_all
    next
      case (Inr ve)
      obtain v ev where ve: "ve = (v, ev)" by (cases ve)
      have "v_verdict_id v = ad_fresh dp (ay_calls s)"
        using Inr unfolding ve by (auto simp: supervisor_decide_def Let_def)
      with res n Inr ve show ?thesis
        by (intro that(2)[of "handoff_from_record r v"]) (simp_all add: handoff_from_record_def)
    qed
  qed
qed

lemma publish_cases:
  assumes "publish_async_verdict env ck st r v ev = (res, st')"
  obtains (failed) f where "res = Inl f" and "st' = st"
  | (published) sv key t where "res = Inr sv" and "v_verdict_id sv = v_verdict_id v"
      and "finalize_verdict (se_prims env) (server_stamp r ck v) (se_signing_key env) = Inr sv"
      and "d_governance_verdicts (st_db st') = dset (v_verdict_id v) (governance_verdict_row r sv key t) (d_governance_verdicts (st_db st))"
      and "d_agent_keys (st_db st') = d_agent_keys (st_db st)"
      and "st_cache st' = fan_verdicts r sv (st_cache st)"
proof (cases "finalize_verdict (se_prims env) (server_stamp r ck v) (se_signing_key env)")
  case (Inl x)
  with assms show ?thesis by (intro that(1)) (auto simp: publish_async_verdict_def)
next
  case (Inr sv)
  have "v_verdict_id sv = v_verdict_id v"
    by (subst finalize_verdict_fields[OF Inr]) (simp add: server_stamp_def)
  then show ?thesis using assms Inr
    by (intro that(2)[of sv]) (auto simp: publish_async_verdict_def Let_def governance_verdict_row_def)
qed

text \<open>One record: nothing happens to the other verdicts, and at most one is added for it.\<close>

definition adds_verdict :: "worker \<Rightarrow> worker \<Rightarrow> string \<Rightarrow> bool" where
  "adds_verdict w w' x \<longleftrightarrow> verdicts_of w x = [] \<and> (\<exists>row. gv_record_id row = x \<and>
     dvalues (d_governance_verdicts (st_db (wk_storage w'))) = dvalues (d_governance_verdicts (st_db (wk_storage w))) @ [row])"

definition keeps_verdicts :: "worker \<Rightarrow> worker \<Rightarrow> bool" where
  "keeps_verdicts w w' \<longleftrightarrow>
     dvalues (d_governance_verdicts (st_db (wk_storage w'))) = dvalues (d_governance_verdicts (st_db (wk_storage w)))"

lemma verdicts_of_keeps: "keeps_verdicts w w' \<Longrightarrow> verdicts_of w' x = verdicts_of w x"
  by (simp add: keeps_verdicts_def verdicts_of_def)

lemma verdicts_of_adds:
  assumes "adds_verdict w w' y"
  shows "verdicts_of w' x = verdicts_of w x \<or> x = y \<and> verdicts_of w x = [] \<and> length (verdicts_of w' x) = 1"
proof (cases "x = y")
  case True
  with assms show ?thesis by (auto simp: adds_verdict_def verdicts_of_def)
next
  case False
  with assms show ?thesis by (auto simp: adds_verdict_def verdicts_of_def)
qed

lemma handle_step:
  assumes "handle_record wd w r = (res, w')" and "new_ids wd w"
  shows "new_ids wd w' \<and> (keeps_verdicts w w' \<or> adds_verdict w w' (r_record_id r))
    \<and> (res = Inr () \<longrightarrow> verdicts_of w' (r_record_id r) \<noteq> [])"
proof (cases "already_published (st_db (wk_storage w)) r")
  case True
  with assms show ?thesis by (auto simp: handle_record_def keeps_verdicts_def already_published_iff)
next
  case False
  obtain out s where h: "async_handle (wd_async wd) (resolve_key (st_db (wk_storage w))) (wk_async w) r = (out, s)"
    by (cases "async_handle (wd_async wd) (resolve_key (st_db (wk_storage w))) (wk_async w) r")
  from h show ?thesis
  proof (cases rule: async_handle_cases)
    case (failed e)
    with assms False h show ?thesis
      by (auto simp: handle_record_def new_ids_def keeps_verdicts_def)
  next
    case (decided ho)
    let ?ck = "wd_clock wd (ay_calls s)" and ?id = "ad_fresh (wd_async wd) (ay_calls (wk_async w))"
    obtain pres st where p: "publish_async_verdict (wd_env wd) ?ck (wk_storage w) r (ho_verdict ho) [] = (pres, st)"
      by (cases "publish_async_verdict (wd_env wd) ?ck (wk_storage w) r (ho_verdict ho) []")
    have r: "res = rbind pres (\<lambda>_. Inr ())" and w': "w' = w\<lparr>wk_async := s, wk_storage := st\<rparr>"
      using assms(1) False h decided(1,2) p by (auto simp: handle_record_def on_verdict_def)
    from p show ?thesis
    proof (cases rule: publish_cases)
      case (failed f)
      with r w' assms(2) decided(4) show ?thesis by (auto simp: new_ids_def keeps_verdicts_def)
    next
      case (published sv key t)
      let ?row = "governance_verdict_row r sv key t"
      have free: "dget (d_governance_verdicts (st_db (wk_storage w))) ?id = None"
        using assms(2) by (simp add: new_ids_def)
      have vals: "dvalues (d_governance_verdicts (st_db (wk_storage w'))) =
          dvalues (d_governance_verdicts (st_db (wk_storage w))) @ [?row]"
        using published(4) decided(3) free by (simp add: w' dvalues_dset_new)
      have "verdicts_of w (r_record_id r) = []" using False by (simp add: already_published_iff)
      with vals have "adds_verdict w w' (r_record_id r)"
        by (auto simp: adds_verdict_def governance_verdict_row_def)
      moreover have "verdicts_of w' (r_record_id r) \<noteq> []"
        unfolding verdicts_of_def vals by (simp add: governance_verdict_row_def)
      moreover have "new_ids wd w'"
        using assms(2) published(4) decided(3,4) by (auto simp: new_ids_def w' inj_eq)
      ultimately show ?thesis by blast
    qed
  qed
qed

section \<open>A batch\<close>

definition at_most_one_more :: "worker \<Rightarrow> worker \<Rightarrow> bool" where
  "at_most_one_more w w' \<longleftrightarrow>
     (\<forall>x. verdicts_of w' x = verdicts_of w x \<or> verdicts_of w x = [] \<and> length (verdicts_of w' x) = 1)"

lemma at_most_one_more_trans:
  assumes "at_most_one_more w w1" and "at_most_one_more w1 w2"
  shows "at_most_one_more w w2"
  unfolding at_most_one_more_def
proof
  fix x
  from assms have "verdicts_of w1 x = verdicts_of w x \<or> verdicts_of w x = [] \<and> length (verdicts_of w1 x) = 1"
    and "verdicts_of w2 x = verdicts_of w1 x \<or> verdicts_of w1 x = [] \<and> length (verdicts_of w2 x) = 1"
    by (simp_all add: at_most_one_more_def)
  then show "verdicts_of w2 x = verdicts_of w x \<or> verdicts_of w x = [] \<and> length (verdicts_of w2 x) = 1" by auto
qed

lemma at_most_one_more_nonempty: "at_most_one_more w w' \<Longrightarrow> verdicts_of w x \<noteq> [] \<Longrightarrow> verdicts_of w' x \<noteq> []"
  by (metis at_most_one_more_def)

lemma handle_at_most_one_more:
  assumes "handle_record wd w r = (res, w')" and "new_ids wd w"
  shows "at_most_one_more w w'"
  using handle_step[OF assms] verdicts_of_keeps[of w w'] verdicts_of_adds[of w w' "r_record_id r"]
  unfolding at_most_one_more_def by blast

lemma ack_sel [simp]:
  "verdicts_of (ct_ack stream grp i w) x = verdicts_of w x"
  "new_ids wd (ct_ack stream grp i w) = new_ids wd w"
  by (simp_all add: ct_ack_def verdicts_of_def new_ids_def)

lemma at_most_one_more_refl [simp]: "at_most_one_more w w" "at_most_one_more w (ct_ack stream grp i w)"
  by (simp_all add: at_most_one_more_def)

lemma process_publishes:
  assumes "process_entries decode_record (handle_record wd) (ct_ack stream grp) es n w = (res, w')" and "new_ids wd w"
  shows "at_most_one_more w w'
    \<and> (is_ok res \<longrightarrow> (\<forall>(i, r) \<in> set (decodable decode_record es). verdicts_of w' (r_record_id r) \<noteq> []))"
  using assms
proof (induction es arbitrary: n w)
  case (Cons e es)
  obtain i f where e: "e = (i, f)" by (cases e)
  show ?case
  proof (cases "decode_record f")
    case None
    with Cons show ?thesis by (simp add: e)
  next
    case (Some r)
    obtain out w1 where h: "handle_record wd w r = (out, w1)" by (cases "handle_record wd w r")
    note one = handle_at_most_one_more[OF h Cons.prems(2)] and step = handle_step[OF h Cons.prems(2)]
    show ?thesis
    proof (cases out)
      case (Inl x)
      with Cons.prems(1) h one show ?thesis by (auto simp: e Some)
    next
      case (Inr u)
      let ?w2 = "ct_ack stream grp i w1"
      from Inr Cons.prems(1) h have p:
        "process_entries decode_record (handle_record wd) (ct_ack stream grp) es (Suc n) ?w2 = (res, w')"
        by (simp add: e Some)
      have ids: "new_ids wd ?w2" using step by simp
      note rest = Cons.IH[OF p ids]
      have r: "verdicts_of ?w2 (r_record_id r) \<noteq> []" using step Inr by simp
      have "at_most_one_more w w'"
        using at_most_one_more_trans[OF at_most_one_more_trans[OF one at_most_one_more_refl(2)]] rest by blast
      moreover have "verdicts_of w' (r_record_id r) \<noteq> []"
        using at_most_one_more_nonempty[OF _ r] rest by blast
      ultimately show ?thesis using rest by (auto simp: e Some)
    qed
  qed
qed simp

lemma actions_not_verdicts: "actions_of wid \<noteq> verdicts_stream r"
  by (simp add: actions_of_def stream_key_def DEFAULT_STREAM_PREFIX_def verdicts_stream_def VERDICTS_STREAM_PREFIX_def)

lemma stream_entries_fan_verdicts:
  "stream \<noteq> verdicts_stream r \<Longrightarrow> stream_entries (fan_verdicts r v c) stream = stream_entries c stream"
  by (auto simp: fan_verdicts_def ensure_groups_def CONSUMER_GROUPS_def xadd_def Let_def stream_entries_def
      ensure_group_def split: option.split)

lemma handle_keeps_transport:
  "ct_pending (actions_of wid) grp (snd (handle_record wd w r)) = ct_pending (actions_of wid) grp w
   \<and> ct_acked_ids (actions_of wid) grp (snd (handle_record wd w r)) = ct_acked_ids (actions_of wid) grp w"
proof -
  have "stream_entries (st_cache (snd (publish_async_verdict env ck st x v ev))) (actions_of wid) =
      stream_entries (st_cache st) (actions_of wid)" for env ck st x v ev
  proof -
    obtain res st' where p: "publish_async_verdict env ck st x v ev = (res, st')"
      by (cases "publish_async_verdict env ck st x v ev")
    then show ?thesis
      by (cases rule: publish_cases) (simp_all add: p stream_entries_fan_verdicts actions_not_verdicts)
  qed
  then show ?thesis
    by (auto simp: handle_record_def on_verdict_def ct_pending_def ct_acked_ids_def ct_position_def
        split: sum.split prod.split)
       (metis snd_conv)+
qed

text \<open>
C24. The worker publishes at most one late verdict per record: over a batch, the verdicts of a
record stay as they are, or a record without one gets exactly one.  A batch that returns leaves a
verdict for each of its records, has acknowledged exactly its decodable entries and moved past
them; one that raises has acknowledged only the entries before the failing one, and yet moved
past the whole batch.
\<close>

theorem worker_publishes_once:
  assumes "new_ids wd w" and "worker_run_once wd grp wid n w = (res, w')"
  shows "(\<forall>x. verdicts_of w' x = verdicts_of w x \<or> verdicts_of w x = [] \<and> length (verdicts_of w' x) = 1)
    \<and> ct_pending (actions_of wid) grp w' = drop n (ct_pending (actions_of wid) grp w)
    \<and> (case res of
        Inr k \<Rightarrow> ct_acked_ids (actions_of wid) grp w' = ct_acked_ids (actions_of wid) grp w
            \<union> fst ` set (decodable decode_record (take n (ct_pending (actions_of wid) grp w)))
          \<and> (\<forall>(i, r) \<in> set (decodable decode_record (take n (ct_pending (actions_of wid) grp w))).
               verdicts_of w' (r_record_id r) \<noteq> [])
      | Inl e \<Rightarrow> (\<exists>front i r rest.
            decodable decode_record (take n (ct_pending (actions_of wid) grp w)) = front @ (i, r) # rest
          \<and> ct_acked_ids (actions_of wid) grp w' = ct_acked_ids (actions_of wid) grp w \<union> fst ` set front))"
proof -
  let ?s = "actions_of wid" and ?h = "handle_record wd"
  let ?w1 = "snd (ct_read ?s grp n (ct_ensure_group ?s grp w))"
  have b: "fst (ct_read ?s grp n (ct_ensure_group ?s grp w)) = take n (ct_pending ?s grp w)"
    by (simp add: cached.read_entries cached.pending_ensure)
  have w1: "verdicts_of ?w1 x = verdicts_of w x" "new_ids wd ?w1" for x
    using assms(1) by (auto simp: ct_read_def ct_ensure_group_def verdicts_of_def new_ids_def Let_def)
  have c: "consume (ct_ensure_group ?s grp) (ct_read ?s grp) (ct_ack ?s grp) decode_record ?h n w = (res, w')"
    using assms(2) by (simp add: worker_run_once_def)
  then have p: "process_entries decode_record ?h (ct_ack ?s grp) (take n (ct_pending ?s grp w)) 0 ?w1 = (res, w')"
    by (simp add: consume_def split_beta b)
  note pub = process_publishes[OF p w1(2)]
  have one: "\<forall>x. verdicts_of w' x = verdicts_of w x \<or> verdicts_of w x = [] \<and> length (verdicts_of w' x) = 1"
    using pub by (simp add: at_most_one_more_def w1(1))
  show ?thesis
  proof (cases res)
    case (Inl e)
    from cached.consume_raises[OF c[unfolded Inl] handle_keeps_transport] one Inl show ?thesis by auto
  next
    case (Inr k)
    from cached.consume_returns[OF c[unfolded Inr] handle_keeps_transport] one pub Inr show ?thesis by auto
  qed
qed

definition demo_async :: async_deps where
  "demo_async = \<lparr>ad_prims = demo_prims,
     ad_evaluator = \<lparr>ev_config = default_evaluator_config, ev_analyze = (\<lambda>_. Inr []),
       ev_hallucination = null_hallucination, ev_drift = null_drift, ev_format = (\<lambda>_. [])\<rparr>,
     ad_merkle = None, ad_policy = default_supervisor_policy, ad_arbiter = conservative_arbiter,
     ad_fresh = (\<lambda>n. replicate n (CHR ''v''))\<rparr>"

definition demo_worker_deps :: worker_deps where
  "demo_worker_deps = \<lparr>wd_env = demo_env, wd_async = demo_async, wd_clock = (\<lambda>_. demo_clock)\<rparr>"

definition demo_worker :: worker where
  "demo_worker = \<lparr>wk_storage = demo_storage\<lparr>st_cache := (st_cache demo_storage)\<lparr>c_streams :=
       [(actions_of ''w'', [(''1-0'', ActionFields ''rec'' ''c'' PRE_EXEC ''1'' [] [] demo_record)])]\<rparr>\<rparr>,
     wk_cursor = [], wk_acked = {}, wk_async = \<lparr>ay_traces = [], ay_auditor = auditor_init, ay_calls = 0\<rparr>\<rparr>"

lemma demo_handle:
  assumes "verdicts_of w (r_record_id demo_record) = []" and "ay_traces (wk_async w) = []"
  shows "\<exists>w'. handle_record demo_worker_deps w demo_record = (Inr (), w')"
proof -
  let ?rs = "resolve_key (st_db (wk_storage w))"
  have np: "\<not> already_published (st_db (wk_storage w)) demo_record" using assms(1) by (simp add: already_published_iff)
  obtain er tr where "evaluate (ad_evaluator demo_async) (ay_traces (wk_async w)) demo_record = (Inr er, tr)"
    by (cases "evaluate (ad_evaluator demo_async) (ay_traces (wk_async w)) demo_record")
      (auto simp: evaluate_def demo_async_def default_evaluator_config_def eval_hallucination_def eval_drift_def
        null_hallucination_def Let_def)
  moreover have "\<not> audit_valid (ad_prims demo_async) (?rs (r_agent_pubkey_kid demo_record)) demo_record"
    by (simp add: audit_valid_def demo_record_def)
  ultimately obtain h s where h: "async_handle demo_async ?rs (wk_async w) demo_record = (Inr h, s)"
    using async_block[of demo_async "wk_async w" demo_record er tr ?rs] by (auto simp: demo_async_def)
  have hr: "ho_record h = demo_record" using h by (cases rule: async_handle_cases) auto
  obtain sv where "finalize_verdict demo_prims (server_stamp demo_record demo_clock (ho_verdict h)) demo_key = Inr sv"
    using finalize_verdict_total[OF demo_key_public] by blast
  then show ?thesis
    using h hr np
    by (simp add: handle_record_def on_verdict_def demo_worker_deps_def publish_async_verdict_def demo_env_def Let_def)
qed

theorem worker_publishes_once_witness:
  "\<exists>w'. worker_run_once demo_worker_deps ''g'' ''w'' 16 demo_worker = (Inr 1, w')
     \<and> length (verdicts_of w' (r_record_id demo_record)) = 1"
proof -
  let ?w = "snd (ct_read (actions_of ''w'') ''g'' 16 (ct_ensure_group (actions_of ''w'') ''g'' demo_worker))"
  have v: "d_governance_verdicts (st_db demo_storage) = []" by (simp add: demo_storage_def empty_database_def)
  have none: "verdicts_of ?w x = []" "verdicts_of demo_worker x = []" for x
    by (simp_all add: verdicts_of_def ct_read_def ct_ensure_group_def demo_worker_def Let_def v dvalues_def)
  have tr: "ay_traces (wk_async ?w) = []" by (simp add: ct_read_def ct_ensure_group_def demo_worker_def Let_def)
  from demo_handle[OF none(1) tr] obtain w1 where h: "handle_record demo_worker_deps ?w demo_record = (Inr (), w1)" ..
  have e: "ct_pending (actions_of ''w'') ''g'' demo_worker = [(''1-0'', ActionFields ''rec'' ''c'' PRE_EXEC ''1'' [] [] demo_record)]"
    by (simp add: ct_pending_def ct_position_def demo_worker_def stream_entries_def)
  have b: "fst (ct_read (actions_of ''w'') ''g'' 16 (ct_ensure_group (actions_of ''w'') ''g'' demo_worker)) =
      [(''1-0'', ActionFields ''rec'' ''c'' PRE_EXEC ''1'' [] [] demo_record)]"
    by (simp add: cached.read_entries cached.pending_ensure e)
  have r: "worker_run_once demo_worker_deps ''g'' ''w'' 16 demo_worker = (Inr 1, ct_ack (actions_of ''w'') ''g'' ''1-0'' w1)"
    unfolding worker_run_once_def consume_def split_beta Let_def b by (simp add: decode_record_def h)
  have n: "new_ids demo_worker_deps demo_worker"
    by (auto simp: new_ids_def demo_worker_deps_def demo_async_def inj_def demo_worker_def v)
  let ?w' = "ct_ack (actions_of ''w'') ''g'' ''1-0'' w1" and ?x = "r_record_id demo_record"
  note t = worker_publishes_once[OF n r]
  from t have "verdicts_of ?w' ?x = verdicts_of demo_worker ?x \<or> length (verdicts_of ?w' ?x) = 1" by blast
  moreover from t have "verdicts_of ?w' ?x \<noteq> []" by (simp add: e decode_record_def)
  ultimately show ?thesis using r none(2)[of ?x] by auto
qed

end
