(* ===== verification/AuthStore.thy ===== *)
theory AuthStore
  imports Storage PyText
begin

text \<open>
  The tables of the accounts package in the in-memory storage
  (\<open>packages/shield-server/src/shield_server/storage/memory.py\<close>, the statements of ADR-0013):
  users, memberships, sessions, single-use tokens, invites, second-factor credentials, API keys
  and the log of authentication events.  As in \<open>Storage\<close>, a query is a function of the tables and
  a writing statement is a constructor, the one that its SQL prefix selects; none of these
  statements can fail, an update of a row that does not exist does nothing.
\<close>

section \<open>Rows\<close>

datatype role =
    ORG_OWNER | SECURITY_ADMIN | INTEGRATION_ENGINEER | COMPLIANCE_AUDITOR | READONLY_INVESTIGATOR

datatype user_status = US_ACTIVE | US_LOCKED | US_DISABLED

record user_row =
  u_user_id :: string
  u_email :: string
  u_password_hash :: string
  u_password_pepper_kid :: string
  u_name :: string
  u_status :: user_status
  u_email_verified_at :: "int option"
  u_failed_login_count :: int
  u_locked_until :: "int option"
  u_totp_enabled :: bool
  u_created_at :: int
  u_updated_at :: int
  u_last_login_at :: "int option"

record membership =
  mb_user_id :: string
  mb_org_id :: string
  mb_role :: role
  mb_invited_by :: "string option"
  mb_joined_at :: int

record session =
  se_session_id :: string
  se_user_id :: string
  se_token_hash :: string
  se_csrf_token :: string
  se_ip :: "string option"
  se_user_agent :: "string option"
  se_created_at :: int
  se_last_used_at :: int
  se_expires_at :: int
  se_revoked_at :: "int option"

record token_row =
  tk_token_hash :: string
  tk_user_id :: string
  tk_expires_at :: int
  tk_consumed_at :: "int option"
  tk_created_at :: int

record invite =
  iv_invite_id :: string
  iv_org_id :: string
  iv_email :: string
  iv_role :: role
  iv_invited_by :: string
  iv_expires_at :: int
  iv_consumed_at :: "int option"
  iv_created_at :: int
  iv_token_hash :: string

record totp_credential =
  tc_user_id :: string
  tc_secret_encrypted :: string
  tc_active_kid :: string
  tc_recovery_codes_hash :: "string list"
  tc_enabled_at :: int
  tc_last_used_at :: "int option"

datatype key_prefix = AS_LIVE | AS_TEST

record api_key_row =
  ak_api_key_id :: string
  ak_org_id :: string
  ak_agent_id :: "string option"
  ak_agent_id_allowlist :: "string list option"
  ak_token_hash :: string
  ak_prefix :: key_prefix
  ak_display_name :: string
  ak_created_by :: string
  ak_created_at :: int
  ak_expires_at :: "int option"
  ak_last_used_at :: "int option"
  ak_revoked_at :: "int option"

datatype auth_event =
    STARTED_IN_OPEN_MODE | SIGN_UP_OK | SIGN_UP_FAIL | SIGN_IN_OK | SIGN_IN_FAIL | SIGN_IN_LOCKED
  | SIGN_IN_TOTP_REQUIRED | SIGN_IN_TOTP_FAIL | SIGN_IN_TOTP_OK | SIGN_IN_RECOVERY_OK | SIGN_OUT
  | SESSION_REFRESH | SESSION_REVOKE | PASSWORD_RESET_REQUEST | PASSWORD_RESET_COMPLETE
  | PASSWORD_CHANGE | EMAIL_VERIFY_REQUEST | EMAIL_VERIFY_COMPLETE | TOTP_SETUP | TOTP_CONFIRM
  | TOTP_DISABLE | ROLE_CHANGE | INVITE_SEND | INVITE_ACCEPT | INVITE_ACCEPT_OK
  | INVITE_ACCEPT_FAIL | API_KEY_ISSUE | API_KEY_REVOKE | API_KEY_AUTHZ_DENY | RATELIMIT_BLOCK
  | ACCOUNT_LOCK | ACCOUNT_UNLOCK

record auth_audit =
  aa_audit_id :: string
  aa_user_id :: "string option"
  aa_org_id :: "string option"
  aa_event :: auth_event
  aa_ip :: "string option"
  aa_user_agent :: "string option"
  aa_detail :: string
  aa_created_at :: int

record auth_tables =
  t_users :: "(string, user_row) dict"
  t_sessions :: "(string, session) dict"
  t_memberships :: "(string \<times> string, membership) dict"
  t_password_reset_tokens :: "(string, token_row) dict"
  t_email_verification_tokens :: "(string, token_row) dict"
  t_invites :: "(string, invite) dict"
  t_totp_credentials :: "(string, totp_credential) dict"
  t_api_keys :: "(string, api_key_row) dict"
  t_audit_log_auth :: "auth_audit list"

section \<open>Queries\<close>

definition user_by_email :: "auth_tables \<Rightarrow> string \<Rightarrow> user_row option" where
  "user_by_email t email = find (\<lambda>u. py_lower (u_email u) = py_lower email) (dvalues (t_users t))"

definition user_by_id :: "auth_tables \<Rightarrow> string \<Rightarrow> user_row option" where
  "user_by_id t user_id = dget (t_users t) user_id"

definition failed_login_count :: "auth_tables \<Rightarrow> string \<Rightarrow> int" where
  "failed_login_count t user_id =
     (case dget (t_users t) user_id of None \<Rightarrow> 0 | Some u \<Rightarrow> u_failed_login_count u)"

definition session_by_token :: "auth_tables \<Rightarrow> string \<Rightarrow> session option" where
  "session_by_token t token_hash = find (\<lambda>s. se_token_hash s = token_hash) (dvalues (t_sessions t))"

definition session_by_id :: "auth_tables \<Rightarrow> string \<Rightarrow> session option" where
  "session_by_id t session_id = dget (t_sessions t) session_id"

definition sessions_of :: "auth_tables \<Rightarrow> string \<Rightarrow> session list" where
  "sessions_of t user_id = filter (\<lambda>s. se_user_id s = user_id) (dvalues (t_sessions t))"

definition role_of :: "auth_tables \<Rightarrow> string \<Rightarrow> string \<Rightarrow> role option" where
  "role_of t user_id org_id = map_option mb_role (dget (t_memberships t) (user_id, org_id))"

definition memberships_of :: "auth_tables \<Rightarrow> string \<Rightarrow> membership list" where
  "memberships_of t user_id =
     sort_key mb_joined_at (map snd (filter (\<lambda>kv. fst (fst kv) = user_id) (t_memberships t)))"

definition api_key_by_token :: "auth_tables \<Rightarrow> string \<Rightarrow> api_key_row option" where
  "api_key_by_token t token_hash = find (\<lambda>k. ak_token_hash k = token_hash) (dvalues (t_api_keys t))"

definition api_keys_of :: "auth_tables \<Rightarrow> string \<Rightarrow> api_key_row list" where
  "api_keys_of t org_id = filter (\<lambda>k. ak_org_id k = org_id) (dvalues (t_api_keys t))"

definition totp_of :: "auth_tables \<Rightarrow> string \<Rightarrow> totp_credential option" where
  "totp_of t user_id = dget (t_totp_credentials t) user_id"

definition invite_by_token :: "auth_tables \<Rightarrow> string \<Rightarrow> invite option" where
  "invite_by_token t token_hash = find (\<lambda>i. iv_token_hash i = token_hash) (dvalues (t_invites t))"

section \<open>Statements\<close>

datatype auth_stmt =
    InsertUser string string string string string int
    \<comment> \<open>user_id, email, password_hash, pepper_kid, name, created_at; the rest is literal\<close>
  | InsertMembership membership
  | InsertSession session
  | InsertResetToken string string int int
  | InsertVerifyToken string string int int
  | InsertInvite string string string role string int int string
  | InsertTotp string string string "string list" int
  | InsertApiKey string string "string option" "string list option" string key_prefix string string int
      "int option"
  | InsertAuthAudit auth_audit
  | TouchSession int string
  | RotateSession string string int string
  | RevokeSession int string
  | RevokeUserSessions int string
  | ConsumeResetToken int string
  | ConsumeVerifyToken int string
  | ConsumeInvite int string
  | ResetFailedLogin int string
  | CountFailedLogin int "int option" int string
  | SetPasswordHash string string int string
  | SetTotpEnabled bool int string
  | SetEmailVerified int string
  | SetRole role string string
  | TouchApiKey int string
  | RevokeApiKey int string
  | SetRecoveryCodes "string list" int string
  | DeleteTotp string

text \<open>\<open>row = table.get(key)\<close> and, if there is one, its fields assigned in place.\<close>

definition alter_row :: "'k \<Rightarrow> ('r \<Rightarrow> 'r) \<Rightarrow> ('k, 'r) dict \<Rightarrow> ('k, 'r) dict" where
  "alter_row key f t = (case dget t key of None \<Rightarrow> t | Some row \<Rightarrow> dset key (f row) t)"

fun auth_execute :: "auth_stmt \<Rightarrow> auth_tables \<Rightarrow> auth_tables" where
  "auth_execute (InsertUser i email h kid name now) t =
     t\<lparr>t_users := dset i \<lparr>u_user_id = i, u_email = email, u_password_hash = h,
         u_password_pepper_kid = kid, u_name = name, u_status = US_ACTIVE,
         u_email_verified_at = None, u_failed_login_count = 0, u_locked_until = None,
         u_totp_enabled = False, u_created_at = now, u_updated_at = now, u_last_login_at = None\<rparr>
       (t_users t)\<rparr>"
| "auth_execute (InsertMembership m) t =
     t\<lparr>t_memberships := dset (mb_user_id m, mb_org_id m) m (t_memberships t)\<rparr>"
| "auth_execute (InsertSession s) t = t\<lparr>t_sessions := dset (se_session_id s) s (t_sessions t)\<rparr>"
| "auth_execute (InsertResetToken h user expires now) t =
     t\<lparr>t_password_reset_tokens := dset h \<lparr>tk_token_hash = h, tk_user_id = user,
         tk_expires_at = expires, tk_consumed_at = None, tk_created_at = now\<rparr> (t_password_reset_tokens t)\<rparr>"
| "auth_execute (InsertVerifyToken h user expires now) t =
     t\<lparr>t_email_verification_tokens := dset h \<lparr>tk_token_hash = h, tk_user_id = user,
         tk_expires_at = expires, tk_consumed_at = None, tk_created_at = now\<rparr> (t_email_verification_tokens t)\<rparr>"
| "auth_execute (InsertInvite i org email r by_user expires now h) t =
     t\<lparr>t_invites := dset i \<lparr>iv_invite_id = i, iv_org_id = org, iv_email = email, iv_role = r,
         iv_invited_by = by_user, iv_expires_at = expires, iv_consumed_at = None,
         iv_created_at = now, iv_token_hash = h\<rparr> (t_invites t)\<rparr>"
| "auth_execute (InsertTotp user secret kid hashes now) t =
     t\<lparr>t_totp_credentials := dset user \<lparr>tc_user_id = user, tc_secret_encrypted = secret,
         tc_active_kid = kid, tc_recovery_codes_hash = hashes, tc_enabled_at = now,
         tc_last_used_at = None\<rparr> (t_totp_credentials t)\<rparr>"
| "auth_execute (InsertApiKey i org agent allowlist h pre name by_user now expires) t =
     t\<lparr>t_api_keys := dset i \<lparr>ak_api_key_id = i, ak_org_id = org, ak_agent_id = agent,
         ak_agent_id_allowlist = allowlist, ak_token_hash = h, ak_prefix = pre,
         ak_display_name = name, ak_created_by = by_user, ak_created_at = now,
         ak_expires_at = expires, ak_last_used_at = None, ak_revoked_at = None\<rparr> (t_api_keys t)\<rparr>"
| "auth_execute (InsertAuthAudit row) t = t\<lparr>t_audit_log_auth := t_audit_log_auth t @ [row]\<rparr>"
| "auth_execute (TouchSession now i) t =
     t\<lparr>t_sessions := alter_row i (\<lambda>s. s\<lparr>se_last_used_at := now\<rparr>) (t_sessions t)\<rparr>"
| "auth_execute (RotateSession h csrf now i) t =
     t\<lparr>t_sessions := alter_row i
         (\<lambda>s. s\<lparr>se_token_hash := h, se_csrf_token := csrf, se_last_used_at := now\<rparr>) (t_sessions t)\<rparr>"
| "auth_execute (RevokeSession now i) t =
     t\<lparr>t_sessions := alter_row i (\<lambda>s. s\<lparr>se_revoked_at := Some now\<rparr>) (t_sessions t)\<rparr>"
| "auth_execute (RevokeUserSessions now user) t =
     t\<lparr>t_sessions := map (\<lambda>kv. (fst kv,
         if se_user_id (snd kv) = user \<and> se_revoked_at (snd kv) = None
         then (snd kv)\<lparr>se_revoked_at := Some now\<rparr> else snd kv)) (t_sessions t)\<rparr>"
| "auth_execute (ConsumeResetToken now h) t =
     t\<lparr>t_password_reset_tokens :=
         alter_row h (\<lambda>r. r\<lparr>tk_consumed_at := Some now\<rparr>) (t_password_reset_tokens t)\<rparr>"
| "auth_execute (ConsumeVerifyToken now h) t =
     t\<lparr>t_email_verification_tokens :=
         alter_row h (\<lambda>r. r\<lparr>tk_consumed_at := Some now\<rparr>) (t_email_verification_tokens t)\<rparr>"
| "auth_execute (ConsumeInvite now i) t =
     t\<lparr>t_invites := alter_row i (\<lambda>r. r\<lparr>iv_consumed_at := Some now\<rparr>) (t_invites t)\<rparr>"
| "auth_execute (ResetFailedLogin now i) t =
     t\<lparr>t_users := alter_row i (\<lambda>u. u\<lparr>u_failed_login_count := 0, u_locked_until := None,
         u_status := (if u_status u = US_LOCKED then US_ACTIVE else u_status u),
         u_last_login_at := Some now, u_updated_at := now\<rparr>) (t_users t)\<rparr>"
| "auth_execute (CountFailedLogin n until now i) t =
     t\<lparr>t_users := alter_row i (\<lambda>u. u\<lparr>u_failed_login_count := n, u_locked_until := until,
         u_status := (if until \<noteq> None then US_LOCKED else u_status u), u_updated_at := now\<rparr>) (t_users t)\<rparr>"
| "auth_execute (SetPasswordHash h kid now i) t =
     t\<lparr>t_users := alter_row i (\<lambda>u. u\<lparr>u_password_hash := h, u_password_pepper_kid := kid,
         u_updated_at := now\<rparr>) (t_users t)\<rparr>"
| "auth_execute (SetTotpEnabled b now i) t =
     t\<lparr>t_users := alter_row i (\<lambda>u. u\<lparr>u_totp_enabled := b, u_updated_at := now\<rparr>) (t_users t)\<rparr>"
| "auth_execute (SetEmailVerified now i) t =
     t\<lparr>t_users := alter_row i (\<lambda>u. u\<lparr>u_email_verified_at := Some now, u_updated_at := now\<rparr>) (t_users t)\<rparr>"
| "auth_execute (SetRole r user org) t =
     t\<lparr>t_memberships := alter_row (user, org) (\<lambda>m. m\<lparr>mb_role := r\<rparr>) (t_memberships t)\<rparr>"
| "auth_execute (TouchApiKey now i) t =
     t\<lparr>t_api_keys := alter_row i (\<lambda>k. k\<lparr>ak_last_used_at := Some now\<rparr>) (t_api_keys t)\<rparr>"
| "auth_execute (RevokeApiKey now i) t =
     t\<lparr>t_api_keys := alter_row i (\<lambda>k. k\<lparr>ak_revoked_at := Some now\<rparr>) (t_api_keys t)\<rparr>"
| "auth_execute (SetRecoveryCodes hashes now i) t =
     t\<lparr>t_totp_credentials := alter_row i
         (\<lambda>c. c\<lparr>tc_recovery_codes_hash := hashes, tc_last_used_at := Some now\<rparr>) (t_totp_credentials t)\<rparr>"
| "auth_execute (DeleteTotp i) t = t\<lparr>t_totp_credentials := dpop i (t_totp_credentials t)\<rparr>"

section \<open>Tables that a statement keeps\<close>

lemma dget_alter_row [simp]:
  "dget (alter_row k f t) k' = (if k' = k then map_option f (dget t k) else dget t k')"
  by (auto simp: alter_row_def split: option.splits)

lemma dict_ok_alter_row [simp]: "dict_ok t \<Longrightarrow> dict_ok (alter_row k f t)"
  by (simp add: alter_row_def split: option.splits)

lemma dict_ok_map_values [simp]: "dict_ok (map (\<lambda>kv. (fst kv, f kv)) t) = dict_ok t"
  by (simp add: dict_ok_def comp_def)

lemma dget_map_values: "dget (map (\<lambda>kv. (fst kv, f kv)) t) k = map_option (\<lambda>v. f (k, v)) (dget t k)"
  by (induction t) auto

lemma dict_ok_values:
  assumes "dict_ok t" and "r \<in> set (dvalues t)"
  obtains k where "dget t k = Some r"
proof -
  from assms(2) obtain k where "(k, r) \<in> set t" by (auto simp: dvalues_def)
  with assms(1) have "dget t k = Some r" by (rule dict_ok_get)
  then show ?thesis by (rule that)
qed

lemma find_values_unique:
  assumes "dict_ok t" and "dget t k = Some r" and "P r"
    and "\<And>k' r'. dget t k' = Some r' \<Longrightarrow> P r' \<Longrightarrow> k' = k"
  shows "find P (dvalues t) = Some r"
proof -
  have "find P (dvalues t) \<noteq> None"
    using assms(2,3) by (auto simp: find_None_iff dest: dget_in_values)
  then obtain r' where r': "find P (dvalues t) = Some r'" by blast
  then have "r' \<in> set (dvalues t)" and "P r'"
    by (auto simp: find_Some_iff)
  then obtain k' where "dget t k' = Some r'"
    using dict_ok_values[OF assms(1)] by blast
  with assms(4)[OF this \<open>P r'\<close>] assms(2) r' show ?thesis by simp
qed

lemma find_values_SomeD:
  assumes "dict_ok t" and "find P (dvalues t) = Some r"
  obtains k where "dget t k = Some r" and "P r"
proof -
  from assms(2) have "r \<in> set (dvalues t)" and "P r" by (auto simp: find_Some_iff)
  then show ?thesis using that dict_ok_values[OF assms(1)] by blast
qed

end
