(* ===== verification/AuthSecrets.thy ===== *)
theory AuthSecrets
  imports Crypto PyText
begin

text \<open>
  Secrets of an account: \<open>auth/passwords.py\<close> (peppered argon2id hashes with rotation of the
  pepper), \<open>auth/totp.py\<close> (second factor and recovery codes) and the hash of opaque tokens in
  \<open>auth/utils.py\<close>.

  argon2, Fernet and pyotp are packages: an instance of each is a record of functions, a
  parameter of the services.  HMAC-SHA256 of the standard library is written out over the
  SHA-256 of \<open>Crypto\<close>.  What the accounts rely on of argon2 is \<open>argon_ok\<close>: a hash verifies
  the password it was made of.
\<close>

section \<open>Hex digests and HMAC\<close>

definition hexdigest :: "bytes \<Rightarrow> string" where
  "hexdigest bs = concat (map (\<lambda>b. hex2 (unat b)) bs)"

lemma hex2_inject: "m < 256 \<Longrightarrow> n < 256 \<Longrightarrow> hex2 m = hex2 n \<longleftrightarrow> m = n"
proof
  assume "m < 256" "n < 256" "hex2 m = hex2 n"
  then have "hex_val (hex_char (m div 16)) = hex_val (hex_char (n div 16))"
    and "hex_val (hex_char (m mod 16)) = hex_val (hex_char (n mod 16))"
    by (simp_all add: hex2_def)
  moreover have "m div 16 < 16" "n div 16 < 16" using \<open>m < 256\<close> \<open>n < 256\<close> by auto
  ultimately have "m div 16 = n div 16" "m mod 16 = n mod 16" by simp_all
  then show "m = n" by (metis mult_div_mod_eq)
qed simp

lemma hexdigest_inject: "hexdigest a = hexdigest b \<longleftrightarrow> a = b"
proof
  show "hexdigest a = hexdigest b \<Longrightarrow> a = b"
  proof (induction a arbitrary: b)
    case Nil
    then show ?case by (cases b) (simp_all add: hexdigest_def hex2_def)
  next
    case (Cons x a)
    then obtain y b' where b: "b = y # b'" by (cases b) (simp_all add: hexdigest_def hex2_def)
    with Cons.prems have "hex2 (unat x) @ hexdigest a = hex2 (unat y) @ hexdigest b'" by (simp add: hexdigest_def)
    then have "hex2 (unat x) = hex2 (unat y)" and "hexdigest a = hexdigest b'" by (simp_all add: hex2_def)
    moreover have "unat x < 256" "unat y < 256" using unsigned_less[of x] unsigned_less[of y] by simp_all
    ultimately have "x = y" "a = b'" using Cons.IH by (simp_all add: hex2_inject word_unat_eq_iff)
    with b show ?case by simp
  qed
qed simp

definition sha256_hex :: "prims \<Rightarrow> string \<Rightarrow> string" where
  "sha256_hex p value = hexdigest (sha256 p (utf8 value))"

definition constant_time_equal :: "string \<Rightarrow> string \<Rightarrow> bool" where
  "constant_time_equal a b = (utf8 a = utf8 b)"

definition hmac_block :: "prims \<Rightarrow> bytes \<Rightarrow> bytes" where
  "hmac_block p key =
     (let k = (if 64 < length key then sha256 p key else key) in k @ replicate (64 - length k) 0)"

definition hmac_sha256 :: "prims \<Rightarrow> bytes \<Rightarrow> bytes \<Rightarrow> bytes" where
  "hmac_sha256 p key msg =
     (let k = hmac_block p key in
      sha256 p (map (xor 0x5c) k @ sha256 p (map (xor 0x36) k @ msg)))"

section \<open>Passwords\<close>

definition ARGON2_MEMORY_KIB_CAP :: int where "ARGON2_MEMORY_KIB_CAP = 262144"
definition ARGON2_TIME_COST_CAP :: int where "ARGON2_TIME_COST_CAP = 8"
definition ARGON2_PARALLELISM_CAP :: int where "ARGON2_PARALLELISM_CAP = 8"

text \<open>What \<open>PasswordHasher.verify\<close> does: return, raise \<open>VerifyMismatchError\<close>, raise something else.\<close>

datatype verify_outcome = ArgonMatch | ArgonMismatch | ArgonError py_exc

record argon =
  ag_hash :: "string \<Rightarrow> string \<Rightarrow> string" \<comment> \<open>salt, password\<close>
  ag_verify :: "string \<Rightarrow> string \<Rightarrow> verify_outcome" \<comment> \<open>stored hash, password\<close>
  ag_needs_rehash :: "string \<Rightarrow> bool"

definition argon_ok :: "argon \<Rightarrow> bool" where
  "argon_ok a \<longleftrightarrow> (\<forall>salt pw. ag_verify a (ag_hash a salt pw) pw = ArgonMatch)"

record hasher =
  hs_argon :: argon
  hs_peppers :: "(string, string) dict"
  hs_active_kid :: string
  hs_active_secret :: string

record verify_result =
  vr_ok :: bool
  vr_needs_rehash :: bool

definition pepper_password :: "prims \<Rightarrow> string \<Rightarrow> string \<Rightarrow> string" where
  "pepper_password p password pepper_secret =
     hexdigest (hmac_sha256 p (utf8 pepper_secret) (utf8 password))"

text \<open>\<open>PasswordHasherService.__init__\<close>; the first argument constructs the argon2 hasher.\<close>

definition new_hasher ::
  "(int \<Rightarrow> int \<Rightarrow> int \<Rightarrow> argon) \<Rightarrow> int \<Rightarrow> int \<Rightarrow> int \<Rightarrow> (string \<times> string) list \<Rightarrow> py_exc + hasher" where
  "new_hasher mk memory_kib time_cost parallelism peppers =
     (if ARGON2_MEMORY_KIB_CAP < memory_kib then Inl RuntimeError
      else if ARGON2_TIME_COST_CAP < time_cost then Inl RuntimeError
      else if ARGON2_PARALLELISM_CAP < parallelism then Inl RuntimeError
      else if memory_kib \<le> 0 \<or> time_cost \<le> 0 \<or> parallelism \<le> 0 then Inl RuntimeError
      else case peppers of [] \<Rightarrow> Inl RuntimeError
      | first # _ \<Rightarrow> Inr \<lparr>hs_argon = mk memory_kib time_cost parallelism,
          hs_peppers = foldl (\<lambda>d kv. dset (fst kv) (snd kv) d) [] peppers,
          hs_active_kid = fst first, hs_active_secret = snd first\<rparr>)"

definition known_pepper_kid :: "hasher \<Rightarrow> string \<Rightarrow> bool" where
  "known_pepper_kid h kid = (dget (hs_peppers h) kid \<noteq> None)"

text \<open>\<open>hash\<close>, with the salt that the library draws.\<close>

definition hash_password :: "prims \<Rightarrow> hasher \<Rightarrow> string \<Rightarrow> string \<Rightarrow> string \<times> string" where
  "hash_password p h salt password =
     (ag_hash (hs_argon h) salt (pepper_password p password (hs_active_secret h)), hs_active_kid h)"

definition verify_password :: "prims \<Rightarrow> hasher \<Rightarrow> string \<Rightarrow> string \<Rightarrow> string \<Rightarrow> py_exc + verify_result" where
  "verify_password p h password stored_hash stored_kid =
     (case dget (hs_peppers h) stored_kid of
        None \<Rightarrow> Inr \<lparr>vr_ok = False, vr_needs_rehash = False\<rparr>
      | Some pepper \<Rightarrow>
          (case ag_verify (hs_argon h) stored_hash (pepper_password p password pepper) of
             ArgonError e \<Rightarrow> Inl e
           | ArgonMismatch \<Rightarrow> Inr \<lparr>vr_ok = False, vr_needs_rehash = False\<rparr>
           | ArgonMatch \<Rightarrow> Inr \<lparr>vr_ok = True,
               vr_needs_rehash = (stored_kid \<noteq> hs_active_kid h \<or> ag_needs_rehash (hs_argon h) stored_hash)\<rparr>))"

text \<open>A constructed service knows its active pepper.\<close>

definition hasher_ok :: "hasher \<Rightarrow> bool" where
  "hasher_ok h \<longleftrightarrow> argon_ok (hs_argon h) \<and> dget (hs_peppers h) (hs_active_kid h) = Some (hs_active_secret h)"

lemma dget_foldl_dset:
  assumes "distinct (map fst kvs)" and "(k, v) \<in> set kvs"
  shows "dget (foldl (\<lambda>d kv. dset (fst kv) (snd kv) d) d0 kvs) k = Some v"
  using assms
proof (induction kvs rule: rev_induct)
  case (snoc kv kvs)
  show ?case
  proof (cases "(k, v) = kv")
    case False
    with snoc.prems have "(k, v) \<in> set kvs" by auto
    moreover have "fst kv \<notin> fst ` set kvs" using snoc.prems(1) by simp
    ultimately have "fst kv \<noteq> k" by (metis fst_conv imageI)
    with \<open>(k, v) \<in> set kvs\<close>
    show ?thesis using snoc by simp
  qed (use snoc in auto)
qed simp

lemma new_hasher_ok:
  assumes "new_hasher mk m t par peppers = Inr h" and "argon_ok (mk m t par)"
    and "distinct (map fst peppers)"
  shows "hasher_ok h"
proof -
  from assms(1) obtain k s rest where p: "peppers = (k, s) # rest"
      and h: "h = \<lparr>hs_argon = mk m t par, hs_peppers = foldl (\<lambda>d kv. dset (fst kv) (snd kv) d) [] peppers,
        hs_active_kid = k, hs_active_secret = s\<rparr>"
    by (auto simp: new_hasher_def split: if_splits list.splits)
  have "dget (foldl (\<lambda>d kv. dset (fst kv) (snd kv) d) [] peppers) k = Some s"
    using assms(3) by (rule dget_foldl_dset) (simp add: p)
  with assms(2) h show ?thesis by (simp add: hasher_ok_def)
qed

lemma verify_fresh_hash:
  assumes "hasher_ok h"
  shows "verify_password p h pw (fst (hash_password p h salt pw)) (snd (hash_password p h salt pw)) =
    Inr \<lparr>vr_ok = True, vr_needs_rehash = ag_needs_rehash (hs_argon h) (fst (hash_password p h salt pw))\<rparr>"
  using assms by (simp add: verify_password_def hash_password_def hasher_ok_def argon_ok_def)

section \<open>Second factor\<close>

record fernet =
  fn_encrypt :: "string \<Rightarrow> string \<Rightarrow> string" \<comment> \<open>random bytes drawn by the library, plain text\<close>
  fn_decrypt :: "string \<Rightarrow> string option" \<comment> \<open>\<open>None\<close>: \<open>InvalidToken\<close>\<close>

record totp_service =
  tp_key_order :: "string list"
  tp_multi :: fernet
  tp_issuer :: string
  tp_otp_verify :: "string \<Rightarrow> string \<Rightarrow> int \<Rightarrow> bool" \<comment> \<open>pyotp: secret, code, time; one step of tolerance\<close>
  tp_otp_uri :: "string \<Rightarrow> string \<Rightarrow> string \<Rightarrow> string" \<comment> \<open>secret, name, issuer\<close>

definition decode_fernet_key :: "string \<Rightarrow> py_exc + string" where
  "decode_fernet_key secret =
     (if list_all (\<lambda>c. (of_char c :: nat) < 128) secret
      then Inr (secret @ replicate ((4 - length secret mod 4) mod 4) (CHR ''=''))
      else Inl ValueError)"

fun decode_fernet_keys :: "(string \<Rightarrow> py_exc + fernet) \<Rightarrow> (string \<times> string) list \<Rightarrow> py_exc + (string, fernet) dict" where
  "decode_fernet_keys mk [] = Inr []"
| "decode_fernet_keys mk ((kid, secret) # ks) =
     rbind (decode_fernet_key secret) (\<lambda>raw. rbind (mk raw) (\<lambda>f.
       rbind (decode_fernet_keys mk ks) (\<lambda>d. Inr ((kid, f) # d))))"

text \<open>
  \<open>TotpService.__init__\<close>: the arguments construct a \<open>Fernet\<close> and a \<open>MultiFernet\<close>.  Key ids
  are distinct (\<open>_parse_kid_list\<close> refuses a duplicate).
\<close>

definition new_totp ::
  "(string \<Rightarrow> py_exc + fernet) \<Rightarrow> (fernet list \<Rightarrow> fernet) \<Rightarrow> (string \<Rightarrow> string \<Rightarrow> int \<Rightarrow> bool)
    \<Rightarrow> (string \<Rightarrow> string \<Rightarrow> string \<Rightarrow> string) \<Rightarrow> (string \<times> string) list \<Rightarrow> py_exc + totp_service" where
  "new_totp mk multi otp uri keys =
     (if keys = [] then Inl RuntimeError
      else rbind (decode_fernet_keys mk keys) (\<lambda>d.
        Inr \<lparr>tp_key_order = map fst keys, tp_multi = multi (map snd d),
             tp_issuer = ''Agent Shield'', tp_otp_verify = otp, tp_otp_uri = uri\<rparr>))"

definition totp_active_kid :: "totp_service \<Rightarrow> string" where
  "totp_active_kid s = hd (tp_key_order s)"

definition provisioning_uri :: "totp_service \<Rightarrow> string \<Rightarrow> string \<Rightarrow> string" where
  "provisioning_uri s secret email = tp_otp_uri s secret email (tp_issuer s)"

definition totp_encrypt :: "totp_service \<Rightarrow> string \<Rightarrow> string \<Rightarrow> string" where
  "totp_encrypt s iv secret = fn_encrypt (tp_multi s) iv secret"

record totp_decrypted =
  td_secret :: string
  td_needs_rewrap :: bool
  td_new_active_kid :: string

definition totp_decrypt :: "totp_service \<Rightarrow> string \<Rightarrow> string \<Rightarrow> py_exc + totp_decrypted" where
  "totp_decrypt s ciphertext stored_kid =
     (case fn_decrypt (tp_multi s) ciphertext of
        None \<Rightarrow> Inl ValueError
      | Some secret \<Rightarrow> Inr \<lparr>td_secret = secret, td_needs_rewrap = (stored_kid \<noteq> totp_active_kid s),
          td_new_active_kid = totp_active_kid s\<rparr>)"

text \<open>\<open>str.isdigit\<close>: the decimal digits and the superscripts one, two and three.\<close>

definition py_isdigit :: "string \<Rightarrow> bool" where
  "py_isdigit s = (s \<noteq> [] \<and> list_all (\<lambda>c. is_digit c \<or> (of_char c :: nat) \<in> {178, 179, 185}) s)"

definition totp_verify :: "totp_service \<Rightarrow> string \<Rightarrow> string \<Rightarrow> int \<Rightarrow> bool" where
  "totp_verify s secret code now =
     (if code = [] \<or> \<not> py_isdigit code \<or> length code \<notin> {6, 7, 8} then False
      else tp_otp_verify s secret code now)"

definition RECOVERY_CODE_COUNT :: nat where "RECOVERY_CODE_COUNT = 10"

definition hash_recovery_code :: "prims \<Rightarrow> string \<Rightarrow> string" where
  "hash_recovery_code p code = sha256_hex p code"

text \<open>The loop over all stored hashes, which keeps the first match.\<close>

fun matched_index :: "string \<Rightarrow> string list \<Rightarrow> int \<Rightarrow> int \<Rightarrow> int" where
  "matched_index h [] idx m = m"
| "matched_index h (stored # rest) idx m =
     matched_index h rest (idx + 1) (if stored = h \<and> m < 0 then idx else m)"

definition consume_recovery_code :: "prims \<Rightarrow> string \<Rightarrow> string list \<Rightarrow> bool \<times> string list" where
  "consume_recovery_code p candidate stored_hashes =
     (let m = matched_index (hash_recovery_code p candidate) stored_hashes 0 (- 1) in
      if m < 0 then (False, stored_hashes)
      else (True, map snd (filter (\<lambda>ih. int (fst ih) \<noteq> m) (List.enumerate 0 stored_hashes))))"

lemma matched_index_found: "0 \<le> m \<Longrightarrow> matched_index h hs i m = m"
  by (induction hs arbitrary: i) auto

lemma matched_index_none: "h \<notin> set hs \<Longrightarrow> matched_index h hs i m = m"
  by (induction hs arbitrary: i) auto

lemma enumerate_filter_shift:
  "j < n \<Longrightarrow> map snd (filter (\<lambda>ih. int (fst ih) \<noteq> int j) (List.enumerate n hs)) = hs"
  by (induction hs arbitrary: n) auto

lemma matched_index_remove:
  assumes "h \<in> set hs"
  shows "int n \<le> matched_index h hs (int n) (- 1)
    \<and> map snd (filter (\<lambda>ih. int (fst ih) \<noteq> matched_index h hs (int n) (- 1)) (List.enumerate n hs)) = remove1 h hs"
  using assms
proof (induction hs arbitrary: n)
  case (Cons s hs)
  show ?case
  proof (cases "s = h")
    case True
    then show ?thesis using enumerate_filter_shift[of n "Suc n" hs] by (simp add: matched_index_found)
  next
    case False
    with Cons.prems have "h \<in> set hs" by simp
    from Cons.IH[OF this, of "Suc n"] False show ?thesis by (simp add: add.commute)
  qed
qed simp

text \<open>One matching code is removed; a code that does not match changes nothing.\<close>

lemma consume_recovery_code_eq:
  "consume_recovery_code p c hs =
     (if hash_recovery_code p c \<in> set hs then (True, remove1 (hash_recovery_code p c) hs) else (False, hs))"
proof (cases "hash_recovery_code p c \<in> set hs")
  case True
  from matched_index_remove[OF this, of 0] True show ?thesis
    by (simp add: consume_recovery_code_def Let_def)
next
  case False
  then show ?thesis by (simp add: consume_recovery_code_def matched_index_none)
qed

end
