(* ===== verification/AuthBase.thy ===== *)
theory AuthBase
  imports AuthStore AuthSecrets
begin

text \<open>
  What the services of the accounts package share: settings, the random source, the request,
  the state, and the small modules \<open>auth/utils.py\<close>, \<open>auth/principal.py\<close>, \<open>auth/audit.py\<close>,
  \<open>auth/ratelimit.py\<close>, \<open>auth/csrf.py\<close> and the messages of \<open>auth/email.py\<close>.

  A handler is an \<^emph>\<open>action\<close>: it takes the state and returns an outcome, a value or what was
  raised, with the state it leaves.  Nothing is undone when something is raised.  The clock is
  read once per request, in milliseconds.

  Random values (identifiers, tokens, salts) come from \<open>ev_random\<close>: the state counts the draws
  made so far, and the value of a draw depends on its kind and on that number.
\<close>

section \<open>Settings, services and state\<close>

datatype auth_mode = MODE_OPEN | MODE_ENTERPRISE | MODE_API_TOKEN_ONLY

record auth_settings =
  au_mode :: auth_mode
  au_api_token :: "string option"
  au_cookie_name :: string
  au_cookie_secure :: bool
  au_cookie_domain :: "string option"
  au_session_ttl_seconds :: int
  au_public_base_url :: string
  au_smtp_from :: string

definition DEMO_ORG_ID :: string where "DEMO_ORG_ID = ''demo-org''"

datatype draw = DrawUuid | DrawToken nat | DrawSecret | DrawSalt

text \<open>The three templates and what is filled into them; the subject line follows from the template.\<close>

datatype message_text =
    PasswordResetText string string int \<comment> \<open>recipient, url, minutes\<close>
  | EmailVerifyText string string int
  | InviteText string string string role int \<comment> \<open>recipient, url, organisation, role, minutes\<close>

record message =
  ms_to :: string
  ms_text :: message_text
  ms_from_addr :: string

record auth_env =
  ev_prims :: prims
  ev_settings :: auth_settings
  ev_random :: "draw \<Rightarrow> nat \<Rightarrow> string"
  ev_hasher :: hasher
  ev_totp :: totp_service
  ev_send :: "message \<Rightarrow> py_exc option" \<comment> \<open>what the mail transport raises, if anything\<close>

record world =
  w_storage :: storage
  w_auth :: auth_tables
  w_draws :: nat
  w_outbox :: "message list"

record http_request =
  hr_method :: string
  hr_headers :: "(string, string) dict" \<comment> \<open>names in lower case\<close>
  hr_cookies :: "(string, string) dict"
  hr_client_host :: "string option"

section \<open>Actions\<close>

type_synonym 'a action = "world \<Rightarrow> (failure + 'a) \<times> world"

definition act_return :: "'a \<Rightarrow> 'a action" where
  "act_return x = (\<lambda>w. (Inr x, w))"

definition act_raise :: "failure \<Rightarrow> 'a action" where
  "act_raise f = (\<lambda>w. (Inl f, w))"

definition act_bind :: "'a action \<Rightarrow> ('a \<Rightarrow> 'b action) \<Rightarrow> 'b action" where
  "act_bind m k = (\<lambda>w. case m w of (Inl f, w') \<Rightarrow> (Inl f, w') | (Inr x, w') \<Rightarrow> k x w')"

definition act_seq :: "'a action \<Rightarrow> 'b action \<Rightarrow> 'b action" where
  "act_seq m n = act_bind m (\<lambda>_. n)"

definition act_when :: "bool \<Rightarrow> unit action \<Rightarrow> unit action" where
  "act_when b m = (if b then m else act_return ())"

definition act_lift :: "failure + 'a \<Rightarrow> 'a action" where
  "act_lift r = (\<lambda>w. (r, w))"

text \<open>A query, a writing statement, a draw.\<close>

definition act_query :: "(auth_tables \<Rightarrow> 'a) \<Rightarrow> 'a action" where
  "act_query f = (\<lambda>w. (Inr (f (w_auth w)), w))"

definition act_sql :: "auth_stmt \<Rightarrow> unit action" where
  "act_sql q = (\<lambda>w. (Inr (), w\<lparr>w_auth := auth_execute q (w_auth w)\<rparr>))"

definition act_draw :: "auth_env \<Rightarrow> draw \<Rightarrow> string action" where
  "act_draw env d = (\<lambda>w. (Inr (ev_random env d (w_draws w)), w\<lparr>w_draws := Suc (w_draws w)\<rparr>))"

lemma act_simps [simp]:
  "act_return x w = (Inr x, w)"
  "act_raise f w = (Inl f, w)"
  "act_lift r w = (r, w)"
  "act_query g w = (Inr (g (w_auth w)), w)"
  "act_sql q w = (Inr (), w\<lparr>w_auth := auth_execute q (w_auth w)\<rparr>)"
  "act_draw env d w = (Inr (ev_random env d (w_draws w)), w\<lparr>w_draws := Suc (w_draws w)\<rparr>)"
  "act_when True m = m"
  "act_when False m = act_return ()"
  by (simp_all add: act_return_def act_raise_def act_lift_def act_query_def act_sql_def act_draw_def act_when_def)

lemma act_bind_Inr: "m w = (Inr x, w') \<Longrightarrow> act_bind m k w = k x w'"
  by (simp add: act_bind_def)

lemma act_bind_Inl: "m w = (Inl f, w') \<Longrightarrow> act_bind m k w = (Inl f, w')"
  by (simp add: act_bind_def)

lemma act_bind_simps [simp]:
  "act_bind (act_return x) k = k x"
  "act_bind (act_raise f) k = act_raise f"
  "act_bind (act_lift (Inr x)) k = k x"
  "act_bind (act_lift (Inl f)) k = act_raise f"
  "act_bind (act_query g) k1 w = k1 (g (w_auth w)) w"
  "act_bind (act_sql q) k2 w = k2 () (w\<lparr>w_auth := auth_execute q (w_auth w)\<rparr>)"
  "act_bind (act_draw env d) k3 w = k3 (ev_random env d (w_draws w)) (w\<lparr>w_draws := Suc (w_draws w)\<rparr>)"
  "act_bind (act_bind m k) k' = act_bind m (\<lambda>x. act_bind (k x) k')"
  by (auto simp: act_bind_def fun_eq_iff act_return_def act_raise_def act_lift_def split: sum.splits prod.splits)

lemma act_seq_simps [simp]:
  "act_seq (act_return x) n = n"
  "act_seq (act_raise f) n = act_raise f"
  "act_seq (act_sql q) n w = n (w\<lparr>w_auth := auth_execute q (w_auth w)\<rparr>)"
  "act_bind (act_seq m n) k = act_seq m (act_bind n k)"
  "act_seq (act_bind m k') n = act_bind m (\<lambda>x. act_seq (k' x) n)"
  "act_seq (act_seq l m) n = act_seq l (act_seq m n)"
  by (simp_all add: act_seq_def)

lemma act_bind_InrE:
  assumes "act_bind m k w = (Inr y, w'')"
  obtains x w' where "m w = (Inr x, w')" and "k x w' = (Inr y, w'')"
  using assms by (auto simp: act_bind_def split: sum.splits prod.splits)

section \<open>What an action leaves unchanged\<close>

text \<open>
  \<open>keeps R m\<close>: whatever the outcome, the state after \<open>m\<close> is related to the state before.  For a
  reflexive and transitive relation this is closed under the ways of building actions, so a fact
  about a handler follows from the same fact about the statements it issues.
\<close>

definition keeps :: "(world \<Rightarrow> world \<Rightarrow> bool) \<Rightarrow> 'a action \<Rightarrow> bool" where
  "keeps R m \<longleftrightarrow> (\<forall>w. R w (snd (m w)))"

locale world_relation =
  fixes R :: "world \<Rightarrow> world \<Rightarrow> bool"
  assumes related_refl: "R w w"
    and related_trans: "R w w' \<Longrightarrow> R w' w'' \<Longrightarrow> R w w''"
begin

lemma keeps_pure: "keeps R (act_return x)" "keeps R (act_raise f)" "keeps R (act_lift r)" "keeps R (act_query g)"
  by (simp_all add: keeps_def related_refl)

lemma keeps_bind:
  assumes "keeps R m" and "\<And>x. keeps R (k x)"
  shows "keeps R (act_bind m k)"
  unfolding keeps_def
proof
  fix w
  obtain r w' where m: "m w = (r, w')" by fastforce
  have rel: "R w w'" using assms(1) by (metis keeps_def m snd_conv)
  show "R w (snd (act_bind m k w))"
  proof (cases r)
    case (Inl f)
    with m rel show ?thesis by (simp add: act_bind_def)
  next
    case (Inr x)
    have "R w' (snd (k x w'))" using assms(2) by (simp add: keeps_def)
    with rel have "R w (snd (k x w'))" by (rule related_trans)
    with m Inr show ?thesis by (simp add: act_bind_def)
  qed
qed

lemma keeps_seq: "keeps R m \<Longrightarrow> keeps R n \<Longrightarrow> keeps R (act_seq m n)"
  by (simp add: act_seq_def keeps_bind)

lemma keeps_when: "keeps R m \<Longrightarrow> keeps R (act_when b m)"
  by (simp add: act_when_def keeps_pure)

lemma keeps_if: "keeps R m \<Longrightarrow> keeps R n \<Longrightarrow> keeps R (if b then m else n)"
  by simp

lemma keeps_option: "keeps R m \<Longrightarrow> (\<And>x. keeps R (n x)) \<Longrightarrow> keeps R (case o' of None \<Rightarrow> m | Some x \<Rightarrow> n x)"
  by (cases o') simp_all

lemma keeps_prod: "(\<And>x y. keeps R (n x y)) \<Longrightarrow> keeps R (case p of (x, y) \<Rightarrow> n x y)"
  by (cases p) simp

lemmas keeps_intros = keeps_pure keeps_bind keeps_seq keeps_when keeps_if keeps_option keeps_prod

end

section \<open>Time, addresses (\<open>utils.py\<close>)\<close>

definition nonempty :: "string option \<Rightarrow> string option" where
  "nonempty x = (case x of Some s \<Rightarrow> if s = [] then None else Some s | None \<Rightarrow> None)"

definition first_hop :: "string \<Rightarrow> string" where
  "first_hop raw = strip_by is_space (takeWhile (\<lambda>c. c \<noteq> CHR '','') raw)"

text \<open>\<open>headers.get(key) or headers.get(key.title())\<close>\<close>

definition header_or_title :: "(string, string) dict \<Rightarrow> string \<times> string \<Rightarrow> string option" where
  "header_or_title headers k =
     (case nonempty (dget headers (fst k)) of
        Some v \<Rightarrow> Some v | None \<Rightarrow> nonempty (dget headers (snd k)))"

fun first_header :: "(string, string) dict \<Rightarrow> (string \<times> string) list \<Rightarrow> string option" where
  "first_header headers [] = None"
| "first_header headers (k # ks) =
     (case header_or_title headers k of Some v \<Rightarrow> Some v | None \<Rightarrow> first_header headers ks)"

definition client_ip :: "(string, string) dict \<Rightarrow> string option \<Rightarrow> string option" where
  "client_ip headers fallback =
     (case first_header headers [(''x-forwarded-for'', ''X-Forwarded-For''),
          (''x-real-ip'', ''X-Real-Ip''), (''forwarded'', ''Forwarded'')] of
        Some raw \<Rightarrow> Some (first_hop raw)
      | None \<Rightarrow> fallback)"

section \<open>Principals (\<open>principal.py\<close>)\<close>

datatype auth_kind = KIND_OPEN | KIND_SESSION | KIND_API_KEY | KIND_API_TOKEN_ONLY

definition ALL_ROLES :: "role set" where
  "ALL_ROLES = {ORG_OWNER, SECURITY_ADMIN, INTEGRATION_ENGINEER, COMPLIANCE_AUDITOR, READONLY_INVESTIGATOR}"

record principal =
  p_org_id :: string
  p_user_id :: string
  p_role :: role
  p_auth_kind :: auth_kind
  p_roles :: "role set"
  p_session_id :: "string option"
  p_email :: "string option"
  p_totp_enabled :: bool
  p_api_key_id :: "string option"
  p_api_key_agent_id :: "string option"
  p_api_key_agent_id_allowlist :: "string list option"

definition is_admin :: "principal \<Rightarrow> bool" where
  "is_admin p = (p_role p \<in> {ORG_OWNER, SECURITY_ADMIN})"

definition is_open_synthetic :: "principal \<Rightarrow> bool" where
  "is_open_synthetic p = (p_auth_kind p = KIND_OPEN)"

definition is_session :: "principal \<Rightarrow> bool" where
  "is_session p = (p_auth_kind p = KIND_SESSION)"

definition is_api_key :: "principal \<Rightarrow> bool" where
  "is_api_key p = (p_auth_kind p = KIND_API_KEY)"

definition has_role :: "principal \<Rightarrow> role set \<Rightarrow> bool" where
  "has_role p rs = (p_roles p \<inter> rs \<noteq> {})"

definition synthetic_dev_principal :: "string \<Rightarrow> principal" where
  "synthetic_dev_principal org_id =
     \<lparr>p_org_id = org_id, p_user_id = ''dev-principal'', p_role = ORG_OWNER, p_auth_kind = KIND_OPEN,
      p_roles = ALL_ROLES, p_session_id = None, p_email = Some ''dev@shield.local'',
      p_totp_enabled = False, p_api_key_id = None, p_api_key_agent_id = None,
      p_api_key_agent_id_allowlist = None\<rparr>"

definition api_token_only_principal :: "string \<Rightarrow> principal" where
  "api_token_only_principal org_id =
     \<lparr>p_org_id = org_id, p_user_id = ''api-token-principal'', p_role = ORG_OWNER,
      p_auth_kind = KIND_API_TOKEN_ONLY, p_roles = ALL_ROLES, p_session_id = None, p_email = None,
      p_totp_enabled = False, p_api_key_id = None, p_api_key_agent_id = None,
      p_api_key_agent_id_allowlist = None\<rparr>"

section \<open>Log of events (\<open>audit.py\<close>)\<close>

definition insert_audit ::
  "auth_env \<Rightarrow> int \<Rightarrow> auth_event \<Rightarrow> string option \<Rightarrow> string option \<Rightarrow> string option \<Rightarrow> string option
    \<Rightarrow> jobj \<Rightarrow> unit action" where
  "insert_audit env now event user_id org_id ip user_agent detail =
     act_bind (act_draw env DrawUuid) (\<lambda>audit_id.
       act_sql (InsertAuthAudit \<lparr>aa_audit_id = audit_id, aa_user_id = user_id, aa_org_id = org_id,
         aa_event = event, aa_ip = ip, aa_user_agent = user_agent,
         aa_detail = dumps_sorted (float_repr (ev_prims env)) (JObj detail), aa_created_at = now\<rparr>))"

definition jopt :: "string option \<Rightarrow> json" where
  "jopt x = (case x of None \<Rightarrow> JNull | Some s \<Rightarrow> JStr s)"

section \<open>Rate limit (\<open>ratelimit.py\<close>)\<close>

definition DEFAULT_LIMIT_PER_WINDOW :: int where "DEFAULT_LIMIT_PER_WINDOW = 10"
definition DEFAULT_WINDOW_SECONDS :: int where "DEFAULT_WINDOW_SECONDS = 60"

record rate_limit_config =
  rl_bucket :: string
  rl_limit :: int
  rl_window_seconds :: int

definition rate_limit_config_of :: "string \<Rightarrow> rate_limit_config" where
  "rate_limit_config_of bucket = \<lparr>rl_bucket = bucket, rl_limit = DEFAULT_LIMIT_PER_WINDOW,
     rl_window_seconds = DEFAULT_WINDOW_SECONDS\<rparr>"

text \<open>\<open>int(existing)\<close> of a counter: the strings that this function writes are decimal numbers.\<close>

definition parse_count :: "string \<Rightarrow> int option" where
  "parse_count s = (if s \<noteq> [] \<and> list_all is_digit s then Some (int (digits_value s)) else None)"

text \<open>True: over the limit.  Anything raised inside counts as within the limit.\<close>

definition increment_and_check :: "int \<Rightarrow> string \<Rightarrow> int \<Rightarrow> int \<Rightarrow> cache \<Rightarrow> bool \<times> cache" where
  "increment_and_check now key limit window_seconds c =
     (case cache_get now c key of
        (c', None) \<Rightarrow> (False, fst (set_if_absent now key ''1'' window_seconds c'))
      | (c', Some existing) \<Rightarrow>
          (case parse_count existing of
             None \<Rightarrow> (False, c')
           | Some n \<Rightarrow> (limit < n + 1, cache_set key (show_int (n + 1)) c')))"

definition rate_limit_key :: "rate_limit_config \<Rightarrow> string \<Rightarrow> int \<Rightarrow> string" where
  "rate_limit_key cfg ip now =
     ''ratelimit:'' @ rl_bucket cfg @ '':'' @ ip @ '':'' @ show_int (now div 1000 div rl_window_seconds cfg)"

definition rate_limited_ip :: "(string, string) dict \<Rightarrow> string option \<Rightarrow> string" where
  "rate_limited_ip headers fallback_ip =
     (case nonempty (client_ip headers fallback_ip) of None \<Rightarrow> ''unknown'' | Some ip \<Rightarrow> ip)"

definition enforce_or_block ::
  "int \<Rightarrow> rate_limit_config \<Rightarrow> (string, string) dict \<Rightarrow> string option \<Rightarrow> unit action" where
  "enforce_or_block now cfg headers fallback_ip = (\<lambda>w.
     let key = rate_limit_key cfg (rate_limited_ip headers fallback_ip) now;
         r = increment_and_check now key (rl_limit cfg) (rl_window_seconds cfg) (st_cache (w_storage w));
         w' = w\<lparr>w_storage := (w_storage w)\<lparr>st_cache := snd r\<rparr>\<rparr> in
     if fst r then (Inl (app_err 429 RATE_LIMITED), w') else (Inr (), w'))"

section \<open>Cross-site requests (\<open>csrf.py\<close>)\<close>

definition STATE_CHANGING_METHODS :: "string list" where
  "STATE_CHANGING_METHODS = [''POST'', ''PATCH'', ''PUT'', ''DELETE'']"

definition is_state_changing :: "http_request \<Rightarrow> bool" where
  "is_state_changing rq = (py_upper (hr_method rq) \<in> set STATE_CHANGING_METHODS)"

definition csrf_token_from_header :: "http_request \<Rightarrow> string option" where
  "csrf_token_from_header rq = dget (hr_headers rq) ''x-csrf-token''"

definition require_csrf :: "http_request \<Rightarrow> string \<Rightarrow> failure + unit" where
  "require_csrf rq session_csrf =
     (if \<not> is_state_changing rq then Inr ()
      else case nonempty (csrf_token_from_header rq) of
        None \<Rightarrow> Inl (app_err 403 FORBIDDEN)
      | Some candidate \<Rightarrow>
          if constant_time_equal candidate session_csrf then Inr () else Inl (app_err 403 FORBIDDEN))"

section \<open>Messages (\<open>email.py\<close>)\<close>

definition render_password_reset :: "string \<Rightarrow> string \<Rightarrow> int \<Rightarrow> message" where
  "render_password_reset recipient url minutes =
     \<lparr>ms_to = recipient, ms_text = PasswordResetText recipient url minutes, ms_from_addr = []\<rparr>"

definition render_email_verify :: "string \<Rightarrow> string \<Rightarrow> int \<Rightarrow> message" where
  "render_email_verify recipient url minutes =
     \<lparr>ms_to = recipient, ms_text = EmailVerifyText recipient url minutes, ms_from_addr = []\<rparr>"

definition render_invite :: "string \<Rightarrow> string \<Rightarrow> string \<Rightarrow> role \<Rightarrow> int \<Rightarrow> message" where
  "render_invite recipient url org_name r minutes =
     \<lparr>ms_to = recipient, ms_text = InviteText recipient url org_name r minutes, ms_from_addr = []\<rparr>"

definition with_sender_from :: "message \<Rightarrow> auth_settings \<Rightarrow> message" where
  "with_sender_from m s = m\<lparr>ms_from_addr := au_smtp_from s\<rparr>"

definition send_message :: "auth_env \<Rightarrow> message \<Rightarrow> unit action" where
  "send_message env m = (\<lambda>w.
     case ev_send env m of
       Some e \<Rightarrow> (Inl (PyError e), w)
     | None \<Rightarrow> (Inr (), w\<lparr>w_outbox := w_outbox w @ [m]\<rparr>))"

end
