(* ===== verification/AuthUsers.thy ===== *)
theory AuthUsers
  imports AuthBase
begin

text \<open>
  Users and their lockout (\<open>auth/users.py\<close>), sessions (\<open>auth/sessions.py\<close>), single-use tokens
  (\<open>auth/tokens.py\<close>) and API keys (\<open>auth/api_keys.py\<close>) over the tables of \<open>AuthStore\<close>.
  Rows are well typed, so the conversions of a row to its dataclass are the identity.
\<close>

section \<open>Users (\<open>users.py\<close>)\<close>

definition LOCKOUT_THRESHOLD :: int where "LOCKOUT_THRESHOLD = 5"

definition LOCKOUT_MINUTES_SCHEDULE :: "int list" where
  "LOCKOUT_MINUTES_SCHEDULE = [5, 10, 20, 30]"

definition primary_membership :: "auth_tables \<Rightarrow> string \<Rightarrow> (string \<times> role) option" where
  "primary_membership t user_id =
     (case memberships_of t user_id of [] \<Rightarrow> None | m # _ \<Rightarrow> Some (mb_org_id m, mb_role m))"

definition create_user ::
  "auth_env \<Rightarrow> int \<Rightarrow> string \<Rightarrow> string \<Rightarrow> string \<Rightarrow> string \<Rightarrow> role \<Rightarrow> string option \<Rightarrow> user_row action" where
  "create_user env now email password name org_id r invited_by =
     act_bind (act_draw env DrawUuid) (\<lambda>user_id.
     act_bind (act_draw env DrawSalt) (\<lambda>salt.
       let h = hash_password (ev_prims env) (ev_hasher env) salt password in
       act_seq (act_sql (InsertUser user_id email (fst h) (snd h) name now))
      (act_seq (act_sql (InsertMembership \<lparr>mb_user_id = user_id, mb_org_id = org_id, mb_role = r,
          mb_invited_by = invited_by, mb_joined_at = now\<rparr>))
      (act_bind (act_query (\<lambda>t. user_by_id t user_id)) (\<lambda>found.
         case found of None \<Rightarrow> act_raise (PyError AssertionError) | Some u \<Rightarrow> act_return u)))))"

definition lockout_minutes_for :: "int \<Rightarrow> int" where
  "lockout_minutes_for failed_count =
     (let over = failed_count - LOCKOUT_THRESHOLD in
      if over \<le> 0 then 0
      else LOCKOUT_MINUTES_SCHEDULE ! nat (min (over - 1) (int (length LOCKOUT_MINUTES_SCHEDULE) - 1)))"

definition record_failed_login ::
  "auth_env \<Rightarrow> int \<Rightarrow> string \<Rightarrow> string option \<Rightarrow> string option \<Rightarrow> (int \<times> int option) action" where
  "record_failed_login env now user_id ip user_agent =
     act_bind (act_query (\<lambda>t. failed_login_count t user_id)) (\<lambda>before.
       let new_count = before + 1;
           minutes = lockout_minutes_for new_count;
           locked_until = (if minutes \<noteq> 0 then Some (now + minutes * 60000) else None) in
       act_seq (act_sql (CountFailedLogin new_count locked_until now user_id))
      (act_seq (case locked_until of
          None \<Rightarrow> act_return ()
        | Some until \<Rightarrow> insert_audit env now ACCOUNT_LOCK (Some user_id) None ip user_agent
            [(''failed_count'', JInt new_count), (''locked_until'', JInt until)])
        (act_return (new_count, locked_until))))"

definition reset_failed_login :: "int \<Rightarrow> string \<Rightarrow> unit action" where
  "reset_failed_login now user_id = act_sql (ResetFailedLogin now user_id)"

definition update_password_hash :: "int \<Rightarrow> string \<Rightarrow> string \<times> string \<Rightarrow> unit action" where
  "update_password_hash now user_id h = act_sql (SetPasswordHash (fst h) (snd h) now user_id)"

definition set_totp_enabled :: "int \<Rightarrow> string \<Rightarrow> bool \<Rightarrow> unit action" where
  "set_totp_enabled now user_id b = act_sql (SetTotpEnabled b now user_id)"

definition set_email_verified :: "int \<Rightarrow> string \<Rightarrow> unit action" where
  "set_email_verified now user_id = act_sql (SetEmailVerified now user_id)"

definition change_role :: "string \<Rightarrow> string \<Rightarrow> role \<Rightarrow> unit action" where
  "change_role user_id org_id r = act_sql (SetRole r user_id org_id)"

definition lockout_is_active :: "int \<Rightarrow> user_row \<Rightarrow> bool" where
  "lockout_is_active now u =
     (u_status u = US_LOCKED \<and> (case u_locked_until u of None \<Rightarrow> False | Some t \<Rightarrow> now < t))"

definition verify_or_raise_locked :: "int \<Rightarrow> user_row \<Rightarrow> failure + unit" where
  "verify_or_raise_locked now u =
     (if u_status u = US_DISABLED then Inl (app_err 401 UNAUTHORIZED)
      else if lockout_is_active now u then Inl (app_err 401 UNAUTHORIZED)
      else Inr ())"

text \<open>The schedule: nothing up to the threshold, then it grows to half an hour and stays.\<close>

lemma lockout_minutes_simps:
  "n \<le> 5 \<Longrightarrow> lockout_minutes_for n = 0"
  "lockout_minutes_for 6 = 5" "lockout_minutes_for 7 = 10" "lockout_minutes_for 8 = 20"
  "9 \<le> n \<Longrightarrow> lockout_minutes_for n = 30"
  by (simp_all add: lockout_minutes_for_def LOCKOUT_THRESHOLD_def LOCKOUT_MINUTES_SCHEDULE_def Let_def)

section \<open>Sessions (\<open>sessions.py\<close>)\<close>

record issued_session =
  is_raw_token :: string
  is_csrf_token :: string
  is_row :: session

definition create_session ::
  "auth_env \<Rightarrow> int \<Rightarrow> string \<Rightarrow> string option \<Rightarrow> string option \<Rightarrow> issued_session action" where
  "create_session env now user_id ip user_agent =
     act_bind (act_draw env (DrawToken 48)) (\<lambda>raw.
     act_bind (act_draw env DrawUuid) (\<lambda>session_id.
     act_bind (act_draw env (DrawToken 32)) (\<lambda>csrf.
       let s = \<lparr>se_session_id = session_id, se_user_id = user_id,
             se_token_hash = sha256_hex (ev_prims env) raw, se_csrf_token = csrf, se_ip = ip,
             se_user_agent = user_agent, se_created_at = now, se_last_used_at = now,
             se_expires_at = now + au_session_ttl_seconds (ev_settings env) * 1000,
             se_revoked_at = None\<rparr> in
       act_seq (act_sql (InsertSession s))
         (act_return \<lparr>is_raw_token = raw, is_csrf_token = csrf, is_row = s\<rparr>))))"

definition lookup_session :: "prims \<Rightarrow> int \<Rightarrow> string \<Rightarrow> auth_tables \<Rightarrow> session option" where
  "lookup_session p now raw_token t =
     (if raw_token = [] then None
      else case session_by_token t (sha256_hex p raw_token) of
        None \<Rightarrow> None
      | Some s \<Rightarrow>
          if se_revoked_at s \<noteq> None then None
          else if se_expires_at s < now then None
          else Some s)"

definition touch_session :: "int \<Rightarrow> string \<Rightarrow> unit action" where
  "touch_session now session_id = act_sql (TouchSession now session_id)"

definition rotate_token :: "auth_env \<Rightarrow> int \<Rightarrow> string \<Rightarrow> (string \<times> string) action" where
  "rotate_token env now session_id =
     act_bind (act_draw env (DrawToken 48)) (\<lambda>raw.
     act_bind (act_draw env (DrawToken 32)) (\<lambda>csrf.
       act_seq (act_sql (RotateSession (sha256_hex (ev_prims env) raw) csrf now session_id))
         (act_return (raw, csrf))))"

definition revoke_session :: "int \<Rightarrow> string \<Rightarrow> unit action" where
  "revoke_session now session_id = act_sql (RevokeSession now session_id)"

definition revoke_all_for_user :: "int \<Rightarrow> string \<Rightarrow> unit action" where
  "revoke_all_for_user now user_id = act_sql (RevokeUserSessions now user_id)"

definition list_sessions_for_user :: "auth_tables \<Rightarrow> string \<Rightarrow> session list" where
  "list_sessions_for_user t user_id = sessions_of t user_id"

record cookie =
  ck_key :: string
  ck_value :: string
  ck_max_age :: int
  ck_httponly :: bool
  ck_secure :: bool
  ck_samesite :: string
  ck_path :: string
  ck_domain :: "string option"

definition build_cookie :: "auth_settings \<Rightarrow> string \<Rightarrow> cookie" where
  "build_cookie s raw =
     \<lparr>ck_key = au_cookie_name s, ck_value = raw, ck_max_age = au_session_ttl_seconds s,
      ck_httponly = True, ck_secure = au_cookie_secure s, ck_samesite = ''lax'', ck_path = ''/'',
      ck_domain = au_cookie_domain s\<rparr>"

section \<open>Single-use tokens (\<open>tokens.py\<close>)\<close>

definition PASSWORD_RESET_TTL_MS :: int where "PASSWORD_RESET_TTL_MS = 15 * 60 * 1000"
definition EMAIL_VERIFY_TTL_MS :: int where "EMAIL_VERIFY_TTL_MS = 24 * 60 * 60 * 1000"
definition INVITE_TTL_MS :: int where "INVITE_TTL_MS = 7 * 24 * 60 * 60 * 1000"

datatype token_kind = PasswordReset | EmailVerification

fun token_table :: "token_kind \<Rightarrow> auth_tables \<Rightarrow> (string, token_row) dict" where
  "token_table PasswordReset t = t_password_reset_tokens t"
| "token_table EmailVerification t = t_email_verification_tokens t"

fun insert_token :: "token_kind \<Rightarrow> string \<Rightarrow> string \<Rightarrow> int \<Rightarrow> int \<Rightarrow> auth_stmt" where
  "insert_token PasswordReset h u e now = InsertResetToken h u e now"
| "insert_token EmailVerification h u e now = InsertVerifyToken h u e now"

fun mark_consumed :: "token_kind \<Rightarrow> int \<Rightarrow> string \<Rightarrow> auth_stmt" where
  "mark_consumed PasswordReset now h = ConsumeResetToken now h"
| "mark_consumed EmailVerification now h = ConsumeVerifyToken now h"

fun token_ttl :: "token_kind \<Rightarrow> int" where
  "token_ttl PasswordReset = PASSWORD_RESET_TTL_MS"
| "token_ttl EmailVerification = EMAIL_VERIFY_TTL_MS"

record issued_token =
  it_raw :: string
  it_token_hash :: string
  it_user_id :: string
  it_expires_at :: int

definition issue_token :: "auth_env \<Rightarrow> int \<Rightarrow> token_kind \<Rightarrow> string \<Rightarrow> issued_token action" where
  "issue_token env now kind user_id =
     act_bind (act_draw env (DrawToken 48)) (\<lambda>raw.
       let h = sha256_hex (ev_prims env) raw; expires = now + token_ttl kind in
       act_seq (act_sql (insert_token kind h user_id expires now))
         (act_return \<lparr>it_raw = raw, it_token_hash = h, it_user_id = user_id, it_expires_at = expires\<rparr>))"

definition consume_token :: "auth_env \<Rightarrow> int \<Rightarrow> token_kind \<Rightarrow> string \<Rightarrow> string option action" where
  "consume_token env now kind raw =
     (let h = sha256_hex (ev_prims env) raw in
      act_bind (act_query (\<lambda>t. dget (token_table kind t) h)) (\<lambda>row.
        case row of
          None \<Rightarrow> act_return None
        | Some r \<Rightarrow>
            if tk_consumed_at r \<noteq> None then act_return None
            else if tk_expires_at r < now then act_return None
            else act_seq (act_sql (mark_consumed kind now h)) (act_return (Some (tk_user_id r)))))"

section \<open>API keys (\<open>api_keys.py\<close>)\<close>

fun key_prefix_text :: "key_prefix \<Rightarrow> string" where
  "key_prefix_text AS_LIVE = ''as_live_''"
| "key_prefix_text AS_TEST = ''as_test_''"

definition issue_api_key ::
  "auth_env \<Rightarrow> int \<Rightarrow> string \<Rightarrow> string \<Rightarrow> key_prefix \<Rightarrow> string \<Rightarrow> string option \<Rightarrow> string list option
    \<Rightarrow> int option \<Rightarrow> (string \<times> api_key_row) action" where
  "issue_api_key env now org_id created_by pre display_name agent_id allowlist expires_at =
     (if agent_id \<noteq> None \<and> allowlist \<noteq> None then act_raise (PyError ValueError)
      else
        act_bind (act_draw env DrawUuid) (\<lambda>api_key_id.
        act_bind (act_draw env (DrawToken 32)) (\<lambda>suffix.
          let raw_key = key_prefix_text pre @ suffix; h = sha256_hex (ev_prims env) raw_key in
          act_seq (act_sql (InsertApiKey api_key_id org_id agent_id
              (if allowlist = Some [] then None else allowlist) h pre display_name created_by now expires_at))
            (act_return (raw_key,
              \<lparr>ak_api_key_id = api_key_id, ak_org_id = org_id, ak_agent_id = agent_id,
               ak_agent_id_allowlist = allowlist, ak_token_hash = h, ak_prefix = pre,
               ak_display_name = display_name, ak_created_by = created_by, ak_created_at = now,
               ak_expires_at = expires_at, ak_last_used_at = None, ak_revoked_at = None\<rparr>)))))"

definition lookup_api_key :: "prims \<Rightarrow> int \<Rightarrow> string \<Rightarrow> auth_tables \<Rightarrow> api_key_row option" where
  "lookup_api_key p now raw_key t =
     (if raw_key = [] then None
      else case api_key_by_token t (sha256_hex p raw_key) of
        None \<Rightarrow> None
      | Some k \<Rightarrow>
          if ak_revoked_at k \<noteq> None then None
          else if (case ak_expires_at k of None \<Rightarrow> False | Some e \<Rightarrow> e < now) then None
          else Some k)"

definition touch_api_key :: "int \<Rightarrow> string \<Rightarrow> unit action" where
  "touch_api_key now api_key_id = act_sql (TouchApiKey now api_key_id)"

definition revoke_api_key :: "int \<Rightarrow> string \<Rightarrow> unit action" where
  "revoke_api_key now api_key_id = act_sql (RevokeApiKey now api_key_id)"

definition list_api_keys_for_org :: "auth_tables \<Rightarrow> string \<Rightarrow> api_key_row list" where
  "list_api_keys_for_org t org_id = api_keys_of t org_id"

definition agents_in_org :: "storage \<Rightarrow> string \<Rightarrow> string set" where
  "agents_in_org st org_id =
     set (map a_agent_id (filter (\<lambda>a. a_org_id a = org_id) (dvalues (d_agents (st_db st)))))"

datatype deny_reason =
    RECORD_ORG_MISMATCH | AGENT_OUTSIDE_ORG | AGENT_OUTSIDE_KEY_SCOPE | AGENT_OUTSIDE_ALLOWLIST

datatype authz_result = AuthzAllow | AuthzDeny deny_reason

definition authorize_ingest :: "storage \<Rightarrow> principal \<Rightarrow> string \<Rightarrow> string \<Rightarrow> authz_result" where
  "authorize_ingest st p record_org_id record_agent_id =
     (if p_org_id p \<noteq> record_org_id then AuthzDeny RECORD_ORG_MISMATCH
      else case p_api_key_agent_id p of
        Some agent_id \<Rightarrow>
          if record_agent_id \<noteq> agent_id then AuthzDeny AGENT_OUTSIDE_KEY_SCOPE else AuthzAllow
      | None \<Rightarrow>
        (case p_api_key_agent_id_allowlist p of
           None \<Rightarrow>
             if record_agent_id \<notin> agents_in_org st (p_org_id p) then AuthzDeny AGENT_OUTSIDE_ORG
             else AuthzAllow
         | Some allowlist \<Rightarrow>
             if record_agent_id \<notin> set allowlist then AuthzDeny AGENT_OUTSIDE_ALLOWLIST
             else AuthzAllow))"

end
