(* ===== verification/AuthDep.thy ===== *)
theory AuthDep
  imports AuthUsers
begin

text \<open>
  Who a request speaks for: the dependency layer \<open>auth/dep.py\<close> and the \<open>AuthContext\<close> of
  \<open>auth/__init__.py\<close> that the operation and governance routes use.
\<close>

definition bearer :: "http_request \<Rightarrow> string option" where
  "bearer rq =
     (case nonempty (dget (hr_headers rq) ''authorization'') of
        None \<Rightarrow> None
      | Some header \<Rightarrow>
          if starts_with (py_lower header) ''bearer '' then Some (strip_by is_space (drop 7 header))
          else None)"

definition session_principal :: "session \<Rightarrow> user_row \<Rightarrow> string \<Rightarrow> role \<Rightarrow> principal" where
  "session_principal s u org_id r =
     \<lparr>p_org_id = org_id, p_user_id = u_user_id u, p_role = r, p_auth_kind = KIND_SESSION,
      p_roles = {r}, p_session_id = Some (se_session_id s), p_email = Some (u_email u),
      p_totp_enabled = u_totp_enabled u, p_api_key_id = None, p_api_key_agent_id = None,
      p_api_key_agent_id_allowlist = None\<rparr>"

text \<open>The reading part of \<open>_resolve_session\<close>: the session of the cookie and its principal.\<close>

definition session_of_cookie ::
  "auth_env \<Rightarrow> int \<Rightarrow> http_request \<Rightarrow> auth_tables \<Rightarrow> (session \<times> principal) option" where
  "session_of_cookie env now rq t =
     (case nonempty (dget (hr_cookies rq) (au_cookie_name (ev_settings env))) of
        None \<Rightarrow> None
      | Some raw \<Rightarrow>
        (case lookup_session (ev_prims env) now raw t of
           None \<Rightarrow> None
         | Some s \<Rightarrow>
           (case user_by_id t (se_user_id s) of
              None \<Rightarrow> None
            | Some u \<Rightarrow>
                if u_status u \<noteq> US_ACTIVE then None
                else (case primary_membership t (u_user_id u) of
                    None \<Rightarrow> None
                  | Some (org_id, r) \<Rightarrow> Some (s, session_principal s u org_id r)))))"

definition resolve_session :: "auth_env \<Rightarrow> int \<Rightarrow> http_request \<Rightarrow> principal option action" where
  "resolve_session env now rq =
     act_bind (act_query (session_of_cookie env now rq)) (\<lambda>found.
       case found of
         None \<Rightarrow> act_return None
       | Some (s, p) \<Rightarrow> act_seq (touch_session now (se_session_id s)) (act_return (Some p)))"

definition api_key_principal :: "api_key_row \<Rightarrow> principal" where
  "api_key_principal k =
     \<lparr>p_org_id = ak_org_id k, p_user_id = ''api-key:'' @ ak_api_key_id k, p_role = INTEGRATION_ENGINEER,
      p_auth_kind = KIND_API_KEY, p_roles = {INTEGRATION_ENGINEER}, p_session_id = None, p_email = None,
      p_totp_enabled = False, p_api_key_id = Some (ak_api_key_id k), p_api_key_agent_id = ak_agent_id k,
      p_api_key_agent_id_allowlist = ak_agent_id_allowlist k\<rparr>"

definition resolve_api_key :: "auth_env \<Rightarrow> int \<Rightarrow> http_request \<Rightarrow> principal option action" where
  "resolve_api_key env now rq =
     (case nonempty (bearer rq) of
        None \<Rightarrow> act_return None
      | Some raw \<Rightarrow>
          if \<not> (starts_with raw ''as_live_'' \<or> starts_with raw ''as_test_'') then act_return None
          else act_bind (act_query (lookup_api_key (ev_prims env) now raw)) (\<lambda>row.
            case row of
              None \<Rightarrow> act_return None
            | Some k \<Rightarrow> act_seq (touch_api_key now (ak_api_key_id k)) (act_return (Some (api_key_principal k)))))"

definition resolve_api_token_only :: "auth_settings \<Rightarrow> http_request \<Rightarrow> principal option" where
  "resolve_api_token_only s rq =
     (case nonempty (au_api_token s) of
        None \<Rightarrow> None
      | Some token \<Rightarrow> if bearer rq = Some token then Some (api_token_only_principal DEMO_ORG_ID) else None)"

definition principal_context :: "auth_env \<Rightarrow> int \<Rightarrow> http_request \<Rightarrow> principal action" where
  "principal_context env now rq =
     (case au_mode (ev_settings env) of
        MODE_OPEN \<Rightarrow> act_return (synthetic_dev_principal DEMO_ORG_ID)
      | MODE_API_TOKEN_ONLY \<Rightarrow>
          (case resolve_api_token_only (ev_settings env) rq of
             None \<Rightarrow> act_raise (app_err 401 UNAUTHORIZED)
           | Some p \<Rightarrow> act_return p)
      | MODE_ENTERPRISE \<Rightarrow>
          act_bind (resolve_session env now rq) (\<lambda>found.
            case found of
              Some p \<Rightarrow> act_return p
            | None \<Rightarrow> act_bind (resolve_api_key env now rq) (\<lambda>found.
                case found of
                  Some p \<Rightarrow> act_return p
                | None \<Rightarrow> act_raise (app_err 401 UNAUTHORIZED))))"

definition require_role :: "role set \<Rightarrow> principal \<Rightarrow> failure + principal" where
  "require_role roles p =
     (let allowed = (if roles = {} then ALL_ROLES else roles) in
      if is_open_synthetic p \<or> has_role p allowed then Inr p else Inl (app_err 403 FORBIDDEN))"

definition require_2fa_if_admin :: "principal \<Rightarrow> failure + principal" where
  "require_2fa_if_admin p =
     (if is_open_synthetic p \<or> is_api_key p then Inr p
      else if is_admin p \<and> \<not> p_totp_enabled p
        then Inl (AppError (app_error_of 403 FORBIDDEN None
          (Some [(''code'', ''totp_setup_required''), (''redirect'', ''/settings/2fa-setup?force=admin_role'')])))
      else Inr p)"

definition require_api_key_principal :: "principal \<Rightarrow> failure + principal" where
  "require_api_key_principal p =
     (if is_open_synthetic p \<or> is_api_key p then Inr p else Inl (app_err 403 FORBIDDEN))"

section \<open>The context of the other routes (\<open>__init__.py\<close>)\<close>

record auth_ctx =
  cx_org_id :: string
  cx_actor :: string

definition resolve_auth :: "auth_settings \<Rightarrow> http_request \<Rightarrow> failure + auth_ctx" where
  "resolve_auth s rq =
     (if (case nonempty (au_api_token s) of None \<Rightarrow> False | Some token \<Rightarrow> bearer rq = Some token)
        then Inr \<lparr>cx_org_id = DEMO_ORG_ID, cx_actor = ''api-token''\<rparr>
      else if au_mode s = MODE_OPEN then Inr \<lparr>cx_org_id = DEMO_ORG_ID, cx_actor = ''demo''\<rparr>
      else Inl (app_err 401 UNAUTHORIZED))"

definition actor_of :: "principal \<Rightarrow> string" where
  "actor_of p =
     (if is_open_synthetic p then ''demo''
      else if p_auth_kind p = KIND_API_TOKEN_ONLY then ''api-token''
      else if is_api_key p then ''api-key'' else ''session'')"

definition auth_context :: "auth_env \<Rightarrow> int \<Rightarrow> http_request \<Rightarrow> auth_ctx action" where
  "auth_context env now rq =
     act_bind
       (case au_mode (ev_settings env) of
          MODE_OPEN \<Rightarrow> act_return (synthetic_dev_principal DEMO_ORG_ID)
        | MODE_API_TOKEN_ONLY \<Rightarrow>
            (case nonempty (au_api_token (ev_settings env)) of
               None \<Rightarrow> act_raise (app_err 401 UNAUTHORIZED)
             | Some token \<Rightarrow>
                 if bearer rq = Some token then act_return (api_token_only_principal DEMO_ORG_ID)
                 else act_raise (app_err 401 UNAUTHORIZED))
        | MODE_ENTERPRISE \<Rightarrow> principal_context env now rq)
       (\<lambda>p. act_return \<lparr>cx_org_id = p_org_id p, cx_actor = actor_of p\<rparr>)"

end
