(* ===== verification/AuthRoutes.thy ===== *)
theory AuthRoutes
  imports AuthDep
begin

text \<open>
  The routes of the accounts package, \<open>auth/routes.py\<close>: sign-up, sign-in, sign-out, the session
  and its refresh, password reset and change, verification of the address, the second factor and
  its recovery codes, administration of users, sessions, roles and invites, and API keys.
  A route that needs a principal takes it as an argument; \<open>auth_serve\<close> resolves it first, as the
  dependencies do.  Parsing of bodies is not modelled: they are well typed and of admissible
  length.
\<close>

record sign_in_response =
  sr_user_id :: string
  sr_email :: string
  sr_role :: role
  sr_org_id :: string
  sr_csrf_token :: string
  sr_requires_totp :: bool

record session_response =
  ss_user_id :: string
  ss_email :: string
  ss_org_id :: string
  ss_role :: role
  ss_totp_enabled :: bool
  ss_auth_kind :: auth_kind
  ss_csrf_token :: "string option"
  ss_session_expires_at :: "int option"

record admin_user =
  du_user_id :: string
  du_email :: string
  du_name :: string
  du_status :: user_status
  du_totp_enabled :: bool
  du_role :: "role option"
  du_last_login_at :: "int option"
  du_created_at :: int

record api_key_view =
  kv_api_key_id :: string
  kv_display_name :: string
  kv_prefix :: string
  kv_agent_id :: "string option"
  kv_agent_id_allowlist :: "string list option"
  kv_created_at :: int
  kv_created_by :: string
  kv_expires_at :: "int option"
  kv_last_used_at :: "int option"
  kv_revoked_at :: "int option"

definition build_url :: "auth_settings \<Rightarrow> string \<Rightarrow> string" where
  "build_url s path = rev (dropWhile (\<lambda>c. c = CHR ''/'') (rev (au_public_base_url s))) @ path"

definition detail_error :: "int \<Rightarrow> error_code \<Rightarrow> string \<Rightarrow> string \<Rightarrow> failure" where
  "detail_error status code k v = AppError (app_error_of status code None (Some [(k, v)]))"

definition user_agent_of :: "http_request \<Rightarrow> string option" where
  "user_agent_of rq = dget (hr_headers rq) ''user-agent''"

definition hash_new_password :: "auth_env \<Rightarrow> string \<Rightarrow> (string \<times> string) action" where
  "hash_new_password env password =
     act_bind (act_draw env DrawSalt) (\<lambda>salt.
       act_return (hash_password (ev_prims env) (ev_hasher env) salt password))"

section \<open>Sign-up\<close>

definition sign_up ::
  "auth_env \<Rightarrow> int \<Rightarrow> http_request \<Rightarrow> string \<Rightarrow> string \<Rightarrow> string \<Rightarrow> (sign_in_response \<times> cookie) action" where
  "sign_up env now rq email password name =
     (if au_mode (ev_settings env) = MODE_ENTERPRISE
      then act_raise (app_err 403 ENTERPRISE_MODE_SIGNUP_DISABLED)
      else
        let ip = client_ip (hr_headers rq) None; ua = user_agent_of rq in
        act_seq (enforce_or_block now (rate_limit_config_of ''sign-up'') (hr_headers rq) (hr_client_host rq))
       (act_bind (act_query (\<lambda>t. user_by_email t email)) (\<lambda>taken.
        if taken \<noteq> None then act_raise (detail_error 409 VALIDATION_ERROR ''field'' ''email'')
        else
          act_bind (create_user env now email password name DEMO_ORG_ID ORG_OWNER None) (\<lambda>u.
          act_bind (create_session env now (u_user_id u) ip ua) (\<lambda>sess.
          act_seq (insert_audit env now SIGN_UP_OK (Some (u_user_id u)) (Some DEMO_ORG_ID) ip ua [])
         (act_bind (issue_token env now EmailVerification (u_user_id u)) (\<lambda>issued.
          act_seq (send_message env (with_sender_from (render_email_verify (u_email u)
             (build_url (ev_settings env) (''/verify-email?token='' @ it_raw issued)) (24 * 60)) (ev_settings env)))
         (act_return
            (\<lparr>sr_user_id = u_user_id u, sr_email = u_email u, sr_role = ORG_OWNER, sr_org_id = DEMO_ORG_ID,
              sr_csrf_token = is_csrf_token sess, sr_requires_totp = False\<rparr>,
             build_cookie (ev_settings env) (is_raw_token sess))))))))))"

section \<open>Sign-in\<close>

definition sign_in_fail ::
  "auth_env \<Rightarrow> int \<Rightarrow> http_request \<Rightarrow> string \<Rightarrow> string option \<Rightarrow> string \<Rightarrow> 'a action" where
  "sign_in_fail env now rq email user_id reason =
     act_seq (insert_audit env now SIGN_IN_FAIL user_id None
         (client_ip (hr_headers rq) (hr_client_host rq)) (user_agent_of rq)
         [(''reason'', JStr reason), (''email'', JStr email)])
       (act_raise (app_err 401 UNAUTHORIZED))"

definition totp_gate ::
  "auth_env \<Rightarrow> int \<Rightarrow> http_request \<Rightarrow> string \<Rightarrow> string option \<Rightarrow> user_row \<Rightarrow> unit action" where
  "totp_gate env now rq email totp_code u =
     (let audit = (\<lambda>event. insert_audit env now event (Some (u_user_id u)) None
            (client_ip (hr_headers rq) (hr_client_host rq)) (user_agent_of rq) []) in
      if \<not> u_totp_enabled u then act_return ()
      else act_bind (act_query (\<lambda>t. totp_of t (u_user_id u))) (\<lambda>tc.
        case tc of
          None \<Rightarrow> sign_in_fail env now rq email (Some (u_user_id u)) ''totp_missing_credential''
        | Some c \<Rightarrow>
          (case nonempty totp_code of
             None \<Rightarrow> act_seq (audit SIGN_IN_TOTP_REQUIRED)
                       (act_raise (detail_error 401 UNAUTHORIZED ''code'' ''totp_required''))
           | Some code \<Rightarrow>
               act_bind (act_lift (lift_py (totp_decrypt (ev_totp env) (tc_secret_encrypted c) (tc_active_kid c)))) (\<lambda>d.
                 if \<not> totp_verify (ev_totp env) (td_secret d) code now
                 then act_seq (audit SIGN_IN_TOTP_FAIL) (act_raise (app_err 401 UNAUTHORIZED))
                 else audit SIGN_IN_TOTP_OK))))"

text \<open>The path after every check has passed.\<close>

definition admit_sign_in ::
  "auth_env \<Rightarrow> int \<Rightarrow> http_request \<Rightarrow> string \<Rightarrow> user_row \<Rightarrow> bool \<Rightarrow> (sign_in_response \<times> cookie) action" where
  "admit_sign_in env now rq password u needs_rehash =
     (let ip = client_ip (hr_headers rq) (hr_client_host rq); ua = user_agent_of rq in
      act_seq (reset_failed_login now (u_user_id u))
     (act_seq (act_when needs_rehash
        (act_bind (hash_new_password env password) (\<lambda>h. update_password_hash now (u_user_id u) h)))
     (act_bind (act_query (\<lambda>t. primary_membership t (u_user_id u))) (\<lambda>m.
        case m of
          None \<Rightarrow> act_raise (app_err 403 FORBIDDEN)
        | Some (org_id, r) \<Rightarrow>
            act_bind (create_session env now (u_user_id u) ip ua) (\<lambda>sess.
            act_seq (insert_audit env now SIGN_IN_OK (Some (u_user_id u)) (Some org_id) ip ua [])
           (act_return
              (\<lparr>sr_user_id = u_user_id u, sr_email = u_email u, sr_role = r, sr_org_id = org_id,
                sr_csrf_token = is_csrf_token sess, sr_requires_totp = False\<rparr>,
               build_cookie (ev_settings env) (is_raw_token sess))))))))"

definition sign_in ::
  "auth_env \<Rightarrow> int \<Rightarrow> http_request \<Rightarrow> string \<Rightarrow> string \<Rightarrow> string option \<Rightarrow> (sign_in_response \<times> cookie) action" where
  "sign_in env now rq email password totp_code =
     (let ip = client_ip (hr_headers rq) (hr_client_host rq); ua = user_agent_of rq in
      act_seq (enforce_or_block now (rate_limit_config_of ''sign-in'') (hr_headers rq) ip)
     (act_bind (act_query (\<lambda>t. user_by_email t email)) (\<lambda>found.
        case found of
          None \<Rightarrow> sign_in_fail env now rq email None ''unknown_email''
        | Some u \<Rightarrow>
            if u_status u = US_DISABLED
            then sign_in_fail env now rq email (Some (u_user_id u)) ''disabled''
            else if lockout_is_active now u
            then act_seq (insert_audit env now SIGN_IN_LOCKED (Some (u_user_id u)) None ip ua
                  [(''locked_until'', case u_locked_until u of None \<Rightarrow> JNull | Some t \<Rightarrow> JInt t)])
                (act_raise (app_err 401 UNAUTHORIZED))
            else
              act_bind (act_lift (lift_py (verify_password (ev_prims env) (ev_hasher env) password
                  (u_password_hash u) (u_password_pepper_kid u)))) (\<lambda>v.
              if \<not> vr_ok v
              then act_seq (record_failed_login env now (u_user_id u) ip ua)
                     (sign_in_fail env now rq email (Some (u_user_id u)) ''password'')
              else
                act_seq (totp_gate env now rq email totp_code u)
                  (admit_sign_in env now rq password u (vr_needs_rehash v))))))"

section \<open>The session\<close>

definition sign_out :: "auth_env \<Rightarrow> int \<Rightarrow> principal \<Rightarrow> unit action" where
  "sign_out env now p =
     (case p_session_id p of
        Some sid \<Rightarrow>
          act_when (is_session p)
            (act_seq (revoke_session now sid)
              (insert_audit env now SIGN_OUT (Some (p_user_id p)) (Some (p_org_id p)) None None []))
      | None \<Rightarrow> act_return ())"

definition session_response_of :: "principal \<Rightarrow> string option \<Rightarrow> int option \<Rightarrow> session_response" where
  "session_response_of p csrf expires_at =
     \<lparr>ss_user_id = p_user_id p, ss_email = (case p_email p of None \<Rightarrow> [] | Some e \<Rightarrow> e),
      ss_org_id = p_org_id p, ss_role = p_role p, ss_totp_enabled = p_totp_enabled p,
      ss_auth_kind = p_auth_kind p, ss_csrf_token = csrf, ss_session_expires_at = expires_at\<rparr>"

definition get_session :: "principal \<Rightarrow> session_response action" where
  "get_session p =
     (case p_session_id p of
        Some sid \<Rightarrow>
          if is_session p
          then act_bind (act_query (\<lambda>t. session_by_id t sid)) (\<lambda>row.
            act_return (session_response_of p (map_option se_csrf_token row) (map_option se_expires_at row)))
          else act_return (session_response_of p None None)
      | None \<Rightarrow> act_return (session_response_of p None None))"

text \<open>The session of the caller, for the two routes that require one and its CSRF token.\<close>

definition csrf_checked :: "http_request \<Rightarrow> principal \<Rightarrow> string action" where
  "csrf_checked rq p =
     (case p_session_id p of
        None \<Rightarrow> act_raise (app_err 401 UNAUTHORIZED)
      | Some sid \<Rightarrow>
          if \<not> is_session p then act_raise (app_err 401 UNAUTHORIZED)
          else act_bind (act_query (\<lambda>t. session_by_id t sid)) (\<lambda>row.
            case row of
              None \<Rightarrow> act_raise (app_err 401 UNAUTHORIZED)
            | Some s \<Rightarrow> act_seq (act_lift (require_csrf rq (se_csrf_token s))) (act_return sid)))"

definition session_refresh ::
  "auth_env \<Rightarrow> int \<Rightarrow> http_request \<Rightarrow> principal \<Rightarrow> (session_response \<times> cookie) action" where
  "session_refresh env now rq p =
     act_bind (csrf_checked rq p) (\<lambda>sid.
     act_bind (rotate_token env now sid) (\<lambda>fresh.
     act_seq (insert_audit env now SESSION_REFRESH (Some (p_user_id p)) (Some (p_org_id p)) None None [])
       (act_return (session_response_of p (Some (snd fresh)) None, build_cookie (ev_settings env) (fst fresh)))))"

section \<open>Password reset and change\<close>

definition password_reset_request ::
  "auth_env \<Rightarrow> int \<Rightarrow> http_request \<Rightarrow> string \<Rightarrow> unit action" where
  "password_reset_request env now rq email =
     act_seq (enforce_or_block now (rate_limit_config_of ''password-reset'') (hr_headers rq) (hr_client_host rq))
    (act_bind (act_query (\<lambda>t. user_by_email t email)) (\<lambda>found.
       case found of
         None \<Rightarrow> act_return ()
       | Some u \<Rightarrow>
           act_bind (issue_token env now PasswordReset (u_user_id u)) (\<lambda>issued.
           act_seq (send_message env (with_sender_from (render_password_reset (u_email u)
              (build_url (ev_settings env) (''/reset-password?token='' @ it_raw issued)) 15) (ev_settings env)))
             (insert_audit env now PASSWORD_RESET_REQUEST (Some (u_user_id u)) None None None []))))"

definition password_reset_complete :: "auth_env \<Rightarrow> int \<Rightarrow> string \<Rightarrow> string \<Rightarrow> unit action" where
  "password_reset_complete env now token new_password =
     act_bind (consume_token env now PasswordReset token) (\<lambda>user.
       case user of
         None \<Rightarrow> act_raise (detail_error 400 VALIDATION_ERROR ''reason'' ''invalid_or_expired_token'')
       | Some user_id \<Rightarrow>
           act_bind (hash_new_password env new_password) (\<lambda>h.
           act_seq (update_password_hash now user_id h)
          (act_seq (revoke_all_for_user now user_id)
             (insert_audit env now PASSWORD_RESET_COMPLETE (Some user_id) None None None []))))"

definition password_change ::
  "auth_env \<Rightarrow> int \<Rightarrow> http_request \<Rightarrow> principal \<Rightarrow> string \<Rightarrow> string \<Rightarrow> unit action" where
  "password_change env now rq p current_password new_password =
     act_bind (csrf_checked rq p) (\<lambda>sid.
     act_bind (act_query (\<lambda>t. user_by_id t (p_user_id p))) (\<lambda>found.
       case found of
         None \<Rightarrow> act_raise (app_err 401 UNAUTHORIZED)
       | Some u \<Rightarrow>
           act_bind (act_lift (lift_py (verify_password (ev_prims env) (ev_hasher env) current_password
               (u_password_hash u) (u_password_pepper_kid u)))) (\<lambda>v.
           if \<not> vr_ok v then act_raise (app_err 401 UNAUTHORIZED)
           else
             act_bind (hash_new_password env new_password) (\<lambda>h.
             act_seq (update_password_hash now (u_user_id u) h)
            (act_seq (rotate_token env now sid)
               (insert_audit env now PASSWORD_CHANGE (Some (u_user_id u)) None None None []))))))"

section \<open>Verification of the address\<close>

definition email_verify_request :: "auth_env \<Rightarrow> int \<Rightarrow> principal \<Rightarrow> unit action" where
  "email_verify_request env now p =
     (if \<not> is_session p then act_raise (app_err 401 UNAUTHORIZED)
      else
        act_bind (issue_token env now EmailVerification (p_user_id p)) (\<lambda>issued.
        act_seq (send_message env (with_sender_from
           (render_email_verify (case p_email p of None \<Rightarrow> [] | Some e \<Rightarrow> e)
             (build_url (ev_settings env) (''/verify-email?token='' @ it_raw issued)) (24 * 60)) (ev_settings env)))
          (insert_audit env now EMAIL_VERIFY_REQUEST (Some (p_user_id p)) None None None [])))"

definition email_verify_complete :: "auth_env \<Rightarrow> int \<Rightarrow> string \<Rightarrow> unit action" where
  "email_verify_complete env now token =
     act_bind (consume_token env now EmailVerification token) (\<lambda>user.
       case user of
         None \<Rightarrow> act_raise (detail_error 400 VALIDATION_ERROR ''reason'' ''invalid_or_expired_token'')
       | Some user_id \<Rightarrow>
           act_seq (set_email_verified now user_id)
             (insert_audit env now EMAIL_VERIFY_COMPLETE (Some user_id) None None None []))"

section \<open>Second factor\<close>

text \<open>Ten codes and their hashes.\<close>

fun draw_codes :: "auth_env \<Rightarrow> nat \<Rightarrow> string list action" where
  "draw_codes env 0 = act_return []"
| "draw_codes env (Suc n) =
     act_bind (act_draw env (DrawToken 32)) (\<lambda>c.
       act_bind (draw_codes env n) (\<lambda>cs. act_return (c # cs)))"

definition generate_recovery_codes :: "auth_env \<Rightarrow> (string list \<times> string list) action" where
  "generate_recovery_codes env =
     act_bind (draw_codes env RECOVERY_CODE_COUNT) (\<lambda>plain.
       act_return (plain, map (hash_recovery_code (ev_prims env)) plain))"

definition totp_setup :: "auth_env \<Rightarrow> int \<Rightarrow> principal \<Rightarrow> (string \<times> string) action" where
  "totp_setup env now p =
     (if \<not> is_session p then act_raise (app_err 401 UNAUTHORIZED)
      else
        act_bind (act_draw env DrawSecret) (\<lambda>secret.
        act_bind (act_draw env DrawSalt) (\<lambda>iv.
        act_bind (generate_recovery_codes env) (\<lambda>codes.
        act_seq (act_sql (InsertTotp (p_user_id p) (totp_encrypt (ev_totp env) iv secret)
            (totp_active_kid (ev_totp env)) (snd codes) now))
       (act_seq (insert_audit env now TOTP_SETUP (Some (p_user_id p)) None None None [])
         (act_return
            (provisioning_uri (ev_totp env) secret
               (case nonempty (p_email p) of None \<Rightarrow> p_user_id p | Some e \<Rightarrow> e), secret)))))))"

definition totp_confirm :: "auth_env \<Rightarrow> int \<Rightarrow> principal \<Rightarrow> string \<Rightarrow> string list action" where
  "totp_confirm env now p code =
     (if \<not> is_session p then act_raise (app_err 401 UNAUTHORIZED)
      else act_bind (act_query (\<lambda>t. totp_of t (p_user_id p))) (\<lambda>tc.
        case tc of
          None \<Rightarrow> act_raise (detail_error 400 VALIDATION_ERROR ''reason'' ''no_pending_setup'')
        | Some c \<Rightarrow>
            act_bind (act_lift (lift_py (totp_decrypt (ev_totp env) (tc_secret_encrypted c) (tc_active_kid c)))) (\<lambda>d.
            if \<not> totp_verify (ev_totp env) (td_secret d) code now
            then act_raise (detail_error 400 VALIDATION_ERROR ''reason'' ''totp_code_mismatch'')
            else
              act_bind (generate_recovery_codes env) (\<lambda>codes.
              act_seq (act_sql (SetRecoveryCodes (snd codes) now (p_user_id p)))
             (act_seq (set_totp_enabled now (p_user_id p) True)
             (act_seq (insert_audit env now TOTP_CONFIRM (Some (p_user_id p)) None None None [])
                (act_return (fst codes))))))))"

definition totp_disable :: "auth_env \<Rightarrow> int \<Rightarrow> principal \<Rightarrow> string \<Rightarrow> string \<Rightarrow> unit action" where
  "totp_disable env now p password code =
     (if \<not> is_session p then act_raise (app_err 401 UNAUTHORIZED)
      else act_bind (act_query (\<lambda>t. user_by_id t (p_user_id p))) (\<lambda>found.
        case found of
          None \<Rightarrow> act_raise (app_err 401 UNAUTHORIZED)
        | Some u \<Rightarrow>
            act_bind (act_lift (lift_py (verify_password (ev_prims env) (ev_hasher env) password
                (u_password_hash u) (u_password_pepper_kid u)))) (\<lambda>v.
            if \<not> vr_ok v then act_raise (app_err 401 UNAUTHORIZED)
            else
              act_bind (act_query (\<lambda>t. totp_of t (p_user_id p))) (\<lambda>tc.
              act_seq (case tc of
                  None \<Rightarrow> act_return ()
                | Some c \<Rightarrow>
                    act_bind (act_lift (lift_py (totp_decrypt (ev_totp env) (tc_secret_encrypted c) (tc_active_kid c)))) (\<lambda>d.
                      if \<not> totp_verify (ev_totp env) (td_secret d) code now
                      then act_raise (app_err 401 UNAUTHORIZED) else act_return ()))
             (act_seq (act_sql (DeleteTotp (p_user_id p)))
             (act_seq (set_totp_enabled now (p_user_id p) False)
                (insert_audit env now TOTP_DISABLE (Some (p_user_id p)) None None None [])))))))"

definition totp_recovery ::
  "auth_env \<Rightarrow> int \<Rightarrow> http_request \<Rightarrow> string \<Rightarrow> string \<Rightarrow> (sign_in_response \<times> cookie) action" where
  "totp_recovery env now rq email recovery_code =
     act_bind (act_query (\<lambda>t. user_by_email t email)) (\<lambda>found.
       case found of
         None \<Rightarrow> act_raise (app_err 401 UNAUTHORIZED)
       | Some u \<Rightarrow>
           if \<not> u_totp_enabled u then act_raise (app_err 401 UNAUTHORIZED)
           else act_bind (act_query (\<lambda>t. totp_of t (u_user_id u))) (\<lambda>tc.
             case tc of
               None \<Rightarrow> act_raise (app_err 401 UNAUTHORIZED)
             | Some c \<Rightarrow>
                 let r = consume_recovery_code (ev_prims env) recovery_code (tc_recovery_codes_hash c) in
                 if \<not> fst r then act_raise (app_err 401 UNAUTHORIZED)
                 else
                   act_seq (act_sql (SetRecoveryCodes (snd r) now (u_user_id u)))
                  (act_bind (act_query (\<lambda>t. primary_membership t (u_user_id u))) (\<lambda>m.
                     case m of
                       None \<Rightarrow> act_raise (app_err 403 FORBIDDEN)
                     | Some (org_id, ro) \<Rightarrow>
                         act_bind (create_session env now (u_user_id u) (client_ip (hr_headers rq) None)
                             (user_agent_of rq)) (\<lambda>sess.
                         act_seq (insert_audit env now SIGN_IN_RECOVERY_OK (Some (u_user_id u)) (Some org_id) None None [])
                        (act_return
                           (\<lparr>sr_user_id = u_user_id u, sr_email = u_email u, sr_role = ro, sr_org_id = org_id,
                             sr_csrf_token = is_csrf_token sess, sr_requires_totp = False\<rparr>,
                            build_cookie (ev_settings env) (is_raw_token sess))))))))"

section \<open>Administration\<close>

definition admin_user_of :: "auth_tables \<Rightarrow> principal \<Rightarrow> user_row \<Rightarrow> admin_user" where
  "admin_user_of t p u =
     \<lparr>du_user_id = u_user_id u, du_email = u_email u, du_name = u_name u, du_status = u_status u,
      du_totp_enabled = u_totp_enabled u, du_role = role_of t (u_user_id u) (p_org_id p),
      du_last_login_at = u_last_login_at u, du_created_at = u_created_at u\<rparr>"

definition admin_list_users :: "principal \<Rightarrow> admin_user list action" where
  "admin_list_users p = act_query (\<lambda>t. map (admin_user_of t p) (dvalues (t_users t)))"

definition admin_list_sessions :: "principal \<Rightarrow> string \<Rightarrow> session list action" where
  "admin_list_sessions p user_id = act_query (\<lambda>t. list_sessions_for_user t user_id)"

definition admin_revoke_session :: "auth_env \<Rightarrow> int \<Rightarrow> principal \<Rightarrow> string \<Rightarrow> unit action" where
  "admin_revoke_session env now p session_id =
     act_seq (revoke_session now session_id)
       (insert_audit env now SESSION_REVOKE (Some (p_user_id p)) (Some (p_org_id p)) None None
         [(''target_session_id'', JStr session_id)])"

fun role_text :: "role \<Rightarrow> string" where
  "role_text ORG_OWNER = ''org_owner''"
| "role_text SECURITY_ADMIN = ''security_admin''"
| "role_text INTEGRATION_ENGINEER = ''integration_engineer''"
| "role_text COMPLIANCE_AUDITOR = ''compliance_auditor''"
| "role_text READONLY_INVESTIGATOR = ''readonly_investigator''"

definition admin_change_role :: "auth_env \<Rightarrow> int \<Rightarrow> principal \<Rightarrow> string \<Rightarrow> role \<Rightarrow> unit action" where
  "admin_change_role env now p user_id r =
     (if r \<notin> ALL_ROLES then act_raise (detail_error 400 VALIDATION_ERROR ''reason'' ''invalid_role'')
      else act_seq (change_role user_id (p_org_id p) r)
        (insert_audit env now ROLE_CHANGE (Some (p_user_id p)) (Some (p_org_id p)) None None
          [(''target_user_id'', JStr user_id), (''new_role'', JStr (role_text r))]))"

definition admin_invite :: "auth_env \<Rightarrow> int \<Rightarrow> principal \<Rightarrow> string \<Rightarrow> role \<Rightarrow> (string \<times> int) action" where
  "admin_invite env now p email r =
     act_bind (act_draw env DrawUuid) (\<lambda>invite_id.
     act_bind (act_draw env (DrawToken 48)) (\<lambda>raw.
     let expires_at = now + INVITE_TTL_MS in
     act_seq (act_sql (InsertInvite invite_id (p_org_id p) email r (p_user_id p) expires_at now
         (sha256_hex (ev_prims env) raw)))
    (act_seq (send_message env (with_sender_from (render_invite email
         (build_url (ev_settings env) (''/accept-invite?token='' @ raw)) (p_org_id p) r (7 * 24 * 60)) (ev_settings env)))
    (act_seq (insert_audit env now INVITE_SEND (Some (p_user_id p)) (Some (p_org_id p)) None None
         [(''target_email'', JStr email), (''role'', JStr (role_text r))])
       (act_return (invite_id, expires_at))))))"

definition accept_invite_fail :: "auth_env \<Rightarrow> int \<Rightarrow> http_request \<Rightarrow> string option \<Rightarrow> string \<Rightarrow> 'a action" where
  "accept_invite_fail env now rq invite_id reason =
     act_seq (insert_audit env now INVITE_ACCEPT_FAIL None None
         (client_ip (hr_headers rq) (hr_client_host rq)) (user_agent_of rq)
         [(''reason'', JStr reason), (''invite_id'', jopt invite_id)])
       (act_raise (app_err 401 UNAUTHORIZED))"

definition accept_invite ::
  "auth_env \<Rightarrow> int \<Rightarrow> http_request \<Rightarrow> string \<Rightarrow> string \<Rightarrow> string \<Rightarrow> (sign_in_response \<times> cookie) action" where
  "accept_invite env now rq token password name =
     (let ip = client_ip (hr_headers rq) (hr_client_host rq); ua = user_agent_of rq in
      act_seq (enforce_or_block now (rate_limit_config_of ''invites-accept'') (hr_headers rq) ip)
     (act_bind (act_query (\<lambda>t. invite_by_token t (sha256_hex (ev_prims env) token))) (\<lambda>row.
        case row of
          None \<Rightarrow> accept_invite_fail env now rq None ''unknown_token''
        | Some i \<Rightarrow>
            if iv_consumed_at i \<noteq> None
            then accept_invite_fail env now rq (Some (iv_invite_id i)) ''already_consumed''
            else if iv_expires_at i < now
            then accept_invite_fail env now rq (Some (iv_invite_id i)) ''expired''
            else
              act_bind (act_query (\<lambda>t. user_by_email t (iv_email i))) (\<lambda>existing.
              if existing \<noteq> None
              then accept_invite_fail env now rq (Some (iv_invite_id i)) ''email_collision''
              else
                act_bind (create_user env now (iv_email i) password name (iv_org_id i) (iv_role i)
                    (Some (iv_invited_by i))) (\<lambda>u.
                act_seq (set_email_verified now (u_user_id u))
               (act_seq (act_sql (ConsumeInvite now (iv_invite_id i)))
               (act_seq (insert_audit env now INVITE_ACCEPT_OK (Some (u_user_id u)) (Some (iv_org_id i)) ip ua
                   [(''invite_id'', JStr (iv_invite_id i)), (''role'', JStr (role_text (iv_role i)))])
               (act_bind (create_session env now (u_user_id u) ip ua) (\<lambda>sess.
                act_return
                  (\<lparr>sr_user_id = u_user_id u, sr_email = u_email u, sr_role = iv_role i, sr_org_id = iv_org_id i,
                    sr_csrf_token = is_csrf_token sess, sr_requires_totp = False\<rparr>,
                   build_cookie (ev_settings env) (is_raw_token sess)))))))))))"

section \<open>API keys\<close>

definition view_of :: "api_key_row \<Rightarrow> api_key_view" where
  "view_of k =
     \<lparr>kv_api_key_id = ak_api_key_id k, kv_display_name = ak_display_name k,
      kv_prefix = key_prefix_text (ak_prefix k), kv_agent_id = ak_agent_id k,
      kv_agent_id_allowlist = (if ak_agent_id_allowlist k = Some [] then None else ak_agent_id_allowlist k),
      kv_created_at = ak_created_at k, kv_created_by = ak_created_by k, kv_expires_at = ak_expires_at k,
      kv_last_used_at = ak_last_used_at k, kv_revoked_at = ak_revoked_at k\<rparr>"

definition assert_api_key_agent_scope ::
  "principal \<Rightarrow> string option \<Rightarrow> string list option \<Rightarrow> unit action" where
  "assert_api_key_agent_scope p agent_id allowlist =
     (let requested = (case nonempty agent_id of None \<Rightarrow> {} | Some a \<Rightarrow> {a})
                    \<union> (case allowlist of None \<Rightarrow> {} | Some xs \<Rightarrow> set xs) in
      (\<lambda>w. if requested = {} then (Inr (), w)
           else if \<not> requested \<subseteq> agents_in_org (w_storage w) (p_org_id p)
           then (Inl (detail_error 400 VALIDATION_ERROR ''reason'' ''agent_outside_org''), w)
           else (Inr (), w)))"

definition issue_api_key_route ::
  "auth_env \<Rightarrow> int \<Rightarrow> principal \<Rightarrow> string \<Rightarrow> key_prefix \<Rightarrow> string option \<Rightarrow> string list option \<Rightarrow> int option
    \<Rightarrow> (string \<times> api_key_view) action" where
  "issue_api_key_route env now p display_name pre agent_id allowlist ttl_seconds =
     act_seq (assert_api_key_agent_scope p agent_id allowlist)
    (act_bind (issue_api_key env now (p_org_id p) (p_user_id p) pre display_name agent_id
        (if allowlist = Some [] then None else allowlist)
        (case ttl_seconds of None \<Rightarrow> None | Some s \<Rightarrow> if s = 0 then None else Some (now + s * 1000))) (\<lambda>issued.
     act_seq (insert_audit env now API_KEY_ISSUE (Some (p_user_id p)) (Some (p_org_id p)) None None
         [(''api_key_id'', JStr (ak_api_key_id (snd issued))), (''prefix'', JStr (key_prefix_text pre))])
       (act_return (fst issued, view_of (snd issued)))))"

definition list_api_keys :: "principal \<Rightarrow> api_key_view list action" where
  "list_api_keys p = act_query (\<lambda>t. map view_of (list_api_keys_for_org t (p_org_id p)))"

definition revoke_api_key_route :: "auth_env \<Rightarrow> int \<Rightarrow> principal \<Rightarrow> string \<Rightarrow> unit action" where
  "revoke_api_key_route env now p api_key_id =
     act_bind (act_query (\<lambda>t. list_api_keys_for_org t (p_org_id p))) (\<lambda>scoped.
       if \<not> list_ex (\<lambda>k. ak_api_key_id k = api_key_id) scoped
       then act_raise (app_err_msg 404 NOT_FOUND ''API key not found.'')
       else act_seq (revoke_api_key now api_key_id)
         (insert_audit env now API_KEY_REVOKE (Some (p_user_id p)) (Some (p_org_id p)) None None
           [(''api_key_id'', JStr api_key_id)]))"

section \<open>The router\<close>

datatype auth_request =
    SignUp string string string
  | SignIn string string "string option"
  | SignOut
  | GetSession
  | RefreshSession
  | ResetRequest string
  | ResetComplete string string
  | ChangePassword string string
  | VerifyEmailRequest
  | VerifyEmailComplete string
  | SetupTotp
  | ConfirmTotp string
  | DisableTotp string string
  | RecoverTotp string string
  | ListUsers
  | ListSessions string
  | AdminRevokeSession string
  | ChangeRole string role
  | Invite string role
  | AcceptInvite string string string
  | IssueKey string key_prefix "string option" "string list option" "int option"
  | ListKeys
  | RevokeKey string

datatype auth_response =
    OkResponse
  | SignedIn sign_in_response cookie
  | SessionView session_response "cookie option"
  | TotpSetupView string string
  | RecoveryCodes "string list"
  | UserList "admin_user list"
  | SessionList "session list"
  | InviteView string int
  | KeyIssued string api_key_view
  | KeyList "api_key_view list"

definition respond_ok :: "unit action \<Rightarrow> auth_response action" where
  "respond_ok m = act_seq m (act_return OkResponse)"

definition respond_signed_in :: "(sign_in_response \<times> cookie) action \<Rightarrow> auth_response action" where
  "respond_signed_in m = act_bind m (\<lambda>r. act_return (SignedIn (fst r) (snd r)))"

definition with_principal ::
  "auth_env \<Rightarrow> int \<Rightarrow> http_request \<Rightarrow> (principal \<Rightarrow> 'a action) \<Rightarrow> 'a action" where
  "with_principal env now rq f = act_bind (principal_context env now rq) f"

definition with_role ::
  "auth_env \<Rightarrow> int \<Rightarrow> http_request \<Rightarrow> role set \<Rightarrow> (principal \<Rightarrow> 'a action) \<Rightarrow> 'a action" where
  "with_role env now rq roles f =
     with_principal env now rq (\<lambda>p. act_bind (act_lift (require_role roles p)) f)"

definition admin_roles :: "role set" where "admin_roles = {ORG_OWNER, SECURITY_ADMIN}"

fun auth_serve :: "auth_env \<Rightarrow> int \<Rightarrow> http_request \<Rightarrow> auth_request \<Rightarrow> auth_response action" where
  "auth_serve env now rq (SignUp e pw name) = respond_signed_in (sign_up env now rq e pw name)"
| "auth_serve env now rq (SignIn e pw code) = respond_signed_in (sign_in env now rq e pw code)"
| "auth_serve env now rq SignOut = with_principal env now rq (\<lambda>p. respond_ok (sign_out env now p))"
| "auth_serve env now rq GetSession =
     with_principal env now rq (\<lambda>p. act_bind (get_session p) (\<lambda>r. act_return (SessionView r None)))"
| "auth_serve env now rq RefreshSession =
     with_principal env now rq (\<lambda>p. act_bind (session_refresh env now rq p)
       (\<lambda>r. act_return (SessionView (fst r) (Some (snd r)))))"
| "auth_serve env now rq (ResetRequest e) = respond_ok (password_reset_request env now rq e)"
| "auth_serve env now rq (ResetComplete tok pw) = respond_ok (password_reset_complete env now tok pw)"
| "auth_serve env now rq (ChangePassword old new) =
     with_principal env now rq (\<lambda>p. respond_ok (password_change env now rq p old new))"
| "auth_serve env now rq VerifyEmailRequest =
     with_principal env now rq (\<lambda>p. respond_ok (email_verify_request env now p))"
| "auth_serve env now rq (VerifyEmailComplete tok) = respond_ok (email_verify_complete env now tok)"
| "auth_serve env now rq SetupTotp =
     with_principal env now rq (\<lambda>p. act_bind (totp_setup env now p) (\<lambda>r. act_return (TotpSetupView (fst r) (snd r))))"
| "auth_serve env now rq (ConfirmTotp code) =
     with_principal env now rq (\<lambda>p. act_bind (totp_confirm env now p code) (\<lambda>cs. act_return (RecoveryCodes cs)))"
| "auth_serve env now rq (DisableTotp pw code) =
     with_principal env now rq (\<lambda>p. respond_ok (totp_disable env now p pw code))"
| "auth_serve env now rq (RecoverTotp e code) = respond_signed_in (totp_recovery env now rq e code)"
| "auth_serve env now rq ListUsers =
     with_role env now rq admin_roles (\<lambda>p. act_bind (admin_list_users p) (\<lambda>us. act_return (UserList us)))"
| "auth_serve env now rq (ListSessions u) =
     with_role env now rq admin_roles (\<lambda>p. act_bind (admin_list_sessions p u) (\<lambda>ss. act_return (SessionList ss)))"
| "auth_serve env now rq (AdminRevokeSession sid) =
     with_role env now rq admin_roles (\<lambda>p. respond_ok (admin_revoke_session env now p sid))"
| "auth_serve env now rq (ChangeRole u r) =
     with_role env now rq {ORG_OWNER} (\<lambda>p. respond_ok (admin_change_role env now p u r))"
| "auth_serve env now rq (Invite e r) =
     with_role env now rq {ORG_OWNER} (\<lambda>p. act_bind (admin_invite env now p e r) (\<lambda>i. act_return (InviteView (fst i) (snd i))))"
| "auth_serve env now rq (AcceptInvite tok pw name) = respond_signed_in (accept_invite env now rq tok pw name)"
| "auth_serve env now rq (IssueKey name pre agent allow ttl) =
     with_role env now rq admin_roles (\<lambda>p. act_bind (issue_api_key_route env now p name pre agent allow ttl)
       (\<lambda>k. act_return (KeyIssued (fst k) (snd k))))"
| "auth_serve env now rq ListKeys =
     with_role env now rq admin_roles (\<lambda>p. act_bind (list_api_keys p) (\<lambda>ks. act_return (KeyList ks)))"
| "auth_serve env now rq (RevokeKey i) =
     with_role env now rq admin_roles (\<lambda>p. respond_ok (revoke_api_key_route env now p i))"

end
