(* ===== verification/AuthRuns.thy ===== *)
theory AuthRuns
  imports AuthRoutes
begin

text \<open>
  Runs of the application over its accounts: requests to the accounts routes, requests to any
  other route (which resolve their context and then do something to the storage), the
  \<open>seed-admin\<close> command (\<open>auth/cli.py\<close>) and background work on the storage, in any order.

  The locale \<open>auth_relation\<close> reduces a fact about every route to the same fact about the few
  actions that draw a token and store it, and about the remaining statements.
\<close>

section \<open>Steps and runs\<close>

definition seed_admin :: "auth_env \<Rightarrow> int \<Rightarrow> string \<Rightarrow> string \<Rightarrow> string \<Rightarrow> string \<Rightarrow> unit action" where
  "seed_admin env now email org name password =
     act_seq (\<lambda>w. (Inr (), w\<lparr>w_storage := (w_storage w)\<lparr>st_db :=
         fst (tx_commit [InsertOrganization org org now now] (st_db (w_storage w)))\<rparr>\<rparr>))
    (act_bind (act_query (\<lambda>t. user_by_email t email)) (\<lambda>existing.
       if existing \<noteq> None then act_return ()
       else act_bind (create_user env now email password name org ORG_OWNER None) (\<lambda>_. act_return ())))"

datatype app_step =
    AuthStep http_request auth_request
  | SeedStep string string string string
  | RouteStep http_request "auth_ctx \<Rightarrow> storage \<Rightarrow> storage"
  | BackgroundStep "storage \<Rightarrow> storage"

definition act_storage :: "(storage \<Rightarrow> storage) \<Rightarrow> unit action" where
  "act_storage f = (\<lambda>w. (Inr (), w\<lparr>w_storage := f (w_storage w)\<rparr>))"

fun app_action :: "auth_env \<Rightarrow> int \<Rightarrow> app_step \<Rightarrow> unit action" where
  "app_action env now (AuthStep rq r) = act_bind (auth_serve env now rq r) (\<lambda>_. act_return ())"
| "app_action env now (SeedStep email org name pw) = seed_admin env now email org name pw"
| "app_action env now (RouteStep rq f) =
     act_bind (auth_context env now rq) (\<lambda>ctx. act_storage (f ctx))"
| "app_action env now (BackgroundStep f) = act_storage f"

definition app_step :: "auth_env \<Rightarrow> int \<times> app_step \<Rightarrow> world \<Rightarrow> world" where
  "app_step env s w = snd (app_action env (fst s) (snd s) w)"

fun app_run :: "auth_env \<Rightarrow> (int \<times> app_step) list \<Rightarrow> world \<Rightarrow> world" where
  "app_run env [] w = w"
| "app_run env (s # ss) w = app_run env ss (app_step env s w)"

lemma app_run_append [simp]: "app_run env (ss @ ts) w = app_run env ts (app_run env ss w)"
  by (induction ss arbitrary: w) simp_all

section \<open>Facts about all routes from facts about the statements\<close>

text \<open>Statements that neither store something that was just drawn nor count sign-ins.\<close>

fun neutral :: "auth_stmt \<Rightarrow> bool" where
  "neutral (InsertUser _ _ _ _ _ _) = False"
| "neutral (InsertMembership _) = False"
| "neutral (InsertSession _) = False"
| "neutral (InsertResetToken _ _ _ _) = False"
| "neutral (InsertVerifyToken _ _ _ _) = False"
| "neutral (InsertInvite _ _ _ _ _ _ _ _) = False"
| "neutral (InsertApiKey _ _ _ _ _ _ _ _ _ _) = False"
| "neutral (RotateSession _ _ _ _) = False"
| "neutral (CountFailedLogin _ _ _ _) = False"
| "neutral (ResetFailedLogin _ _) = False"
| "neutral (SetRole _ _ _) = False"
| "neutral (ConsumeInvite _ _) = False"
| "neutral _ = True"

locale auth_relation = world_relation R for R :: "world \<Rightarrow> world \<Rightarrow> bool" +
  fixes env :: auth_env
  assumes k_draw: "keeps R (act_draw env d)"
    and k_storage: "R w (w\<lparr>w_storage := st\<rparr>)"
    and k_outbox: "R w (w\<lparr>w_outbox := ms\<rparr>)"
    and k_sql: "neutral q \<Longrightarrow> keeps R (act_sql q)"
    and k_create_session: "keeps R (create_session env now uid ip ua)"
    and k_rotate: "keeps R (rotate_token env now sid)"
    and k_issue_token: "keeps R (issue_token env now kind uid)"
    and k_issue_key: "keeps R (issue_api_key env now org by_user pre name agent allow expires)"
begin

lemma keeps_storage: "keeps R (act_storage f)"
  by (simp add: keeps_def act_storage_def k_storage)

lemma keeps_limit: "keeps R (enforce_or_block now cfg hs ip)"
  by (simp add: keeps_def enforce_or_block_def Let_def k_storage)

lemma keeps_send: "keeps R (send_message env m)"
  by (simp add: keeps_def send_message_def k_outbox related_refl split: option.splits)

lemma keeps_scope: "keeps R (assert_api_key_agent_scope p a l)"
  by (simp add: keeps_def assert_api_key_agent_scope_def Let_def related_refl)

lemma keeps_audit: "keeps R (insert_audit env now ev u org ip ua d)"
  by (simp add: insert_audit_def keeps_intros k_draw k_sql)

lemma keeps_hash_new_password: "keeps R (hash_new_password env pw)"
  by (simp add: hash_new_password_def keeps_intros k_draw)

lemma keeps_consume: "keeps R (consume_token env now kind raw)"
  unfolding consume_token_def Let_def
  by (intro keeps_intros k_sql) (cases kind; simp)

lemma keeps_codes: "keeps R (draw_codes env n)"
  by (induction n; simp only: draw_codes.simps; intro keeps_intros k_draw; assumption)

lemma keeps_generate: "keeps R (generate_recovery_codes env)"
  by (simp add: generate_recovery_codes_def keeps_intros keeps_codes)

lemmas keeps_blocks = keeps_limit keeps_send keeps_scope keeps_audit keeps_hash_new_password
  keeps_consume keeps_generate k_create_session k_rotate k_issue_token k_issue_key k_draw

lemma keeps_principal_context: "keeps R (principal_context env now rq)"
  unfolding principal_context_def resolve_session_def resolve_api_key_def touch_session_def touch_api_key_def
  by (cases "au_mode (ev_settings env)"; simp; intro keeps_intros k_sql; simp)

lemma keeps_auth_context: "keeps R (auth_context env now rq)"
  unfolding auth_context_def
  by (cases "au_mode (ev_settings env)"; simp only: auth_mode.case; intro keeps_intros keeps_principal_context)

lemma keeps_with_principal: "(\<And>p. keeps R (f p)) \<Longrightarrow> keeps R (with_principal env now rq f)"
  by (simp add: with_principal_def keeps_bind keeps_principal_context)

lemma keeps_with_role: "(\<And>p. keeps R (f p)) \<Longrightarrow> keeps R (with_role env now rq roles f)"
  unfolding with_role_def by (intro keeps_with_principal keeps_intros)

lemma keeps_csrf_checked: "keeps R (csrf_checked rq p)"
  unfolding csrf_checked_def by (intro keeps_intros)

lemma keeps_respond: "keeps R m \<Longrightarrow> keeps R (respond_ok m)" "keeps R m' \<Longrightarrow> keeps R (respond_signed_in m')"
  unfolding respond_ok_def respond_signed_in_def by (intro keeps_intros; assumption)+

text \<open>The routes that create no user, change no role, invite nobody and neither count nor admit a sign-in.\<close>

fun plain_request :: "auth_request \<Rightarrow> bool" where
  "plain_request (SignUp _ _ _) = False"
| "plain_request (SignIn _ _ _) = False"
| "plain_request (AcceptInvite _ _ _) = False"
| "plain_request (ChangeRole _ _) = False"
| "plain_request (Invite _ _) = False"
| "plain_request _ = True"

lemma keeps_plain_request:
  assumes "plain_request r"
  shows "keeps R (auth_serve env now rq r)"
  using assms
  by (cases r; simp only: plain_request.simps simp_thms auth_serve.simps sign_out_def get_session_def session_refresh_def
       password_reset_request_def password_reset_complete_def password_change_def email_verify_request_def
       email_verify_complete_def totp_setup_def totp_confirm_def totp_disable_def totp_recovery_def
       admin_list_users_def admin_list_sessions_def admin_revoke_session_def issue_api_key_route_def
       list_api_keys_def revoke_api_key_route_def update_password_hash_def set_email_verified_def
       set_totp_enabled_def revoke_session_def revoke_all_for_user_def revoke_api_key_def Let_def;
     intro keeps_respond keeps_with_principal keeps_with_role keeps_intros keeps_blocks keeps_csrf_checked k_sql;
     simp)

lemma keeps_sign_in_fail: "keeps R (sign_in_fail env now rq e u reason)"
  unfolding sign_in_fail_def by (intro keeps_intros keeps_audit)

lemma keeps_totp_gate: "keeps R (totp_gate env now rq e code u)"
  unfolding totp_gate_def Let_def by (intro keeps_intros keeps_audit keeps_sign_in_fail)

lemma keeps_accept_invite_fail: "keeps R (accept_invite_fail env now rq i reason)"
  unfolding accept_invite_fail_def by (intro keeps_intros keeps_audit)

end

text \<open>With the counting and the admission of sign-ins.\<close>

locale auth_relation_counts = auth_relation R env for R :: "world \<Rightarrow> world \<Rightarrow> bool" and env +
  assumes k_count: "keeps R (act_sql (CountFailedLogin n until now uid))"
    and k_reset: "keeps R (act_sql (ResetFailedLogin now uid))"
begin

lemma keeps_record_failed_login: "keeps R (record_failed_login env now uid ip ua)"
  unfolding record_failed_login_def Let_def by (intro keeps_intros keeps_audit k_count)

lemma keeps_admit_sign_in: "keeps R (admit_sign_in env now rq pw u b)"
  unfolding admit_sign_in_def Let_def reset_failed_login_def update_password_hash_def
  by (intro keeps_intros keeps_blocks k_reset k_sql; simp)

lemma keeps_sign_in: "keeps R (sign_in env now rq e pw code)"
  unfolding sign_in_def Let_def
  by (intro keeps_intros keeps_blocks keeps_sign_in_fail keeps_totp_gate keeps_admit_sign_in keeps_record_failed_login)

end

text \<open>With invitations, the creation of users and the changes of their roles: all but signing in.\<close>

locale auth_relation_users = auth_relation R env for R :: "world \<Rightarrow> world \<Rightarrow> bool" and env +
  assumes k_invite: "keeps R (admin_invite env now p email r)"
    and k_create_user: "keeps R (create_user env now email pw name org ro by_user)"
    and k_set_role: "keeps R (act_sql (SetRole ro uid org))"
    and k_consume_invite: "keeps R (act_sql (ConsumeInvite now i))"
begin

lemma keeps_sign_up: "keeps R (sign_up env now rq e pw name)"
  unfolding sign_up_def Let_def by (intro keeps_intros keeps_blocks k_create_user)

lemma keeps_accept_invite: "keeps R (accept_invite env now rq tok pw name)"
  unfolding accept_invite_def Let_def set_email_verified_def
  by (intro keeps_intros keeps_blocks keeps_accept_invite_fail k_create_user k_consume_invite k_sql; simp)

lemma keeps_change_role: "keeps R (admin_change_role env now p uid ro)"
  unfolding admin_change_role_def change_role_def by (intro keeps_intros keeps_blocks k_set_role)

lemma keeps_seed: "keeps R (seed_admin env now email org name pw)"
proof -
  have "keeps R (\<lambda>w. (Inr (), w\<lparr>w_storage := f (w_storage w)\<rparr>))" for f
    using keeps_storage by (simp add: act_storage_def)
  then show ?thesis unfolding seed_admin_def by (intro keeps_intros k_create_user)
qed

text \<open>Every request but a sign-in.\<close>

theorem keeps_serve_but_sign_in:
  assumes "\<nexists>e pw code. r = SignIn e pw code"
  shows "keeps R (auth_serve env now rq r)"
proof (cases "plain_request r")
  case True
  then show ?thesis by (rule keeps_plain_request)
next
  case False
  with assms show ?thesis
    by (cases r) (simp_all add: keeps_respond keeps_with_role keeps_sign_up keeps_accept_invite keeps_change_role
        keeps_bind keeps_pure k_invite)
qed

theorem keeps_app_but_sign_in:
  assumes "\<nexists>rq e pw code. s = AuthStep rq (SignIn e pw code)"
  shows "keeps R (app_action env now s)"
proof (cases s)
  case (AuthStep rq r)
  with assms show ?thesis by (simp add: keeps_bind keeps_pure keeps_serve_but_sign_in)
next
  case (SeedStep e o' n p)
  then show ?thesis by (simp add: keeps_seed)
next
  case (RouteStep rq f)
  then show ?thesis by (simp add: keeps_bind keeps_auth_context keeps_storage)
next
  case (BackgroundStep f)
  then show ?thesis by (simp add: keeps_storage)
qed

end

locale auth_relation_all = auth_relation_users R env + auth_relation_counts R env
  for R :: "world \<Rightarrow> world \<Rightarrow> bool" and env
begin

theorem keeps_app: "keeps R (app_action env now s)"
proof (cases "\<exists>rq e pw code. s = AuthStep rq (SignIn e pw code)")
  case True
  then show ?thesis by (auto simp: keeps_bind keeps_pure keeps_respond keeps_sign_in)
next
  case False
  then show ?thesis by (intro keeps_app_but_sign_in) simp
qed

theorem related_run: "R w (app_run env ss w)"
proof (induction ss arbitrary: w)
  case (Cons s ss)
  have "R w (app_step env s w)" using keeps_app by (simp add: app_step_def keeps_def)
  with Cons[of "app_step env s w"] show ?case by (auto intro: related_trans)
qed (simp add: related_refl)

end

end
