(* ===== verification/AuthDemo.thy ===== *)
theory AuthDemo
  imports AuthRuns
begin

text \<open>
  A small instance of the accounts: services with transparent secrets, one organisation with an
  owner, and requests that carry a cookie or a key.  The witnesses of the accounts' theorems
  evaluate the handlers on it.
\<close>

definition demo_settings :: auth_settings where
  "demo_settings = \<lparr>au_mode = MODE_ENTERPRISE, au_api_token = None, au_cookie_name = ''shield_session'',
     au_cookie_secure = True, au_cookie_domain = None, au_session_ttl_seconds = 604800,
     au_public_base_url = ''http://localhost:3000/'', au_smtp_from = ''no-reply@shield.local''\<rparr>"

definition demo_argon :: argon where
  "demo_argon = \<lparr>ag_hash = (\<lambda>salt pw. pw), ag_verify = (\<lambda>h pw. if h = pw then ArgonMatch else ArgonMismatch),
     ag_needs_rehash = (\<lambda>h. False)\<rparr>"

definition demo_hasher :: hasher where
  "demo_hasher = \<lparr>hs_argon = demo_argon, hs_peppers = [(''p1'', ''pp'')], hs_active_kid = ''p1'',
     hs_active_secret = ''pp''\<rparr>"

definition demo_totp :: totp_service where
  "demo_totp = \<lparr>tp_key_order = [''f1''], tp_multi = \<lparr>fn_encrypt = (\<lambda>iv s. s), fn_decrypt = Some\<rparr>,
     tp_issuer = ''Agent Shield'', tp_otp_verify = (\<lambda>secret code now. code = ''123456''),
     tp_otp_uri = (\<lambda>secret name issuer. secret)\<rparr>"

fun demo_random :: "draw \<Rightarrow> nat \<Rightarrow> string" where
  "demo_random DrawUuid n = CHR ''u'' # show_nat n"
| "demo_random (DrawToken _) n = CHR ''t'' # show_nat n"
| "demo_random DrawSecret n = CHR ''s'' # show_nat n"
| "demo_random DrawSalt n = CHR ''x'' # show_nat n"

definition demo_auth_env :: auth_env where
  "demo_auth_env = \<lparr>ev_prims = demo_prims, ev_settings = demo_settings, ev_random = demo_random,
     ev_hasher = demo_hasher, ev_totp = demo_totp, ev_send = (\<lambda>m. None)\<rparr>"

definition empty_storage :: storage where
  "empty_storage = \<lparr>st_objects = [], st_cache = \<lparr>c_store = [], c_streams = [], c_groups = {}\<rparr>,
     st_db = \<lparr>d_organizations = [], d_agents = [], d_agent_keys = [], d_operations = [],
       d_receipts = [], d_intervention_log = [], d_governance_verdicts = [], d_epochs = [], d_exports = []\<rparr>\<rparr>"

definition empty_world :: world where
  "empty_world = \<lparr>w_storage = empty_storage,
     w_auth = \<lparr>t_users = [], t_sessions = [], t_memberships = [], t_password_reset_tokens = [],
       t_email_verification_tokens = [], t_invites = [], t_totp_credentials = [], t_api_keys = [],
       t_audit_log_auth = []\<rparr>,
     w_draws = 0, w_outbox = []\<rparr>"

definition request_with :: "(string \<times> string) list \<Rightarrow> (string \<times> string) list \<Rightarrow> http_request" where
  "request_with headers cookies =
     \<lparr>hr_method = ''POST'', hr_headers = headers, hr_cookies = cookies, hr_client_host = Some ''ip''\<rparr>"

definition demo_user :: user_row where
  "demo_user = \<lparr>u_user_id = ''u0'', u_email = ''a@x'',
     u_password_hash = fst (hash_password demo_prims demo_hasher ''x1'' ''secret-pw''),
     u_password_pepper_kid = snd (hash_password demo_prims demo_hasher ''x1'' ''secret-pw''),
     u_name = [], u_status = US_ACTIVE, u_email_verified_at = None, u_failed_login_count = 0,
     u_locked_until = None, u_totp_enabled = False, u_created_at = 0, u_updated_at = 0,
     u_last_login_at = None\<rparr>"

text \<open>One user, the owner of one organisation, and nobody signed in.\<close>

definition demo_world :: world where
  "demo_world = empty_world\<lparr>w_draws := 2, w_auth := (w_auth empty_world)\<lparr>t_users := [(''u0'', demo_user)],
     t_memberships := [((''u0'', ''org''), \<lparr>mb_user_id = ''u0'', mb_org_id = ''org'', mb_role = ORG_OWNER,
       mb_invited_by = None, mb_joined_at = 0\<rparr>)]\<rparr>\<rparr>"

definition demo_sign_in :: auth_request where
  "demo_sign_in = SignIn ''A@x'' ''secret-pw'' None"

lemma demo_hasher_ok: "hasher_ok demo_hasher"
  by (simp add: hasher_ok_def argon_ok_def demo_hasher_def demo_argon_def)

lemma demo_verify:
  "verify_password demo_prims demo_hasher ''secret-pw'' (u_password_hash demo_user) (u_password_pepper_kid demo_user)
     = Inr \<lparr>vr_ok = True, vr_needs_rehash = False\<rparr>"
  using verify_fresh_hash[OF demo_hasher_ok, of demo_prims "''secret-pw''" "''x1''"]
  by (simp add: demo_user_def) (simp add: demo_hasher_def demo_argon_def)

lemma demo_env_simps [simp]:
  "ev_prims demo_auth_env = demo_prims" "ev_settings demo_auth_env = demo_settings"
  "ev_random demo_auth_env = demo_random" "ev_hasher demo_auth_env = demo_hasher"
  "ev_totp demo_auth_env = demo_totp" "ev_send demo_auth_env m = None"
  by (simp_all add: demo_auth_env_def)

lemma demo_user_simps [simp]:
  "u_user_id demo_user = ''u0''" "u_email demo_user = ''a@x''" "u_status demo_user = US_ACTIVE"
  "u_totp_enabled demo_user = False" "u_failed_login_count demo_user = 0" "u_locked_until demo_user = None"
  by (simp_all add: demo_user_def)

lemma demo_mail_address: "py_lower ''A@x'' = ''a@x''" "py_lower ''a@x'' = ''a@x''"
  by code_simp+

lemma demo_lookup:
  "user_by_email (w_auth demo_world) ''A@x'' = Some demo_user"
  "primary_membership (w_auth demo_world) ''u0'' = Some (''org'', ORG_OWNER)"
  by (simp_all add: demo_world_def user_by_email_def dvalues_def demo_mail_address primary_membership_def
      memberships_of_def)

end
