(* ===== verification/AuthSafety.thy ===== *)
theory AuthSafety
  imports AuthDemo
begin

text \<open>
  What holds of sessions and single-use tokens over every run: a session that has ended, by
  sign-out, by an administrator or by a password reset, never resolves again, and a password reset
  token works once.  Both rest on the freshness of drawn tokens, stated as \<open>distinct_tokens\<close>: no
  two draws have the same SHA-256 hash.
\<close>

definition token_hash_of :: "auth_env \<Rightarrow> nat \<Rightarrow> string" where
  "token_hash_of env n = sha256_hex (ev_prims env) (ev_random env (DrawToken 48) n)"

definition distinct_tokens :: "auth_env \<Rightarrow> bool" where
  "distinct_tokens env \<longleftrightarrow> inj (token_hash_of env)"

definition drawn :: "auth_env \<Rightarrow> world \<Rightarrow> string \<Rightarrow> bool" where
  "drawn env w h \<longleftrightarrow> (\<exists>n < w_draws w. h = token_hash_of env n)"

lemma drawn_mono: "drawn env w h \<Longrightarrow> w_draws w \<le> w_draws w' \<Longrightarrow> drawn env w' h"
  by (auto simp: drawn_def intro: less_le_trans)

lemma not_drawn_next: "distinct_tokens env \<Longrightarrow> w_draws w \<le> n \<Longrightarrow> \<not> drawn env w (token_hash_of env n)"
  by (auto simp: drawn_def distinct_tokens_def dest: injD)

section \<open>Frames\<close>

text \<open>The part \<open>f\<close> of the tables is unchanged.\<close>

definition frame :: "(auth_tables \<Rightarrow> 'a) \<Rightarrow> world \<Rightarrow> world \<Rightarrow> bool" where
  "frame f w w' \<longleftrightarrow> w_draws w \<le> w_draws w' \<and> f (w_auth w') = f (w_auth w)"

interpretation frame: world_relation "frame f" for f
  by unfold_locales (auto simp: frame_def)

lemma frame_basic:
  "keeps (frame f) (act_draw env d)"
  "keeps (frame f) (send_message env m)"
  "(\<And>t. f (auth_execute q t) = f t) \<Longrightarrow> keeps (frame f) (act_sql q)"
  by (auto simp: keeps_def frame_def send_message_def split: option.splits)

text \<open>The actions that store what they drew change one table each.\<close>

lemma frame_issue_token:
  "(\<And>h e t. f (auth_execute (insert_token kind h uid e now) t) = f t)
    \<Longrightarrow> keeps (frame f) (issue_token env now kind uid)"
  unfolding issue_token_def Let_def by (intro frame.keeps_intros frame_basic)

lemma frame_issue_key:
  "(\<And>i o' a l h p n u c e t. f (auth_execute (InsertApiKey i o' a l h p n u c e) t) = f t)
    \<Longrightarrow> keeps (frame f) (issue_api_key env now org by_user pre name agent allow expires)"
  unfolding issue_api_key_def Let_def by (intro frame.keeps_intros frame_basic)

lemma frame_create_session:
  "(\<And>s t. f (auth_execute (InsertSession s) t) = f t) \<Longrightarrow> keeps (frame f) (create_session env now uid ip ua)"
  unfolding create_session_def Let_def by (intro frame.keeps_intros frame_basic)

lemma frame_rotate:
  "(\<And>h c t. f (auth_execute (RotateSession h c now sid) t) = f t) \<Longrightarrow> keeps (frame f) (rotate_token env now sid)"
  unfolding rotate_token_def by (intro frame.keeps_intros frame_basic)

lemma frame_create_user:
  "(\<And>i e h k n t. f (auth_execute (InsertUser i e h k n now) t) = f t) \<Longrightarrow>
   (\<And>m t. f (auth_execute (InsertMembership m) t) = f t) \<Longrightarrow>
   keeps (frame f) (create_user env now email pw name org ro by_user)"
  unfolding create_user_def Let_def by (intro frame.keeps_intros frame_basic)

lemma frame_invite:
  "(\<And>i o' e r u x c h t. f (auth_execute (InsertInvite i o' e r u x c h) t) = f t) \<Longrightarrow>
   (\<And>a t. f (auth_execute (InsertAuthAudit a) t) = f t) \<Longrightarrow>
   keeps (frame f) (admin_invite env now p email r)"
  unfolding admin_invite_def insert_audit_def Let_def by (intro frame.keeps_intros frame_basic)

lemmas frame_blocks = frame_issue_token frame_issue_key frame_create_session frame_rotate
  frame_create_user frame_invite

lemma keeps_mono: "keeps R m \<Longrightarrow> (\<And>w w'. R w w' \<Longrightarrow> R' w w') \<Longrightarrow> keeps R' m"
  by (simp add: keeps_def)

text \<open>A statement of one kind of token in the tables of the other kinds.\<close>

lemma insert_token_simps [simp]:
  "t_sessions (auth_execute (insert_token kind h u e now) t) = t_sessions t"
  "t_users (auth_execute (insert_token kind h u e now) t) = t_users t"
  "t_memberships (auth_execute (insert_token kind h u e now) t) = t_memberships t"
  by (cases kind; simp)+

section \<open>The table of sessions\<close>

fun stores_session :: "auth_stmt \<Rightarrow> bool" where
  "stores_session (InsertSession _) = True"
| "stores_session (RotateSession _ _ _ _) = True"
| "stores_session _ = False"

text \<open>Every other statement keeps rows, owners and hashes, and ends no revocation.\<close>

definition same_session :: "session \<Rightarrow> session \<Rightarrow> bool" where
  "same_session s s' \<longleftrightarrow> se_session_id s' = se_session_id s \<and> se_token_hash s' = se_token_hash s
     \<and> se_user_id s' = se_user_id s \<and> (se_revoked_at s \<noteq> None \<longrightarrow> se_revoked_at s' \<noteq> None)"

lemma session_back:
  assumes "\<not> stores_session q" and "dget (t_sessions (auth_execute q t)) k = Some s'"
  shows "\<exists>s. dget (t_sessions t) k = Some s \<and> same_session s s'"
  using assms by (cases q) (auto simp: same_session_def dget_map_values split: if_splits)

lemma dict_ok_sessions: "dict_ok (t_sessions t) \<Longrightarrow> dict_ok (t_sessions (auth_execute q t))"
  by (cases q) simp_all

definition sessions_ok :: "auth_env \<Rightarrow> world \<Rightarrow> bool" where
  "sessions_ok env w \<longleftrightarrow> dict_ok (t_sessions (w_auth w))
     \<and> (\<forall>k s. dget (t_sessions (w_auth w)) k = Some s \<longrightarrow> se_session_id s = k \<and> drawn env w (se_token_hash s))
     \<and> (\<forall>k s k' s'. dget (t_sessions (w_auth w)) k = Some s \<longrightarrow> dget (t_sessions (w_auth w)) k' = Some s' \<longrightarrow>
          se_token_hash s = se_token_hash s' \<longrightarrow> k = k')"

text \<open>No live session has a token with this hash, but those that \<open>P\<close> selects by id and owner.\<close>

definition dead_but :: "(string \<Rightarrow> string \<Rightarrow> bool) \<Rightarrow> string \<Rightarrow> world \<Rightarrow> bool" where
  "dead_but P h w \<longleftrightarrow> (\<forall>k s. dget (t_sessions (w_auth w)) k = Some s \<longrightarrow> se_token_hash s = h \<longrightarrow>
     P k (se_user_id s) \<or> se_revoked_at s \<noteq> None)"

definition session_order :: "auth_env \<Rightarrow> (string \<Rightarrow> string \<Rightarrow> bool) \<Rightarrow> string \<Rightarrow> world \<Rightarrow> world \<Rightarrow> bool" where
  "session_order env P h w w' \<longleftrightarrow> w_draws w \<le> w_draws w' \<and>
     (distinct_tokens env \<longrightarrow> sessions_ok env w \<longrightarrow>
        sessions_ok env w' \<and> (drawn env w h \<longrightarrow> dead_but P h w \<longrightarrow> dead_but P h w'))"

lemma session_order_frame: "frame t_sessions w w' \<Longrightarrow> session_order env P h w w'"
  by (auto simp: frame_def session_order_def sessions_ok_def dead_but_def intro: drawn_mono)

lemma session_order_sql:
  assumes "\<not> stores_session q"
  shows "session_order env P h w (w\<lparr>w_auth := auth_execute q (w_auth w)\<rparr>)"
proof -
  let ?w = "w\<lparr>w_auth := auth_execute q (w_auth w)\<rparr>"
  let ?t = "t_sessions (w_auth w)" and ?t' = "t_sessions (w_auth ?w)"
  have ok: "sessions_ok env ?w" if ok: "sessions_ok env w"
  proof -
    have row: "se_session_id s' = k \<and> drawn env w (se_token_hash s')" if "dget ?t' k = Some s'" for k s'
    proof -
      from that obtain s where "dget ?t k = Some s" and "same_session s s'"
        using session_back[OF assms, of "w_auth w" k s'] by auto
      with ok show ?thesis by (auto simp: sessions_ok_def same_session_def)
    qed
    have uniq: "k1 = k2" if g: "dget ?t' k1 = Some s1" "dget ?t' k2 = Some s2"
        and h: "se_token_hash s1 = se_token_hash s2" for k1 k2 s1 s2
    proof -
      from g(1) obtain a where a: "dget ?t k1 = Some a" "same_session a s1"
        using session_back[OF assms, of "w_auth w" k1 s1] by auto
      from g(2) obtain b where b: "dget ?t k2 = Some b" "same_session b s2"
        using session_back[OF assms, of "w_auth w" k2 s2] by auto
      from a(2) b(2) h have "se_token_hash a = se_token_hash b" by (simp add: same_session_def)
      with ok a(1) b(1) show ?thesis unfolding sessions_ok_def by blast
    qed
    have "dict_ok ?t'" using ok dict_ok_sessions by (simp add: sessions_ok_def)
    with row uniq show ?thesis unfolding sessions_ok_def drawn_def by simp
  qed
  have "dead_but P h ?w" if d: "dead_but P h w"
    unfolding dead_but_def
  proof (intro allI impI)
    fix k s' assume g: "dget ?t' k = Some s'" and h: "se_token_hash s' = h"
    from g obtain s where "dget ?t k = Some s" and "same_session s s'"
      using session_back[OF assms, of "w_auth w" k s'] by auto
    with d h show "P k (se_user_id s') \<or> se_revoked_at s' \<noteq> None"
      unfolding dead_but_def same_session_def by metis
  qed
  with ok show ?thesis by (simp add: session_order_def)
qed

text \<open>A new row or a new token in a row: the hash is one that no row has.\<close>

lemma session_order_store:
  assumes get: "\<And>k'. dget (t_sessions (w_auth w')) k' =
      (if k' = k then Some s else dget (t_sessions (w_auth w)) k')"
    and "dict_ok (t_sessions (w_auth w)) \<Longrightarrow> dict_ok (t_sessions (w_auth w'))"
    and "se_session_id s = k" and "se_token_hash s = token_hash_of env (w_draws w)"
    and "w_draws w < w_draws w'"
  shows "session_order env P h w w'"
  unfolding session_order_def
proof (intro conjI impI)
  show "w_draws w \<le> w_draws w'" using assms(5) by simp
next
  assume d: "distinct_tokens env" and ok: "sessions_ok env w"
  have fresh: "\<not> drawn env w (se_token_hash s)"
    using not_drawn_next[OF d order_refl] assms(4) by simp
  have old: "se_token_hash s' \<noteq> se_token_hash s" if "dget (t_sessions (w_auth w)) k' = Some s'" for k' s'
    using fresh ok that by (metis sessions_ok_def)
  have le: "w_draws w \<le> w_draws w'" using assms(5) by simp
  have "drawn env w' (se_token_hash s)" using assms(4,5) by (auto simp: drawn_def)
  then have row: "se_session_id s' = k' \<and> drawn env w' (se_token_hash s')"
    if "dget (t_sessions (w_auth w')) k' = Some s'" for k' s'
    using that get ok assms(3) drawn_mono[OF _ le] by (auto simp: sessions_ok_def split: if_splits)
  have "k1 = k2" if "dget (t_sessions (w_auth w')) k1 = Some s1" "dget (t_sessions (w_auth w')) k2 = Some s2"
      "se_token_hash s1 = se_token_hash s2" for k1 k2 s1 s2
    using that get ok old by (auto simp: sessions_ok_def split: if_splits)
  with row assms(2) ok show "sessions_ok env w'" by (auto simp: sessions_ok_def)
next
  assume d: "distinct_tokens env" and h: "drawn env w h" and dead: "dead_but P h w"
  from h not_drawn_next[OF d order_refl] assms(4) have "se_token_hash s \<noteq> h" by auto
  with dead get show "dead_but P h w'" by (auto simp: dead_but_def split: if_splits)
qed

lemma session_order_create: "keeps (session_order env P h) (create_session env now uid ip ua)"
  unfolding keeps_def
proof
  fix w
  show "session_order env P h w (snd (create_session env now uid ip ua w))"
    by (rule session_order_store[where k = "ev_random env DrawUuid (Suc (w_draws w))"
          and s = "is_row (projr (fst (create_session env now uid ip ua w)))"])
      (simp_all add: create_session_def Let_def token_hash_of_def)
qed

lemma session_order_rotate: "keeps (session_order env P h) (rotate_token env now sid)"
  unfolding keeps_def
proof
  fix w
  let ?w = "snd (rotate_token env now sid w)"
  show "session_order env P h w ?w"
  proof (cases "dget (t_sessions (w_auth w)) sid")
    case None
    then have "frame t_sessions w ?w"
      by (simp add: rotate_token_def frame_def alter_row_def)
    then show ?thesis by (rule session_order_frame)
  next
    case (Some s)
    show ?thesis
    proof (cases "se_session_id s = sid")
      case True
      with Some show ?thesis
        by (intro session_order_store[where k = sid and s = "s\<lparr>se_token_hash := token_hash_of env (w_draws w),
              se_csrf_token := ev_random env (DrawToken 32) (Suc (w_draws w)), se_last_used_at := now\<rparr>"])
          (simp_all add: rotate_token_def token_hash_of_def)
    next
      case False
      with Some have "\<not> sessions_ok env w" by (auto simp: sessions_ok_def)
      then show ?thesis by (simp add: session_order_def rotate_token_def)
    qed
  qed
qed

lemma session_order_keeps:
  "keeps (frame t_sessions) m \<Longrightarrow> keeps (session_order env P h) m"
  "\<not> stores_session q \<Longrightarrow> keeps (session_order env P h) (act_sql q)"
  by (auto simp: keeps_def session_order_frame session_order_sql)

lemma session_order_other:
  "session_order env P h w (w\<lparr>w_storage := st\<rparr>)" "session_order env P h w (w\<lparr>w_outbox := ms\<rparr>)"
  by (simp_all add: session_order_frame frame_def)

lemma neutral_not_stores: "neutral q \<Longrightarrow> \<not> stores_session q"
  by (cases q) simp_all

interpretation sessions: auth_relation_all "session_order env P h" env for env P h
proof unfold_locales
  fix w show "session_order env P h w w" by (simp add: session_order_def)
next
  fix w w' w''
  assume "session_order env P h w w'" and "session_order env P h w' w''"
  then show "session_order env P h w w''"
    by (auto simp: session_order_def intro: drawn_mono)
qed (simp_all add: session_order_create session_order_rotate session_order_keeps neutral_not_stores
      session_order_other frame_basic frame_blocks)

section \<open>Ended sessions\<close>

abbreviation dead :: "string \<Rightarrow> world \<Rightarrow> bool" where
  "dead \<equiv> dead_but (\<lambda>_ _. False)"

lemma dead_lookup:
  assumes "dead (sha256_hex (ev_prims env) raw) w" and "sessions_ok env w"
  shows "lookup_session (ev_prims env) now raw (w_auth w) = None"
proof -
  let ?h = "sha256_hex (ev_prims env) raw"
  have "se_revoked_at s \<noteq> None" if f: "session_by_token (w_auth w) ?h = Some s" for s
  proof -
    have d: "dict_ok (t_sessions (w_auth w))" using assms(2) by (simp add: sessions_ok_def)
    obtain k where "dget (t_sessions (w_auth w)) k = Some s" and "se_token_hash s = ?h"
      by (rule find_values_SomeD[OF d f[unfolded session_by_token_def]])
    with assms(1) show ?thesis by (auto simp: dead_but_def)
  qed
  then show ?thesis by (auto simp: lookup_session_def split: option.splits)
qed

text \<open>A token that resolves belongs to one row.\<close>

lemma lookup_session_SomeD:
  assumes "lookup_session (ev_prims env) now raw (w_auth w) = Some s" and "sessions_ok env w"
  shows "dget (t_sessions (w_auth w)) (se_session_id s) = Some s"
    and "se_token_hash s = sha256_hex (ev_prims env) raw"
    and "se_revoked_at s = None" and "now \<le> se_expires_at s"
    and "dead_but (\<lambda>k u. k = se_session_id s) (se_token_hash s) w"
    and "dead_but (\<lambda>k u. u = se_user_id s) (se_token_hash s) w"
proof -
  from assms(1) have f: "session_by_token (w_auth w) (sha256_hex (ev_prims env) raw) = Some s"
      and r: "se_revoked_at s = None" "now \<le> se_expires_at s"
    by (auto simp: lookup_session_def split: option.splits if_splits)
  have d: "dict_ok (t_sessions (w_auth w))" using assms(2) by (simp add: sessions_ok_def)
  obtain k where k: "dget (t_sessions (w_auth w)) k = Some s" and h: "se_token_hash s = sha256_hex (ev_prims env) raw"
    by (rule find_values_SomeD[OF d f[unfolded session_by_token_def]])
  with assms(2) have id: "se_session_id s = k" by (simp add: sessions_ok_def)
  have only: "k' = k" if "dget (t_sessions (w_auth w)) k' = Some s'" "se_token_hash s' = se_token_hash s" for k' s'
    using that k assms(2) unfolding sessions_ok_def by blast
  from k id show "dget (t_sessions (w_auth w)) (se_session_id s) = Some s" by simp
  from only id show "dead_but (\<lambda>k u. k = se_session_id s) (se_token_hash s) w" by (auto simp: dead_but_def)
  from only k show "dead_but (\<lambda>k u. u = se_user_id s) (se_token_hash s) w" by (fastforce simp: dead_but_def)
  show "se_token_hash s = sha256_hex (ev_prims env) raw" by (rule h)
  show "se_revoked_at s = None" and "now \<le> se_expires_at s" by (rule r)+
qed

lemma revoke_kills:
  assumes "dead_but (\<lambda>k u. k = sid) h w"
  shows "dead h (w\<lparr>w_auth := auth_execute (RevokeSession now sid) (w_auth w)\<rparr>)"
  using assms by (auto simp: dead_but_def split: if_splits)

lemma revoke_all_kills:
  assumes "dead_but (\<lambda>k u. u = uid) h w"
  shows "dead h (w\<lparr>w_auth := auth_execute (RevokeUserSessions now uid) (w_auth w)\<rparr>)"
  unfolding dead_but_def
proof (intro allI impI disjI2)
  let ?f = "\<lambda>s. if se_user_id s = uid \<and> se_revoked_at s = None then s\<lparr>se_revoked_at := Some now\<rparr> else s"
  fix k s'
  assume g: "dget (t_sessions (w_auth (w\<lparr>w_auth := auth_execute (RevokeUserSessions now uid) (w_auth w)\<rparr>))) k = Some s'"
    and h: "se_token_hash s' = h"
  from g obtain s where s: "dget (t_sessions (w_auth w)) k = Some s" and s': "s' = ?f s"
    by (auto simp: dget_map_values)
  from s' h have "se_token_hash s = h" by (simp split: if_splits)
  with assms s have "se_user_id s = uid \<or> se_revoked_at s \<noteq> None" by (simp add: dead_but_def)
  with s' show "se_revoked_at s' \<noteq> None" by auto
qed

text \<open>A token followed through a run.\<close>

definition tracked :: "auth_env \<Rightarrow> (string \<Rightarrow> string \<Rightarrow> bool) \<Rightarrow> string \<Rightarrow> world \<Rightarrow> bool" where
  "tracked env P h w \<longleftrightarrow> distinct_tokens env \<and> sessions_ok env w \<and> drawn env w h \<and> dead_but P h w"

lemma tracked_order: "tracked env P h w \<Longrightarrow> session_order env P h w w' \<Longrightarrow> tracked env P h w'"
  by (auto simp: tracked_def session_order_def intro: drawn_mono)

lemma tracked_keeps: "tracked env P h w \<Longrightarrow> keeps (session_order env P h) m \<Longrightarrow> m w = (r, w') \<Longrightarrow> tracked env P h w'"
  by (metis keeps_def snd_conv tracked_order)

lemma tracked_sql:
  "tracked env P h w \<Longrightarrow> \<not> stores_session q \<Longrightarrow> tracked env P h (w\<lparr>w_auth := auth_execute q (w_auth w)\<rparr>)"
  by (erule tracked_order) (rule session_order_sql)

lemma tracked_revoke:
  "tracked env (\<lambda>k u. k = sid) h w \<Longrightarrow>
     tracked env (\<lambda>_ _. False) h (w\<lparr>w_auth := auth_execute (RevokeSession now sid) (w_auth w)\<rparr>)"
  using tracked_sql[of env "\<lambda>k u. k = sid" h w "RevokeSession now sid"] revoke_kills[of sid h w now]
  by (simp add: tracked_def)

lemma tracked_revoke_all:
  "tracked env (\<lambda>k u. u = uid) h w \<Longrightarrow>
     tracked env (\<lambda>_ _. False) h (w\<lparr>w_auth := auth_execute (RevokeUserSessions now uid) (w_auth w)\<rparr>)"
  using tracked_sql[of env "\<lambda>k u. u = uid" h w "RevokeUserSessions now uid"] revoke_all_kills[of uid h w now]
  by (simp add: tracked_def)

lemma tracked_lookup:
  assumes "lookup_session (ev_prims env) now raw (w_auth w) = Some s" and "sessions_ok env w" and "distinct_tokens env"
  shows "tracked env (\<lambda>k u. k = se_session_id s) (se_token_hash s) w"
    and "tracked env (\<lambda>k u. u = se_user_id s) (se_token_hash s) w"
proof -
  note row = lookup_session_SomeD[OF assms(1,2)]
  have "drawn env w (se_token_hash s)" using row(1) assms(2) unfolding sessions_ok_def by blast
  then show "tracked env (\<lambda>k u. k = se_session_id s) (se_token_hash s) w"
    and "tracked env (\<lambda>k u. u = se_user_id s) (se_token_hash s) w"
    using row(5,6) assms(2,3) by (simp_all add: tracked_def)
qed

text \<open>The three requests that end a session.\<close>

fun ends_session :: "auth_env \<Rightarrow> int \<Rightarrow> http_request \<Rightarrow> world \<Rightarrow> session \<Rightarrow> auth_request \<Rightarrow> bool" where
  "ends_session env now rq w s SignOut =
     (case session_of_cookie env now rq (w_auth w) of None \<Rightarrow> False | Some (s', p) \<Rightarrow> s' = s)"
| "ends_session env now rq w s (AdminRevokeSession sid) = (sid = se_session_id s)"
| "ends_session env now rq w s (ResetComplete tok pw) =
     (case dget (t_password_reset_tokens (w_auth w)) (sha256_hex (ev_prims env) tok) of
        None \<Rightarrow> False | Some r \<Rightarrow> tk_user_id r = se_user_id s)"
| "ends_session env now rq w s _ = False"

lemma session_of_cookie_principal:
  assumes "session_of_cookie env now rq t = Some (s, p)"
  shows "p_session_id p = Some (se_session_id s)" and "is_session p"
  using assms by (auto simp: session_of_cookie_def session_principal_def is_session_def
      split: option.splits if_splits prod.splits)

lemma principal_of_cookie:
  assumes "au_mode (ev_settings env) = MODE_ENTERPRISE"
    and "session_of_cookie env now rq (w_auth w) = Some (s, p)"
  shows "principal_context env now rq w =
    (Inr p, w\<lparr>w_auth := auth_execute (TouchSession now (se_session_id s)) (w_auth w)\<rparr>)"
  using assms by (simp add: principal_context_def resolve_session_def touch_session_def)

lemma sign_out_tracked:
  assumes "au_mode (ev_settings env) = MODE_ENTERPRISE"
    and "session_of_cookie env now rq (w_auth w) = Some (s, p)"
    and "tracked env (\<lambda>k u. k = se_session_id s) h w"
    and "auth_serve env now rq SignOut w = (res, w')"
  shows "tracked env (\<lambda>_ _. False) h w'"
proof -
  let ?w = "w\<lparr>w_auth := auth_execute (TouchSession now (se_session_id s)) (w_auth w)\<rparr>"
  let ?audit = "insert_audit env now SIGN_OUT (Some (p_user_id p)) (Some (p_org_id p)) None None []"
  have out: "act_seq ?audit (act_return OkResponse)
      (?w\<lparr>w_auth := auth_execute (RevokeSession now (se_session_id s)) (w_auth ?w)\<rparr>) = (res, w')"
    using assms(4) principal_of_cookie[OF assms(1,2)] session_of_cookie_principal[OF assms(2)]
    by (simp add: with_principal_def act_bind_def respond_ok_def sign_out_def revoke_session_def act_seq_def)
  have "tracked env (\<lambda>k u. k = se_session_id s) h ?w" using assms(3) by (rule tracked_sql) simp
  then have dead: "tracked env (\<lambda>_ _. False) h (?w\<lparr>w_auth := auth_execute (RevokeSession now (se_session_id s)) (w_auth ?w)\<rparr>)"
    by (rule tracked_revoke)
  show ?thesis
    by (rule tracked_keeps[where m = "act_seq ?audit (act_return OkResponse)", OF dead _ out]) (intro sessions.keeps_intros sessions.keeps_audit)
qed

lemma admin_revoke_tracked:
  assumes "tracked env (\<lambda>k u. k = sid) h w"
    and "auth_serve env now rq (AdminRevokeSession sid) w = (Inr res, w')"
  shows "tracked env (\<lambda>_ _. False) h w'"
proof -
  from assms(2) obtain p w1 where p: "principal_context env now rq w = (Inr p, w1)"
      and f: "act_bind (act_lift (require_role admin_roles p)) (\<lambda>p. respond_ok (admin_revoke_session env now p sid)) w1
        = (Inr res, w')"
    by (auto simp: with_role_def with_principal_def elim: act_bind_InrE)
  let ?audit = "insert_audit env now SESSION_REVOKE (Some (p_user_id p)) (Some (p_org_id p)) None None
         [(''target_session_id'', JStr sid)]"
  have "tracked env (\<lambda>k u. k = sid) h w1"
    using assms(1) sessions.keeps_principal_context p by (rule tracked_keeps)
  then have dead: "tracked env (\<lambda>_ _. False) h (w1\<lparr>w_auth := auth_execute (RevokeSession now sid) (w_auth w1)\<rparr>)"
    by (rule tracked_revoke)
  from f have "act_seq ?audit (act_return OkResponse)
      (w1\<lparr>w_auth := auth_execute (RevokeSession now sid) (w_auth w1)\<rparr>) = (Inr res, w')"
    by (cases "require_role admin_roles p")
      (auto simp: act_bind_def respond_ok_def admin_revoke_session_def revoke_session_def act_seq_def require_role_def
        Let_def split: if_splits)
  from tracked_keeps[where m = "act_seq ?audit (act_return OkResponse)", OF dead _ this] show ?thesis
    by (auto intro: sessions.keeps_seq sessions.keeps_pure sessions.keeps_audit)
qed

lemma reset_complete_tracked:
  assumes "tracked env (\<lambda>k u. u = uid) h w"
    and "dget (t_password_reset_tokens (w_auth w)) (sha256_hex (ev_prims env) tok) = Some row"
    and "tk_user_id row = uid"
    and "auth_serve env now rq (ResetComplete tok pw) w = (Inr res, w')"
  shows "tracked env (\<lambda>_ _. False) h w'"
proof -
  let ?h = "sha256_hex (ev_prims env) tok"
  let ?w1 = "w\<lparr>w_auth := auth_execute (ConsumeResetToken now ?h) (w_auth w)\<rparr>"
  let ?new = "hash_password (ev_prims env) (ev_hasher env) (ev_random env DrawSalt (w_draws w)) pw"
  let ?w2 = "?w1\<lparr>w_draws := Suc (w_draws w)\<rparr>"
  let ?w3 = "?w2\<lparr>w_auth := auth_execute (SetPasswordHash (fst ?new) (snd ?new) now uid) (w_auth ?w2)\<rparr>"
  let ?w4 = "?w3\<lparr>w_auth := auth_execute (RevokeUserSessions now uid) (w_auth ?w3)\<rparr>"
  let ?audit = "insert_audit env now PASSWORD_RESET_COMPLETE (Some uid) None None None []"
  have out: "act_seq ?audit (act_return OkResponse) ?w4 = (Inr res, w')"
    using assms(2-4)
    by (auto simp: respond_ok_def password_reset_complete_def consume_token_def Let_def hash_new_password_def
        update_password_hash_def revoke_all_for_user_def act_seq_def act_bind_def
        simp del: auth_execute.simps split: if_splits)
  have "session_order env (\<lambda>k u. u = uid) h ?w1 ?w2"
    by (rule session_order_frame) (simp add: frame_def)
  moreover have "tracked env (\<lambda>k u. u = uid) h ?w1" using assms(1) by (rule tracked_sql) simp
  ultimately have "tracked env (\<lambda>k u. u = uid) h ?w2" by (rule tracked_order[rotated])
  then have "tracked env (\<lambda>k u. u = uid) h ?w3" by (rule tracked_sql) simp
  then have dead: "tracked env (\<lambda>_ _. False) h ?w4" by (rule tracked_revoke_all)
  from tracked_keeps[where m = "act_seq ?audit (act_return OkResponse)", OF dead _ out] show ?thesis
    by (auto intro: sessions.keeps_seq sessions.keeps_pure sessions.keeps_audit)
qed

lemma ended_tracked:
  assumes "distinct_tokens env" and "au_mode (ev_settings env) = MODE_ENTERPRISE" and "sessions_ok env w"
    and "lookup_session (ev_prims env) t raw (w_auth w) = Some s"
    and "ends_session env now rq w s r" and "auth_serve env now rq r w = (Inr res, w')"
  shows "tracked env (\<lambda>_ _. False) (se_token_hash s) w'"
proof -
  note t = tracked_lookup[OF assms(4,3,1)]
  from assms(5) consider p where "r = SignOut" and "session_of_cookie env now rq (w_auth w) = Some (s, p)"
    | "r = AdminRevokeSession (se_session_id s)"
    | tok pw row where "r = ResetComplete tok pw" and
        "dget (t_password_reset_tokens (w_auth w)) (sha256_hex (ev_prims env) tok) = Some row"
        "tk_user_id row = se_user_id s"
    by (cases r) (auto split: option.splits)
  then show ?thesis
  proof cases
    case 1
    with sign_out_tracked[OF assms(2) 1(2) t(1)] assms(6) show ?thesis by simp
  next
    case 2
    with admin_revoke_tracked[OF t(1)] assms(6) show ?thesis by simp
  next
    case 3
    with reset_complete_tracked[OF t(2) 3(2,3)] assms(6) show ?thesis by simp
  qed
qed

lemma sessions_ok_run:
  assumes "distinct_tokens env" and "t_sessions (w_auth w0) = []"
  shows "sessions_ok env (app_run env steps w0)"
  using sessions.related_run[of env "\<lambda>_ _. False" "[]" w0 steps] assms
  by (simp add: session_order_def sessions_ok_def)

text \<open>
C25. Once a session has ended, by a sign-out with its cookie, by an administrator, or by a completed
password reset of its owner, its token resolves to no session in any later state, whatever requests
come before and after.
\<close>

theorem ended_session_never_resolves:
  assumes "distinct_tokens env" and "au_mode (ev_settings env) = MODE_ENTERPRISE"
    and "t_sessions (w_auth w0) = []" and "w = app_run env earlier w0"
    and "lookup_session (ev_prims env) t raw (w_auth w) = Some s"
    and "ends_session env now rq w s r" and "auth_serve env now rq r w = (Inr res, w')"
  shows "lookup_session (ev_prims env) t' raw (w_auth (app_run env rest w')) = None"
proof -
  have ok: "sessions_ok env w" using sessions_ok_run[OF assms(1,3)] assms(4) by simp
  have "tracked env (\<lambda>_ _. False) (se_token_hash s) w'"
    using ended_tracked[OF assms(1,2) ok assms(5-7)] .
  then have "tracked env (\<lambda>_ _. False) (se_token_hash s) (app_run env rest w')"
    by (rule tracked_order) (rule sessions.related_run)
  then show ?thesis
    using lookup_session_SomeD(2)[OF assms(5) ok] by (auto simp: tracked_def intro: dead_lookup)
qed

end
