(* ===== verification/AuthTypes.thy ===== *)
theory AuthTypes
  imports AuthSafety
begin

text \<open>
  The shape of the account tables: every table is a proper dictionary and files each row under the
  identifiers in the row.  The services look a row up by the identifiers that another row names, so
  the later theories rest on it.
\<close>

definition keyed :: "('r \<Rightarrow> 'k) \<Rightarrow> ('k, 'r) dict \<Rightarrow> bool" where
  "keyed key d \<longleftrightarrow> dict_ok d \<and> list_all (\<lambda>kv. key (snd kv) = fst kv) d"

definition tables_ok :: "auth_tables \<Rightarrow> bool" where
  "tables_ok t \<longleftrightarrow>
     keyed u_user_id (t_users t) \<and> keyed se_session_id (t_sessions t)
     \<and> keyed (\<lambda>m. (mb_user_id m, mb_org_id m)) (t_memberships t)
     \<and> keyed tk_token_hash (t_password_reset_tokens t)
     \<and> keyed tk_token_hash (t_email_verification_tokens t)
     \<and> keyed iv_invite_id (t_invites t) \<and> keyed tc_user_id (t_totp_credentials t)
     \<and> keyed ak_api_key_id (t_api_keys t)"

lemma keyed_iff: "keyed key d \<longleftrightarrow> dict_ok d \<and> (\<forall>k r. dget d k = Some r \<longrightarrow> key r = k)"
proof
  assume "keyed key d"
  then show "dict_ok d \<and> (\<forall>k r. dget d k = Some r \<longrightarrow> key r = k)"
    by (force simp: keyed_def list_all_iff dest: map_of_SomeD)
next
  assume a: "dict_ok d \<and> (\<forall>k r. dget d k = Some r \<longrightarrow> key r = k)"
  then have "key r = k" if "(k, r) \<in> set d" for k r
    using dict_ok_get[OF _ that] by blast
  with a show "keyed key d" by (auto simp: keyed_def list_all_iff)
qed

lemma keyed_get: "keyed key d \<Longrightarrow> dget d k = Some r \<Longrightarrow> key r = k"
  by (simp add: keyed_iff)

lemma keyed_dict_ok: "keyed key d \<Longrightarrow> dict_ok d"
  by (simp add: keyed_def)

lemma keyed_dset: "keyed key d \<Longrightarrow> key r = k \<Longrightarrow> keyed key (dset k r d)"
  by (simp add: keyed_iff)

lemma keyed_dpop: "keyed key d \<Longrightarrow> keyed key (dpop k d)"
  by (simp add: keyed_iff)

lemma keyed_alter: "keyed key d \<Longrightarrow> (\<And>r. key (f r) = key r) \<Longrightarrow> keyed key (alter_row k f d)"
  by (auto simp: keyed_iff)

lemma keyed_map: "keyed key d \<Longrightarrow> (\<And>kv. key (f kv) = key (snd kv)) \<Longrightarrow> keyed key (map (\<lambda>kv. (fst kv, f kv)) d)"
  by (auto simp: keyed_iff dget_map_values)

lemmas keyed_intros = keyed_dset keyed_dpop keyed_alter keyed_map

lemma keyed_value:
  assumes "keyed key d" and "r \<in> set (dvalues d)"
  shows "dget d (key r) = Some r"
proof -
  obtain k where k: "dget d k = Some r"
    by (rule dict_ok_values[OF keyed_dict_ok[OF assms(1)] assms(2)])
  with keyed_get[OF assms(1) k] show ?thesis by simp
qed

lemma tables_ok_execute: "tables_ok t \<Longrightarrow> tables_ok (auth_execute q t)"
  by (cases q) (simp_all add: tables_ok_def keyed_intros)

definition tables_order :: "world \<Rightarrow> world \<Rightarrow> bool" where
  "tables_order w w' \<longleftrightarrow> (tables_ok (w_auth w) \<longrightarrow> tables_ok (w_auth w'))"

interpretation tables_step: world_relation tables_order
  by unfold_locales (auto simp: tables_order_def)

lemma tables_order_basic:
  "keeps tables_order (act_draw env d)" "keeps tables_order (act_sql q)" "keeps tables_order (send_message env m)"
  by (auto simp: keeps_def tables_order_def tables_ok_execute send_message_def split: option.splits)

interpretation tables: auth_relation_all tables_order env for env
  by unfold_locales
    (auto simp: tables_order_def create_session_def rotate_token_def issue_token_def issue_api_key_def
       admin_invite_def insert_audit_def create_user_def Let_def
     intro!: tables_step.keeps_intros tables_order_basic)


end
