(* ===== verification/AuthSignIn.thy ===== *)
theory AuthSignIn
  imports AuthTypes
begin

text \<open>
  Signing in: exactly when it succeeds, and that the cookie it sets stands for the user, the
  organisation and the role it returned, from then on until the session expires.
\<close>

section \<open>The log does not get in the way\<close>

definition audited ::
  "auth_env \<Rightarrow> int \<Rightarrow> auth_event \<Rightarrow> string option \<Rightarrow> string option \<Rightarrow> string option \<Rightarrow> string option
    \<Rightarrow> jobj \<Rightarrow> world \<Rightarrow> world" where
  "audited env now event user_id org_id ip ua detail w = snd (insert_audit env now event user_id org_id ip ua detail w)"

lemma insert_audit_eq: "insert_audit env now ev u org ip ua d w = (Inr (), audited env now ev u org ip ua d w)"
  by (simp add: audited_def insert_audit_def)

lemma act_seq_audit [simp]:
  "act_seq (insert_audit env now ev u org ip ua d) n w = n (audited env now ev u org ip ua d w)"
  by (simp add: act_seq_def act_bind_def insert_audit_eq)

lemma audited_tables [simp]:
  "t_users (w_auth (audited env now ev u org ip ua d w)) = t_users (w_auth w)"
  "t_sessions (w_auth (audited env now ev u org ip ua d w)) = t_sessions (w_auth w)"
  "t_memberships (w_auth (audited env now ev u org ip ua d w)) = t_memberships (w_auth w)"
  "t_totp_credentials (w_auth (audited env now ev u org ip ua d w)) = t_totp_credentials (w_auth w)"
  "w_draws (audited env now ev u org ip ua d w) = Suc (w_draws w)"
  "w_storage (audited env now ev u org ip ua d w) = w_storage w"
  by (simp_all add: audited_def insert_audit_def)

section \<open>When a sign-in is admitted\<close>

definition over_limit :: "int \<Rightarrow> rate_limit_config \<Rightarrow> http_request \<Rightarrow> string option \<Rightarrow> world \<Rightarrow> bool" where
  "over_limit now cfg rq fallback w =
     fst (increment_and_check now (rate_limit_key cfg (rate_limited_ip (hr_headers rq) fallback) now)
       (rl_limit cfg) (rl_window_seconds cfg) (st_cache (w_storage w)))"

definition counted :: "int \<Rightarrow> rate_limit_config \<Rightarrow> http_request \<Rightarrow> string option \<Rightarrow> world \<Rightarrow> world" where
  "counted now cfg rq fallback w = w\<lparr>w_storage := (w_storage w)\<lparr>st_cache :=
     snd (increment_and_check now (rate_limit_key cfg (rate_limited_ip (hr_headers rq) fallback) now)
       (rl_limit cfg) (rl_window_seconds cfg) (st_cache (w_storage w)))\<rparr>\<rparr>"

lemma enforce_or_block_eq:
  "enforce_or_block now cfg (hr_headers rq) fallback w =
     ((if over_limit now cfg rq fallback w then Inl (app_err 429 RATE_LIMITED) else Inr ()),
      counted now cfg rq fallback w)"
  by (simp add: enforce_or_block_def over_limit_def counted_def Let_def)

lemma counted_auth [simp]: "w_auth (counted now cfg rq fb w) = w_auth w" "w_draws (counted now cfg rq fb w) = w_draws w"
  by (simp_all add: counted_def)

definition second_factor_ok ::
  "auth_env \<Rightarrow> int \<Rightarrow> auth_tables \<Rightarrow> user_row \<Rightarrow> string option \<Rightarrow> bool" where
  "second_factor_ok env now t u totp_code =
     (\<not> u_totp_enabled u \<or>
      (case totp_of t (u_user_id u) of
         None \<Rightarrow> False
       | Some c \<Rightarrow>
         (case nonempty totp_code of
            None \<Rightarrow> False
          | Some code \<Rightarrow>
            (case totp_decrypt (ev_totp env) (tc_secret_encrypted c) (tc_active_kid c) of
               Inl _ \<Rightarrow> False
             | Inr d \<Rightarrow> totp_verify (ev_totp env) (td_secret d) code now))))"

definition sign_in_allowed ::
  "auth_env \<Rightarrow> int \<Rightarrow> http_request \<Rightarrow> string \<Rightarrow> string \<Rightarrow> string option \<Rightarrow> world \<Rightarrow> bool" where
  "sign_in_allowed env now rq email password totp_code w =
     (\<not> over_limit now (rate_limit_config_of ''sign-in'') rq (client_ip (hr_headers rq) (hr_client_host rq)) w \<and>
      (case user_by_email (w_auth w) email of
         None \<Rightarrow> False
       | Some u \<Rightarrow>
           u_status u \<noteq> US_DISABLED \<and> \<not> lockout_is_active now u
           \<and> (case verify_password (ev_prims env) (ev_hasher env) password (u_password_hash u) (u_password_pepper_kid u) of
                Inl _ \<Rightarrow> False | Inr v \<Rightarrow> vr_ok v)
           \<and> second_factor_ok env now (w_auth w) u totp_code
           \<and> primary_membership (w_auth w) (u_user_id u) \<noteq> None))"

lemma sign_in_fail_Inl: "\<exists>f. fst (sign_in_fail env now rq e u reason w) = Inl f"
  by (simp add: sign_in_fail_def)

lemma totp_of_cong: "t_totp_credentials t = t_totp_credentials t' \<Longrightarrow> totp_of t u = totp_of t' u"
  by (simp add: totp_of_def)

text \<open>The gate of the second factor lets through exactly the requests with a valid code, and only logs.\<close>

lemma totp_gate_iff:
  "is_ok (fst (totp_gate env now rq e code u w)) = second_factor_ok env now (w_auth w) u code"
  by (auto simp: totp_gate_def second_factor_ok_def Let_def sign_in_fail_def insert_audit_eq
      split: option.splits sum.splits)

lemma frame_audit:
  "(\<And>a t. f (auth_execute (InsertAuthAudit a) t) = f t) \<Longrightarrow> keeps (frame f) (insert_audit env now ev u org ip ua d)"
  unfolding insert_audit_def by (intro frame.keeps_intros frame_basic)

lemma frame_totp_gate:
  "(\<And>a t. f (auth_execute (InsertAuthAudit a) t) = f t) \<Longrightarrow> keeps (frame f) (totp_gate env now rq e code u)"
  unfolding totp_gate_def sign_in_fail_def Let_def by (intro frame.keeps_intros frame_basic frame_audit)

lemma primary_membership_cong:
  "t_memberships t = t_memberships t' \<Longrightarrow> primary_membership t u = primary_membership t' u"
  by (simp add: primary_membership_def memberships_of_def)

section \<open>A new session resolves\<close>

definition new_session :: "auth_env \<Rightarrow> int \<Rightarrow> string \<Rightarrow> string option \<Rightarrow> string option \<Rightarrow> world \<Rightarrow> issued_session" where
  "new_session env now uid ip ua w = projr (fst (create_session env now uid ip ua w))"

lemma create_session_eq:
  "create_session env now uid ip ua w =
     (Inr (new_session env now uid ip ua w),
      w\<lparr>w_draws := w_draws w + 3, w_auth := auth_execute (InsertSession (is_row (new_session env now uid ip ua w))) (w_auth w)\<rparr>)"
  by (simp add: new_session_def create_session_def Let_def)

lemma new_session_fields [simp]:
  "is_raw_token (new_session env now uid ip ua w) = ev_random env (DrawToken 48) (w_draws w)"
  "se_token_hash (is_row (new_session env now uid ip ua w)) = token_hash_of env (w_draws w)"
  "se_user_id (is_row (new_session env now uid ip ua w)) = uid"
  "se_expires_at (is_row (new_session env now uid ip ua w)) = now + au_session_ttl_seconds (ev_settings env) * 1000"
  "se_revoked_at (is_row (new_session env now uid ip ua w)) = None"
  by (simp_all add: new_session_def create_session_def Let_def token_hash_of_def)

lemma new_session_lookup:
  assumes "sessions_ok env w" and "distinct_tokens env"
    and "ev_random env (DrawToken 48) (w_draws w) \<noteq> []"
    and "t \<le> now + au_session_ttl_seconds (ev_settings env) * 1000"
    and "t_sessions a = dset (se_session_id s) s (t_sessions (w_auth w))"
    and "s = is_row (new_session env now uid ip ua w)"
  shows "lookup_session (ev_prims env) t (ev_random env (DrawToken 48) (w_draws w)) a = Some s"
proof -
  let ?h = "token_hash_of env (w_draws w)"
  have "session_by_token a ?h = Some s"
    unfolding session_by_token_def
  proof (rule find_values_unique)
    show "dict_ok (t_sessions a)" using assms(1,5) by (simp add: sessions_ok_def)
    show "dget (t_sessions a) (se_session_id s) = Some s" using assms(5) by simp
    show "se_token_hash s = ?h" using assms(6) by simp
    fix k' r' assume r: "dget (t_sessions a) k' = Some r'" and h: "se_token_hash r' = ?h"
    show "k' = se_session_id s"
    proof (rule ccontr)
      assume "k' \<noteq> se_session_id s"
      with r assms(5) have "dget (t_sessions (w_auth w)) k' = Some r'" by simp
      with assms(1) h have "drawn env w ?h" unfolding sessions_ok_def by metis
      with not_drawn_next[OF assms(2) order_refl] show False by blast
    qed
  qed
  with assms(3,4,6) show ?thesis by (simp add: lookup_session_def token_hash_of_def)
qed

text \<open>What precedes the new session: the count is reset, the status with it, perhaps a new hash.\<close>

definition settle_sign_in :: "auth_env \<Rightarrow> int \<Rightarrow> string \<Rightarrow> user_row \<Rightarrow> bool \<Rightarrow> unit action" where
  "settle_sign_in env now password u needs_rehash =
     act_seq (reset_failed_login now (u_user_id u))
       (act_when needs_rehash
         (act_bind (hash_new_password env password) (\<lambda>h. update_password_hash now (u_user_id u) h)))"

lemma settle_sign_in_result:
  obtains w' where "settle_sign_in env now pw u b w = (Inr (), w')"
    and "t_sessions (w_auth w') = t_sessions (w_auth w)" and "t_memberships (w_auth w') = t_memberships (w_auth w)"
    and "w_draws w \<le> w_draws w'"
    and "\<forall>r. dget (t_users (w_auth w)) (u_user_id u) = Some r \<longrightarrow> (\<exists>r'. dget (t_users (w_auth w')) (u_user_id u) = Some r'
      \<and> u_user_id r' = u_user_id r \<and> u_email r' = u_email r
      \<and> u_status r' = (if u_status r = US_LOCKED then US_ACTIVE else u_status r))"
  by (rule that[of "snd (settle_sign_in env now pw u b w)"])
    (cases b; simp add: settle_sign_in_def reset_failed_login_def hash_new_password_def update_password_hash_def)+

lemma admit_sign_in_alt:
  "admit_sign_in env now rq pw u b =
     act_seq (settle_sign_in env now pw u b)
     (act_bind (act_query (\<lambda>t. primary_membership t (u_user_id u))) (\<lambda>m.
        case m of
          None \<Rightarrow> act_raise (app_err 403 FORBIDDEN)
        | Some (org_id, r) \<Rightarrow>
            act_bind (create_session env now (u_user_id u) (client_ip (hr_headers rq) (hr_client_host rq)) (user_agent_of rq)) (\<lambda>sess.
            act_seq (insert_audit env now SIGN_IN_OK (Some (u_user_id u)) (Some org_id)
               (client_ip (hr_headers rq) (hr_client_host rq)) (user_agent_of rq) [])
           (act_return
              (\<lparr>sr_user_id = u_user_id u, sr_email = u_email u, sr_role = r, sr_org_id = org_id,
                sr_csrf_token = is_csrf_token sess, sr_requires_totp = False\<rparr>,
               build_cookie (ev_settings env) (is_raw_token sess))))))"
  by (simp add: admit_sign_in_def settle_sign_in_def Let_def)

lemma admit_sign_in_cases:
  obtains w1 where "settle_sign_in env now pw u b w = (Inr (), w1)"
    and "primary_membership (w_auth w) (u_user_id u) = None \<Longrightarrow>
       admit_sign_in env now rq pw u b w = (Inl (app_err 403 FORBIDDEN), w1)"
    and "\<And>org r. primary_membership (w_auth w) (u_user_id u) = Some (org, r) \<Longrightarrow>
       let s = new_session env now (u_user_id u) (client_ip (hr_headers rq) (hr_client_host rq)) (user_agent_of rq) w1 in
       \<exists>w'. admit_sign_in env now rq pw u b w =
         (Inr (\<lparr>sr_user_id = u_user_id u, sr_email = u_email u, sr_role = r, sr_org_id = org,
                sr_csrf_token = is_csrf_token s, sr_requires_totp = False\<rparr>,
               build_cookie (ev_settings env) (is_raw_token s)), w')
         \<and> t_sessions (w_auth w') = dset (se_session_id (is_row s)) (is_row s) (t_sessions (w_auth w1))
         \<and> t_users (w_auth w') = t_users (w_auth w1) \<and> t_memberships (w_auth w') = t_memberships (w_auth w1)"
proof -
  obtain w1 where w1: "settle_sign_in env now pw u b w = (Inr (), w1)"
      and m: "t_memberships (w_auth w1) = t_memberships (w_auth w)"
    by (rule settle_sign_in_result)
  then have pm: "primary_membership (w_auth w1) (u_user_id u) = primary_membership (w_auth w) (u_user_id u)"
    by (intro primary_membership_cong)
  show ?thesis
    by (rule that[OF w1])
      (simp_all add: admit_sign_in_alt act_seq_def[of "settle_sign_in env now pw u b"] act_bind_def[of "settle_sign_in env now pw u b"]
        w1 pm act_bind_Inr[OF create_session_eq] Let_def)
qed

text \<open>The second half of a sign-in: the gate of the second factor, then the admission.\<close>

definition finish_sign_in where
  "finish_sign_in env now rq e pw code u b = act_seq (totp_gate env now rq e code u) (admit_sign_in env now rq pw u b)"

lemma finish_sign_in_cases:
  obtains (refused) f where "fst (finish_sign_in env now rq e pw code u b w) = Inl f"
      and "\<not> (second_factor_ok env now (w_auth w) u code \<and> primary_membership (w_auth w) (u_user_id u) \<noteq> None)"
  | (admitted) w2 where "second_factor_ok env now (w_auth w) u code"
      and "primary_membership (w_auth w) (u_user_id u) \<noteq> None"
      and "frame t_sessions w w2" and "frame t_memberships w w2" and "frame t_users w w2"
      and "finish_sign_in env now rq e pw code u b w = admit_sign_in env now rq pw u b w2"
proof -
  obtain g w2 where g: "totp_gate env now rq e code u w = (g, w2)" by fastforce
  have fr: "frame t_sessions w w2" "frame t_memberships w w2" "frame t_users w w2"
    using frame_totp_gate[where env = env and now = now and rq = rq and e = e and code = code and u = u]
    by (metis (no_types, lifting) g keeps_def snd_conv auth_execute.simps(9) auth_tables.ext_inject
        auth_tables.surjective auth_tables.update_convs(9))+
  have ok: "is_ok g = second_factor_ok env now (w_auth w) u code"
    using totp_gate_iff[of env now rq e code u w] g by simp
  have pm: "primary_membership (w_auth w2) (u_user_id u) = primary_membership (w_auth w) (u_user_id u)"
    using fr(2) by (intro primary_membership_cong) (simp add: frame_def)
  show ?thesis
  proof (cases g)
    case (Inl f)
    with g ok show ?thesis by (intro refused[of f]) (simp_all add: finish_sign_in_def act_seq_def act_bind_def)
  next
    case (Inr x)
    then have eq: "finish_sign_in env now rq e pw code u b w = admit_sign_in env now rq pw u b w2"
      using g by (simp add: finish_sign_in_def act_seq_def act_bind_def)
    show ?thesis
    proof (cases "primary_membership (w_auth w) (u_user_id u)")
      case None
      with admit_sign_in_cases[of env now pw u b w2 rq] eq pm show ?thesis
        by (metis refused fst_conv)
    next
      case (Some m)
      with Inr ok fr eq show ?thesis by (intro admitted[of w2]) simp_all
    qed
  qed
qed

text \<open>The checks on a user that was found.\<close>

definition check_sign_in ::
  "auth_env \<Rightarrow> int \<Rightarrow> http_request \<Rightarrow> string \<Rightarrow> string \<Rightarrow> string option \<Rightarrow> user_row \<Rightarrow> (sign_in_response \<times> cookie) action" where
  "check_sign_in env now rq email password totp_code u =
     (let ip = client_ip (hr_headers rq) (hr_client_host rq); ua = user_agent_of rq in
      if u_status u = US_DISABLED
      then sign_in_fail env now rq email (Some (u_user_id u)) ''disabled''
      else if lockout_is_active now u
      then act_seq (insert_audit env now SIGN_IN_LOCKED (Some (u_user_id u)) None ip ua
            [(''locked_until'', case u_locked_until u of None \<Rightarrow> JNull | Some t \<Rightarrow> JInt t)])
          (act_raise (app_err 401 UNAUTHORIZED))
      else
        act_bind (act_lift (lift_py (verify_password (ev_prims env) (ev_hasher env) password
            (u_password_hash u) (u_password_pepper_kid u)))) (\<lambda>v.
        if \<not> vr_ok v
        then act_seq (record_failed_login env now (u_user_id u) ip ua)
               (sign_in_fail env now rq email (Some (u_user_id u)) ''password'')
        else finish_sign_in env now rq email password totp_code u (vr_needs_rehash v)))"

abbreviation sign_in_limited :: "int \<Rightarrow> http_request \<Rightarrow> world \<Rightarrow> bool" where
  "sign_in_limited now rq w \<equiv>
     over_limit now (rate_limit_config_of ''sign-in'') rq (client_ip (hr_headers rq) (hr_client_host rq)) w"

abbreviation sign_in_counted :: "int \<Rightarrow> http_request \<Rightarrow> world \<Rightarrow> world" where
  "sign_in_counted now rq w \<equiv>
     counted now (rate_limit_config_of ''sign-in'') rq (client_ip (hr_headers rq) (hr_client_host rq)) w"

lemma sign_in_alt:
  "sign_in env now rq e pw code w =
     (if sign_in_limited now rq w then (Inl (app_err 429 RATE_LIMITED), sign_in_counted now rq w)
      else (case user_by_email (w_auth w) e of
          None \<Rightarrow> sign_in_fail env now rq e None ''unknown_email''
        | Some u \<Rightarrow> check_sign_in env now rq e pw code u) (sign_in_counted now rq w))"
  unfolding check_sign_in_def finish_sign_in_def
  by (cases "user_by_email (w_auth w) e")
    (simp_all add: sign_in_def Let_def act_seq_def[of "enforce_or_block a b c d" for a b c d]
      act_bind_def[of "enforce_or_block a b c d" for a b c d] enforce_or_block_eq)

lemma act_seq_fail: "(\<And>w. \<exists>f. fst (n w) = Inl f) \<Longrightarrow> \<exists>f. fst (act_seq m n w) = Inl f"
  by (auto simp: act_seq_def act_bind_def split: sum.splits prod.splits)

lemma sign_in_cases:
  obtains (refused) f where "fst (sign_in env now rq e pw code w) = Inl f"
      and "\<not> sign_in_allowed env now rq e pw code w"
  | (admitted) u b w2 where "sign_in_allowed env now rq e pw code w"
      and "user_by_email (w_auth w) e = Some u"
      and "frame t_sessions w w2" and "frame t_memberships w w2" and "frame t_users w w2"
      and "sign_in env now rq e pw code w = admit_sign_in env now rq pw u b w2"
proof -
  let ?w = "sign_in_counted now rq w"
  show ?thesis
  proof (cases "sign_in_limited now rq w \<or> user_by_email (w_auth w) e = None")
    case True
    then have "\<exists>f. fst (sign_in env now rq e pw code w) = Inl f"
      using sign_in_fail_Inl[of env now rq e None "''unknown_email''" ?w] by (auto simp: sign_in_alt)
    moreover have "\<not> sign_in_allowed env now rq e pw code w"
      using True by (auto simp: sign_in_allowed_def)
    ultimately show ?thesis using refused by blast
  next
    case False
    then obtain u where u: "user_by_email (w_auth w) e = Some u" by auto
    have eq: "sign_in env now rq e pw code w = check_sign_in env now rq e pw code u ?w"
      using False u by (simp add: sign_in_alt)
    let ?verify = "verify_password (ev_prims env) (ev_hasher env) pw (u_password_hash u) (u_password_pepper_kid u)"
    show ?thesis
    proof (cases "u_status u \<noteq> US_DISABLED \<and> \<not> lockout_is_active now u \<and> (case ?verify of Inl _ \<Rightarrow> False | Inr v \<Rightarrow> vr_ok v)")
      case True
      then obtain v where v: "?verify = Inr v" "vr_ok v" by (auto split: sum.splits)
      have eq2: "sign_in env now rq e pw code w = finish_sign_in env now rq e pw code u (vr_needs_rehash v) ?w"
        using True v by (simp add: eq check_sign_in_def Let_def)
      have al: "sign_in_allowed env now rq e pw code w =
          (second_factor_ok env now (w_auth w) u code \<and> primary_membership (w_auth w) (u_user_id u) \<noteq> None)"
        using False True u v by (simp add: sign_in_allowed_def)
      show ?thesis
      proof (rule finish_sign_in_cases[of env now rq e pw code u "vr_needs_rehash v" ?w])
        fix f assume "fst (finish_sign_in env now rq e pw code u (vr_needs_rehash v) ?w) = Inl f"
          and "\<not> (second_factor_ok env now (w_auth ?w) u code \<and> primary_membership (w_auth ?w) (u_user_id u) \<noteq> None)"
        with eq2 al show ?thesis by (intro refused) simp_all
      next
        fix w2 assume "second_factor_ok env now (w_auth ?w) u code" "primary_membership (w_auth ?w) (u_user_id u) \<noteq> None"
          and "frame t_sessions ?w w2" "frame t_memberships ?w w2" "frame t_users ?w w2"
          and "finish_sign_in env now rq e pw code u (vr_needs_rehash v) ?w = admit_sign_in env now rq pw u (vr_needs_rehash v) w2"
        with eq2 al u show ?thesis by (intro admitted[of u w2]) (simp_all add: frame_def)
      qed
    next
      case no: False
      have wrong: "\<exists>f. fst (act_seq m (sign_in_fail env now rq e (Some (u_user_id u)) ''password'') ?w) = Inl f"
        for m :: "(int \<times> int option) action"
        by (rule act_seq_fail) (rule sign_in_fail_Inl)
      have "\<exists>f. fst (check_sign_in env now rq e pw code u ?w) = Inl f"
        using no sign_in_fail_Inl[of env now rq e "Some (u_user_id u)" "''disabled''" ?w]
          wrong
        by (cases ?verify) (auto simp: check_sign_in_def Let_def)
      moreover have "\<not> sign_in_allowed env now rq e pw code w"
        using no u by (auto simp: sign_in_allowed_def)
      ultimately show ?thesis using refused eq by auto
    qed
  qed
qed

section \<open>The theorem\<close>

text \<open>The cookie of a request stands for a user in an organisation with a role.\<close>

definition stands_for :: "auth_env \<Rightarrow> int \<Rightarrow> http_request \<Rightarrow> auth_tables \<Rightarrow> string \<Rightarrow> string \<Rightarrow> role \<Rightarrow> bool" where
  "stands_for env now rq t user_id org_id r =
     (case session_of_cookie env now rq t of
        None \<Rightarrow> False
      | Some (s, p) \<Rightarrow> p_user_id p = user_id \<and> p_org_id p = org_id \<and> p_role p = r)"

definition cookie_request :: "auth_env \<Rightarrow> cookie \<Rightarrow> http_request \<Rightarrow> bool" where
  "cookie_request env ck rq = (dget (hr_cookies rq) (au_cookie_name (ev_settings env)) = Some (ck_value ck))"

lemma sessions_ok_frame: "frame t_sessions w w' \<Longrightarrow> sessions_ok env w \<Longrightarrow> sessions_ok env w'"
  by (auto simp: frame_def sessions_ok_def intro: drawn_mono)

lemma admit_sign_in_is_ok:
  assumes "primary_membership (w_auth w) (u_user_id u) \<noteq> None"
  shows "is_ok (fst (admit_sign_in env now rq pw u b w))"
proof -
  from assms obtain org r where "primary_membership (w_auth w) (u_user_id u) = Some (org, r)" by auto
  then show ?thesis
    by (rule_tac admit_sign_in_cases[of env now pw u b w rq]) (auto simp: Let_def)
qed

lemma admitted_cookie_resolves:
  assumes "sessions_ok env w" and "distinct_tokens env" and "\<And>n. ev_random env (DrawToken 48) n \<noteq> []"
    and user: "dget (t_users (w_auth w)) (u_user_id u) = Some u" and "u_status u \<noteq> US_DISABLED"
    and pm: "primary_membership (w_auth w) (u_user_id u) \<noteq> None"
    and out: "admit_sign_in env now rq pw u b w = (Inr (resp, ck), w')"
    and t: "t \<le> now + au_session_ttl_seconds (ev_settings env) * 1000" and rq': "cookie_request env ck rq'"
  shows "sr_user_id resp = u_user_id u
    \<and> primary_membership (w_auth w) (u_user_id u) = Some (sr_org_id resp, sr_role resp)
    \<and> stands_for env t rq' (w_auth w') (sr_user_id resp) (sr_org_id resp) (sr_role resp)"
proof -
  obtain org r where m: "primary_membership (w_auth w) (u_user_id u) = Some (org, r)" using pm by auto
  obtain w1 where w1: "settle_sign_in env now pw u b w = (Inr (), w1)"
      and fr: "t_sessions (w_auth w1) = t_sessions (w_auth w)" "t_memberships (w_auth w1) = t_memberships (w_auth w)"
        "w_draws w \<le> w_draws w1"
      and us: "\<forall>r. dget (t_users (w_auth w)) (u_user_id u) = Some r \<longrightarrow> (\<exists>r'. dget (t_users (w_auth w1)) (u_user_id u) = Some r'
        \<and> u_user_id r' = u_user_id r \<and> u_email r' = u_email r
        \<and> u_status r' = (if u_status r = US_LOCKED then US_ACTIVE else u_status r))"
    by (rule settle_sign_in_result)
  define s where "s = new_session env now (u_user_id u) (client_ip (hr_headers rq) (hr_client_host rq)) (user_agent_of rq) w1"
  have res: "resp = \<lparr>sr_user_id = u_user_id u, sr_email = u_email u, sr_role = r, sr_org_id = org,
          sr_csrf_token = is_csrf_token s, sr_requires_totp = False\<rparr>"
      "ck = build_cookie (ev_settings env) (is_raw_token s)"
      "t_sessions (w_auth w') = dset (se_session_id (is_row s)) (is_row s) (t_sessions (w_auth w1))"
      "t_users (w_auth w') = t_users (w_auth w1)" "t_memberships (w_auth w') = t_memberships (w_auth w1)"
    using admit_sign_in_cases[of env now pw u b w rq] w1 m out by (auto simp: s_def Let_def)
  have ok1: "sessions_ok env w1"
    by (rule sessions_ok_frame[OF _ assms(1)]) (simp add: frame_def fr)
  have look: "lookup_session (ev_prims env) t (ev_random env (DrawToken 48) (w_draws w1)) (w_auth w') = Some (is_row s)"
    using ok1 assms(2,3) t res(3) by (rule new_session_lookup) (simp add: s_def)
  obtain u' where u': "dget (t_users (w_auth w')) (u_user_id u) = Some u'" "u_user_id u' = u_user_id u"
      "u_status u' = US_ACTIVE"
    using us user assms(5) res(4) by (cases "u_status u") auto
  have pm': "primary_membership (w_auth w') (u_user_id u) = Some (org, r)"
    using m fr(2) res(5) by (metis primary_membership_cong)
  have "dget (hr_cookies rq') (au_cookie_name (ev_settings env)) = Some (ev_random env (DrawToken 48) (w_draws w1))"
    using rq' res(2) by (simp add: cookie_request_def build_cookie_def s_def)
  with look u' pm' assms(3) have "session_of_cookie env t rq' (w_auth w') = Some (is_row s, session_principal (is_row s) u' org r)"
    by (simp add: session_of_cookie_def nonempty_def user_by_id_def s_def)
  with m u'(2) res(1) show ?thesis by (simp add: session_principal_def stands_for_def)
qed

text \<open>
C26. A sign-in succeeds exactly when the address is within its rate limit, the user exists, is
neither disabled nor locked out, the password verifies, the second factor, where enabled, is
valid, and the user belongs to an organisation.  The cookie of a successful sign-in then stands for
that user in the user's primary organisation with the role held there, as the response says, until
the session expires.
\<close>

theorem sign_in_correct:
  assumes "tables_ok (w_auth w)" and "sessions_ok env w" and "distinct_tokens env"
    and "\<And>n. ev_random env (DrawToken 48) n \<noteq> []"
    and "sign_in env now rq email pw code w = (out, w')"
  shows "is_ok out = sign_in_allowed env now rq email pw code w \<and>
    (\<forall>resp ck t rq'. out = Inr (resp, ck) \<longrightarrow> cookie_request env ck rq' \<longrightarrow>
       t \<le> now + au_session_ttl_seconds (ev_settings env) * 1000 \<longrightarrow>
       map_option u_user_id (user_by_email (w_auth w) email) = Some (sr_user_id resp)
       \<and> primary_membership (w_auth w) (sr_user_id resp) = Some (sr_org_id resp, sr_role resp)
       \<and> stands_for env t rq' (w_auth w') (sr_user_id resp) (sr_org_id resp) (sr_role resp))"
proof (cases rule: sign_in_cases[of env now rq email pw code w])
  case (refused f)
  with assms(5) show ?thesis by simp
next
  case (admitted u b w2)
  have k: "dget (t_users (w_auth w)) (u_user_id u) = Some u"
    using admitted(2) assms(1) keyed_value[of u_user_id "t_users (w_auth w)" u]
    by (auto simp: user_by_email_def tables_ok_def find_Some_iff)
  have al: "u_status u \<noteq> US_DISABLED" "primary_membership (w_auth w) (u_user_id u) \<noteq> None"
    using admitted(1,2) by (simp_all add: sign_in_allowed_def)
  have pm: "primary_membership (w_auth w2) (u_user_id u) = primary_membership (w_auth w) (u_user_id u)"
    using admitted(4) by (intro primary_membership_cong) (simp add: frame_def)
  have k2: "dget (t_users (w_auth w2)) (u_user_id u) = Some u" using k admitted(5) by (simp add: frame_def)
  have ok2: "sessions_ok env w2" by (rule sessions_ok_frame[OF admitted(3) assms(2)])
  have "is_ok out"
    using admit_sign_in_is_ok[of w2 u env now rq pw b] al(2) pm admitted(6) assms(5)
    by (metis fst_conv)
  moreover have "sr_user_id resp = u_user_id u
      \<and> primary_membership (w_auth w) (u_user_id u) = Some (sr_org_id resp, sr_role resp)
      \<and> stands_for env t rq' (w_auth w') (sr_user_id resp) (sr_org_id resp) (sr_role resp)"
    if "out = Inr (resp, ck)" "cookie_request env ck rq'" "t \<le> now + au_session_ttl_seconds (ev_settings env) * 1000"
    for resp ck t rq'
    using admitted_cookie_resolves[OF ok2 assms(3,4) k2 al(1) _ _ that(3,2), of rq pw b resp w'] al(2) pm admitted(6)
      assms(5) that(1) by auto
  moreover have "is_ok out = sign_in_allowed env now rq email pw code w"
    using calculation(1) admitted(1) by simp
  ultimately show ?thesis using admitted(2) by (simp add: conj_commute) metis
qed

lemma demo_distinct_tokens: "distinct_tokens demo_auth_env"
  by (rule distinct_tokens_def[THEN iffD2])
    (auto intro!: injI simp: token_hash_of_def sha256_hex_def demo_prims_def hexdigest_inject utf8_inject)

lemma demo_tables_ok: "tables_ok (w_auth demo_world)"
  by (simp add: tables_ok_def keyed_def dict_ok_def demo_world_def empty_world_def)

lemma demo_sessions_ok: "sessions_ok env demo_world"
  by (simp add: sessions_ok_def demo_world_def empty_world_def)

lemma demo_not_limited: "\<not> over_limit now cfg rq fb demo_world"
  by (simp add: over_limit_def increment_and_check_def cache_get_def cache_live_def demo_world_def empty_world_def
      empty_storage_def)

lemma demo_allowed: "sign_in_allowed demo_auth_env 1000 (request_with [] []) ''A@x'' ''secret-pw'' None demo_world"
  by (simp add: sign_in_allowed_def demo_lookup demo_verify second_factor_ok_def lockout_is_active_def demo_not_limited)

theorem sign_in_correct_witness:
  "is_ok (fst (sign_in demo_auth_env 1000 (request_with [] []) ''A@x'' ''secret-pw'' None demo_world))"
  using sign_in_correct[OF demo_tables_ok demo_sessions_ok demo_distinct_tokens _ prod.collapse[symmetric],
      of 1000 "request_with [] []" "''A@x''" "''secret-pw''" None] demo_allowed
  by simp


section \<open>A session of the demo ends\<close>

lemma sign_out_ok:
  assumes "au_mode (ev_settings env) = MODE_ENTERPRISE" and "session_of_cookie env now rq (w_auth w) = Some (s, p)"
  shows "\<exists>w'. auth_serve env now rq SignOut w = (Inr OkResponse, w')"
  using principal_of_cookie[OF assms] session_of_cookie_principal[OF assms(2)]
  by (simp add: with_principal_def act_bind_def respond_ok_def sign_out_def act_seq_def revoke_session_def insert_audit_eq)

lemma session_of_cookie_lookup:
  assumes "session_of_cookie env now rq t = Some (s, p)"
  obtains raw where "dget (hr_cookies rq) (au_cookie_name (ev_settings env)) = Some raw"
    and "lookup_session (ev_prims env) now raw t = Some s"
  using assms by (auto simp: session_of_cookie_def nonempty_def split: option.splits if_splits)

abbreviation demo_after_sign_in :: world where
  "demo_after_sign_in \<equiv> app_run demo_auth_env [(1000, AuthStep (request_with [] []) demo_sign_in)] demo_world"

lemma demo_signed_in:
  obtains rq s p where "session_of_cookie demo_auth_env 2000 rq (w_auth demo_after_sign_in) = Some (s, p)"
proof -
  let ?rq = "request_with [] []"
  obtain out w' where out: "sign_in demo_auth_env 1000 ?rq ''A@x'' ''secret-pw'' None demo_world = (out, w')" by fastforce
  have step: "demo_after_sign_in = w'"
    by (auto simp: app_step_def demo_sign_in_def respond_signed_in_def act_bind_def out split: sum.splits)
  show ?thesis
  proof (cases rule: sign_in_cases[of demo_auth_env 1000 ?rq "''A@x''" "''secret-pw''" None demo_world])
    case (refused f)
    with demo_allowed show ?thesis by simp
  next
    case (admitted u b w2)
    then have u: "u = demo_user" by (simp add: demo_lookup)
    have pm: "primary_membership (w_auth w2) (u_user_id u) \<noteq> None"
      using admitted(4) demo_lookup(2) u primary_membership_cong[of "w_auth w2" "w_auth demo_world"]
      by (auto simp: frame_def)
    then have "is_ok out"
      using admit_sign_in_is_ok[of w2 u demo_auth_env 1000 ?rq "''secret-pw''" b] admitted(6) out by (metis fst_conv)
    then obtain resp ck where o: "out = Inr (resp, ck)" by (cases out) auto
    have k: "dget (t_users (w_auth w2)) (u_user_id u) = Some u"
      using admitted(5) u by (simp add: frame_def demo_world_def)
    define rq' where "rq' = request_with [] [(''shield_session'', ck_value ck)]"
    have rq': "cookie_request demo_auth_env ck rq'"
      by (simp add: cookie_request_def rq'_def request_with_def demo_settings_def)
    have "stands_for demo_auth_env 2000 rq' (w_auth w') (sr_user_id resp) (sr_org_id resp) (sr_role resp)"
      using admitted_cookie_resolves[OF sessions_ok_frame[OF admitted(3) demo_sessions_ok] demo_distinct_tokens _ k _ pm _ _ rq',
          of 1000 ?rq "''secret-pw''" b resp w' 2000, THEN conjunct2, THEN conjunct2] admitted(6) out o u
      by (simp add: demo_settings_def)
    then show ?thesis using that step by (auto simp: stands_for_def split: option.splits)
  qed
qed

theorem ended_session_never_resolves_witness:
  "\<exists>rq raw s w'. lookup_session demo_prims 2000 raw (w_auth demo_after_sign_in) = Some s
    \<and> auth_serve demo_auth_env 2000 rq SignOut demo_after_sign_in = (Inr OkResponse, w')
    \<and> lookup_session demo_prims 2600 raw
        (w_auth (app_run demo_auth_env [(2500, AuthStep (request_with [] []) demo_sign_in)] w')) = None"
proof -
  have ent: "au_mode (ev_settings demo_auth_env) = MODE_ENTERPRISE" by (simp add: demo_settings_def)
  have start: "t_sessions (w_auth demo_world) = []" by (simp add: demo_world_def empty_world_def)
  obtain rq s p where c: "session_of_cookie demo_auth_env 2000 rq (w_auth demo_after_sign_in) = Some (s, p)"
    by (rule demo_signed_in)
  obtain raw where l: "lookup_session (ev_prims demo_auth_env) 2000 raw (w_auth demo_after_sign_in) = Some s"
    by (rule session_of_cookie_lookup[OF c])
  obtain w' where out: "auth_serve demo_auth_env 2000 rq SignOut demo_after_sign_in = (Inr OkResponse, w')"
    using sign_out_ok[OF ent c] by blast
  have e: "ends_session demo_auth_env 2000 rq demo_after_sign_in s SignOut"
    by (simp only: ends_session.simps c option.case prod.case)
  have "lookup_session (ev_prims demo_auth_env) 2600 raw
      (w_auth (app_run demo_auth_env [(2500, AuthStep (request_with [] []) demo_sign_in)] w')) = None"
    by (rule ended_session_never_resolves[OF demo_distinct_tokens ent start refl l e out])
  with l out show ?thesis unfolding demo_env_simps by blast
qed

end
