(* ===== verification/AuthTokens.thy ===== *)
theory AuthTokens
  imports AuthSignIn
begin

text \<open>
  Single-use tokens (\<open>tokens.py\<close>) over every run: a token that has been consumed is refused from
  then on, whatever else is served, and the refusal changes nothing.
\<close>

section \<open>The rows of a kind of token\<close>

text \<open>Every row stands under the hash of a token that was drawn.\<close>

definition tokens_drawn :: "auth_env \<Rightarrow> token_kind \<Rightarrow> world \<Rightarrow> bool" where
  "tokens_drawn env kind w \<longleftrightarrow> (\<forall>h r. dget (token_table kind (w_auth w)) h = Some r \<longrightarrow> drawn env w h)"

definition spent :: "token_kind \<Rightarrow> string \<Rightarrow> world \<Rightarrow> bool" where
  "spent kind h w \<longleftrightarrow> (\<exists>r. dget (token_table kind (w_auth w)) h = Some r \<and> tk_consumed_at r \<noteq> None)"

definition token_order :: "auth_env \<Rightarrow> token_kind \<Rightarrow> string \<Rightarrow> world \<Rightarrow> world \<Rightarrow> bool" where
  "token_order env kind h w w' \<longleftrightarrow> w_draws w \<le> w_draws w' \<and>
     (distinct_tokens env \<longrightarrow> tokens_drawn env kind w \<longrightarrow>
        tokens_drawn env kind w' \<and> (spent kind h w \<longrightarrow> spent kind h w'))"

lemma token_order_frame: "frame (token_table kind) w w' \<Longrightarrow> token_order env kind h w w'"
  by (auto simp: frame_def token_order_def tokens_drawn_def spent_def intro: drawn_mono)

lemma token_order_keeps: "keeps (frame (token_table kind)) m \<Longrightarrow> keeps (token_order env kind h) m"
  by (simp add: keeps_def token_order_frame)

fun stores_token :: "auth_stmt \<Rightarrow> bool" where
  "stores_token (InsertResetToken _ _ _ _) = True"
| "stores_token (InsertVerifyToken _ _ _ _) = True"
| "stores_token _ = False"

text \<open>Any statement but the insertion of a token keeps the rows and what has been consumed.\<close>

lemma token_order_sql:
  assumes "\<not> stores_token q"
  shows "keeps (token_order env kind h) (act_sql q)"
  using assms
  by (cases q; cases kind)
    (auto simp: keeps_def token_order_def tokens_drawn_def spent_def drawn_def split: if_splits)

lemma insert_token_table:
  "token_table kind (auth_execute (insert_token kind h u e now) t) =
     dset h \<lparr>tk_token_hash = h, tk_user_id = u, tk_expires_at = e, tk_consumed_at = None, tk_created_at = now\<rparr>
       (token_table kind t)"
  "kind' \<noteq> kind \<Longrightarrow> token_table kind' (auth_execute (insert_token kind h u e now) t) = token_table kind' t"
  by (cases kind; cases kind'; simp)+

lemma token_order_issue: "keeps (token_order env kind h) (issue_token env now kind' uid)"
  unfolding keeps_def
proof
  fix w
  let ?w = "snd (issue_token env now kind' uid w)"
  have draws: "w_draws ?w = Suc (w_draws w)" by (simp add: issue_token_def Let_def)
  show "token_order env kind h w ?w"
  proof (cases "kind = kind'")
    case False
    then have "frame (token_table kind) w ?w"
      by (simp add: frame_def issue_token_def Let_def insert_token_table)
    then show ?thesis by (rule token_order_frame)
  next
    case True
    have rows: "dget (token_table kind (w_auth ?w)) k =
        (if k = token_hash_of env (w_draws w)
         then Some \<lparr>tk_token_hash = token_hash_of env (w_draws w), tk_user_id = uid, tk_expires_at = now + token_ttl kind,
           tk_consumed_at = None, tk_created_at = now\<rparr>
         else dget (token_table kind (w_auth w)) k)" for k
      by (simp add: True issue_token_def Let_def insert_token_table token_hash_of_def)
    have new: "drawn env ?w (token_hash_of env (w_draws w))" using draws by (auto simp: drawn_def)
    have old: "drawn env w k \<Longrightarrow> drawn env ?w k" for k using drawn_mono[of env w k ?w] draws by simp
    have fresh: "\<not> drawn env w (token_hash_of env (w_draws w))" if "distinct_tokens env"
      using not_drawn_next[OF that order_refl] .
    show ?thesis
      unfolding token_order_def
    proof (intro conjI impI)
      show "w_draws w \<le> w_draws ?w" using draws by simp
    next
      assume "tokens_drawn env kind w"
      with new old show "tokens_drawn env kind ?w"
        unfolding tokens_drawn_def rows by (simp split: if_splits)
    next
      assume "distinct_tokens env" and ok: "tokens_drawn env kind w" and "spent kind h w"
      then obtain r where r: "dget (token_table kind (w_auth w)) h = Some r" "tk_consumed_at r \<noteq> None"
        by (auto simp: spent_def)
      with ok have "drawn env w h" by (simp add: tokens_drawn_def)
      with fresh[OF \<open>distinct_tokens env\<close>] have "h \<noteq> token_hash_of env (w_draws w)" by auto
      with r show "spent kind h ?w" unfolding spent_def rows by simp
    qed
  qed
qed

interpretation token_step: world_relation "token_order env kind h" for env kind h
  by unfold_locales (auto simp: token_order_def)

lemma neutral_not_token: "neutral q \<Longrightarrow> \<not> stores_token q"
  by (cases q) simp_all

lemma token_table_other [simp]:
  "token_table kind (t\<lparr>t_users := a\<rparr>) = token_table kind t"
  "token_table kind (t\<lparr>t_sessions := b\<rparr>) = token_table kind t"
  "token_table kind (t\<lparr>t_memberships := c\<rparr>) = token_table kind t"
  "token_table kind (t\<lparr>t_invites := d\<rparr>) = token_table kind t"
  "token_table kind (t\<lparr>t_api_keys := e\<rparr>) = token_table kind t"
  "token_table kind (t\<lparr>t_audit_log_auth := f\<rparr>) = token_table kind t"
  by (cases kind; simp)+

interpretation tokens: auth_relation_all "token_order env kind h" env for env kind h
  by unfold_locales
    (simp_all add: token_order_issue token_order_sql neutral_not_token token_order_keeps frame_basic frame_blocks
      token_order_frame frame_def)

section \<open>Consuming\<close>

lemma consume_token_cases:
  obtains (refused) "consume_token env now kind raw w = (Inr None, w)"
  | (consumed) r where "dget (token_table kind (w_auth w)) (sha256_hex (ev_prims env) raw) = Some r"
      and "tk_consumed_at r = None" and "now \<le> tk_expires_at r"
      and "fst (consume_token env now kind raw w) = Inr (Some (tk_user_id r))"
      and "spent kind (sha256_hex (ev_prims env) raw) (snd (consume_token env now kind raw w))"
proof (cases "dget (token_table kind (w_auth w)) (sha256_hex (ev_prims env) raw)")
  case None
  then show ?thesis by (intro refused) (simp add: consume_token_def Let_def)
next
  case (Some r)
  show ?thesis
  proof (cases "tk_consumed_at r = None \<and> now \<le> tk_expires_at r")
    case True
    with Some show ?thesis
      by (intro consumed[of r]; cases kind) (simp_all add: consume_token_def Let_def spent_def)
  next
    case False
    with Some show ?thesis by (intro refused) (auto simp: consume_token_def Let_def)
  qed
qed

lemma spent_refused:
  "spent kind (sha256_hex (ev_prims env) raw) w \<Longrightarrow> consume_token env now kind raw w = (Inr None, w)"
  by (auto simp: spent_def consume_token_def Let_def)

text \<open>The route that completes what a kind of token was issued for.\<close>

fun completion :: "token_kind \<Rightarrow> string \<Rightarrow> string \<Rightarrow> auth_request" where
  "completion PasswordReset raw pw = ResetComplete raw pw"
| "completion EmailVerification raw pw = VerifyEmailComplete raw"

definition invalid_token :: failure where
  "invalid_token = detail_error 400 VALIDATION_ERROR ''reason'' ''invalid_or_expired_token''"

lemma completion_refused:
  assumes "consume_token env now kind raw w = (Inr None, w)"
  shows "auth_serve env now rq (completion kind raw pw) w = (Inl invalid_token, w)"
  using assms
  by (cases kind)
    (simp_all add: respond_ok_def password_reset_complete_def email_verify_complete_def invalid_token_def
      act_seq_def act_bind_def act_raise_def)

lemma completion_spends:
  assumes d: "distinct_tokens env" and ok: "tokens_drawn env kind w"
    and out: "auth_serve env now rq (completion kind raw pw) w = (Inr res, w')"
  shows "spent kind (sha256_hex (ev_prims env) raw) w' \<and> tokens_drawn env kind w'"
proof -
  let ?h = "sha256_hex (ev_prims env) raw" and ?w = "snd (consume_token env now kind raw w)"
  show ?thesis
  proof (cases rule: consume_token_cases[of env now kind raw w])
    case refused
    from completion_refused[OF this] out show ?thesis by simp
  next
    case (consumed r)
    have step: "keeps (token_order env kind ?h) (consume_token env now kind raw)"
      by (rule tokens.keeps_consume)
    then have ok1: "tokens_drawn env kind ?w" using d ok by (simp add: keeps_def token_order_def)
    obtain m :: "auth_response action" where m: "keeps (token_order env kind ?h) m"
        and eq: "auth_serve env now rq (completion kind raw pw) w = m ?w"
    proof (cases kind)
      case PasswordReset
      have "keeps (token_order env kind ?h) (respond_ok (act_bind (hash_new_password env pw) (\<lambda>h.
           act_seq (update_password_hash now (tk_user_id r) h)
          (act_seq (revoke_all_for_user now (tk_user_id r))
             (insert_audit env now PASSWORD_RESET_COMPLETE (Some (tk_user_id r)) None None None [])))))" (is "keeps _ ?m")
        unfolding update_password_hash_def revoke_all_for_user_def
        by (intro tokens.keeps_respond token_step.keeps_intros tokens.keeps_blocks token_order_sql; simp)
      moreover have "auth_serve env now rq (completion kind raw pw) w = ?m ?w"
        using consumed(4) PasswordReset
        by (cases "consume_token env now kind raw w")
          (simp add: respond_ok_def password_reset_complete_def act_seq_def act_bind_def)
      ultimately show ?thesis by (rule that)
    next
      case EmailVerification
      have "keeps (token_order env kind ?h) (respond_ok (act_seq (set_email_verified now (tk_user_id r))
             (insert_audit env now EMAIL_VERIFY_COMPLETE (Some (tk_user_id r)) None None None [])))" (is "keeps _ ?m")
        unfolding set_email_verified_def
        by (intro tokens.keeps_respond token_step.keeps_intros tokens.keeps_blocks token_order_sql; simp)
      moreover have "auth_serve env now rq (completion kind raw pw) w = ?m ?w"
        using consumed(4) EmailVerification
        by (cases "consume_token env now kind raw w")
          (simp add: respond_ok_def email_verify_complete_def act_seq_def act_bind_def)
      ultimately show ?thesis by (rule that)
    qed
    have "token_order env kind ?h ?w w'" using m eq out by (metis keeps_def snd_conv)
    with d ok1 consumed(5) show ?thesis by (simp add: token_order_def)
  qed
qed

section \<open>Once\<close>

lemma tokens_drawn_run:
  assumes "distinct_tokens env" and "token_table kind (w_auth w0) = []"
  shows "tokens_drawn env kind (app_run env ss w0)"
  using tokens.related_run[of env kind "[]" w0 ss] assms by (simp add: token_order_def tokens_drawn_def)

text \<open>
C29. A password reset token and an e-mail verification token work once: after a request with the
token has succeeded, every later request with it is answered by the error for an invalid token and
changes nothing, whatever has been served since and also when the clock goes back.
\<close>

theorem tokens_work_once:
  assumes "distinct_tokens env" and "token_table kind (w_auth w0) = []" and "w = app_run env earlier w0"
    and "auth_serve env now rq (completion kind raw pw) w = (Inr res, w')"
    and "w'' = app_run env later_steps w'"
  shows "auth_serve env t rq' (completion kind raw pw') w'' = (Inl invalid_token, w'')"
proof -
  let ?h = "sha256_hex (ev_prims env) raw"
  have "tokens_drawn env kind w" using tokens_drawn_run[OF assms(1,2)] assms(3) by simp
  from completion_spends[OF assms(1) this assms(4)]
  have "spent kind ?h w'" and "tokens_drawn env kind w'" by simp_all
  then have "spent kind ?h w''"
    using tokens.related_run[of env kind ?h w' later_steps] assms(1,5) by (simp add: token_order_def)
  then show ?thesis by (intro completion_refused spent_refused)
qed

text \<open>The demo user asks for a reset; the token drawn is \<open>t2\<close>.\<close>

abbreviation demo_reset_asked :: world where
  "demo_reset_asked \<equiv> app_run demo_auth_env [(1000, AuthStep (request_with [] []) (ResetRequest ''A@x''))] demo_world"

lemma demo_draws: "w_draws demo_world = 2" "show_nat 2 = ''2''"
  by (simp add: demo_world_def) code_simp

lemma demo_reset_row:
  obtains r where "dget (t_password_reset_tokens (w_auth demo_reset_asked)) (sha256_hex demo_prims ''t2'') = Some r"
    and "tk_consumed_at r = None" and "tk_expires_at r = 901000"
  by (rule that[of "\<lparr>tk_token_hash = sha256_hex demo_prims ''t2'', tk_user_id = ''u0'', tk_expires_at = 901000,
      tk_consumed_at = None, tk_created_at = 1000\<rparr>"])
    (simp_all add: app_step_def respond_ok_def password_reset_request_def demo_lookup enforce_or_block_eq demo_not_limited
      act_seq_def act_bind_def issue_token_def Let_def send_message_def insert_audit_def demo_draws PASSWORD_RESET_TTL_MS_def)

lemma demo_reset_completes:
  obtains w' where "auth_serve demo_auth_env 2000 rq (completion PasswordReset ''t2'' pw) demo_reset_asked = (Inr OkResponse, w')"
proof -
  obtain r where r: "dget (t_password_reset_tokens (w_auth demo_reset_asked)) (sha256_hex demo_prims ''t2'') = Some r"
      "tk_consumed_at r = None" "tk_expires_at r = 901000"
    by (rule demo_reset_row)
  show ?thesis
    by (rule that[of "snd (auth_serve demo_auth_env 2000 rq (completion PasswordReset ''t2'' pw) demo_reset_asked)"])
      (simp add: r respond_ok_def password_reset_complete_def consume_token_def Let_def hash_new_password_def
        update_password_hash_def revoke_all_for_user_def prod_eq_iff act_seq_def[of _ "act_return OkResponse"]
        act_bind_def insert_audit_eq del: app_run.simps)
qed

theorem tokens_work_once_witness:
  "\<exists>w'. auth_serve demo_auth_env 2000 (request_with [] []) (ResetComplete ''t2'' ''new'') demo_reset_asked = (Inr OkResponse, w')
    \<and> auth_serve demo_auth_env 3000 (request_with [] []) (ResetComplete ''t2'' ''again'')
        (app_run demo_auth_env [(2500, AuthStep (request_with [] []) demo_sign_in)] w')
      = (Inl invalid_token, app_run demo_auth_env [(2500, AuthStep (request_with [] []) demo_sign_in)] w')"
proof -
  have start: "token_table PasswordReset (w_auth demo_world) = []" by (simp add: demo_world_def empty_world_def)
  obtain w' where out: "auth_serve demo_auth_env 2000 (request_with [] []) (completion PasswordReset ''t2'' ''new'')
      demo_reset_asked = (Inr OkResponse, w')"
    by (rule demo_reset_completes)
  from tokens_work_once[OF demo_distinct_tokens start refl out refl,
      of 3000 "request_with [] []" "''again''" "[(2500, AuthStep (request_with [] []) demo_sign_in)]"] out
  show ?thesis unfolding completion.simps by blast
qed

end
