(* ===== verification/AuthLockout.thy ===== *)
theory AuthLockout
  imports AuthSignIn
begin

text \<open>
  How many passwords can be tried: the lockout of an account (\<open>users.py\<close>) over every run.  An
  attempt is a sign-in whose password is really compared with the hash of the account; the lockout
  bounds the wrong ones by the time that has passed, whatever else the application serves.
\<close>

section \<open>Attempts\<close>

datatype attempt = NoAttempt | WrongPassword | RightPassword

fun attempt_of :: "auth_env \<Rightarrow> string \<Rightarrow> int \<times> app_step \<Rightarrow> world \<Rightarrow> attempt" where
  "attempt_of env uid (now, AuthStep rq (SignIn e pw code)) w =
     (if sign_in_limited now rq w then NoAttempt
      else case user_by_email (w_auth w) e of
        None \<Rightarrow> NoAttempt
      | Some u \<Rightarrow>
          if u_user_id u \<noteq> uid \<or> u_status u = US_DISABLED \<or> lockout_is_active now u then NoAttempt
          else (case verify_password (ev_prims env) (ev_hasher env) pw (u_password_hash u) (u_password_pepper_kid u) of
              Inl _ \<Rightarrow> NoAttempt
            | Inr v \<Rightarrow> if vr_ok v then RightPassword else WrongPassword))"
| "attempt_of env uid _ w = NoAttempt"

fun attempts :: "auth_env \<Rightarrow> string \<Rightarrow> (int \<times> app_step) list \<Rightarrow> world \<Rightarrow> attempt list" where
  "attempts env uid [] w = []"
| "attempts env uid (s # ss) w = attempt_of env uid s w # attempts env uid ss (app_step env s w)"

lemma no_sign_in_no_attempt:
  "\<nexists>rq e pw code. snd s = AuthStep rq (SignIn e pw code) \<Longrightarrow> attempt_of env uid s w = NoAttempt"
  by (cases "(env, uid, s, w)" rule: attempt_of.cases) simp_all

section \<open>The lock of an account\<close>

type_synonym lock = "int \<times> int option \<times> user_status"

definition lock_of :: "string \<Rightarrow> world \<Rightarrow> lock option" where
  "lock_of uid w = map_option (\<lambda>u. (u_failed_login_count u, u_locked_until u, u_status u)) (dget (t_users (w_auth w)) uid)"

text \<open>No identifier that is still to be drawn is that of the account.\<close>

definition not_drawn_again :: "auth_env \<Rightarrow> string \<Rightarrow> world \<Rightarrow> bool" where
  "not_drawn_again env uid w \<longleftrightarrow> (\<forall>n \<ge> w_draws w. ev_random env DrawUuid n \<noteq> uid)"

definition lock_order :: "auth_env \<Rightarrow> string \<Rightarrow> world \<Rightarrow> world \<Rightarrow> bool" where
  "lock_order env uid w w' \<longleftrightarrow> w_draws w \<le> w_draws w' \<and> (not_drawn_again env uid w \<longrightarrow> lock_of uid w' = lock_of uid w)"

lemma lock_order_frame: "frame t_users w w' \<Longrightarrow> lock_order env uid w w'"
  by (simp add: frame_def lock_order_def lock_of_def)

lemma lock_order_keeps: "keeps (frame t_users) m \<Longrightarrow> keeps (lock_order env uid) m"
  by (simp add: keeps_def lock_order_frame)

lemma lock_order_sql:
  assumes "neutral q \<or> (\<exists>ro u org. q = SetRole ro u org) \<or> (\<exists>now i. q = ConsumeInvite now i)"
  shows "keeps (lock_order env uid) (act_sql q)"
  using assms by (cases q) (auto simp: keeps_def lock_order_def lock_of_def option.map_comp comp_def)

lemma lock_order_create_user: "keeps (lock_order env uid) (create_user env now email pw name org ro by_user)"
  unfolding keeps_def
proof
  fix w
  show "lock_order env uid w (snd (create_user env now email pw name org ro by_user w))"
    by (auto simp: lock_order_def lock_of_def not_drawn_again_def create_user_def Let_def user_by_id_def)
qed

interpretation lock_step: world_relation "lock_order env uid" for env uid
proof unfold_locales
  fix w w' w'' assume "lock_order env uid w w'" and "lock_order env uid w' w''"
  then show "lock_order env uid w w''" by (auto simp: lock_order_def not_drawn_again_def)
qed (simp add: lock_order_def)

interpretation lock: auth_relation_users "lock_order env uid" env for env uid
  by unfold_locales
    (simp_all add: lock_order_keeps lock_order_sql lock_order_create_user frame_basic frame_blocks
      lock_order_frame frame_def)

section \<open>What a sign-in does to the lock\<close>

lemma lock_order_other:
  assumes "i \<noteq> uid"
  shows "keeps (lock_order env uid) (act_sql (CountFailedLogin n until now i))"
    and "keeps (lock_order env uid) (act_sql (ResetFailedLogin now i))"
  using assms by (simp_all add: keeps_def lock_order_def lock_of_def)

text \<open>A sign-in to another account.\<close>

lemma lock_check_other:
  assumes "u_user_id u \<noteq> uid"
  shows "keeps (lock_order env uid) (check_sign_in env now rq e pw code u)"
proof -
  have fail: "keeps (lock_order env uid) (record_failed_login env now (u_user_id u) ip ua)" for ip ua
    unfolding record_failed_login_def Let_def
    by (intro lock_step.keeps_intros lock.keeps_audit lock_order_other assms)
  have admit: "keeps (lock_order env uid) (admit_sign_in env now rq pw u b)" for b
    unfolding admit_sign_in_def Let_def reset_failed_login_def update_password_hash_def
    by (intro lock_step.keeps_intros lock.keeps_blocks lock_order_other assms lock_order_sql; simp)
  show ?thesis
    unfolding check_sign_in_def finish_sign_in_def Let_def
    by (intro lock_step.keeps_intros lock.keeps_sign_in_fail lock.keeps_audit lock.keeps_totp_gate fail admit)
qed

lemma lock_of_counted [simp]: "lock_of uid (counted now cfg rq fb w) = lock_of uid w"
  by (simp add: lock_of_def)

lemma not_drawn_again_counted [simp]: "not_drawn_again env uid (counted now cfg rq fb w) = not_drawn_again env uid w"
  by (simp add: not_drawn_again_def)

lemma lock_keptD:
  "keeps (lock_order env uid) m \<Longrightarrow> not_drawn_again env uid w \<Longrightarrow> lock_of uid (snd (m w)) = lock_of uid w"
  by (simp add: keeps_def lock_order_def)

lemma app_step_sign_in:
  "app_step env (now, AuthStep rq (SignIn e pw code)) w = snd (sign_in env now rq e pw code w)"
  by (simp add: app_step_def respond_signed_in_def act_bind_def split: prod.splits sum.splits)

text \<open>The lock after the failed attempt number \<open>c\<close>.\<close>

definition lock_after :: "int \<Rightarrow> int \<Rightarrow> user_status \<Rightarrow> lock" where
  "lock_after now c st =
     (let m = lockout_minutes_for c in
      if m = 0 then (c, None, st) else (c, Some (now + m * 60000), US_LOCKED))"

definition lock_end :: "lock \<Rightarrow> int \<Rightarrow> int" where
  "lock_end l t = (case l of (_, until, st) \<Rightarrow>
     if st = US_LOCKED then (case until of None \<Rightarrow> t | Some b \<Rightarrow> max t b) else t)"

lemma record_failed_login_lock:
  assumes "lock_of uid w = Some (n, until, st)"
  shows "lock_of uid (snd (record_failed_login env now uid ip ua w)) = Some (lock_after now (n + 1) st)"
proof -
  from assms have c: "failed_login_count (w_auth w) uid = n"
    by (auto simp: lock_of_def failed_login_count_def)
  from assms c show ?thesis
    by (cases "lockout_minutes_for (n + 1) = 0")
      (auto simp: record_failed_login_def Let_def lock_after_def lock_of_def act_seq_def act_bind_def act_return_def
        insert_audit_eq)
qed


lemma record_failed_login_ok:
  obtains r w' where "record_failed_login env now uid ip ua w = (Inr r, w')"
  by (cases "lockout_minutes_for (failed_login_count (w_auth w) uid + 1) = 0")
    (simp_all add: record_failed_login_def Let_def)

text \<open>A step that compares no password of the account leaves its lock alone.\<close>

lemma no_attempt_keeps_lock:
  assumes nd: "not_drawn_again env uid w" and "attempt_of env uid s w = NoAttempt"
  shows "lock_of uid (app_step env s w) = lock_of uid w"
proof (cases "\<exists>rq e pw code. snd s = AuthStep rq (SignIn e pw code)")
  case False
  then have "keeps (lock_order env uid) (app_action env (fst s) (snd s))"
    by (intro lock.keeps_app_but_sign_in) simp
  from lock_keptD[OF this nd] show ?thesis by (simp add: app_step_def)
next
  case True
  then obtain now rq e pw code where s: "s = (now, AuthStep rq (SignIn e pw code))" by (cases s) auto
  let ?w = "sign_in_counted now rq w"
  have keep: "lock_of uid (snd (m ?w)) = lock_of uid w" if "keeps (lock_order env uid) m"
    for m :: "(sign_in_response \<times> cookie) action"
    using lock_keptD[OF that, of ?w] nd by simp
  show ?thesis
  proof (cases "sign_in_limited now rq w \<or> user_by_email (w_auth w) e = None")
    case True
    then show ?thesis
      using keep[OF lock.keeps_sign_in_fail]
      by (auto simp: s app_step_sign_in sign_in_alt)
  next
    case False
    then obtain u where u: "user_by_email (w_auth w) e = Some u" by auto
    have eq: "snd (sign_in env now rq e pw code w) = snd (check_sign_in env now rq e pw code u ?w)"
      using False u by (simp add: sign_in_alt)
    have "lock_of uid (snd (check_sign_in env now rq e pw code u ?w)) = lock_of uid w"
    proof (cases "u_user_id u = uid")
      case False
      then show ?thesis by (intro keep lock_check_other)
    next
      case mine: True
      consider "u_status u = US_DISABLED" | "u_status u \<noteq> US_DISABLED" "lockout_is_active now u"
        | f where "verify_password (ev_prims env) (ev_hasher env) pw (u_password_hash u) (u_password_pepper_kid u) = Inl f"
            "u_status u \<noteq> US_DISABLED" "\<not> lockout_is_active now u"
        using assms(2) False u mine by (auto simp: s split: sum.splits if_splits)
      then show ?thesis
      proof cases
        case 1
        then show ?thesis
          using keep[OF lock.keeps_sign_in_fail] by (simp add: check_sign_in_def Let_def)
      next
        case 2
        have "keeps (lock_order env uid) (act_seq (insert_audit env now SIGN_IN_LOCKED a b c d j) (act_raise x))"
          for a b c d j x
          by (intro lock_step.keeps_intros lock.keeps_audit)
        from keep[OF this] 2 show ?thesis by (simp add: check_sign_in_def Let_def)
      next
        case 3
        then show ?thesis by (simp add: check_sign_in_def Let_def act_bind_def act_lift_def lift_py_def)
      qed
    qed
    then show ?thesis by (simp only: s app_step_sign_in eq)
  qed
qed

lemma wrong_password_locks:
  assumes "tables_ok (w_auth w)" and nd: "not_drawn_again env uid w"
    and "attempt_of env uid s w = WrongPassword"
  obtains n until st where "lock_of uid w = Some (n, until, st)"
    and "lock_end (n, until, st) t \<le> max t (fst s)"
    and "lock_of uid (app_step env s w) = Some (lock_after (fst s) (n + 1) st)"
proof -
  from assms(3) obtain now rq e pw code where s: "s = (now, AuthStep rq (SignIn e pw code))"
    by (metis no_sign_in_no_attempt attempt.distinct(1) prod.collapse)
  let ?w = "sign_in_counted now rq w"
  from assms(3) obtain u v where u: "user_by_email (w_auth w) e = Some u" "u_user_id u = uid"
      and lim: "\<not> sign_in_limited now rq w" and act: "u_status u \<noteq> US_DISABLED" "\<not> lockout_is_active now u"
      and v: "verify_password (ev_prims env) (ev_hasher env) pw (u_password_hash u) (u_password_pepper_kid u) = Inr v" "\<not> vr_ok v"
    by (auto simp: s split: option.splits sum.splits if_splits)
  have k: "dget (t_users (w_auth w)) uid = Some u"
    using u assms(1) keyed_value[of u_user_id "t_users (w_auth w)" u]
    by (auto simp: user_by_email_def tables_ok_def find_Some_iff)
  define n where "n = u_failed_login_count u"
  have l: "lock_of uid w = Some (n, u_locked_until u, u_status u)" using k by (simp add: lock_of_def n_def)
  obtain r w1 where rec: "record_failed_login env now uid (client_ip (hr_headers rq) (hr_client_host rq)) (user_agent_of rq) ?w = (Inr r, w1)"
    by (rule record_failed_login_ok)
  have "snd (sign_in env now rq e pw code w) = snd (sign_in_fail env now rq e (Some uid) ''password'' w1 :: (failure + (sign_in_response \<times> cookie)) \<times> world)"
    using lim u act v rec by (simp add: sign_in_alt check_sign_in_def Let_def act_seq_def[of "record_failed_login a b c d e" for a b c d e]
        act_bind_Inr[where m = "record_failed_login env now uid a b" for a b, OF rec] lift_py_def)
  moreover have "lock_of uid w1 = Some (lock_after now (n + 1) (u_status u))"
    using record_failed_login_lock[of uid ?w n "u_locked_until u" "u_status u" env now] l rec by (metis lock_of_counted snd_conv)
  moreover have "lock_of uid (snd (sign_in_fail env now rq e (Some uid) ''password'' w1 :: (failure + (sign_in_response \<times> cookie)) \<times> world)) = lock_of uid w1"
    by (simp add: sign_in_fail_def act_raise_def lock_of_def)
  ultimately have "lock_of uid (app_step env s w) = Some (lock_after (fst s) (n + 1) (u_status u))"
    by (simp add: s app_step_sign_in)
  moreover have "lock_end (n, u_locked_until u, u_status u) t \<le> max t (fst s)"
    using act(2) by (auto simp: s lock_end_def lockout_is_active_def split: option.splits)
  ultimately show ?thesis using l by (intro that)
qed


section \<open>The bound\<close>

text \<open>The waits that the failures after the first \<open>n\<close> impose, in milliseconds.\<close>

fun waits :: "int \<Rightarrow> nat \<Rightarrow> int" where
  "waits n 0 = 0"
| "waits n (Suc m) = lockout_minutes_for (n + 1) * 60000 + waits (n + 1) m"

lemma lockout_minutes_cases:
  "lockout_minutes_for c = (if c \<le> 5 then 0 else if c = 6 then 5 else if c = 7 then 10 else if c = 8 then 20 else 30)"
proof -
  consider "c \<le> 5" | "c = 6" | "c = 7" | "c = 8" | "9 \<le> c" by linarith
  then show ?thesis by cases (simp_all add: lockout_minutes_simps)
qed

lemma lock_end_after: "now + lockout_minutes_for c * 60000 = lock_end (lock_after now c st) now"
  by (simp add: lock_end_def lock_after_def Let_def lockout_minutes_cases)

text \<open>
  Half an hour for each failure, but for what the first eight save: five without a wait, then five,
  ten and twenty minutes.
\<close>

definition saved :: "int \<Rightarrow> int" where
  "saved n = (if 8 \<le> n then 0 else if n = 7 then 10 else if n = 6 then 30 else 55 + 30 * (5 - n))"

lemma waits_lower: "60000 * (30 * int m - saved n) \<le> waits n m"
proof (induction m arbitrary: n)
  case 0
  show ?case by (simp add: saved_def)
next
  case (Suc m)
  have "30 - saved n \<le> lockout_minutes_for (n + 1) - saved (n + 1)"
    by (simp add: saved_def lockout_minutes_cases)
  with Suc[of "n + 1"] show ?case by (simp add: algebra_simps)
qed

lemma waits_nonneg: "0 \<le> waits n m"
  by (induction m arbitrary: n) (simp_all add: lockout_minutes_cases)

lemma step_draws: "w_draws w \<le> w_draws (app_step env s w)"
  using sessions.keeps_app[of env "\<lambda>_ _. False" "[]" "fst s" "snd s"]
  by (simp add: keeps_def session_order_def app_step_def)

lemma step_tables_ok: "tables_ok (w_auth w) \<Longrightarrow> tables_ok (w_auth (app_step env s w))"
  using tables.keeps_app[of env "fst s" "snd s"] by (simp add: keeps_def tables_order_def app_step_def)

lemma lock_end_mono: "t \<le> t' \<Longrightarrow> lock_end l t \<le> lock_end l t'" "t \<le> lock_end l t"
  by (auto simp: lock_end_def split: prod.splits option.splits)

text \<open>Every attempt but the first has waited for the locks of those before it.\<close>

lemma wrong_passwords_wait:
  assumes "tables_ok (w_auth w)" and "not_drawn_again env uid w" and "lock_of uid w = Some l"
    and "sorted (map fst ss)" and "\<forall>s\<in>set ss. t0 \<le> fst s \<and> fst s \<le> t1"
    and "RightPassword \<notin> set (attempts env uid ss w)"
    and "count_list (attempts env uid ss w) WrongPassword = Suc g"
  shows "lock_end l t0 + waits (fst l) g \<le> t1"
  using assms
proof (induction ss arbitrary: w l t0 g)
  case (Cons s ss)
  let ?w = "app_step env s w"
  have ok: "tables_ok (w_auth ?w)" by (rule step_tables_ok[OF Cons.prems(1)])
  have nd: "not_drawn_again env uid ?w"
    using Cons.prems(2) step_draws[of w env s] by (auto simp: not_drawn_again_def)
  have sorted: "sorted (map fst ss)" and later: "\<forall>s'\<in>set ss. fst s \<le> fst s' \<and> fst s' \<le> t1"
    using Cons.prems(4,5) by auto
  have no: "RightPassword \<notin> set (attempts env uid ss ?w)" using Cons.prems(6) by simp
  have now: "t0 \<le> fst s" "fst s \<le> t1" using Cons.prems(5) by simp_all
  show ?case
  proof (cases "attempt_of env uid s w")
    case NoAttempt
    then have "lock_of uid ?w = Some l"
      using no_attempt_keeps_lock[OF Cons.prems(2)] Cons.prems(3) by simp
    with Cons.IH[OF ok nd _ sorted later no, of l g] NoAttempt Cons.prems(7)
    have "lock_end l (fst s) + waits (fst l) g \<le> t1" by simp
    with lock_end_mono(1)[OF now(1), of l] show ?thesis by simp
  next
    case WrongPassword
    obtain n until st where l: "lock_of uid w = Some (n, until, st)"
        and free: "lock_end (n, until, st) t0 \<le> max t0 (fst s)"
        and l': "lock_of uid ?w = Some (lock_after (fst s) (n + 1) st)"
      by (rule wrong_password_locks[OF Cons.prems(1,2) WrongPassword])
    have l_eq: "l = (n, until, st)" using Cons.prems(3) l by simp
    have n': "fst (lock_after (fst s) (n + 1) st) = n + 1" by (simp add: lock_after_def Let_def)
    show ?thesis
    proof (cases g)
      case 0
      with free l_eq now show ?thesis by simp
    next
      case (Suc g')
      with Cons.IH[OF ok nd l' sorted later no, of g'] WrongPassword Cons.prems(7)
      have "lock_end (lock_after (fst s) (n + 1) st) (fst s) + waits (n + 1) g' \<le> t1"
        by (simp add: n')
      with free now Suc show ?thesis by (simp add: l_eq flip: lock_end_after)
    qed
  next
    case RightPassword
    with Cons.prems(6) show ?thesis by simp
  qed
qed simp

text \<open>
C27. Sign-in guesses are bounded: from well-formed tables, for an account whose id is not drawn a
second time and whose failure count is not negative, and whatever requests of any kind the application serves in order of time between
\<open>t0\<close> and \<open>t1\<close>, as long as no sign-in brings the right password, at most eight wrong passwords,
and one more for every half hour from \<open>t0\<close> to \<open>t1\<close>, are compared with the hash of the account by
sign-ins: no other request resets the counter, and each failure beyond the fifth locks the account
for the time of the schedule.  (The comparisons that a signed-in user asks for when changing the
password or disabling the second factor are not counted by the program, and not here.)
\<close>

theorem guesses_are_bounded:
  assumes "tables_ok (w_auth w)" and "not_drawn_again env uid w"
    and "user_by_id (w_auth w) uid = Some u" and "0 \<le> u_failed_login_count u"
    and "sorted (map fst ss)" and "\<forall>s\<in>set ss. t0 \<le> fst s \<and> fst s \<le> t1" and "t0 \<le> t1"
    and "RightPassword \<notin> set (attempts env uid ss w)"
  shows "int (count_list (attempts env uid ss w) WrongPassword) \<le> 8 + (t1 - t0) div 1800000"
proof (cases "count_list (attempts env uid ss w) WrongPassword")
  case 0
  with assms(7) show ?thesis by simp
next
  case (Suc g)
  let ?n = "u_failed_login_count u"
  have l: "lock_of uid w = Some (?n, u_locked_until u, u_status u)"
    using assms(3) by (simp add: lock_of_def user_by_id_def)
  have "t0 + waits ?n g \<le> t1"
    using wrong_passwords_wait[OF assms(1,2) l assms(5,6,8) Suc]
      lock_end_mono(2)[of t0 "(?n, u_locked_until u, u_status u)"] by simp
  moreover have "saved ?n \<le> 205" using assms(4) by (simp add: saved_def)
  ultimately have "60000 * (30 * int g - 205) \<le> t1 - t0"
    using waits_lower[of g ?n] by simp
  then have "(1800000 * (int g - 7)) div 1800000 \<le> (t1 - t0) div 1800000"
    by (intro zdiv_mono1) simp_all
  with Suc show ?thesis by simp
qed

lemma demo_verify_wrong:
  assumes "pw \<noteq> ''secret-pw''"
  shows "verify_password demo_prims demo_hasher pw (u_password_hash demo_user) (u_password_pepper_kid demo_user)
     = Inr \<lparr>vr_ok = False, vr_needs_rehash = False\<rparr>"
proof -
  have "pepper_password demo_prims pw ''pp'' \<noteq> pepper_password demo_prims ''secret-pw'' ''pp''"
    using assms by (auto simp: pepper_password_def hmac_sha256_def Let_def demo_prims_def hexdigest_inject utf8_inject)
  then show ?thesis
    by (auto simp: verify_password_def hash_password_def demo_user_def demo_hasher_def demo_argon_def)
qed

lemma demo_attempt:
  "pw \<noteq> ''secret-pw'' \<Longrightarrow>
    attempt_of demo_auth_env ''u0'' (now, AuthStep (request_with [] []) (SignIn ''A@x'' pw code)) demo_world = WrongPassword"
  by (simp add: demo_not_limited demo_lookup demo_verify_wrong lockout_is_active_def)

lemma demo_fresh_users: "not_drawn_again demo_auth_env ''u0'' demo_world"
proof -
  have "show_nat n \<noteq> ''0''" if "2 \<le> n" for n
  proof
    assume "show_nat n = ''0''"
    then have "digits_value (show_nat n) = digits_value ''0''" by (rule arg_cong)
    moreover have "digits_value ''0'' = 0" by code_simp
    ultimately show False using that by simp
  qed
  then show ?thesis by (auto simp: not_drawn_again_def demo_world_def)
qed

theorem guesses_are_bounded_witness:
  "int (count_list (attempts demo_auth_env ''u0''
      [(1000, AuthStep (request_with [] []) (SignIn ''A@x'' ''guess'' None)),
       (2000, AuthStep (request_with [] []) SignOut)] demo_world) WrongPassword) \<le> 8 + (2000 - 1000) div 1800000"
  by (rule guesses_are_bounded[OF demo_tables_ok demo_fresh_users])
    (use demo_attempt[of "''guess''" 1000 None] in \<open>auto simp: user_by_id_def demo_world_def\<close>)

end
