(* ===== verification/AuthRoles.thy ===== *)
theory AuthRoles
  imports AuthSignIn
begin

text \<open>
  Who can change a role: over every run in enterprise mode the roles in an organisation change only
  through a signed-in owner of it, an invitation that such an owner sent, or the \<open>seed-admin\<close>
  command.
\<close>

section \<open>Steps that grant a role or offer one\<close>

definition owner_request :: "auth_env \<Rightarrow> int \<Rightarrow> http_request \<Rightarrow> world \<Rightarrow> string \<Rightarrow> bool" where
  "owner_request env now rq w org =
     (case session_of_cookie env now rq (w_auth w) of
        None \<Rightarrow> False
      | Some (s, p) \<Rightarrow> p_org_id p = org \<and> role_of (w_auth w) (p_user_id p) org = Some ORG_OWNER)"

definition live_invite :: "int \<Rightarrow> invite \<Rightarrow> bool" where
  "live_invite now i = (iv_consumed_at i = None \<and> now \<le> iv_expires_at i)"

fun grants :: "auth_env \<Rightarrow> int \<times> app_step \<Rightarrow> world \<Rightarrow> string \<Rightarrow> string \<Rightarrow> role \<Rightarrow> bool" where
  "grants env (now, AuthStep rq (ChangeRole uid r)) w u org r' =
     (u = uid \<and> r' = r \<and> owner_request env now rq w org)"
| "grants env (now, AuthStep rq (AcceptInvite tok pw name)) w u org r' =
     (case invite_by_token (w_auth w) (sha256_hex (ev_prims env) tok) of
        None \<Rightarrow> False
      | Some i \<Rightarrow> live_invite now i \<and> org = iv_org_id i \<and> r' = iv_role i)"
| "grants env (now, SeedStep e org' n pw) w u org r' = (org = org' \<and> r' = ORG_OWNER)"
| "grants env _ w u org r' = False"

fun offers :: "auth_env \<Rightarrow> int \<times> app_step \<Rightarrow> world \<Rightarrow> string \<Rightarrow> role \<Rightarrow> bool" where
  "offers env (now, AuthStep rq (Invite e r)) w org r' = (r' = r \<and> owner_request env now rq w org)"
| "offers env _ w org r' = False"

section \<open>Memberships\<close>

text \<open>Every role that changed is one that \<open>P\<close> admits.\<close>

definition granted :: "(string \<Rightarrow> string \<Rightarrow> role \<Rightarrow> bool) \<Rightarrow> world \<Rightarrow> world \<Rightarrow> bool" where
  "granted P w w' \<longleftrightarrow> (\<forall>u org. role_of (w_auth w') u org = role_of (w_auth w) u org
     \<or> (\<exists>r. role_of (w_auth w') u org = Some r \<and> P u org r))"

lemma granted_frame: "frame t_memberships w w' \<Longrightarrow> granted P w w'"
  by (simp add: granted_def frame_def role_of_def)

lemma granted_keeps: "keeps (frame t_memberships) m \<Longrightarrow> keeps (granted P) m"
  by (simp add: keeps_def granted_frame)

interpretation granted_step: world_relation "granted P" for P
proof unfold_locales
  fix w w' w'' assume a: "granted P w w'" and b: "granted P w' w''"
  show "granted P w w''"
    unfolding granted_def
  proof (intro allI)
    fix u org
    from a b show "role_of (w_auth w'') u org = role_of (w_auth w) u org
        \<or> (\<exists>r. role_of (w_auth w'') u org = Some r \<and> P u org r)"
      unfolding granted_def by metis
  qed
qed (simp add: granted_def)

lemma granted_sql:
  assumes "\<And>t. t_memberships (auth_execute q t) = t_memberships t"
  shows "keeps (granted P) (act_sql q)"
  using assms by (intro granted_keeps frame_basic) simp

interpretation grant: auth_relation_counts "granted P" env for P env
  by unfold_locales
    (auto intro!: granted_keeps granted_frame frame_basic frame_blocks simp: frame_def elim!: neutral.elims)

lemma granted_set_role:
  assumes "P uid org r"
  shows "keeps (granted P) (act_sql (SetRole r uid org))"
proof -
  have "granted P w (w\<lparr>w_auth := auth_execute (SetRole r uid org) (w_auth w)\<rparr>)" for w
    using assms by (cases "dget (t_memberships (w_auth w)) (uid, org)") (auto simp: granted_def role_of_def)
  then show ?thesis by (simp add: keeps_def)
qed

lemma granted_create_user:
  assumes "\<And>u. P u org r"
  shows "keeps (granted P) (create_user env now email pw name org r by_user)"
proof -
  have ins: "keeps (granted P) (act_sql (InsertMembership m))" if "mb_org_id m = org" "mb_role m = r" for m
    using assms that by (auto simp: keeps_def granted_def role_of_def)
  show ?thesis
    unfolding create_user_def Let_def
    by (intro granted_step.keeps_intros granted_keeps frame_basic ins) simp_all
qed

lemma granted_consume: "keeps (granted P) (act_sql (ConsumeInvite now i))"
  by (rule granted_sql) simp

lemma granted_accept_invite:
  assumes "\<And>i u. invite_by_token (w_auth w) (sha256_hex (ev_prims env) tok) = Some i \<Longrightarrow> live_invite now i
    \<Longrightarrow> P u (iv_org_id i) (iv_role i)"
  shows "granted P w (snd (accept_invite env now rq tok pw name w))"
proof -
  let ?w = "counted now (rate_limit_config_of ''invites-accept'') rq (client_ip (hr_headers rq) (hr_client_host rq)) w"
  have fr: "granted P w ?w" by (rule granted_frame) (simp add: frame_def)
  have fail: "granted P w (snd (accept_invite_fail env now rq a b ?w))" for a b
    using grant.keeps_accept_invite_fail[of P env now rq a b] granted_step.related_trans[OF fr]
    unfolding keeps_def by blast
  show ?thesis
  proof (cases "over_limit now (rate_limit_config_of ''invites-accept'') rq (client_ip (hr_headers rq) (hr_client_host rq)) w")
    case True
    with fr show ?thesis by (simp add: accept_invite_def Let_def act_seq_def act_bind_def enforce_or_block_eq)
  next
    case False
    show ?thesis
    proof (cases "invite_by_token (w_auth w) (sha256_hex (ev_prims env) tok)")
      case None
      with False fail show ?thesis
        by (simp add: accept_invite_def Let_def act_seq_def[of "enforce_or_block a b c d" for a b c d]
            act_bind_def[of "enforce_or_block a b c d" for a b c d] enforce_or_block_eq)
    next
      case (Some i)
      let ?m = "act_bind (act_query (\<lambda>t. user_by_email t (iv_email i))) (\<lambda>existing.
              if existing \<noteq> None
              then accept_invite_fail env now rq (Some (iv_invite_id i)) ''email_collision''
              else
                act_bind (create_user env now (iv_email i) pw name (iv_org_id i) (iv_role i)
                    (Some (iv_invited_by i))) (\<lambda>u.
                act_seq (set_email_verified now (u_user_id u))
               (act_seq (act_sql (ConsumeInvite now (iv_invite_id i)))
               (act_seq (insert_audit env now INVITE_ACCEPT_OK (Some (u_user_id u)) (Some (iv_org_id i))
                   (client_ip (hr_headers rq) (hr_client_host rq)) (user_agent_of rq)
                   [(''invite_id'', JStr (iv_invite_id i)), (''role'', JStr (role_text (iv_role i)))])
               (act_bind (create_session env now (u_user_id u) (client_ip (hr_headers rq) (hr_client_host rq)) (user_agent_of rq)) (\<lambda>sess.
                act_return
                  (\<lparr>sr_user_id = u_user_id u, sr_email = u_email u, sr_role = iv_role i, sr_org_id = iv_org_id i,
                    sr_csrf_token = is_csrf_token sess, sr_requires_totp = False\<rparr>,
                   build_cookie (ev_settings env) (is_raw_token sess))))))))"
      have eq: "accept_invite env now rq tok pw name w =
          (if iv_consumed_at i \<noteq> None then accept_invite_fail env now rq (Some (iv_invite_id i)) ''already_consumed''
           else if iv_expires_at i < now then accept_invite_fail env now rq (Some (iv_invite_id i)) ''expired''
           else ?m) ?w"
        using False Some
        by (simp only: accept_invite_def Let_def act_seq_def[of "enforce_or_block a b c d" for a b c d]
            act_bind_Inr[where m = "enforce_or_block a b c d" for a b c d, OF enforce_or_block_eq[THEN trans]]
            act_bind_def[of "enforce_or_block a b c d" for a b c d] enforce_or_block_eq if_False prod.case sum.case
            act_bind_simps counted_auth option.case)
      show ?thesis
      proof (cases "live_invite now i")
        case True
        have "keeps (granted P) ?m"
          unfolding set_email_verified_def
          by (intro granted_step.keeps_intros grant.keeps_accept_invite_fail granted_create_user assms Some True
              granted_consume grant.keeps_blocks grant.k_sql; simp)
        then have "granted P w (snd (?m ?w))"
          using granted_step.related_trans[OF fr] unfolding keeps_def by blast
        with True show ?thesis unfolding eq live_invite_def by simp
      next
        case no: False
        then show ?thesis using fail unfolding eq live_invite_def by auto
      qed
    qed
  qed
qed

section \<open>The owner behind a request\<close>

lemma session_of_cookie_role:
  assumes "tables_ok (w_auth w)" and "session_of_cookie env now rq (w_auth w) = Some (s, p)"
  shows "p_auth_kind p = KIND_SESSION" and "\<exists>r. p_roles p = {r} \<and> role_of (w_auth w) (p_user_id p) (p_org_id p) = Some r"
proof -
  from assms(2) obtain u org r where p: "p = session_principal s u org r"
      and m: "primary_membership (w_auth w) (u_user_id u) = Some (org, r)"
    by (auto simp: session_of_cookie_def split: option.splits if_splits prod.splits)
  then obtain mb where mb: "mb \<in> set (memberships_of (w_auth w) (u_user_id u))" "mb_org_id mb = org" "mb_role mb = r"
    by (auto simp: primary_membership_def split: list.splits)
  have k: "keyed (\<lambda>m. (mb_user_id m, mb_org_id m)) (t_memberships (w_auth w))"
    using assms(1) by (simp add: tables_ok_def)
  from mb(1) obtain o' where "((u_user_id u, o'), mb) \<in> set (t_memberships (w_auth w))"
    by (auto simp: memberships_of_def)
  then have "dget (t_memberships (w_auth w)) (u_user_id u, o') = Some mb"
    using keyed_dict_ok[OF k] by (intro dict_ok_get)
  with keyed_get[OF k this] mb(2,3) have "role_of (w_auth w) (u_user_id u) org = Some r"
    by (simp add: role_of_def)
  with p show "p_auth_kind p = KIND_SESSION"
      and "\<exists>r. p_roles p = {r} \<and> role_of (w_auth w) (p_user_id p) (p_org_id p) = Some r"
    by (simp_all add: session_principal_def)
qed

lemma resolve_api_key_result:
  obtains r w1 where "resolve_api_key env now rq w = (Inr r, w1)"
    and "frame t_memberships w w1" and "frame t_invites w w1"
    and "\<forall>p. r = Some p \<longrightarrow> p_roles p = {INTEGRATION_ENGINEER} \<and> p_auth_kind p = KIND_API_KEY"
proof (cases "nonempty (bearer rq)")
  case None
  then show ?thesis by (intro that[of None w]) (simp_all add: resolve_api_key_def frame_def)
next
  case (Some raw)
  show ?thesis
  proof (cases "(starts_with raw ''as_live_'' \<or> starts_with raw ''as_test_'') \<and> lookup_api_key (ev_prims env) now raw (w_auth w) \<noteq> None")
    case False
    with Some show ?thesis by (intro that[of None w]) (auto simp: resolve_api_key_def frame_def)
  next
    case True
    then obtain k where "lookup_api_key (ev_prims env) now raw (w_auth w) = Some k" by auto
    with Some True show ?thesis
      by (intro that[of "Some (api_key_principal k)" "w\<lparr>w_auth := auth_execute (TouchApiKey now (ak_api_key_id k)) (w_auth w)\<rparr>"])
        (auto simp: resolve_api_key_def touch_api_key_def frame_def api_key_principal_def)
  qed
qed

text \<open>A route for owners is answered only to the session of one: a key has another role.\<close>

lemma owner_route:
  assumes "au_mode (ev_settings env) = MODE_ENTERPRISE" and "tables_ok (w_auth w)"
  obtains (refused) e w1 where "with_role env now rq {ORG_OWNER} f w = (Inl e, w1)"
      and "frame t_memberships w w1" and "frame t_invites w w1"
  | (owner) p w1 where "owner_request env now rq w (p_org_id p)"
      and "frame t_memberships w w1" and "frame t_invites w w1"
      and "with_role env now rq {ORG_OWNER} f w = f p w1"
proof (cases "session_of_cookie env now rq (w_auth w)")
  case (Some sp)
  then obtain s p where c: "session_of_cookie env now rq (w_auth w) = Some (s, p)" by (cases sp) auto
  let ?w = "w\<lparr>w_auth := auth_execute (TouchSession now (se_session_id s)) (w_auth w)\<rparr>"
  have fr: "frame t_memberships w ?w" "frame t_invites w ?w" by (simp_all add: frame_def)
  obtain r where r: "p_auth_kind p = KIND_SESSION" "p_roles p = {r}"
      "role_of (w_auth w) (p_user_id p) (p_org_id p) = Some r"
    using session_of_cookie_role[OF assms(2) c] by auto
  have eq: "with_role env now rq {ORG_OWNER} f w = act_bind (act_lift (require_role {ORG_OWNER} p)) f ?w"
    unfolding with_role_def with_principal_def act_bind_simps(8)
    by (rule act_bind_Inr) (rule principal_of_cookie[OF assms(1) c])
  show ?thesis
  proof (cases "r = ORG_OWNER")
    case True
    with r have "owner_request env now rq w (p_org_id p)" by (simp add: owner_request_def c)
    moreover have "with_role env now rq {ORG_OWNER} f w = f p ?w"
      using r True by (simp add: eq require_role_def Let_def has_role_def)
    ultimately show ?thesis using fr owner by blast
  next
    case False
    with r have "with_role env now rq {ORG_OWNER} f w = (Inl (app_err 403 FORBIDDEN), ?w)"
      by (simp add: eq require_role_def Let_def has_role_def is_open_synthetic_def)
    with fr show ?thesis using refused by blast
  qed
next
  case None
  let ?m = "resolve_api_key env now rq"
  obtain r w1 where m: "?m w = (Inr r, w1)" and fr: "frame t_memberships w w1" "frame t_invites w w1"
      and k: "\<forall>p. r = Some p \<longrightarrow> p_roles p = {INTEGRATION_ENGINEER} \<and> p_auth_kind p = KIND_API_KEY"
    by (rule resolve_api_key_result)
  have "with_role env now rq {ORG_OWNER} f w =
      act_bind ?m (\<lambda>found. case found of None \<Rightarrow> act_raise (app_err 401 UNAUTHORIZED)
        | Some p \<Rightarrow> act_bind (act_lift (require_role {ORG_OWNER} p)) f) w"
    using assms(1) None
    by (auto simp: with_role_def with_principal_def principal_context_def resolve_session_def
        intro!: arg_cong[where f = "\<lambda>k. act_bind ?m k w"] split: option.splits)
  also have "\<dots> = (case r of None \<Rightarrow> (Inl (app_err 401 UNAUTHORIZED), w1) | Some p \<Rightarrow> (Inl (app_err 403 FORBIDDEN), w1))"
    using k by (auto simp: act_bind_Inr[where m = ?m, OF m] require_role_def Let_def has_role_def is_open_synthetic_def
        split: option.splits)
  finally show ?thesis using fr refused by (cases r) auto
qed

section \<open>Invitations\<close>

text \<open>Every invitation was there before, for the same role, or is one that \<open>Q\<close> admits.\<close>

definition offered :: "(string \<Rightarrow> role \<Rightarrow> bool) \<Rightarrow> world \<Rightarrow> world \<Rightarrow> bool" where
  "offered Q w w' \<longleftrightarrow> (\<forall>k i'. dget (t_invites (w_auth w')) k = Some i' \<longrightarrow> Q (iv_org_id i') (iv_role i') \<or>
     (\<exists>i. dget (t_invites (w_auth w)) k = Some i \<and> iv_org_id i' = iv_org_id i \<and> iv_role i' = iv_role i
        \<and> (iv_consumed_at i \<noteq> None \<longrightarrow> iv_consumed_at i' \<noteq> None)))"

lemma offered_frame: "frame t_invites w w' \<Longrightarrow> offered Q w w'"
  by (simp add: offered_def frame_def)

lemma offered_keeps: "keeps (frame t_invites) m \<Longrightarrow> keeps (offered Q) m"
  by (simp add: keeps_def offered_frame)

interpretation offered_step: world_relation "offered Q" for Q
proof unfold_locales
  fix w w' w'' assume a: "offered Q w w'" and b: "offered Q w' w''"
  show "offered Q w w''"
    unfolding offered_def
  proof (intro allI impI)
    fix k i'' assume "dget (t_invites (w_auth w'')) k = Some i''"
    with b consider "Q (iv_org_id i'') (iv_role i'')"
      | i' where "dget (t_invites (w_auth w')) k = Some i'" "iv_org_id i'' = iv_org_id i'" "iv_role i'' = iv_role i'"
        "iv_consumed_at i' \<noteq> None \<longrightarrow> iv_consumed_at i'' \<noteq> None"
      unfolding offered_def by blast
    then show "Q (iv_org_id i'') (iv_role i'') \<or> (\<exists>i. dget (t_invites (w_auth w)) k = Some i
        \<and> iv_org_id i'' = iv_org_id i \<and> iv_role i'' = iv_role i
        \<and> (iv_consumed_at i \<noteq> None \<longrightarrow> iv_consumed_at i'' \<noteq> None))"
    proof cases
      case 2
      with a show ?thesis unfolding offered_def by metis
    qed simp
  qed
qed (simp add: offered_def)

lemma insert_token_invites [simp]: "t_invites (auth_execute (insert_token kind h u e now) t) = t_invites t"
  by (cases kind) simp_all

interpretation offer: auth_relation_counts "offered Q" env for Q env
  by unfold_locales
    (auto intro!: offered_keeps offered_frame frame_basic frame_blocks simp: frame_def elim!: neutral.elims)

lemma offered_sql:
  "keeps (offered Q) (act_sql (ConsumeInvite now i))" "keeps (offered Q) (act_sql (SetRole r u org))"
  "keeps (offered Q) (create_user env now email pw name org r by_user)"
proof -
  show "keeps (offered Q) (act_sql (ConsumeInvite now i))" by (auto simp: keeps_def offered_def)
qed (auto intro!: offered_keeps frame_basic frame_create_user)

lemma offered_accept_invite: "keeps (offered Q) (accept_invite env now rq tok pw name)"
  unfolding accept_invite_def Let_def set_email_verified_def
  by (intro offered_step.keeps_intros offer.keeps_blocks offer.keeps_accept_invite_fail offered_sql offer.k_sql; simp)

section \<open>One step\<close>

lemma app_step_serve: "app_step env (now, AuthStep rq r) w = snd (auth_serve env now rq r w)"
  by (simp add: app_step_def act_bind_def split: prod.splits sum.splits)

lemma snd_respond: "snd (respond_ok m w) = snd (m w)" "snd (respond_signed_in m' w) = snd (m' w)"
  by (simp_all add: respond_ok_def respond_signed_in_def act_seq_def act_bind_def split: prod.splits sum.splits)

lemma frame_pair: "frame t_memberships w w' \<Longrightarrow> frame t_invites w w' \<Longrightarrow> granted P w w' \<and> offered Q w w'"
  by (simp add: granted_frame offered_frame)

lemma owner_step:
  assumes "au_mode (ev_settings env) = MODE_ENTERPRISE" and "tables_ok (w_auth w)"
    and "\<And>p. owner_request env now rq w (p_org_id p) \<Longrightarrow> keeps (granted P) (f p) \<and> keeps (offered Q) (f p)"
  shows "granted P w (snd (with_role env now rq {ORG_OWNER} f w)) \<and> offered Q w (snd (with_role env now rq {ORG_OWNER} f w))"
proof (rule owner_route[OF assms(1,2), of now rq f])
  fix e w1 assume "with_role env now rq {ORG_OWNER} f w = (Inl e, w1)" "frame t_memberships w w1" "frame t_invites w w1"
  then show ?thesis by (simp add: granted_frame offered_frame)
next
  fix p w1 assume owner: "owner_request env now rq w (p_org_id p)" "frame t_memberships w w1" "frame t_invites w w1"
      "with_role env now rq {ORG_OWNER} f w = f p w1"
  from assms(3)[OF owner(1)] have "granted P w1 (snd (f p w1))" "offered Q w1 (snd (f p w1))"
    by (simp_all add: keeps_def)
  with owner(2-4) show ?thesis
    by (metis granted_frame offered_frame granted_step.related_trans offered_step.related_trans)
qed

lemma seed_keeps:
  "keeps (granted (\<lambda>u o' r. o' = org \<and> r = ORG_OWNER)) (seed_admin env now email org name pw)"
  "keeps (offered Q) (seed_admin env now email org name pw)"
proof -
  have st: "keeps (granted P) (\<lambda>w. (Inr (), w\<lparr>w_storage := f (w_storage w)\<rparr>))"
      "keeps (offered Q) (\<lambda>w. (Inr (), w\<lparr>w_storage := f (w_storage w)\<rparr>))" for P f
    by (simp_all add: keeps_def granted_frame offered_frame frame_def)
  show "keeps (granted (\<lambda>u o' r. o' = org \<and> r = ORG_OWNER)) (seed_admin env now email org name pw)"
    unfolding seed_admin_def by (intro granted_step.keeps_intros st granted_create_user) simp
  show "keeps (offered Q) (seed_admin env now email org name pw)"
    unfolding seed_admin_def by (intro offered_step.keeps_intros st offered_sql)
qed

lemma admin_invite_keeps:
  "keeps (granted P) (admin_invite env now p email r)"
  "keeps (offered (\<lambda>org r'. org = p_org_id p \<and> r' = r)) (admin_invite env now p email r)"
proof -
  show "keeps (granted P) (admin_invite env now p email r)"
    by (intro granted_keeps frame_invite) simp_all
  let ?Q = "\<lambda>org r'. org = p_org_id p \<and> r' = r"
  have ins: "keeps (offered ?Q) (act_sql (InsertInvite i (p_org_id p) e r u x c h))" for i e u x c h
    by (auto simp: keeps_def offered_def)
  show "keeps (offered ?Q) (admin_invite env now p email r)"
    unfolding admin_invite_def Let_def
    by (intro offered_step.keeps_intros ins offer.keeps_send offer.keeps_audit offer.k_draw)
qed

lemma change_role_keeps:
  "keeps (granted (\<lambda>u org r'. u = uid \<and> org = p_org_id p \<and> r' = r)) (admin_change_role env now p uid r)"
  "keeps (offered Q) (admin_change_role env now p uid r)"
  unfolding admin_change_role_def change_role_def
  by (intro granted_step.keeps_intros grant.keeps_audit granted_set_role; simp)
    (intro offered_step.keeps_intros offer.keeps_audit offered_sql)

lemma granted_weaken: "granted P w w' \<Longrightarrow> (\<And>u org r. P u org r \<Longrightarrow> P' u org r) \<Longrightarrow> granted P' w w'"
  unfolding granted_def by blast

lemma keeps_granted_weaken: "keeps (granted P) m \<Longrightarrow> (\<And>u org r. P u org r \<Longrightarrow> P' u org r) \<Longrightarrow> keeps (granted P') m"
  by (auto simp: keeps_def intro: granted_weaken)

lemma keeps_offered_weaken: "keeps (offered Q) m \<Longrightarrow> (\<And>org r. Q org r \<Longrightarrow> Q' org r) \<Longrightarrow> keeps (offered Q') m"
  by (fastforce simp: keeps_def offered_def)

text \<open>What a step changes in roles and invitations, it grants and offers.\<close>

lemma request_step:
  assumes ent: "au_mode (ev_settings env) = MODE_ENTERPRISE" and ok: "tables_ok (w_auth w)"
  shows "granted (grants env (now, AuthStep rq r) w) w (snd (auth_serve env now rq r w))
       \<and> offered (offers env (now, AuthStep rq r) w) w (snd (auth_serve env now rq r w))"
proof (cases "grant.plain_request r")
  case True
  from grant.keeps_plain_request[OF True] offer.keeps_plain_request[OF True] show ?thesis
    by (simp add: keeps_def)
next
  case False
  then show ?thesis
  proof (cases r)
    case (SignUp e pw name)
    with ent show ?thesis by (simp add: snd_respond sign_up_def granted_def offered_def)
  next
    case (SignIn e pw code)
    with grant.keeps_sign_in offer.keeps_sign_in show ?thesis by (simp add: snd_respond keeps_def)
  next
    case (AcceptInvite tok pw name)
    have "granted (grants env (now, AuthStep rq r) w) w (snd (accept_invite env now rq tok pw name w))"
      by (rule granted_accept_invite) (simp add: AcceptInvite)
    with offered_accept_invite show ?thesis by (simp add: AcceptInvite snd_respond keeps_def)
  next
    case (ChangeRole uid ro)
    have "keeps (granted (grants env (now, AuthStep rq r) w)) (respond_ok (admin_change_role env now p uid ro))
        \<and> keeps (offered (offers env (now, AuthStep rq r) w)) (respond_ok (admin_change_role env now p uid ro))"
      if "owner_request env now rq w (p_org_id p)" for p
      by (intro conjI grant.keeps_respond offer.keeps_respond change_role_keeps(2)
          keeps_granted_weaken[OF change_role_keeps(1)]) (simp add: ChangeRole that)
    from owner_step[OF ent ok this] show ?thesis by (simp add: ChangeRole)
  next
    case (Invite e ro)
    have "keeps (granted (grants env (now, AuthStep rq r) w)) (act_bind (admin_invite env now p e ro) (\<lambda>i. act_return (InviteView (fst i) (snd i))))
        \<and> keeps (offered (offers env (now, AuthStep rq r) w)) (act_bind (admin_invite env now p e ro) (\<lambda>i. act_return (InviteView (fst i) (snd i))))"
      if o: "owner_request env now rq w (p_org_id p)" for p
    proof
      show "keeps (granted (grants env (now, AuthStep rq r) w)) (act_bind (admin_invite env now p e ro) (\<lambda>i. act_return (InviteView (fst i) (snd i))))"
        by (intro granted_step.keeps_intros admin_invite_keeps)
      show "keeps (offered (offers env (now, AuthStep rq r) w)) (act_bind (admin_invite env now p e ro) (\<lambda>i. act_return (InviteView (fst i) (snd i))))"
        by (intro offered_step.keeps_intros keeps_offered_weaken[OF admin_invite_keeps(2)]) (simp add: Invite o)
    qed
    from owner_step[OF ent ok this] show ?thesis by (simp add: Invite)
  qed simp_all
qed

lemma role_step:
  assumes ent: "au_mode (ev_settings env) = MODE_ENTERPRISE" and ok: "tables_ok (w_auth w)"
  shows "granted (grants env s w) w (app_step env s w) \<and> offered (offers env s w) w (app_step env s w)"
proof (cases s)
  case (Pair now st)
  show ?thesis
  proof (cases st)
    case (AuthStep rq r)
    with Pair request_step[OF ent ok] show ?thesis by (simp add: app_step_serve)
  next
    case (SeedStep e org n pw)
    have "granted (grants env s w) w (snd (seed_admin env now e org n pw w))"
      using seed_keeps(1)[of org env now e n pw]
      by (auto simp: keeps_def Pair SeedStep intro: granted_weaken)
    with seed_keeps(2) show ?thesis by (simp add: Pair SeedStep app_step_def keeps_def)
  next
    case (RouteStep rq f)
    with Pair granted_step.keeps_bind[OF grant.keeps_auth_context grant.keeps_storage]
      offered_step.keeps_bind[OF offer.keeps_auth_context offer.keeps_storage]
    show ?thesis by (simp add: app_step_def keeps_def)
  next
    case (BackgroundStep f)
    with Pair grant.keeps_storage offer.keeps_storage show ?thesis by (simp add: app_step_def keeps_def)
  qed
qed

section \<open>Runs\<close>

text \<open>No step is a request of an owner of the organisation to change a role or to invite, nor seeds it.\<close>

fun no_owner_acts :: "auth_env \<Rightarrow> string \<Rightarrow> (int \<times> app_step) list \<Rightarrow> world \<Rightarrow> bool" where
  "no_owner_acts env org [] w = True"
| "no_owner_acts env org (s # ss) w =
     ((case s of
         (now, AuthStep rq (ChangeRole _ _)) \<Rightarrow> \<not> owner_request env now rq w org
       | (now, AuthStep rq (Invite _ _)) \<Rightarrow> \<not> owner_request env now rq w org
       | (_, SeedStep _ org' _ _) \<Rightarrow> org' \<noteq> org
       | _ \<Rightarrow> True)
      \<and> no_owner_acts env org ss (app_step env s w))"

definition invites_used :: "string \<Rightarrow> world \<Rightarrow> bool" where
  "invites_used org w = (\<forall>i \<in> set (dvalues (t_invites (w_auth w))). iv_org_id i = org \<longrightarrow> iv_consumed_at i \<noteq> None)"

lemma grants_no_owner:
  assumes "tables_ok (w_auth w)" and "no_owner_acts env org (s # ss) w" and "invites_used org w"
  shows "\<not> grants env s w u org r" and "\<not> offers env s w org r"
proof -
  show "\<not> offers env s w org r"
    using assms(2) by (cases "(env, s, w, org, r)" rule: offers.cases) auto
  have inv: "iv_org_id i \<noteq> org \<or> iv_consumed_at i \<noteq> None" if "invite_by_token (w_auth w) h = Some i" for h i
  proof -
    from that have "i \<in> set (dvalues (t_invites (w_auth w)))"
      by (auto simp: invite_by_token_def find_Some_iff)
    with assms(3) show ?thesis by (auto simp: invites_used_def)
  qed
  show "\<not> grants env s w u org r"
    using assms(2)
    by (cases "(env, s, w, u, org, r)" rule: grants.cases)
      (auto simp: live_invite_def split: option.splits dest: inv)
qed

text \<open>
  C28. In enterprise mode no request makes anybody a member of an organisation or changes a role
  there unless one of its owners has a hand in it: over every run in which no signed-in owner of the
  organisation changes a role or invites, and the seed command does not name it, from a state whose
  invitations to it are used up, every role in it stays what it was.
\<close>

theorem roles_change_only_through_owners:
  assumes "au_mode (ev_settings env) = MODE_ENTERPRISE" and "tables_ok (w_auth w)"
    and "invites_used org w" and "no_owner_acts env org ss w"
  shows "role_of (w_auth (app_run env ss w)) user org = role_of (w_auth w) user org"
  using assms(2-4)
proof (induction ss arbitrary: w)
  case (Cons s ss)
  let ?w = "app_step env s w"
  have st: "granted (grants env s w) w ?w" "offered (offers env s w) w ?w"
    using role_step[OF assms(1) Cons.prems(1), of s] by simp_all
  note none = grants_no_owner[OF Cons.prems(1,3,2)]
  have ok: "tables_ok (w_auth ?w)"
    using tables.keeps_app[of env "fst s" "snd s"] Cons.prems(1)
    by (simp add: keeps_def tables_order_def app_step_def)
  have "iv_consumed_at i' \<noteq> None" if i': "i' \<in> set (dvalues (t_invites (w_auth ?w)))" "iv_org_id i' = org" for i'
  proof -
    have "dict_ok (t_invites (w_auth ?w))" using ok by (simp add: tables_ok_def keyed_def)
    then obtain k where k: "dget (t_invites (w_auth ?w)) k = Some i'" by (rule dict_ok_values[OF _ i'(1)])
    with st(2) none(2) i'(2) obtain i where i: "dget (t_invites (w_auth w)) k = Some i" "iv_org_id i = org"
        "iv_consumed_at i \<noteq> None \<longrightarrow> iv_consumed_at i' \<noteq> None"
      unfolding offered_def by metis
    from i(1) have "i \<in> set (dvalues (t_invites (w_auth w)))"
      by (force simp: dvalues_def dest: map_of_SomeD)
    with Cons.prems(2) i(2,3) show ?thesis by (auto simp: invites_used_def)
  qed
  then have used: "invites_used org ?w" by (simp add: invites_used_def)
  have "role_of (w_auth ?w) user org = role_of (w_auth w) user org"
    using st(1) none(1) unfolding granted_def by metis
  with Cons.IH[OF ok used] Cons.prems(3) show ?case by simp
qed simp

lemma anonymous_not_owner: "\<not> owner_request env now (request_with hs []) w org"
  by (simp add: owner_request_def session_of_cookie_def request_with_def nonempty_def)

theorem roles_change_only_through_owners_witness:
  "role_of (w_auth (app_run demo_auth_env
      [(1000, AuthStep (request_with [] []) demo_sign_in),
       (2000, AuthStep (request_with [] []) (ChangeRole ''u0'' READONLY_INVESTIGATOR)),
       (3000, AuthStep (request_with [] []) (AcceptInvite ''t1'' ''pw'' ''Eve''))] demo_world)) ''u0'' ''org'' = Some ORG_OWNER"
proof -
  have "invites_used ''org'' demo_world"
    by (simp add: invites_used_def dvalues_def demo_world_def empty_world_def)
  then show ?thesis
    by (subst roles_change_only_through_owners[OF _ demo_tables_ok])
      (simp_all add: demo_settings_def demo_sign_in_def anonymous_not_owner role_of_def demo_world_def)
qed

end
