(* ===== verification/AuthLimit.thy ===== *)
theory AuthLimit
  imports AuthSignIn
begin

text \<open>
  The rate limit (\<open>ratelimit.py\<close>) counts exactly: of any sequence of limited requests the ones
  blocked are those that are preceded, in their window, by ten requests of their address.
\<close>

text \<open>A request to a limited route: when, which route, its headers and the address of the connection.\<close>

type_synonym limited = "int \<times> string \<times> (string, string) dict \<times> string option"

fun limit_key :: "limited \<Rightarrow> string" where
  "limit_key (now, bucket, headers, fallback) =
     rate_limit_key (rate_limit_config_of bucket) (rate_limited_ip headers fallback) now"

fun limit_run :: "limited list \<Rightarrow> world \<Rightarrow> bool list" where
  "limit_run [] w = []"
| "limit_run ((now, bucket, headers, fallback) # rs) w =
     (case enforce_or_block now (rate_limit_config_of bucket) headers fallback w of
        (out, w') \<Rightarrow> (\<not> is_ok out) # limit_run rs w')"

text \<open>
  What the routes should do, said without their counters and keys: a request is charged to the route,
  to the address it shows and to the minute it arrives in, and blocked when more than ten are.  The
  address is the first entry of the first of the proxy headers, in either spelling, that is not empty,
  else that of the connection; requests without any address are charged together.
\<close>

definition proxy_headers :: "string list" where
  "proxy_headers = [''x-forwarded-for'', ''X-Forwarded-For'', ''x-real-ip'', ''X-Real-Ip'', ''forwarded'', ''Forwarded'']"

fun first_sent :: "(string, string) dict \<Rightarrow> string list \<Rightarrow> string" where
  "first_sent headers [] = []"
| "first_sent headers (k # ks) =
     (case dget headers k of None \<Rightarrow> first_sent headers ks
      | Some v \<Rightarrow> if v = [] then first_sent headers ks else v)"

definition shown_address :: "(string, string) dict \<Rightarrow> string option \<Rightarrow> string" where
  "shown_address headers connection =
     (let sent = first_sent headers proxy_headers;
          shown = (if sent = [] then (case connection of None \<Rightarrow> [] | Some a \<Rightarrow> a)
                   else strip_by is_space (takeWhile (\<lambda>c. c \<noteq> CHR '','') sent)) in
      if shown = [] then ''unknown'' else shown)"

fun charged :: "limited \<Rightarrow> string \<times> string \<times> int" where
  "charged (now, bucket, headers, connection) = (bucket, shown_address headers connection, now div 60000)"

definition limit_spec :: "limited list \<Rightarrow> bool list" where
  "limit_spec rs =
     map (\<lambda>i. 10 < length (filter (\<lambda>r. charged r = charged (rs ! i)) (take (Suc i) rs))) [0..<length rs]"

lemma shown_address_ip: "shown_address headers connection = rate_limited_ip headers connection"
proof -
  have f: "first_header headers ks = nonempty (Some (first_sent headers (concat (map (\<lambda>k. [fst k, snd k]) ks))))" for ks
    by (induction ks) (auto simp: header_or_title_def nonempty_def split: option.split)
  have "first_header headers [(''x-forwarded-for'', ''X-Forwarded-For''), (''x-real-ip'', ''X-Real-Ip''),
      (''forwarded'', ''Forwarded'')] = nonempty (Some (first_sent headers proxy_headers))"
    by (simp only: f proxy_headers_def list.map concat.simps append.simps fst_conv snd_conv)
  then show ?thesis
    by (cases "first_sent headers proxy_headers"; cases connection)
      (simp_all add: shown_address_def rate_limited_ip_def client_ip_def nonempty_def first_hop_def Let_def)
qed

text \<open>The counter of a key after the requests \<open>seen\<close>, which outlives its window.\<close>

definition window_of :: "int \<Rightarrow> int" where
  "window_of now = now div 1000 div DEFAULT_WINDOW_SECONDS"

definition counter_ok :: "limited list \<Rightarrow> cache \<Rightarrow> limited \<Rightarrow> bool" where
  "counter_ok seen c r =
     (let n = length (filter (\<lambda>s. limit_key s = limit_key r) seen) in
      if n = 0 then dget (c_store c) (limit_key r) = None
      else \<exists>until. dget (c_store c) (limit_key r) = Some (show_int (int n), Some until)
             \<and> (window_of (fst r) + 1) * 60000 \<le> until)"

lemma window_bounds: "window_of now * 60000 \<le> now" "now < (window_of now + 1) * 60000"
proof -
  have "now div 1000 div 60 = now div 60000" by (simp add: zdiv_zmult2_eq[symmetric])
  then show "window_of now * 60000 \<le> now" "now < (window_of now + 1) * 60000"
    by (simp_all add: window_of_def DEFAULT_WINDOW_SECONDS_def minus_mod_eq_div_mult[symmetric] algebra_simps)
qed

text \<open>A key is the route up to its first colon, the window after the last one, and the address.\<close>

lemma last_colon:
  assumes "a @ CHR '':'' # show_int x = b @ CHR '':'' # show_int y"
  shows "a = b \<and> x = y"
proof -
  have "CHR '':'' \<notin> set (show_int z)" for z
    using show_int_num[of "CHR '':''" z] by (auto simp: num_char_def is_digit_def)
  from split_at_last[OF assms this this] show ?thesis by simp
qed

lemma limit_key_parts:
  assumes "limit_key (now, bucket, h, f) = limit_key (now', bucket', h', f')"
  shows "bucket @ '':'' @ rate_limited_ip h f = bucket' @ '':'' @ rate_limited_ip h' f'" and "window_of now = window_of now'"
  using assms last_colon[of "''ratelimit:'' @ bucket @ '':'' @ rate_limited_ip h f" "window_of now"
      "''ratelimit:'' @ bucket' @ '':'' @ rate_limited_ip h' f'" "window_of now'"]
  by (simp_all add: rate_limit_key_def rate_limit_config_of_def window_of_def)

lemma limit_key_window: "limit_key r = limit_key r' \<Longrightarrow> window_of (fst r) = window_of (fst r')"
  by (cases r; cases r') (metis fst_conv limit_key_parts(2))

lemma window_of_minute: "window_of now = now div 60000"
proof -
  have "now div 1000 div 60 = now div 60000" by (simp add: zdiv_zmult2_eq[symmetric])
  then show ?thesis by (simp add: window_of_def DEFAULT_WINDOW_SECONDS_def)
qed

lemma limit_key_charged:
  assumes "CHR '':'' \<notin> set (fst (snd r))" and "CHR '':'' \<notin> set (fst (snd r'))"
  shows "limit_key r = limit_key r' \<longleftrightarrow> charged r = charged r'"
proof -
  obtain now b h f now' b' h' f' where r: "r = (now, b, h, f)" "r' = (now', b', h', f')" by (metis prod_cases4)
  show ?thesis
  proof
    assume "limit_key r = limit_key r'"
    note parts = limit_key_parts[OF this[unfolded r]]
    from split_at_first[of b "CHR '':''" "rate_limited_ip h f" b' "rate_limited_ip h' f'"] parts(1) assms
    show "charged r = charged r'" using parts(2) by (simp add: r shown_address_ip window_of_minute)
  next
    assume "charged r = charged r'"
    then show "limit_key r = limit_key r'"
      by (simp add: r shown_address_ip rate_limit_key_def rate_limit_config_of_def window_of_minute[unfolded window_of_def])
  qed
qed

lemma parse_count_show_int: "parse_count (show_int (int n)) = Some (int n)"
  using show_nat_digits by (auto simp: parse_count_def show_int_def list_all_iff)

lemma show_int_one: "show_int 1 = ''1''"
  by code_simp

text \<open>One request is blocked as specified and counted under its key only.\<close>

lemma limit_step:
  assumes inv: "\<And>r'. counter_ok seen (st_cache (w_storage w)) r'" and r: "r = (now, bucket, headers, fallback)"
    and out: "enforce_or_block now (rate_limit_config_of bucket) headers fallback w = (out, w')"
  shows "\<not> is_ok out \<longleftrightarrow> 10 < Suc (length (filter (\<lambda>s. limit_key s = limit_key r) seen))"
    and "counter_ok (seen @ [r]) (st_cache (w_storage w')) r'"
proof -
  let ?c = "st_cache (w_storage w)" and ?k = "limit_key r"
  let ?n = "length (filter (\<lambda>s. limit_key s = ?k) seen)"
  have key: "?k = rate_limit_key (rate_limit_config_of bucket) (rate_limited_ip headers fallback) now" by (simp add: r)
  have res: "\<not> is_ok out \<longleftrightarrow> fst (increment_and_check now ?k 10 60 ?c)"
    "st_cache (w_storage w') = snd (increment_and_check now ?k 10 60 ?c)"
    using out by (auto simp: enforce_or_block_def key rate_limit_config_of_def DEFAULT_LIMIT_PER_WINDOW_def
        DEFAULT_WINDOW_SECONDS_def Let_def split: if_splits)
  have step: "\<exists>until. (window_of now + 1) * 60000 \<le> until
      \<and> c_store (snd (increment_and_check now ?k 10 60 ?c)) = dset ?k (show_int (int ?n + 1), Some until) (c_store ?c)
      \<and> (fst (increment_and_check now ?k 10 60 ?c) \<longleftrightarrow> 10 < Suc ?n)"
  proof (cases "?n = 0")
    case True
    with inv[of r] have "dget (c_store ?c) ?k = None" by (simp add: counter_ok_def)
    with True window_bounds[of now] show ?thesis
      by (intro exI[of _ "now + 60000"])
        (simp add: increment_and_check_def cache_get_def cache_live_def set_if_absent_def show_int_one)
  next
    case False
    with inv[of r] obtain until where g: "dget (c_store ?c) ?k = Some (show_int (int ?n), Some until)"
        and u: "(window_of now + 1) * 60000 \<le> until"
      by (auto simp: counter_ok_def Let_def r)
    with window_bounds[of now] have "\<not> until < now" by simp
    with g u show ?thesis
      by (intro exI[of _ until])
        (auto simp: increment_and_check_def cache_get_def cache_live_def parse_count_show_int cache_set_def Let_def)
  qed
  then obtain until where u: "(window_of now + 1) * 60000 \<le> until"
      and store: "c_store (st_cache (w_storage w')) = dset ?k (show_int (int ?n + 1), Some until) (c_store ?c)"
      and blocked: "\<not> is_ok out \<longleftrightarrow> 10 < Suc ?n"
    unfolding res by blast
  show "\<not> is_ok out \<longleftrightarrow> 10 < Suc ?n" by (rule blocked)
  show "counter_ok (seen @ [r]) (st_cache (w_storage w')) r'"
  proof (cases "limit_key r' = ?k")
    case True
    from limit_key_window[OF this] u have "(window_of (fst r') + 1) * 60000 \<le> until" by (simp add: r)
    with True store show ?thesis by (simp add: counter_ok_def Let_def add.commute)
  next
    case False
    then have "dget (c_store (st_cache (w_storage w'))) (limit_key r') = dget (c_store ?c) (limit_key r')"
        "filter (\<lambda>s. limit_key s = limit_key r') (seen @ [r]) = filter (\<lambda>s. limit_key s = limit_key r') seen"
      using store by auto
    with inv[of r'] show ?thesis by (simp only: counter_ok_def)
  qed
qed

lemma limit_run_from:
  assumes "\<And>r. counter_ok seen (st_cache (w_storage w)) r"
  shows "limit_run rs w =
    map (\<lambda>i. 10 < length (filter (\<lambda>r. limit_key r = limit_key (rs ! i)) (seen @ take (Suc i) rs))) [0..<length rs]"
  using assms
proof (induction rs arbitrary: seen w)
  case (Cons r rs)
  obtain now bucket headers fallback where r: "r = (now, bucket, headers, fallback)" by (metis prod_cases4)
  obtain out w' where out: "enforce_or_block now (rate_limit_config_of bucket) headers fallback w = (out, w')" by fastforce
  note st = limit_step[OF Cons.prems r out]
  have "limit_run (r # rs) w = (\<not> is_ok out) # limit_run rs w'" by (simp add: r out)
  also have "limit_run rs w' =
      map (\<lambda>i. 10 < length (filter (\<lambda>q. limit_key q = limit_key (rs ! i)) ((seen @ [r]) @ take (Suc i) rs))) [0..<length rs]"
    by (rule Cons.IH) (rule st(2))
  also have "(\<not> is_ok out) # \<dots> = map (\<lambda>i. 10 < length (filter (\<lambda>q. limit_key q = limit_key ((r # rs) ! i))
      (seen @ take (Suc i) (r # rs)))) [0..<length (r # rs)]"
    by (simp add: st(1) upt_conv_Cons map_Suc_upt[symmetric] comp_def del: upt_Suc)
  finally show ?case .
qed simp

text \<open>
  C30. Any sequence of requests to limited routes (whose names have no colon, as those of the program
  have none), of any headers, addresses and times, on a cache without counters, is blocked exactly as
  the specification says: a request passes if and only if at most ten requests, itself included, have
  been made to its route from the address it shows within its minute.  The address it shows is the
  first entry of the first header, among those of a proxy, that is not empty, else the address of
  the connection.  In particular a counter never expires within its minute.
\<close>

theorem rate_limit_is_exact:
  assumes "\<And>key. starts_with key ''ratelimit:'' \<Longrightarrow> dget (c_store (st_cache (w_storage w))) key = None"
    and "\<forall>(now, bucket, headers, connection) \<in> set rs. CHR '':'' \<notin> set bucket"
  shows "limit_run rs w = limit_spec rs"
proof -
  have "counter_ok [] (st_cache (w_storage w)) r" for r
  proof -
    obtain now bucket headers fallback where r: "r = (now, bucket, headers, fallback)" by (metis prod_cases4)
    have "starts_with (limit_key r) ''ratelimit:''" by (simp add: r rate_limit_key_def starts_with_def)
    with assms(1) show ?thesis by (simp add: counter_ok_def)
  qed
  note run = limit_run_from[OF this, of rs]
  have "filter (\<lambda>r. limit_key r = limit_key (rs ! i)) (take (Suc i) rs) = filter (\<lambda>r. charged r = charged (rs ! i)) (take (Suc i) rs)"
    if "i < length rs" for i
  proof (rule filter_cong[OF refl])
    fix r assume "r \<in> set (take (Suc i) rs)"
    then have "r \<in> set rs" by (rule in_set_takeD)
    then show "limit_key r = limit_key (rs ! i) \<longleftrightarrow> charged r = charged (rs ! i)"
      using assms(2) nth_mem[OF that] by (intro limit_key_charged) auto
  qed
  with run show ?thesis by (simp add: limit_spec_def)
qed

theorem rate_limit_is_exact_witness:
  "limit_run (replicate 11 (5000, ''sign-in'', [(''x-forwarded-for'', ''ip, proxy'')], Some ''proxy'')
      @ [(5001, ''sign-in'', [], Some ''ip''), (5002, ''sign-in'', [], Some ''other'')]) demo_world
    = replicate 10 False @ [True, True, False]"
proof -
  let ?rs = "replicate 11 (5000, ''sign-in'', [(''x-forwarded-for'', ''ip, proxy'')], Some ''proxy'')
      @ [(5001, ''sign-in'', [], Some ''ip''), (5002, ''sign-in'', [], Some ''other'')] :: limited list"
  have "limit_run ?rs demo_world = limit_spec ?rs"
    by (rule rate_limit_is_exact) (auto simp: demo_world_def empty_world_def empty_storage_def)
  also have "\<dots> = replicate 10 False @ [True, True, False]" by code_simp
  finally show ?thesis .
qed

end
