(* ===== verification/ModelRouter.thy ===== *)
theory ModelRouter
  imports PyText Schema
begin

text \<open>
  \<open>packages/shield-governance/src/shield_governance/model_router.py\<close> and \<open>pricing.py\<close>: which model
  serves a role, how its client is made, and what a call to it costs.  A profile is the parsed
  YAML; reading the file and the two vendor constructors (\<open>ChatAnthropic\<close>, \<open>ChatOpenAI\<close>) are
  parameters, the latter absent when the package is not installed.
\<close>

section \<open>int() of a value\<close>

definition int_of_str :: "string \<Rightarrow> int option" where
  "int_of_str s =
     (let (neg, ds) = split_sign (strip_by is_space s) in
      case drop_underscores False ds of
        None \<Rightarrow> None
      | Some t \<Rightarrow> if t \<noteq> [] \<and> list_all is_digit t
                  then Some (if neg then - int (digits_value t) else int (digits_value t)) else None)"

definition trunc_rat :: "rat \<Rightarrow> int" where
  "trunc_rat x = (if 0 \<le> x then \<lfloor>x\<rfloor> else - \<lfloor>- x\<rfloor>)"

definition py_int :: "json \<Rightarrow> py_exc + int" where
  "py_int v =
     (case v of
        JBool b \<Rightarrow> Inr (if b then 1 else 0)
      | JInt i \<Rightarrow> Inr i
      | JFloat x \<Rightarrow> (case x of Fin q \<Rightarrow> Inr (trunc_rat q) | NaN \<Rightarrow> Inl ValueError | _ \<Rightarrow> Inl OverflowError)
      | JStr s \<Rightarrow> (case int_of_str s of None \<Rightarrow> Inl ValueError | Some i \<Rightarrow> Inr i)
      | _ \<Rightarrow> Inl TypeError)"

section \<open>Roles and their models\<close>

definition GUARDIAN_ROLES :: "string list" where
  "GUARDIAN_ROLES = [''defender'', ''evaluator'', ''supervisor'', ''auditor'']"

definition VALID_PROVIDERS :: "string list" where
  "VALID_PROVIDERS = [''anthropic'', ''openai_compat'', ''local'']"

definition default_served_via :: "string \<Rightarrow> served_via" where
  "default_served_via provider = (if provider = ''anthropic'' then CLOUD else LOCAL)"

record resolved_model =
  rm_role :: string
  rm_provider :: string
  rm_model :: string
  rm_served_via :: served_via
  rm_base_url :: "string option"
  rm_api_key_env :: string
  rm_temperature :: pyfloat
  rm_max_tokens :: "int option"
  rm_enabled :: bool

text \<open>\<open>d.get(key, default)\<close>, and \<open>ServedVia(s)\<close>, which raises on any other value.\<close>

definition get_or :: "jobj \<Rightarrow> string \<Rightarrow> json \<Rightarrow> json" where
  "get_or kvs k d = (case dget kvs k of None \<Rightarrow> d | Some v \<Rightarrow> v)"

definition served_via_of_string :: "string \<Rightarrow> py_exc + served_via" where
  "served_via_of_string s =
     (if s = ''cloud'' then Inr CLOUD else if s = ''local'' then Inr LOCAL else Inl ValueError)"

definition disabled_model :: "(rat \<Rightarrow> string) \<Rightarrow> string \<Rightarrow> jobj \<Rightarrow> resolved_model" where
  "disabled_model fr role spec =
     \<lparr>rm_role = role, rm_provider = ''local'', rm_model = py_str fr (get_or spec ''model'' (JStr ''<disabled>'')),
      rm_served_via = LOCAL, rm_base_url = None, rm_api_key_env = ''SHIELD_LLM_KEY'', rm_temperature = Fin 0,
      rm_max_tokens = None, rm_enabled = False\<rparr>"

definition resolve_served_via :: "(rat \<Rightarrow> string) \<Rightarrow> jobj \<Rightarrow> string \<Rightarrow> py_exc + served_via" where
  "resolve_served_via fr spec provider =
     (case field spec ''served_via'' of
        JNull \<Rightarrow> Inr (default_served_via provider)
      | v \<Rightarrow> served_via_of_string (py_str fr v))"

definition resolve_base_url :: "(rat \<Rightarrow> string) \<Rightarrow> jobj \<Rightarrow> string option" where
  "resolve_base_url fr spec =
     (case field spec ''base_url'' of JNull \<Rightarrow> None | v \<Rightarrow> Some (py_str fr v))"

definition resolve_max_tokens :: "jobj \<Rightarrow> py_exc + int option" where
  "resolve_max_tokens spec =
     (case field spec ''max_tokens'' of JNull \<Rightarrow> Inr None | v \<Rightarrow> rbind (py_int v) (\<lambda>i. Inr (Some i)))"

definition resolve_enabled :: "(rat \<Rightarrow> string) \<Rightarrow> string \<Rightarrow> jobj \<Rightarrow> py_exc + resolved_model" where
  "resolve_enabled fr role spec =
     (let provider = strip_by is_space (py_str fr (get_or spec ''provider'' (JStr [])));
          model = strip_by is_space (py_str fr (get_or spec ''model'' (JStr [])));
          url = resolve_base_url fr spec in
      if provider \<notin> set VALID_PROVIDERS then Inl ValueError
      else if model = [] then Inl ValueError
      else rbind (resolve_served_via fr spec provider) (\<lambda>via.
        if provider = ''openai_compat'' \<and> (url = None \<or> url = Some []) then Inl ValueError
        else rbind (resolve_max_tokens spec) (\<lambda>tokens.
          rbind (py_float (get_or spec ''temperature'' (JFloat (Fin 0)))) (\<lambda>temp.
            Inr \<lparr>rm_role = role, rm_provider = provider, rm_model = model, rm_served_via = via,
              rm_base_url = url,
              rm_api_key_env = py_str fr (get_or spec ''api_key_env''
                (JStr (if provider = ''anthropic'' then ''ANTHROPIC_API_KEY'' else ''SHIELD_LLM_KEY''))),
              rm_temperature = temp, rm_max_tokens = tokens, rm_enabled = True\<rparr>))))"

definition resolve_role :: "(rat \<Rightarrow> string) \<Rightarrow> string \<Rightarrow> json \<Rightarrow> py_exc + resolved_model" where
  "resolve_role fr role spec =
     (case spec of
        JObj kvs \<Rightarrow> (if truthy (get_or kvs ''enabled'' (JBool True)) then resolve_enabled fr role kvs
                     else Inr (disabled_model fr role kvs))
      | _ \<Rightarrow> Inl ValueError)"

section \<open>The router\<close>

text \<open>
  \<open>_load_yaml\<close>: a profile that is not there is FileNotFoundError, one that is no mapping a
  ValueError.  \<open>files\<close> reads and parses a path.
\<close>

datatype load_error = FileNotFound | LoadRaised py_exc

definition load_yaml :: "(string \<Rightarrow> json option) \<Rightarrow> string \<Rightarrow> load_error + jobj" where
  "load_yaml files path =
     (case files path of
        None \<Rightarrow> Inl FileNotFound
      | Some (JObj kvs) \<Rightarrow> Inr kvs
      | Some _ \<Rightarrow> Inl (LoadRaised ValueError))"

text \<open>The entries of a mapping merged over another, \<open>d.update(e)\<close>.\<close>

definition dict_update :: "('k, 'v) dict \<Rightarrow> ('k, 'v) dict \<Rightarrow> ('k, 'v) dict" where
  "dict_update d e = foldl (\<lambda>m (k, v). dset k v m) d e"

definition guardian_specs :: "jobj \<Rightarrow> py_exc + jobj" where
  "guardian_specs cfg =
     (case field cfg ''guardians'' of
        JObj gs \<Rightarrow> if set (map fst gs) = set GUARDIAN_ROLES then Inr gs else Inl ValueError
      | _ \<Rightarrow> Inl ValueError)"

definition merge_aux :: "jobj \<Rightarrow> jobj \<Rightarrow> py_exc + jobj" where
  "merge_aux cfg gs =
     (case field cfg ''aux_roles'' of
        JNull \<Rightarrow> Inr gs
      | JObj aux \<Rightarrow> if list_ex (\<lambda>k. k \<in> set GUARDIAN_ROLES) (map fst aux) then Inl ValueError
                   else Inr (dict_update gs aux)
      | _ \<Rightarrow> Inl ValueError)"

fun resolve_all :: "(rat \<Rightarrow> string) \<Rightarrow> jobj \<Rightarrow> py_exc + (string, resolved_model) dict" where
  "resolve_all fr [] = Inr []"
| "resolve_all fr ((name, spec) # rest) =
     rbind (resolve_role fr name spec) (\<lambda>m. rbind (resolve_all fr rest) (\<lambda>ms. Inr ((name, m) # ms)))"

text \<open>
  A client is what a vendor's constructor returned for its keyword arguments, or the reference to
  a local classifier.
\<close>

datatype client = LocalModelReference resolved_model | VendorClient string jobj

type_synonym client_builder = "resolved_model \<Rightarrow> string option \<Rightarrow> py_exc + client option"

record model_router =
  mr_profile :: string
  mr_roles :: "(string, resolved_model) dict"
  mr_environ :: "(string, string) dict"
  mr_builders :: "(string, client_builder) dict"

type_synonym client_cache = "(string, client option) dict"

definition token_kwargs :: "resolved_model \<Rightarrow> jobj" where
  "token_kwargs m = (case rm_max_tokens m of None \<Rightarrow> [] | Some n \<Rightarrow> [(''max_tokens'', JInt n)])"

definition build_anthropic_client :: "(jobj \<Rightarrow> py_exc + client) option \<Rightarrow> client_builder" where
  "build_anthropic_client chat m key =
     (case chat of
        None \<Rightarrow> Inl RuntimeError
      | Some f \<Rightarrow> rbind (f ([(''model'', JStr (rm_model m)), (''api_key'', opt_json JStr key),
                            (''temperature'', JFloat (rm_temperature m))] @ token_kwargs m)) (\<lambda>c. Inr (Some c)))"

definition build_openai_compat_client :: "(jobj \<Rightarrow> py_exc + client) option \<Rightarrow> client_builder" where
  "build_openai_compat_client chat m key =
     (case chat of
        None \<Rightarrow> Inl RuntimeError
      | Some f \<Rightarrow> rbind (f ([(''model'', JStr (rm_model m)),
            (''api_key'', JStr (if key = None \<or> key = Some [] then ''local-no-key'' else the key)),
            (''base_url'', opt_json JStr (rm_base_url m)),
            (''temperature'', JFloat (rm_temperature m))] @ token_kwargs m)) (\<lambda>c. Inr (Some c)))"

definition build_local_reference :: client_builder where
  "build_local_reference m key = Inr (Some (LocalModelReference m))"

definition make_router ::
  "(rat \<Rightarrow> string) \<Rightarrow> (jobj \<Rightarrow> py_exc + client) option \<Rightarrow> (jobj \<Rightarrow> py_exc + client) option
   \<Rightarrow> (string, client_builder) dict \<Rightarrow> (string, string) dict \<Rightarrow> jobj \<Rightarrow> py_exc + model_router" where
  "make_router fr anthropic openai builders environ cfg =
     (let profile = strip_by is_space (py_str fr (get_or cfg ''profile'' (JStr []))) in
      if profile = [] then Inl ValueError
      else rbind (guardian_specs cfg) (\<lambda>gs.
        rbind (merge_aux cfg gs) (\<lambda>merged.
        rbind (resolve_all fr merged) (\<lambda>roles.
          Inr \<lparr>mr_profile = profile, mr_roles = roles, mr_environ = environ,
            mr_builders = dict_update [(''anthropic'', build_anthropic_client anthropic),
              (''openai_compat'', build_openai_compat_client openai), (''local'', build_local_reference)]
              builders\<rparr>))))"

definition router_from_path ::
  "(rat \<Rightarrow> string) \<Rightarrow> (jobj \<Rightarrow> py_exc + client) option \<Rightarrow> (jobj \<Rightarrow> py_exc + client) option
   \<Rightarrow> (string, client_builder) dict \<Rightarrow> (string, string) dict \<Rightarrow> (string \<Rightarrow> json option) \<Rightarrow> string
   \<Rightarrow> load_error + model_router" where
  "router_from_path fr anthropic openai builders environ files path =
     rbind (load_yaml files path) (\<lambda>cfg.
       case make_router fr anthropic openai builders environ cfg of
         Inl e \<Rightarrow> Inl (LoadRaised e) | Inr r \<Rightarrow> Inr r)"

definition router_from_profile ::
  "(rat \<Rightarrow> string) \<Rightarrow> (jobj \<Rightarrow> py_exc + client) option \<Rightarrow> (jobj \<Rightarrow> py_exc + client) option
   \<Rightarrow> (string, client_builder) dict \<Rightarrow> (string, string) dict \<Rightarrow> (string \<Rightarrow> json option) \<Rightarrow> string \<Rightarrow> string
   \<Rightarrow> load_error + model_router" where
  "router_from_profile fr anthropic openai builders environ files dir profile =
     router_from_path fr anthropic openai builders environ files (dir @ ''/models.'' @ profile @ ''.yaml'')"

section \<open>Resolution and clients\<close>

definition for_role :: "model_router \<Rightarrow> string \<Rightarrow> py_exc + resolved_model" where
  "for_role rt role = (case dget (mr_roles rt) role of None \<Rightarrow> Inl KeyError | Some m \<Rightarrow> Inr m)"

definition served_via_of :: "model_router \<Rightarrow> string \<Rightarrow> py_exc + served_via" where
  "served_via_of rt role = rbind (for_role rt role) (\<lambda>m. Inr (rm_served_via m))"

definition model_id_of :: "model_router \<Rightarrow> string \<Rightarrow> py_exc + string" where
  "model_id_of rt role = rbind (for_role rt role) (\<lambda>m. Inr (rm_model m))"

definition api_key_for :: "model_router \<Rightarrow> resolved_model \<Rightarrow> py_exc + string option" where
  "api_key_for rt m =
     (let v = dget (mr_environ rt) (rm_api_key_env m); missing = (v = None \<or> v = Some []) in
      if rm_provider m = ''anthropic'' \<and> missing then Inl ValueError
      else if rm_provider m = ''openai_compat'' then Inr (Some (if missing then ''local-no-key'' else the v))
      else Inr v)"

definition client_for :: "model_router \<Rightarrow> client_cache \<Rightarrow> resolved_model \<Rightarrow> (py_exc + client option) \<times> client_cache" where
  "client_for rt cache m =
     (case dget cache (rm_role m) of
        Some (Some c) \<Rightarrow> (Inr (Some c), cache)
      | _ \<Rightarrow>
        (case dget (mr_builders rt) (rm_provider m) of
           None \<Rightarrow> (Inl ValueError, cache)
         | Some builder \<Rightarrow>
           (case rbind (api_key_for rt m) (builder m) of
              Inl e \<Rightarrow> (Inl e, cache)
            | Inr c \<Rightarrow> (Inr c, dset (rm_role m) c cache))))"

text \<open>\<open>model_factory(role)(state, runtime)\<close>: the factory and its first use in one.\<close>

definition model_factory :: "model_router \<Rightarrow> client_cache \<Rightarrow> string \<Rightarrow> (py_exc + client option) \<times> client_cache" where
  "model_factory rt cache role =
     (case for_role rt role of
        Inl e \<Rightarrow> (Inl e, cache)
      | Inr m \<Rightarrow> if \<not> rm_enabled m then (Inl ValueError, cache) else client_for rt cache m)"

section \<open>The price of a call\<close>

definition price_table :: "(string, pyfloat \<times> pyfloat) dict" where
  "price_table = [(''claude-haiku-4-5-20251001'', Fin 1, Fin 5), (''claude-sonnet-4-6'', Fin 3, Fin 15),
     (''claude-opus-4-7'', Fin 15, Fin 75)]"

text \<open>\<open>tokens / 1_000_000.0 * price\<close>: the token count is converted to a float first.\<close>

definition token_cost :: "int \<Rightarrow> pyfloat \<Rightarrow> py_exc + pyfloat" where
  "token_cost n price =
     (case float_of_int n of
        None \<Rightarrow> Inl OverflowError
      | Some x \<Rightarrow> (case fdiv x (Fin 1000000) of None \<Rightarrow> Inl ZeroDivisionError | Some y \<Rightarrow> Inr (fmul y price)))"

definition cost_usd :: "string option \<Rightarrow> served_via option \<Rightarrow> int \<Rightarrow> int \<Rightarrow> py_exc + pyfloat" where
  "cost_usd model_id via prompt completion =
     (if via = Some LOCAL then Inr (Fin 0)
      else case model_id of
        None \<Rightarrow> Inl KeyError
      | Some m \<Rightarrow>
        (case dget price_table m of
           None \<Rightarrow> Inl KeyError
         | Some (pin, pout) \<Rightarrow>
             rbind (token_cost prompt pin) (\<lambda>a. rbind (token_cost completion pout) (\<lambda>b. Inr (fadd a b)))))"

end
