(* ===== verification/GuardianEvidence.thy ===== *)
theory GuardianEvidence
  imports ModelRouter
begin

text \<open>
  \<open>packages/shield-governance/src/shield_governance/evidence.py\<close> (one row per decision of a
  guardian), \<open>token_counter.py\<close> (the tokens of each model call) and the coercion of a model's reply
  in \<open>router_runtime.py\<close>.  The locks serialise the operations and have no counterpart here.
\<close>

section \<open>Evidence rows\<close>

record evidence =
  ge_record_id :: string
  ge_correlation_id :: string
  ge_guardian :: guardian
  ge_decision :: decision
  ge_reasons :: "string list"
  ge_model_id :: "string option"
  ge_served_via :: "served_via option"
  ge_prompt_tokens :: int
  ge_completion_tokens :: int
  ge_latency_ms :: pyfloat
  ge_cost_usd :: pyfloat
  ge_memory :: "jobj option"
  ge_tool_calls :: "string list"

text \<open>What \<open>record_for_record\<close> is given beside the record; the defaults are the source's.\<close>

record evidence_input =
  gi_guardian :: guardian
  gi_decision :: decision
  gi_reasons :: "string list"
  gi_model_id :: "string option"
  gi_served_via :: "served_via option"
  gi_prompt_tokens :: int
  gi_completion_tokens :: int
  gi_latency_ms :: pyfloat
  gi_cost_usd :: pyfloat
  gi_memory :: "jobj option"
  gi_tool_calls :: "string list"

definition evidence_input_of :: "guardian \<Rightarrow> decision \<Rightarrow> string list \<Rightarrow> string option \<Rightarrow> served_via option \<Rightarrow> evidence_input" where
  "evidence_input_of g d reasons model_id via =
     \<lparr>gi_guardian = g, gi_decision = d, gi_reasons = reasons, gi_model_id = model_id, gi_served_via = via,
      gi_prompt_tokens = 0, gi_completion_tokens = 0, gi_latency_ms = Fin 0, gi_cost_usd = Fin 0,
      gi_memory = None, gi_tool_calls = []\<rparr>"

definition row_for :: "string \<Rightarrow> string \<Rightarrow> evidence_input \<Rightarrow> evidence" where
  "row_for rid cid i =
     \<lparr>ge_record_id = rid, ge_correlation_id = cid,
      ge_guardian = gi_guardian i, ge_decision = gi_decision i, ge_reasons = gi_reasons i,
      ge_model_id = gi_model_id i, ge_served_via = gi_served_via i,
      ge_prompt_tokens = max 0 (gi_prompt_tokens i), ge_completion_tokens = max 0 (gi_completion_tokens i),
      ge_latency_ms = fmax (Fin 0) (gi_latency_ms i), ge_cost_usd = fmax (Fin 0) (gi_cost_usd i),
      ge_memory = gi_memory i, ge_tool_calls = gi_tool_calls i\<rparr>"

definition evidence_row :: "action_record \<Rightarrow> evidence_input \<Rightarrow> evidence" where
  "evidence_row r i = row_for (r_record_id r) (r_correlation_id r) i"

type_synonym recorder = "evidence list"

definition record_for_record :: "recorder \<Rightarrow> action_record \<Rightarrow> evidence_input \<Rightarrow> recorder" where
  "record_for_record rows r i = rows @ [evidence_row r i]"

definition rows_for_record :: "recorder \<Rightarrow> string \<Rightarrow> evidence list" where
  "rows_for_record rows rid = filter (\<lambda>row. ge_record_id row = rid) rows"

definition has_guardian :: "recorder \<Rightarrow> string \<Rightarrow> guardian \<Rightarrow> bool" where
  "has_guardian rows rid g = list_ex (\<lambda>row. ge_record_id row = rid \<and> ge_guardian row = g) rows"

definition reset_recorder :: "recorder \<Rightarrow> recorder" where
  "reset_recorder rows = []"

text \<open>A row's numbers: counts are not negative, latency and cost neither negative nor NaN.\<close>

definition evidence_ok :: "evidence \<Rightarrow> bool" where
  "evidence_ok row \<longleftrightarrow> 0 \<le> ge_prompt_tokens row \<and> 0 \<le> ge_completion_tokens row \<and>
     fle (Fin 0) (ge_latency_ms row) \<and> fle (Fin 0) (ge_cost_usd row)"

lemma fmax_0 [simp]: "fle (Fin 0) (fmax (Fin 0) x)"
  by (cases x) (simp_all add: fmax_def)

lemma row_for_sel [simp]:
  "ge_record_id (row_for rid cid i) = rid" "ge_correlation_id (row_for rid cid i) = cid"
  "ge_guardian (row_for rid cid i) = gi_guardian i" "ge_decision (row_for rid cid i) = gi_decision i"
  "ge_reasons (row_for rid cid i) = gi_reasons i" "ge_model_id (row_for rid cid i) = gi_model_id i"
  "ge_tool_calls (row_for rid cid i) = gi_tool_calls i"
  by (simp_all add: row_for_def)

lemma evidence_row_sel [simp]:
  "ge_record_id (evidence_row r i) = r_record_id r" "ge_correlation_id (evidence_row r i) = r_correlation_id r"
  "ge_guardian (evidence_row r i) = gi_guardian i" "ge_decision (evidence_row r i) = gi_decision i"
  "ge_reasons (evidence_row r i) = gi_reasons i" "ge_model_id (evidence_row r i) = gi_model_id i"
  "ge_tool_calls (evidence_row r i) = gi_tool_calls i"
  by (simp_all add: evidence_row_def)

lemma row_for_ok [simp]: "evidence_ok (row_for rid cid i)"
  by (simp add: evidence_ok_def row_for_def)

lemma evidence_row_ok [simp]: "evidence_ok (evidence_row r i)"
  by (simp add: evidence_row_def)

lemma evidence_input_of_sel [simp]:
  "gi_guardian (evidence_input_of g d rs m v) = g" "gi_decision (evidence_input_of g d rs m v) = d"
  "gi_reasons (evidence_input_of g d rs m v) = rs" "gi_model_id (evidence_input_of g d rs m v) = m"
  "gi_tool_calls (evidence_input_of g d rs m v) = []"
  by (simp_all add: evidence_input_of_def)

lemma has_guardian_iff: "has_guardian rows rid g \<longleftrightarrow> (\<exists>row \<in> set (rows_for_record rows rid). ge_guardian row = g)"
  by (auto simp: has_guardian_def rows_for_record_def list_ex_iff)

lemma has_guardian_append [simp]:
  "has_guardian (rows @ rows') rid g \<longleftrightarrow> has_guardian rows rid g \<or> has_guardian rows' rid g"
  "has_guardian [] rid g = False"
  "has_guardian [row] rid g \<longleftrightarrow> ge_record_id row = rid \<and> ge_guardian row = g"
  by (auto simp: has_guardian_def)

section \<open>The token counter\<close>

record usage_sample =
  us_record_id :: string
  us_correlation_id :: string
  us_agent :: guardian
  us_model_id :: "string option"
  us_served_via :: served_via
  us_prompt_tokens :: int
  us_completion_tokens :: int
  us_step_index :: int

record intervention_token_row =
  it_record_id :: string
  it_correlation_id :: string
  it_step_index :: int
  it_agent :: string
  it_model_id :: "string option"
  it_served_via :: string
  it_tokens_in :: int
  it_tokens_out :: int

type_synonym token_counter = "usage_sample list"

definition record_sample :: "token_counter \<Rightarrow> usage_sample \<Rightarrow> token_counter" where
  "record_sample tc s = tc @ [s]"

definition record_router_call ::
  "model_router \<Rightarrow> token_counter \<Rightarrow> string \<Rightarrow> string \<Rightarrow> guardian \<Rightarrow> string \<Rightarrow> int \<Rightarrow> int \<Rightarrow> int
   \<Rightarrow> py_exc + (usage_sample \<times> token_counter)" where
  "record_router_call rt tc rid cid agent role prompt completion step =
     rbind (model_id_of rt role) (\<lambda>m.
     rbind (served_via_of rt role) (\<lambda>via.
       let s = \<lparr>us_record_id = rid, us_correlation_id = cid, us_agent = agent, us_model_id = Some m,
                us_served_via = via, us_prompt_tokens = max 0 prompt, us_completion_tokens = max 0 completion,
                us_step_index = step\<rparr>
       in Inr (s, record_sample tc s)))"

definition samples_for :: "token_counter \<Rightarrow> string \<Rightarrow> usage_sample list" where
  "samples_for tc rid = filter (\<lambda>s. us_record_id s = rid) tc"

definition totals_for :: "token_counter \<Rightarrow> string \<Rightarrow> int \<times> int" where
  "totals_for tc rid =
     (sum_list (map us_prompt_tokens (samples_for tc rid)), sum_list (map us_completion_tokens (samples_for tc rid)))"

definition intervention_rows :: "token_counter \<Rightarrow> intervention_token_row list" where
  "intervention_rows tc = map (\<lambda>s.
     \<lparr>it_record_id = us_record_id s, it_correlation_id = us_correlation_id s, it_step_index = us_step_index s,
      it_agent = guardian_value (us_agent s), it_model_id = us_model_id s,
      it_served_via = served_via_value (us_served_via s),
      it_tokens_in = us_prompt_tokens s, it_tokens_out = us_completion_tokens s\<rparr>) tc"

section \<open>Replies of a model\<close>

record router_call_result =
  rr_text :: string
  rr_prompt_tokens :: int
  rr_completion_tokens :: int
  rr_cost_usd :: pyfloat

text \<open>\<open>_int\<close> and \<open>_float\<close> turn a TypeError and a ValueError into zero; an OverflowError escapes.\<close>

definition int_or_zero :: "json \<Rightarrow> py_exc + int" where
  "int_or_zero v = (case py_int v of Inr i \<Rightarrow> Inr (max 0 i)
     | Inl e \<Rightarrow> if e \<in> {TypeError, ValueError} then Inr 0 else Inl e)"

definition float_or_zero :: "json \<Rightarrow> py_exc + pyfloat" where
  "float_or_zero v = (case py_float v of Inr x \<Rightarrow> Inr (fmax (Fin 0) x)
     | Inl e \<Rightarrow> if e \<in> {TypeError, ValueError} then Inr (Fin 0) else Inl e)"

text \<open>
  A reply: a result, a string, a dict, or a vendor's object.  Of an object the code reads \<open>content\<close>
  (a string, or a list whose first entry may have a \<open>text\<close>), the message of the first of its
  \<open>choices\<close>, \<open>usage_metadata\<close> when that is a dict, the attributes of \<open>usage\<close>, and \<open>str()\<close>.
\<close>

datatype reply_content = NoContent | TextContent string | BlockContent "string option list" string

record reply_object =
  ro_content :: reply_content
  ro_choice_text :: "string option"
  ro_usage_metadata :: "jobj option"
  ro_usage :: "jobj option"
  ro_str :: string

datatype raw_reply =
    RawResult router_call_result | RawText string | RawDict jobj | RawObject reply_object

definition object_text :: "reply_object \<Rightarrow> string" where
  "object_text obj =
     (case ro_content obj of
        TextContent s \<Rightarrow> s
      | BlockContent (Some t # _) _ \<Rightarrow> t
      | _ \<Rightarrow> (case ro_choice_text obj of Some t \<Rightarrow> t | None \<Rightarrow> ro_str obj))"

definition coerce_result :: "(rat \<Rightarrow> string) \<Rightarrow> raw_reply \<Rightarrow> py_exc + router_call_result" where
  "coerce_result fr raw =
     (case raw of
        RawResult x \<Rightarrow> Inr x
      | RawText s \<Rightarrow> Inr \<lparr>rr_text = s, rr_prompt_tokens = 0, rr_completion_tokens = 0, rr_cost_usd = Fin 0\<rparr>
      | RawDict d \<Rightarrow>
          rbind (int_or_zero (get_or d ''prompt_tokens'' (get_or d ''input_tokens'' (JInt 0)))) (\<lambda>p.
          rbind (int_or_zero (get_or d ''completion_tokens'' (get_or d ''output_tokens'' (JInt 0)))) (\<lambda>c.
          rbind (float_or_zero (get_or d ''cost_usd'' (JFloat (Fin 0)))) (\<lambda>cost.
            Inr \<lparr>rr_text = py_str fr (get_or d ''text'' (get_or d ''content'' (JStr []))),
                 rr_prompt_tokens = p, rr_completion_tokens = c, rr_cost_usd = cost\<rparr>)))
      | RawObject obj \<Rightarrow>
          (let (pk, ck) = (case ro_usage_metadata obj of
                 Some u \<Rightarrow> (get_or u ''input_tokens'' (JInt 0), get_or u ''output_tokens'' (JInt 0))
               | None \<Rightarrow> (case ro_usage obj of
                   None \<Rightarrow> (JInt 0, JInt 0)
                 | Some u \<Rightarrow> (get_or u ''prompt_tokens'' (get_or u ''input_tokens'' (JInt 0)),
                              get_or u ''completion_tokens'' (get_or u ''output_tokens'' (JInt 0))))) in
           rbind (int_or_zero pk) (\<lambda>p. rbind (int_or_zero ck) (\<lambda>c.
             Inr \<lparr>rr_text = object_text obj, rr_prompt_tokens = p, rr_completion_tokens = c, rr_cost_usd = Fin 0\<rparr>))))"

lemma int_or_zero_ge: "int_or_zero v = Inr i \<Longrightarrow> 0 \<le> i"
  by (auto simp: int_or_zero_def split: sum.splits if_splits)

end
