(* ===== verification/IncidentMemory.thy ===== *)
theory IncidentMemory
  imports GuardianEvidence Vectors AuthSecrets Supervisor
begin

text \<open>
  The memory of past incidents: the process-local window of \<open>evaluator_agent.py\<close>, the Chroma
  collection of \<open>memory/incidents.py\<close>, the recall tool of \<open>memory/tools.py\<close> and the review of
  \<open>memory/reflect.py\<close>.  Chroma itself is a parameter: a query and a listing are functions of the
  upserts that were made, in their order.
\<close>

section \<open>The process-local window\<close>

record incident_summary =
  in_record_id :: string
  in_tool_name :: "string option"
  in_recipient :: "string option"
  in_amount :: "pyfloat option"

text \<open>\<open>deque(maxlen=capacity)\<close>: the oldest entry is dropped when it is full.\<close>

definition window_remember :: "nat \<Rightarrow> incident_summary list \<Rightarrow> incident_summary \<Rightarrow> incident_summary list" where
  "window_remember capacity w s = (let w' = w @ [s] in drop (length w' - capacity) w')"

text \<open>The loop over the newest first; a filter that is None or empty lets everything through.\<close>

definition passes :: "string option \<Rightarrow> string option \<Rightarrow> bool" where
  "passes wanted v \<longleftrightarrow> wanted = None \<or> wanted = Some [] \<or> v = wanted"

fun recall_loop ::
  "string option \<Rightarrow> string option \<Rightarrow> int \<Rightarrow> incident_summary list \<Rightarrow> incident_summary list \<Rightarrow> incident_summary list" where
  "recall_loop tool recipient limit acc [] = acc"
| "recall_loop tool recipient limit acc (row # rest) =
     (if \<not> passes tool (in_tool_name row) then recall_loop tool recipient limit acc rest
      else if \<not> passes recipient (in_recipient row) then recall_loop tool recipient limit acc rest
      else if limit \<le> int (length (acc @ [row])) then acc @ [row]
      else recall_loop tool recipient limit (acc @ [row]) rest)"

definition window_recall :: "incident_summary list \<Rightarrow> string option \<Rightarrow> string option \<Rightarrow> int \<Rightarrow> incident_summary list" where
  "window_recall w tool recipient limit = recall_loop tool recipient limit [] (rev w)"

definition summarize :: "(rat \<Rightarrow> string) \<Rightarrow> action_record \<Rightarrow> py_exc + incident_summary" where
  "summarize fr r =
     (let args = pl_tool_args (r_payload r) in
      rbind (case field args ''amount'' of
               JNull \<Rightarrow> Inr None
             | v \<Rightarrow> (case py_float v of Inr x \<Rightarrow> Inr (Some x)
                     | Inl e \<Rightarrow> if e \<in> {TypeError, ValueError} then Inr None else Inl e)) (\<lambda>amount.
        Inr \<lparr>in_record_id = r_record_id r, in_tool_name = pl_tool_name (r_payload r),
             in_recipient = (case field args ''recipient'' of JNull \<Rightarrow> None | v \<Rightarrow> Some (py_str fr v)),
             in_amount = amount\<rparr>))"

section \<open>What is stored of a record\<close>

definition short_hash :: "prims \<Rightarrow> string \<Rightarrow> string" where
  "short_hash p s = take 16 (sha256_hex p s)"

definition amount_bucket :: "json \<Rightarrow> py_exc + string" where
  "amount_bucket v =
     (case py_float v of
        Inl e \<Rightarrow> if e \<in> {TypeError, ValueError} then Inr ''unknown'' else Inl e
      | Inr x \<Rightarrow> (let a = (if flt x (Fin 0) then fneg x else x) in
          Inr (if flt a (Fin 100) then ''lt_100''
               else if flt a (Fin 1000) then ''lt_1000''
               else if flt a (Fin 10000) then ''lt_10000'' else ''gte_10000'')))"

definition non_empty :: "string option \<Rightarrow> string option" where
  "non_empty s = (if s = Some [] then None else s)"

definition or_else :: "string option \<Rightarrow> string \<Rightarrow> string" where
  "or_else s d = (case non_empty s of None \<Rightarrow> d | Some x \<Rightarrow> x)"

definition trace_safe_record_text ::
  "prims \<Rightarrow> action_record \<Rightarrow> string option \<Rightarrow> string option \<Rightarrow> py_exc + string" where
  "trace_safe_record_text p r tool recipient =
     (let args = pl_tool_args (r_payload r);
          who = (case recipient of Some s \<Rightarrow> JStr s | None \<Rightarrow> field args ''recipient'');
          head = [''tool:'' @ or_else tool (or_else (pl_tool_name (r_payload r)) ''<unknown>''),
                  ''phase:'' @ phase_value (r_phase r), ''org:'' @ r_org_id r, ''agent:'' @ r_agent_id r,
                  ''workflow:'' @ r_workflow_id r];
          hashed = (if who = JNull \<or> who = JStr [] then []
                    else [''recipient_hash:'' @ short_hash p (py_str (float_repr p) who)])
      in rbind (case dget args ''amount'' of None \<Rightarrow> Inr []
                | Some v \<Rightarrow> rbind (amount_bucket v) (\<lambda>b. Inr [''amount_bucket:'' @ b])) (\<lambda>bucket.
           Inr (join '' '' (head @ hashed @ bucket @ map (\<lambda>k. ''arg_key:'' @ k) (sort (map fst args))))))"

definition incident_metadata ::
  "prims \<Rightarrow> action_record \<Rightarrow> decision \<Rightarrow> string list \<Rightarrow> py_exc + jobj" where
  "incident_metadata p r d reasons =
     (let args = pl_tool_args (r_payload r) in
      rbind (case dget args ''amount'' of None \<Rightarrow> Inr []
             | Some v \<Rightarrow> rbind (amount_bucket v) (\<lambda>b. Inr [(''amount_bucket'', JStr b)])) (\<lambda>bucket.
        Inr ([(''record_id'', JStr (r_record_id r)), (''correlation_id'', JStr (r_correlation_id r)),
              (''org_id'', JStr (r_org_id r)), (''agent_id'', JStr (r_agent_id r)),
              (''workflow_id'', JStr (r_workflow_id r)), (''run_id_hash'', JStr (short_hash p (r_run_id r))),
              (''phase'', JStr (phase_value (r_phase r))),
              (''tool_name'', JStr (or_else (pl_tool_name (r_payload r)) [])),
              (''decision'', JStr (decision_value d)), (''reasons'', JStr (join '','' reasons))]
             @ (case dget args ''recipient'' of None \<Rightarrow> []
                | Some v \<Rightarrow> [(''recipient_hash'', JStr (short_hash p (py_str (float_repr p) v)))])
             @ bucket)))"

section \<open>The backends\<close>

record chroma_row =
  cr_id :: string
  cr_embedding :: "pyfloat list"
  cr_document :: string
  cr_metadata :: jobj

record chroma =
  ch_collection :: string
  ch_dimensions :: nat
  ch_upserts :: "chroma_row list"

text \<open>
  The third backend is any object without the methods the code looks for.  Of the service:
  \<open>sv_query\<close> answers a query, \<open>sv_listing\<close> enumerates the stored metadata, \<open>sv_digest\<close> is the
  eight-byte blake2b of the embedder, \<open>sv_clock\<close> the readings of \<open>perf_counter\<close>.
\<close>

datatype memory_backend = LocalWindow nat "incident_summary list" | ChromaMemory chroma | BareMemory

record services =
  sv_prims :: prims
  sv_digest :: "string \<Rightarrow> nat list"
  sv_query :: "chroma_row list \<Rightarrow> pyfloat list \<Rightarrow> int \<Rightarrow> py_exc + jobj"
  sv_listing :: "chroma_row list \<Rightarrow> jobj list"
  sv_clock :: "nat \<Rightarrow> pyfloat"

definition elapsed_ms :: "services \<Rightarrow> nat \<Rightarrow> nat \<Rightarrow> pyfloat" where
  "elapsed_ms sv i j = fmul (fsub (sv_clock sv j) (sv_clock sv i)) (Fin 1000)"

record memory_hit =
  mh_id :: string
  mh_score :: pyfloat
  mh_distance :: pyfloat

record memory_query_result =
  mq_backend :: string
  mq_collection :: string
  mq_query_id :: string
  mq_hits :: "memory_hit list"
  mq_latency_ms :: pyfloat
  mq_missing_reason :: "string option"

definition hit_evidence :: "memory_hit \<Rightarrow> json" where
  "hit_evidence h = JObj [(''id'', JStr (mh_id h)), (''score'', JFloat (mh_score h)), (''distance'', JFloat (mh_distance h))]"

definition query_evidence :: "memory_query_result \<Rightarrow> jobj" where
  "query_evidence q =
     [(''memory_backend'', JStr (mq_backend q)), (''collection'', JStr (mq_collection q)),
      (''query_id'', JStr (mq_query_id q)), (''hit_count'', JInt (int (length (mq_hits q)))),
      (''top_hits'', JArr (map hit_evidence (mq_hits q))), (''latency_ms'', JFloat (mq_latency_ms q))]
     @ (case non_empty (mq_missing_reason q) of None \<Rightarrow> [] | Some m \<Rightarrow> [(''missing_reason'', JStr m)])"

definition distance_to_score :: "pyfloat \<Rightarrow> py_exc + pyfloat" where
  "distance_to_score d = rbind (div_float (Fin 1) (fadd (Fin 1) (fmax (Fin 0) d))) (\<lambda>s. Inr (clamp01 s))"

definition first_nested :: "json \<Rightarrow> json list" where
  "first_nested v = (case v of JArr (JArr xs # _) \<Rightarrow> xs | _ \<Rightarrow> [])"

definition chroma_hits :: "(rat \<Rightarrow> string) \<Rightarrow> jobj \<Rightarrow> py_exc + memory_hit list" where
  "chroma_hits fr res =
     (let ids = first_nested (field res ''ids''); metas = first_nested (field res ''metadatas'') in
      rbind (rlist (map py_float (first_nested (field res ''distances'')))) (\<lambda>ds.
        rlist (map (\<lambda>(i, d, _). rbind (distance_to_score d) (\<lambda>s.
            Inr \<lparr>mh_id = py_str fr i, mh_score = s, mh_distance = fmax (Fin 0) d\<rparr>))
          (zip ids (zip ds metas)))))"

definition remember_record ::
  "services \<Rightarrow> chroma \<Rightarrow> action_record \<Rightarrow> decision \<Rightarrow> string list \<Rightarrow> py_exc + chroma" where
  "remember_record sv ch r d reasons =
     rbind (trace_safe_record_text (sv_prims sv) r None None) (\<lambda>document.
     rbind (hash_embed (sv_digest sv) (ch_dimensions ch) document) (\<lambda>v.
     rbind (incident_metadata (sv_prims sv) r d reasons) (\<lambda>meta.
       Inr (ch\<lparr>ch_upserts := ch_upserts ch @
         [\<lparr>cr_id = r_record_id r, cr_embedding = v, cr_document = document, cr_metadata = meta\<rparr>]\<rparr>))))"

definition query_record ::
  "services \<Rightarrow> nat \<Rightarrow> chroma \<Rightarrow> action_record \<Rightarrow> int \<Rightarrow> string option \<Rightarrow> string option
   \<Rightarrow> py_exc + memory_query_result" where
  "query_record sv t ch r top_k tool recipient =
     rbind (trace_safe_record_text (sv_prims sv) r tool recipient) (\<lambda>document.
     rbind (hash_embed (sv_digest sv) (ch_dimensions ch) document) (\<lambda>v.
     rbind (sv_query sv (ch_upserts ch) v (max 1 top_k)) (\<lambda>res.
     rbind (chroma_hits (float_repr (sv_prims sv)) res) (\<lambda>hits.
       Inr \<lparr>mq_backend = ''chroma'', mq_collection = ch_collection ch,
            mq_query_id = short_hash (sv_prims sv) document, mq_hits = hits,
            mq_latency_ms = elapsed_ms sv t (Suc t), mq_missing_reason = None\<rparr>))))"

text \<open>\<open>rows[-limit:] if limit else []\<close> for a limit that is not negative, all rows otherwise.\<close>

definition recent_records :: "services \<Rightarrow> chroma \<Rightarrow> int \<Rightarrow> jobj list" where
  "recent_records sv ch limit =
     (let rows = sv_listing sv (ch_upserts ch) in
      if 0 \<le> limit then drop (length rows - nat limit) rows else rows)"

section \<open>The recall tool\<close>

definition local_fallback_result ::
  "services \<Rightarrow> string \<Rightarrow> string \<Rightarrow> string list \<Rightarrow> pyfloat \<Rightarrow> string \<Rightarrow> memory_query_result" where
  "local_fallback_result sv collection query_text record_ids latency missing =
     \<lparr>mq_backend = ''local_fallback'', mq_collection = collection,
      mq_query_id = short_hash (sv_prims sv) query_text,
      mq_hits = map (\<lambda>i. \<lparr>mh_id = i, mh_score = Fin 1, mh_distance = Fin 0\<rparr>) record_ids,
      mq_latency_ms = latency, mq_missing_reason = Some missing\<rparr>"

definition wanted_recipient :: "(rat \<Rightarrow> string) \<Rightarrow> action_record \<Rightarrow> string" where
  "wanted_recipient fr r = py_str fr (get_or (pl_tool_args (r_payload r)) ''recipient'' (JStr []))"

definition query_memory ::
  "services \<Rightarrow> nat \<Rightarrow> memory_backend \<Rightarrow> action_record \<Rightarrow> string option \<Rightarrow> string option \<Rightarrow> py_exc + memory_query_result" where
  "query_memory sv t mem r tool recipient =
     (case mem of
        ChromaMemory ch \<Rightarrow> query_record sv t ch r 5 tool recipient
      | LocalWindow _ w \<Rightarrow>
          (let who = or_else recipient (if pl_tool_args (r_payload r) = [] then []
                       else wanted_recipient (float_repr (sv_prims sv)) r);
               found = window_recall w (non_empty (Some (or_else tool (or_else (pl_tool_name (r_payload r)) []))))
                         (non_empty (Some who)) 5 in
           rbind (trace_safe_record_text (sv_prims sv) r tool recipient) (\<lambda>q.
             Inr (local_fallback_result sv ''process_local_short_window'' q (map in_record_id found)
               (elapsed_ms sv t (Suc t)) ''chroma memory not configured; using explicit local fallback'')))
      | BareMemory \<Rightarrow>
          rbind (trace_safe_record_text (sv_prims sv) r tool recipient) (\<lambda>q.
            Inr (local_fallback_result sv ''unavailable'' q [] (elapsed_ms sv t (Suc t))
              ''memory backend has no query_record or recall method'')))"

section \<open>The review of recent memory\<close>

definition LATE_POISON_REASON_PREFIXES :: "string list" where
  "LATE_POISON_REASON_PREFIXES = [''evaluator.behavior_drift'', ''evaluator.hallucination'',
     ''evaluator.peer_relative_anomaly'', ''invariant.'', ''subject.secret'', ''cumulative.structuring'']"

definition SLIPPED_THROUGH :: "string list" where
  "SLIPPED_THROUGH = [''PASS'', ''ALERT'']"

record quarantined_incident =
  qi_record_id :: string
  qi_decision :: string
  qi_label :: string
  qi_matched :: "string list"

definition matched_late_poison :: "string list \<Rightarrow> string list" where
  "matched_late_poison reasons =
     filter (\<lambda>x. list_ex (starts_with x) LATE_POISON_REASON_PREFIXES) reasons"

text \<open>\<open>s.split(',')\<close>\<close>

fun split_comma :: "string \<Rightarrow> string \<Rightarrow> string list" where
  "split_comma acc [] = [acc]"
| "split_comma acc (c # s) = (if c = CHR '','' then acc # split_comma [] s else split_comma (acc @ [c]) s)"

definition str_of :: "(rat \<Rightarrow> string) \<Rightarrow> jobj \<Rightarrow> string \<Rightarrow> string" where
  "str_of fr row k = py_str fr (get_or row k (JStr []))"

definition reflect_row :: "(rat \<Rightarrow> string) \<Rightarrow> jobj \<Rightarrow> quarantined_incident list" where
  "reflect_row fr row =
     (let d = str_of fr row ''decision'';
          reasons = filter (\<lambda>x. x \<noteq> []) (split_comma [] (str_of fr row ''reasons''));
          matched = matched_late_poison reasons in
      if d \<in> set SLIPPED_THROUGH \<and> matched \<noteq> []
      then [\<lparr>qi_record_id = str_of fr row ''record_id'', qi_decision = d, qi_label = ''reflect.late_poison'',
             qi_matched = matched\<rparr>] else [])"

definition reflect_recent_memory ::
  "services \<Rightarrow> chroma \<Rightarrow> int \<Rightarrow> nat \<times> quarantined_incident list" where
  "reflect_recent_memory sv ch window =
     (let rows = recent_records sv ch window in
      (length rows, concat (map (reflect_row (float_repr (sv_prims sv))) rows)))"

section \<open>The vector store\<close>

definition VECTOR_DB_COLLECTIONS :: "string list" where
  "VECTOR_DB_COLLECTIONS = [''policies'', ''injection_signatures'', ''behavior_baselines'', ''incidents'']"

record vector_store =
  vs_dimensions :: nat
  vs_collections :: "(string, chroma_row list) dict"

definition vector_store_init :: "nat \<Rightarrow> vector_store" where
  "vector_store_init dims = \<lparr>vs_dimensions = dims, vs_collections = map (\<lambda>n. (n, [])) VECTOR_DB_COLLECTIONS\<rparr>"

definition store_upsert ::
  "services \<Rightarrow> vector_store \<Rightarrow> string \<Rightarrow> string \<Rightarrow> string \<Rightarrow> jobj \<Rightarrow> py_exc + vector_store" where
  "store_upsert sv vs collection doc_id document metadata =
     (let meta = (case dget metadata ''collection'' of
                    None \<Rightarrow> metadata @ [(''collection'', JStr collection)] | Some _ \<Rightarrow> metadata) in
      case dget (vs_collections vs) collection of
        None \<Rightarrow> Inl KeyError
      | Some rows \<Rightarrow> rbind (hash_embed (sv_digest sv) (vs_dimensions vs) document) (\<lambda>v.
          Inr (vs\<lparr>vs_collections := dset collection
            (rows @ [\<lparr>cr_id = doc_id, cr_embedding = v, cr_document = document, cr_metadata = meta\<rparr>])
            (vs_collections vs)\<rparr>)))"

definition upsert_policy :: "services \<Rightarrow> vector_store \<Rightarrow> string \<Rightarrow> string \<Rightarrow> jobj \<Rightarrow> py_exc + vector_store" where
  "upsert_policy sv vs = store_upsert sv vs ''policies''"

definition upsert_injection_signature :: "services \<Rightarrow> vector_store \<Rightarrow> string \<Rightarrow> string \<Rightarrow> jobj \<Rightarrow> py_exc + vector_store" where
  "upsert_injection_signature sv vs = store_upsert sv vs ''injection_signatures''"

definition upsert_behavior_baseline :: "services \<Rightarrow> vector_store \<Rightarrow> string \<Rightarrow> string \<Rightarrow> jobj \<Rightarrow> py_exc + vector_store" where
  "upsert_behavior_baseline sv vs = store_upsert sv vs ''behavior_baselines''"

definition store_incident_memory :: "vector_store \<Rightarrow> memory_backend" where
  "store_incident_memory vs = ChromaMemory \<lparr>ch_collection = ''incidents'', ch_dimensions = vs_dimensions vs,
     ch_upserts = (case dget (vs_collections vs) ''incidents'' of None \<Rightarrow> [] | Some rows \<Rightarrow> rows)\<rparr>"

definition store_query ::
  "services \<Rightarrow> nat \<Rightarrow> vector_store \<Rightarrow> string \<Rightarrow> string \<Rightarrow> int \<Rightarrow> py_exc + memory_query_result" where
  "store_query sv t vs collection query_text top_k =
     (case dget (vs_collections vs) collection of
        None \<Rightarrow> Inl KeyError
      | Some rows \<Rightarrow>
          rbind (hash_embed (sv_digest sv) (vs_dimensions vs) query_text) (\<lambda>v.
          rbind (sv_query sv rows v (max 1 top_k)) (\<lambda>res.
          rbind (chroma_hits (float_repr (sv_prims sv)) res) (\<lambda>hits.
            Inr \<lparr>mq_backend = ''chroma'', mq_collection = collection,
                 mq_query_id = short_hash (sv_prims sv) query_text, mq_hits = hits,
                 mq_latency_ms = elapsed_ms sv t (Suc t), mq_missing_reason = None\<rparr>))))"

section \<open>Facts\<close>

lemma window_bounded: "length (window_remember capacity w s) \<le> max capacity (length w) \<and>
    (length w \<le> capacity \<longrightarrow> length (window_remember capacity w s) \<le> capacity)"
  by (auto simp: window_remember_def Let_def)

text \<open>The loop returns the newest matches, at most the limit (and one, for a limit below one).\<close>

lemma recall_loop_eq:
  assumes "length acc < nat (max 1 limit)"
  shows "recall_loop tool recipient limit acc rows =
     acc @ take (nat (max 1 limit) - length acc)
       (filter (\<lambda>row. passes tool (in_tool_name row) \<and> passes recipient (in_recipient row)) rows)"
  using assms
proof (induction rows arbitrary: acc)
  case (Cons row rows)
  show ?case
  proof (cases "limit \<le> int (length (acc @ [row]))")
    case True
    with Cons.prems have "nat (max 1 limit) - length acc = 1" by auto
    with True Cons show ?thesis by auto
  next
    case False
    then have "length (acc @ [row]) < nat (max 1 limit)" by auto
    moreover from this have "nat (max 1 limit) - length acc = Suc (nat (max 1 limit) - length (acc @ [row]))" by simp
    ultimately show ?thesis using False Cons by simp
  qed
qed simp

lemma window_recall_eq:
  "window_recall w tool recipient limit =
     take (nat (max 1 limit))
       (filter (\<lambda>row. passes tool (in_tool_name row) \<and> passes recipient (in_recipient row)) (rev w))"
  unfolding window_recall_def by (subst recall_loop_eq) simp_all

lemma reflect_exact:
  "q \<in> set (snd (reflect_recent_memory sv ch window)) \<longleftrightarrow>
     (\<exists>row \<in> set (recent_records sv ch window). q \<in> set (reflect_row (float_repr (sv_prims sv)) row))"
  by (auto simp: reflect_recent_memory_def Let_def)

lemma split_comma_join:
  assumes "list_all (\<lambda>x. CHR '','' \<notin> set x) xs" and "xs \<noteq> []"
  shows "split_comma [] (join '','' xs) = xs"
proof -
  have no_comma: "CHR '','' \<notin> set x \<Longrightarrow> split_comma acc x = [acc @ x]" for acc x
    by (induction x arbitrary: acc) auto
  have one_comma: "CHR '','' \<notin> set x \<Longrightarrow> split_comma acc (x @ CHR '','' # s) = (acc @ x) # split_comma [] s" for acc x s
    by (induction x arbitrary: acc) auto
  from assms show ?thesis
  proof (induction xs)
    case (Cons x xs)
    then show ?case by (cases xs) (auto simp: no_comma one_comma)
  qed simp
qed

end
