(* ===== verification/RouterGuardians.thy ===== *)
theory RouterGuardians
  imports IncidentMemory GovGraph
begin

text \<open>
  \<open>packages/shield-governance/src/shield_governance/router_guardians.py\<close> and the agent of
  \<open>evaluator_agent.py\<close>: Evaluator, Supervisor and Auditor as language-model agents with tools.

  A run of an agent is a tree: the agent answers with its messages, raises, or calls a tool and
  goes on with what the tool returned (None when there is no tool of that name).  Which tree a
  request gets is a parameter: nothing is assumed of what models reply.
\<close>

section \<open>Errors\<close>

fun exc_name :: "py_exc \<Rightarrow> string" where
  "exc_name ValueError = ''ValueError''"
| "exc_name TypeError = ''TypeError''"
| "exc_name KeyError = ''KeyError''"
| "exc_name IndexError = ''IndexError''"
| "exc_name OverflowError = ''OverflowError''"
| "exc_name RuntimeError = ''RuntimeError''"
| "exc_name ZeroDivisionError = ''ZeroDivisionError''"
| "exc_name ValidationError = ''ValidationError''"
| "exc_name AssertionError = ''AssertionError''"

text \<open>
  \<open>GuardianModelInvocationError\<close> with guardian, model and class of the cause; any other exception
  of the code; an exception that a client raised where the code does not catch it.
\<close>

datatype guardian_error =
    ModelInvocation guardian string string
  | Raised py_exc
  | ClientRaised string

section \<open>Agents and their tools\<close>

record agent_message =
  am_usage :: "jobj option"
  am_content :: reply_content
  am_tool_calls :: bool

datatype agent_run =
    Answer "agent_message list"
  | Fails string
  | UseTool string string string "(py_exc + json) option \<Rightarrow> agent_run"

text \<open>The system prompt is a constant of each guardian; the request names the guardian instead.\<close>

record agent_request =
  aq_guardian :: guardian
  aq_client :: "client option"
  aq_prompt :: string
  aq_recursion_limit :: "nat option"

record tool_log =
  tl_calls :: "string list"
  tl_memory :: "jobj list"
  tl_clock :: nat

type_synonym guardian_tool = "string \<Rightarrow> string \<Rightarrow> tool_log \<Rightarrow> (py_exc + json) \<times> tool_log"

primrec run_agent ::
  "agent_run \<Rightarrow> (string \<times> guardian_tool) list \<Rightarrow> tool_log \<Rightarrow> (string + agent_message list) \<times> tool_log" where
  "run_agent (Answer ms) = (\<lambda>tools l. (Inr ms, l))"
| "run_agent (Fails cls) = (\<lambda>tools l. (Inl cls, l))"
| "run_agent (UseTool n a b k) = (\<lambda>tools l.
     (case map_of tools n of
        None \<Rightarrow> run_agent (k None) tools l
      | Some f \<Rightarrow> (let (res, l') = f a b l in run_agent (k (Some res)) tools l')))"

definition log_call :: "string \<Rightarrow> tool_log \<Rightarrow> tool_log" where
  "log_call n l = l\<lparr>tl_calls := tl_calls l @ [n]\<rparr>"

definition recall_tool :: "services \<Rightarrow> memory_backend \<Rightarrow> action_record \<Rightarrow> string \<Rightarrow> guardian_tool" where
  "recall_tool sv mem r name tool recipient l =
     (let l1 = (log_call name l)\<lparr>tl_clock := tl_clock l + 2\<rparr> in
      case query_memory sv (tl_clock l) mem r (non_empty (Some tool)) (non_empty (Some recipient)) of
        Inl e \<Rightarrow> (Inl e, l1)
      | Inr q \<Rightarrow> (Inr (JObj (query_evidence q)), l1\<lparr>tl_memory := tl_memory l @ [query_evidence q]\<rparr>))"

text \<open>A tool that only reads: it logs its name and returns a value.\<close>

definition reading_tool :: "string \<Rightarrow> py_exc + json \<Rightarrow> guardian_tool" where
  "reading_tool name res a b l = (res, log_call name l)"

definition violation_json :: "violation \<Rightarrow> json" where
  "violation_json v = JObj [(''label'', JStr (fst v)), (''detail'', JStr (snd v))]"

definition invariant_result :: "py_exc + violation list \<Rightarrow> py_exc + json" where
  "invariant_result res = rbind res (\<lambda>vs. Inr (JObj [(''fired'', JBool (vs \<noteq> [])), (''violations'', JArr (map violation_json vs))]))"

definition evaluator_tools ::
  "services \<Rightarrow> memory_backend \<Rightarrow> (json list \<Rightarrow> py_exc + violation list) \<Rightarrow> action_record \<Rightarrow> json list
   \<Rightarrow> (string \<times> guardian_tool) list" where
  "evaluator_tools sv mem analyze r trace =
     [(''eval_invariant_policies'', reading_tool ''eval_invariant_policies'' (invariant_result (analyze trace))),
      (''recall_similar_incidents'', recall_tool sv mem r ''recall_similar_incidents''),
      (''recall_similar_local_incidents'', recall_tool sv mem r ''recall_similar_local_incidents'')]"

definition reason_labels :: "verdict_reason list \<Rightarrow> json" where
  "reason_labels rs = JArr (map (\<lambda>x. JStr (rs_label x)) rs)"

definition signals_json :: "guardian_signals \<Rightarrow> json" where
  "signals_json s = JObj
     [(''defender_decision'', JStr (decision_value (gs_defender_decision s))),
      (''evaluator_anomaly'', JFloat (gs_evaluator_anomaly s)), (''evaluator_ran'', JBool (gs_evaluator_ran s)),
      (''auditor_integrity'', JFloat (gs_auditor_integrity s)),
      (''structuring_or_exfil'', JBool (gs_structuring_or_exfil s)), (''chain_broken'', JBool (gs_chain_broken s)),
      (''post_exec'', JBool (gs_post_exec s)), (''defender_reasons'', reason_labels (gs_defender_reasons s)),
      (''evaluator_reasons'', reason_labels (gs_evaluator_reasons s)),
      (''auditor_reasons'', reason_labels (gs_auditor_reasons s))]"

definition supervisor_tools ::
  "services \<Rightarrow> memory_backend \<Rightarrow> guardian_signals \<Rightarrow> action_record option \<Rightarrow> (string \<times> guardian_tool) list" where
  "supervisor_tools sv mem s r =
     (''inspect_guardian_signals'', reading_tool ''inspect_guardian_signals'' (Inr (signals_json s)))
     # (case r of None \<Rightarrow> []
        | Some x \<Rightarrow> [(''recall_similar_incidents'', recall_tool sv mem x ''recall_similar_incidents'')])"

definition chain_state_json :: "action_record list \<Rightarrow> audit_result \<Rightarrow> json" where
  "chain_state_json rs a = JObj
     [(''record_count'', JInt (int (length rs))), (''integrity'', JFloat (ar_integrity a)),
      (''chain_broken'', JBool (ar_chain_broken a)), (''self_report_mismatch'', JBool (ar_self_report_mismatch a)),
      (''reason_labels'', reason_labels (ar_reasons a))]"

definition provenance_json :: "action_record list \<Rightarrow> json" where
  "provenance_json rs = JObj
     [(''record_ids'', JArr (map (\<lambda>r. JStr (r_record_id r)) (take 8 rs))),
      (''correlation_ids'', JArr (map JStr (sort (remdups (map r_correlation_id rs))))),
      (''phases'', JArr (map (\<lambda>r. JStr (phase_value (r_phase r))) rs))]"

definition auditor_tools ::
  "services \<Rightarrow> memory_backend \<Rightarrow> action_record list \<Rightarrow> audit_result \<Rightarrow> (string \<times> guardian_tool) list" where
  "auditor_tools sv mem rs a =
     [(''inspect_chain_state'', reading_tool ''inspect_chain_state'' (Inr (chain_state_json rs a))),
      (''inspect_provenance_summary'', reading_tool ''inspect_provenance_summary'' (Inr (provenance_json rs)))]
     @ (case rs of [] \<Rightarrow> [] | r # _ \<Rightarrow> [(''recall_similar_incidents'', recall_tool sv mem r ''recall_similar_incidents'')])"

section \<open>Reading the answer\<close>

text \<open>\<open>int(usage.get(key, 0) or 0)\<close>\<close>

definition usage_count :: "jobj option \<Rightarrow> string \<Rightarrow> py_exc + int" where
  "usage_count usage key =
     (case usage of None \<Rightarrow> Inr 0
      | Some u \<Rightarrow> (let v = get_or u key (JInt 0) in if truthy v then py_int v else Inr 0))"

definition answer_text :: "string \<Rightarrow> agent_message \<Rightarrow> py_exc + string" where
  "answer_text acc m =
     (if am_tool_calls m then Inr acc
      else case am_content m of
        NoContent \<Rightarrow> Inr acc
      | TextContent s \<Rightarrow> Inr (if blank s then acc else s)
      | BlockContent [] whole \<Rightarrow> Inl IndexError
      | BlockContent (t # _) whole \<Rightarrow> Inr (case t of Some x \<Rightarrow> x | None \<Rightarrow> whole))"

fun read_messages :: "string \<times> int \<times> int \<Rightarrow> agent_message list \<Rightarrow> py_exc + string \<times> int \<times> int" where
  "read_messages acc [] = Inr acc"
| "read_messages (t, p, c) (m # ms) =
     rbind (usage_count (am_usage m) ''input_tokens'') (\<lambda>i.
     rbind (usage_count (am_usage m) ''output_tokens'') (\<lambda>j.
     rbind (answer_text t m) (\<lambda>t'. read_messages (t', p + i, c + j) ms)))"

definition decision_from_text :: "string \<Rightarrow> decision \<Rightarrow> decision" where
  "decision_from_text reply dflt =
     (case find (\<lambda>d. starts_with (py_upper (strip_by is_space reply)) (decision_value d)) all_decisions of
        None \<Rightarrow> dflt | Some d \<Rightarrow> d)"

text \<open>\<open>str.splitlines\<close>: the line boundaries below 256; carriage return and newline count as one.\<close>

definition is_line_break :: "char \<Rightarrow> bool" where
  "is_line_break c = ((of_char c :: nat) \<in> {10, 11, 12, 13, 28, 29, 30, 133})"

fun split_lines :: "string \<Rightarrow> string \<Rightarrow> string list" where
  "split_lines w [] = (if w = [] then [] else [w])"
| "split_lines w (c # s) =
     (if is_line_break c then
        w # (if (of_char c :: nat) = 13 \<and> s \<noteq> [] \<and> (of_char (hd s) :: nat) = 10 then split_lines [] (tl s)
             else split_lines [] s)
      else split_lines (w @ [c]) s)"

definition reason_line :: "string \<Rightarrow> bool" where
  "reason_line line = starts_with (py_upper (strip_by is_space line)) ''REASON:''"

definition after_colon :: "string \<Rightarrow> string" where
  "after_colon s = tl (dropWhile (\<lambda>c. c \<noteq> CHR '':'') s)"

definition parse_evaluator_decision :: "string \<Rightarrow> bool \<times> string" where
  "parse_evaluator_decision reply =
     (let upper = py_upper reply;
          whole = strip_by is_space reply in
      (has_substring ''DECISION: HALLUCINATED'' upper \<or> starts_with upper ''HALLUCINATED'',
       case find reason_line (split_lines [] reply) of
         None \<Rightarrow> whole
       | Some line \<Rightarrow>
           (let s = strip_by is_space (after_colon (strip_by is_space line)) in if s = [] then whole else s)))"

section \<open>The guardians' state\<close>

record guard_env =
  gv_router :: model_router
  gv_services :: services
  gv_evaluator :: evaluator
  gv_policy :: supervisor_policy
  gv_resolve :: "string \<Rightarrow> string option"
  gv_agent :: "nat \<Rightarrow> agent_request \<Rightarrow> string list \<Rightarrow> agent_run"
  gv_complete :: "nat \<Rightarrow> client option \<Rightarrow> string \<Rightarrow> string + raw_reply"
  gv_fresh :: "nat \<Rightarrow> string"

text \<open>What the arbiter keeps of its latest run for \<open>record_evidence\<close>.\<close>

record measurement =
  ms_model_id :: string
  ms_served_via :: served_via
  ms_result :: router_call_result
  ms_latency_ms :: pyfloat
  ms_tool_calls :: "string list"
  ms_memory :: "jobj option"

record guard_state =
  gd_cache :: client_cache
  gd_memory :: memory_backend
  gd_rows :: recorder
  gd_traces :: traces
  gd_auditor :: auditor_state
  gd_measurement :: "measurement option"
  gd_clock :: nat

type_synonym 'a guarded = "guard_state \<Rightarrow> (guardian_error + 'a) \<times> guard_state"

definition g_return :: "'a \<Rightarrow> 'a guarded" where
  "g_return x = (\<lambda>st. (Inr x, st))"

definition g_fail :: "guardian_error \<Rightarrow> 'a guarded" where
  "g_fail e = (\<lambda>st. (Inl e, st))"

definition g_bind :: "'a guarded \<Rightarrow> ('a \<Rightarrow> 'b guarded) \<Rightarrow> 'b guarded" where
  "g_bind m k = (\<lambda>st. case m st of (Inl e, st') \<Rightarrow> (Inl e, st') | (Inr x, st') \<Rightarrow> k x st')"

definition g_modify :: "(guard_state \<Rightarrow> guard_state) \<Rightarrow> unit guarded" where
  "g_modify f = (\<lambda>st. (Inr (), f st))"

definition g_get :: "(guard_state \<Rightarrow> 'a) \<Rightarrow> 'a guarded" where
  "g_get f = (\<lambda>st. (Inr (f st), st))"

definition g_lift :: "py_exc + 'a \<Rightarrow> 'a guarded" where
  "g_lift v = (case v of Inl e \<Rightarrow> g_fail (Raised e) | Inr x \<Rightarrow> g_return x)"

text \<open>A reading of the clock: its index.\<close>

definition g_tick :: "nat guarded" where
  "g_tick = (\<lambda>st. (Inr (gd_clock st), st\<lparr>gd_clock := Suc (gd_clock st)\<rparr>))"

definition g_record :: "action_record \<Rightarrow> evidence_input \<Rightarrow> unit guarded" where
  "g_record r i = g_modify (\<lambda>st. st\<lparr>gd_rows := record_for_record (gd_rows st) r i\<rparr>)"

text \<open>Building a client: in the Evaluator inside the \<open>try\<close>, in the other guardians before it.\<close>

definition g_client :: "guard_env \<Rightarrow> string \<Rightarrow> (py_exc \<Rightarrow> guardian_error) \<Rightarrow> client option guarded" where
  "g_client env role wrap = (\<lambda>st.
     (case model_factory (gv_router env) (gd_cache st) role of
        (Inl e, cache) \<Rightarrow> (Inl (wrap e), st\<lparr>gd_cache := cache\<rparr>)
      | (Inr c, cache) \<Rightarrow> (Inr c, st\<lparr>gd_cache := cache\<rparr>)))"

text \<open>
  A run of an agent: its messages, and the logs of its tools.  An exception becomes the error that
  names guardian and model.
\<close>

definition g_agent ::
  "guard_env \<Rightarrow> string \<Rightarrow> agent_request \<Rightarrow> (memory_backend \<Rightarrow> (string \<times> guardian_tool) list)
   \<Rightarrow> (agent_message list \<times> tool_log) guarded" where
  "g_agent env model_id rq tools = (\<lambda>st.
     (let ts = tools (gd_memory st);
          (res, l) = run_agent (gv_agent env (gd_clock st) rq (map fst ts)) ts
            \<lparr>tl_calls = [], tl_memory = [], tl_clock = Suc (gd_clock st)\<rparr>;
          st' = st\<lparr>gd_clock := tl_clock l\<rparr> in
      case res of
        Inl cls \<Rightarrow> (Inl (ModelInvocation (aq_guardian rq) model_id cls), st')
      | Inr ms \<Rightarrow> (Inr (ms, l), st')))"

definition last_memory :: "tool_log \<Rightarrow> jobj option" where
  "last_memory l = (if tl_memory l = [] then None else Some (last (tl_memory l)))"

definition loop_limit :: nat where
  "loop_limit = max 2 6 + 2"

section \<open>The Evaluator's check\<close>

definition check_prompt :: "(rat \<Rightarrow> string) \<Rightarrow> action_record \<Rightarrow> string" where
  "check_prompt fr r =
     (let nl = [char_of (10::nat)] in
      ''Tool-call record under review:'' @ nl
      @ ''  tool='' @ (case pl_tool_name (r_payload r) of None \<Rightarrow> ''None'' | Some n \<Rightarrow> n) @ nl
      @ ''  args='' @ py_repr fr (JObj (pl_tool_args (r_payload r))) @ nl
      @ ''  run_id='' @ r_run_id r @ nl
      @ ''  step_index='' @ show_int (r_step_index r) @ nl
      @ ''Use the tools and then answer in the DECISION/REASON format.'')"

definition remember :: "guard_env \<Rightarrow> action_record \<Rightarrow> decision \<Rightarrow> string list \<Rightarrow> memory_backend \<Rightarrow> py_exc + memory_backend" where
  "remember env r d reasons mem =
     (case mem of
        ChromaMemory ch \<Rightarrow> rbind (remember_record (gv_services env) ch r d reasons) (\<lambda>ch'. Inr (ChromaMemory ch'))
      | LocalWindow n w \<Rightarrow>
          rbind (summarize (float_repr (sv_prims (gv_services env))) r) (\<lambda>s. Inr (LocalWindow n (window_remember n w s)))
      | BareMemory \<Rightarrow> Inr BareMemory)"

definition g_remember :: "guard_env \<Rightarrow> action_record \<Rightarrow> decision \<Rightarrow> string list \<Rightarrow> unit guarded" where
  "g_remember env r d reasons = (\<lambda>st.
     (case remember env r d reasons (gd_memory st) of
        Inl e \<Rightarrow> (Inl (Raised e), st)
      | Inr mem \<Rightarrow> (Inr (), st\<lparr>gd_memory := mem\<rparr>)))"

definition hallucination_label :: "bool \<Rightarrow> string" where
  "hallucination_label h = (if h then ''evaluator.hallucination'' else ''evaluator.grounded'')"

definition tool_loop_input ::
  "guardian \<Rightarrow> decision \<Rightarrow> string list \<Rightarrow> resolved_model \<Rightarrow> int \<Rightarrow> int \<Rightarrow> pyfloat \<Rightarrow> pyfloat \<Rightarrow> tool_log \<Rightarrow> evidence_input" where
  "tool_loop_input g d reasons m prompt completion latency cost l =
     (evidence_input_of g d reasons (Some (rm_model m)) (Some (rm_served_via m)))
       \<lparr>gi_prompt_tokens := prompt, gi_completion_tokens := completion, gi_latency_ms := latency,
        gi_cost_usd := cost, gi_memory := last_memory l, gi_tool_calls := tl_calls l\<rparr>"

definition model_cost :: "resolved_model \<Rightarrow> int \<Rightarrow> int \<Rightarrow> py_exc + pyfloat" where
  "model_cost m prompt completion = cost_usd (Some (rm_model m)) (Some (rm_served_via m)) prompt completion"

definition router_check :: "guard_env \<Rightarrow> action_record \<Rightarrow> json list \<Rightarrow> verdict_reason option guarded" where
  "router_check env r trace =
     g_bind g_tick (\<lambda>started.
     g_bind (g_lift (for_role (gv_router env) ''evaluator'')) (\<lambda>m.
     g_bind (g_client env ''evaluator'' (\<lambda>e. ModelInvocation EVALUATOR (rm_model m) (exc_name e))) (\<lambda>c.
     g_bind (g_agent env (rm_model m)
        \<lparr>aq_guardian = EVALUATOR, aq_client = c,
         aq_prompt = check_prompt (float_repr (sv_prims (gv_services env))) r, aq_recursion_limit = None\<rparr>
        (\<lambda>mem. evaluator_tools (gv_services env) mem (ev_analyze (gv_evaluator env)) r trace)) (\<lambda>(ms, l).
     g_bind (g_lift (read_messages ([], 0, 0) ms)) (\<lambda>(reply, prompt, completion).
       let (hallucinated, reason) = parse_evaluator_decision reply;
           d = (if hallucinated then BLOCK else PASS);
           label = hallucination_label hallucinated in
     g_bind (g_remember env r d [label]) (\<lambda>_.
     g_bind g_tick (\<lambda>now.
     g_bind (g_lift (model_cost m prompt completion)) (\<lambda>cost.
     g_bind (g_record r (tool_loop_input EVALUATOR d [label] m prompt completion
               (elapsed_ms (gv_services env) started now) cost l)) (\<lambda>_.
       g_return (if hallucinated
         then Some \<lparr>rs_agent = Some EVALUATOR, rs_label = label, rs_detail = Some (take 240 reason),
                rs_score = Some (flit (7 / 10)), rs_model_id = Some (rm_model m), rs_served_via = Some (rm_served_via m)\<rparr>
         else None))))))))))"

section \<open>Evaluator\<close>

text \<open>
  \<open>Evaluator.evaluate\<close> with this check injected.  The check runs after the analyzer, when that
  did not raise; the rest is the Evaluator's own definition with the outcome of the check.
\<close>

definition reaches_check :: "evaluator \<Rightarrow> traces \<Rightarrow> action_record \<Rightarrow> bool" where
  "reaches_check ev tr r \<longleftrightarrow>
     vc_run_hallucination (ev_config ev) \<and>
     (runs_invariant ev r \<longrightarrow> is_ok (ev_analyze ev (trace_of tr (r_run_id r))))"

definition router_evaluate :: "guard_env \<Rightarrow> action_record \<Rightarrow> evaluator_result guarded" where
  "router_evaluate env r =
     (let ev = gv_evaluator env in
      g_bind (g_get gd_traces) (\<lambda>tr.
      let tr' = (if runs_invariant ev r then eval_append_trace tr r else tr) in
      g_bind (g_modify (\<lambda>st. st\<lparr>gd_traces := tr'\<rparr>)) (\<lambda>_.
      g_bind (if reaches_check ev tr' r then router_check env r (trace_of tr' (r_run_id r)) else g_return None) (\<lambda>hr.
        g_lift (fst (evaluate (ev\<lparr>ev_hallucination := (\<lambda>_ _. Inr hr)\<rparr>) tr r))))))"

section \<open>Auditor\<close>

definition g_audit :: "guard_env \<Rightarrow> action_record list \<Rightarrow> string option \<Rightarrow> audit_result guarded" where
  "g_audit env rs key = (\<lambda>st.
     (let (a, au) = audit (sv_prims (gv_services env)) None (gd_auditor st) rs key in
      (Inr a, st\<lparr>gd_auditor := au\<rparr>)))"

definition audit_decision :: "audit_result \<Rightarrow> decision" where
  "audit_decision a = (if ar_chain_broken a then BLOCK else PASS)"

definition labels_or :: "verdict_reason list \<Rightarrow> string \<Rightarrow> string list" where
  "labels_or rs dflt = (if rs = [] then [dflt] else map rs_label rs)"

definition record_tool_loop_evidence :: "guard_env \<Rightarrow> action_record list \<Rightarrow> audit_result \<Rightarrow> unit guarded" where
  "record_tool_loop_evidence env rs a =
     g_bind g_tick (\<lambda>started.
     g_bind (g_lift (for_role (gv_router env) ''auditor'')) (\<lambda>m.
     g_bind (g_client env ''auditor'' Raised) (\<lambda>c.
     g_bind (g_agent env (rm_model m)
        \<lparr>aq_guardian = AUDITOR, aq_client = c, aq_prompt = ''Audit this Channel-2 record batch with tools.'',
         aq_recursion_limit = Some loop_limit\<rparr>
        (\<lambda>mem. auditor_tools (gv_services env) mem rs a)) (\<lambda>(ms, l).
     g_bind (g_lift (read_messages ([], 0, 0) ms)) (\<lambda>(reply, prompt, completion).
     g_bind g_tick (\<lambda>now.
     g_bind (g_lift (model_cost m prompt completion)) (\<lambda>cost.
       g_record (hd rs) (tool_loop_input AUDITOR (audit_decision a) (labels_or (ar_reasons a) ''auditor.tool_loop'')
         m prompt completion (elapsed_ms (gv_services env) started now) cost l))))))))"

definition router_audit :: "guard_env \<Rightarrow> action_record list \<Rightarrow> string option \<Rightarrow> audit_result guarded" where
  "router_audit env rs key =
     g_bind (g_audit env rs key) (\<lambda>a.
       if rs = [] then g_return a
       else g_bind (record_tool_loop_evidence env rs a) (\<lambda>_. g_return a))"

section \<open>Supervisor\<close>

definition arbiter_prompt :: "(pyfloat \<Rightarrow> string) \<Rightarrow> guardian_signals \<Rightarrow> string" where
  "arbiter_prompt fmt s =
     ''Resolve this Defender/Evaluator conflict. defender='' @ decision_value (gs_defender_decision s)
     @ '' evaluator_anomaly='' @ fmt (gs_evaluator_anomaly s)
     @ ''. Use tools, then answer PASS, ALERT, ESCALATE, BLOCK, or ROLLBACK.''"

definition arbiter_decide ::
  "guard_env \<Rightarrow> guardian_signals \<Rightarrow> action_record option \<Rightarrow> (decision \<times> verdict_reason) guarded" where
  "arbiter_decide env s r =
     g_bind g_tick (\<lambda>started.
     g_bind (g_lift (for_role (gv_router env) ''supervisor'')) (\<lambda>m.
     g_bind (g_client env ''supervisor'' Raised) (\<lambda>c.
     g_bind (g_agent env (rm_model m)
        \<lparr>aq_guardian = SUPERVISOR, aq_client = c, aq_prompt = arbiter_prompt (ev_format (gv_evaluator env)) s,
         aq_recursion_limit = Some loop_limit\<rparr>
        (\<lambda>mem. supervisor_tools (gv_services env) mem s r)) (\<lambda>(ms, l).
     g_bind (g_lift (read_messages ([], 0, 0) ms)) (\<lambda>(reply, prompt, completion).
     g_bind (g_lift (model_cost m prompt completion)) (\<lambda>cost.
     g_bind g_tick (\<lambda>now.
     g_bind (g_modify (\<lambda>st. st\<lparr>gd_measurement := Some
        \<lparr>ms_model_id = rm_model m, ms_served_via = rm_served_via m,
         ms_result = \<lparr>rr_text = reply, rr_prompt_tokens = prompt, rr_completion_tokens = completion, rr_cost_usd = cost\<rparr>,
         ms_latency_ms = elapsed_ms (gv_services env) started now, ms_tool_calls = tl_calls l,
         ms_memory = last_memory l\<rparr>\<rparr>)) (\<lambda>_.
       g_return (decision_from_text reply ESCALATE,
         \<lparr>rs_agent = Some SUPERVISOR, rs_label = ''supervisor.arbitrated'',
          rs_detail = Some (take 240 (strip_by is_space reply)), rs_score = Some (gs_evaluator_anomaly s),
          rs_model_id = Some (rm_model m), rs_served_via = Some (rm_served_via m)\<rparr>)))))))))"

definition arbiter_record_evidence :: "action_record \<Rightarrow> decision \<Rightarrow> verdict_reason \<Rightarrow> unit guarded" where
  "arbiter_record_evidence r d reason = (\<lambda>st.
     (case gd_measurement st of
        None \<Rightarrow> (Inr (), st)
      | Some ms \<Rightarrow>
          g_record r ((evidence_input_of SUPERVISOR d [rs_label reason] (Some (ms_model_id ms)) (Some (ms_served_via ms)))
            \<lparr>gi_prompt_tokens := rr_prompt_tokens (ms_result ms), gi_completion_tokens := rr_completion_tokens (ms_result ms),
             gi_latency_ms := ms_latency_ms ms, gi_cost_usd := rr_cost_usd (ms_result ms),
             gi_memory := ms_memory ms, gi_tool_calls := ms_tool_calls ms\<rparr>) st))"

text \<open>When \<open>Supervisor.decide\<close> asks its arbiter: no hard override, a conflict, and no exception before.\<close>

definition consults :: "supervisor_policy \<Rightarrow> guardian_signals \<Rightarrow> bool" where
  "consults p s \<longleftrightarrow> is_ok (aggregate_risk p s) \<and> \<not> defender_blocked s \<and>
     \<not> gs_chain_broken s \<and> \<not> gs_structuring_or_exfil s \<and> is_conflict s p = Inr True"

definition router_supervise :: "guard_env \<Rightarrow> guardian_signals \<Rightarrow> action_record \<Rightarrow> governance_verdict guarded" where
  "router_supervise env s r =
     g_bind g_tick (\<lambda>t.
       if consults (gv_policy env) s then
         g_bind (arbiter_decide env s (Some r)) (\<lambda>(d, reason).
         g_bind (g_lift (supervisor_decide (gv_policy env) (\<lambda>_ _. Inr (d, Some reason)) (gv_fresh env t) s r)) (\<lambda>(v, ev).
           case ev of
             None \<Rightarrow> g_return v
           | Some (r', d', x) \<Rightarrow> g_bind (arbiter_record_evidence r' d' x) (\<lambda>_. g_return v)))
       else
         g_bind (g_lift (supervisor_decide (gv_policy env) conservative_arbiter (gv_fresh env t) s r)) (\<lambda>(v, _). g_return v))"

section \<open>The asynchronous handler\<close>

definition record_guardian_error :: "action_record \<Rightarrow> guardian \<Rightarrow> string \<Rightarrow> string \<Rightarrow> guard_state \<Rightarrow> guard_state" where
  "record_guardian_error r g model_id cls st =
     st\<lparr>gd_rows := record_for_record (gd_rows st) r
       (evidence_input_of g ALERT [''guardian.model_error'', ''error:'' @ cls] (Some model_id) None)\<rparr>"

definition record_if_absent :: "action_record \<Rightarrow> guardian \<Rightarrow> decision \<Rightarrow> string list \<Rightarrow> unit guarded" where
  "record_if_absent r g d labels = g_modify (\<lambda>st.
     if has_guardian (gd_rows st) (r_record_id r) g then st
     else st\<lparr>gd_rows := record_for_record (gd_rows st) r (evidence_input_of g d labels None None)\<rparr>)"

definition record_auditor_if_absent :: "action_record \<Rightarrow> audit_result \<Rightarrow> unit guarded" where
  "record_auditor_if_absent r a =
     record_if_absent r AUDITOR (audit_decision a) (labels_or (ar_reasons a) ''auditor.integrity'')"

definition record_supervisor_if_absent :: "action_record \<Rightarrow> governance_verdict \<Rightarrow> unit guarded" where
  "record_supervisor_if_absent r v =
     record_if_absent r SUPERVISOR (v_decision v)
       (labels_or (filter (\<lambda>x. rs_agent x = Some SUPERVISOR) (v_reasons v)) ''supervisor.aggregate'')"

definition router_attempt :: "guard_env \<Rightarrow> action_record \<Rightarrow> governance_verdict guarded" where
  "router_attempt env r =
     g_bind (router_evaluate env r) (\<lambda>er.
     g_bind (router_audit env [r] (gv_resolve env (r_agent_pubkey_kid r))) (\<lambda>a.
     g_bind (record_auditor_if_absent r a) (\<lambda>_.
     g_bind (router_supervise env (async_signals er a (r_phase r)) r) (\<lambda>v.
     g_bind (record_supervisor_if_absent r v) (\<lambda>_. g_return v)))))"

definition router_handle :: "guard_env \<Rightarrow> action_record \<Rightarrow> (handoff \<times> evidence list) guarded" where
  "router_handle env r = (\<lambda>st.
     (case router_attempt env r st of
        (Inl (ModelInvocation g m cls), st') \<Rightarrow>
          (Inl (ModelInvocation g m cls), record_guardian_error r g m cls st')
      | (Inl e, st') \<Rightarrow> (Inl e, st')
      | (Inr v, st') \<Rightarrow>
          (Inr (handoff_from_record r v, rows_for_record (gd_rows st') (r_record_id r)), st')))"

section \<open>The narrated report\<close>

definition report_json :: "compliance_report \<Rightarrow> json" where
  "report_json rep = JObj
     ([(''report_version'', JStr ''w4-json''),
       (''decision_mix'', JObj (map (\<lambda>(k, n). (k, JInt (int n))) (rp_decision_mix rep))),
       (''blocked'', JInt (int (rp_blocked rep))), (''escalated'', JInt (int (rp_escalated rep))),
       (''dollars_prevented'', JFloat (rp_dollars_prevented rep)),
       (''provenance_nodes'', JInt (int (rp_provenance_nodes rep))),
       (''owasp_agentic'', JArr [JStr ''LLM01-PromptInjection'', JStr ''LLM06-ExcessiveAgency''])]
      @ (case rp_merkle rep of
           None \<Rightarrow> []
         | Some m \<Rightarrow> [(''merkle'', JObj
             ([(''verified'', JBool (mv_verified m)), (''root'', opt_json JStr (mv_root m)),
               (''epoch_id'', opt_json JStr (mv_epoch_id m))]
              @ (case non_empty (mv_detail m) of None \<Rightarrow> [] | Some d \<Rightarrow> [(''detail'', JStr d)])))]))"

text \<open>\<open>RouterTextClient.acomplete\<close>; the reply is coerced, an exception of the client is not caught.\<close>

definition router_complete ::
  "guard_env \<Rightarrow> string \<Rightarrow> string \<Rightarrow> (resolved_model \<times> router_call_result \<times> pyfloat) guarded" where
  "router_complete env role prompt =
     g_bind g_tick (\<lambda>started.
     g_bind (g_lift (for_role (gv_router env) role)) (\<lambda>m.
     g_bind (g_client env role Raised) (\<lambda>c.
     g_bind (case gv_complete env started c prompt of Inl cls \<Rightarrow> g_fail (ClientRaised cls) | Inr raw \<Rightarrow> g_return raw) (\<lambda>raw.
     g_bind (g_lift (coerce_result (float_repr (sv_prims (gv_services env))) raw)) (\<lambda>res.
     g_bind g_tick (\<lambda>now. g_return (m, res, elapsed_ms (gv_services env) started now)))))))"

definition g_record_ids :: "string \<Rightarrow> string \<Rightarrow> evidence_input \<Rightarrow> unit guarded" where
  "g_record_ids rid cid i = g_modify (\<lambda>st. st\<lparr>gd_rows := gd_rows st @ [row_for rid cid i]\<rparr>)"

text \<open>The row is filed under the first verdict's record, or its own id when it has none.\<close>

definition router_report :: "guard_env \<Rightarrow> governance_verdict list \<Rightarrow> compliance_report guarded" where
  "router_report env vs =
     g_bind (g_get (\<lambda>st. base_report (gd_auditor st) vs)) (\<lambda>rep.
     g_bind (router_complete env ''auditor''
        (''Summarize this governance audit in 2 sentences: ''
         @ py_repr (float_repr (sv_prims (gv_services env))) (report_json rep))) (\<lambda>(m, res, latency).
     g_bind (case vs of
          [] \<Rightarrow> g_return ()
        | v # _ \<Rightarrow> g_record_ids (or_else (v_record_id v) (v_verdict_id v)) (v_correlation_id v)
            ((evidence_input_of AUDITOR PASS [''auditor.narrative''] (Some (rm_model m)) (Some (rm_served_via m)))
              \<lparr>gi_prompt_tokens := rr_prompt_tokens res, gi_completion_tokens := rr_completion_tokens res,
               gi_latency_ms := latency, gi_cost_usd := rr_cost_usd res\<rparr>)) (\<lambda>_.
       g_return (rep\<lparr>rp_narrative := Some (strip_by is_space (rr_text res))\<rparr>))))"

section \<open>Construction\<close>

text \<open>
  \<open>resolve_default_memory\<close>: an injected memory wins, then the persistent store, else a window of
  128 incidents.  All three guardians share it and the recorder.
\<close>

definition resolve_default_memory :: "memory_backend option \<Rightarrow> vector_store option \<Rightarrow> memory_backend" where
  "resolve_default_memory injected store =
     (case injected of Some m \<Rightarrow> m
      | None \<Rightarrow> (case store of Some vs \<Rightarrow> store_incident_memory vs | None \<Rightarrow> LocalWindow 128 []))"

definition guard_init :: "memory_backend option \<Rightarrow> vector_store option \<Rightarrow> recorder \<Rightarrow> guard_state" where
  "guard_init injected store rows =
     \<lparr>gd_cache = [], gd_memory = resolve_default_memory injected store, gd_rows = rows, gd_traces = [],
      gd_auditor = auditor_init, gd_measurement = None, gd_clock = 0\<rparr>"

end
