(* ===== verification/GuardianFacts.thy ===== *)
theory GuardianFacts
  imports RouterGuardians
begin

text \<open>
  What holds of the router-backed guardians whatever the models reply.  The locale
  \<open>guard_relation\<close> reduces a fact about every operation to the same fact about the two places that
  change something that lasts: a row is recorded, an incident is remembered.
\<close>

section \<open>Rules for the steps\<close>

text \<open>\<open>preserves R Q m\<close>: the step \<open>m\<close> moves the state along \<open>R\<close> and returns only what \<open>Q\<close> admits.\<close>

definition preserves :: "(guard_state \<Rightarrow> guard_state \<Rightarrow> bool) \<Rightarrow> ('a \<Rightarrow> bool) \<Rightarrow> 'a guarded \<Rightarrow> bool" where
  "preserves R Q m \<longleftrightarrow> (\<forall>st res st'. m st = (res, st') \<longrightarrow> R st st' \<and> (\<forall>x. res = Inr x \<longrightarrow> Q x))"

lemma preservesI: "(\<And>st res st'. m st = (res, st') \<Longrightarrow> R st st' \<and> (\<forall>x. res = Inr x \<longrightarrow> Q x)) \<Longrightarrow> preserves R Q m"
  by (simp add: preserves_def)

lemma preservesD:
  assumes "preserves R Q m" and "m st = (res, st')"
  shows "R st st'" and "res = Inr x \<Longrightarrow> Q x"
  using assms by (simp_all add: preserves_def)

lemma preserves_weaken: "preserves R Q m \<Longrightarrow> (\<And>x. Q x \<Longrightarrow> Q' x) \<Longrightarrow> preserves R Q' m"
  by (simp add: preserves_def)

text \<open>Labels of the rows a guardian writes about its own work, as opposed to the error row.\<close>

definition guardian_label :: "string \<Rightarrow> bool" where
  "guardian_label l \<longleftrightarrow> starts_with l ''evaluator.'' \<or> starts_with l ''auditor.'' \<or> starts_with l ''supervisor.''"

definition labels_ok :: "evidence_input \<Rightarrow> bool" where
  "labels_ok i \<longleftrightarrow> list_all guardian_label (gi_reasons i)"

text \<open>Reasons: what the Supervisor signs carries its own labels.\<close>

definition reasons_ok :: "verdict_reason list \<Rightarrow> bool" where
  "reasons_ok rs \<longleftrightarrow> list_all (\<lambda>x. rs_agent x = Some SUPERVISOR \<longrightarrow> starts_with (rs_label x) ''supervisor.'') rs"

lemma reasons_ok_append [simp]: "reasons_ok (xs @ ys) \<longleftrightarrow> reasons_ok xs \<and> reasons_ok ys"
  by (auto simp: reasons_ok_def)

lemma reasons_ok_simps [simp]:
  "reasons_ok []" "reasons_ok (x # xs) \<longleftrightarrow> (rs_agent x = Some SUPERVISOR \<longrightarrow> starts_with (rs_label x) ''supervisor.'') \<and> reasons_ok xs"
  by (simp_all add: reasons_ok_def)

section \<open>What the parts return\<close>

lemma audit_reasons_ok:
  "list_all (\<lambda>x. starts_with (rs_label x) ''auditor.'' \<and> rs_agent x = Some AUDITOR) (ar_reasons (fst (audit p None au rs key)))"
  by (auto simp: audit_def Let_def auditor_reason_def verdict_reason_of_def starts_with_def)

lemma evaluate_reasons_ok:
  assumes "fst (evaluate (ev\<lparr>ev_hallucination := (\<lambda>_ _. Inr hr)\<rparr>) tr r) = Inr er"
    and "\<And>x. hr = Some x \<Longrightarrow> rs_agent x = Some EVALUATOR"
  shows "list_all (\<lambda>x. rs_agent x = Some EVALUATOR) (er_reasons er)"
proof (rule evaluate_cases[OF prod_eqI[of _ "(Inr er, snd (evaluate (ev\<lparr>ev_hallucination := (\<lambda>_ _. Inr hr)\<rparr>) tr r))"]])
  fix vs hs ds
  let ?tr' = "snd (evaluate (ev\<lparr>ev_hallucination := (\<lambda>_ _. Inr hr)\<rparr>) tr r)"
  assume h: "eval_hallucination (ev\<lparr>ev_hallucination := \<lambda>_ _. Inr hr\<rparr>) ?tr' r = Inr hs"
    and d: "eval_drift (ev\<lparr>ev_hallucination := \<lambda>_ _. Inr hr\<rparr>) r = Inr ds"
    and e: "er_reasons er = map violation_reason vs @ hs @ ds"
  from h assms(2) have "list_all (\<lambda>x. rs_agent x = Some EVALUATOR) hs"
    by (auto simp: eval_hallucination_def split: if_splits option.splits)
  moreover from d have "list_all (\<lambda>x. rs_agent x = Some EVALUATOR) ds"
    by (auto simp: eval_drift_def drift_reason_def rbind_Inr_iff split: if_splits)
  ultimately show ?thesis by (auto simp: e list_all_iff violation_reason_def)
qed (simp_all add: assms(1))

lemma supervisor_reasons:
  assumes "supervisor_decide p arb vid s r = Inr (v, ev)"
    and "reasons_ok (all_reasons s)"
    and "\<And>d x. arb s r = Inr (d, Some x) \<Longrightarrow> starts_with (rs_label x) ''supervisor.''"
  shows "reasons_ok (v_reasons v)"
    and "\<And>r' d x. ev = Some (r', d, x) \<Longrightarrow> r' = r \<and> starts_with (rs_label x) ''supervisor.''"
proof -
  from assms(1) obtain risk b where risk: "aggregate_risk p s = Inr risk" and b: "decide_branch p arb s r risk = Inr b"
    by (auto simp: supervisor_decide_def)
  have lab: "starts_with (rs_label x) ''supervisor.''" if "br_reason b = Some x" for x
    using b that assms(3)
    by (auto simp: decide_branch_def rbind_Inr_iff arbitration_reason_def verdict_reason_of_def starts_with_def
        split: if_splits option.splits)
  from assms(1) show "reasons_ok (v_reasons v)"
    using assms(2) lab
    by (auto simp: supervisor_decide_def risk b Let_def verdict_reason_of_def starts_with_def split: option.splits)
  from assms(1) show "\<And>r' d x. ev = Some (r', d, x) \<Longrightarrow> r' = r \<and> starts_with (rs_label x) ''supervisor.''"
    using lab by (auto simp: supervisor_decide_def risk b Let_def)
qed

section \<open>A relation that every operation moves along\<close>

definition check_decision :: "bool \<Rightarrow> decision" where
  "check_decision h = (if h then BLOCK else PASS)"

definition audit_labelled :: "audit_result \<Rightarrow> bool" where
  "audit_labelled a \<longleftrightarrow> list_all (\<lambda>x. starts_with (rs_label x) ''auditor.'' \<and> rs_agent x = Some AUDITOR) (ar_reasons a)"

definition arbitrated :: "decision \<times> verdict_reason \<Rightarrow> bool" where
  "arbitrated x \<longleftrightarrow> starts_with (rs_label (snd x)) ''supervisor.''"

definition supervised :: "governance_verdict \<Rightarrow> bool" where
  "supervised v \<longleftrightarrow> reasons_ok (v_reasons v)"

locale guard_relation =
  fixes R :: "guard_state \<Rightarrow> guard_state \<Rightarrow> bool" and env :: guard_env and r :: action_record
  assumes refl [simp]: "R st st"
    and trans: "R a b \<Longrightarrow> R b c \<Longrightarrow> R a c"
    and frame: "gd_rows st' = gd_rows st \<Longrightarrow> gd_memory st' = gd_memory st \<Longrightarrow> R st st'"
    and row: "labels_ok i \<Longrightarrow> R st (st\<lparr>gd_rows := record_for_record (gd_rows st) r i\<rparr>)"
    and remembered: "remember env r (check_decision h) [hallucination_label h] (gd_memory st) = Inr mem \<Longrightarrow>
           R st (st\<lparr>gd_memory := mem\<rparr>)"
begin

lemma preserves_return: "Q x \<Longrightarrow> preserves R Q (g_return x)"
  by (rule preservesI) (auto simp: g_return_def)

lemma preserves_bind:
  assumes "preserves R P m" and "\<And>x. P x \<Longrightarrow> preserves R Q (k x)"
  shows "preserves R Q (g_bind m k)"
proof (rule preservesI)
  fix st res st'
  assume e: "g_bind m k st = (res, st')"
  obtain y st1 where m: "m st = (y, st1)" by (cases "m st")
  from preservesD(1)[OF assms(1) m] have R1: "R st st1" .
  show "R st st' \<and> (\<forall>x. res = Inr x \<longrightarrow> Q x)"
  proof (cases y)
    case (Inl f)
    with e m R1 show ?thesis by (auto simp: g_bind_def)
  next
    case (Inr x)
    with e m have k: "k x st1 = (res, st')" by (simp add: g_bind_def)
    from preservesD(2)[OF assms(1) m] Inr have "P x" by simp
    from preservesD[OF assms(2)[OF this] k] R1 show ?thesis by (blast intro: trans)
  qed
qed

lemma preserves_lift: "(\<And>x. v = Inr x \<Longrightarrow> Q x) \<Longrightarrow> preserves R Q (g_lift v)"
  by (rule preservesI) (auto simp: g_lift_def g_fail_def g_return_def split: sum.splits)

lemma preserves_tick: "preserves R (\<lambda>_. True) g_tick"
  by (rule preservesI) (auto simp: g_tick_def intro: frame)

lemma preserves_get: "preserves R (\<lambda>_. True) (g_get f)"
  by (rule preservesI) (auto simp: g_get_def)

lemma preserves_client: "preserves R (\<lambda>_. True) (g_client env role wrap)"
  by (rule preservesI) (auto simp: g_client_def split: prod.splits sum.splits intro: frame)

lemma preserves_agent: "preserves R (\<lambda>_. True) (g_agent env m rq tools)"
  by (rule preservesI) (auto simp: g_agent_def Let_def split: prod.splits sum.splits intro: frame)

lemma preserves_traces: "preserves R (\<lambda>_. True) (g_modify (\<lambda>st. st\<lparr>gd_traces := tr\<rparr>))"
  by (rule preservesI) (auto simp: g_modify_def intro: frame)

lemma preserves_measurement: "preserves R (\<lambda>_. True) (g_modify (\<lambda>st. st\<lparr>gd_measurement := m\<rparr>))"
  by (rule preservesI) (auto simp: g_modify_def intro: frame)

lemma preserves_record: "labels_ok i \<Longrightarrow> preserves R (\<lambda>_. True) (g_record r i)"
  by (rule preservesI) (auto simp: g_record_def g_modify_def intro: row)

lemma preserves_remember: "preserves R (\<lambda>_. True) (g_remember env r (check_decision h) [hallucination_label h])"
  by (rule preservesI) (auto simp: g_remember_def split: sum.splits intro: remembered)

lemma preserves_if_absent: "list_all guardian_label ls \<Longrightarrow> preserves R (\<lambda>_. True) (record_if_absent r g d ls)"
  by (rule preservesI) (auto simp: record_if_absent_def g_modify_def labels_ok_def intro: row)

lemma preserves_prod: "(\<And>x y. Q (x, y) \<Longrightarrow> preserves R S (f x y)) \<Longrightarrow> Q z \<Longrightarrow> preserves R S (case z of (x, y) \<Rightarrow> f x y)"
  by (cases z) simp

lemmas preserves_intros = preserves_return preserves_tick preserves_client preserves_agent preserves_get preserves_traces preserves_measurement

lemma preserves_check: "preserves R (\<lambda>hr. \<forall>x. hr = Some x \<longrightarrow> rs_agent x = Some EVALUATOR) (router_check env r trace)"
  unfolding router_check_def Let_def check_decision_def[symmetric]
  by (rule preserves_bind preserves_intros preserves_remember preserves_prod[where Q = "\<lambda>_. True"] TrueI preserves_record
        preserves_lift[where Q = "\<lambda>_. True"]
      | auto simp: labels_ok_def tool_loop_input_def hallucination_label_def guardian_label_def starts_with_def
          evidence_input_of_def)+

lemma preserves_evaluate: "preserves R (\<lambda>er. list_all (\<lambda>x. rs_agent x = Some EVALUATOR) (er_reasons er)) (router_evaluate env r)"
  unfolding router_evaluate_def Let_def
proof (rule preserves_bind[OF preserves_get], rule preserves_bind[OF preserves_traces])
  fix tr :: traces and u :: unit
  let ?tr' = "if runs_invariant (gv_evaluator env) r then eval_append_trace tr r else tr"
  show "preserves R (\<lambda>er. list_all (\<lambda>x. rs_agent x = Some EVALUATOR) (er_reasons er))
     (g_bind (if reaches_check (gv_evaluator env) ?tr' r then router_check env r (trace_of ?tr' (r_run_id r)) else g_return None)
       (\<lambda>hr. g_lift (fst (evaluate (gv_evaluator env\<lparr>ev_hallucination := \<lambda>_ _. Inr hr\<rparr>) tr r))))"
    by (rule preserves_bind[where P = "\<lambda>hr. \<forall>x. hr = Some x \<longrightarrow> rs_agent x = Some EVALUATOR"])
      (auto simp: preserves_check intro!: preserves_return preserves_lift evaluate_reasons_ok)
qed

lemma audit_labelled_labels: "audit_labelled a \<Longrightarrow> guardian_label d \<Longrightarrow> list_all guardian_label (labels_or (ar_reasons a) d)"
  by (auto simp: audit_labelled_def labels_or_def guardian_label_def list_all_iff)

lemma preserves_g_audit: "preserves R audit_labelled (g_audit env rs key)"
proof (rule preservesI)
  fix st res st'
  assume "g_audit env rs key st = (res, st')"
  then show "R st st' \<and> (\<forall>x. res = Inr x \<longrightarrow> audit_labelled x)"
    using audit_reasons_ok[of "sv_prims (gv_services env)" "gd_auditor st" rs key]
    by (auto simp: g_audit_def audit_labelled_def split: prod.splits intro: frame)
qed

lemma preserves_audit: "preserves R audit_labelled (router_audit env [r] key)"
proof -
  have "preserves R (\<lambda>_. True) (record_tool_loop_evidence env [r] a)" if "audit_labelled a" for a
    unfolding record_tool_loop_evidence_def list.sel
    by (rule preserves_bind preserves_intros preserves_prod[where Q = "\<lambda>_. True"] TrueI preserves_record preserves_lift[where Q = "\<lambda>_. True"]
        | simp add: labels_ok_def tool_loop_input_def audit_labelled_labels[OF that] guardian_label_def starts_with_def
            evidence_input_of_def)+
  then show ?thesis
    unfolding router_audit_def by (auto intro!: preserves_bind[OF preserves_g_audit] preserves_bind preserves_return)
qed

lemma preserves_arbiter: "preserves R arbitrated (arbiter_decide env s who)"
  unfolding arbiter_decide_def
  by (rule preserves_bind preserves_intros preserves_prod[where Q = "\<lambda>_. True"] TrueI preserves_lift[where Q = "\<lambda>_. True"]
      | simp add: arbitrated_def starts_with_def)+

lemma preserves_arbiter_evidence:
  "starts_with (rs_label x) ''supervisor.'' \<Longrightarrow> preserves R (\<lambda>_. True) (arbiter_record_evidence r d x)"
  by (rule preservesI)
    (auto simp: arbiter_record_evidence_def g_record_def g_modify_def labels_ok_def guardian_label_def
      evidence_input_of_def split: option.splits intro!: row)

lemma preserves_supervise:
  assumes "reasons_ok (all_reasons s)"
  shows "preserves R supervised (router_supervise env s r)"
proof -
  have a: "preserves R supervised
      (g_bind (g_lift (supervisor_decide (gv_policy env) (\<lambda>_ _. Inr (d, Some x)) vid s r)) (\<lambda>(v, ev).
         case ev of None \<Rightarrow> g_return v
         | Some (r', d', y) \<Rightarrow> g_bind (arbiter_record_evidence r' d' y) (\<lambda>_. g_return v)))"
    if "arbitrated (d, x)" for d x vid
  proof (rule preserves_bind[OF preserves_lift[where Q = "\<lambda>(v, ev). supervised v \<and>
        (\<forall>r' d' y. ev = Some (r', d', y) \<longrightarrow> r' = r \<and> starts_with (rs_label y) ''supervisor.'')"]])
    fix z
    assume "supervisor_decide (gv_policy env) (\<lambda>_ _. Inr (d, Some x)) vid s r = Inr z"
    with supervisor_reasons[of "gv_policy env" "\<lambda>_ _. Inr (d, Some x)" vid s r "fst z" "snd z"] assms that
    show "case z of (v, ev) \<Rightarrow> supervised v \<and>
        (\<forall>r' d' y. ev = Some (r', d', y) \<longrightarrow> r' = r \<and> starts_with (rs_label y) ''supervisor.'')"
      by (auto simp: arbitrated_def supervised_def)
  next
    fix z :: "governance_verdict \<times> (action_record \<times> decision \<times> verdict_reason) option"
    assume "case z of (v, ev) \<Rightarrow> supervised v \<and>
        (\<forall>r' d' y. ev = Some (r', d', y) \<longrightarrow> r' = r \<and> starts_with (rs_label y) ''supervisor.'')"
    then show "preserves R supervised (case z of (v, ev) \<Rightarrow> case ev of None \<Rightarrow> g_return v
         | Some (r', d', y) \<Rightarrow> g_bind (arbiter_record_evidence r' d' y) (\<lambda>_. g_return v))"
      by (auto split: option.split intro!: preserves_return preserves_bind[OF preserves_arbiter_evidence])
  qed
  have b: "preserves R supervised
      (g_bind (g_lift (supervisor_decide (gv_policy env) conservative_arbiter vid s r)) (\<lambda>(v, _). g_return v))" for vid
    using assms supervisor_reasons(1)[of "gv_policy env" conservative_arbiter vid s r]
    by (auto intro!: preserves_bind[OF preserves_lift[where Q = "\<lambda>(v, ev). supervised v"]] preserves_return
        simp: supervised_def conservative_arbiter_def rbind_Inr_iff)
  show ?thesis
    unfolding router_supervise_def
    by (rule preserves_bind[OF preserves_tick]) (auto intro!: preserves_bind[OF preserves_arbiter] a b)
qed

lemma preserves_attempt: "preserves R supervised (router_attempt env r)"
proof -
  have s: "reasons_ok (all_reasons (async_signals er a ph))"
    if "list_all (\<lambda>x. rs_agent x = Some EVALUATOR) (er_reasons er)" "audit_labelled a" for er a ph
    using that by (auto simp: all_reasons_def async_signals_def default_signals_def reasons_ok_def audit_labelled_def list_all_iff)
  have l: "list_all guardian_label (labels_or (filter (\<lambda>x. rs_agent x = Some SUPERVISOR) (v_reasons v)) ''supervisor.aggregate'')"
    if "supervised v" for v
    using that by (auto simp: supervised_def reasons_ok_def labels_or_def list_all_iff guardian_label_def starts_with_def)
  have g: "guardian_label ''auditor.integrity''" by (simp add: guardian_label_def starts_with_def)
  show ?thesis
    unfolding router_attempt_def record_auditor_if_absent_def record_supervisor_if_absent_def
    by (rule preserves_bind[OF preserves_evaluate], rule preserves_bind[OF preserves_audit],
        rule preserves_bind[OF preserves_if_absent[OF audit_labelled_labels[OF _ g]]], assumption,
        rule preserves_bind[OF preserves_supervise[OF s]], assumption+,
        rule preserves_bind[OF preserves_if_absent[OF l]], assumption, erule preserves_return)
qed

end

section \<open>The rows of a run\<close>

text \<open>The row that says that a guardian's model failed.\<close>

definition error_row :: "action_record \<Rightarrow> guardian \<Rightarrow> string \<Rightarrow> string \<Rightarrow> evidence" where
  "error_row r g m cls = evidence_row r
     (evidence_input_of g ALERT [''guardian.model_error'', ''error:'' @ cls] (Some m) None)"

definition is_error_row :: "evidence \<Rightarrow> bool" where
  "is_error_row row = (''guardian.model_error'' \<in> set (ge_reasons row))"

definition own_row :: "action_record \<Rightarrow> evidence \<Rightarrow> bool" where
  "own_row r row \<longleftrightarrow> ge_record_id row = r_record_id r \<and> ge_correlation_id row = r_correlation_id r \<and> evidence_ok row"

definition rows_grow :: "action_record \<Rightarrow> guard_state \<Rightarrow> guard_state \<Rightarrow> bool" where
  "rows_grow r st st' \<longleftrightarrow>
     (\<exists>new. gd_rows st' = gd_rows st @ new \<and> list_all (\<lambda>row. own_row r row \<and> \<not> is_error_row row) new)"

lemma labels_ok_no_error: "labels_ok i \<Longrightarrow> \<not> is_error_row (evidence_row r i)"
  by (auto simp: labels_ok_def is_error_row_def list_all_iff guardian_label_def starts_with_def)

lemma own_row_evidence [simp]: "own_row r (evidence_row r i)"
  by (simp add: own_row_def)

interpretation rows: guard_relation "rows_grow r" env r for env r
proof (unfold_locales, goal_cases)
  case (4 i st)
  then show ?case by (auto simp: rows_grow_def record_for_record_def labels_ok_no_error)
qed (auto simp: rows_grow_def)

lemma handle_rows:
  assumes "router_handle env r st = (res, st')"
  shows "\<exists>new. gd_rows st' = gd_rows st @ new \<and> list_all (own_row r) new
    \<and> filter is_error_row new =
        (case res of Inl (ModelInvocation g m cls) \<Rightarrow> [error_row r g m cls] | _ \<Rightarrow> [])"
proof -
  obtain res1 st1 where a: "router_attempt env r st = (res1, st1)" by (cases "router_attempt env r st")
  from preservesD(1)[OF rows.preserves_attempt a] obtain new where
    n: "gd_rows st1 = gd_rows st @ new" "list_all (\<lambda>row. own_row r row \<and> \<not> is_error_row row) new"
    by (auto simp: rows_grow_def)
  have f: "filter is_error_row new = []" and o: "list_all (own_row r) new"
    using n(2) by (auto simp: list_all_iff filter_empty_conv)
  show ?thesis
  proof (cases res1)
    case (Inl e)
    then show ?thesis
    proof (cases e)
      case (ModelInvocation g m cls)
      have "is_error_row (error_row r g m cls)" "own_row r (error_row r g m cls)"
        by (simp_all add: is_error_row_def error_row_def)
      with Inl ModelInvocation assms a n f o show ?thesis
        by (auto simp: router_handle_def record_guardian_error_def record_for_record_def error_row_def
            intro!: exI[of _ "new @ [error_row r g m cls]"])
    qed (use assms a n f o in \<open>auto simp: router_handle_def\<close>)
  qed (use assms a n f o in \<open>auto simp: router_handle_def\<close>)
qed

section \<open>What a hand-over carries\<close>

lemma g_bind_InrE:
  assumes "g_bind m k st = (Inr y, st')"
  obtains x st1 where "m st = (Inr x, st1)" and "k x st1 = (Inr y, st')"
  using assms by (auto simp: g_bind_def split: prod.splits sum.splits)

lemma g_step_simps [simp]:
  "g_return x st = (Inr y, st') \<longleftrightarrow> y = x \<and> st' = st"
  "g_lift v st = (Inr y, st') \<longleftrightarrow> v = Inr y \<and> st' = st"
  "g_get f st = (Inr y, st') \<longleftrightarrow> y = f st \<and> st' = st"
  "g_modify h st = (Inr u, st') \<longleftrightarrow> st' = h st"
  "g_record r i st = (Inr u, st') \<longleftrightarrow> st' = st\<lparr>gd_rows := record_for_record (gd_rows st) r i\<rparr>"
  by (auto simp: g_return_def g_lift_def g_get_def g_modify_def g_record_def g_fail_def split: sum.splits)

lemma attempt_cases:
  assumes "router_attempt env r st = (Inr v, st')"
  obtains er a st1 st2 st3 st4 where
    "router_evaluate env r st = (Inr er, st1)"
    "router_audit env [r] (gv_resolve env (r_agent_pubkey_kid r)) st1 = (Inr a, st2)"
    "record_auditor_if_absent r a st2 = (Inr (), st3)"
    "router_supervise env (async_signals er a (r_phase r)) r st3 = (Inr v, st4)"
    "record_supervisor_if_absent r v st4 = (Inr (), st')"
  using assms unfolding router_attempt_def by (auto elim!: g_bind_InrE)

lemma if_absent_has:
  assumes "record_if_absent r g d ls st = (Inr (), st')"
  shows "has_guardian (gd_rows st') (r_record_id r) g"
  using assms by (auto simp: record_if_absent_def record_for_record_def split: if_splits)

lemma rows_grow_has: "rows_grow r st st' \<Longrightarrow> has_guardian (gd_rows st) rid g \<Longrightarrow> has_guardian (gd_rows st') rid g"
  by (auto simp: rows_grow_def)

lemma preserves_supervise_rows: "router_supervise env (async_signals er a ph) r st = (res, st') \<Longrightarrow>
    reasons_ok (er_reasons er) \<Longrightarrow> reasons_ok (ar_reasons a) \<Longrightarrow> rows_grow r st st'"
  by (rule preservesD(1)[OF rows.preserves_supervise])
    (auto simp: all_reasons_def async_signals_def default_signals_def)

end
