(* ===== verification/GuardianSafety.thy ===== *)
theory GuardianSafety
  imports GuardianFacts
begin

text \<open>
  Properties of the asynchronous handler with language-model guardians, for every behaviour of the
  models: what they cannot lift, what is published when one fails, what is handed over, and what
  the incident memory can show later.
\<close>

section \<open>Successful runs\<close>

lemma check_has:
  "router_check env r trace st = (Inr x, st') \<Longrightarrow> has_guardian (gd_rows st') (r_record_id r) EVALUATOR"
  unfolding router_check_def Let_def
  by (auto elim!: g_bind_InrE simp: record_for_record_def tool_loop_input_def evidence_input_of_def
      split: prod.splits)

lemma evaluate_Inr:
  assumes "router_evaluate env r st = (Inr er, st1)"
  obtains tr' hr where "tr' = (if runs_invariant (gv_evaluator env) r then eval_append_trace (gd_traces st) r else gd_traces st)"
    and "fst (evaluate ((gv_evaluator env)\<lparr>ev_hallucination := (\<lambda>_ _. Inr hr)\<rparr>) (gd_traces st) r) = Inr er"
    and "reaches_check (gv_evaluator env) tr' r \<Longrightarrow> has_guardian (gd_rows st1) (r_record_id r) EVALUATOR"
  using assms unfolding router_evaluate_def Let_def
  by (elim g_bind_InrE) (auto split: if_splits intro: check_has)

lemma evaluate_structuring:
  assumes "router_evaluate env r st = (Inr er, st1)"
    and "runs_invariant (gv_evaluator env) r"
    and "ev_analyze (gv_evaluator env) (trace_of (eval_append_trace (gd_traces st) r) (r_run_id r)) = Inr (v # vs)"
  shows "er_structuring_or_exfil er"
proof -
  from assms(1) obtain hr where
    e: "fst (evaluate ((gv_evaluator env)\<lparr>ev_hallucination := (\<lambda>_ _. Inr hr)\<rparr>) (gd_traces st) r) = Inr er"
    by (rule evaluate_Inr)
  with assms(2,3) show ?thesis
    by (auto simp: evaluate_def Let_def runs_invariant_def rbind_Inr_iff)
qed

lemma audit_Inr:
  assumes "router_audit env [r] key st = (Inr a, st1)"
  obtains au where "a = fst (audit (sv_prims (gv_services env)) None au [r] key)"
  using assms unfolding router_audit_def
  by (auto elim!: g_bind_InrE simp: g_audit_def split: prod.splits if_splits) (metis fst_conv)

lemma supervise_override:
  assumes "router_supervise env s r st = (Inr v, st1)"
    and "gs_chain_broken s \<or> gs_structuring_or_exfil s" and "\<not> defender_blocked s"
  shows "v_decision v = BLOCK \<and> ob_require_human (v_obligations v) = Some True"
proof -
  from assms(2) have "\<not> consults (gv_policy env) s" by (auto simp: consults_def)
  with assms(1) obtain ev vid where d: "supervisor_decide (gv_policy env) conservative_arbiter vid s r = Inr (v, ev)"
    unfolding router_supervise_def by (auto elim!: g_bind_InrE split: prod.splits)
  show ?thesis
    using d by (rule supervisor_decide_cases) (use assms(2,3) in \<open>auto simp: decide_branch_override(2)\<close>)
qed

lemma handle_Inr:
  assumes "router_handle env r st = (Inr (h, ev), st')"
  obtains v where "router_attempt env r st = (Inr v, st')" and "h = handoff_from_record r v"
    and "ev = rows_for_record (gd_rows st') (r_record_id r)"
  using assms by (auto simp: router_handle_def split: prod.splits sum.splits guardian_error.splits)

lemma async_signals_flags [simp]:
  "gs_chain_broken (async_signals er a ph) = ar_chain_broken a"
  "gs_structuring_or_exfil (async_signals er a ph) = er_structuring_or_exfil er"
  "\<not> defender_blocked (async_signals er a ph)"
  by (simp_all add: async_signals_def default_signals_def defender_blocked_def)

section \<open>No reply lifts a block\<close>

text \<open>
  What decides without a model: the analyzer reports a violation over the trace with this call, or
  the record's signature does not verify under the resolved key (or there is no key).
\<close>

definition hard_evidence :: "guard_env \<Rightarrow> action_record \<Rightarrow> guard_state \<Rightarrow> bool" where
  "hard_evidence env r st \<longleftrightarrow>
     runs_invariant (gv_evaluator env) r \<and>
       (case ev_analyze (gv_evaluator env) (trace_of (eval_append_trace (gd_traces st) r) (r_run_id r)) of
          Inr (v # vs) \<Rightarrow> True | _ \<Rightarrow> False)
     \<or> \<not> audit_valid (sv_prims (gv_services env)) (gv_resolve env (r_agent_pubkey_kid r)) r"

text \<open>
C32. Whatever the models of Evaluator, Supervisor and Auditor reply and whatever tools they call,
a record on which the trace analyzer reports a violation, or whose signature does not verify, is
published as BLOCK for a human to look at, when it is published at all.
\<close>

theorem no_reply_lifts_a_block:
  assumes "router_handle env r st = (Inr (h, ev), st')" and "hard_evidence env r st"
  shows "v_decision (ho_verdict h) = BLOCK \<and> ob_require_human (v_obligations (ho_verdict h)) = Some True"
proof -
  from assms(1) obtain v where v: "router_attempt env r st = (Inr v, st')" and h: "h = handoff_from_record r v"
    by (rule handle_Inr)
  from v have "v_decision v = BLOCK \<and> ob_require_human (v_obligations v) = Some True"
  proof (rule attempt_cases)
    fix er a st1 st2 st3 st4
    assume e: "router_evaluate env r st = (Inr er, st1)"
      and a: "router_audit env [r] (gv_resolve env (r_agent_pubkey_kid r)) st1 = (Inr a, st2)"
      and s: "router_supervise env (async_signals er a (r_phase r)) r st3 = (Inr v, st4)"
    obtain au where au: "a = fst (audit (sv_prims (gv_services env)) None au [r] (gv_resolve env (r_agent_pubkey_kid r)))"
      using a by (rule audit_Inr)
    from assms(2) have "ar_chain_broken a \<or> er_structuring_or_exfil er"
      by (auto simp: hard_evidence_def au audit_broken_iff split: sum.splits list.splits intro: evaluate_structuring[OF e])
    then show ?thesis by (intro supervise_override[OF s]) simp_all
  qed
  then show ?thesis by (simp add: h handoff_from_record_def)
qed

section \<open>What is recorded and handed over\<close>

text \<open>
C33. One run of the handler adds only rows of its own record, with counts, latencies and costs
that are not negative, and a model error among them exactly when the run ended with a model
failure, the one that is raised again; a run that ends otherwise adds none.
\<close>

theorem failed_guardian_is_recorded:
  assumes "router_handle env r st = (res, st')"
  shows "\<exists>new. gd_rows st' = gd_rows st @ new \<and> list_all (own_row r) new
    \<and> filter is_error_row new =
        (case res of Inl (ModelInvocation g m cls) \<Rightarrow> [error_row r g m cls] | _ \<Rightarrow> [])"
  by (rule handle_rows[OF assms])

text \<open>
C34. A verdict is handed over with the evidence behind it: every row is of its record, Auditor
and Supervisor are among them, the Evaluator too when its check runs, and the verdict carries
the record's identity and no signature yet.
\<close>

theorem handover_carries_the_evidence:
  assumes "router_handle env r st = (Inr (h, ev), st')"
  shows "list_all (\<lambda>row. ge_record_id row = r_record_id r) ev
    \<and> (\<exists>row \<in> set ev. ge_guardian row = AUDITOR) \<and> (\<exists>row \<in> set ev. ge_guardian row = SUPERVISOR)
    \<and> (vc_run_hallucination (ev_config (gv_evaluator env)) \<longrightarrow> (\<exists>row \<in> set ev. ge_guardian row = EVALUATOR))
    \<and> v_record_id (ho_verdict h) = Some (r_record_id r) \<and> v_signature_by_shield (ho_verdict h) = None"
proof -
  from assms obtain v where v: "router_attempt env r st = (Inr v, st')" and h: "h = handoff_from_record r v"
    and ev: "ev = rows_for_record (gd_rows st') (r_record_id r)"
    by (rule handle_Inr)
  let ?has = "\<lambda>st g. has_guardian (gd_rows st) (r_record_id r) g"
  from v have "?has st' AUDITOR \<and> ?has st' SUPERVISOR
      \<and> (vc_run_hallucination (ev_config (gv_evaluator env)) \<longrightarrow> ?has st' EVALUATOR)"
  proof (rule attempt_cases)
    fix er a st1 st2 st3 st4
    assume e: "router_evaluate env r st = (Inr er, st1)"
      and a: "router_audit env [r] (gv_resolve env (r_agent_pubkey_kid r)) st1 = (Inr a, st2)"
      and ra: "record_auditor_if_absent r a st2 = (Inr (), st3)"
      and s: "router_supervise env (async_signals er a (r_phase r)) r st3 = (Inr v, st4)"
      and rs: "record_supervisor_if_absent r v st4 = (Inr (), st')"
    note er = preservesD(2)[OF rows.preserves_evaluate e HOL.refl] and au = preservesD(2)[OF rows.preserves_audit a HOL.refl]
    have ok: "reasons_ok (er_reasons er)" "reasons_ok (ar_reasons a)"
      using er au by (auto simp: reasons_ok_def audit_labelled_def list_all_iff)
    have g: "guardian_label ''auditor.integrity''" by (simp add: guardian_label_def starts_with_def)
    note sv = preservesD(2)[OF rows.preserves_supervise s HOL.refl]
    have R12: "rows_grow r st1 st2" by (rule preservesD(1)[OF rows.preserves_audit a])
    have R23: "rows_grow r st2 st3"
      using ra unfolding record_auditor_if_absent_def
      by (rule preservesD(1)[OF rows.preserves_if_absent[OF rows.audit_labelled_labels[OF au g]]])
    have R34: "rows_grow r st3 st4" by (rule preserves_supervise_rows[OF s ok])
    have "?has st3 AUDITOR" using ra unfolding record_auditor_if_absent_def by (rule if_absent_has)
    moreover have "?has st' SUPERVISOR" using rs unfolding record_supervisor_if_absent_def by (rule if_absent_has)
    moreover have "?has st1 EVALUATOR" if "vc_run_hallucination (ev_config (gv_evaluator env))"
    proof -
      from e show ?thesis
      proof (rule evaluate_Inr)
        fix tr' hr
        assume tr': "tr' = (if runs_invariant (gv_evaluator env) r then eval_append_trace (gd_traces st) r else gd_traces st)"
          and f: "fst (evaluate ((gv_evaluator env)\<lparr>ev_hallucination := (\<lambda>_ _. Inr hr)\<rparr>) (gd_traces st) r) = Inr er"
          and c: "reaches_check (gv_evaluator env) tr' r \<Longrightarrow> ?has st1 EVALUATOR"
        have "reaches_check (gv_evaluator env) tr' r"
          using f that by (auto simp: reaches_check_def tr' evaluate_def Let_def runs_invariant_def rbind_Inr_iff is_ok_def split: if_splits sum.splits)
        then show ?thesis by (rule c)
      qed
    qed
    moreover have "\<And>g. ?has st4 g \<Longrightarrow> ?has st' g"
      using rs by (auto simp: record_supervisor_if_absent_def record_if_absent_def record_for_record_def split: if_splits)
    ultimately show ?thesis using R12 R23 R34 by (blast intro: rows_grow_has)
  qed
  moreover have "list_all (\<lambda>row. ge_record_id row = r_record_id r) (rows_for_record (gd_rows st') (r_record_id r))"
    by (simp add: rows_for_record_def list_all_iff)
  ultimately show ?thesis by (auto simp: ev h handoff_from_record_def has_guardian_iff)
qed

section \<open>What a review of the memory can find\<close>

definition reviewed_clean :: "guard_env \<Rightarrow> chroma_row \<Rightarrow> bool" where
  "reviewed_clean env row = (reflect_row (float_repr (sv_prims (gv_services env))) (cr_metadata row) = [])"

definition clean_memory :: "guard_env \<Rightarrow> memory_backend \<Rightarrow> bool" where
  "clean_memory env mem = (case mem of ChromaMemory ch \<Rightarrow> list_all (reviewed_clean env) (ch_upserts ch) | _ \<Rightarrow> True)"

lemma check_metadata_clean:
  assumes "incident_metadata p r (check_decision h) [hallucination_label h] = Inr meta"
  shows "reflect_row fr meta = []"
proof -
  from assms obtain bucket where m: "str_of fr meta ''decision'' = decision_value (check_decision h)"
      "str_of fr meta ''reasons'' = hallucination_label h"
    by (auto simp: incident_metadata_def Let_def rbind_Inr_iff str_of_def get_or_def)
  show ?thesis
    by (cases h) (simp_all add: reflect_row_def m check_decision_def hallucination_label_def SLIPPED_THROUGH_def
        matched_late_poison_def LATE_POISON_REASON_PREFIXES_def starts_with_def)
qed

lemma remember_clean:
  assumes "remember env r (check_decision h) [hallucination_label h] mem = Inr mem'" and "clean_memory env mem"
  shows "clean_memory env mem'"
proof (cases mem)
  case (ChromaMemory ch)
  with assms obtain ch' where c: "remember_record (gv_services env) ch r (check_decision h) [hallucination_label h] = Inr ch'"
    and m: "mem' = ChromaMemory ch'" by (auto simp: remember_def rbind_Inr_iff)
  from c obtain row where "ch_upserts ch' = ch_upserts ch @ [row]" "reviewed_clean env row"
    by (auto simp: remember_record_def rbind_Inr_iff reviewed_clean_def check_metadata_clean)
  with assms(2) ChromaMemory show ?thesis by (simp add: clean_memory_def m)
qed (use assms in \<open>auto simp: remember_def clean_memory_def rbind_Inr_iff\<close>)

definition clean_kept :: "guard_env \<Rightarrow> guard_state \<Rightarrow> guard_state \<Rightarrow> bool" where
  "clean_kept env st st' \<longleftrightarrow> (clean_memory env (gd_memory st) \<longrightarrow> clean_memory env (gd_memory st'))"

interpretation clean: guard_relation "clean_kept env" env r for env r
  by unfold_locales (auto simp: clean_kept_def intro: remember_clean)

lemma handle_keeps_clean: "clean_memory env (gd_memory st) \<Longrightarrow> clean_memory env (gd_memory (snd (router_handle env r st)))"
proof -
  assume c: "clean_memory env (gd_memory st)"
  obtain res st1 where a: "router_attempt env r st = (res, st1)" by (cases "router_attempt env r st")
  from preservesD(1)[OF clean.preserves_attempt a] c have "clean_memory env (gd_memory st1)" by (simp add: clean_kept_def)
  then show ?thesis
    by (auto simp: router_handle_def a record_guardian_error_def split: sum.splits guardian_error.splits)
qed

text \<open>The records of the channel, one after the other.\<close>

fun guard_run :: "guard_env \<Rightarrow> action_record list \<Rightarrow> guard_state \<Rightarrow> guard_state" where
  "guard_run env [] st = st"
| "guard_run env (r # rs) st = guard_run env rs (snd (router_handle env r st))"

lemma guard_run_clean: "clean_memory env (gd_memory st) \<Longrightarrow> clean_memory env (gd_memory (guard_run env rs st))"
  by (induction rs arbitrary: st) (simp_all add: handle_keeps_clean)

text \<open>
C35. The review of the incident memory never quarantines anything that the guardians stored: the
Evaluator's check remembers a hallucination as BLOCK and everything else as PASS without a poison
label, while the review looks for a PASS or ALERT with one.  Of the store it is assumed that it
lists only metadata that was stored.
\<close>

theorem review_finds_nothing:
  assumes "\<And>rows. set (sv_listing (gv_services env) rows) \<subseteq> cr_metadata ` set rows"
    and "gd_memory st = ChromaMemory ch" and "ch_upserts ch = []"
    and "gd_memory (guard_run env rs st) = ChromaMemory ch'"
  shows "snd (reflect_recent_memory (gv_services env) ch' window) = []"
proof -
  have "clean_memory env (ChromaMemory ch')"
    using guard_run_clean[of env st rs] assms(2-4) by (simp add: clean_memory_def)
  then have "reflect_row (float_repr (sv_prims (gv_services env))) row = []"
    if "row \<in> set (sv_listing (gv_services env) (ch_upserts ch'))" for row
    using that assms(1)[of "ch_upserts ch'"] by (auto simp: clean_memory_def list_all_iff reviewed_clean_def)
  then show ?thesis
    by (auto simp: reflect_recent_memory_def recent_records_def Let_def dest: in_set_dropD)
qed

end
