(* ===== verification/GuardianDemo.thy ===== *)
theory GuardianDemo
  imports GuardianSafety
begin

text \<open>
  Concrete guardians on which the properties of \<open>GuardianSafety\<close> are applied: the roles of a local
  profile, a model that calls a tool and answers, and one that fails.
\<close>

definition demo_role :: "string \<Rightarrow> resolved_model" where
  "demo_role role = \<lparr>rm_role = role, rm_provider = ''local'', rm_model = ''m'', rm_served_via = LOCAL,
     rm_base_url = None, rm_api_key_env = ''SHIELD_LLM_KEY'', rm_temperature = Fin 0, rm_max_tokens = None,
     rm_enabled = True\<rparr>"

definition demo_router :: model_router where
  "demo_router = \<lparr>mr_profile = ''local'', mr_roles = map (\<lambda>role. (role, demo_role role)) GUARDIAN_ROLES,
     mr_environ = [], mr_builders = [(''local'', build_local_reference)]\<rparr>"

definition demo_services :: services where
  "demo_services = \<lparr>sv_prims = demo_prims, sv_digest = (\<lambda>t. replicate 8 1),
     sv_query = (\<lambda>rows v n. Inr []), sv_listing = map cr_metadata, sv_clock = (\<lambda>n. Fin 0)\<rparr>"

definition demo_message :: "string \<Rightarrow> agent_message" where
  "demo_message reply = \<lparr>am_usage = None, am_content = TextContent reply, am_tool_calls = False\<rparr>"

definition replying_agent :: "nat \<Rightarrow> agent_request \<Rightarrow> string list \<Rightarrow> agent_run" where
  "replying_agent n rq ts =
     UseTool (hd ts) [] [] (\<lambda>_. Answer [demo_message (if aq_guardian rq = EVALUATOR then ''DECISION: GROUNDED'' else ''PASS'')])"

definition failing_agent :: "nat \<Rightarrow> agent_request \<Rightarrow> string list \<Rightarrow> agent_run" where
  "failing_agent n rq ts = Fails ''TimeoutError''"

definition demo_evaluator :: evaluator where
  "demo_evaluator = \<lparr>ev_config = default_evaluator_config, ev_analyze = (\<lambda>_. Inr []),
     ev_hallucination = null_hallucination, ev_drift = null_drift, ev_format = (\<lambda>_. ''0.000'')\<rparr>"

definition demo_guards :: "(nat \<Rightarrow> agent_request \<Rightarrow> string list \<Rightarrow> agent_run) \<Rightarrow> guard_env" where
  "demo_guards ag = \<lparr>gv_router = demo_router, gv_services = demo_services, gv_evaluator = demo_evaluator,
     gv_policy = default_supervisor_policy, gv_resolve = (\<lambda>_. None), gv_agent = ag,
     gv_complete = (\<lambda>_ _ _. Inr (RawText [])), gv_fresh = (\<lambda>n. ''v'')\<rparr>"

definition demo_chroma :: chroma where
  "demo_chroma = \<lparr>ch_collection = ''incidents'', ch_dimensions = 64, ch_upserts = []\<rparr>"

definition demo_state :: "memory_backend \<Rightarrow> guard_state" where
  "demo_state mem = guard_init (Some mem) None []"

section \<open>A run that succeeds\<close>

text \<open>\<open>succeeds Q m\<close>: from any state without a memory backend the step returns what \<open>Q\<close> admits.\<close>

definition succeeds :: "('a \<Rightarrow> bool) \<Rightarrow> 'a guarded \<Rightarrow> bool" where
  "succeeds Q m \<longleftrightarrow> (\<forall>st. gd_memory st = BareMemory \<longrightarrow>
     (\<exists>x st'. m st = (Inr x, st') \<and> gd_memory st' = BareMemory \<and> Q x))"

lemma succeeds_bind:
  assumes "succeeds P m" and "\<And>x. P x \<Longrightarrow> succeeds Q (k x)"
  shows "succeeds Q (g_bind m k)"
  unfolding succeeds_def
proof (intro allI impI)
  fix st :: guard_state
  assume "gd_memory st = BareMemory"
  with assms(1) obtain x st1 where 1: "m st = (Inr x, st1)" "gd_memory st1 = BareMemory" "P x"
    unfolding succeeds_def by blast
  with assms(2)[of x] obtain y st' where "k x st1 = (Inr y, st')" "gd_memory st' = BareMemory" "Q y"
    unfolding succeeds_def by blast
  with 1 show "\<exists>x st'. g_bind m k st = (Inr x, st') \<and> gd_memory st' = BareMemory \<and> Q x"
    by (simp add: g_bind_def)
qed

lemma succeeds_intros:
  "Q x \<Longrightarrow> succeeds Q (g_return x)"
  "v = Inr x \<Longrightarrow> Q x \<Longrightarrow> succeeds Q (g_lift v)"
  "succeeds (\<lambda>_. True) g_tick"
  "succeeds (\<lambda>_. True) (g_get f)"
  "succeeds (\<lambda>_. True) (g_record r i)"
  "succeeds (\<lambda>_. True) (g_modify (\<lambda>st. st\<lparr>gd_traces := tr\<rparr>))"
  "succeeds (\<lambda>_. True) (g_modify (\<lambda>st. st\<lparr>gd_measurement := ms\<rparr>))"
  "succeeds (\<lambda>_. True) (g_remember env r d ls)"
  "succeeds (\<lambda>_. True) (record_if_absent r g d ls)"
  by (auto simp: succeeds_def g_return_def g_lift_def g_tick_def g_get_def g_record_def g_modify_def g_remember_def
      remember_def record_if_absent_def)

lemma demo_roles: "for_role demo_router role = (if role \<in> set GUARDIAN_ROLES then Inr (demo_role role) else Inl KeyError)"
  by (simp add: for_role_def demo_router_def GUARDIAN_ROLES_def)

lemma demo_role_sel [simp]:
  "rm_enabled (demo_role role)" "rm_provider (demo_role role) = ''local''" "rm_role (demo_role role) = role"
  by (simp_all add: demo_role_def)

lemma demo_builder [simp]: "dget (mr_builders demo_router) ''local'' = Some build_local_reference"
  by (simp add: demo_router_def)

lemma demo_env_sel [simp]:
  "gv_router (demo_guards ag) = demo_router" "gv_services (demo_guards ag) = demo_services"
  "gv_evaluator (demo_guards ag) = demo_evaluator" "gv_policy (demo_guards ag) = default_supervisor_policy"
  "gv_resolve (demo_guards ag) kid = None" "gv_agent (demo_guards ag) = ag"
  by (simp_all add: demo_guards_def)

lemma demo_client: "role \<in> set GUARDIAN_ROLES \<Longrightarrow> succeeds (\<lambda>_. True) (g_client (demo_guards ag) role wrap)"
  by (auto simp: succeeds_def g_client_def model_factory_def demo_roles client_for_def
      build_local_reference_def api_key_for_def Let_def split: option.splits)

definition demo_answer :: "agent_message list \<times> tool_log \<Rightarrow> bool" where
  "demo_answer x \<longleftrightarrow> fst x \<in> {[demo_message ''DECISION: GROUNDED''], [demo_message ''PASS'']}"

lemma demo_run: "succeeds demo_answer (g_agent (demo_guards replying_agent) m rq tools)"
  by (auto simp: succeeds_def g_agent_def demo_guards_def replying_agent_def demo_answer_def Let_def split: prod.splits option.splits)

lemma demo_cost: "model_cost (demo_role role) p c = Inr (Fin 0)"
  by (simp add: model_cost_def demo_role_def cost_usd_def)

definition demo_reading :: "string \<times> int \<times> int \<Rightarrow> bool" where
  "demo_reading x \<longleftrightarrow> x \<in> {(''DECISION: GROUNDED'', 0, 0), (''PASS'', 0, 0)}"

lemma demo_texts:
  "read_messages ([], 0, 0) [demo_message ''DECISION: GROUNDED''] = Inr (''DECISION: GROUNDED'', 0, 0)"
  "read_messages ([], 0, 0) [demo_message ''PASS''] = Inr (''PASS'', 0, 0)"
  by code_simp+

lemma demo_read: "demo_answer x \<Longrightarrow> succeeds demo_reading (g_lift (read_messages ([], 0, 0) (fst x)))"
  by (auto simp: demo_answer_def demo_reading_def demo_texts simp del: read_messages.simps
      intro!: succeeds_intros(2)[OF HOL.refl])

lemma demo_role_lift:
  "role \<in> set GUARDIAN_ROLES \<Longrightarrow> succeeds (\<lambda>m. m = demo_role role) (g_lift (for_role demo_router role))"
  by (rule succeeds_intros(2)) (simp_all add: demo_roles)

lemma demo_cost_lift: "m = demo_role role \<Longrightarrow> succeeds (\<lambda>_. True) (g_lift (model_cost m p c))"
  by (rule succeeds_intros(2)) (simp_all add: demo_cost)

lemma demo_role_names:
  "''evaluator'' \<in> set GUARDIAN_ROLES" "''supervisor'' \<in> set GUARDIAN_ROLES" "''auditor'' \<in> set GUARDIAN_ROLES"
  by (simp_all add: GUARDIAN_ROLES_def)

lemma demo_parse: "\<not> fst (parse_evaluator_decision ''DECISION: GROUNDED'')" "\<not> fst (parse_evaluator_decision ''PASS'')"
  by code_simp+

lemma demo_not_hallucinated: "demo_reading x \<Longrightarrow> \<not> fst (parse_evaluator_decision (fst x))"
  by (auto simp: demo_reading_def demo_parse)

lemmas demo_steps = succeeds_intros(3) demo_client[OF demo_role_names(1)] demo_client[OF demo_role_names(2)]
  demo_client[OF demo_role_names(3)] demo_run succeeds_intros(4-9)

lemma demo_check: "succeeds (\<lambda>hr. hr = None) (router_check (demo_guards replying_agent) r trace)"
  unfolding router_check_def Let_def demo_env_sel case_prod_beta
  by (rule succeeds_bind[OF demo_role_lift[OF demo_role_names(1)]] succeeds_bind[OF demo_read]
      succeeds_bind[OF demo_cost_lift] demo_steps[THEN succeeds_bind] succeeds_intros(1) | assumption
      | simp add: demo_not_hallucinated)+

lemma demo_tool_loop: "succeeds (\<lambda>_. True) (record_tool_loop_evidence (demo_guards replying_agent) rs a)"
  unfolding record_tool_loop_evidence_def Let_def demo_env_sel case_prod_beta
  by (rule succeeds_bind[OF demo_role_lift[OF demo_role_names(3)]] succeeds_bind[OF demo_read]
      succeeds_bind[OF demo_cost_lift] demo_steps[THEN succeeds_bind] succeeds_intros(5) | assumption)+

lemma demo_evaluate: "succeeds (\<lambda>er. True) (router_evaluate (demo_guards replying_agent) r)"
proof -
  have d: "fst (evaluate (demo_evaluator\<lparr>ev_hallucination := \<lambda>_ _. Inr None\<rparr>) tr r) =
      Inr \<lparr>er_anomaly = Fin 0, er_reasons = [], er_structuring_or_exfil = False\<rparr>" for tr
    by (simp add: evaluate_def Let_def demo_evaluator_def eval_hallucination_def eval_drift_def
        default_evaluator_config_def max_or_zero_def)
  have c: "succeeds (\<lambda>hr. hr = None) (if b then router_check (demo_guards replying_agent) r trace else g_return None)" for b trace
    by (simp add: demo_check succeeds_intros(1))
  show ?thesis
    unfolding router_evaluate_def Let_def demo_env_sel
    by (rule succeeds_bind[OF succeeds_intros(4)], rule succeeds_bind[OF succeeds_intros(6)],
        rule succeeds_bind[OF c], rule succeeds_intros(2)) (simp_all add: d)
qed

lemma demo_audit: "succeeds ar_chain_broken (router_audit (demo_guards replying_agent) [r] None)"
proof -
  have a: "succeeds ar_chain_broken (g_audit (demo_guards replying_agent) [r] None)"
    using audit_without_key[of "[r]"] by (auto simp: succeeds_def g_audit_def split: prod.splits) (metis fst_conv)
  show ?thesis
    unfolding router_audit_def
    by (rule succeeds_bind[OF a]) (auto intro!: succeeds_bind[OF demo_tool_loop] succeeds_intros(1))
qed

lemma demo_supervise:
  assumes "gs_chain_broken s" and "\<not> defender_blocked s"
  shows "succeeds (\<lambda>_. True) (router_supervise (demo_guards replying_agent) s r)"
proof -
  obtain risk where risk: "aggregate_risk default_supervisor_policy s = Inr risk" using default_risk_total by blast
  have b: "decide_branch default_supervisor_policy conservative_arbiter s r risk =
     Inr \<lparr>br_decision = BLOCK, br_escalate = True, br_rollback = False, br_reason = None\<rparr>"
    using assms by (simp add: decide_branch_override(2))
  from supervisor_decide_total[OF risk b] have t: "\<exists>v. supervisor_decide default_supervisor_policy conservative_arbiter vid s r = Inr v" for vid
    by blast
  have n: "\<not> consults default_supervisor_policy s" using assms by (simp add: consults_def)
  have k: "succeeds (\<lambda>_. True)
      (g_bind (g_lift (supervisor_decide default_supervisor_policy conservative_arbiter vid s r)) (\<lambda>(v, _). g_return v))" for vid
  proof -
    obtain z where "supervisor_decide default_supervisor_policy conservative_arbiter vid s r = Inr z" using t by blast
    then show ?thesis
      unfolding case_prod_beta by (auto intro!: succeeds_bind[where P = "\<lambda>_. True"] succeeds_intros(1,2))
  qed
  show ?thesis
    unfolding router_supervise_def demo_env_sel by (rule succeeds_bind[OF succeeds_intros(3)]) (simp add: n k)
qed

lemma demo_succeeds:
  assumes "gd_memory st = BareMemory"
  obtains h ev st' where "router_handle (demo_guards replying_agent) r st = (Inr (h, ev), st')"
proof -
  have "succeeds (\<lambda>_. True) (router_attempt (demo_guards replying_agent) r)"
    unfolding router_attempt_def demo_env_sel record_auditor_if_absent_def record_supervisor_if_absent_def
    by (rule succeeds_bind[OF demo_evaluate], rule succeeds_bind[OF demo_audit], rule succeeds_bind[OF succeeds_intros(9)],
        rule succeeds_bind[OF demo_supervise], simp_all,
        rule succeeds_bind[OF succeeds_intros(9)], rule succeeds_intros(1), simp)
  with assms obtain v st' where "router_attempt (demo_guards replying_agent) r st = (Inr v, st')"
    unfolding succeeds_def by blast
  then show ?thesis using that by (simp add: router_handle_def)
qed

lemma demo_hard: "hard_evidence (demo_guards ag) r st"
  by (simp add: hard_evidence_def audit_valid_def)

lemma demo_state_memory [simp]: "gd_memory (demo_state mem) = mem"
  by (simp add: demo_state_def guard_init_def resolve_default_memory_def)

section \<open>The properties on the concrete guardians\<close>

theorem no_reply_lifts_a_block_witness:
  "\<exists>h ev st'. router_handle (demo_guards replying_agent) demo_record (demo_state BareMemory) = (Inr (h, ev), st')
     \<and> v_decision (ho_verdict h) = BLOCK"
proof -
  obtain h ev st' where "router_handle (demo_guards replying_agent) demo_record (demo_state BareMemory) = (Inr (h, ev), st')"
    by (rule demo_succeeds[OF demo_state_memory])
  with no_reply_lifts_a_block[OF this demo_hard] show ?thesis by blast
qed

theorem handover_carries_the_evidence_witness:
  "\<exists>h ev st'. router_handle (demo_guards replying_agent) demo_record (demo_state BareMemory) = (Inr (h, ev), st')
     \<and> (\<exists>row \<in> set ev. ge_guardian row = EVALUATOR)"
proof -
  obtain h ev st' where "router_handle (demo_guards replying_agent) demo_record (demo_state BareMemory) = (Inr (h, ev), st')"
    by (rule demo_succeeds[OF demo_state_memory])
  with handover_carries_the_evidence[OF this] show ?thesis
    by (auto simp: demo_evaluator_def default_evaluator_config_def)
qed

lemma demo_failure:
  "\<exists>st'. router_handle (demo_guards failing_agent) demo_record (demo_state BareMemory)
     = (Inl (ModelInvocation EVALUATOR ''m'' ''TimeoutError''), st')"
proof -
  have c: "\<exists>st'. router_check (demo_guards failing_agent) r trace st = (Inl (ModelInvocation EVALUATOR ''m'' ''TimeoutError''), st')"
    if "gd_memory st = BareMemory" for r trace st
  proof -
    let ?st = "st\<lparr>gd_clock := Suc (gd_clock st)\<rparr>"
    from that have "gd_memory ?st = BareMemory" by simp
    with demo_client[OF demo_role_names(1), of failing_agent "\<lambda>e. ModelInvocation EVALUATOR (rm_model (demo_role ''evaluator'')) (exc_name e)"]
    obtain x st1 where "g_client (demo_guards failing_agent) ''evaluator''
        (\<lambda>e. ModelInvocation EVALUATOR (rm_model (demo_role ''evaluator'')) (exc_name e)) ?st = (Inr x, st1)"
      unfolding succeeds_def by blast
    moreover have "for_role demo_router ''evaluator'' = Inr (demo_role ''evaluator'')"
      by (simp add: demo_roles demo_role_names)
    ultimately show ?thesis
      by (simp add: router_check_def g_bind_def g_tick_def g_lift_def g_return_def g_agent_def Let_def failing_agent_def
          demo_role_def)
  qed
  have e: "\<exists>st'. router_evaluate (demo_guards failing_agent) r st = (Inl (ModelInvocation EVALUATOR ''m'' ''TimeoutError''), st')"
    if "gd_memory st = BareMemory" for r st
  proof -
    define tr where "tr = (if runs_invariant demo_evaluator r then eval_append_trace (gd_traces st) r else gd_traces st)"
    have "reaches_check demo_evaluator tr r"
      by (simp add: reaches_check_def demo_evaluator_def default_evaluator_config_def)
    moreover obtain st' where "router_check (demo_guards failing_agent) r (trace_of tr (r_run_id r)) (st\<lparr>gd_traces := tr\<rparr>) =
        (Inl (ModelInvocation EVALUATOR ''m'' ''TimeoutError''), st')"
      using c[of "st\<lparr>gd_traces := tr\<rparr>" r "trace_of tr (r_run_id r)"] \<open>gd_memory st = BareMemory\<close> by auto
    ultimately show ?thesis
      by (simp add: router_evaluate_def g_bind_def g_get_def g_modify_def Let_def tr_def[symmetric])
  qed
  from e[OF demo_state_memory, of demo_record] show ?thesis
    by (auto simp: router_handle_def router_attempt_def g_bind_def)
qed

theorem failed_guardian_is_recorded_witness:
  "\<exists>(st'::guard_state) new. gd_rows st' = gd_rows (demo_state BareMemory) @ new
     \<and> filter is_error_row new = [error_row demo_record EVALUATOR ''m'' ''TimeoutError'']"
proof -
  obtain st' where f: "router_handle (demo_guards failing_agent) demo_record (demo_state BareMemory)
      = (Inl (ModelInvocation EVALUATOR ''m'' ''TimeoutError''), st')"
    using demo_failure by blast
  from failed_guardian_is_recorded[OF f] obtain new where "gd_rows st' = gd_rows (demo_state BareMemory) @ new"
    "filter is_error_row new = [error_row demo_record EVALUATOR ''m'' ''TimeoutError'']" by auto
  then show ?thesis by blast
qed

text \<open>The backend stays the backend it is.\<close>

definition is_chroma :: "guard_state \<Rightarrow> bool" where
  "is_chroma st = (case gd_memory st of ChromaMemory _ \<Rightarrow> True | _ \<Rightarrow> False)"

interpretation backend: guard_relation "\<lambda>st st'. is_chroma st \<longrightarrow> is_chroma st'" env r for env r
  by unfold_locales (auto simp: is_chroma_def remember_def split: memory_backend.splits)

lemma handle_is_chroma: "is_chroma st \<Longrightarrow> is_chroma (snd (router_handle env r st))"
proof -
  assume c: "is_chroma st"
  obtain res st1 where a: "router_attempt env r st = (res, st1)" by (cases "router_attempt env r st")
  from preservesD(1)[OF backend.preserves_attempt a] c have "is_chroma st1" by simp
  then show ?thesis
    by (auto simp: router_handle_def a record_guardian_error_def is_chroma_def split: sum.splits guardian_error.splits)
qed

theorem review_finds_nothing_witness:
  "\<exists>ch'. gd_memory (guard_run (demo_guards replying_agent) [demo_record] (demo_state (ChromaMemory demo_chroma))) = ChromaMemory ch'
     \<and> snd (reflect_recent_memory demo_services ch' 50) = []"
proof -
  have "is_chroma (guard_run (demo_guards replying_agent) [demo_record] (demo_state (ChromaMemory demo_chroma)))"
    by (simp add: handle_is_chroma is_chroma_def[of "demo_state _"])
  then obtain ch' where c: "gd_memory (guard_run (demo_guards replying_agent) [demo_record] (demo_state (ChromaMemory demo_chroma))) = ChromaMemory ch'"
    unfolding is_chroma_def by (auto split: memory_backend.splits)
  have "snd (reflect_recent_memory (gv_services (demo_guards replying_agent)) ch' 50) = []"
    by (rule review_finds_nothing[OF _ demo_state_memory _ c]) (simp_all add: demo_services_def demo_chroma_def)
  with c show ?thesis by auto
qed

end
