(* ===== verification/EvalBudget.thy ===== *)
theory EvalBudget
  imports RouterGuardians Elements
begin

text \<open>
  \<open>packages/shield-eval/src/shield_eval/provider_slice.py\<close> and the cost estimate of
  \<open>metrics.py\<close>: which model serves each guardian of a profile, where a key is looked up, what a run
  is estimated to cost and whether the budget lets it go ahead.  Costs are floats and rounded as
  Python rounds them; \<open>files\<close> are the \<open>.env\<close> files of the working directory and its
  parents, nearest first.
\<close>

section \<open>Arithmetic of the estimate\<close>

text \<open>\<open>a / b\<close> of integers, correctly rounded.\<close>

definition py_truediv :: "int \<Rightarrow> int \<Rightarrow> py_exc + pyfloat" where
  "py_truediv a b =
     (if b = 0 then Inl ZeroDivisionError
      else case rnd64 (of_int a / of_int b) of Fin x \<Rightarrow> Inr (Fin x) | _ \<Rightarrow> Inl OverflowError)"

definition mul_int :: "int \<Rightarrow> pyfloat \<Rightarrow> py_exc + pyfloat" where
  "mul_int n x = (case float_of_int n of None \<Rightarrow> Inl OverflowError | Some y \<Rightarrow> Inr (fmul y x))"

definition div_int :: "pyfloat \<Rightarrow> int \<Rightarrow> py_exc + pyfloat" where
  "div_int x n =
     (case float_of_int n of
        None \<Rightarrow> Inl OverflowError
      | Some y \<Rightarrow> (case fdiv x y of None \<Rightarrow> Inl ZeroDivisionError | Some z \<Rightarrow> Inr z))"

definition py_fmod :: "pyfloat \<Rightarrow> pyfloat \<Rightarrow> pyfloat" where
  "py_fmod a b =
     (case (a, b) of
        (Fin x, Fin y) \<Rightarrow> if y = 0 then NaN else Fin (x - y * of_int (trunc_rat (x / y)))
      | (Fin x, PInf) \<Rightarrow> Fin x
      | (Fin x, NInf) \<Rightarrow> Fin x
      | _ \<Rightarrow> NaN)"

definition ffloor :: "pyfloat \<Rightarrow> pyfloat" where
  "ffloor a = (case a of Fin x \<Rightarrow> Fin (of_int \<lfloor>x\<rfloor>) | _ \<Rightarrow> a)"

text \<open>\<open>a // b\<close> of floats: the quotient of the exact remainder, snapped to the nearest integer.\<close>

definition py_floordiv :: "pyfloat \<Rightarrow> pyfloat \<Rightarrow> py_exc + pyfloat" where
  "py_floordiv a b =
     (let m = py_fmod a b in
      case fdiv (fsub a m) b of
        None \<Rightarrow> Inl ZeroDivisionError
      | Some d \<Rightarrow>
        (let d' = (if m \<noteq> Fin 0 \<and> flt b (Fin 0) \<noteq> flt m (Fin 0) then fsub d (Fin 1) else d);
             f = ffloor d' in
         Inr (if d' = Fin 0 then Fin 0 else if flt (Fin (1 / 2)) (fsub d' f) then fadd f (Fin 1) else f)))"

text \<open>\<open>round(x)\<close> and \<open>round(x, 6)\<close>: half to even, of the exact value.\<close>

definition py_round :: "pyfloat \<Rightarrow> py_exc + int" where
  "py_round a = (case a of Fin x \<Rightarrow> Inr (round_half_even x) | NaN \<Rightarrow> Inl ValueError | _ \<Rightarrow> Inl OverflowError)"

definition round6 :: "pyfloat \<Rightarrow> pyfloat" where
  "round6 a = (case a of Fin x \<Rightarrow> rnd64 (of_int (round_half_even (x * 10 ^ 6)) / 10 ^ 6) | _ \<Rightarrow> a)"

section \<open>Profiles\<close>

definition HAIKU_PROVIDER_SLICE_PROFILE :: string where
  "HAIKU_PROVIDER_SLICE_PROFILE = ''provider-slice-haiku''"
definition HAIKU_PROVIDER_SLICE_MODEL :: string where
  "HAIKU_PROVIDER_SLICE_MODEL = ''claude-haiku-4-5-20251001''"
definition PROVIDER_SLICE_APPROVAL_THRESHOLD_USD :: pyfloat where
  "PROVIDER_SLICE_APPROVAL_THRESHOLD_USD = Fin 3"
definition CLOUD_PROVIDER_PROFILE :: string where "CLOUD_PROVIDER_PROFILE = ''cloud''"

record guardian_model =
  gm_guardian :: string
  gm_provider :: string
  gm_model_id :: string
  gm_served_via :: string

definition model_row :: "string \<Rightarrow> string \<Rightarrow> string \<Rightarrow> string \<Rightarrow> guardian_model" where
  "model_row g p m v = \<lparr>gm_guardian = g, gm_provider = p, gm_model_id = m, gm_served_via = v\<rparr>"

lemma model_row_sel [simp]:
  "gm_guardian (model_row g p m v) = g" "gm_provider (model_row g p m v) = p"
  "gm_model_id (model_row g p m v) = m" "gm_served_via (model_row g p m v) = v"
  by (simp_all add: model_row_def)

definition guardian_model_rows :: "string \<Rightarrow> guardian_model list" where
  "guardian_model_rows profile =
     (if profile = HAIKU_PROVIDER_SLICE_PROFILE then
        [model_row ''defender'' ''local'' ''local-deterministic'' ''local'',
         model_row ''evaluator'' ''anthropic'' HAIKU_PROVIDER_SLICE_MODEL ''cloud'',
         model_row ''supervisor'' ''anthropic'' HAIKU_PROVIDER_SLICE_MODEL ''cloud'',
         model_row ''auditor'' ''anthropic'' HAIKU_PROVIDER_SLICE_MODEL ''cloud'']
      else if profile = CLOUD_PROVIDER_PROFILE then
        [model_row ''defender'' ''local'' ''local-deterministic'' ''local'',
         model_row ''evaluator'' ''anthropic'' ''claude-sonnet-4-6'' ''cloud'',
         model_row ''supervisor'' ''anthropic'' ''claude-opus-4-7'' ''cloud'',
         model_row ''auditor'' ''anthropic'' ''claude-haiku-4-5-20251001'' ''cloud'']
      else
        [model_row ''defender'' ''local'' ''local-deterministic'' ''local'',
         model_row ''evaluator'' ''model_router'' ''from-model-router'' ''cloud'',
         model_row ''supervisor'' ''model_router'' ''from-model-router'' ''cloud'',
         model_row ''auditor'' ''model_router'' ''from-model-router'' ''cloud''])"

definition model_row_json :: "guardian_model \<Rightarrow> json" where
  "model_row_json row =
     JObj [(''guardian'', JStr (gm_guardian row)), (''provider'', JStr (gm_provider row)),
           (''model_id'', JStr (gm_model_id row)), (''served_via'', JStr (gm_served_via row))]"

definition build_haiku_provider_slice_profile :: "string \<Rightarrow> jobj" where
  "build_haiku_provider_slice_profile worker_model =
     [(''model_router_profile'', JStr HAIKU_PROVIDER_SLICE_PROFILE), (''worker_model'', JStr worker_model),
      (''guardian_models'', JArr (map model_row_json (guardian_model_rows HAIKU_PROVIDER_SLICE_PROFILE)))]"

definition default_guardian_evidence_rows :: "string \<Rightarrow> jobj list" where
  "default_guardian_evidence_rows profile =
     map (\<lambda>row. [(''guardian'', JStr (gm_guardian row)), (''decision'', JStr ''PASS''),
                 (''model_id'', JStr (gm_model_id row)), (''served_via'', JStr (gm_served_via row)),
                 (''prompt_tokens'', JInt 0), (''completion_tokens'', JInt 0),
                 (''latency_ms'', JFloat (Fin 0)), (''cost_usd'', JFloat (Fin 0)), (''reasons'', JArr [])])
       (guardian_model_rows profile)"

section \<open>The key\<close>

definition strip_char :: "char \<Rightarrow> string \<Rightarrow> string" where
  "strip_char c s = strip_by (\<lambda>x. x = c) s"

text \<open>One line of a \<open>.env\<close> file: the value it gives the key, if it is about the key.\<close>

definition dotenv_line :: "string \<Rightarrow> string \<Rightarrow> string option" where
  "dotenv_line key raw =
     (let line = strip_by is_space raw in
      if line = [] \<or> hd line = CHR ''#'' then None
      else
        (let body = (if starts_with line ''export '' then strip_by is_space (drop 7 line) else line);
             name = takeWhile (\<lambda>c. c \<noteq> CHR ''='') body; rest = dropWhile (\<lambda>c. c \<noteq> CHR ''='') body in
         if rest \<noteq> [] \<and> strip_by is_space name = key
         then Some (strip_char (char_of (39::nat)) (strip_char (char_of (34::nat)) (strip_by is_space (tl rest))))
         else None))"

fun dotenv_lines :: "string \<Rightarrow> string list \<Rightarrow> string option" where
  "dotenv_lines key [] = None"
| "dotenv_lines key (l # ls) = (case dotenv_line key l of None \<Rightarrow> dotenv_lines key ls | Some v \<Rightarrow> Some v)"

fun dotenv_value :: "string \<Rightarrow> string option list \<Rightarrow> string option" where
  "dotenv_value key [] = None"
| "dotenv_value key (None # files) = dotenv_value key files"
| "dotenv_value key (Some text # files) =
     (case dotenv_lines key (split_lines [] text) of
        None \<Rightarrow> dotenv_value key files
      | Some v \<Rightarrow> (if v = [] then None else Some v))"

definition env_or_dotenv :: "string \<Rightarrow> (string, string) dict \<Rightarrow> string option list \<Rightarrow> string option" where
  "env_or_dotenv key environ files =
     (case dget environ key of
        None \<Rightarrow> dotenv_value key files
      | Some v \<Rightarrow> if v = [] then dotenv_value key files else Some v)"

definition env_key_available :: "string \<Rightarrow> (string, string) dict \<Rightarrow> string option list \<Rightarrow> bool" where
  "env_key_available key environ files \<longleftrightarrow>
     (case env_or_dotenv key environ files of None \<Rightarrow> False | Some v \<Rightarrow> v \<noteq> [])"

text \<open>An empty value in the environment is kept: only an absent key is set from the file.\<close>

definition ensure_env_key_loaded ::
  "string \<Rightarrow> string option list \<Rightarrow> (string, string) dict \<Rightarrow> string option \<times> (string, string) dict" where
  "ensure_env_key_loaded key files environ =
     (let value = env_or_dotenv key environ files in
      (value,
       case value of
         None \<Rightarrow> environ
       | Some v \<Rightarrow> if v \<noteq> [] \<and> dget environ key = None then dset key v environ else environ))"

section \<open>Prices\<close>

definition REAL_EVAL_MODEL :: string where "REAL_EVAL_MODEL = ''claude-haiku-4-5-20251001''"
definition ANTHROPIC_ENV_KEY :: string where "ANTHROPIC_ENV_KEY = ''ANTHROPIC_API_KEY''"
definition DEFAULT_HARD_CAP_USD :: pyfloat where "DEFAULT_HARD_CAP_USD = Fin 5"
definition DEFAULT_PLANNING_THRESHOLD_USD :: pyfloat where "DEFAULT_PLANNING_THRESHOLD_USD = Fin 3"
definition DEFAULT_MAX_OUTPUT_TOKENS :: int where "DEFAULT_MAX_OUTPUT_TOKENS = 2000"
definition DEFAULT_GUARDIAN_MAX_OUTPUT_TOKENS :: int where "DEFAULT_GUARDIAN_MAX_OUTPUT_TOKENS = 800"

record tool_loop_assumption =
  tl_model_invocations :: int
  tl_tool_calls :: int
  tl_chroma_queries :: int
  tl_bound :: int

definition loop_assumption :: "int \<Rightarrow> int \<Rightarrow> int \<Rightarrow> int \<Rightarrow> tool_loop_assumption" where
  "loop_assumption m t c b =
     \<lparr>tl_model_invocations = m, tl_tool_calls = t, tl_chroma_queries = c, tl_bound = b\<rparr>"

definition DEFAULT_GUARDIAN_TOOL_LOOP_ASSUMPTIONS :: "(string, tool_loop_assumption) dict" where
  "DEFAULT_GUARDIAN_TOOL_LOOP_ASSUMPTIONS =
     [(''defender'', loop_assumption 0 0 0 0), (''evaluator'', loop_assumption 3 2 1 3),
      (''supervisor'', loop_assumption 6 2 1 6), (''auditor'', loop_assumption 6 3 1 6)]"

record model_price =
  mp_input :: pyfloat
  mp_output :: pyfloat
  mp_basis :: string

definition price_row :: "string \<Rightarrow> rat \<Rightarrow> rat \<Rightarrow> string \<Rightarrow> string \<times> model_price" where
  "price_row m i u b = (m, \<lparr>mp_input = Fin i, mp_output = Fin u, mp_basis = b\<rparr>)"

definition ANTHROPIC_PRICE_TABLE_USD_PER_MTOK :: "(string, model_price) dict" where
  "ANTHROPIC_PRICE_TABLE_USD_PER_MTOK =
     [price_row ''claude-haiku-4-5-20251001'' 1 5 ''Claude Haiku 4.5'',
      price_row ''claude-haiku-4-5'' 1 5 ''Claude Haiku 4.5'',
      price_row ''claude-sonnet-4'' 3 15 ''Claude Sonnet 4'',
      price_row ''claude-sonnet-4-20250514'' 3 15 ''Claude Sonnet 4'',
      price_row ''claude-sonnet-4-5'' 3 15 ''Claude Sonnet 4.5'',
      price_row ''claude-sonnet-4-5-20250929'' 3 15 ''Claude Sonnet 4.5'',
      price_row ''claude-sonnet-4-6'' 3 15 ''Claude Sonnet 4.6'',
      price_row ''claude-opus-4'' 15 75 ''Claude Opus 4'',
      price_row ''claude-opus-4-20250514'' 15 75 ''Claude Opus 4'',
      price_row ''claude-opus-4-1'' 15 75 ''Claude Opus 4.1'',
      price_row ''claude-opus-4-1-20250805'' 15 75 ''Claude Opus 4.1'',
      price_row ''claude-opus-4-7'' 5 25 ''Claude Opus 4.7'']"

definition model_price_of :: "string \<Rightarrow> py_exc + model_price" where
  "model_price_of m =
     (case dget ANTHROPIC_PRICE_TABLE_USD_PER_MTOK m of None \<Rightarrow> Inl ValueError | Some p \<Rightarrow> Inr p)"

definition estimate_model_cost :: "string \<Rightarrow> int \<Rightarrow> int \<Rightarrow> py_exc + pyfloat \<times> model_price" where
  "estimate_model_cost m input_tokens output_tokens =
     rbind (model_price_of m) (\<lambda>price.
     rbind (py_truediv input_tokens 1000000) (\<lambda>i.
     rbind (py_truediv output_tokens 1000000) (\<lambda>u.
       Inr (fadd (fmul i (mp_input price)) (fmul u (mp_output price)), price))))"

definition token_estimate :: "int \<Rightarrow> py_exc + int" where
  "token_estimate chars =
     rbind (py_truediv chars 3) (\<lambda>x. case x of Fin q \<Rightarrow> Inr (max 0 \<lceil>q\<rceil>) | _ \<Rightarrow> Inl OverflowError)"

definition model_backed_guardian_units :: "string list \<Rightarrow> int \<Rightarrow> int \<Rightarrow> int \<Rightarrow> int" where
  "model_backed_guardian_units arms users injections samples =
     (if \<not> list_ex (\<lambda>arm. arm \<in> {''A1'', ''A2'', ''A3''}) arms then 0 else users * injections * samples)"

definition guardian_tool_loop_assumption :: "string \<Rightarrow> tool_loop_assumption" where
  "guardian_tool_loop_assumption g =
     (case dget DEFAULT_GUARDIAN_TOOL_LOOP_ASSUMPTIONS g of None \<Rightarrow> loop_assumption 1 0 0 1 | Some a \<Rightarrow> a)"

section \<open>The estimate of the guardians\<close>

record guardian_estimate =
  es_model :: guardian_model
  es_records :: int
  es_model_invocations :: int
  es_estimated_invocations :: int
  es_tool_calls :: int
  es_chroma_queries :: int
  es_tool_loop_bound :: int
  es_input_tokens :: int
  es_output_tokens :: int
  es_input_price :: pyfloat
  es_output_price :: pyfloat
  es_basis :: string
  es_cost_usd :: pyfloat

definition guardian_estimate_of :: "int \<Rightarrow> int \<Rightarrow> int \<Rightarrow> guardian_model \<Rightarrow> py_exc + guardian_estimate" where
  "guardian_estimate_of records input_per output_per row =
     (let a = guardian_tool_loop_assumption (gm_guardian row) in
      if gm_served_via row = ''local'' \<or> gm_provider row = ''local'' then
        Inr \<lparr>es_model = row, es_records = 0, es_model_invocations = 0, es_estimated_invocations = 0,
             es_tool_calls = tl_tool_calls a, es_chroma_queries = tl_chroma_queries a,
             es_tool_loop_bound = tl_bound a, es_input_tokens = 0, es_output_tokens = 0,
             es_input_price = Fin 0, es_output_price = Fin 0,
             es_basis = ''local deterministic; no Anthropic token cost'', es_cost_usd = Fin 0\<rparr>
      else
        (let n = tl_model_invocations a * records; i = input_per * n; u = output_per * n in
         rbind (estimate_model_cost (gm_model_id row) i u) (\<lambda>(cost, price).
           Inr \<lparr>es_model = row, es_records = records, es_model_invocations = tl_model_invocations a,
                es_estimated_invocations = n, es_tool_calls = tl_tool_calls a,
                es_chroma_queries = tl_chroma_queries a, es_tool_loop_bound = tl_bound a,
                es_input_tokens = i, es_output_tokens = u, es_input_price = mp_input price,
                es_output_price = mp_output price, es_basis = mp_basis price, es_cost_usd = round6 cost\<rparr>)))"

fun rmap :: "('a \<Rightarrow> 'e + 'b) \<Rightarrow> 'a list \<Rightarrow> 'e + 'b list" where
  "rmap f [] = Inr []"
| "rmap f (x # xs) = rbind (f x) (\<lambda>y. rbind (rmap f xs) (\<lambda>ys. Inr (y # ys)))"

definition guardian_cost_estimates :: "string \<Rightarrow> int \<Rightarrow> int \<Rightarrow> int \<Rightarrow> py_exc + guardian_estimate list" where
  "guardian_cost_estimates profile records input_per output_per =
     rmap (guardian_estimate_of records input_per output_per) (guardian_model_rows profile)"

definition estimate_json :: "guardian_estimate \<Rightarrow> json" where
  "estimate_json e =
     JObj [(''guardian'', JStr (gm_guardian (es_model e))), (''provider'', JStr (gm_provider (es_model e))),
       (''model_id'', JStr (gm_model_id (es_model e))), (''served_via'', JStr (gm_served_via (es_model e))),
       (''model_backed_records_per_guardian'', JInt (es_records e)),
       (''model_invocations_per_record'', JInt (es_model_invocations e)),
       (''estimated_model_invocations'', JInt (es_estimated_invocations e)),
       (''tool_calls_per_record'', JInt (es_tool_calls e)),
       (''chroma_queries_per_record'', JInt (es_chroma_queries e)),
       (''tool_loop_bound'', JInt (es_tool_loop_bound e)),
       (''input_tokens'', JInt (es_input_tokens e)), (''output_tokens'', JInt (es_output_tokens e)),
       (''input_usd_per_mtok'', JFloat (es_input_price e)), (''output_usd_per_mtok'', JFloat (es_output_price e)),
       (''pricing_basis'', JStr (es_basis e)), (''cost_usd'', JFloat (es_cost_usd e))]"

section \<open>The plan of a run\<close>

record budget_request =
  br_arms :: "string list"
  br_user_tasks :: "string list"
  br_injection_tasks :: "string list"
  br_samples :: int
  br_prompt_chars :: int
  br_model :: string
  br_profile :: string
  br_max_output_tokens :: int
  br_hard_cap :: pyfloat
  br_planning_threshold :: pyfloat
  br_allow_shrink :: bool

definition budget_request_of :: "string list \<Rightarrow> string list \<Rightarrow> string list \<Rightarrow> int \<Rightarrow> int \<Rightarrow> budget_request" where
  "budget_request_of arms users injections samples chars =
     \<lparr>br_arms = arms, br_user_tasks = users, br_injection_tasks = injections, br_samples = samples,
      br_prompt_chars = chars, br_model = REAL_EVAL_MODEL, br_profile = ''cloud'',
      br_max_output_tokens = DEFAULT_MAX_OUTPUT_TOKENS, br_hard_cap = DEFAULT_HARD_CAP_USD,
      br_planning_threshold = DEFAULT_PLANNING_THRESHOLD_USD, br_allow_shrink = True\<rparr>"

text \<open>The requested run: its units, tokens and cost.\<close>

record requested_plan =
  rq_units :: int
  rq_input_per_unit :: int
  rq_guardian_output_per :: int
  rq_worker_input :: int
  rq_worker_output :: int
  rq_worker_cost :: pyfloat
  rq_worker_price :: model_price
  rq_guardian_records :: int
  rq_guardians :: "guardian_estimate list"
  rq_guardian_input :: int
  rq_guardian_output :: int
  rq_input :: int
  rq_output :: int
  rq_cost :: pyfloat

definition at_least_one :: "'a list \<Rightarrow> int" where
  "at_least_one xs = max 1 (int (length xs))"

definition requested_units :: "budget_request \<Rightarrow> int" where
  "requested_units b = at_least_one (br_arms b) * at_least_one (br_user_tasks b)
     * at_least_one (br_injection_tasks b) * max 1 (br_samples b)"

definition requested_plan_of :: "budget_request \<Rightarrow> py_exc + requested_plan" where
  "requested_plan_of b =
     rbind (token_estimate (br_prompt_chars b)) (\<lambda>input_per.
     let units = requested_units b;
         wi = input_per * units; wu = max 0 (br_max_output_tokens b) * units;
         records = model_backed_guardian_units (br_arms b) (at_least_one (br_user_tasks b))
                     (at_least_one (br_injection_tasks b)) (max 1 (br_samples b));
         out_per = min (max 0 (br_max_output_tokens b)) DEFAULT_GUARDIAN_MAX_OUTPUT_TOKENS in
     rbind (estimate_model_cost (br_model b) wi wu) (\<lambda>(wcost, wprice).
     rbind (guardian_cost_estimates (br_profile b) records input_per out_per) (\<lambda>gs.
       let gi = sum_list (map es_input_tokens gs); gu = sum_list (map es_output_tokens gs) in
       Inr \<lparr>rq_units = units, rq_input_per_unit = input_per, rq_guardian_output_per = out_per,
            rq_worker_input = wi, rq_worker_output = wu, rq_worker_cost = wcost, rq_worker_price = wprice,
            rq_guardian_records = records, rq_guardians = gs, rq_guardian_input = gi, rq_guardian_output = gu,
            rq_input = wi + gi, rq_output = wu + gu,
            rq_cost = fadd wcost (py_sum (map es_cost_usd gs))\<rparr>)))"

record budget_plan =
  bp_units :: int
  bp_input :: int
  bp_output :: int
  bp_cost :: pyfloat
  bp_shrunk :: bool
  bp_skip :: "string option"

text \<open>The status is SKIPPED exactly when there is a reason to skip.\<close>

definition plan_status :: "budget_plan \<Rightarrow> string" where
  "plan_status p = (if bp_skip p = None then ''ESTIMATED'' else ''SKIPPED'')"

definition skipped_plan :: "string \<Rightarrow> bool \<Rightarrow> pyfloat \<Rightarrow> budget_plan" where
  "skipped_plan reason shrunk cost =
     \<lparr>bp_units = 0, bp_input = 0, bp_output = 0, bp_cost = cost, bp_shrunk = shrunk, bp_skip = Some reason\<rparr>"

definition shrunk_units :: "budget_request \<Rightarrow> requested_plan \<Rightarrow> py_exc + int" where
  "shrunk_units b r =
     rbind (if 0 < rq_units r then div_int (rq_cost r) (rq_units r) else Inr (Fin 0)) (\<lambda>per_unit.
       if flt (Fin 0) per_unit
       then rbind (py_floordiv (br_planning_threshold b) per_unit) (\<lambda>x. py_int (JFloat x))
       else Inr 0)"

definition shrink_plan :: "budget_request \<Rightarrow> requested_plan \<Rightarrow> py_exc + budget_plan" where
  "shrink_plan b r =
     rbind (shrunk_units b r) (\<lambda>n.
     let units = min (rq_units r) n; shrunk = (units < rq_units r) in
     rbind (if 0 < rq_units r then py_truediv units (rq_units r) else Inr (Fin 0)) (\<lambda>scale.
     rbind (rbind (mul_int (rq_input r) scale) py_round) (\<lambda>i.
     rbind (rbind (mul_int (rq_output r) scale) py_round) (\<lambda>u.
       let cost = fmul (rq_cost r) scale in
       if units \<le> 0 \<or> flt (br_hard_cap b) cost
       then Inr (skipped_plan ''REAL_EVAL_SKIPPED_BUDGET_GUARD'' shrunk (Fin 0))
       else Inr \<lparr>bp_units = units, bp_input = i, bp_output = u, bp_cost = cost, bp_shrunk = shrunk, bp_skip = None\<rparr>))))"

definition effective_plan :: "budget_request \<Rightarrow> requested_plan \<Rightarrow> bool \<Rightarrow> py_exc + budget_plan" where
  "effective_plan b r key_present =
     rbind (if flt (br_planning_threshold b) (rq_cost r) then
              (if br_allow_shrink b then shrink_plan b r
               else Inr (skipped_plan ''REAL_EVAL_SKIPPED_APPROVAL_THRESHOLD'' False (rq_cost r)))
            else Inr \<lparr>bp_units = rq_units r, bp_input = rq_input r, bp_output = rq_output r,
                      bp_cost = rq_cost r, bp_shrunk = False, bp_skip = None\<rparr>)
       (\<lambda>p. Inr (if key_present then p else p\<lparr>bp_skip := Some ''MISSING_ANTHROPIC_API_KEY''\<rparr>))"

section \<open>The artifacts\<close>

definition COST_FORMULA :: string where
  "COST_FORMULA = ''sum((input_tokens / 1_000_000 * model.input_usd_per_mtok) + ''
     @ ''(output_tokens / 1_000_000 * model.output_usd_per_mtok))''"

definition MODEL_PRICE_SOURCE :: string where
  "MODEL_PRICE_SOURCE = ''Anthropic Claude API pricing, model pricing table, accessed 2026-05-24: ''
     @ ''https://platform.claude.com/docs/en/about-claude/pricing''"

definition ARM_LABELS :: jobj where
  "ARM_LABELS =
     [(''A0'', JStr (''A0 '' @ em_dash @ '' no defense baseline'')),
      (''A0b'', JStr (''A0b '' @ em_dash @ '' AgentDojo built-in defense baselines'')),
      (''A1'', JStr (''A1 '' @ em_dash @ '' Agent Shield installed, free no-op PASS gate'')),
      (''A2'', JStr (''A2 '' @ em_dash @ '' Agent Shield Paid, governed /decide verdict'')),
      (''A3'', JStr (''A3 '' @ em_dash @ '' Agent Shield deterministic-only ablation''))]"

definition assumptions_by_guardian :: "(tool_loop_assumption \<Rightarrow> int) \<Rightarrow> json" where
  "assumptions_by_guardian f =
     JObj (map (\<lambda>(g, a). (g, JInt (f a)))
       (filter (\<lambda>(g, a). g \<noteq> ''defender'') DEFAULT_GUARDIAN_TOOL_LOOP_ASSUMPTIONS))"

definition opt_str :: "string option \<Rightarrow> json" where
  "opt_str v = opt_json JStr v"

definition prices_json :: "budget_request \<Rightarrow> requested_plan \<Rightarrow> json" where
  "prices_json b r =
     JObj [(''worker'', JObj [(''model_id'', JStr (br_model b)),
              (''input_usd_per_mtok'', JFloat (mp_input (rq_worker_price r))),
              (''output_usd_per_mtok'', JFloat (mp_output (rq_worker_price r))),
              (''pricing_basis'', JStr (mp_basis (rq_worker_price r)))]),
           (''source'', JStr MODEL_PRICE_SOURCE)]"

definition worker_estimate_json :: "budget_request \<Rightarrow> requested_plan \<Rightarrow> json" where
  "worker_estimate_json b r =
     JObj [(''model_id'', JStr (br_model b)), (''input_tokens'', JInt (rq_worker_input r)),
           (''output_tokens'', JInt (rq_worker_output r)),
           (''input_usd_per_mtok'', JFloat (mp_input (rq_worker_price r))),
           (''output_usd_per_mtok'', JFloat (mp_output (rq_worker_price r))),
           (''pricing_basis'', JStr (mp_basis (rq_worker_price r))),
           (''cost_usd'', JFloat (round6 (rq_worker_cost r)))]"

definition assumption_json :: "requested_plan \<Rightarrow> json" where
  "assumption_json r =
     JObj [(''model_backed_records_per_guardian'', JInt (rq_guardian_records r)),
           (''input_tokens_per_model_invocation'', JInt (rq_input_per_unit r)),
           (''max_output_tokens_per_model_invocation'', JInt (rq_guardian_output_per r)),
           (''tool_loop_model_invocations'', assumptions_by_guardian tl_model_invocations),
           (''tool_calls_per_record'', assumptions_by_guardian tl_tool_calls),
           (''chroma_queries_per_record'', assumptions_by_guardian tl_chroma_queries),
           (''chroma_backend'', JStr ''local persistent Chroma; no provider token cost''),
           (''basis'', JStr (''post-M6/M7 conservative estimate: each model-backed guardian ''
              @ ''uses bounded create_agent loop model invocations, includes ''
              @ ''local Chroma recall tool calls as zero provider-token-cost ''
              @ ''operations, and emits at most 800 output tokens per model invocation''))]"

definition budget_json :: "budget_request \<Rightarrow> requested_plan \<Rightarrow> budget_plan \<Rightarrow> jobj" where
  "budget_json b r p =
     (let status = plan_status p in
      [(''schema_version'', JStr ''real-runner-budget.v1''), (''model'', JStr (br_model b)),
       (''model_router_profile'', JStr (br_profile b)),
       (''guardian_models'', JArr (map model_row_json (guardian_model_rows (br_profile b)))),
       (''env_key_name'', JStr ANTHROPIC_ENV_KEY), (''status_label'', JStr status),
       (''skip_reason'', opt_str (bp_skip p)), (''api_call_status'', JStr ''SKIPPED''),
       (''api_call_reason'', JStr ''budget estimator only; no Anthropic API call was made''),
       (''formula'', JStr COST_FORMULA), (''price_source'', JStr MODEL_PRICE_SOURCE),
       (''prices'', prices_json b r), (''worker_estimate'', worker_estimate_json b r),
       (''assumption_per_guardian'', assumption_json r),
       (''per_guardian_cost_estimates'', JArr (map estimate_json (rq_guardians r))),
       (''hard_cap_usd'', JFloat (br_hard_cap b)),
       (''planning_threshold_usd'', JFloat (br_planning_threshold b)),
       (''requested_units'', JInt (rq_units r)), (''effective_units'', JInt (bp_units p)),
       (''requested_input_tokens'', JInt (rq_input r)), (''requested_output_tokens'', JInt (rq_output r)),
       (''requested_worker_input_tokens'', JInt (rq_worker_input r)),
       (''requested_worker_output_tokens'', JInt (rq_worker_output r)),
       (''requested_guardian_input_tokens'', JInt (rq_guardian_input r)),
       (''requested_guardian_output_tokens'', JInt (rq_guardian_output r)),
       (''effective_input_tokens'', JInt (bp_input p)), (''effective_output_tokens'', JInt (bp_output p)),
       (''requested_cost_usd'', JFloat (round6 (rq_cost r))),
       (''estimated_cost_usd'', JFloat (if bp_skip p \<noteq> Some ''MISSING_ANTHROPIC_API_KEY''
          then round6 (bp_cost p) else round6 (rq_cost r))),
       (''shrink_applied'', JBool (bp_shrunk p)),
       (''labels'', JObj [(''requested_cost_usd'', JStr ''ESTIMATED''),
          (''estimated_cost_usd'', JStr (if status \<noteq> ''SKIPPED'' then ''ESTIMATED'' else ''SKIPPED'')),
          (''api_call_status'', JStr ''SKIPPED'')]),
       (''arm_labels'', JObj ARM_LABELS)])"

definition build_real_runner_budget_artifact ::
  "(string, string) dict \<Rightarrow> string option list \<Rightarrow> budget_request \<Rightarrow> py_exc + jobj" where
  "build_real_runner_budget_artifact environ files b =
     rbind (requested_plan_of b) (\<lambda>r.
     rbind (effective_plan b r (env_key_available ANTHROPIC_ENV_KEY environ files)) (\<lambda>p.
       Inr (budget_json b r p)))"

section \<open>The provider slice\<close>

definition scenario_json :: "string \<Rightarrow> string \<Rightarrow> string \<Rightarrow> json" where
  "scenario_json uid iid variant =
     JObj [(''suite'', JStr ''banking''), (''user_task_id'', JStr uid), (''injection_task_id'', JStr iid),
           (''attack_variant'', JStr variant)]"

definition slice_request ::
  "string \<Rightarrow> string \<Rightarrow> string list \<Rightarrow> int \<Rightarrow> int \<Rightarrow> int \<Rightarrow> string \<Rightarrow> string \<Rightarrow> pyfloat \<Rightarrow> budget_request" where
  "slice_request uid iid arms samples chars max_out profile worker threshold =
     \<lparr>br_arms = arms, br_user_tasks = [uid], br_injection_tasks = [iid], br_samples = samples,
      br_prompt_chars = chars, br_model = worker, br_profile = profile, br_max_output_tokens = max_out,
      br_hard_cap = threshold, br_planning_threshold = threshold, br_allow_shrink = False\<rparr>"

definition build_provider_slice_budget_artifact ::
  "(string, string) dict \<Rightarrow> string option list \<Rightarrow> string \<Rightarrow> string \<Rightarrow> string \<Rightarrow> string list \<Rightarrow> int \<Rightarrow> int
     \<Rightarrow> int \<Rightarrow> string \<Rightarrow> string \<Rightarrow> pyfloat \<Rightarrow> py_exc + jobj" where
  "build_provider_slice_budget_artifact environ files uid iid variant arms samples chars max_out profile worker threshold =
     rbind (build_real_runner_budget_artifact environ files
              (slice_request uid iid arms samples chars max_out profile worker threshold)) (\<lambda>b.
     let copy = (\<lambda>k. (k, field b k)) in
     Inr [(''schema_version'', JStr ''provider-slice-budget.v1''), (''scenario'', scenario_json uid iid variant),
          (''arms'', JArr (map JStr arms)), (''samples'', JInt samples), (''worker_model'', JStr worker),
          (''model_router_profile'', JStr profile), copy ''guardian_models'',
          (''api_call_status'', JStr ''SKIPPED''),
          (''api_call_reason'', JStr ''estimate only; no Anthropic API call was made''),
          (''approval_required_over_usd'', JFloat threshold), copy ''status_label'', copy ''skip_reason'',
          copy ''requested_units'', copy ''requested_input_tokens'', copy ''requested_output_tokens'',
          copy ''requested_cost_usd'', copy ''estimated_cost_usd'', copy ''formula'', copy ''price_source'',
          copy ''prices'', copy ''worker_estimate'', copy ''assumption_per_guardian'',
          copy ''per_guardian_cost_estimates'',
          (''labels'', JObj [(''estimated_cost_usd'', JStr ''ESTIMATED''), (''api_call_status'', JStr ''SKIPPED'')])])"

record slice_input =
  sl_user_task :: string
  sl_injection_task :: string
  sl_attack :: string
  sl_provider :: string
  sl_profile :: string
  sl_hard_cap :: pyfloat
  sl_estimated_cost :: pyfloat
  sl_status :: string
  sl_actual_cost :: pyfloat
  sl_skip_reason :: "string option"
  sl_a0_latency :: pyfloat
  sl_a2_latency :: pyfloat
  sl_prevented_loss :: pyfloat
  sl_per_guardian :: "jobj list option"

text \<open>\<open>_int\<close> and \<open>_float\<close> of \<open>metrics.py\<close>: what is no number is the default, 0.\<close>

definition metric_int :: "json \<Rightarrow> py_exc + int" where
  "metric_int v =
     (case v of
        JNull \<Rightarrow> Inr 0 | JArr _ \<Rightarrow> Inr 0 | JObj _ \<Rightarrow> Inr 0
      | _ \<Rightarrow> (case py_int v of Inr i \<Rightarrow> Inr i | Inl e \<Rightarrow> if e \<in> {TypeError, ValueError} then Inr 0 else Inl e))"

definition metric_float :: "json \<Rightarrow> py_exc + pyfloat" where
  "metric_float v =
     (case v of
        JNull \<Rightarrow> Inr (Fin 0) | JArr _ \<Rightarrow> Inr (Fin 0) | JObj _ \<Rightarrow> Inr (Fin 0)
      | _ \<Rightarrow> (case py_float v of Inr x \<Rightarrow> Inr x | Inl e \<Rightarrow> if e \<in> {TypeError, ValueError} then Inr (Fin 0) else Inl e))"

definition sum_metric :: "string \<Rightarrow> jobj list \<Rightarrow> py_exc + int" where
  "sum_metric key rows = rbind (rmap (\<lambda>row. metric_int (field row key)) rows) (\<lambda>ns. Inr (sum_list ns))"

definition slice_arm :: "pyfloat \<Rightarrow> jobj list \<Rightarrow> json" where
  "slice_arm latency guardians =
     JObj [(''security'', JNull), (''utility'', JNull), (''latency_ms'', JFloat latency),
           (''per_guardian'', JArr (map JObj guardians))]"

definition build_provider_slice_artifact :: "slice_input \<Rightarrow> py_exc + jobj" where
  "build_provider_slice_artifact s =
     (let status = py_upper (sl_status s); executed = (status = ''EXECUTED'') in
      if executed \<and> sl_per_guardian s = None then Inl ValueError
      else
        (let guardians = (case sl_per_guardian s of Some g \<Rightarrow> g | None \<Rightarrow> default_guardian_evidence_rows (sl_profile s));
             when = (\<lambda>x. if executed then x else Fin 0);
             a0 = when (sl_a0_latency s); a2 = when (sl_a2_latency s);
             actual = when (sl_actual_cost s); loss = when (sl_prevented_loss s) in
         rbind (sum_metric ''prompt_tokens'' guardians) (\<lambda>pt.
         rbind (sum_metric ''completion_tokens'' guardians) (\<lambda>ct.
           Inr ([(''schema_version'', JStr ''eval-slice-v1''),
             (''slice_id'', JStr (sl_user_task s @ ''_x_'' @ sl_injection_task s)),
             (''scenario'', scenario_json (sl_user_task s) (sl_injection_task s) (sl_attack s)),
             (''backend'', JStr ''real''), (''provider'', JStr (sl_provider s)),
             (''model_router_profile'', JStr (sl_profile s)), (''api_call_status'', JStr status),
             (''evidence_label'', JStr (if executed then ''PROVIDER_BACKED'' else ''SKIPPED'')),
             (''budget'', JObj [(''hard_cap_usd'', JFloat (sl_hard_cap s)),
                (''estimated_cost_usd'', JFloat (sl_estimated_cost s)), (''actual_cost_usd'', JFloat actual)]),
             (''arms'', JObj [(''A0'', slice_arm a0 []), (''A2'', slice_arm a2 guardians)]),
             (''totals'', JObj [(''prompt_tokens'', JInt pt), (''completion_tokens'', JInt ct),
                (''latency_ms'', JFloat (fadd a0 a2)), (''cost_usd'', JFloat actual),
                (''prevented_loss_usd'', JFloat loss)])]
             @ (if executed then [] else [(''skip_reason'', JStr (or_str (sl_skip_reason s) ''REAL_EVAL_SKIPPED''))]))))))"

section \<open>What the budget guards\<close>

lemma shrink_plan_runs:
  assumes "shrink_plan b r = Inr p" and "bp_skip p = None"
  shows "0 < bp_units p" and "bp_units p \<le> rq_units r"
    and "bp_shrunk p \<longleftrightarrow> bp_units p < rq_units r" and "\<not> flt (br_hard_cap b) (bp_cost p)"
  using assms
  by (auto simp: shrink_plan_def skipped_plan_def rbind_def Let_def split: sum.splits if_splits)

lemma requested_units_pos: "0 < requested_units b"
  by (simp add: requested_units_def at_least_one_def)

lemma requested_plan_units: "requested_plan_of b = Inr r \<Longrightarrow> rq_units r = requested_units b"
  by (auto simp: requested_plan_of_def rbind_def Let_def split: sum.splits prod.splits)

lemma effective_plan_key:
  assumes "effective_plan b r key = Inr p"
  obtains p0 where "p = (if key then p0 else p0\<lparr>bp_skip := Some ''MISSING_ANTHROPIC_API_KEY''\<rparr>)"
    and "(if flt (br_planning_threshold b) (rq_cost r) then
            (if br_allow_shrink b then shrink_plan b r
             else Inr (skipped_plan ''REAL_EVAL_SKIPPED_APPROVAL_THRESHOLD'' False (rq_cost r)))
          else Inr \<lparr>bp_units = rq_units r, bp_input = rq_input r, bp_output = rq_output r,
                    bp_cost = rq_cost r, bp_shrunk = False, bp_skip = None\<rparr>) = Inr p0"
  using assms unfolding effective_plan_def rbind_def by (auto split: sum.splits)

text \<open>
  A plan that the budget does not skip has a key, at least one unit and no more than were
  requested; it is the whole request when the request is within the planning threshold, and
  otherwise a shrunk plan, which has to be allowed and whose cost is not above the hard cap.  A
  request above the threshold that may not shrink, and every request without a key, is skipped.
\<close>

theorem budget_guard:
  assumes "requested_plan_of b = Inr r" and "effective_plan b r key = Inr p"
  shows "(bp_skip p = None \<longrightarrow> key \<and> 0 < bp_units p \<and> bp_units p \<le> requested_units b \<and>
            (bp_shrunk p \<longleftrightarrow> bp_units p < requested_units b) \<and>
            (if flt (br_planning_threshold b) (rq_cost r)
             then br_allow_shrink b \<and> \<not> flt (br_hard_cap b) (bp_cost p)
             else bp_cost p = rq_cost r \<and> bp_units p = requested_units b)) \<and>
         (\<not> key \<longrightarrow> bp_skip p = Some ''MISSING_ANTHROPIC_API_KEY'') \<and>
         (flt (br_planning_threshold b) (rq_cost r) \<and> \<not> br_allow_shrink b \<longrightarrow> plan_status p = ''SKIPPED'')"
proof -
  obtain p0 where p: "p = (if key then p0 else p0\<lparr>bp_skip := Some ''MISSING_ANTHROPIC_API_KEY''\<rparr>)"
    and p0: "(if flt (br_planning_threshold b) (rq_cost r) then
            (if br_allow_shrink b then shrink_plan b r
             else Inr (skipped_plan ''REAL_EVAL_SKIPPED_APPROVAL_THRESHOLD'' False (rq_cost r)))
          else Inr \<lparr>bp_units = rq_units r, bp_input = rq_input r, bp_output = rq_output r,
                    bp_cost = rq_cost r, bp_shrunk = False, bp_skip = None\<rparr>) = Inr p0"
    by (rule effective_plan_key[OF assms(2)])
  have units: "rq_units r = requested_units b" by (rule requested_plan_units[OF assms(1)])
  show ?thesis
  proof (cases "flt (br_planning_threshold b) (rq_cost r)")
    case True
    show ?thesis
    proof (cases "br_allow_shrink b")
      case shrink: True
      with True p0 have "shrink_plan b r = Inr p0" by simp
      with shrink_plan_runs[of b r p0] True shrink p units show ?thesis by (auto simp: plan_status_def)
    qed (use True p0 p in \<open>auto simp: skipped_plan_def plan_status_def\<close>)
  qed (use p0 p units requested_units_pos[of b] in auto)
qed

definition big_request :: budget_request where
  "big_request =
     (budget_request_of [''A0''] [''u0'', ''u1'', ''u2'', ''u3'', ''u4'', ''u5'', ''u6'', ''u7''] [''i6''] 1 3000000)
       \<lparr>br_max_output_tokens := 0\<rparr>"

lemma big_request_plan:
  "rbind (requested_plan_of big_request) (\<lambda>r. rbind (effective_plan big_request r True) (\<lambda>p.
     Inr (rq_cost r, bp_units p, bp_skip p, bp_cost p))) = Inr (Fin 8, 3, None, Fin 3)"
  by code_simp

lemma budget_guard_witness:
  "\<exists>r p. requested_plan_of big_request = Inr r \<and> effective_plan big_request r True = Inr p \<and>
     bp_skip p = None \<and> \<not> flt (br_hard_cap big_request) (bp_cost p)"
proof -
  obtain r p where r: "requested_plan_of big_request = Inr r" and p: "effective_plan big_request r True = Inr p"
    and vals: "rq_cost r = Fin 8" "bp_skip p = None"
    using big_request_plan by (auto simp: rbind_def split: sum.splits)
  have "br_planning_threshold big_request = Fin 3"
    by (simp add: big_request_def budget_request_of_def DEFAULT_PLANNING_THRESHOLD_USD_def)
  with budget_guard[OF r p] r p vals show ?thesis by (intro exI[of _ r] exI[of _ p]) simp
qed

text \<open>A threshold above the hard cap lets a request through that costs more than the cap.\<close>

lemma hard_cap_is_not_checked_below_the_threshold:
  "rbind (requested_plan_of (big_request\<lparr>br_planning_threshold := Fin 100\<rparr>)) (\<lambda>r.
     rbind (effective_plan (big_request\<lparr>br_planning_threshold := Fin 100\<rparr>) r True) (\<lambda>p.
       Inr (bp_skip p, flt (br_hard_cap big_request) (bp_cost p)))) = Inr (None, True)"
  by code_simp

text \<open>The two price tables of the repository agree on every model but one.\<close>

lemma price_tables_differ:
  "map (\<lambda>(m, i, u). (case dget ANTHROPIC_PRICE_TABLE_USD_PER_MTOK m of
      None \<Rightarrow> None | Some p \<Rightarrow> Some (mp_input p = i \<and> mp_output p = u))) price_table
   = [Some True, Some True, Some False]"
  by code_simp

end
