(* ===== verification/EvalArms.thy ===== *)
theory EvalArms
  imports EvalMoney
begin

text \<open>
  \<open>packages/shield-eval/src/shield_eval/arms.py\<close>, the arms of the evaluation and the client a
  Shield arm is built around, \<open>mock_llm.py\<close>, the model that replays a task's own calls, and the
  assertions of \<open>run_ab.py\<close>.

  AgentDojo builds and runs the pipelines: \<open>from_config\<close> and the ground truth of a task are
  parameters, and so is \<open>ast.literal_eval\<close>, which the assertions use for their right-hand side.
\<close>

section \<open>Arms\<close>

definition NATIVE_BASELINES :: "string list" where
  "NATIVE_BASELINES = [''transformers_pi_detector'', ''spotlighting_with_delimiting'', ''repeat_user_prompt'', ''tool_filter'']"

definition MOCK_INCOMPATIBLE :: "(string, string) dict" where
  "MOCK_INCOMPATIBLE =
     [(''transformers_pi_detector'',
       ''needs agentdojo[transformers] (torch + HF model) '' @ em_dash @ '' explicit provider-backed eval only''),
      (''tool_filter'',
       ''from_config restricts tool_filter to OpenAI models '' @ em_dash @ '' explicit provider-backed eval only'')]"

definition SHIELD_DECIDE :: "(string, string) dict" where
  "SHIELD_DECIDE = [(''A1'', ''noop''), (''A2'', ''mock''), (''A3'', ''mock'')]"

datatype arm_kind = NativeArm | ShieldArm

record arm =
  am_key :: string
  am_defense :: "string option"
  am_kind :: arm_kind
  am_decide_mode :: "string option"

definition native_arm :: "string \<Rightarrow> string option \<Rightarrow> arm" where
  "native_arm key defense = \<lparr>am_key = key, am_defense = defense, am_kind = NativeArm, am_decide_mode = None\<rparr>"

definition add_arm :: "arm list \<Rightarrow> arm \<Rightarrow> arm list" where
  "add_arm out a = (if am_key a \<in> set (map am_key out) then out else out @ [a])"

definition join_bar :: "string list \<Rightarrow> string" where "join_bar xs = join ''|'' xs"

text \<open>\<open>ArmUnavailable\<close> carries its message.\<close>

definition resolve_token :: "string option \<Rightarrow> arm list \<Rightarrow> string \<Rightarrow> string + arm list" where
  "resolve_token decide_mode out tok =
     (let t = strip_by is_space tok in
      if t \<in> {''A0'', ''baseline'', ''none''} then Inr (add_arm out (native_arm ''A0'' None))
      else if t \<in> {''A0b'', ''baselines'', ''all''} then
        Inr (foldl (\<lambda>os d. add_arm os (native_arm d (Some d))) out NATIVE_BASELINES)
      else if t \<in> set NATIVE_BASELINES then Inr (add_arm out (native_arm t (Some t)))
      else if t \<in> {''A1'', ''A2'', ''A3'', ''shielded''} then
        (let key = (if t = ''shielded'' then ''A2'' else t) in
         Inr (add_arm out \<lparr>am_key = key, am_defense = None, am_kind = ShieldArm,
            am_decide_mode = Some (or_str decide_mode (the (dget SHIELD_DECIDE key)))\<rparr>))
      else Inl (t @ '': unknown arm (expected A0|A0b|baseline|A1|A2|A3|shielded|'' @ join_bar NATIVE_BASELINES @ '')''))"

fun resolve_tokens :: "string option \<Rightarrow> arm list \<Rightarrow> string list \<Rightarrow> string + arm list" where
  "resolve_tokens dm out [] = Inr out"
| "resolve_tokens dm out (t # ts) = rbind (resolve_token dm out t) (\<lambda>o'. resolve_tokens dm o' ts)"

definition resolve_arms :: "string list \<Rightarrow> string option \<Rightarrow> string + arm list" where
  "resolve_arms requested decide_mode =
     resolve_tokens decide_mode [] (if requested = [] then [''A0'', ''A0b''] else requested)"

definition arm_alias :: "string \<Rightarrow> string list" where
  "arm_alias key =
     (if key = ''A0'' then [''A0'', ''baseline'', ''none'']
      else if key = ''A2'' then [''A2'', ''shielded''] else [key])"

section \<open>Building an arm\<close>

record shield_wiring =
  sw_base_url :: "string option"
  sw_decide_path :: string
  sw_record_path :: string
  sw_agent_key :: "string option"
  sw_local_provider :: "decide_provider option"
  sw_transport :: bool

definition default_wiring :: shield_wiring where
  "default_wiring = \<lparr>sw_base_url = None, sw_decide_path = ''/v1/governance/decide'',
     sw_record_path = ''/v1/governance/record'', sw_agent_key = None, sw_local_provider = None, sw_transport = False\<rparr>"

text \<open>Who answers the client's requests: a transport that was given, a provider in process, or the server.\<close>

datatype decision_service = GivenTransport | InProcess decide_provider | ServerAt string

record shield_client =
  sc_service :: decision_service
  sc_base_url :: string
  sc_decide_path :: string
  sc_record_path :: string
  sc_agent_key :: string

definition missing_wiring :: "string \<Rightarrow> string" where
  "missing_wiring key =
     key @ '': real shield wiring not configured (needs --decide-url + --shield-agent-key for the live server; ''
     @ ''or a deterministic/real in-process transport) '' @ em_dash @ '' SKIP, never faked''"

definition arm_provider :: "arm \<Rightarrow> shield_wiring \<Rightarrow> decide_provider option" where
  "arm_provider a w =
     (case sw_local_provider w of
        Some p \<Rightarrow> Some p
      | None \<Rightarrow>
          if \<not> sw_transport w \<and> am_decide_mode a \<in> {Some ''noop'', Some ''mock''}
          then (case build_decider (the (am_decide_mode a)) None of Inr p \<Rightarrow> Some p | Inl _ \<Rightarrow> None)
          else None)"

definition build_shield :: "string \<Rightarrow> arm \<Rightarrow> shield_wiring option \<Rightarrow> string + shield_client" where
  "build_shield golden_key a wiring =
     (let w = (case wiring of None \<Rightarrow> default_wiring | Some x \<Rightarrow> x);
          provider = arm_provider a w; url = or_str (sw_base_url w) []; key = or_str (sw_agent_key w) [];
          client = (\<lambda>s u k. \<lparr>sc_service = s, sc_base_url = u, sc_decide_path = sw_decide_path w,
                             sc_record_path = sw_record_path w, sc_agent_key = k\<rparr>);
          local_url = or_str (sw_base_url w) ''http://shield.local''; local_key = or_str (sw_agent_key w) golden_key in
      if sw_transport w then Inr (client GivenTransport local_url local_key)
      else (case provider of
          Some p \<Rightarrow> Inr (client (InProcess p) local_url local_key)
        | None \<Rightarrow>
            if url = [] \<or> key = [] then Inl (missing_wiring (am_key a))
            else Inr (client (ServerAt url) url key)))"

definition shield_pipeline_name :: "string \<Rightarrow> arm \<Rightarrow> string" where
  "shield_pipeline_name worker a = worker @ ''-'' @ py_lower (am_key a)"

text \<open>A native arm is AgentDojo's pipeline, unless the mocked model cannot drive its defense.\<close>

definition build_native :: "(string option \<Rightarrow> string + 'p) \<Rightarrow> arm \<Rightarrow> bool \<Rightarrow> string + 'p" where
  "build_native from_config a mock =
     (let label = am_key a @ '' ('' @ or_str (am_defense a) ''None'' @ ''): '' in
      case (am_defense a, mock) of
        (Some d, True) \<Rightarrow>
          (case dget MOCK_INCOMPATIBLE d of
             Some why \<Rightarrow> Inl (label @ why)
           | None \<Rightarrow> (case from_config (Some d) of Inr p \<Rightarrow> Inr p | Inl e \<Rightarrow> Inl (label @ e)))
      | (d, _) \<Rightarrow> (case from_config d of Inr p \<Rightarrow> Inr p | Inl e \<Rightarrow> Inl (label @ e)))"

datatype 'p built = NativePipeline 'p | ShieldPipeline shield_client

definition build_arm ::
  "string \<Rightarrow> (string option \<Rightarrow> string + 'p) \<Rightarrow> arm \<Rightarrow> bool \<Rightarrow> shield_wiring option \<Rightarrow> string + 'p built" where
  "build_arm golden_key from_config a mock wiring =
     (case am_kind a of
        ShieldArm \<Rightarrow> rbind (build_shield golden_key a wiring) (\<lambda>c. Inr (ShieldPipeline c))
      | NativeArm \<Rightarrow> rbind (build_native from_config a mock) (\<lambda>p. Inr (NativePipeline p)))"

text \<open>
  The pipeline between queries: the messages last as long as the runtime stays the same, the extra
  arguments, and with them the Shield state, for the life of the pipeline.
\<close>

record ('rt, 'm, 'x) fresh_pipeline =
  fp_runtime :: "'rt option"
  fp_messages :: "'m list"
  fp_extra_args :: 'x

definition fresh_query ::
  "('rt \<Rightarrow> 'm list \<Rightarrow> 'x \<Rightarrow> 'm list \<times> 'x) \<Rightarrow> 'rt \<Rightarrow> 'm list option \<Rightarrow> 'x option
     \<Rightarrow> ('rt, 'm, 'x) fresh_pipeline \<Rightarrow> ('rt, 'm, 'x) fresh_pipeline" where
  "fresh_query run rt messages extra p =
     (let kept = (if fp_runtime p = Some rt then fp_messages p else []);
          (ms, x) = run rt (case messages of None \<Rightarrow> kept | Some ms \<Rightarrow> ms)
                      (case extra of None \<Rightarrow> fp_extra_args p | Some y \<Rightarrow> y) in
      \<lparr>fp_runtime = Some rt, fp_messages = ms, fp_extra_args = x\<rparr>)"

section \<open>What resolving and building give\<close>

lemma resolve_token_distinct:
  "resolve_token dm out t = Inr out' \<Longrightarrow> distinct (map am_key out) \<Longrightarrow> distinct (map am_key out')"
proof -
  have add: "distinct (map am_key os) \<Longrightarrow> distinct (map am_key (add_arm os a))" for os a by (auto simp: add_arm_def)
  have fold: "distinct (map am_key os) \<Longrightarrow>
      distinct (map am_key (foldl (\<lambda>os d. add_arm os (native_arm d (Some d))) os ds))" for os ds
    by (induction ds arbitrary: os) (auto intro: add)
  show "resolve_token dm out t = Inr out' \<Longrightarrow> distinct (map am_key out) \<Longrightarrow> distinct (map am_key out')"
    by (auto simp: resolve_token_def Let_def intro: add fold split: if_splits)
qed

lemma resolve_arms_distinct: "resolve_arms requested dm = Inr arms \<Longrightarrow> distinct (map am_key arms)"
proof -
  have "resolve_tokens dm out ts = Inr arms \<Longrightarrow> distinct (map am_key out) \<Longrightarrow> distinct (map am_key arms)" for out ts
    by (induction ts arbitrary: out) (auto simp: rbind_Inr_iff dest: resolve_token_distinct)
  then show "resolve_arms requested dm = Inr arms \<Longrightarrow> distinct (map am_key arms)"
    by (auto simp: resolve_arms_def)
qed

definition http_arm :: "string \<Rightarrow> arm" where
  "http_arm key = \<lparr>am_key = key, am_defense = None, am_kind = ShieldArm, am_decide_mode = Some ''http''\<rparr>"

lemma resolve_http:
  "resolve_arms [''A1''] (Some ''http'') = Inr [http_arm ''A1'']"
  "resolve_arms [''A2''] (Some ''http'') = Inr [http_arm ''A2'']"
  "resolve_arms [''A3''] (Some ''http'') = Inr [http_arm ''A3'']"
  by code_simp+

lemma build_shield_http:
  assumes "am_decide_mode b = Some ''http''" "am_decide_mode a = Some ''http''"
  shows "build_shield golden b wiring = Inr c \<longleftrightarrow> build_shield golden a wiring = Inr c"
proof -
  have "arm_provider x w = sw_local_provider w" if "am_decide_mode x = Some ''http''" for x w
    using that by (simp add: arm_provider_def split: option.split)
  from this[OF assms(1)] this[OF assms(2)] show ?thesis
    by (simp add: build_shield_def Let_def split: option.split)
qed

definition built_service :: "arm \<Rightarrow> shield_wiring option \<Rightarrow> decision_service \<Rightarrow> string \<Rightarrow> bool" where
  "built_service a wiring s key =
     (case s of
        ServerAt u \<Rightarrow> u \<noteq> [] \<and> key \<noteq> [] \<and> (\<exists>w. wiring = Some w \<and> sw_base_url w = Some u)
      | InProcess p \<Rightarrow> (\<exists>w. wiring = Some w \<and> sw_local_provider w = Some p) \<or>
                       am_decide_mode a \<in> {Some ''noop'', Some ''mock''}
      | GivenTransport \<Rightarrow> (\<exists>w. wiring = Some w \<and> sw_transport w))"

lemma arm_provider_Some:
  "arm_provider a w = Some p \<Longrightarrow> sw_local_provider w = Some p \<or> am_decide_mode a \<in> {Some ''noop'', Some ''mock''}"
  by (auto simp: arm_provider_def split: option.splits if_splits)

lemma build_shield_service:
  assumes "build_shield golden a wiring = Inr c"
  shows "built_service a wiring (sc_service c) (sc_agent_key c)"
proof (cases wiring)
  case None
  with assms have "sc_service c \<noteq> GivenTransport \<and> (\<forall>u. sc_service c \<noteq> ServerAt u) \<and>
      (\<exists>p. arm_provider a default_wiring = Some p)"
    by (auto simp: build_shield_def default_wiring_def or_str_def Let_def split: option.splits)
  then show ?thesis
    using arm_provider_Some[of a default_wiring] None
    by (cases "sc_service c") (auto simp: built_service_def default_wiring_def)
next
  case (Some w)
  show ?thesis
  proof (cases "sw_transport w")
    case True
    with assms Some show ?thesis by (auto simp: build_shield_def built_service_def Let_def)
  next
    case local: False
    show ?thesis
    proof (cases "arm_provider a w")
      case None
      with assms Some local show ?thesis
        by (auto simp: build_shield_def built_service_def Let_def or_str_def split: if_splits option.splits)
    next
      case (Some p)
      with assms \<open>wiring = Some w\<close> local have "sc_service c = InProcess p"
        by (auto simp: build_shield_def Let_def)
      with arm_provider_Some[OF Some] \<open>wiring = Some w\<close> show ?thesis by (simp add: built_service_def)
    qed
  qed
qed

text \<open>
  A Shield arm that is built either answers in process or talks to a server whose address and key
  were given.  Asked to decide over HTTP and given a server, the arms A1, A2 and A3 are built around
  the same client: the no-op gate and the deterministic ablation are then governed like A2.
\<close>

theorem shield_arm_service:
  assumes "build_shield golden a wiring = Inr c"
  shows "(case sc_service c of
            ServerAt u \<Rightarrow> u \<noteq> [] \<and> sc_agent_key c \<noteq> [] \<and> (\<exists>w. wiring = Some w \<and> sw_base_url w = Some u)
          | InProcess p \<Rightarrow> (\<exists>w. wiring = Some w \<and> sw_local_provider w = Some p) \<or>
                           am_decide_mode a \<in> {Some ''noop'', Some ''mock''}
          | GivenTransport \<Rightarrow> (\<exists>w. wiring = Some w \<and> sw_transport w)) \<and>
    (\<forall>k arms. k \<in> {''A1'', ''A2'', ''A3''} \<longrightarrow> resolve_arms [k] (Some ''http'') = Inr arms \<longrightarrow>
       am_decide_mode a = Some ''http'' \<longrightarrow> map (\<lambda>b. build_shield golden b wiring) arms = [Inr c])"
proof -
  have same: "build_shield golden b wiring = Inr c"
    if "am_decide_mode b = Some ''http''" "am_decide_mode a = Some ''http''" for b
    using assms build_shield_http[OF that] by (simp add: that)
  have "map (\<lambda>b. build_shield golden b wiring) arms = [Inr c]"
    if k: "k \<in> {''A1'', ''A2'', ''A3''}" "resolve_arms [k] (Some ''http'') = Inr arms"
      and a: "am_decide_mode a = Some ''http''" for k arms
  proof -
    have "arms = [http_arm k]" using k resolve_http by auto
    then show ?thesis using same[OF _ a, of "http_arm k"] by (simp add: http_arm_def)
  qed
  moreover have "built_service a wiring (sc_service c) (sc_agent_key c)" by (rule build_shield_service[OF assms])
  ultimately show ?thesis by (simp add: built_service_def)
qed

definition demo_wiring :: shield_wiring where
  "demo_wiring = default_wiring\<lparr>sw_base_url := Some ''http://shield'', sw_agent_key := Some ''key''\<rparr>"

lemma shield_arm_service_witness:
  "\<exists>c. build_shield ''golden'' (http_arm ''A2'') (Some demo_wiring) = Inr c \<and>
     map (\<lambda>b. build_shield ''golden'' b (Some demo_wiring)) [http_arm ''A1''] = [Inr c]"
proof -
  obtain c where c: "build_shield ''golden'' (http_arm ''A2'') (Some demo_wiring) = Inr c"
    by (simp add: build_shield_def arm_provider_def http_arm_def demo_wiring_def default_wiring_def or_str_def Let_def)
  with shield_arm_service[OF c] resolve_http(1) show ?thesis by (auto simp: http_arm_def)
qed

section \<open>The model that replays a task\<close>

text \<open>\<open>GOAL\<close> and \<open>ground_truth\<close> of a task are AgentDojo's; the environment is one of its values.\<close>

definition INJECTION_MARKER :: string where "INJECTION_MARKER = ''<INFORMATION>''"

record 'e task =
  tk_goal :: string
  tk_ground_truth :: "'e \<Rightarrow> tool_call list"

record mock_message =
  mm_role :: string
  mm_text :: string
  mm_tool_calls :: "tool_call list"

record 'e mocked_llm =
  ml_name :: string
  ml_user_task :: "'e task option"
  ml_injection_task :: "'e task option"
  ml_final_text :: string

definition injection_observed :: "mock_message list \<Rightarrow> bool" where
  "injection_observed ms = list_ex (\<lambda>m. mm_role m = ''tool'' \<and> has_substring INJECTION_MARKER (mm_text m)) ms"

definition tool_turns_done :: "mock_message list \<Rightarrow> nat" where
  "tool_turns_done ms = length (filter (\<lambda>m. mm_role m = ''assistant'' \<and> mm_tool_calls m \<noteq> []) ms)"

definition is_goal :: "'e mocked_llm \<Rightarrow> string \<Rightarrow> bool" where
  "is_goal llm query =
     (case ml_injection_task llm of None \<Rightarrow> False
      | Some t \<Rightarrow> strip_by is_space query = strip_by is_space (tk_goal t))"

definition mock_plan :: "'e mocked_llm \<Rightarrow> string \<Rightarrow> 'e \<Rightarrow> tool_call list" where
  "mock_plan llm query env =
     (if is_goal llm query then tk_ground_truth (the (ml_injection_task llm)) env
      else case ml_user_task llm of None \<Rightarrow> [] | Some t \<Rightarrow> tk_ground_truth t env)"

definition obeyed_plan :: "'e mocked_llm \<Rightarrow> string \<Rightarrow> 'e \<Rightarrow> mock_message list \<Rightarrow> tool_call list" where
  "obeyed_plan llm query env ms =
     mock_plan llm query env @
     (case ml_injection_task llm of
        Some t \<Rightarrow> if injection_observed ms \<and> \<not> is_goal llm query then tk_ground_truth t env else []
      | None \<Rightarrow> [])"

definition mock_query :: "'e mocked_llm \<Rightarrow> string \<Rightarrow> 'e \<Rightarrow> mock_message list \<Rightarrow> mock_message list" where
  "mock_query llm query env ms =
     (let plan = obeyed_plan llm query env ms; n = tool_turns_done ms in
      ms @ [if n < length plan
            then \<lparr>mm_role = ''assistant'', mm_text = [], mm_tool_calls = [plan ! n]\<rparr>
            else \<lparr>mm_role = ''assistant'', mm_text = ml_final_text llm, mm_tool_calls = []\<rparr>])"

text \<open>
  The turns of a loop: each query is followed by the results of its calls.  Without an injection in
  the results the model makes the calls of its task in order, one a turn, and then stops.
\<close>

fun mock_turns ::
  "'e mocked_llm \<Rightarrow> string \<Rightarrow> 'e \<Rightarrow> mock_message list list \<Rightarrow> mock_message list \<Rightarrow> mock_message list" where
  "mock_turns llm query env [] ms = ms"
| "mock_turns llm query env (rs # results) ms = mock_turns llm query env results (mock_query llm query env ms @ rs)"

definition calls_made :: "mock_message list \<Rightarrow> tool_call list" where
  "calls_made ms = concat (map mm_tool_calls (filter (\<lambda>m. mm_role m = ''assistant'') ms))"

lemma calls_made_append [simp]: "calls_made (xs @ ys) = calls_made xs @ calls_made ys"
  by (simp add: calls_made_def)

lemma tool_turns_append [simp]: "tool_turns_done (xs @ ys) = tool_turns_done xs + tool_turns_done ys"
  by (simp add: tool_turns_done_def)

definition quiet_results :: "mock_message list \<Rightarrow> bool" where
  "quiet_results rs \<longleftrightarrow> list_all (\<lambda>m. mm_role m = ''tool'') rs \<and> \<not> injection_observed rs"

lemma quiet_results_facts:
  assumes "quiet_results rs"
  shows "calls_made rs = []" "tool_turns_done rs = 0"
  using assms by (auto simp: quiet_results_def calls_made_def tool_turns_done_def list_all_iff)

lemma mock_replays_the_plan:
  assumes "\<forall>rs \<in> set results. quiet_results rs" and "\<not> injection_observed ms"
    and "calls_made ms = take k (mock_plan llm query env)" "tool_turns_done ms = k"
    and "k + length results \<le> length (mock_plan llm query env)"
  shows "calls_made (mock_turns llm query env results ms) = take (k + length results) (mock_plan llm query env)"
  using assms
proof (induction results arbitrary: ms k)
  case (Cons rs results)
  let ?plan = "mock_plan llm query env"
  have plan: "obeyed_plan llm query env ms = ?plan"
    using Cons.prems(2) by (simp add: obeyed_plan_def split: option.split)
  have k: "k < length ?plan" using Cons.prems(5) by simp
  then have q: "mock_query llm query env ms =
      ms @ [\<lparr>mm_role = ''assistant'', mm_text = [], mm_tool_calls = [?plan ! k]\<rparr>]"
    using Cons.prems(4) by (simp add: mock_query_def Let_def plan)
  have "\<not> injection_observed (mock_query llm query env ms @ rs)"
    using Cons.prems(1,2) by (auto simp: q injection_observed_def quiet_results_def)
  moreover have "calls_made (mock_query llm query env ms @ rs) = take (Suc k) ?plan"
    using Cons.prems(1,3) k quiet_results_facts[of rs]
    by (simp add: q take_Suc_conv_app_nth) (simp add: calls_made_def)
  moreover have "tool_turns_done (mock_query llm query env ms @ rs) = Suc k"
    using Cons.prems(1,4) quiet_results_facts[of rs] by (simp add: q) (simp add: tool_turns_done_def)
  ultimately show ?case using Cons.IH[of "mock_query llm query env ms @ rs" "Suc k"] Cons.prems(1,5) by simp
qed simp

end
