(* ===== verification/EvalAsserts.thy ===== *)
theory EvalAsserts
  imports EvalArms
begin

text \<open>
  The assertions of \<open>packages/shield-eval/src/shield_eval/run_ab.py\<close>: an expression
  \<open>arm.task.field == value\<close> is looked up in the results of the arms that ran, and is passed,
  failed, or skipped when there is nothing to look up.  \<open>lit\<close> is \<open>ast.literal_eval\<close>: the
  value, or the message of the exception that the code catches.
\<close>

section \<open>Results of an arm\<close>

type_synonym pairing = "string \<times> string"

record arm_result =
  ae_key :: string
  ae_available :: bool
  ae_skip_reason :: "string option"
  ae_security :: "(pairing, bool) dict"
  ae_utility :: "(pairing, bool) dict"
  ae_decisions :: "(pairing, string) dict"

definition find_arm :: "string \<Rightarrow> arm_result list \<Rightarrow> arm_result option" where
  "find_arm token results =
     find (\<lambda>r. token \<in> set (arm_alias (ae_key r)) \<or> token = ae_key r) results"

fun split_dots :: "string \<Rightarrow> string \<Rightarrow> string list" where
  "split_dots w [] = [w]"
| "split_dots w (c # s) = (if c = CHR ''.'' then w # split_dots [] s else split_dots (w @ [c]) s)"

definition about_task :: "string \<Rightarrow> (pairing, 'v) dict \<Rightarrow> 'v list" where
  "about_task task d = map snd (filter (\<lambda>((u, i), v). task = u \<or> task = i) d)"

text \<open>\<open>("OK", value)\<close> is \<open>Inr\<close>, \<open>("SKIP", reason)\<close> is \<open>Inl\<close>.\<close>

definition quoted :: "string \<Rightarrow> string" where
  "quoted s = char_of (39::nat) # s @ [char_of (39::nat)]"

definition lookup_parts :: "arm_result list \<Rightarrow> string \<Rightarrow> string \<Rightarrow> string \<Rightarrow> string + json" where
  "lookup_parts results arm task fld =
     (case find_arm arm results of
        None \<Rightarrow> Inl (''arm '' @ quoted arm @ '' was not run'')
      | Some r \<Rightarrow>
        if \<not> ae_available r
        then Inl (''arm '' @ quoted arm @ '' unavailable: '' @ or_str (ae_skip_reason r) ''None'')
        else if fld = ''decision'' then
          (if ae_decisions r = []
           then Inl (''no decision captured for task '' @ quoted task @ '' on arm '' @ quoted arm)
           else case about_task task (ae_decisions r) of
               [] \<Rightarrow> Inl (''no decision for task '' @ quoted task @ '' on arm '' @ quoted arm)
             | d # _ \<Rightarrow> Inr (JStr d))
        else
          (let vals = about_task task (if fld = ''success'' then ae_security r else ae_utility r) in
           if vals = [] then Inl (''no result for task '' @ quoted task @ '' on arm '' @ quoted arm)
           else Inr (JBool (if fld = ''success'' then list_ex id vals else list_all id vals))))"

definition assert_lookup :: "arm_result list \<Rightarrow> string \<Rightarrow> string + json" where
  "assert_lookup results ref =
     (case split_dots [] ref of
        [arm, task, fld] \<Rightarrow> lookup_parts results arm task fld
      | _ \<Rightarrow> Inl (''unparseable ref '' @ quoted ref))"

section \<open>Expressions\<close>

datatype assert_op = AIn | AEq | ANe

definition assert_ops :: "(string \<times> assert_op) list" where
  "assert_ops = [('' in '', AIn), (''=='', AEq), (''!='', ANe)]"

fun partition_at :: "string \<Rightarrow> string \<Rightarrow> string \<Rightarrow> string \<times> string" where
  "partition_at sep w [] = (w, [])"
| "partition_at sep w (c # s) =
     (if starts_with (c # s) sep then (w, drop (length sep) (c # s)) else partition_at sep (w @ [c]) s)"

definition parse_assert :: "string \<Rightarrow> (string \<times> assert_op \<times> string) option" where
  "parse_assert raw =
     (case find (\<lambda>p. has_substring (fst p) raw) assert_ops of
        None \<Rightarrow> None
      | Some (sep, op) \<Rightarrow>
          (let (l, r) = partition_at sep [] raw in Some (strip_by is_space l, op, strip_by is_space r)))"

definition is_ref :: "assert_op \<Rightarrow> string \<Rightarrow> bool" where
  "is_ref op rhs \<longleftrightarrow> op \<noteq> AIn \<and> count_list rhs (CHR ''.'') = 2 \<and> CHR ''['' \<notin> set rhs \<and>
     char_of (39::nat) \<notin> set rhs \<and> char_of (34::nat) \<notin> set rhs"

text \<open>Equality of a looked-up value, a bool or a string, and a literal: True is 1 and False is 0.\<close>

definition py_equal :: "json \<Rightarrow> json \<Rightarrow> bool" where
  "py_equal a b =
     (case (a, b) of
        (JBool x, JInt i) \<Rightarrow> i = (if x then 1 else 0)
      | (JBool x, JFloat f) \<Rightarrow> f = Fin (if x then 1 else 0)
      | _ \<Rightarrow> a = b)"

definition py_in :: "json \<Rightarrow> json \<Rightarrow> py_exc + bool" where
  "py_in a b =
     (case b of
        JArr vs \<Rightarrow> Inr (list_ex (py_equal a) vs)
      | JObj kvs \<Rightarrow> Inr (list_ex (\<lambda>(k, _). py_equal a (JStr k)) kvs)
      | JStr s \<Rightarrow> (case a of JStr t \<Rightarrow> Inr (has_substring t s) | _ \<Rightarrow> Inl TypeError)
      | _ \<Rightarrow> Inl TypeError)"

datatype assert_status = APass | AFail | ASkip

record assert_outcome =
  as_text :: string
  as_status :: assert_status
  as_detail :: string

definition assert_op_text :: "assert_op \<Rightarrow> string" where
  "assert_op_text op = (case op of AIn \<Rightarrow> ''in'' | AEq \<Rightarrow> ''=='' | ANe \<Rightarrow> ''!='')"

definition compare_values :: "assert_op \<Rightarrow> json \<Rightarrow> json \<Rightarrow> py_exc + bool" where
  "compare_values op a b = (case op of AEq \<Rightarrow> Inr (py_equal a b) | ANe \<Rightarrow> Inr (\<not> py_equal a b) | AIn \<Rightarrow> py_in a b)"

definition evaluate_assert ::
  "(rat \<Rightarrow> string) \<Rightarrow> (string \<Rightarrow> string + json) \<Rightarrow> arm_result list \<Rightarrow> string \<Rightarrow> py_exc + assert_outcome" where
  "evaluate_assert fr lit results expr =
     (let raw = strip_by is_space expr;
          out = (\<lambda>s d. Inr \<lparr>as_text = raw, as_status = s, as_detail = d\<rparr>);
          decide = (\<lambda>op l r. rbind (compare_values op l r) (\<lambda>ok.
             out (if ok then APass else AFail)
               (''lhs='' @ py_repr fr l @ '' '' @ assert_op_text op @ '' rhs='' @ py_repr fr r))) in
      case parse_assert raw of
        None \<Rightarrow> out AFail ''no recognised operator (==, !=, in)''
      | Some (lhs, op, rhs) \<Rightarrow>
        (case assert_lookup results lhs of
           Inl reason \<Rightarrow> out ASkip reason
         | Inr l \<Rightarrow>
             if is_ref op rhs then
               (case assert_lookup results rhs of Inl reason \<Rightarrow> out ASkip reason | Inr r \<Rightarrow> decide op l r)
             else
               (case lit rhs of
                  Inl e \<Rightarrow> out AFail (''bad literal '' @ quoted rhs @ '': '' @ e)
                | Inr r \<Rightarrow> decide op l r)))"

fun run_asserts ::
  "(rat \<Rightarrow> string) \<Rightarrow> (string \<Rightarrow> string + json) \<Rightarrow> arm_result list \<Rightarrow> string list \<Rightarrow> py_exc + int" where
  "run_asserts fr lit results [] = Inr 0"
| "run_asserts fr lit results (e # es) =
     rbind (evaluate_assert fr lit results e) (\<lambda>out.
     rbind (run_asserts fr lit results es) (\<lambda>code. Inr (if as_status out = AFail then 1 else code)))"

section \<open>What a passed assertion says\<close>

definition answers_to :: "arm_result \<Rightarrow> string \<Rightarrow> bool" where
  "answers_to r arm \<longleftrightarrow> arm \<in> set (arm_alias (ae_key r)) \<or> arm = ae_key r"

definition has_result :: "string \<Rightarrow> (pairing, 'v) dict \<Rightarrow> bool" where
  "has_result task d \<longleftrightarrow> (\<exists>((u, i), b) \<in> set d. task = u \<or> task = i)"

text \<open>What a looked-up value says of the results of an arm.\<close>

definition result_says :: "arm_result \<Rightarrow> string \<Rightarrow> string \<Rightarrow> json \<Rightarrow> bool" where
  "result_says r task fld v \<longleftrightarrow>
     (if fld = ''success'' then
        has_result task (ae_security r) \<and>
        v = JBool (\<exists>((u, i), b) \<in> set (ae_security r). (task = u \<or> task = i) \<and> b)
      else if fld = ''decision'' then (\<exists>((u, i), d) \<in> set (ae_decisions r). (task = u \<or> task = i) \<and> v = JStr d)
      else has_result task (ae_utility r) \<and>
        v = JBool (\<forall>((u, i), b) \<in> set (ae_utility r). task = u \<or> task = i \<longrightarrow> b))"

lemma about_task_empty: "about_task task d = [] \<longleftrightarrow> \<not> has_result task d"
  by (auto simp: about_task_def has_result_def filter_empty_conv)

lemma about_task_bool:
  "list_ex id (about_task task d) \<longleftrightarrow> (\<exists>((u, i), b) \<in> set d. (task = u \<or> task = i) \<and> b)"
  "list_all id (about_task task d) \<longleftrightarrow> (\<forall>((u, i), b) \<in> set d. task = u \<or> task = i \<longrightarrow> b)"
  by (auto simp: about_task_def list_ex_iff list_all_iff)

lemma about_task_Cons:
  assumes "about_task task d = x # xs"
  shows "\<exists>((u, i), b) \<in> set d. (task = u \<or> task = i) \<and> x = b"
proof -
  have "x \<in> set (about_task task d)" by (simp add: assms)
  then show ?thesis by (fastforce simp: about_task_def)
qed

lemma lookup_parts_Inr:
  assumes "lookup_parts results arm task fld = Inr v"
  shows "\<exists>r \<in> set results. ae_available r \<and> answers_to r arm \<and> result_says r task fld v"
proof -
  obtain r where r: "find_arm arm results = Some r"
    using assms by (auto simp: lookup_parts_def split: option.splits)
  then have "r \<in> set results" "answers_to r arm" by (auto simp: find_arm_def find_Some_iff answers_to_def)
  moreover have available: "ae_available r" using assms r by (auto simp: lookup_parts_def split: if_splits)
  moreover have "result_says r task fld v"
  proof (cases "fld = ''decision''")
    case True
    then obtain d ds where "about_task task (ae_decisions r) = d # ds" "v = JStr d"
      using assms r available by (auto simp: lookup_parts_def split: if_splits list.splits)
    with about_task_Cons[of task "ae_decisions r"] True show ?thesis by (fastforce simp: result_says_def)
  next
    case False
    with assms r available show ?thesis
      by (auto simp: lookup_parts_def Let_def result_says_def about_task_empty about_task_bool split: if_splits)
  qed
  ultimately show ?thesis by blast
qed

lemma evaluate_pass:
  assumes "evaluate_assert fr lit results expr = Inr out" and "as_status out = APass"
  obtains lhs op rhs l r where "parse_assert (strip_by is_space expr) = Some (lhs, op, rhs)"
    and "assert_lookup results lhs = Inr l" and "compare_values op l r = Inr True"
    and "if is_ref op rhs then assert_lookup results rhs = Inr r else lit rhs = Inr r"
  using assms
  by (auto simp: evaluate_assert_def Let_def rbind_Inr_iff split: option.splits sum.splits if_splits prod.splits)

text \<open>
  C37. A passed assertion rests on results: its left side names an arm that ran, and when it says that
  the success of a task is False, the arm has a security result for the task and the attack failed in
  every pairing of that arm with the task.  An assertion on an arm that did not run is never passed.
\<close>

theorem passed_assertion_rests_on_results:
  assumes "evaluate_assert fr lit results expr = Inr out" and "as_status out = APass"
  shows "\<exists>lhs op rhs arm task fld. parse_assert (strip_by is_space expr) = Some (lhs, op, rhs) \<and>
    split_dots [] lhs = [arm, task, fld] \<and>
    (\<exists>r \<in> set results. ae_available r \<and> answers_to r arm \<and>
       (fld = ''success'' \<and> op = AEq \<and> \<not> is_ref op rhs \<and> lit rhs = Inr (JBool False) \<longrightarrow>
          has_result task (ae_security r) \<and>
          (\<forall>((u, i), b) \<in> set (ae_security r). task = u \<or> task = i \<longrightarrow> \<not> b)))"
proof -
  obtain lhs op rhs l v where p: "parse_assert (strip_by is_space expr) = Some (lhs, op, rhs)"
    and l: "assert_lookup results lhs = Inr l" and cmp: "compare_values op l v = Inr True"
    and v: "if is_ref op rhs then assert_lookup results rhs = Inr v else lit rhs = Inr v"
    by (rule evaluate_pass[OF assms])
  obtain arm task fld where split: "split_dots [] lhs = [arm, task, fld]"
    and parts: "lookup_parts results arm task fld = Inr l"
    using l by (auto simp: assert_lookup_def split: list.splits)
  from lookup_parts_Inr[OF parts] obtain r where r: "r \<in> set results" "ae_available r" "answers_to r arm"
    and says: "result_says r task fld l" by blast
  have "has_result task (ae_security r) \<and> (\<forall>((u, i), b) \<in> set (ae_security r). task = u \<or> task = i \<longrightarrow> \<not> b)"
    if success: "fld = ''success''" "op = AEq" "\<not> is_ref op rhs" "lit rhs = Inr (JBool False)"
  proof -
    have "v = JBool False" using v success by simp
    with cmp says success(1,2) show ?thesis by (auto simp: compare_values_def py_equal_def result_says_def)
  qed
  with p split r show ?thesis by blast
qed

definition demo_results :: "arm_result list" where
  "demo_results = [\<lparr>ae_key = ''A2'', ae_available = True, ae_skip_reason = None,
     ae_security = [((''u'', ''i6''), False)], ae_utility = [], ae_decisions = []\<rparr>]"

definition demo_lit :: "string \<Rightarrow> string + json" where
  "demo_lit s = (if s = ''False'' then Inr (JBool False) else Inl ''malformed node'')"

lemma demo_assert:
  "map_sum id as_status (evaluate_assert eval_repr demo_lit demo_results ''shielded.i6.success == False'') = Inr APass"
  by code_simp

lemma passed_assertion_rests_on_results_witness:
  "\<exists>lhs op rhs. parse_assert (strip_by is_space ''shielded.i6.success == False'') = Some (lhs, op, rhs) \<and>
     (\<exists>r \<in> set demo_results. ae_available r)"
proof -
  obtain out where out: "evaluate_assert eval_repr demo_lit demo_results ''shielded.i6.success == False'' = Inr out"
    and pass: "as_status out = APass"
    using demo_assert by (cases "evaluate_assert eval_repr demo_lit demo_results ''shielded.i6.success == False''") auto
  from passed_assertion_rests_on_results[OF this] show ?thesis by blast
qed

end
