(* ===== verification/EvalGrid.thy ===== *)
theory EvalGrid
  imports EvalCells
begin

text \<open>
  The full run of \<open>packages/shield-eval/src/shield_eval/run_ab.py\<close>: the loops over arms,
  injection tasks and user tasks, the budget that decides whether a provider is called, and the
  collection of the guardian rows the server wrote.

  \<open>cell\<close> scores one arm on one injection task; it may change the world (the server, the Shield
  state the arms share), which is threaded through the loops.  \<open>harness\<close> is the server in
  process: why it cannot be started, or its address and key.
\<close>

section \<open>Guardian rows of the server\<close>

definition is_sidecar :: "string \<Rightarrow> bool" where
  "is_sidecar key \<longleftrightarrow> starts_with (rev key) (rev ''.guardian_evidence'')"

text \<open>An object's body is given decoded; only the dicts of a list are rows.\<close>

fun new_sidecar_rows :: "(string \<times> json) list \<Rightarrow> string list \<Rightarrow> jobj list \<times> string list" where
  "new_sidecar_rows [] seen = ([], seen)"
| "new_sidecar_rows ((key, body) # objects) seen =
     (if \<not> is_sidecar key \<or> key \<in> set seen then new_sidecar_rows objects seen
      else
        (let rows = (case body of JArr vs \<Rightarrow> concat (map (\<lambda>v. case v of JObj d \<Rightarrow> [d] | _ \<Rightarrow> []) vs) | _ \<Rightarrow> []);
             (more_rows, seen') = new_sidecar_rows objects (key # seen) in
         (rows @ more_rows, seen')))"

record drain_error =
  de_class :: string
  de_message :: string
  de_guardian :: "string option"
  de_model :: "string option"

definition guardian_roles :: "string list" where
  "guardian_roles = [''evaluator'', ''supervisor'', ''auditor'']"

text \<open>\<open>model_of role\<close> is the model the router resolves for a role, None when it has none.\<close>

definition infer_model_id :: "(string \<Rightarrow> string option) \<Rightarrow> string \<Rightarrow> string option" where
  "infer_model_id model_of message =
     (case find (\<lambda>r. case model_of r of Some m \<Rightarrow> m \<noteq> [] \<and> has_substring m message | None \<Rightarrow> False) guardian_roles of
        None \<Rightarrow> None | Some r \<Rightarrow> model_of r)"

definition infer_guardian_name :: "(string \<Rightarrow> string option) \<Rightarrow> string option \<Rightarrow> string option" where
  "infer_guardian_name model_of model_id =
     (if or_str model_id [] = [] then None else find (\<lambda>r. model_of r = model_id) guardian_roles)"

text \<open>An exception with the names the guardians give it, if it has them, and the base exception's.\<close>

record worker_exception =
  we_class :: "string option"
  we_message :: "string option"
  we_guardian :: "string option"
  we_model :: "string option"
  we_base_class :: string
  we_base_text :: string

definition drain_error_row :: "(string \<Rightarrow> string option) \<Rightarrow> worker_exception \<Rightarrow> drain_error" where
  "drain_error_row model_of e =
     (let model = (case we_model e of Some m \<Rightarrow> if m = [] then infer_model_id model_of (we_base_text e) else Some m
                   | None \<Rightarrow> infer_model_id model_of (we_base_text e)) in
      \<lparr>de_class = (case we_class e of Some c \<Rightarrow> c | None \<Rightarrow> we_base_class e),
       de_message = take 500 (case we_message e of Some m \<Rightarrow> m | None \<Rightarrow> we_base_text e),
       de_guardian = (case we_guardian e of Some g \<Rightarrow> if g = [] then infer_guardian_name model_of model else Some g
                      | None \<Rightarrow> infer_guardian_name model_of model),
       de_model = model\<rparr>)"

text \<open>
  The turns the worker takes before the deadline: each raises or handles a number of messages and
  leaves the store's objects; a turn that raises is recorded and does not end the drain.
\<close>

fun drain_turns ::
  "(string \<Rightarrow> string option) \<Rightarrow> ((worker_exception + int) \<times> (string \<times> json) list) list \<Rightarrow> string list
     \<Rightarrow> jobj list \<times> drain_error list \<times> string list" where
  "drain_turns model_of [] seen = ([], [], seen)"
| "drain_turns model_of ((turn, objects) # turns) seen =
     (let (rows, seen1) = new_sidecar_rows objects seen in
      case turn of
        Inr n \<Rightarrow>
          if n = 0 then (rows, [], seen1)
          else (let (rs, es, s) = drain_turns model_of turns seen1 in (rows @ rs, es, s))
      | Inl e \<Rightarrow>
          (let (rs, es, s) = drain_turns model_of turns seen1 in (rows @ rs, drain_error_row model_of e # es, s)))"

section \<open>The grid\<close>

record harness =
  hn_base_url :: string
  hn_agent_key :: string

definition harness_wiring :: "harness \<Rightarrow> arm \<Rightarrow> shield_wiring option" where
  "harness_wiring h a =
     (if am_kind a = ShieldArm
      then Some (default_wiring\<lparr>sw_base_url := Some (hn_base_url h), sw_agent_key := Some (hn_agent_key h)\<rparr>)
      else None)"

text \<open>Only the first arm that a token stands for is run.\<close>

definition first_arm :: "string \<Rightarrow> arm option" where
  "first_arm key = (case resolve_arms [key] (Some ''http'') of Inr (a # _) \<Rightarrow> Some a | _ \<Rightarrow> None)"

record grid_setting =
  gx_suite :: string
  gx_backend :: string
  gx_attack :: string
  gx_label :: string
  gx_users :: "string list"
  gx_injections :: "string list"

definition cell_rows :: "(rat \<Rightarrow> string) \<Rightarrow> grid_setting \<Rightarrow> string \<Rightarrow> string \<Rightarrow> http_cell \<Rightarrow> py_exc + case_row list" where
  "cell_rows fr g key iid c =
     rmap (measured_case_row fr (gx_suite g) (gx_backend g) (gx_attack g) key
             (if hc_available c then gx_label g else ''SKIPPED'') (Some c) (hc_skip_reason c) iid) (gx_users g)"

fun injection_rows ::
  "(rat \<Rightarrow> string) \<Rightarrow> grid_setting \<Rightarrow> (string \<Rightarrow> 'w \<Rightarrow> py_exc + http_cell \<times> 'w) \<Rightarrow> string \<Rightarrow> string list \<Rightarrow> 'w
     \<Rightarrow> py_exc + case_row list \<times> 'w" where
  "injection_rows fr g cell key [] w = Inr ([], w)"
| "injection_rows fr g cell key (iid # iids) w =
     rbind (cell iid w) (\<lambda>(c, w1).
     rbind (cell_rows fr g key iid c) (\<lambda>rows.
     rbind (injection_rows fr g cell key iids w1) (\<lambda>(rs, w2). Inr (rows @ rs, w2))))"

definition unresolved_rows :: "grid_setting \<Rightarrow> string \<Rightarrow> string option \<Rightarrow> case_row list" where
  "unresolved_rows g key reason =
     concat (map (\<lambda>uid. map (\<lambda>iid. skipped_row (gx_suite g) (gx_backend g) (gx_attack g) key uid iid reason)
       (gx_injections g)) (gx_users g))"

fun grid_rows ::
  "(rat \<Rightarrow> string) \<Rightarrow> grid_setting \<Rightarrow> (arm \<Rightarrow> string \<Rightarrow> 'w \<Rightarrow> py_exc + http_cell \<times> 'w) \<Rightarrow> string list \<Rightarrow> 'w
     \<Rightarrow> py_exc + case_row list \<times> 'w" where
  "grid_rows fr g cell [] w = Inr ([], w)"
| "grid_rows fr g cell (key # keys) w =
     rbind (case first_arm key of
              None \<Rightarrow> Inr (unresolved_rows g key (Some (''ARM_NOT_RESOLVED: '' @ key)), w)
            | Some a \<Rightarrow> injection_rows fr g (cell a) key (gx_injections g) w) (\<lambda>(rows, w1).
     rbind (grid_rows fr g cell keys w1) (\<lambda>(rs, w2). Inr (rows @ rs, w2)))"

section \<open>The full run\<close>

record full_args =
  fa_suite :: string
  fa_arms :: "string option"
  fa_users :: "string list"
  fa_injections :: "string list"
  fa_backend :: string
  fa_attack :: "string option"
  fa_model :: string
  fa_profile :: string
  fa_samples :: int
  fa_prompt_chars :: int
  fa_max_output_tokens :: int
  fa_threshold :: pyfloat
  fa_execute :: bool

record suite_tasks =
  su_users :: "string list"
  su_injections :: "string list"

definition arm_tokens :: "full_args \<Rightarrow> string list" where
  "arm_tokens a = filter (\<lambda>t. t \<noteq> []) (split_commas [] (or_str (fa_arms a) ''A0,A0b,A1,A2,A3''))"

definition run_users_of :: "suite_tasks \<Rightarrow> full_args \<Rightarrow> string list" where
  "run_users_of su a = (if fa_users a = [] then su_users su else fa_users a)"
definition run_injections_of :: "suite_tasks \<Rightarrow> full_args \<Rightarrow> string list" where
  "run_injections_of su a = (if fa_injections a = [] then su_injections su else fa_injections a)"

definition attack_of :: "full_args \<Rightarrow> string" where
  "attack_of a = or_str (fa_attack a) ''important_instructions''"

definition full_budget :: "suite_tasks \<Rightarrow> full_args \<Rightarrow> budget_request" where
  "full_budget su a =
     \<lparr>br_arms = arm_tokens a, br_user_tasks = run_users_of su a, br_injection_tasks = run_injections_of su a,
      br_samples = fa_samples a, br_prompt_chars = fa_prompt_chars a, br_model = fa_model a,
      br_profile = fa_profile a, br_max_output_tokens = fa_max_output_tokens a,
      br_hard_cap = DEFAULT_HARD_CAP_USD, br_planning_threshold = fa_threshold a, br_allow_shrink = True\<rparr>"

definition setting :: "suite_tasks \<Rightarrow> full_args \<Rightarrow> string \<Rightarrow> string \<Rightarrow> grid_setting" where
  "setting su a backend label =
     \<lparr>gx_suite = fa_suite a, gx_backend = backend, gx_attack = attack_of a, gx_label = label,
      gx_users = run_users_of su a, gx_injections = run_injections_of su a\<rparr>"

text \<open>The grid over the server, or, when it cannot be started, a skipped row for every case.\<close>

definition measured_grid ::
  "(rat \<Rightarrow> string) \<Rightarrow> (harness \<Rightarrow> arm \<Rightarrow> string \<Rightarrow> 'w \<Rightarrow> py_exc + http_cell \<times> 'w) \<Rightarrow> ('w \<Rightarrow> jobj list)
     \<Rightarrow> string + harness \<Rightarrow> suite_tasks \<Rightarrow> full_args \<Rightarrow> string \<Rightarrow> string \<Rightarrow> 'w
     \<Rightarrow> py_exc + grid_report \<times> case_row list" where
  "measured_grid fr cell errors_of harness su a backend label w =
     (let users = run_users_of su a; injections = run_injections_of su a; tokens = arm_tokens a;
          report = (\<lambda>l cases skip errs.
            build_full_grid_metrics_report (fa_suite a) users injections tokens backend l cases skip errs) in
      case harness of
        Inl e \<Rightarrow>
          (let reason = Some (''REAL_GOV_UNAVAILABLE: '' @ e);
               cases = concat (map (\<lambda>key. unresolved_rows (setting su a backend ''SKIPPED'') key reason) tokens) in
           Inr (report ''SKIPPED'' cases reason [], cases))
      | Inr h \<Rightarrow>
          rbind (grid_rows fr (setting su a backend label) (cell h) tokens w) (\<lambda>(cases, w1).
            Inr (report label cases None (if backend = ''real'' then errors_of w1 else []), cases)))"

datatype full_output =
    BudgetOnly budget_plan jobj
  | RealGrid budget_plan grid_report "case_row list"
  | Grid grid_report "case_row list"

definition slice_of :: "suite_tasks \<Rightarrow> full_args \<Rightarrow> requested_plan \<Rightarrow> budget_plan \<Rightarrow> py_exc + slice_input" where
  "slice_of su a r p =
     (case (run_users_of su a, run_injections_of su a) of
        (u # _, i # _) \<Rightarrow>
          Inr \<lparr>sl_user_task = u, sl_injection_task = i, sl_attack = attack_of a, sl_provider = ''anthropic'',
               sl_profile = fa_profile a, sl_hard_cap = DEFAULT_HARD_CAP_USD,
               sl_estimated_cost = (if bp_skip p \<noteq> Some ''MISSING_ANTHROPIC_API_KEY'' then round6 (bp_cost p) else round6 (rq_cost r)),
               sl_status = ''SKIPPED'', sl_actual_cost = Fin 0,
               sl_skip_reason = Some (or_str (bp_skip p) ''ESTIMATE_ONLY_AWAITING_USER_APPROVAL''),
               sl_a0_latency = Fin 0, sl_a2_latency = Fin 0, sl_prevented_loss = Fin 0, sl_per_guardian = None\<rparr>
      | _ \<Rightarrow> Inl IndexError)"

definition dispatch_full ::
  "(rat \<Rightarrow> string) \<Rightarrow> (harness \<Rightarrow> arm \<Rightarrow> string \<Rightarrow> 'w \<Rightarrow> py_exc + http_cell \<times> 'w)
     \<Rightarrow> (harness \<Rightarrow> arm \<Rightarrow> string \<Rightarrow> 'w \<Rightarrow> py_exc + http_cell \<times> 'w) \<Rightarrow> ('w \<Rightarrow> jobj list)
     \<Rightarrow> string + harness \<Rightarrow> bool \<Rightarrow> suite_tasks \<Rightarrow> full_args \<Rightarrow> 'w \<Rightarrow> py_exc + full_output" where
  "dispatch_full fr real_cell http_cell_of errors_of harness key_present su a w =
     (if fa_backend a = ''real'' then
        rbind (requested_plan_of (full_budget su a)) (\<lambda>r.
        rbind (effective_plan (full_budget su a) r key_present) (\<lambda>p.
          if fa_execute a \<and> plan_status p \<noteq> ''SKIPPED'' then
            rbind (measured_grid fr real_cell errors_of harness su a ''real'' ''MEASURED-REAL-MODEL'' w) (\<lambda>(rep, cases).
              Inr (RealGrid p rep cases))
          else rbind (slice_of su a r p) (\<lambda>s. rbind (build_provider_slice_artifact s) (\<lambda>art. Inr (BudgetOnly p art)))))
      else if fa_backend a = ''http'' then
        rbind (measured_grid fr http_cell_of errors_of harness su a ''http'' ''MEASURED-INLINE-DECIDE'' w) (\<lambda>(rep, cases).
          Inr (Grid rep cases))
      else
        (let (rep, cases) = build_full_grid_artifacts (fa_suite a) (run_users_of su a) (run_injections_of su a)
               (arm_tokens a) ''mock'' (attack_of a) (fa_profile a) in
         Inr (Grid rep cases)))"

section \<open>The grid is complete\<close>

definition coordinates :: "case_row \<Rightarrow> string \<times> string \<times> string" where
  "coordinates r = (cr_arm r, cr_injection_task r, cr_user_task r)"

lemma measured_case_row_coordinates:
  "measured_case_row fr suite backend variant arm label result skip iid uid = Inr row \<Longrightarrow> coordinates row = (arm, iid, uid)"
  by (auto simp: measured_case_row_def skipped_row_def coordinates_def Let_def split: option.splits if_splits)

lemma cell_rows_coordinates:
  assumes "cell_rows fr g key iid c = Inr rows"
  shows "map coordinates rows = map (\<lambda>uid. (key, iid, uid)) (gx_users g)"
proof -
  from assms have "list_all2 (\<lambda>uid row. measured_case_row fr (gx_suite g) (gx_backend g) (gx_attack g) key
      (if hc_available c then gx_label g else ''SKIPPED'') (Some c) (hc_skip_reason c) iid uid = Inr row) (gx_users g) rows"
    by (simp add: cell_rows_def rmap_Inr)
  then show ?thesis by (induction rule: list_all2_induct) (auto dest: measured_case_row_coordinates)
qed

lemma injection_rows_coordinates:
  assumes "injection_rows fr g cell key iids w = Inr (rows, w')"
  shows "length rows = length iids * length (gx_users g) \<and>
    set (map coordinates rows) = {key} \<times> set iids \<times> set (gx_users g)"
  using assms
proof (induction iids arbitrary: w rows)
  case (Cons iid iids)
  then obtain c w1 rs rows1 where rows1: "cell_rows fr g key iid c = Inr rows1"
    and rs: "injection_rows fr g cell key iids w1 = Inr (rs, w')" and rows: "rows = rows1 @ rs"
    by (auto simp: rbind_Inr_iff)
  have "length rows1 = length (gx_users g)" "set (map coordinates rows1) = {key} \<times> {iid} \<times> set (gx_users g)"
    using cell_rows_coordinates[OF rows1] by (auto dest: arg_cong[of _ _ length] arg_cong[of _ _ set])
  with Cons.IH[OF rs] rows show ?case by auto
qed simp

lemma skipped_row_coordinates [simp]:
  "coordinates (skipped_row s b v key uid iid reason) = (key, iid, uid)"
  by (simp add: coordinates_def skipped_row_def)

lemma length_concat_rows: "length (concat (map (\<lambda>u. map (f u) xs) us)) = length xs * length us"
  by (induction us) simp_all

lemma unresolved_rows_coordinates:
  "length (unresolved_rows g key reason) = length (gx_injections g) * length (gx_users g) \<and>
   set (map coordinates (unresolved_rows g key reason)) = {key} \<times> set (gx_injections g) \<times> set (gx_users g)"
proof
  have *: "map coordinates (unresolved_rows g key reason) =
      concat (map (\<lambda>uid. map (\<lambda>iid. (key, iid, uid)) (gx_injections g)) (gx_users g))"
    by (simp add: unresolved_rows_def map_concat comp_def)
  then show "set (map coordinates (unresolved_rows g key reason)) = {key} \<times> set (gx_injections g) \<times> set (gx_users g)"
    unfolding * by auto
qed (simp add: unresolved_rows_def length_concat_rows)

lemma grid_rows_coordinates:
  assumes "grid_rows fr g cell keys w = Inr (rows, w')"
  shows "length rows = length keys * (length (gx_injections g) * length (gx_users g)) \<and>
    set (map coordinates rows) = set keys \<times> set (gx_injections g) \<times> set (gx_users g)"
  using assms
proof (induction keys arbitrary: w rows)
  case (Cons key keys)
  then obtain rows1 w1 rs where one: "(case first_arm key of
        None \<Rightarrow> Inr (unresolved_rows g key (Some (''ARM_NOT_RESOLVED: '' @ key)), w)
      | Some a \<Rightarrow> injection_rows fr g (cell a) key (gx_injections g) w) = Inr (rows1, w1)"
    and rs: "grid_rows fr g cell keys w1 = Inr (rs, w')" and rows: "rows = rows1 @ rs"
    by (auto simp: rbind_Inr_iff)
  have rows1: "length rows1 = length (gx_injections g) * length (gx_users g) \<and>
      set (map coordinates rows1) = {key} \<times> set (gx_injections g) \<times> set (gx_users g)"
  proof (cases "first_arm key")
    case None
    with one have "rows1 = unresolved_rows g key (Some (''ARM_NOT_RESOLVED: '' @ key))" by simp
    then show ?thesis using unresolved_rows_coordinates by metis
  next
    case (Some a)
    with one have "injection_rows fr g (cell a) key (gx_injections g) w = Inr (rows1, w1)" by simp
    then show ?thesis by (rule injection_rows_coordinates)
  qed
  have "set (map coordinates rows) = set (map coordinates rows1) \<union> set (map coordinates rs)"
    using rows by simp
  also have "\<dots> = set (key # keys) \<times> set (gx_injections g) \<times> set (gx_users g)"
    unfolding rows1[THEN conjunct2] Cons.IH[OF rs, THEN conjunct2] by auto
  finally show ?case using rows rows1 Cons.IH[OF rs] by (simp del: set_map)
qed simp

section \<open>What the real run runs\<close>

lemma effective_plan_units:
  assumes "requested_plan_of b = Inr r" and "effective_plan b r key = Inr p" and "bp_skip p = None"
  shows "key" and "bp_shrunk p \<Longrightarrow> bp_units p < requested_units b"
proof -
  obtain p0 where p: "p = (if key then p0 else p0\<lparr>bp_skip := Some ''MISSING_ANTHROPIC_API_KEY''\<rparr>)"
    and p0: "(if flt (br_planning_threshold b) (rq_cost r) then
            (if br_allow_shrink b then shrink_plan b r
             else Inr (skipped_plan ''REAL_EVAL_SKIPPED_APPROVAL_THRESHOLD'' False (rq_cost r)))
          else Inr \<lparr>bp_units = rq_units r, bp_input = rq_input r, bp_output = rq_output r,
                    bp_cost = rq_cost r, bp_shrunk = False, bp_skip = None\<rparr>) = Inr p0"
    by (rule effective_plan_key[OF assms(2)])
  show key using p assms(3) by (auto split: if_splits)
  with p have "p = p0" by simp
  then show "bp_units p < requested_units b" if "bp_shrunk p"
    using that p0 assms(3) shrink_plan_runs(3)[of b r p0] requested_plan_units[OF assms(1)]
    by (auto simp: skipped_plan_def split: if_splits)
qed

lemma requested_units_full_budget:
  "requested_units (full_budget su a) =
     at_least_one (arm_tokens a) * at_least_one (run_users_of su a) * at_least_one (run_injections_of su a) * max 1 (fa_samples a)"
  by (simp add: requested_units_def full_budget_def)

lemma dispatch_full_real:
  assumes "dispatch_full fr real_cell http_cell_of errors_of harness key su a w = Inr (RealGrid p rep cases)"
  obtains r where "fa_backend a = ''real''" and "fa_execute a" and "bp_skip p = None"
    and "requested_plan_of (full_budget su a) = Inr r" and "effective_plan (full_budget su a) r key = Inr p"
    and "measured_grid fr real_cell errors_of harness su a ''real'' ''MEASURED-REAL-MODEL'' w = Inr (rep, cases)"
  using assms unfolding dispatch_full_def
  by (auto simp: rbind_Inr_iff plan_status_def split: if_splits prod.splits)

lemma measured_grid_complete:
  assumes "measured_grid fr cell errors_of (Inr h) su a backend label w = Inr (rep, cases)"
  shows "length cases = length (arm_tokens a) * (length (run_injections_of su a) * length (run_users_of su a)) \<and>
    set (map coordinates cases) = set (arm_tokens a) \<times> set (run_injections_of su a) \<times> set (run_users_of su a)"
proof -
  from assms obtain w1 where "grid_rows fr (setting su a backend label) (cell h) (arm_tokens a) w = Inr (cases, w1)"
    by (auto simp: measured_grid_def Let_def rbind_Inr_iff)
  from grid_rows_coordinates[OF this] show ?thesis by (simp add: setting_def)
qed

text \<open>
  C39. A real run that reaches the provider was asked for, has a key and a budget that was not
  skipped, and its report has one row for every arm, injection task and user task asked for, however
  small the plan: when the budget shrank the plan to the threshold (and the three lists are not
  empty), the rows times the samples of the request, at least one, are more than the units the plan
  allows, so that with at most one sample there are more rows than the plan allows.  (The samples are
  never run: with more of them there may be fewer rows than units.)
\<close>

theorem real_run_ignores_the_shrunk_plan:
  assumes "dispatch_full fr real_cell http_cell_of errors_of (Inr h) key su a w = Inr (RealGrid p rep cases)"
  shows "fa_backend a = ''real'' \<and> fa_execute a \<and> key \<and> plan_status p \<noteq> ''SKIPPED'' \<and>
    length cases = length (arm_tokens a) * (length (run_injections_of su a) * length (run_users_of su a)) \<and>
    set (map coordinates cases) = set (arm_tokens a) \<times> set (run_injections_of su a) \<times> set (run_users_of su a) \<and>
    (bp_shrunk p \<and> arm_tokens a \<noteq> [] \<and> run_injections_of su a \<noteq> [] \<and> run_users_of su a \<noteq> [] \<longrightarrow>
       bp_units p < int (length cases) * max 1 (fa_samples a) \<and>
       (fa_samples a \<le> 1 \<longrightarrow> bp_units p < int (length cases)))"
proof -
  obtain r where run: "fa_backend a = ''real''" "fa_execute a" "bp_skip p = None"
    and r: "requested_plan_of (full_budget su a) = Inr r" and p: "effective_plan (full_budget su a) r key = Inr p"
    and grid: "measured_grid fr real_cell errors_of (Inr h) su a ''real'' ''MEASURED-REAL-MODEL'' w = Inr (rep, cases)"
    by (rule dispatch_full_real[OF assms])
  note complete = measured_grid_complete[OF grid]
  have "bp_units p < int (length cases) * max 1 (fa_samples a) \<and> (fa_samples a \<le> 1 \<longrightarrow> bp_units p < int (length cases))"
    if shrunk: "bp_shrunk p" and ne: "arm_tokens a \<noteq> []" "run_injections_of su a \<noteq> []" "run_users_of su a \<noteq> []"
  proof -
    have max_length: "at_least_one xs = int (length xs)" if "xs \<noteq> []" for xs :: "string list"
      using that by (cases xs) (simp_all add: at_least_one_def)
    have "requested_units (full_budget su a) = int (length cases) * max 1 (fa_samples a)"
      using complete unfolding requested_units_full_budget ne[THEN max_length] by (simp add: algebra_simps)
    with effective_plan_units(2)[OF r p run(3) shrunk] show ?thesis by (auto simp: max_absorb1)
  qed
  with run complete effective_plan_units(1)[OF r p run(3)] show ?thesis by (simp add: plan_status_def)
qed

definition big_run :: full_args where
  "big_run = \<lparr>fa_suite = ''banking'', fa_arms = Some ''A0'',
     fa_users = [''u0'', ''u1'', ''u2'', ''u3'', ''u4'', ''u5'', ''u6'', ''u7''], fa_injections = [''i6''],
     fa_backend = ''real'', fa_attack = None, fa_model = REAL_EVAL_MODEL, fa_profile = ''cloud'', fa_samples = 1,
     fa_prompt_chars = 3000000, fa_max_output_tokens = 0, fa_threshold = DEFAULT_PLANNING_THRESHOLD_USD,
     fa_execute = True\<rparr>"

definition big_run_output :: "py_exc + full_output" where
  "big_run_output = dispatch_full (\<lambda>_. []) (\<lambda>h a iid n. Inr (unavailable_cell (am_key a) iid ''down'', n + 1))
     (\<lambda>h a iid n. Inr (unavailable_cell (am_key a) iid ''down'', n + 1)) (\<lambda>n. [])
     (Inr \<lparr>hn_base_url = ''http://127.0.0.1'', hn_agent_key = ''k''\<rparr>) True \<lparr>su_users = [], su_injections = []\<rparr> big_run (0 :: int)"

lemma big_run_runs:
  "(case big_run_output of Inr (RealGrid p _ cases) \<Rightarrow> bp_shrunk p \<and> bp_units p = 3 \<and> length cases = 8 | _ \<Rightarrow> False)"
  by code_simp

lemma real_run_ignores_the_shrunk_plan_witness:
  "\<exists>p rep cases. big_run_output = Inr (RealGrid p rep cases) \<and> bp_units p = 3 \<and> length cases = 8 \<and>
     set (map coordinates cases) = set (arm_tokens big_run) \<times> set (fa_injections big_run) \<times> set (fa_users big_run)"
proof -
  obtain p rep cases where out: "big_run_output = Inr (RealGrid p rep cases)" "bp_units p = 3" "length cases = 8"
    using big_run_runs by (auto split: sum.splits full_output.splits)
  from real_run_ignores_the_shrunk_plan[OF out(1)[unfolded big_run_output_def]]
  have "set (map coordinates cases) = set (arm_tokens big_run) \<times> set (fa_injections big_run) \<times> set (fa_users big_run)"
    by (simp add: run_injections_of_def run_users_of_def big_run_def)
  with out show ?thesis by blast
qed

text \<open>The built-in baselines are four arms, of which the grid runs the first.\<close>

lemma only_the_first_baseline_runs:
  "map_option am_key (first_arm ''A0b'') = Some ''transformers_pi_detector'' \<and>
   (case resolve_arms [''A0b''] (Some ''http'') of Inr as \<Rightarrow> length as = length NATIVE_BASELINES | _ \<Rightarrow> False)"
  by code_simp

end
