(* ===== verification/EvalService.thy ===== *)
theory EvalService
  imports EvalDecide
begin

text \<open>
  The protocol \<open>DecideProvider\<close> of \<open>decide.py\<close> as an interface: what its users rely on is that a
  verdict answers the request it was asked for.  The transport that serves a provider to the SDK's
  client needs no more.
\<close>

lemma subseq_keeps_distinct: "subseq xs ys \<Longrightarrow> distinct ys \<Longrightarrow> distinct xs"
  by (induction rule: list_emb.induct) (auto dest: list_emb_set)

locale decision_provider =
  fixes decide :: "string \<Rightarrow> decide_request \<Rightarrow> 's \<Rightarrow> py_exc + governance_verdict \<times> 's"
  assumes bound: "decide vid req s = Inr (v, s') \<Longrightarrow>
    v_verdict_id v = vid \<and> v_correlation_id v = dr_correlation_id req \<and> v_run_id v = Some (dr_run_id req)"
begin

text \<open>Requests in the order they arrive; one that raises gets no verdict and changes nothing.\<close>

fun serve_all :: "(string \<times> decide_request) list \<Rightarrow> 's \<Rightarrow> (decide_request \<times> governance_verdict) list \<times> 's" where
  "serve_all [] s = ([], s)"
| "serve_all ((vid, req) # rs) s =
     (case decide vid req s of
        Inl _ \<Rightarrow> serve_all rs s
      | Inr (v, s') \<Rightarrow> (let (tr, t) = serve_all rs s' in ((req, v) # tr, t)))"

lemma serve_all_bound:
  "\<forall>(req, v) \<in> set (fst (serve_all rs s)). (v_verdict_id v, req) \<in> set rs \<and>
     v_correlation_id v = dr_correlation_id req \<and> v_run_id v = Some (dr_run_id req)"
proof (induction rs arbitrary: s)
  case (Cons r rs)
  obtain vid req where r: "r = (vid, req)" by (cases r)
  show ?case
  proof (cases "decide vid req s")
    case (Inl e)
    with r Cons.IH[of s] show ?thesis by auto
  next
    case (Inr x)
    obtain v s' where x: "x = (v, s')" by (cases x)
    with Inr bound have "v_verdict_id v = vid" "v_correlation_id v = dr_correlation_id req"
      "v_run_id v = Some (dr_run_id req)" by blast+
    with r x Inr Cons.IH[of s'] show ?thesis by (auto simp: Let_def split: prod.splits)
  qed
qed simp

lemma serve_all_ids: "subseq (map (v_verdict_id \<circ> snd) (fst (serve_all rs s))) (map fst rs)"
proof (induction rs arbitrary: s)
  case (Cons r rs)
  obtain vid req where r: "r = (vid, req)" by (cases r)
  show ?case
  proof (cases "decide vid req s")
    case (Inl e)
    with r Cons.IH[of s] show ?thesis by (auto simp: comp_def)
  next
    case (Inr x)
    obtain v s' where x: "x = (v, s')" by (cases x)
    with Inr bound have "v_verdict_id v = vid" by blast
    with r x Inr Cons.IH[of s'] show ?thesis by (auto simp: Let_def comp_def split: prod.split)
  qed
qed simp

text \<open>With fresh identifiers no two verdicts of a run share one.\<close>

lemma serve_all_distinct:
  "distinct (map fst rs) \<Longrightarrow> distinct (map (v_verdict_id \<circ> snd) (fst (serve_all rs s)))"
  using serve_all_ids by (rule subseq_keeps_distinct)

end

section \<open>The providers of the code\<close>

lemma mock_verdict_bound [simp]:
  "v_verdict_id (mock_verdict vid req d l t x h) = vid"
  "v_correlation_id (mock_verdict vid req d l t x h) = dr_correlation_id req"
  "v_run_id (mock_verdict vid req d l t x h) = Some (dr_run_id req)"
  by (simp_all add: mock_verdict_def)

interpretation noop: decision_provider "\<lambda>vid req (s :: unit). Inr (noop_decide vid req, s)"
  by unfold_locales (auto simp: noop_decide_def)

interpretation mock: decision_provider "mock_decide cfg fr" for cfg fr
proof
  fix vid req cum v cum'
  assume "mock_decide cfg fr vid req cum = Inr (v, cum')"
  then obtain d l t x h where "v = mock_verdict vid req d l t x h"
    unfolding mock_decide_def Let_def rbind_def by (auto split: if_splits sum.splits)
  then show "v_verdict_id v = vid \<and> v_correlation_id v = dr_correlation_id req \<and> v_run_id v = Some (dr_run_id req)"
    by simp
qed

text \<open>The run of \<open>EvalDecide\<close> is the interface's run.\<close>

lemma mock_run_serve_all: "mock_run cfg fr reqs cum = mock.serve_all cfg fr reqs cum"
  by (induction cfg fr reqs cum rule: mock_run.induct) (simp_all split: sum.split)

text \<open>
  A governance verdict that the in-process transport returns for a record is the verdict on that
  record: it carries the record's correlation and run and the fresh identifier.
\<close>

lemma transport_verdict_is_bound:
  assumes "mock_transport fr post vid path r p = Inr (VerdictReply v, p')"
    and "\<nexists>url t. p = HttpDecide url t" and "r_run_id r \<noteq> []" and "r_correlation_id r \<noteq> []"
  shows "v_verdict_id v = vid \<and> v_correlation_id v = r_correlation_id r \<and> v_run_id v = Some (r_run_id r)"
proof -
  have req: "dr_run_id (project_request r) = r_run_id r" "dr_correlation_id (project_request r) = r_correlation_id r"
    using assms(3,4) by (simp_all add: project_request_def or_str_def)
  show ?thesis
  proof (cases p)
    case NoopDecide
    with assms(1) req show ?thesis
      by (auto simp: mock_transport_def provider_decide_def noop_decide_def rbind_Inr_iff split: if_splits)
  next
    case (MockDecide cfg cum)
    with assms(1) obtain cum' where "mock_decide cfg fr vid (project_request r) cum = Inr (v, cum')"
      by (auto simp: mock_transport_def provider_decide_def rbind_Inr_iff split: if_splits)
    from mock.bound[OF this] req show ?thesis by simp
  qed (use assms(2) in blast)
qed

end
