(* ===== verification/Spec2Isabelle.thy ===== *)
theory Spec2Isabelle
  imports Elements Reads Worker AuthTokens AuthLockout AuthRoles AuthLimit GuardianDemo
    EvalReport EvalService
begin

text \<open>
Agent Shield: a verification library for the Python packages under \<open>src/packages\<close>.

The program.  An agent's tool calls go through pipeline elements of the SDK (\<open>shield_sdk\<close>), which
write a signed action record before and after each call and ask a decision service whether the
call may run.  The server (\<open>shield_server\<close>) admits records and operations, chains them per agent,
asks the governance application (\<open>shield_governance\<close>) for a verdict, signs and stores it, and
publishes both on streams.  On the synchronous path the verdict is Defender and Supervisor; a
worker reads the stream and runs Evaluator, Auditor and Supervisor as a second, asynchronous
opinion.  A scheduler commits the operations to Merkle epochs; a console reads all of it; people
and keys sign in through the account routes.  An evaluation harness (\<open>shield_eval\<close>) runs AgentDojo's
attacks against agents with and without the Shield and reports rates, losses and costs, within a
budget.

\<^bold>\<open>Theories and sources.\<close>

\<^item> Python and primitives.  \<open>Prelude\<close> (exceptions as sums, dictionaries, decimal printing),
  \<open>PyFloat\<close> (binary64 with one rounding per operation), \<open>PyText\<close> (truth values, \<open>str\<close>, \<open>repr\<close>,
  \<open>float\<close>), \<open>Rx\<close> (the regular expressions used), \<open>Base64\<close>, \<open>Jcs\<close> (canonical JSON), \<open>Vectors\<close>
  (cosine, centroid and the hash embedder), \<open>Crypto\<close> (\<open>shield_sdk/crypto.py\<close>).
\<^item> SDK.  \<open>Schema\<close> (\<open>schema.py\<close>: records, verdicts and their dumps), \<open>Canonical\<close> (\<open>canonical.py\<close>:
  hashes, signatures), \<open>Policy\<close> (\<open>policy.py\<close>), \<open>Elements\<close> (\<open>instrument/agentdojo/elements.py\<close>: the
  gate, the shielded executor and the recorder over a turn of calls).
\<^item> Governance.  \<open>Rules\<close> and \<open>Defender\<close> (\<open>defender/rules.py\<close>, \<open>scanners.py\<close>, \<open>engine.py\<close>),
  \<open>Supervisor\<close>, \<open>Evaluator\<close>, \<open>Auditor\<close>, \<open>GovGraph\<close> (\<open>graph.py\<close>, \<open>verdicts.py\<close>), \<open>Channel2\<close>
  (\<open>channel2.py\<close>).
\<^item> Language-model guardians.  \<open>ModelRouter\<close> (\<open>model_router.py\<close>, \<open>pricing.py\<close>), \<open>GuardianEvidence\<close>
  (\<open>evidence.py\<close>, \<open>token_counter.py\<close>, \<open>router_runtime.py\<close>), \<open>IncidentMemory\<close> (\<open>memory/\<close> and the
  window of \<open>evaluator_agent.py\<close>), \<open>RouterGuardians\<close> (\<open>router_guardians.py\<close>), with the facts in
  \<open>GuardianFacts\<close> and \<open>GuardianSafety\<close> and concrete guardians in \<open>GuardianDemo\<close>.
\<^item> Server.  \<open>Models\<close> (\<open>models.py\<close>, \<open>errors.py\<close>), \<open>Storage\<close> (\<open>storage/memory.py\<close>), \<open>Chain\<close> (the
  per-agent chain of operations), \<open>Ingest\<close> (\<open>ingest.py\<close>), \<open>Governance\<close> (\<open>governance.py\<close>),
  \<open>Agents\<close> (\<open>agents.py\<close>), \<open>Merkle\<close> (\<open>merkle.py\<close>, \<open>epoch_scheduler.py\<close>), \<open>AuditQuery\<close> (\<open>audit.py\<close>),
  \<open>Reads\<close> (\<open>reads.py\<close>), \<open>Server\<close> (the routes over one storage as a step relation), \<open>Gateway\<close> (the
  routes with the real governance application), \<open>Worker\<close> (\<open>async_verdict_worker.py\<close>).
\<^item> Accounts, \<open>shield_server/auth\<close>.  \<open>AuthSecrets\<close> (\<open>passwords.py\<close>, \<open>totp.py\<close>, \<open>utils.py\<close>),
  \<open>AuthStore\<close> (the account tables and their statements), \<open>AuthBase\<close> (\<open>ratelimit.py\<close>, \<open>principal.py\<close>,
  \<open>audit.py\<close> and the actions every handler is written in), \<open>AuthUsers\<close> (\<open>users.py\<close>, \<open>sessions.py\<close>,
  \<open>tokens.py\<close>, \<open>api_keys.py\<close>), \<open>AuthDep\<close> (\<open>dep.py\<close>, \<open>csrf.py\<close>, \<open>__init__.py\<close>), \<open>AuthRoutes\<close>
  (\<open>routes.py\<close>), \<open>AuthRuns\<close> (runs of the application, \<open>cli.py\<close>); the properties are in \<open>AuthSafety\<close>,
  \<open>AuthSignIn\<close>, \<open>AuthTypes\<close>, \<open>AuthTokens\<close>, \<open>AuthLockout\<close>, \<open>AuthRoles\<close> and \<open>AuthLimit\<close>, the concrete
  world of the witnesses in \<open>AuthDemo\<close>.

\<^item> Evaluation, \<open>shield_eval\<close>.  \<open>EvalDecide\<close> (\<open>decide.py\<close>, \<open>enforcement.py\<close>), \<open>EvalService\<close> (the
  protocol of the providers), \<open>EvalBudget\<close> (\<open>provider_slice.py\<close>, the costs of \<open>metrics.py\<close>),
  \<open>EvalMetrics\<close> (the grid report of \<open>metrics.py\<close>), \<open>EvalScores\<close> (its check expressions, \<open>fpr.py\<close>),
  \<open>EvalTraces\<close> (\<open>agentic_metrics.py\<close>, \<open>evidence_adapter.py\<close>), \<open>EvalMoney\<close> (\<open>money_shot.py\<close>, the mock
  report of \<open>metrics.py\<close>), \<open>EvalArms\<close> (\<open>arms.py\<close>, \<open>mock_llm.py\<close>), and of \<open>run_ab.py\<close>: \<open>EvalAsserts\<close>
  (assertions), \<open>EvalCells\<close> (cells and rows), \<open>EvalGrid\<close> (the full run), \<open>EvalRun\<close> (the program),
  \<open>EvalReport\<close> (the texts).

\<^bold>\<open>State and operations.\<close>  A class or table row is a record, an enum a datatype, a dict an
association list with distinct keys in insertion order.  An operation takes the state and returns
it with a sum: a raised exception is the left value, and the state shows what had happened before
it.  Account handlers and guardians use small state monads (\<open>act_bind\<close>, \<open>g_bind\<close>) for the same
thing.  The server's state is \<open>storage\<close> (object store, cache, tables); the governance
application's is \<open>gov_state\<close>, the worker's \<open>worker\<close>, the accounts' \<open>world\<close>, the guardians'
\<open>guard_state\<close>.  Where requests of several components interleave, a run is a list of steps in the
order they are served.

\<^bold>\<open>Interfaces.\<close>  \<open>object_store\<close>, \<open>replay_cache\<close> (\<open>Storage\<close>), \<open>chain_log\<close> (\<open>Chain\<close>), \<open>keyset\<close>
(\<open>AuditQuery\<close>, pagination), \<open>injection_scanner\<close> (\<open>Defender\<close>), \<open>channel2_transport\<close> (\<open>Channel2\<close>, the
consumer's view of a stream: in memory and over the cache), \<open>world_relation\<close>, \<open>auth_relation\<close> and
its extensions (a fact about every account route from the few statements it depends on) and
\<open>guard_relation\<close> (the same for the guardians), and \<open>decision_provider\<close> (\<open>EvalService\<close>).  Each is interpreted on the model's definitions in
the theory of the component that provides them.

\<^bold>\<open>What the lemmas show.\<close>
\<^item> Signatures and chains: finalizing a record gives one that verifies, equal signing strings mean
  equal signed fields, the latest chain hash commits to the whole history (up to bars in payload hashes), an epoch's root with
  its number of leaves commits to the operations.
\<^item> The gate: the exact condition for a block, the cumulative cap as an invariant, transfers split
  into parts are stopped, the Supervisor's overrides hold for every policy and arbiter, no tool
  runs against its verdict, a fail-closed tool does not run when the service is down.
\<^item> The server: exactly which requests are accepted, rejections leave no trace, the routes refine
  an append-only log per agent as long as ids are new, a nonce or record is not used twice, pagination is complete, the
  worker publishes each record once.
\<^item> Accounts: sign-in succeeds exactly under its conditions, wrong passwords at sign-in are bounded by
  the lockout, the rate limit counts exactly, ended sessions stay ended, tokens work once, roles change only through owners.
\<^item> Language-model guardians: whatever the models reply, hard evidence ends in BLOCK; a failed
  model publishes nothing and leaves exactly one error row; a verdict carries its evidence.
\<^item> Evaluation: the batch gate caps transfers for the tools both lists name, a budget that is not
  skipped fits its limits, a report claims no more than was scored, a row gives the oracle result of its own
  task and the verdict of its cell, a passed assertion
  rests on results, a skipped one passes the run, a real run covers the grid whatever the plan.

\<^bold>\<open>Bounds and fuel.\<close>  \<open>walk\<close> of \<open>AuditQuery\<close> is given one page more than there are rows, which is
enough because every page but the last has a row.  The loop of the interval scheduler is a partial
function, whose value is None when it does not return: with a positive \<open>max_runs\<close> it returns after
that many runs, without \<open>max_runs\<close> it never does.  The worker loop has a positive number of \<open>runs\<close>
and returns.  Square roots use 57 bits, four more than a double keeps.  A handler reads the clock once
per account request; draws of randomness are counted and indexed by the state, so that distinct
draws can be assumed distinct.  A run of a language-model agent is a finite tree, as the recursion
limit of the framework enforces.

\<^bold>\<open>Parameters.\<close>  SHA-256, Ed25519, Argon2id, Fernet, one-time codes, \<open>repr\<close> of a float, the clock,
random sources, LlamaFirewall, Invariant, LangGraph's handling of an idle thread, Chroma, the
vendors' clients and the models behind them, the AgentDojo tool runtime, tasks and benchmark,
\<open>ast.literal_eval\<close>, \<open>json.loads\<close> of a cursor
and the PDF renderer.  Of these only documented laws are assumed, by name, where a fact needs
them: \<open>ed25519_ok\<close>, injectivity of the hash on the strings hashed, \<open>argon_ok\<close>, a listing that
returns only what was stored.

\<^bold>\<open>Not modelled.\<close>  Strings are code points below 256.  The adapters to PostgreSQL, Redis and S3, the
ASGI application, process configuration and logging are I/O around the modelled services.  The
model of \<open>storage/memory.py\<close> is the statements the services issue, not the SQL text it matches.
The servers the harness starts in process, the demo scripts, the migration tool and the console
front end are glue around modelled components.  Floats are summed from the left, as Python 3.11
does; later versions compensate.
\<close>

end
